(* ===== verification/Py_Json.thy ===== *)
theory Py_Json
  imports Rmt_Prelude
begin

text \<open>
  Python values that reach \<open>json.dumps\<close>, the canonical writer of
  \<open>actions/binding.py\<close> (\<open>sort_keys=True\<close>, compact separators, \<open>ensure_ascii=False\<close>,
  \<open>allow_nan=False\<close>) and the reader \<open>json.loads\<close> on text of that form.
  The main fact is a round trip with an unread suffix; it makes the canonical text of two values
  equal exactly when the values are the same up to the order of object keys and the difference
  between tuples and lists.
  A float is carried by its \<open>repr\<close> text, since only that text is ever written.
\<close>

datatype pyval =
    PNone
  | PBool bool
  | PInt int
  | PFloat string
  | PStr string
  | PList "pyval list"
  | PTuple "pyval list"
  | PDict "(string \<times> pyval) list"
  | PObj string  \<comment> \<open>an instance \<open>json.dumps\<close> does not serialise\<close>

type_synonym params = "(string \<times> pyval) list"

section \<open>Numbers\<close>

definition digit_char :: "nat \<Rightarrow> char" where
  "digit_char n = char_of (48 + n)"

definition digit_val :: "char \<Rightarrow> nat" where
  "digit_val c = of_char c - 48"

fun show_nat :: "nat \<Rightarrow> string" where
  "show_nat n = (if n < 10 then [digit_char n] else show_nat (n div 10) @ [digit_char (n mod 10)])"

declare show_nat.simps [simp del]

definition show_int :: "int \<Rightarrow> string" where
  "show_int i = (if i < 0 then CHR ''-'' # show_nat (nat (- i)) else show_nat (nat i))"

definition read_nat :: "string \<Rightarrow> nat" where
  "read_nat s = foldl (\<lambda>a c. 10 * a + digit_val c) 0 s"

definition read_int :: "string \<Rightarrow> int" where
  "read_int s = (case s of [] \<Rightarrow> 0
     | c # r \<Rightarrow> if c = CHR ''-'' then - int (read_nat r) else int (read_nat s))"

definition is_digit :: "char \<Rightarrow> bool" where
  "is_digit c \<longleftrightarrow> (let n = (of_char c :: nat) in 48 \<le> n \<and> n \<le> 57)"

definition num_char :: "char \<Rightarrow> bool" where
  "num_char c \<longleftrightarrow> is_digit c \<or> c = CHR ''+'' \<or> c = CHR ''-'' \<or> c = CHR ''.'' \<or> c = CHR ''e'' \<or> c = CHR ''E''"

definition float_mark :: "string \<Rightarrow> bool" where
  "float_mark s \<longleftrightarrow> list_ex (\<lambda>c. c = CHR ''.'' \<or> c = CHR ''e'' \<or> c = CHR ''E'') s"

lemma is_digit_char: "n < 10 \<Longrightarrow> is_digit (digit_char n)"
  by (simp add: is_digit_def digit_char_def)

lemma digit_val_char: "n < 10 \<Longrightarrow> digit_val (digit_char n) = n"
  by (simp add: digit_char_def digit_val_def)

lemma is_digit_distinct [simp]:
  "\<not> is_digit CHR ''-''" "\<not> is_digit CHR ''.''" "\<not> is_digit CHR ''e''" "\<not> is_digit CHR ''E''"
  by (simp_all add: is_digit_def)

lemma show_nat_digits: "c \<in> set (show_nat n) \<Longrightarrow> is_digit c"
proof (induction n rule: show_nat.induct)
  case (1 n)
  then show ?case
    by (subst (asm) (2) show_nat.simps) (auto simp: is_digit_char split: if_splits)
qed

lemma show_nat_nonempty [simp]: "show_nat n \<noteq> []"
  by (subst show_nat.simps) simp

lemma read_nat_show [simp]: "read_nat (show_nat n) = n"
proof (induction n rule: show_nat.induct)
  case (1 n)
  then show ?case
    by (subst show_nat.simps) (auto simp: read_nat_def digit_val_char)
qed

lemma hd_show_nat: "is_digit (hd (show_nat n))"
  by (rule show_nat_digits[OF hd_in_set]) simp

lemma read_int_show [simp]: "read_int (show_int i) = i"
proof (cases "i < 0")
  case False
  obtain c r where cr: "show_nat (nat i) = c # r"
    by (cases "show_nat (nat i)") auto
  moreover have "c \<noteq> CHR ''-''" using hd_show_nat[of "nat i"] cr by auto
  ultimately show ?thesis
    using False read_nat_show[of "nat i"] by (simp add: read_int_def show_int_def)
qed (simp add: read_int_def show_int_def)

lemma show_int_chars: "c \<in> set (show_int i) \<Longrightarrow> is_digit c \<or> c = CHR ''-''"
  by (auto simp: show_int_def show_nat_digits split: if_splits)

lemma show_int_num: "c \<in> set (show_int i) \<Longrightarrow> num_char c"
  using show_int_chars[of c i] by (auto simp: num_char_def)

lemma show_int_no_mark: "\<not> float_mark (show_int i)"
  by (auto simp: float_mark_def list_ex_iff dest!: show_int_chars)

lemma show_int_nonempty [simp]: "show_int i \<noteq> []"
  by (simp add: show_int_def)

lemma hd_show_int: "is_digit (hd (show_int i)) \<or> hd (show_int i) = CHR ''-''"
  by (rule show_int_chars[OF hd_in_set]) simp

section \<open>Text\<close>

definition hex_char :: "nat \<Rightarrow> char" where
  "hex_char n = (if n < 10 then char_of (48 + n) else char_of (87 + n))"

definition hex_val :: "char \<Rightarrow> nat" where
  "hex_val c = (let n = of_char c in if n < 58 then n - 48 else n - 87)"

definition escape_char :: "char \<Rightarrow> string" where
  "escape_char c =
    (if c = CHR 0x22 then [CHR 0x5C, CHR 0x22]
     else if c = CHR 0x5C then [CHR 0x5C, CHR 0x5C]
     else if c = CHR 0x0A then [CHR 0x5C, CHR ''n'']
     else if c = CHR 0x0D then [CHR 0x5C, CHR ''r'']
     else if c = CHR 0x09 then [CHR 0x5C, CHR ''t'']
     else if c = CHR 0x08 then [CHR 0x5C, CHR ''b'']
     else if c = CHR 0x0C then [CHR 0x5C, CHR ''f'']
     else if (of_char c :: nat) < 32
       then [CHR 0x5C, CHR ''u'', CHR ''0'', CHR ''0'', hex_char (of_char c div 16), hex_char (of_char c mod 16)]
     else [c])"

definition quote :: "string \<Rightarrow> string" where
  "quote s = CHR 0x22 # concat (List.map escape_char s) @ [CHR 0x22]"

definition unescape :: "char \<Rightarrow> char" where
  "unescape d = (if d = CHR ''n'' then CHR 0x0A else if d = CHR ''r'' then CHR 0x0D
     else if d = CHR ''t'' then CHR 0x09 else if d = CHR ''b'' then CHR 0x08
     else if d = CHR ''f'' then CHR 0x0C else d)"

definition cons_fst :: "'a \<Rightarrow> ('a list \<times> 'b) option \<Rightarrow> ('a list \<times> 'b) option" where
  "cons_fst x m = (case m of None \<Rightarrow> None | Some (xs, r) \<Rightarrow> Some (x # xs, r))"

fun unquote :: "string \<Rightarrow> (string \<times> string) option" where
  "unquote [] = None"
| "unquote (c # r) =
    (if c = CHR 0x22 then Some ([], r)
     else if c = CHR 0x5C then
       (case r of [] \<Rightarrow> None
        | d # r1 \<Rightarrow>
            if d = CHR ''u'' then
              (case r1 of h1 # h2 # h3 # h4 # r2 \<Rightarrow>
                  cons_fst (char_of (16 * hex_val h3 + hex_val h4)) (unquote r2)
               | _ \<Rightarrow> None)
            else cons_fst (unescape d) (unquote r1))
     else cons_fst c (unquote r))"

lemma cons_fst_Some [simp]: "cons_fst x (Some (xs, r)) = Some (x # xs, r)"
  by (simp add: cons_fst_def)

lemma hex_roundtrip:
  assumes "(n::nat) < 32"
  shows "16 * hex_val (hex_char (n div 16)) + hex_val (hex_char (n mod 16)) = n"
proof -
  have v: "hex_val (hex_char k) = k" if "k < 16" for k
    using that by (simp add: hex_val_def hex_char_def)
  show ?thesis using assms v[of "n div 16"] v[of "n mod 16"] by simp
qed

lemma unquote_escape: "unquote (escape_char c @ r) = cons_fst c (unquote r)"
  by (auto simp: escape_char_def unescape_def hex_roundtrip)

lemma unquote_body: "unquote (concat (List.map escape_char s) @ CHR 0x22 # r) = Some (s, r)"
  by (induction s) (simp_all add: unquote_escape)

lemma unquote_quote: "quote s = CHR 0x22 # t \<Longrightarrow> unquote (t @ r) = Some (s, r)"
  using unquote_body by (auto simp: quote_def)

section \<open>The canonical writer\<close>

fun join :: "string list \<Rightarrow> string" where
  "join [] = []"
| "join [t] = t"
| "join (t # u # ts) = t @ CHR '','' # join (u # ts)"

definition field_text :: "string \<times> string \<Rightarrow> string" where
  "field_text kt = quote (fst kt) @ CHR '':'' # snd kt"

definition in_brackets :: "char \<Rightarrow> char \<Rightarrow> string list \<Rightarrow> string" where
  "in_brackets a b ts = a # join ts @ [b]"

definition tag_key :: "string \<Rightarrow> 'a option \<Rightarrow> (string \<times> 'a) option" where
  "tag_key k m = map_option (Pair k) m"

fun dump :: "pyval \<Rightarrow> string option" where
  "dump PNone = Some ''null''"
| "dump (PBool b) = Some (if b then ''true'' else ''false'')"
| "dump (PInt i) = Some (show_int i)"
| "dump (PFloat t) = (if t \<in> {''nan'', ''inf'', ''-inf''} then None else Some t)"
| "dump (PStr s) = Some (quote s)"
| "dump (PList vs) = map_option (in_brackets CHR ''['' CHR '']'') (those (List.map dump vs))"
| "dump (PTuple vs) = map_option (in_brackets CHR ''['' CHR '']'') (those (List.map dump vs))"
| "dump (PDict kvs) =
     map_option (\<lambda>ps. in_brackets CHR ''{'' CHR ''}'' (List.map field_text (sort_key fst ps)))
       (those (List.map (\<lambda>(k, v). tag_key k (dump v)) kvs))"
| "dump (PObj c) = None"

text \<open>What the writer forgets: key order, and tuples against lists.\<close>

fun canon :: "pyval \<Rightarrow> pyval" where
  "canon (PList vs) = PList (List.map canon vs)"
| "canon (PTuple vs) = PList (List.map canon vs)"
| "canon (PDict kvs) = PDict (sort_key fst (List.map (\<lambda>(k, v). (k, canon v)) kvs))"
| "canon v = v"

text \<open>Every float carries a text that \<open>float.__repr__\<close> can produce for a finite number.\<close>

definition float_text :: "string \<Rightarrow> bool" where
  "float_text t \<longleftrightarrow> t \<noteq> [] \<and> (is_digit (hd t) \<or> hd t = CHR ''-'') \<and> list_all num_char t \<and> float_mark t"

fun wf_json :: "pyval \<Rightarrow> bool" where
  "wf_json (PFloat t) = float_text t"
| "wf_json (PList vs) = list_all wf_json vs"
| "wf_json (PTuple vs) = list_all wf_json vs"
| "wf_json (PDict kvs) = list_all (\<lambda>(k, v). wf_json v) kvs"
| "wf_json v = True"

section \<open>The reader\<close>

definition expect :: "string \<Rightarrow> 'a \<Rightarrow> string \<Rightarrow> ('a \<times> string) option" where
  "expect w v s = (if take (length w) s = w then Some (v, drop (length w) s) else None)"

definition read_number :: "string \<Rightarrow> (pyval \<times> string) option" where
  "read_number s =
     (let t = takeWhile num_char s
      in if t = [] then None
         else Some (if float_mark t then PFloat t else PInt (read_int t), dropWhile num_char s))"

fun parse :: "nat \<Rightarrow> string \<Rightarrow> (pyval \<times> string) option"
and parse_items :: "nat \<Rightarrow> string \<Rightarrow> (pyval list \<times> string) option"
and parse_fields :: "nat \<Rightarrow> string \<Rightarrow> (params \<times> string) option" where
  "parse 0 s = None"
| "parse (Suc n) [] = None"
| "parse (Suc n) (c # r) =
    (if c = CHR ''n'' then expect ''ull'' PNone r
     else if c = CHR ''t'' then expect ''rue'' (PBool True) r
     else if c = CHR ''f'' then expect ''alse'' (PBool False) r
     else if c = CHR 0x22 then map_option (map_prod PStr id) (unquote r)
     else if c = CHR ''['' then
       (if take 1 r = '']'' then Some (PList [], drop 1 r)
        else map_option (map_prod PList id) (parse_items n r))
     else if c = CHR ''{'' then
       (if take 1 r = ''}'' then Some (PDict [], drop 1 r)
        else map_option (map_prod PDict id) (parse_fields n r))
     else read_number (c # r))"
| "parse_items 0 s = None"
| "parse_items (Suc n) s =
    (case parse n s of None \<Rightarrow> None
     | Some (v, r) \<Rightarrow>
         (case r of [] \<Rightarrow> None
          | d # r1 \<Rightarrow> if d = CHR '','' then cons_fst v (parse_items n r1)
                     else if d = CHR '']'' then Some ([v], r1) else None))"
| "parse_fields 0 s = None"
| "parse_fields (Suc n) s =
    (case s of [] \<Rightarrow> None
     | q # s1 \<Rightarrow>
        if q \<noteq> CHR 0x22 then None else
        (case unquote s1 of None \<Rightarrow> None
         | Some (k, s2) \<Rightarrow>
            (case s2 of [] \<Rightarrow> None
             | e # s3 \<Rightarrow>
                if e \<noteq> CHR '':'' then None else
                (case parse n s3 of None \<Rightarrow> None
                 | Some (v, r) \<Rightarrow>
                    (case r of [] \<Rightarrow> None
                     | d # r1 \<Rightarrow> if d = CHR '','' then cons_fst (k, v) (parse_fields n r1)
                                else if d = CHR ''}'' then Some ([(k, v)], r1) else None)))))"

text \<open>\<open>json.loads\<close>: the whole text, with fuel for its length.\<close>

definition loads :: "string \<Rightarrow> pyval option" where
  "loads s = (case parse (2 * length s + 2) s of Some (v, []) \<Rightarrow> Some v | _ \<Rightarrow> None)"

section \<open>Round trip\<close>

definition stopper :: "string \<Rightarrow> bool" where
  "stopper r \<longleftrightarrow> (case r of [] \<Rightarrow> True | c # _ \<Rightarrow> \<not> num_char c)"

lemma stopper_punct [simp]:
  "stopper (CHR '','' # r)" "stopper (CHR '']'' # r)" "stopper (CHR ''}'' # r)" "stopper []"
  by (simp_all add: stopper_def num_char_def is_digit_def)

text \<open>Text \<open>t\<close> is read as \<open>u\<close>, whatever follows it.\<close>

definition reads :: "string \<Rightarrow> pyval \<Rightarrow> bool" where
  "reads t u \<longleftrightarrow> t \<noteq> [] \<and> hd t \<noteq> CHR '']'' \<and>
     (\<forall>fuel rest. 2 * length t < fuel \<longrightarrow> stopper rest \<longrightarrow> parse fuel (t @ rest) = Some (u, rest))"

lemma reads_parse: "reads t u \<Longrightarrow> 2 * length t < fuel \<Longrightarrow> stopper rest \<Longrightarrow> parse fuel (t @ rest) = Some (u, rest)"
  by (simp add: reads_def)

lemma takeWhile_num:
  "list_all num_char t \<Longrightarrow> stopper rest \<Longrightarrow>
     takeWhile num_char (t @ rest) = t \<and> dropWhile num_char (t @ rest) = rest"
  by (induction t) (auto simp: stopper_def split: list.splits)

lemma read_number_text:
  "t \<noteq> [] \<Longrightarrow> list_all num_char t \<Longrightarrow> stopper rest \<Longrightarrow>
     read_number (t @ rest) = Some (if float_mark t then PFloat t else PInt (read_int t), rest)"
  by (simp add: read_number_def takeWhile_num Let_def)

lemma num_start_parse:
  assumes "is_digit c \<or> c = CHR ''-''"
  shows "parse (Suc n) (c # r) = read_number (c # r)"
proof -
  have "c \<noteq> CHR ''n''" "c \<noteq> CHR ''t''" "c \<noteq> CHR ''f''" "c \<noteq> CHR 0x22" "c \<noteq> CHR ''[''" "c \<noteq> CHR ''{''"
    using assms by (auto simp: is_digit_def)
  then show ?thesis by simp
qed

lemma reads_number:
  assumes "t \<noteq> []" and "is_digit (hd t) \<or> hd t = CHR ''-''" and "list_all num_char t"
    and "u = (if float_mark t then PFloat t else PInt (read_int t))"
  shows "reads t u"
proof -
  obtain c r where t: "t = c # r" using assms(1) by (cases t) auto
  have "parse fuel (t @ rest) = Some (u, rest)" if f: "2 * length t < fuel" "stopper rest" for fuel rest
  proof -
    obtain n where n: "fuel = Suc n" using f by (cases fuel) auto
    have "parse (Suc n) (c # (r @ rest)) = read_number (c # (r @ rest))"
      using assms(2) t by (intro num_start_parse) simp
    then show ?thesis
      using read_number_text[OF assms(1,3) f(2)] assms(4) t n by (simp del: parse.simps)
  qed
  moreover have "hd t \<noteq> CHR '']''" using assms(2) by (auto simp: is_digit_def)
  ultimately show ?thesis using assms(1) by (simp add: reads_def)
qed

lemma reads_quote: "reads (quote s) (PStr s)"
proof -
  have "parse fuel (quote s @ rest) = Some (PStr s, rest)" if f: "2 * length (quote s) < fuel" for fuel rest
  proof -
    obtain n where "fuel = Suc n" using f by (cases fuel) auto
    then show ?thesis by (simp add: quote_def unquote_body)
  qed
  then show ?thesis by (simp add: reads_def quote_def)
qed

lemma reads_literal:
  "reads ''null'' PNone" "reads ''true'' (PBool True)" "reads ''false'' (PBool False)"
proof -
  have 1: "parse fuel (''null'' @ rest) = Some (PNone, rest)"
    and 2: "parse fuel (''true'' @ rest) = Some (PBool True, rest)"
    and 3: "parse fuel (''false'' @ rest) = Some (PBool False, rest)" if "0 < fuel" for fuel rest
    using that by (cases fuel; simp add: expect_def)+
  show "reads ''null'' PNone" "reads ''true'' (PBool True)" "reads ''false'' (PBool False)"
    unfolding reads_def using 1 2 3 by auto
qed

lemma parse_items_join:
  "list_all2 reads ts us \<Longrightarrow> ts \<noteq> [] \<Longrightarrow> 2 * length (join ts) + 1 < fuel \<Longrightarrow>
     parse_items fuel (join ts @ CHR '']'' # rest) = Some (us, rest)"
proof (induction ts arbitrary: us fuel rule: join.induct)
  case (2 t)
  then obtain u where u: "us = [u]" "reads t u" by (auto simp: list_all2_Cons1)
  obtain n where n: "fuel = Suc n" "2 * length t < n" using 2 by (cases fuel) auto
  show ?case using reads_parse[OF u(2) n(2), of "CHR '']'' # rest"] u(1) n(1) by simp
next
  case (3 t v ts)
  then obtain u us' where u: "us = u # us'" "reads t u" "list_all2 reads (v # ts) us'"
    by (auto simp: list_all2_Cons1)
  obtain n where n: "fuel = Suc n" "2 * length t < n" "2 * length (join (v # ts)) + 1 < n"
    using 3 by (cases fuel) auto
  have "parse_items n (join (v # ts) @ CHR '']'' # rest) = Some (us', rest)"
    by (rule "3.IH"[OF u(3) _ n(3)]) simp
  then show ?case
    using reads_parse[OF u(2) n(2), of "CHR '','' # join (v # ts) @ CHR '']'' # rest"] u(1) n(1)
    by simp
qed simp

lemma parse_fields_join:
  "list_all2 (\<lambda>p q. fst p = fst q \<and> reads (snd p) (snd q)) ps qs \<Longrightarrow> ps \<noteq> [] \<Longrightarrow>
     2 * length (join (List.map field_text ps)) + 1 < fuel \<Longrightarrow>
     parse_fields fuel (join (List.map field_text ps) @ CHR ''}'' # rest) = Some (qs, rest)"
proof (induction ps arbitrary: qs fuel rule: induct_list012)
  case (2 p)
  then obtain k t u where u: "p = (k, t)" "qs = [(k, u)]" "reads t u"
    by (cases p) (auto simp: list_all2_Cons1)
  obtain n where n: "fuel = Suc n" "2 * length t < n"
    using 2 u by (cases fuel) (auto simp: field_text_def quote_def)
  show ?case using reads_parse[OF u(3) n(2), of "CHR ''}'' # rest"] u n(1)
    by (simp add: field_text_def quote_def unquote_body)
next
  case (3 p p2 ps)
  then obtain k t u qs' where u: "p = (k, t)" "qs = (k, u) # qs'" "reads t u"
    "list_all2 (\<lambda>p q. fst p = fst q \<and> reads (snd p) (snd q)) (p2 # ps) qs'"
    by (cases p) (auto simp: list_all2_Cons1)
  define tail where "tail = join (List.map field_text (p2 # ps))"
  have j: "join (List.map field_text (p # p2 # ps)) = field_text p @ CHR '','' # tail"
    by (simp add: tail_def)
  obtain n where n: "fuel = Suc n" "2 * length t < n" "2 * length tail + 1 < n"
    using "3.prems"(3) u(1) unfolding j by (cases fuel) (auto simp: field_text_def quote_def)
  have "parse_fields n (tail @ CHR ''}'' # rest) = Some (qs', rest)"
    unfolding tail_def by (rule "3.IH"(2)[OF u(4)]) (use n(3) in \<open>simp_all add: tail_def\<close>)
  then show ?case
    unfolding j
    using reads_parse[OF u(3) n(2), of "CHR '','' # tail @ CHR ''}'' # rest"] u n(1)
    by (simp add: field_text_def quote_def unquote_body)
qed simp

lemma reads_brackets:
  assumes "list_all2 reads ts us"
  shows "reads (in_brackets CHR ''['' CHR '']'' ts) (PList us)"
proof -
  have "parse fuel (in_brackets CHR ''['' CHR '']'' ts @ rest) = Some (PList us, rest)"
    if f: "2 * length (in_brackets CHR ''['' CHR '']'' ts) < fuel" for fuel rest
  proof (cases ts)
    case Nil
    with assms f show ?thesis by (cases fuel) (auto simp: in_brackets_def)
  next
    case (Cons t ts')
    obtain n where n: "fuel = Suc n" "2 * length (join ts) + 1 < n"
      using f by (cases fuel) (auto simp: in_brackets_def)
    have "reads t (hd us)" using assms Cons by (auto simp: list_all2_Cons1)
    then obtain c r where c: "t = c # r" "c \<noteq> CHR '']''" by (cases t) (auto simp: reads_def)
    obtain r2 where "join ts = c # r2" using Cons c by (cases ts') auto
    then show ?thesis
      using parse_items_join[OF assms _ n(2), of rest] Cons c(2) n(1)
      by (simp add: in_brackets_def)
  qed
  then show ?thesis by (simp add: reads_def in_brackets_def)
qed

lemma reads_braces:
  assumes "list_all2 (\<lambda>p q. fst p = fst q \<and> reads (snd p) (snd q)) ps qs"
  shows "reads (in_brackets CHR ''{'' CHR ''}'' (List.map field_text ps)) (PDict qs)"
proof -
  have "parse fuel (in_brackets CHR ''{'' CHR ''}'' (List.map field_text ps) @ rest) = Some (PDict qs, rest)"
    if f: "2 * length (in_brackets CHR ''{'' CHR ''}'' (List.map field_text ps)) < fuel" for fuel rest
  proof (cases ps)
    case Nil
    with assms f show ?thesis by (cases fuel) (auto simp: in_brackets_def)
  next
    case (Cons p ps')
    obtain n where n: "fuel = Suc n" "2 * length (join (List.map field_text ps)) + 1 < n"
      using f by (cases fuel) (auto simp: in_brackets_def)
    obtain r2 where "join (List.map field_text ps) = CHR 0x22 # r2"
      using Cons by (cases ps') (auto simp: field_text_def quote_def)
    then show ?thesis
      using parse_fields_join[OF assms _ n(2), of rest] Cons n(1)
      by (simp add: in_brackets_def)
  qed
  then show ?thesis by (simp add: reads_def in_brackets_def)
qed

lemma those_Some_list_all2:
  "those (List.map f xs) = Some ys \<longleftrightarrow> list_all2 (\<lambda>x y. f x = Some y) xs ys"
  by (induction xs arbitrary: ys) (auto simp: list_all2_Cons1 split: option.splits)

lemma tag_key_eq_Some [simp]: "tag_key k m = Some p \<longleftrightarrow> fst p = k \<and> m = Some (snd p)"
  by (cases m; cases p) (auto simp: tag_key_def)

lemma sort_key_map_commute:
  "(\<And>x. fst (f x) = fst x) \<Longrightarrow> sort_key fst (List.map f xs) = List.map f (sort_key fst xs)"
proof (induction xs)
  case (Cons x xs)
  have "insort_key fst (f x) (List.map f ys) = List.map f (insort_key fst x ys)" for ys
    using Cons.prems by (induction ys) auto
  with Cons show ?case by simp
qed simp

lemma list_all2_sort_key:
  assumes "list_all2 R xs ys" and "\<And>x y. R x y \<Longrightarrow> fst x = fst y"
  shows "list_all2 R (sort_key fst xs) (sort_key fst ys)"
  using assms(1)
proof (induction rule: list_all2_induct)
  case (Cons x xs y ys)
  have ins: "list_all2 R (insort_key fst x as) (insort_key fst y bs)" if "list_all2 R as bs" for as bs
    using that Cons.hyps(1) assms(2) by (induction rule: list_all2_induct) auto
  show ?case using ins[OF Cons.IH] by simp
qed simp

lemma reads_dump: "wf_json v \<Longrightarrow> dump v = Some t \<Longrightarrow> reads t (canon v)"
proof (induction v arbitrary: t rule: pyval.induct)
  case (PInt i)
  then show ?case
    using hd_show_int by (auto intro!: reads_number simp: list_all_iff show_int_num show_int_no_mark)
next
  case (PFloat f)
  then show ?case by (auto intro!: reads_number simp: float_text_def split: if_splits)
next
  case (PList vs)
  then obtain ts where ts: "list_all2 (\<lambda>v t. dump v = Some t) vs ts" "t = in_brackets CHR ''['' CHR '']'' ts"
    by (auto simp: those_Some_list_all2)
  have "list_all2 reads ts (List.map canon vs)"
    using ts(1) PList by (force simp: list_all2_conv_all_nth list_all_length)
  then show ?case using reads_brackets ts(2) by simp
next
  case (PTuple vs)
  then obtain ts where ts: "list_all2 (\<lambda>v t. dump v = Some t) vs ts" "t = in_brackets CHR ''['' CHR '']'' ts"
    by (auto simp: those_Some_list_all2)
  have "list_all2 reads ts (List.map canon vs)"
    using ts(1) PTuple by (force simp: list_all2_conv_all_nth list_all_length)
  then show ?case using reads_brackets ts(2) by simp
next
  case (PDict kvs)
  then obtain ps where ps: "list_all2 (\<lambda>(k, v) p. fst p = k \<and> dump v = Some (snd p)) kvs ps"
    "t = in_brackets CHR ''{'' CHR ''}'' (List.map field_text (sort_key fst ps))"
    by (auto simp: those_Some_list_all2 split_def)
  have ok: "reads (snd p) (canon v)" if "(k, v) \<in> set kvs" "dump v = Some (snd p)" for k v p
  proof -
    have "wf_json v" using PDict.prems(1) that(1) by (auto simp: list_all_iff)
    then show ?thesis using PDict.IH[of "(k, v)" v] that by (simp add: snds.intros)
  qed
  have "list_all2 (\<lambda>p q. fst p = fst q \<and> reads (snd p) (snd q)) ps (List.map (\<lambda>(k, v). (k, canon v)) kvs)"
    unfolding list_all2_conv_all_nth
  proof (intro conjI allI impI)
    show len: "length ps = length (List.map (\<lambda>(k, v). (k, canon v)) kvs)"
      using ps(1) by (simp add: list_all2_lengthD)
    fix i assume i: "i < length ps"
    obtain k v where kv: "kvs ! i = (k, v)" by (cases "kvs ! i")
    with ps(1) i have p: "fst (ps ! i) = k" "dump v = Some (snd (ps ! i))"
      by (auto simp: list_all2_conv_all_nth)
    have "(k, v) \<in> set kvs" using i len kv by (metis length_map nth_mem)
    with ok p kv i len show "fst (ps ! i) = fst (List.map (\<lambda>(k, v). (k, canon v)) kvs ! i)"
      "reads (snd (ps ! i)) (snd (List.map (\<lambda>(k, v). (k, canon v)) kvs ! i))" by auto
  qed
  then have "list_all2 (\<lambda>p q. fst p = fst q \<and> reads (snd p) (snd q)) (sort_key fst ps)
      (sort_key fst (List.map (\<lambda>(k, v). (k, canon v)) kvs))"
    by (rule list_all2_sort_key) simp
  then show ?case using reads_braces ps(2) by simp
qed (auto simp: reads_literal reads_quote)

lemma those_sort_key:
  assumes "\<And>x. x \<in> set xs \<Longrightarrow> f x = tag_key (fst x) (g x)"
  shows "those (List.map f (sort_key fst xs)) = map_option (sort_key fst) (those (List.map f xs))"
proof (cases "\<exists>x\<in>set xs. g x = None")
  case True
  then have "\<exists>x\<in>set (sort_key fst xs). f x = None" "\<exists>x\<in>set xs. f x = None"
    using assms by (auto simp: tag_key_def)
  moreover have "those (List.map f ys) = None" if "\<exists>x\<in>set ys. f x = None" for ys
    using that by (induction ys) (auto split: option.splits)
  ultimately show ?thesis by simp
next
  case False
  define h where "h x = (fst x, the (g x))" for x
  have some: "f x = Some (h x)" if "x \<in> set xs" for x
    using False assms[OF that] that by (auto simp: h_def tag_key_def)
  have all: "those (List.map f ys) = Some (List.map h ys)" if "set ys \<subseteq> set xs" for ys
    using that some by (induction ys) auto
  show ?thesis using all[of xs] all[of "sort_key fst xs"]
    by (simp add: sort_key_map_commute h_def)
qed

lemma sort_key_sorted: "sorted (List.map f xs) \<Longrightarrow> sort_key f xs = xs"
  by (induction xs) (auto simp: insort_is_Cons)

lemma sort_key_idem [simp]: "sort_key f (sort_key f xs) = sort_key f xs"
  by (rule sort_key_sorted) simp

lemma dump_canon: "dump (canon v) = dump v"
proof (induction v rule: pyval.induct)
  case (PDict kvs)
  let ?c = "\<lambda>(k, v). (k, canon v)" and ?d = "\<lambda>(k, v). tag_key k (dump v)"
  have eq: "List.map ?d (List.map ?c kvs) = List.map ?d kvs"
    using PDict by (auto simp: snds.intros)
  have "those (List.map ?d (sort_key fst (List.map ?c kvs)))
      = map_option (sort_key fst) (those (List.map ?d (List.map ?c kvs)))"
    by (rule those_sort_key[where g = "\<lambda>x. dump (snd x)"]) auto
  then show ?case
    unfolding eq by (simp add: option.map_comp o_def)
qed (auto intro!: arg_cong[where f = those] arg_cong[where f = "map_option _"])

text \<open>\<open>json.loads\<close> on canonical text gives the value back, up to what the writer forgets.\<close>

lemma loads_dump: "wf_json v \<Longrightarrow> dump v = Some t \<Longrightarrow> loads t = Some (canon v)"
  using reads_parse[OF reads_dump, of v t "2 * length t + 2" "[]"] by (simp add: loads_def)

lemma canonical_text_iff:
  "wf_json v \<Longrightarrow> wf_json w \<Longrightarrow> dump v = Some t \<Longrightarrow> dump w = Some t \<longleftrightarrow> canon v = canon w"
  by (metis dump_canon loads_dump option.inject)

end
