(* ===== verification/Durable_Store.thy ===== *)
theory Durable_Store
  imports Rmt_Prelude
begin

text \<open>
  \<open>app/core/intelligence/durable_store.py\<close>: the record store behind every evidence table.
  A store is the in-memory list that all lookups read, and what is on disk: the JSON file
  rewritten as a whole on every mutation, or a SQLite table written one row at a time.
  A row carries the key column next to the payload, because SQLite updates rows by that column.
  The key of a record is \<open>getattr(record, _key_field, None)\<close>; it is a parameter \<open>key\<close>.
  The attribute assignment \<open>record.status = ...\<close> on a record taken from the list changes
  the list and not the disk (\<open>assign_record\<close>).
  The locale \<open>keyed_store\<close> is the contract the clients of a store rely on.
\<close>

datatype backend = InMemory | JsonFile | Sqlite

record 'a store =
  backend :: backend
  mem :: "'a list"
  disk :: "(string option \<times> 'a) list"

definition empty_store :: "backend \<Rightarrow> 'a store" where
  "empty_store b = \<lparr>backend = b, mem = [], disk = []\<rparr>"

section \<open>Operations\<close>

definition row_of :: "('a \<Rightarrow> string option) \<Rightarrow> 'a \<Rightarrow> string option \<times> 'a" where
  "row_of key r = (key r, r)"

definition persist :: "('a \<Rightarrow> string option) \<Rightarrow> 'a store \<Rightarrow> 'a store" where
  "persist key s = (if backend s = JsonFile then s\<lparr>disk := List.map (row_of key) (mem s)\<rparr> else s)"

definition sql_insert :: "('a \<Rightarrow> string option) \<Rightarrow> 'a \<Rightarrow> 'a store \<Rightarrow> 'a store" where
  "sql_insert key r s = s\<lparr>disk := disk s @ [row_of key r]\<rparr>"

text \<open>\<open>UPDATE ... WHERE key = ?\<close>: no row matches a key that is NULL.\<close>

definition sql_update_by_key ::
  "('a \<Rightarrow> string option) \<Rightarrow> string option \<Rightarrow> 'a \<Rightarrow> 'a store \<Rightarrow> 'a store" where
  "sql_update_by_key key old r s =
     s\<lparr>disk := List.map (\<lambda>row. if old \<noteq> None \<and> fst row = old then row_of key r else row) (disk s)\<rparr>"

definition sql_replace_all :: "('a \<Rightarrow> string option) \<Rightarrow> 'a list \<Rightarrow> 'a store \<Rightarrow> 'a store" where
  "sql_replace_all key rs s = s\<lparr>disk := List.map (row_of key) rs\<rparr>"

definition save :: "('a \<Rightarrow> string option) \<Rightarrow> 'a \<Rightarrow> 'a store \<Rightarrow> 'a store" where
  "save key r s =
     (let s1 = s\<lparr>mem := mem s @ [r]\<rparr>
      in if backend s = Sqlite then sql_insert key r s1 else persist key s1)"

definition commit_update :: "('a \<Rightarrow> string option) \<Rightarrow> nat \<Rightarrow> 'a \<Rightarrow> 'a store \<Rightarrow> 'a store" where
  "commit_update key i r s =
     (let old = key (mem s ! i); s1 = s\<lparr>mem := (mem s)[i := r]\<rparr>
      in if backend s = Sqlite then sql_update_by_key key old r s1 else persist key s1)"

definition replace_records :: "('a \<Rightarrow> string option) \<Rightarrow> 'a list \<Rightarrow> 'a store \<Rightarrow> 'a store" where
  "replace_records key rs s =
     (let s1 = s\<lparr>mem := rs\<rparr>
      in if backend s = Sqlite then sql_replace_all key rs s1 else persist key s1)"

definition load :: "'a store \<Rightarrow> 'a list" where
  "load s = (if backend s = InMemory then [] else List.map snd (disk s))"

text \<open>A process restart: the constructor reads the disk back.\<close>

definition reopen :: "'a store \<Rightarrow> 'a store" where
  "reopen s = s\<lparr>mem := load s\<rparr>"

definition assign_record :: "nat \<Rightarrow> 'a \<Rightarrow> 'a store \<Rightarrow> 'a store" where
  "assign_record i r s = s\<lparr>mem := (mem s)[i := r]\<rparr>"

text \<open>The lookup and update methods the store's subclasses share.\<close>

definition get_by :: "('a \<Rightarrow> string) \<Rightarrow> string \<Rightarrow> 'a store \<Rightarrow> 'a option" where
  "get_by ident k s = find (\<lambda>r. ident r = k) (mem s)"

definition update_by ::
  "('a \<Rightarrow> string) \<Rightarrow> ('a \<Rightarrow> string option) \<Rightarrow> string \<Rightarrow> ('a \<Rightarrow> 'a) \<Rightarrow> 'a store \<Rightarrow> 'a store" where
  "update_by ident key k f s =
     (case first_index (\<lambda>r. ident r = k) (mem s) of
        None \<Rightarrow> s
      | Some i \<Rightarrow> commit_update key i (f (mem s ! i)) s)"

text \<open>The same search, but the record is changed in place and nothing is written.\<close>

definition assign_by :: "('a \<Rightarrow> string) \<Rightarrow> string \<Rightarrow> ('a \<Rightarrow> 'a) \<Rightarrow> 'a store \<Rightarrow> 'a store" where
  "assign_by ident k f s =
     (case first_index (\<lambda>r. ident r = k) (mem s) of
        None \<Rightarrow> s
      | Some i \<Rightarrow> assign_record i (f (mem s ! i)) s)"

lemmas store_defs = save_def commit_update_def replace_records_def persist_def sql_insert_def
  sql_update_by_key_def sql_replace_all_def assign_record_def reopen_def load_def

section \<open>What the memory holds\<close>

lemma backend_kept [simp]:
  "backend (save key r s) = backend s"
  "backend (commit_update key i r s) = backend s"
  "backend (replace_records key rs s) = backend s"
  "backend (assign_record i r s) = backend s"
  "backend (reopen s) = backend s"
  by (simp_all add: store_defs Let_def)

lemma mem_save [simp]: "mem (save key r s) = mem s @ [r]"
  by (simp add: store_defs Let_def)

lemma mem_commit_update [simp]: "mem (commit_update key i r s) = (mem s)[i := r]"
  by (simp add: store_defs Let_def)

lemma mem_replace_records [simp]: "mem (replace_records key rs s) = rs"
  by (simp add: store_defs Let_def)

lemma mem_assign_record [simp]: "mem (assign_record i r s) = (mem s)[i := r]"
  by (simp add: assign_record_def)

lemma disk_assign_record [simp]: "disk (assign_record i r s) = disk s"
  by (simp add: assign_record_def)

lemma backend_update_by [simp]: "backend (update_by ident key k f s) = backend s"
  by (simp add: update_by_def split: option.split)

lemma backend_assign_by [simp]: "backend (assign_by ident k f s) = backend s"
  by (simp add: assign_by_def split: option.split)

lemma disk_assign_by [simp]: "disk (assign_by ident k f s) = disk s"
  by (simp add: assign_by_def split: option.split)

text \<open>Both ways of changing one record have the same effect on the list.\<close>

definition modify_first :: "('a \<Rightarrow> string) \<Rightarrow> string \<Rightarrow> ('a \<Rightarrow> 'a) \<Rightarrow> 'a list \<Rightarrow> 'a list" where
  "modify_first ident k f xs =
     (case first_index (\<lambda>r. ident r = k) xs of None \<Rightarrow> xs | Some i \<Rightarrow> xs[i := f (xs ! i)])"

lemma mem_update_by: "mem (update_by ident key k f s) = modify_first ident k f (mem s)"
  by (simp add: update_by_def modify_first_def split: option.split)

lemma mem_assign_by: "mem (assign_by ident k f s) = modify_first ident k f (mem s)"
  by (simp add: assign_by_def modify_first_def split: option.split)

lemma modify_first_Nil [simp]: "modify_first ident k f [] = []"
  by (simp add: modify_first_def)

lemma modify_first_Cons [simp]:
  "modify_first ident k f (x # xs) = (if ident x = k then f x # xs else x # modify_first ident k f xs)"
  by (auto simp: modify_first_def split: option.splits)

lemma find_modify_first:
  assumes "\<And>x. ident (f x) = ident x"
  shows "find (\<lambda>r. ident r = k) (modify_first ident k' f xs) =
    (if k = k' then map_option f (find (\<lambda>r. ident r = k) xs) else find (\<lambda>r. ident r = k) xs)"
  using assms by (induction xs) auto

lemma map_modify_first: "(\<And>x. g (f x) = g x) \<Longrightarrow> List.map g (modify_first ident k f xs) = List.map g xs"
  by (induction xs) auto

lemma length_modify_first [simp]: "length (modify_first ident k f xs) = length xs"
  by (induction xs) auto

lemma set_modify_first: "set (modify_first ident k f xs) \<subseteq> set xs \<union> f ` {x \<in> set xs. ident x = k}"
  by (induction xs) auto

lemma set_modify_firstE:
  assumes "y \<in> set (modify_first ident k f xs)"
  obtains "y \<in> set xs" | x where "x \<in> set xs" "ident x = k" "y = f x"
  using assms set_modify_first[of ident k f xs] by blast

section \<open>Memory and disk agree\<close>

definition mirrored :: "('a \<Rightarrow> string option) \<Rightarrow> 'a store \<Rightarrow> bool" where
  "mirrored key s \<longleftrightarrow> backend s \<noteq> InMemory \<longrightarrow> disk s = List.map (row_of key) (mem s)"

lemma mirrored_empty [simp]: "mirrored key (empty_store b)"
  by (simp add: mirrored_def empty_store_def)

lemma mirrored_save [intro]: "mirrored key s \<Longrightarrow> mirrored key (save key r s)"
  by (cases "backend s") (auto simp: mirrored_def store_defs Let_def)

lemma mirrored_replace [intro]: "mirrored key (replace_records key rs s)"
  by (cases "backend s") (auto simp: mirrored_def store_defs Let_def)

text \<open>Whatever the memory looked like, the next JSON rewrite makes the file agree with it.\<close>

lemma json_save_heals: "backend s = JsonFile \<Longrightarrow> mirrored key (save key r s)"
  by (simp add: mirrored_def store_defs Let_def)

lemma list_update_eq_map:
  assumes "distinct (List.map g xs)" and "i < length xs"
  shows "xs[i := r] = List.map (\<lambda>x. if g x = g (xs ! i) then r else x) xs"
  using assms by (intro nth_equalityI) (auto simp: nth_list_update nth_eq_iff_index_eq distinct_conv_nth)

lemma mirrored_commit_update:
  assumes m: "mirrored key s" and d: "distinct (List.map key (mem s))"
    and i: "i < length (mem s)" and k: "key (mem s ! i) \<noteq> None"
  shows "mirrored key (commit_update key i r s)"
proof (cases "backend s = Sqlite")
  case True
  have "List.map (row_of key) ((mem s)[i := r]) =
      List.map (\<lambda>x. if key x = key (mem s ! i) then row_of key r else row_of key x) (mem s)"
    by (subst list_update_eq_map[OF d i]) auto
  with True m k show ?thesis by (auto simp: mirrored_def store_defs Let_def row_of_def)
next
  case False
  then show ?thesis by (cases "backend s") (auto simp: mirrored_def store_defs Let_def)
qed

lemma mirrored_update_by:
  assumes "mirrored key s" and "distinct (List.map key (mem s))" and "\<And>x. x \<in> set (mem s) \<Longrightarrow> key x \<noteq> None"
  shows "mirrored key (update_by ident key k f s)"
  using assms by (auto simp: update_by_def split: option.split dest!: first_index_SomeD intro!: mirrored_commit_update)

lemma reopen_mirrored: "mirrored key s \<Longrightarrow> backend s \<noteq> InMemory \<Longrightarrow> reopen s = s"
  by (simp add: mirrored_def reopen_def load_def row_of_def o_def)

lemma reopen_assign: "reopen (assign_record i r s) = reopen s"
  by (simp add: store_defs)

lemma reopen_assign_by: "reopen (assign_by ident k f s) = reopen s"
  by (auto simp: assign_by_def reopen_assign split: option.split)

lemma mem_reopen: "mem (reopen s) = load s"
  by (simp add: reopen_def)

section \<open>The contract\<close>

locale keyed_store =
  fixes ident :: "'r \<Rightarrow> string"
    and get :: "string \<Rightarrow> 's \<Rightarrow> 'r option"
    and put :: "'r \<Rightarrow> 's \<Rightarrow> 's"
    and modify :: "string \<Rightarrow> ('r \<Rightarrow> 'r) \<Rightarrow> 's \<Rightarrow> 's"
  assumes get_ident: "get k s = Some r \<Longrightarrow> ident r = k"
    and get_put: "get k (put r s) =
      (case get k s of Some x \<Rightarrow> Some x | None \<Rightarrow> if ident r = k then Some r else None)"
    and get_modify: "(\<And>x. ident (f x) = ident x) \<Longrightarrow>
      get k (modify k' f s) = (if k = k' then map_option f (get k s) else get k s)"
begin

lemma get_put_new: "get (ident r) s = None \<Longrightarrow> get (ident r) (put r s) = Some r"
  by (simp add: get_put)

lemma get_put_old: "get k s = Some x \<Longrightarrow> get k (put r s) = Some x"
  by (simp add: get_put)

lemma modify_missing:
  "get k s = None \<Longrightarrow> (\<And>x. ident (f x) = ident x) \<Longrightarrow> get k' (modify k f s) = get k' s"
  by (simp add: get_modify)

text \<open>
  A decision that is taken only while a record is open, and closes it, is taken once: a second
  attempt sees the first one's result.
\<close>

lemma decide_once:
  assumes "\<And>x. ident (f x) = ident x" and "\<And>x. \<not> open (f x)"
    and "get k s = Some r" and "open r"
  shows "\<exists>r'. get k (modify k f s) = Some r' \<and> \<not> open r' \<and> r' = f r"
  using assms by (simp add: get_modify)

lemma closed_stays_closed:
  assumes "\<And>x. ident (f x) = ident x" and "\<And>x. \<not> open x \<Longrightarrow> \<not> open (f x)"
    and "get k s = Some r" and "\<not> open r"
  shows "\<exists>r'. get k (modify k' f s) = Some r' \<and> \<not> open r'"
  using assms by (auto simp: get_modify)

end

lemma find_modify_store:
  assumes "\<And>x. ident (f x) = ident x"
  shows "get_by ident k (update_by ident key k' f s) =
    (if k = k' then map_option f (get_by ident k s) else get_by ident k s)"
  by (simp add: get_by_def mem_update_by find_modify_first[of ident f, OF assms])

lemma keyed_store_durable:
  "keyed_store ident (get_by ident) (save key) (update_by ident key)"
  by unfold_locales
    (auto simp: get_by_def find_modify_store[unfolded get_by_def] dest: find_SomeD split: option.split)

lemma get_by_save:
  "get_by ident k (save key r s) =
     (case get_by ident k s of Some x \<Rightarrow> Some x | None \<Rightarrow> if ident r = k then Some r else None)"
  by (simp add: get_by_def split: option.split)

lemma get_by_assign:
  assumes "\<And>x. ident (f x) = ident x"
  shows "get_by ident k (assign_by ident k' f s) =
    (if k = k' then map_option f (get_by ident k s) else get_by ident k s)"
  by (simp add: get_by_def mem_assign_by find_modify_first[of ident f, OF assms])

end
