(* ===== verification/Governance_Types.thy ===== *)
theory Governance_Types
  imports Py_Json Durable_Store
begin

text \<open>
  The data of the governed lifecycle under \<open>app/core/intelligence\<close>: actions, approvals,
  authorizations, execution requests, traces, audit records and verification results, and the
  state they are kept in.
  The thirteen fields that bind a decision to its assessment (governance domain, adapter,
  assessment id, evaluator ids and versions, canonicalization version, digest, evidence
  references, uncertainty, recovery semantics) are repeated in the source by
  \<open>ApprovalHold\<close>, \<open>ExecutionAuthorization\<close>, \<open>ExecutionRequest\<close>, \<open>ExecutionTrace\<close> and
  \<open>ExecutionAuditRecord\<close>; here they are one record, \<open>provenance\<close>.
  The state has a type parameter for the external world the adapters act on. The random ids of
  \<open>uuid4\<close> are a stream with a read position, and the clock is read once per operation.
\<close>

section \<open>Verification models\<close>

record expected_outcome =
  exp_target :: string
  exp_operation :: string
  exp_state :: string

record observed_state =
  obs_target :: string
  obs_state :: string
  obs_source :: string

record verification_result =
  ver_id :: ident
  ver_execution_id :: ident
  ver_status :: string
  ver_expected :: "expected_outcome option"
  ver_observed :: "observed_state option"
  ver_reason :: string
  ver_created_at :: instant

section \<open>Actions\<close>

datatype action_type =
    RestartComponent | CreateCheckpoint | ScaleDown | IsolateComponent
  | Start | Stop | Restart | Create | Remove

fun type_value :: "action_type \<Rightarrow> string" where
  "type_value RestartComponent = ''restart_component''"
| "type_value CreateCheckpoint = ''create_checkpoint''"
| "type_value ScaleDown = ''scale_down''"
| "type_value IsolateComponent = ''isolate_component''"
| "type_value Start = ''start''"
| "type_value Stop = ''stop''"
| "type_value Restart = ''restart''"
| "type_value Create = ''create''"
| "type_value Remove = ''remove''"

datatype action_status = APending | AValidating | AApproved | ARejected | ACompleted | AFailed

record action =
  act_id :: ident
  act_created_at :: instant
  act_decision_id :: ident
  act_domain :: string
  act_component :: string
  act_type :: action_type
  act_status :: action_status
  act_reason :: string
  act_confidence :: int
  act_requires_approval :: bool
  act_rollback_required :: bool
  act_parameters :: params
  act_expected :: "expected_outcome option"

section \<open>Provenance\<close>

record provenance =
  pv_domain :: string
  pv_adapter :: "string option"
  pv_assessment_id :: "ident option"
  pv_policy_id :: "string option"
  pv_policy_version :: "string option"
  pv_risk_id :: "string option"
  pv_risk_version :: "string option"
  pv_canon_version :: "string option"
  pv_digest :: "string option"
  pv_policy_refs :: "string list"
  pv_risk_refs :: "string list"
  pv_uncertainty :: string
  pv_recovery :: string

section \<open>Approvals and authorizations\<close>

datatype approval_status = Pending | Approved | Rejected

record approval_hold =
  hold_id :: ident
  hold_action_id :: ident
  hold_action :: action
  hold_adapter :: string
  hold_reason :: string
  hold_status :: approval_status
  hold_approved_by :: "string option"
  hold_expires_at :: "instant option"
  hold_risk :: "string option"
  hold_prov :: provenance
  hold_created_at :: instant

record approval_record =
  ar_id :: ident
  ar_action_id :: ident
  ar_decision :: string
  ar_approved_by :: string
  ar_reason :: string
  ar_domain :: string
  ar_assessment_id :: "ident option"
  ar_digest :: "string option"
  ar_adapter :: "string option"
  ar_policy_refs :: "string list"
  ar_risk_refs :: "string list"
  ar_created_at :: instant

record authorization =
  auth_id :: ident
  auth_action_id :: ident
  auth_status :: string
  auth_by :: "string option"
  auth_type :: string
  auth_decision_id :: "ident option"
  auth_approval_id :: "ident option"
  auth_created_at :: instant
  auth_expires_at :: "instant option"
  auth_reason :: string
  auth_target :: string
  auth_operation :: string
  auth_prov :: provenance
  auth_expected :: "expected_outcome option"

section \<open>Execution\<close>

record request =
  req_execution_id :: ident
  req_authorization_id :: ident
  req_action_id :: ident
  req_decision_id :: ident
  req_target :: string
  req_operation :: string
  req_parameters :: params
  req_risk :: "string option"
  req_expected :: "expected_outcome option"
  req_prov :: provenance
  req_created_at :: instant

record exec_result =
  res_execution_id :: ident
  res_status :: string
  res_success :: bool
  res_message :: string
  res_output :: params

record trace =
  tr_id :: ident
  tr_execution_id :: ident
  tr_action_id :: ident
  tr_authorization_id :: ident
  tr_policy_decision :: string
  tr_risk :: string
  tr_outcome :: string
  tr_reason :: string
  tr_prov :: provenance
  tr_created_at :: instant

record audit =
  au_execution_id :: ident
  au_action_id :: ident
  au_authorization_id :: ident
  au_adapter :: string
  au_status :: string
  au_message :: string
  au_risk :: string
  au_prov :: provenance
  au_created_at :: instant

section \<open>Evaluator results\<close>

record policy_result =
  pol_allowed :: bool
  pol_reason :: string
  pol_requires_approval :: bool
  pol_refs :: "string list"

record risk_result =
  rk_action_id :: ident
  rk_component :: string
  rk_type :: string
  rk_impact :: string
  rk_level :: string
  rk_rollback :: bool
  rk_uncertainty :: string
  rk_recovery :: string
  rk_refs :: "string list"

text \<open>
  What an evaluator hands back before \<open>resolve_assessment\<close> has checked its fields: anything
  but an instance of the result class, an instance with arbitrary field values, or an exception.
\<close>

record raw_policy =
  rp_allowed :: pyval
  rp_reason :: pyval
  rp_requires_approval :: pyval
  rp_refs :: pyval

record raw_risk =
  rr_action_id :: pyval
  rr_component :: pyval
  rr_type :: pyval
  rr_impact :: pyval
  rr_level :: pyval
  rr_rollback :: pyval
  rr_uncertainty :: pyval
  rr_recovery :: pyval
  rr_refs :: pyval

datatype 'r answer = Raises string | WrongType | Answer 'r

record 'w policy_evaluator =
  pe_id :: string
  pe_version :: string
  pe_evaluate :: "'w \<Rightarrow> action \<Rightarrow> raw_policy answer"

record 'w risk_evaluator =
  re_id :: string
  re_version :: string
  re_evaluate :: "'w \<Rightarrow> action \<Rightarrow> raw_risk answer"

record 'w registration =
  rg_domain :: string
  rg_policy :: "'w policy_evaluator"
  rg_risk :: "'w risk_evaluator"
  rg_operations :: "string list"
  rg_adapters :: "string list"

text \<open>An adapter: \<open>None\<close> as a result is an exception that leaves \<open>execute\<close>.\<close>

record 'w adapter =
  ad_supports :: "request \<Rightarrow> bool"
  ad_execute :: "request \<Rightarrow> 'w \<Rightarrow> exec_result option \<times> 'w"

section \<open>The state\<close>

record 'w gov =
  g_holds :: "approval_hold store"
  g_records :: "approval_record store"
  g_auths :: "authorization store"
  g_audits :: "audit store"
  g_traces :: "trace store"
  g_verifs :: "verification_result store"
  g_registry :: "string \<Rightarrow> 'w registration option"
  g_adapters :: "string \<Rightarrow> 'w adapter option"
  g_modules :: "'w \<Rightarrow> (string \<times> string option) list option"  \<comment> \<open>\<open>get_modules()\<close>: name and container; \<open>None\<close> if it raises\<close>
  g_uuid :: "nat \<Rightarrow> ident"
  g_next :: nat
  g_now :: instant
  g_sha :: "string \<Rightarrow> string"  \<comment> \<open>hex SHA-256 of UTF-8 text\<close>
  g_world :: 'w

definition fresh_id :: "'w gov \<Rightarrow> ident \<times> 'w gov" where
  "fresh_id st = (g_uuid st (g_next st), st\<lparr>g_next := Suc (g_next st)\<rparr>)"

definition hold_key :: "approval_hold \<Rightarrow> ident option" where
  "hold_key h = Some (hold_id h)"

definition record_key :: "approval_record \<Rightarrow> ident option" where
  "record_key r = Some (ar_id r)"

definition auth_key :: "authorization \<Rightarrow> ident option" where
  "auth_key a = Some (auth_id a)"

definition verification_key :: "verification_result \<Rightarrow> ident option" where
  "verification_key v = Some (ver_execution_id v)"

definition no_key :: "'a \<Rightarrow> ident option" where
  "no_key r = None"

definition get_hold :: "ident \<Rightarrow> 'w gov \<Rightarrow> approval_hold option" where
  "get_hold k st = get_by hold_id k (g_holds st)"

definition get_record :: "ident \<Rightarrow> 'w gov \<Rightarrow> approval_record option" where
  "get_record k st = get_by ar_id k (g_records st)"

definition get_auth :: "ident \<Rightarrow> 'w gov \<Rightarrow> authorization option" where
  "get_auth k st = get_by auth_id k (g_auths st)"

definition get_verification :: "ident \<Rightarrow> 'w gov \<Rightarrow> verification_result option" where
  "get_verification k st = get_by ver_execution_id k (g_verifs st)"

lemmas lookup_defs = get_hold_def get_record_def get_auth_def get_verification_def

interpretation holds: keyed_store hold_id "get_by hold_id" "save hold_key" "update_by hold_id hold_key"
  by (rule keyed_store_durable)

interpretation records: keyed_store ar_id "get_by ar_id" "save record_key" "update_by ar_id record_key"
  by (rule keyed_store_durable)

interpretation auths: keyed_store auth_id "get_by auth_id" "save auth_key" "update_by auth_id auth_key"
  by (rule keyed_store_durable)

end
