(* ===== verification/Action_Assessment.thy ===== *)
theory Action_Assessment
  imports Governance_Types
begin

text \<open>
  How an action is judged before anything is authorized: the default action policy
  (\<open>actions/policy.py\<close>), the risk simulation (\<open>actions/simulation.py\<close>), the binding of an
  instruction to a digest (\<open>actions/binding.py\<close>), the registry of evaluators and
  \<open>resolve_assessment\<close> (\<open>actions/assessment.py\<close>), and the approval policy
  (\<open>actions/approval_policy.py\<close>).
\<close>

section \<open>Action policy\<close>

definition allowed_action_types :: "string list" where
  "allowed_action_types =
     [''restart_component'', ''start'', ''stop'', ''restart'', ''create'', ''remove'']"

text \<open>\<open>criticality\<close> is what the context's key or attribute of that name gives, or \<open>None\<close>.\<close>

definition evaluate_action_policy :: "action \<Rightarrow> string option \<Rightarrow> policy_result" where
  "evaluate_action_policy a criticality =
    (if act_confidence a < 70 then
       \<lparr>pol_allowed = False, pol_reason = ''Confidence below action threshold'',
        pol_requires_approval = True, pol_refs = []\<rparr>
     else if criticality = Some ''critical'' then
       \<lparr>pol_allowed = True, pol_reason = ''Critical component requires approval'',
        pol_requires_approval = True, pol_refs = []\<rparr>
     else if type_value (act_type a) \<in> set allowed_action_types then
       \<lparr>pol_allowed = True, pol_reason = ''Action type allowed by policy'',
        pol_requires_approval = act_requires_approval a, pol_refs = []\<rparr>
     else
       \<lparr>pol_allowed = False, pol_reason = ''Action type not approved by policy'',
        pol_requires_approval = True, pol_refs = []\<rparr>)"

section \<open>Risk simulation\<close>

definition simulated :: "action \<Rightarrow> string \<Rightarrow> string \<Rightarrow> bool \<Rightarrow> risk_result" where
  "simulated a impact level rollback =
     \<lparr>rk_action_id = act_id a, rk_component = act_component a, rk_type = type_value (act_type a),
      rk_impact = impact, rk_level = level, rk_rollback = rollback,
      rk_uncertainty = ''unspecified'', rk_recovery = [], rk_refs = []\<rparr>"

definition simulate_action :: "action \<Rightarrow> risk_result" where
  "simulate_action a =
    (let t = type_value (act_type a) in
     if t = ''restart_component'' then simulated a ''Temporary component restart'' ''medium'' True
     else if t \<in> {''start'', ''stop''} then simulated a ''Temporary container operation'' ''low'' True
     else if t = ''restart'' then simulated a ''Restart container'' ''medium'' True
     else if t = ''create'' then simulated a ''Create new container'' ''medium'' True
     else if t = ''remove'' then simulated a ''Remove container'' ''high'' False
     else simulated a ''Unknown action impact'' ''unknown'' False)"

section \<open>Approval policy\<close>

datatype approval_mode = Auto | Manual | Reject

record approval_decision =
  ad_id :: ident
  ad_action_id :: ident
  ad_mode :: approval_mode
  ad_approved :: bool
  ad_reason :: string

definition decision :: "ident \<Rightarrow> action \<Rightarrow> approval_mode \<Rightarrow> bool \<Rightarrow> string \<Rightarrow> approval_decision" where
  "decision k a m ok why =
     \<lparr>ad_id = k, ad_action_id = act_id a, ad_mode = m, ad_approved = ok, ad_reason = why\<rparr>"

definition evaluate_approval ::
  "ident \<Rightarrow> action \<Rightarrow> policy_result \<Rightarrow> risk_result \<Rightarrow> approval_decision" where
  "evaluate_approval k a p r =
    (if \<not> pol_allowed p then decision k a Reject False (pol_reason p)
     else if rk_level r = ''unknown'' then decision k a Reject False ''Simulation risk is unknown''
     else if rk_level r \<in> {''high'', ''critical''} then
       decision k a Manual False ''High-risk action requires human approval''
     else if act_confidence a < 90 then
       decision k a Manual False ''Confidence below automatic approval threshold''
     else if act_requires_approval a then
       decision k a Manual False ''Action explicitly requires approval''
     else if \<not> rk_rollback r then decision k a Manual False ''Rollback is not available''
     else if rk_level r \<in> {''low'', ''medium''} then
       decision k a Auto True ''Action meets automatic approval criteria''
     else decision k a Manual False ''Action requires human approval'')"

lemmas approval_defs = evaluate_approval_def decision_def

lemma approval_id [simp]: "ad_id (evaluate_approval k a p r) = k"
  by (simp add: approval_defs)

lemma approved_iff_auto: "ad_approved (evaluate_approval k a p r) \<longleftrightarrow> ad_mode (evaluate_approval k a p r) = Auto"
  by (simp add: approval_defs)

lemma auto_iff:
  "ad_mode (evaluate_approval k a p r) = Auto \<longleftrightarrow>
     pol_allowed p \<and> rk_level r \<in> {''low'', ''medium''} \<and> 90 \<le> act_confidence a \<and>
     \<not> act_requires_approval a \<and> rk_rollback r"
  by (auto simp: approval_defs)

lemma reject_iff:
  "ad_mode (evaluate_approval k a p r) = Reject \<longleftrightarrow> \<not> pol_allowed p \<or> rk_level r = ''unknown''"
  by (simp add: approval_defs)

section \<open>Binding an instruction\<close>

datatype instruction_error = MissingDomainOrAdapter | NotCanonicalJson

definition canonicalization_version :: string where
  "canonicalization_version = ''rmt-instruction-v1''"

definition outcome_json :: "expected_outcome option \<Rightarrow> pyval" where
  "outcome_json e = (case e of None \<Rightarrow> PNone
     | Some x \<Rightarrow> PDict [(''target'', PStr (exp_target x)), (''operation'', PStr (exp_operation x)),
                      (''expected_state'', PStr (exp_state x))])"

definition instruction_payload ::
  "string \<Rightarrow> ident \<Rightarrow> ident \<Rightarrow> string \<Rightarrow> string \<Rightarrow> params \<Rightarrow> expected_outcome option \<Rightarrow> string
     \<Rightarrow> instruction_error + params" where
  "instruction_payload domain action_id decision_id target operation parameters expected adapter =
     (if domain = [] \<or> adapter = [] then Inl MissingDomainOrAdapter
      else Inr [(''canonicalization_version'', PStr canonicalization_version),
                (''governance_domain'', PStr domain),
                (''action_id'', PStr action_id),
                (''decision_id'', PStr decision_id),
                (''target'', PStr target),
                (''operation'', PStr operation),
                (''parameters'', PDict parameters),
                (''expected_outcome'', outcome_json expected),
                (''adapter_name'', PStr adapter)])"

definition canonical_json :: "pyval \<Rightarrow> instruction_error + string" where
  "canonical_json v = require_some (dump v) NotCanonicalJson"

definition digest_payload :: "(string \<Rightarrow> string) \<Rightarrow> params \<Rightarrow> instruction_error + string" where
  "digest_payload sha payload = and_then (canonical_json (PDict payload)) (\<lambda>t. Inr (sha t))"

definition bind_action ::
  "(string \<Rightarrow> string) \<Rightarrow> action \<Rightarrow> string \<Rightarrow> instruction_error + string \<times> params" where
  "bind_action sha a adapter =
     and_then (instruction_payload (act_domain a) (act_id a) (act_decision_id a) (act_component a)
                (type_value (act_type a)) (act_parameters a) (act_expected a) adapter) (\<lambda>payload.
     and_then (digest_payload sha payload) (\<lambda>d. Inr (d, payload)))"

definition bind_execution_request ::
  "(string \<Rightarrow> string) \<Rightarrow> request \<Rightarrow> string \<Rightarrow> instruction_error + string \<times> params" where
  "bind_execution_request sha r adapter =
     and_then (instruction_payload (pv_domain (req_prov r)) (req_action_id r) (req_decision_id r)
                (req_target r) (req_operation r) (req_parameters r) (req_expected r) adapter) (\<lambda>payload.
     and_then (digest_payload sha payload) (\<lambda>d. Inr (d, payload)))"

lemmas binding_defs = bind_action_def bind_execution_request_def digest_payload_def
  canonical_json_def instruction_payload_def

lemma bind_action_version:
  "bind_action sha a adapter = Inr (d, payload) \<Longrightarrow>
     map_of payload ''canonicalization_version'' = Some (PStr canonicalization_version)"
  by (auto simp: binding_defs result_simps split: if_splits)

lemma bind_action_digest:
  "bind_action sha a adapter = Inr (d, payload) \<Longrightarrow>
     \<exists>t. dump (PDict payload) = Some t \<and> d = sha t \<and> act_domain a \<noteq> [] \<and> adapter \<noteq> []"
  by (auto simp: binding_defs result_simps split: if_splits)

section \<open>The evaluator registry\<close>

definition default_domain :: string where
  "default_domain = ''rmt.default''"

datatype assess_error =
    DuplicateDomain | NoOperationsOrAdapters | NoEvaluatorIdentity
  | UnknownDomain | OperationNotRegistered | AdapterNotRegistered
  | AssessmentUnavailable string
  | MalformedPolicy | MalformedPolicyFields | MalformedPolicyEvidence
  | MalformedRisk | MalformedRiskLevel | RiskActionMismatch | MalformedRiskFields
  | MalformedRiskEvidence | DomainEvidenceRequired
  | UnhashableRiskLevel  \<comment> \<open>a \<open>TypeError\<close>, which no caller catches\<close>

definition register_domain ::
  "'w registration \<Rightarrow> 'w gov \<Rightarrow> assess_error + 'w gov" where
  "register_domain rg st =
    (if rg_domain rg = [] \<or> g_registry st (rg_domain rg) \<noteq> None then Inl DuplicateDomain
     else if rg_operations rg = [] \<or> rg_adapters rg = [] then Inl NoOperationsOrAdapters
     else if pe_id (rg_policy rg) = [] \<or> pe_version (rg_policy rg) = [] then Inl NoEvaluatorIdentity
     else if re_id (rg_risk rg) = [] \<or> re_version (rg_risk rg) = [] then Inl NoEvaluatorIdentity
     else Inr (st\<lparr>g_registry := (g_registry st)(rg_domain rg \<mapsto> rg)\<rparr>))"

definition py_policy :: "policy_result \<Rightarrow> raw_policy" where
  "py_policy p = \<lparr>rp_allowed = PBool (pol_allowed p), rp_reason = PStr (pol_reason p),
     rp_requires_approval = PBool (pol_requires_approval p),
     rp_refs = PTuple (List.map PStr (pol_refs p))\<rparr>"

definition py_risk :: "risk_result \<Rightarrow> raw_risk" where
  "py_risk r = \<lparr>rr_action_id = PStr (rk_action_id r), rr_component = PStr (rk_component r),
     rr_type = PStr (rk_type r), rr_impact = PStr (rk_impact r), rr_level = PStr (rk_level r),
     rr_rollback = PBool (rk_rollback r), rr_uncertainty = PStr (rk_uncertainty r),
     rr_recovery = PStr (rk_recovery r), rr_refs = PTuple (List.map PStr (rk_refs r))\<rparr>"

definition default_policy_evaluator :: "'w policy_evaluator" where
  "default_policy_evaluator =
     \<lparr>pe_id = ''rmt.default.action-policy'', pe_version = ''1'',
      pe_evaluate = (\<lambda>w a. Answer (py_policy (evaluate_action_policy a None)))\<rparr>"

definition default_risk_evaluator :: "'w risk_evaluator" where
  "default_risk_evaluator =
     \<lparr>re_id = ''rmt.default.action-simulation'', re_version = ''1'',
      re_evaluate = (\<lambda>w a. Answer (py_risk (simulate_action a)))\<rparr>"

definition default_registration :: "'w registration" where
  "default_registration =
     \<lparr>rg_domain = default_domain, rg_policy = default_policy_evaluator,
      rg_risk = default_risk_evaluator,
      rg_operations = [''restart_component'', ''create_checkpoint'', ''scale_down'',
        ''isolate_component'', ''start'', ''stop'', ''restart'', ''create'', ''remove''],
      rg_adapters = [''simulation'', ''docker'', ''git'', ''module_change'']\<rparr>"

section \<open>Checking what the evaluators returned\<close>

fun hashable :: "pyval \<Rightarrow> bool" where
  "hashable (PList vs) = False"
| "hashable (PDict kvs) = False"
| "hashable (PTuple vs) = list_all hashable vs"
| "hashable v = True"

text \<open>A tuple of non-empty strings, or nothing.\<close>

definition text_refs :: "pyval \<Rightarrow> string list option" where
  "text_refs v = (case v of PTuple vs \<Rightarrow>
       those (List.map (\<lambda>x. case x of PStr s \<Rightarrow> if s = [] then None else Some s | _ \<Rightarrow> None) vs)
     | _ \<Rightarrow> None)"

definition check_policy :: "raw_policy answer \<Rightarrow> assess_error + policy_result" where
  "check_policy r =
    (case r of
       Raises e \<Rightarrow> Inl (AssessmentUnavailable e)
     | WrongType \<Rightarrow> Inl MalformedPolicy
     | Answer x \<Rightarrow>
        (case (rp_allowed x, rp_requires_approval x, rp_reason x) of
           (PBool ok, PBool req, PStr why) \<Rightarrow>
             and_then (require_some (text_refs (rp_refs x)) MalformedPolicyEvidence) (\<lambda>refs.
             Inr \<lparr>pol_allowed = ok, pol_reason = why, pol_requires_approval = req, pol_refs = refs\<rparr>)
         | _ \<Rightarrow> Inl MalformedPolicyFields))"

definition risk_levels :: "string list" where
  "risk_levels = [''low'', ''medium'', ''high'', ''critical'', ''unknown'']"

definition check_risk :: "action \<Rightarrow> raw_risk answer \<Rightarrow> assess_error + risk_result" where
  "check_risk a r =
    (case r of
       Raises e \<Rightarrow> Inl (AssessmentUnavailable e)
     | WrongType \<Rightarrow> Inl MalformedRisk
     | Answer x \<Rightarrow>
        if \<not> hashable (rr_level x) then Inl UnhashableRiskLevel
        else if rr_level x \<notin> PStr ` set risk_levels then Inl MalformedRiskLevel
        else if rr_action_id x \<noteq> PStr (act_id a) then Inl RiskActionMismatch
        else (case (rr_component x, rr_type x, rr_impact x, rr_level x, rr_rollback x,
                    rr_uncertainty x, rr_recovery x) of
           (PStr c, PStr t, PStr imp, PStr lev, PBool rb, PStr unc, PStr rec) \<Rightarrow>
             if c \<noteq> act_component a \<or> t \<noteq> type_value (act_type a) then Inl MalformedRiskFields
             else and_then (require_some (text_refs (rr_refs x)) MalformedRiskEvidence) (\<lambda>refs.
               Inr \<lparr>rk_action_id = act_id a, rk_component = c, rk_type = t, rk_impact = imp,
                    rk_level = lev, rk_rollback = rb, rk_uncertainty = unc, rk_recovery = rec,
                    rk_refs = refs\<rparr>)
         | _ \<Rightarrow> Inl MalformedRiskFields))"

text \<open>An exception of either evaluator is reported before the results are looked at.\<close>

definition raised :: "'r answer \<Rightarrow> string option" where
  "raised r = (case r of Raises e \<Rightarrow> Some e | _ \<Rightarrow> None)"

section \<open>\<open>resolve_assessment\<close>\<close>

record assessment =
  asm_policy :: policy_result
  asm_risk :: risk_result
  asm_prov :: provenance
  asm_at :: instant

definition run_evaluators ::
  "'w gov \<Rightarrow> 'w registration \<Rightarrow> action \<Rightarrow> string \<Rightarrow>
     assess_error + (string \<times> raw_policy answer \<times> raw_risk answer)" where
  "run_evaluators st rg a adapter =
    (case bind_action (g_sha st) a adapter of
       Inl e \<Rightarrow> Inl (AssessmentUnavailable ''Invalid instruction'')
     | Inr (digest, payload) \<Rightarrow>
        (let p = pe_evaluate (rg_policy rg) (g_world st) a in
         case raised p of Some e \<Rightarrow> Inl (AssessmentUnavailable e)
         | None \<Rightarrow>
          (let r = re_evaluate (rg_risk rg) (g_world st) a in
           case raised r of Some e \<Rightarrow> Inl (AssessmentUnavailable e)
           | None \<Rightarrow> Inr (digest, p, r))))"

definition resolve_assessment ::
  "'w gov \<Rightarrow> action \<Rightarrow> string \<Rightarrow> assess_error + (assessment \<times> 'w gov)" where
  "resolve_assessment st a adapter =
     and_then (require_some (g_registry st (act_domain a)) UnknownDomain) (\<lambda>rg.
     and_then (ensure (type_value (act_type a) \<in> set (rg_operations rg)) OperationNotRegistered) (\<lambda>_.
     and_then (ensure (adapter \<in> set (rg_adapters rg)) AdapterNotRegistered) (\<lambda>_.
     and_then (run_evaluators st rg a adapter) (\<lambda>(digest, p, r).
     and_then (check_policy p) (\<lambda>pol.
     and_then (check_risk a r) (\<lambda>rk.
     and_then (ensure (act_domain a = default_domain \<or>
                 (pol_refs pol \<noteq> [] \<and> rk_refs rk \<noteq> [] \<and> rk_uncertainty rk \<noteq> [] \<and> rk_recovery rk \<noteq> []))
               DomainEvidenceRequired) (\<lambda>_.
     let (k, st1) = fresh_id st in
     Inr (\<lparr>asm_policy = pol, asm_risk = rk,
           asm_prov = \<lparr>pv_domain = act_domain a, pv_adapter = Some adapter,
             pv_assessment_id = Some k,
             pv_policy_id = Some (pe_id (rg_policy rg)), pv_policy_version = Some (pe_version (rg_policy rg)),
             pv_risk_id = Some (re_id (rg_risk rg)), pv_risk_version = Some (re_version (rg_risk rg)),
             pv_canon_version = Some canonicalization_version, pv_digest = Some digest,
             pv_policy_refs = pol_refs pol, pv_risk_refs = rk_refs rk,
             pv_uncertainty = rk_uncertainty rk, pv_recovery = rk_recovery rk\<rparr>,
           asm_at = g_now st\<rparr>, st1))))))))"

end
