(* ===== verification/Execution_Engine.thy ===== *)
theory Execution_Engine
  imports Action_Assessment
begin

text \<open>
  The execution boundary: \<open>execution/policy.py\<close>, \<open>execution/risk.py\<close>,
  \<open>execution/engine.py\<close> with its nine authorization gates and the trace each refusal leaves,
  the adapter registry, the simulation adapter, and post-execution
  verification (\<open>verification/verifier.py\<close>, \<open>verification/service.py\<close>).
\<close>

section \<open>Execution policy and risk\<close>

datatype policy_gate = Allow | Deny | RequiresApproval

fun gate_value :: "policy_gate \<Rightarrow> string" where
  "gate_value Allow = ''allow''"
| "gate_value Deny = ''deny''"
| "gate_value RequiresApproval = ''requires_approval''"

definition execution_policy :: "request \<Rightarrow> policy_gate" where
  "execution_policy r = (if lower (req_operation r) \<in> {''format'', ''wipe''} then Deny else Allow)"

definition execution_risk :: "request \<Rightarrow> string" where
  "execution_risk r =
    (let op = lower (req_operation r) in
     if op \<in> {''delete'', ''destroy'', ''remove'', ''wipe'', ''format''} then ''high''
     else if op \<in> {''restart'', ''create'', ''rebuild'', ''update''} then ''medium''
     else ''low'')"

section \<open>Adapters\<close>

definition register_adapter :: "string \<Rightarrow> 'w adapter \<Rightarrow> 'w gov \<Rightarrow> 'w gov" where
  "register_adapter name ad st = st\<lparr>g_adapters := (g_adapters st)(name \<mapsto> ad)\<rparr>"

definition simulation_adapter :: "'w adapter" where
  "simulation_adapter = \<lparr>ad_supports = (\<lambda>r. True),
     ad_execute = (\<lambda>r w. (Some \<lparr>res_execution_id = req_execution_id r, res_status = ''completed'',
        res_success = True, res_message = ''Execution simulated successfully'',
        res_output = [(''simulation'', PBool True), (''operation'', PStr (req_operation r)),
                      (''target'', PStr (req_target r))]\<rparr>, w))\<rparr>"

section \<open>The engine\<close>

text \<open>Text between single quotes, as the messages have it.\<close>

definition quoted :: "string \<Rightarrow> string" where
  "quoted s = [CHR 0x27] @ s @ [CHR 0x27]"

definition failed :: "request \<Rightarrow> string \<Rightarrow> exec_result" where
  "failed r why = \<lparr>res_execution_id = req_execution_id r, res_status = ''failed'',
     res_success = False, res_message = why, res_output = []\<rparr>"

definition save_trace ::
  "ident \<Rightarrow> request \<Rightarrow> string \<Rightarrow> string \<Rightarrow> string \<Rightarrow> string \<Rightarrow> 'w gov \<Rightarrow> 'w gov" where
  "save_trace execution_id r policy risk outcome why st =
    (let (k, st1) = fresh_id st in
     st1\<lparr>g_traces := save no_key
       \<lparr>tr_id = k, tr_execution_id = execution_id, tr_action_id = req_action_id r,
        tr_authorization_id = req_authorization_id r, tr_policy_decision = policy, tr_risk = risk,
        tr_outcome = outcome, tr_reason = why, tr_prov = req_prov r, tr_created_at = g_now st\<rparr>
       (g_traces st1)\<rparr>)"

definition save_audit :: "exec_result \<Rightarrow> request \<Rightarrow> string \<Rightarrow> string \<Rightarrow> 'w gov \<Rightarrow> 'w gov" where
  "save_audit res r adapter risk st =
     st\<lparr>g_audits := save no_key
       \<lparr>au_execution_id = res_execution_id res, au_action_id = req_action_id r,
        au_authorization_id = req_authorization_id r, au_adapter = adapter,
        au_status = res_status res, au_message = res_message res, au_risk = risk,
        au_prov = (req_prov r)\<lparr>pv_adapter := Some adapter\<rparr>, au_created_at = g_now st\<rparr>
       (g_audits st)\<rparr>"

definition block :: "request \<Rightarrow> string \<Rightarrow> 'w gov \<Rightarrow> exec_result option \<times> 'w gov" where
  "block r why st =
     (Some (failed r why), save_trace (req_execution_id r) r ''not_evaluated'' ''not_evaluated'' ''blocked'' why st)"

definition expired :: "instant option \<Rightarrow> instant \<Rightarrow> bool" where
  "expired e now = (case e of None \<Rightarrow> False | Some t \<Rightarrow> t < now)"

text \<open>The sixteen comparisons of the binding gate; any of them blocks.\<close>

definition binding_mismatch :: "authorization \<Rightarrow> request \<Rightarrow> string \<Rightarrow> bool" where
  "binding_mismatch a r adapter \<longleftrightarrow>
    (let p = auth_prov a; q = req_prov r in
     \<not> truthy_str (pv_digest p) \<or> \<not> truthy_str (pv_digest q)
     \<or> pv_digest p \<noteq> pv_digest q
     \<or> pv_adapter p \<noteq> Some adapter \<or> pv_adapter q \<noteq> Some adapter
     \<or> pv_domain p \<noteq> pv_domain q
     \<or> pv_assessment_id p \<noteq> pv_assessment_id q
     \<or> pv_policy_id p \<noteq> pv_policy_id q
     \<or> pv_policy_version p \<noteq> pv_policy_version q
     \<or> pv_risk_id p \<noteq> pv_risk_id q
     \<or> pv_risk_version p \<noteq> pv_risk_version q
     \<or> pv_canon_version p \<noteq> pv_canon_version q
     \<or> pv_policy_refs p \<noteq> pv_policy_refs q
     \<or> pv_risk_refs p \<noteq> pv_risk_refs q
     \<or> pv_uncertainty p \<noteq> pv_uncertainty q
     \<or> pv_recovery p \<noteq> pv_recovery q)"

text \<open>The digest is recomputed from the request itself.\<close>

definition instruction_mismatch :: "(string \<Rightarrow> string) \<Rightarrow> request \<Rightarrow> string \<Rightarrow> bool" where
  "instruction_mismatch sha r adapter \<longleftrightarrow>
    (let (actual, version) =
       (case bind_execution_request sha r adapter of
          Inl e \<Rightarrow> ([], None)
        | Inr (d, payload) \<Rightarrow> (d, map_of payload ''canonicalization_version''))
     in Some actual \<noteq> pv_digest (req_prov r)
        \<or> map_option PStr (pv_canon_version (req_prov r)) \<noteq> version)"

text \<open>The gates in the source's order: the message of the first that refuses.\<close>

definition gate :: "'w gov \<Rightarrow> request \<Rightarrow> string \<Rightarrow> string option" where
  "gate st r adapter =
    (case get_auth (req_authorization_id r) st of
       None \<Rightarrow> Some ''Authorization not found''
     | Some a \<Rightarrow>
        if auth_status a \<noteq> ''approved'' then Some ''Authorization not approved''
        else if expired (auth_expires_at a) (g_now st) then Some ''Authorization expired''
        else if auth_action_id a \<noteq> req_action_id r then Some ''Authorization action_id mismatch''
        else if auth_target a \<noteq> req_target r then Some ''Authorization target mismatch''
        else if auth_operation a \<noteq> req_operation r then Some ''Authorization operation mismatch''
        else if req_expected r \<noteq> auth_expected a then Some ''Authorization expected_outcome mismatch''
        else if binding_mismatch a r adapter then
          Some ''Authorization instruction or adapter binding mismatch''
        else if instruction_mismatch (g_sha st) r adapter then
          Some ''Execution instruction binding mismatch''
        else None)"

definition run_adapter ::
  "'w adapter \<Rightarrow> request \<Rightarrow> string \<Rightarrow> string \<Rightarrow> string \<Rightarrow> 'w gov \<Rightarrow> exec_result option \<times> 'w gov" where
  "run_adapter ad r adapter policy risk st =
    (case ad_execute ad r (g_world st) of
       (None, w) \<Rightarrow> (None, st\<lparr>g_world := w\<rparr>)
     | (Some res, w) \<Rightarrow>
        (let st1 = save_audit res r adapter risk (st\<lparr>g_world := w\<rparr>);
             st2 = save_trace (res_execution_id res) r policy risk (res_status res) (res_message res) st1
         in (Some res, st2)))"

definition engine_execute :: "request \<Rightarrow> string \<Rightarrow> 'w gov \<Rightarrow> exec_result option \<times> 'w gov" where
  "engine_execute r adapter st =
    (case gate st r adapter of
       Some why \<Rightarrow> block r why st
     | None \<Rightarrow>
        (let risk = (case req_risk r of Some v \<Rightarrow> v | None \<Rightarrow> execution_risk r);
             policy = execution_policy r in
         if policy \<noteq> Allow then
           (let why = ''Execution blocked by policy: '' @ gate_value policy in
            (Some (failed r why),
             save_trace (req_execution_id r) r (gate_value policy) risk ''blocked'' why st))
         else
          (case g_adapters st adapter of
             None \<Rightarrow> (Some (failed r (''Adapter '' @ quoted adapter @ '' not found'')), st)
           | Some ad \<Rightarrow>
              if \<not> ad_supports ad r then (Some (failed r ''Adapter does not support request''), st)
              else run_adapter ad r adapter (gate_value policy) risk st)))"

section \<open>Verification\<close>

definition verified_success :: string where "verified_success = ''verified_success''"
definition state_mismatch :: string where "state_mismatch = ''state_mismatch''"
definition observation_unavailable :: string where "observation_unavailable = ''observation_unavailable''"
definition verification_failure :: string where "verification_failure = ''verification_failure''"

lemmas status_defs = verified_success_def state_mismatch_def observation_unavailable_def
  verification_failure_def

definition verifier ::
  "ident \<Rightarrow> expected_outcome option \<Rightarrow> observed_state option \<Rightarrow> ident \<Rightarrow> instant \<Rightarrow> verification_result" where
  "verifier execution_id expected observed k now =
    (case expected of
       None \<Rightarrow> \<lparr>ver_id = k, ver_execution_id = execution_id, ver_status = verification_failure,
         ver_expected = None, ver_observed = observed, ver_reason = ''No expected outcome supplied'',
         ver_created_at = now\<rparr>
     | Some e \<Rightarrow>
        (case observed of
           None \<Rightarrow> \<lparr>ver_id = k, ver_execution_id = execution_id, ver_status = observation_unavailable,
             ver_expected = expected, ver_observed = None, ver_reason = ''Observation unavailable'',
             ver_created_at = now\<rparr>
         | Some obs \<Rightarrow>
            if obs_state obs = exp_state e then
              \<lparr>ver_id = k, ver_execution_id = execution_id, ver_status = verified_success,
               ver_expected = expected, ver_observed = observed,
               ver_reason = ''Observed state matches expected outcome'', ver_created_at = now\<rparr>
            else
              \<lparr>ver_id = k, ver_execution_id = execution_id, ver_status = state_mismatch,
               ver_expected = expected, ver_observed = observed,
               ver_reason = ''Expected state '' @ quoted (exp_state e) @ '' but observed '' @ quoted (obs_state obs),
               ver_created_at = now\<rparr>))"

fun py_truthy :: "pyval \<Rightarrow> bool" where
  "py_truthy PNone = False"
| "py_truthy (PBool b) = b"
| "py_truthy (PInt i) = (i \<noteq> 0)"
| "py_truthy (PFloat t) = (t \<notin> {''0.0'', ''-0.0''})"
| "py_truthy (PStr s) = (s \<noteq> [])"
| "py_truthy (PList vs) = (vs \<noteq> [])"
| "py_truthy (PTuple vs) = (vs \<noteq> [])"
| "py_truthy (PDict kvs) = (kvs \<noteq> [])"
| "py_truthy (PObj c) = True"

text \<open>
  The observer is taken from the request, never from the caller: the module registry, for a
  creation that names a module. A module name that is not text makes the observer raise, and
  \<open>verify_execution\<close> turns that into no observation.
\<close>

definition module_observation :: "string \<Rightarrow> 'w gov \<Rightarrow> observed_state option" where
  "module_observation target st =
    map_option (\<lambda>ms. \<lparr>obs_target = target,
        obs_state = (if \<exists>m\<in>set ms. fst m = target \<or> snd m = Some target then ''registered'' else ''not_registered''),
        obs_source = ''module_registry''\<rparr>)
      (g_modules st (g_world st))"

definition trusted_observation :: "request \<Rightarrow> 'w gov \<Rightarrow> observed_state option" where
  "trusted_observation r st =
    (if lower (req_operation r) = ''create'' then
       (case map_of (req_parameters r) ''module_name'' of
          Some (PStr m) \<Rightarrow> if m = [] then None else module_observation m st
        | _ \<Rightarrow> None)
     else None)"

definition verify_execution ::
  "ident \<Rightarrow> expected_outcome option \<Rightarrow> request \<Rightarrow> 'w gov \<Rightarrow> verification_result \<times> 'w gov" where
  "verify_execution execution_id expected r st =
    (let observed = trusted_observation r st;
         (k, st1) = fresh_id st;
         v = verifier execution_id expected observed k (g_now st)
     in (v, st1\<lparr>g_verifs := save verification_key v (g_verifs st1)\<rparr>))"

section \<open>What a call leaves alone\<close>

text \<open>The stores an execution never writes, and the configuration.\<close>

definition same_base :: "'w gov \<Rightarrow> 'w gov \<Rightarrow> bool" where
  "same_base st st' \<longleftrightarrow>
     g_holds st' = g_holds st \<and> g_records st' = g_records st \<and> g_auths st' = g_auths st \<and>
     g_registry st' = g_registry st \<and> g_adapters st' = g_adapters st \<and>
     g_modules st' = g_modules st \<and> g_uuid st' = g_uuid st \<and> g_now st' = g_now st \<and>
     g_sha st' = g_sha st \<and> g_next st \<le> g_next st'"

lemma same_base_refl [simp, intro]: "same_base st st"
  by (simp add: same_base_def)

lemma same_base_trans [trans]: "same_base a b \<Longrightarrow> same_base b c \<Longrightarrow> same_base a c"
  by (auto simp: same_base_def)

lemma same_base_save_trace [simp]: "same_base st (save_trace e r p k oc why st)"
  by (simp add: same_base_def save_trace_def fresh_id_def Let_def)

lemma same_base_save_audit [simp]: "same_base st (save_audit res r ad risk st)"
  by (simp add: same_base_def save_audit_def)

lemma same_base_world [simp]: "same_base st (st\<lparr>g_world := w\<rparr>)"
  by (simp add: same_base_def)

lemma same_base_run_adapter: "same_base st (snd (run_adapter ad r adapter p k st))"
  by (auto simp: run_adapter_def same_base_def save_trace_def save_audit_def fresh_id_def Let_def
      split: prod.split option.split)

lemma engine_same_base: "same_base st (snd (engine_execute r adapter st))"
  by (simp add: engine_execute_def block_def Let_def same_base_run_adapter split: option.split)

lemma verify_same_base: "same_base st (snd (verify_execution e x r st))"
  by (simp add: verify_execution_def same_base_def fresh_id_def Let_def)

lemma verify_frame [simp]:
  "g_audits (snd (verify_execution e x r st)) = g_audits st"
  "g_world (snd (verify_execution e x r st)) = g_world st"
  "g_traces (snd (verify_execution e x r st)) = g_traces st"
  by (simp_all add: verify_execution_def fresh_id_def Let_def)

section \<open>When the adapter runs\<close>

definition cleared :: "'w gov \<Rightarrow> request \<Rightarrow> string \<Rightarrow> 'w adapter \<Rightarrow> bool" where
  "cleared st r adapter ad \<longleftrightarrow>
     gate st r adapter = None \<and> execution_policy r = Allow \<and>
     g_adapters st adapter = Some ad \<and> ad_supports ad r"

definition engine_risk :: "request \<Rightarrow> string" where
  "engine_risk r = (case req_risk r of Some v \<Rightarrow> v | None \<Rightarrow> execution_risk r)"

lemma engine_cleared:
  "cleared st r adapter ad \<Longrightarrow>
     engine_execute r adapter st = run_adapter ad r adapter (gate_value Allow) (engine_risk r) st"
  by (simp add: engine_execute_def cleared_def engine_risk_def Let_def)

lemma engine_not_cleared:
  "(\<And>ad. \<not> cleared st r adapter ad) \<Longrightarrow>
     g_audits (snd (engine_execute r adapter st)) = g_audits st \<and>
     g_world (snd (engine_execute r adapter st)) = g_world st"
  by (auto simp: engine_execute_def cleared_def block_def save_trace_def fresh_id_def Let_def split: option.split)

lemma gate_None:
  "gate st r adapter = None \<longleftrightarrow>
     (\<exists>a. get_auth (req_authorization_id r) st = Some a \<and> auth_status a = ''approved'' \<and>
        \<not> expired (auth_expires_at a) (g_now st) \<and> auth_action_id a = req_action_id r \<and>
        auth_target a = req_target r \<and> auth_operation a = req_operation r \<and>
        auth_expected a = req_expected r \<and> \<not> binding_mismatch a r adapter \<and>
        \<not> instruction_mismatch (g_sha st) r adapter)"
  by (auto simp: gate_def split: option.split)

text \<open>One execution adds at most one audit record, for the authorization of its request.\<close>

lemma engine_audits:
  "g_audits (snd (engine_execute r adapter st)) = g_audits st \<or>
   (\<exists>au ad. g_audits (snd (engine_execute r adapter st)) = save no_key au (g_audits st) \<and>
      cleared st r adapter ad \<and> au_authorization_id au = req_authorization_id r \<and>
      au_action_id au = req_action_id r \<and> au_adapter au = adapter \<and>
      au_prov au = (req_prov r)\<lparr>pv_adapter := Some adapter\<rparr>)"
proof (cases "\<exists>ad. cleared st r adapter ad")
  case True
  then obtain ad where ad: "cleared st r adapter ad" by blast
  obtain res w where x: "ad_execute ad r (g_world st) = (res, w)" by fastforce
  show ?thesis
  proof (cases res)
    case None
    then show ?thesis by (simp add: engine_cleared[OF ad] run_adapter_def x)
  next
    case (Some y)
    show ?thesis
      by (rule disjI2, intro exI[of _ ad] exI conjI)
        (use ad in \<open>auto simp: engine_cleared run_adapter_def x Some save_audit_def save_trace_def fresh_id_def Let_def\<close>)
  qed
qed (use engine_not_cleared in blast)

end
