(* ===== verification/Governed_Lifecycle.thy ===== *)
theory Governed_Lifecycle
  imports Execution_Engine
begin

text \<open>
  The governed lifecycle: approval workflow (\<open>actions/approval_service.py\<close>), authorization
  (\<open>actions/authorization_service.py\<close>), translation to an execution request
  (\<open>execution/translator.py\<close>), and the two entry points \<open>execute_governed_action\<close>
  (\<open>actions/service.py\<close>) and \<open>approve_held_action\<close>.
  An exception that leaves an entry point is the outcome \<open>Raised\<close>; the state next to it is what
  the stores and the world hold at that moment.
\<close>

section \<open>Approval records and holds\<close>

definition approval_ttl :: int where
  "approval_ttl = seconds 300"

definition authorization_ttl :: int where
  "authorization_ttl = seconds 300"

text \<open>\<open>getattr(assessment, field, default)\<close> when there is no assessment.\<close>

definition absent :: provenance where
  "absent = \<lparr>pv_domain = [], pv_adapter = None, pv_assessment_id = None, pv_policy_id = None,
     pv_policy_version = None, pv_risk_id = None, pv_risk_version = None, pv_canon_version = None,
     pv_digest = None, pv_policy_refs = [], pv_risk_refs = [], pv_uncertainty = [], pv_recovery = []\<rparr>"

definition prov_or_absent :: "provenance option \<Rightarrow> provenance" where
  "prov_or_absent p = (case p of None \<Rightarrow> absent | Some q \<Rightarrow> q)"

definition process_approval ::
  "action \<Rightarrow> policy_result \<Rightarrow> risk_result \<Rightarrow> 'w gov \<Rightarrow> approval_decision \<times> 'w gov" where
  "process_approval a p r st = (let (k, st1) = fresh_id st in (evaluate_approval k a p r, st1))"

definition record_approval_decision ::
  "action \<Rightarrow> approval_decision \<Rightarrow> string \<Rightarrow> string \<Rightarrow> ident option \<Rightarrow> provenance option \<Rightarrow> 'w gov \<Rightarrow> 'w gov" where
  "record_approval_decision a d dec approved_by approval_id asmt st =
    (let p = prov_or_absent asmt;
         rec = \<lparr>ar_id = (case or_str approval_id None of Some k \<Rightarrow> k | None \<Rightarrow> ad_id d),
                ar_action_id = act_id a, ar_decision = dec, ar_approved_by = approved_by,
                ar_reason = ad_reason d, ar_domain = act_domain a,
                ar_assessment_id = pv_assessment_id p, ar_digest = pv_digest p,
                ar_adapter = pv_adapter p, ar_policy_refs = pv_policy_refs p,
                ar_risk_refs = pv_risk_refs p, ar_created_at = g_now st\<rparr>
     in st\<lparr>g_records := save record_key rec (g_records st)\<rparr>)"

definition hold_for_manual_approval ::
  "action \<Rightarrow> approval_decision \<Rightarrow> string \<Rightarrow> string option \<Rightarrow> provenance option \<Rightarrow> 'w gov
     \<Rightarrow> approval_hold \<times> 'w gov" where
  "hold_for_manual_approval a d adapter risk asmt st =
    (let (k, st1) = fresh_id st;
         h = \<lparr>hold_id = k, hold_action_id = act_id a, hold_action = a, hold_adapter = adapter,
              hold_reason = ad_reason d, hold_status = Pending, hold_approved_by = None,
              hold_expires_at = Some (g_now st + approval_ttl), hold_risk = risk,
              hold_prov = (prov_or_absent asmt)\<lparr>pv_domain := act_domain a, pv_adapter := Some adapter\<rparr>,
              hold_created_at = g_now st\<rparr>
     in (h, st1\<lparr>g_holds := save hold_key h (g_holds st1)\<rparr>))"

section \<open>Authorizations\<close>

definition create_execution_authorization ::
  "action \<Rightarrow> approval_decision \<Rightarrow> provenance option \<Rightarrow> 'w gov \<Rightarrow> authorization option \<times> 'w gov" where
  "create_execution_authorization a d asmt st =
    (if ad_mode d \<noteq> Auto then (None, st)
     else if \<not> ad_approved d then (None, st)
     else
      (let (k, st1) = fresh_id st in
       (Some \<lparr>auth_id = k, auth_action_id = act_id a, auth_status = ''approved'',
              auth_by = Some ''approval_policy'', auth_type = ''automatic'',
              auth_decision_id = Some (act_decision_id a), auth_approval_id = Some (ad_id d),
              auth_created_at = g_now st, auth_expires_at = Some (g_now st + authorization_ttl),
              auth_reason = ad_reason d, auth_target = act_component a,
              auth_operation = type_value (act_type a),
              auth_prov = (prov_or_absent asmt)\<lparr>pv_domain := act_domain a\<rparr>,
              auth_expected = act_expected a\<rparr>, st1)))"

definition create_manual_authorization ::
  "action \<Rightarrow> string \<Rightarrow> string \<Rightarrow> ident option \<Rightarrow> approval_hold \<Rightarrow> 'w gov \<Rightarrow> authorization \<times> 'w gov" where
  "create_manual_authorization a approved_by why approval_id h st =
    (let (k, st1) = fresh_id st in
     (\<lparr>auth_id = k, auth_action_id = act_id a, auth_status = ''approved'',
       auth_by = Some approved_by, auth_type = ''manual'',
       auth_decision_id = Some (act_decision_id a), auth_approval_id = approval_id,
       auth_created_at = g_now st, auth_expires_at = Some (g_now st + authorization_ttl),
       auth_reason = why, auth_target = act_component a,
       auth_operation = type_value (act_type a),
       auth_prov = (hold_prov h)\<lparr>pv_domain := act_domain a, pv_adapter := Some (hold_adapter h)\<rparr>,
       auth_expected = act_expected a\<rparr>, st1))"

definition save_authorization :: "authorization \<Rightarrow> 'w gov \<Rightarrow> 'w gov" where
  "save_authorization a st = st\<lparr>g_auths := save auth_key a (g_auths st)\<rparr>"

section \<open>Translation\<close>

definition or_list :: "'a list \<Rightarrow> 'a list \<Rightarrow> 'a list" where
  "or_list xs ys = (if xs = [] then ys else xs)"

definition translate_action_to_execution ::
  "action \<Rightarrow> ident \<Rightarrow> string option \<Rightarrow> string option \<Rightarrow> provenance option \<Rightarrow> provenance option \<Rightarrow> 'w gov
     \<Rightarrow> request \<times> 'w gov" where
  "translate_action_to_execution a authorization_id risk adapter asmt hold st =
    (let (k, st1) = fresh_id st; p = prov_or_absent asmt; q = prov_or_absent hold in
     (\<lparr>req_execution_id = k, req_authorization_id = authorization_id, req_action_id = act_id a,
       req_decision_id = act_decision_id a, req_target = act_component a,
       req_operation = type_value (act_type a), req_parameters = act_parameters a,
       req_risk = risk, req_expected = act_expected a,
       req_prov = \<lparr>pv_domain = act_domain a, pv_adapter = adapter,
         pv_assessment_id = or_str (pv_assessment_id p) (pv_assessment_id q),
         pv_policy_id = or_str (pv_policy_id p) (pv_policy_id q),
         pv_policy_version = or_str (pv_policy_version p) (pv_policy_version q),
         pv_risk_id = or_str (pv_risk_id p) (pv_risk_id q),
         pv_risk_version = or_str (pv_risk_version p) (pv_risk_version q),
         pv_canon_version = or_str (pv_canon_version p) (pv_canon_version q),
         pv_digest = or_str (pv_digest p) (pv_digest q),
         pv_policy_refs = or_list (pv_policy_refs p) (pv_policy_refs q),
         pv_risk_refs = or_list (pv_risk_refs p) (pv_risk_refs q),
         pv_uncertainty = or_list (pv_uncertainty p) (pv_uncertainty q),
         pv_recovery = or_list (pv_recovery p) (pv_recovery q)\<rparr>,
       req_created_at = g_now st\<rparr>, st1))"

section \<open>Execution and verification of one request\<close>

definition run_request ::
  "request \<Rightarrow> string \<Rightarrow> 'w gov \<Rightarrow> (exec_result \<times> verification_result option) option \<times> 'w gov" where
  "run_request r adapter st =
    (case engine_execute r adapter st of
       (None, st1) \<Rightarrow> (None, st1)
     | (Some res, st1) \<Rightarrow>
        if res_success res then
          (let (v, st2) = verify_execution (res_execution_id res) (req_expected r) r st1
           in (Some (res, Some v), st2))
        else (Some (res, None), st1))"

section \<open>\<open>actions/service.py\<close>\<close>

definition process_action :: "action \<Rightarrow> string option \<Rightarrow> policy_result" where
  "process_action a context = evaluate_action_policy a context"

datatype outcome =
    AssessmentFailed assess_error
  | PolicyDenied string bool
  | RejectedByPolicy string
  | ManualRequired string ident
  | AuthorizationNotCreated
  | Executed exec_result "verification_result option"
  | Raised

definition execute_authorized ::
  "action \<Rightarrow> string \<Rightarrow> assessment \<Rightarrow> authorization \<Rightarrow> 'w gov \<Rightarrow> outcome \<times> 'w gov" where
  "execute_authorized a adapter asmt au st =
    (let st1 = save_authorization au st;
         (r, st2) = translate_action_to_execution a (auth_id au) (Some (rk_level (asm_risk asmt)))
                      (Some adapter) (Some (asm_prov asmt)) None st1
     in case run_request r adapter st2 of
          (None, st3) \<Rightarrow> (Raised, st3)
        | (Some (res, v), st3) \<Rightarrow> (Executed res v, st3))"

definition execute_governed_action :: "action \<Rightarrow> string \<Rightarrow> 'w gov \<Rightarrow> outcome \<times> 'w gov" where
  "execute_governed_action a adapter st =
    (case resolve_assessment st a adapter of
       Inl UnhashableRiskLevel \<Rightarrow> (Raised, st)
     | Inl e \<Rightarrow> (AssessmentFailed e, st)
     | Inr (asmt, st1) \<Rightarrow>
        (let pol = asm_policy asmt; prov = Some (asm_prov asmt) in
         if \<not> pol_allowed pol then (PolicyDenied (pol_reason pol) (pol_requires_approval pol), st1)
         else
          (let (d, st2) = process_approval a pol (asm_risk asmt) st1 in
           if ad_mode d = Reject then
             (RejectedByPolicy (ad_reason d),
              record_approval_decision a d ''rejected'' ''approval_policy'' None prov st2)
           else if ad_mode d = Manual then
             (let (h, st3) = hold_for_manual_approval a d adapter (Some (rk_level (asm_risk asmt))) prov st2
              in (ManualRequired (ad_reason d) (hold_id h),
                  record_approval_decision a d ''manual_required'' [] (Some (hold_id h)) prov st3))
           else
             (let st3 = record_approval_decision a d ''approved'' ''approval_policy'' None prov st2
              in case create_execution_authorization a d prov st3 of
                   (None, st4) \<Rightarrow> (AuthorizationNotCreated, st4)
                 | (Some au, st4) \<Rightarrow> execute_authorized a adapter asmt au st4))))"

section \<open>\<open>approve_held_action\<close>\<close>

datatype approval_outcome =
    ApprovalNotFound
  | AlreadyResolved approval_status
  | ApprovalExpired
  | ApprovalRejected
  | AssessmentInvalid
  | ApprovalExecuted exec_result "verification_result option"
  | ApprovalRaised

text \<open>Attribute assignment on the hold object: the list changes, the disk does not.\<close>

definition set_hold :: "ident \<Rightarrow> (approval_hold \<Rightarrow> approval_hold) \<Rightarrow> 'w gov \<Rightarrow> 'w gov" where
  "set_hold k f st = st\<lparr>g_holds := assign_by hold_id k f (g_holds st)\<rparr>"

definition update_record :: "ident \<Rightarrow> string \<Rightarrow> string \<Rightarrow> 'w gov \<Rightarrow> 'w gov" where
  "update_record k dec approved_by st =
     st\<lparr>g_records := update_by ar_id record_key k
          (\<lambda>r. r\<lparr>ar_decision := dec, ar_approved_by := approved_by\<rparr>) (g_records st)\<rparr>"

definition evaluator_binding :: "'w registration \<Rightarrow> approval_hold \<Rightarrow> bool" where
  "evaluator_binding rg h \<longleftrightarrow>
     Some (pe_id (rg_policy rg)) = pv_policy_id (hold_prov h) \<and>
     Some (pe_version (rg_policy rg)) = pv_policy_version (hold_prov h) \<and>
     Some (re_id (rg_risk rg)) = pv_risk_id (hold_prov h) \<and>
     Some (re_version (rg_risk rg)) = pv_risk_version (hold_prov h)"

definition held_digest :: "(string \<Rightarrow> string) \<Rightarrow> approval_hold \<Rightarrow> string" where
  "held_digest sha h =
     (case bind_action sha (hold_action h) (hold_adapter h) of Inl e \<Rightarrow> [] | Inr (d, payload) \<Rightarrow> d)"

definition resume_hold :: "approval_hold \<Rightarrow> string \<Rightarrow> 'w gov \<Rightarrow> approval_outcome \<times> 'w gov" where
  "resume_hold h approved_by st =
    (let k = hold_id h;
         st1 = set_hold k (\<lambda>x. x\<lparr>hold_status := Approved, hold_approved_by := Some approved_by\<rparr>) st;
         st2 = update_record k ''approved'' approved_by st1;
         (au, st3) = create_manual_authorization (hold_action h) approved_by (hold_reason h) (Some k) h st2;
         st4 = save_authorization au st3;
         (r, st5) = translate_action_to_execution (hold_action h) (auth_id au) (hold_risk h)
                      (Some (hold_adapter h)) None (Some (hold_prov h)) st4
     in case run_request r (hold_adapter h) st5 of
          (None, st6) \<Rightarrow> (ApprovalRaised, st6)
        | (Some (res, v), st6) \<Rightarrow> (ApprovalExecuted res v, st6))"

definition approve_held_action ::
  "ident \<Rightarrow> string \<Rightarrow> bool \<Rightarrow> 'w gov \<Rightarrow> approval_outcome \<times> 'w gov" where
  "approve_held_action k approved_by approved st =
    (case get_hold k st of
       None \<Rightarrow> (ApprovalNotFound, st)
     | Some h \<Rightarrow>
        if hold_status h \<noteq> Pending then (AlreadyResolved (hold_status h), st)
        else if expired (hold_expires_at h) (g_now st) then
          (ApprovalExpired, set_hold k (\<lambda>x. x\<lparr>hold_status := Rejected\<rparr>) st)
        else if \<not> approved then
          (ApprovalRejected,
           update_record k ''rejected'' approved_by (set_hold k (\<lambda>x. x\<lparr>hold_status := Rejected\<rparr>) st))
        else
          (case g_registry st (pv_domain (hold_prov h)) of
             None \<Rightarrow> (AssessmentInvalid, st)
           | Some rg \<Rightarrow>
              if \<not> evaluator_binding rg h \<or> Some (held_digest (g_sha st) h) \<noteq> pv_digest (hold_prov h)
              then (AssessmentInvalid, st)
              else resume_hold h approved_by st))"

section \<open>What one request changes\<close>

lemma run_request_cases:
  obtains "snd (run_request r adapter st) = snd (engine_execute r adapter st)"
  | e x where "snd (run_request r adapter st) = snd (verify_execution e x r (snd (engine_execute r adapter st)))"
proof -
  obtain out st1 where e: "engine_execute r adapter st = (out, st1)" by fastforce
  show thesis
  proof (cases out)
    case None
    then show thesis using e by (intro that(1)) (simp add: run_request_def)
  next
    case (Some res)
    obtain v st2 where v: "verify_execution (res_execution_id res) (req_expected r) r st1 = (v, st2)"
      by fastforce
    show thesis
    proof (cases "res_success res")
      case True
      then show thesis using e Some v
        by (intro that(2)[of "res_execution_id res" "req_expected r"]) (simp add: run_request_def)
    next
      case False
      then show thesis using e Some by (intro that(1)) (simp add: run_request_def)
    qed
  qed
qed

lemma run_request_same_base: "same_base st (snd (run_request r adapter st))"
proof (cases rule: run_request_cases[of r adapter st])
  case 1
  then show ?thesis by (simp add: engine_same_base)
next
  case (2 e x)
  then show ?thesis using same_base_trans[OF engine_same_base verify_same_base] by simp
qed

lemma run_request_engine:
  "g_audits (snd (run_request r adapter st)) = g_audits (snd (engine_execute r adapter st))"
  "g_world (snd (run_request r adapter st)) = g_world (snd (engine_execute r adapter st))"
  by (cases rule: run_request_cases[of r adapter st]; simp)+

end
