(* ===== verification/Reconcile.thy ===== *)
theory Reconcile
  imports Governed_Lifecycle
begin

text \<open>
  \<open>app/ops/reconcile.py\<close>, run at every start of the process: E2 writes the authoritative
  terminal decision of the record store into holds that the restart has reloaded as pending,
  and E6 audits the authorizations against records and holds without writing.
  The source walks the live list of holds and changes it in place at positions it has already
  reached, which is the walk over a snapshot used here.
\<close>

section \<open>E2: correcting the hold store\<close>

definition terminal_status :: "string \<Rightarrow> approval_status option" where
  "terminal_status dec =
     (if dec = ''approved'' then Some Approved else if dec = ''rejected'' then Some Rejected else None)"

text \<open>The fields computed from the hold \<open>h\<close> of the walk, applied to the stored hold \<open>x\<close>.\<close>

definition correct_hold :: "approval_status \<Rightarrow> string \<Rightarrow> approval_hold \<Rightarrow> approval_hold \<Rightarrow> approval_hold" where
  "correct_hold s who h x =
     x\<lparr>hold_status := s,
       hold_approved_by := (if hold_approved_by h = None then Some who else hold_approved_by x)\<rparr>"

definition hold_resolution :: "'w gov \<Rightarrow> approval_hold \<Rightarrow> (approval_status \<times> string) option" where
  "hold_resolution st h =
     (if hold_status h \<noteq> Pending then None
      else case get_record (hold_id h) st of None \<Rightarrow> None
        | Some r \<Rightarrow> map_option (\<lambda>s. (s, ar_approved_by r)) (terminal_status (ar_decision r)))"

definition reconcile_hold :: "approval_hold \<Rightarrow> 'w gov \<times> ident list \<Rightarrow> 'w gov \<times> ident list" where
  "reconcile_hold h acc =
     (case acc of (st, ids) \<Rightarrow>
        (case hold_resolution st h of None \<Rightarrow> (st, ids)
         | Some (s, who) \<Rightarrow>
            (st\<lparr>g_holds := update_by hold_id hold_key (hold_id h)
                  (correct_hold s who h) (g_holds st)\<rparr>, ids @ [hold_id h])))"

definition reconcile_holds :: "'w gov \<Rightarrow> 'w gov \<times> ident list" where
  "reconcile_holds st = fold reconcile_hold (mem (g_holds st)) (st, [])"

section \<open>E6: auditing the authorizations\<close>

datatype linkage_issue = MissingRecord | ContradictsRejection | RecordNotTerminal | HoldStillPending

definition linkage :: "'w gov \<Rightarrow> authorization \<Rightarrow> linkage_issue option" where
  "linkage st a =
     (if \<not> truthy_str (auth_approval_id a) then None
      else
       (let k = the (auth_approval_id a) in
        case get_record k st of
          None \<Rightarrow> Some MissingRecord
        | Some r \<Rightarrow>
           if ar_decision r = ''rejected'' then Some ContradictsRejection
           else if terminal_status (ar_decision r) = None then Some RecordNotTerminal
           else (case get_hold k st of
                   Some h \<Rightarrow> if hold_status h = Pending then Some HoldStillPending else None
                 | None \<Rightarrow> None)))"

definition audit_authorizations :: "'w gov \<Rightarrow> (ident \<times> linkage_issue) list" where
  "audit_authorizations st =
     List.map_filter (\<lambda>a. map_option (Pair (auth_id a)) (linkage st a)) (mem (g_auths st))"

definition reconcile_governance_stores ::
  "'w gov \<Rightarrow> ('w gov \<times> ident list) \<times> (ident \<times> linkage_issue) list" where
  "reconcile_governance_stores st =
     (let (st1, ids) = reconcile_holds st in ((st1, ids), audit_authorizations st1))"

text \<open>A restart: every store is read back from disk, then the stores are reconciled.\<close>

definition reopen_stores :: "'w gov \<Rightarrow> 'w gov" where
  "reopen_stores st = st\<lparr>g_holds := reopen (g_holds st), g_records := reopen (g_records st),
     g_auths := reopen (g_auths st), g_audits := reopen (g_audits st),
     g_traces := reopen (g_traces st), g_verifs := reopen (g_verifs st)\<rparr>"

definition restart :: "'w gov \<Rightarrow> 'w gov" where
  "restart st = fst (fst (reconcile_governance_stores (reopen_stores st)))"

section \<open>What E2 does to the list of holds\<close>

definition settled_hold :: "'w gov \<Rightarrow> approval_hold \<Rightarrow> approval_hold" where
  "settled_hold st h = (case hold_resolution st h of None \<Rightarrow> h | Some (s, who) \<Rightarrow> correct_hold s who h h)"

lemma settled_hold_id [simp]:
  "hold_id (settled_hold st h) = hold_id h"
  "hold_prov (settled_hold st h) = hold_prov h"
  "hold_action (settled_hold st h) = hold_action h"
  "hold_adapter (settled_hold st h) = hold_adapter h"
  "hold_expires_at (settled_hold st h) = hold_expires_at h"
  by (simp_all add: settled_hold_def correct_hold_def split: option.split)

lemma holds_unchanged: "\<exists>x. st = st\<lparr>g_holds := x\<rparr>"
  by (rule exI[of _ "g_holds st"]) simp

lemma reconcile_hold_shape: "\<exists>x. fst (reconcile_hold h (st, ids)) = st\<lparr>g_holds := x\<rparr>"
  using holds_unchanged[of st] by (auto simp: reconcile_hold_def split: option.split)

lemma fold_reconcile_shape: "\<exists>x. fst (fold reconcile_hold hs (st, ids)) = st\<lparr>g_holds := x\<rparr>"
proof (induction hs arbitrary: st ids)
  case Nil
  show ?case using holds_unchanged[of st] by simp
next
  case (Cons h hs)
  obtain st1 ids1 where s: "reconcile_hold h (st, ids) = (st1, ids1)" by fastforce
  then obtain y where "st1 = st\<lparr>g_holds := y\<rparr>" using reconcile_hold_shape[of h st ids] by auto
  moreover obtain x where "fst (fold reconcile_hold hs (st1, ids1)) = st1\<lparr>g_holds := x\<rparr>"
    using Cons.IH by blast
  ultimately show ?case by (auto simp: s)
qed

lemma reconcile_shape: "\<exists>x. fst (reconcile_holds st) = st\<lparr>g_holds := x\<rparr>"
  by (simp add: reconcile_holds_def fold_reconcile_shape)

lemma reconcile_frame [simp]:
  "g_records (fst (reconcile_holds st)) = g_records st"
  "g_auths (fst (reconcile_holds st)) = g_auths st"
  "g_audits (fst (reconcile_holds st)) = g_audits st"
  "g_traces (fst (reconcile_holds st)) = g_traces st"
  "g_registry (fst (reconcile_holds st)) = g_registry st"
  "g_adapters (fst (reconcile_holds st)) = g_adapters st"
  "g_uuid (fst (reconcile_holds st)) = g_uuid st"
  "g_next (fst (reconcile_holds st)) = g_next st"
  "g_now (fst (reconcile_holds st)) = g_now st"
  "g_sha (fst (reconcile_holds st)) = g_sha st"
  "g_world (fst (reconcile_holds st)) = g_world st"
  by (rule exE[OF reconcile_shape[of st]], simp)+

lemma modify_first_middle:
  "ident h = k \<Longrightarrow> k \<notin> set (List.map ident pre) \<Longrightarrow>
     modify_first ident k f (pre @ h # hs) = pre @ f h # hs"
  by (induction pre) auto

lemma fold_reconcile_mem:
  assumes "distinct (List.map hold_id (pre @ hs))" and "mem (g_holds st) = pre @ hs"
  shows "mem (g_holds (fst (fold reconcile_hold hs (st, ids)))) = pre @ List.map (settled_hold st) hs"
  using assms
proof (induction hs arbitrary: pre st ids)
  case (Cons h hs)
  obtain st1 ids1 where s: "reconcile_hold h (st, ids) = (st1, ids1)" by fastforce
  have "mem (g_holds (fst (reconcile_hold h (st, ids)))) = pre @ settled_hold st h # hs"
    using Cons.prems
    by (auto simp: reconcile_hold_def settled_hold_def mem_update_by modify_first_middle split: option.split)
  then have m: "mem (g_holds st1) = (pre @ [settled_hold st h]) @ hs" by (simp add: s)
  have "g_records (fst (reconcile_hold h (st, ids))) = g_records st"
    by (rule exE[OF reconcile_hold_shape[of h st ids]], simp)
  then have "g_records st1 = g_records st" by (simp add: s)
  then have r: "settled_hold st1 = settled_hold st"
    by (simp add: settled_hold_def fun_eq_iff hold_resolution_def get_record_def)
  have "distinct (List.map hold_id ((pre @ [settled_hold st h]) @ hs))" using Cons.prems(1) by simp
  from Cons.IH[OF this m, of ids1] show ?case by (simp add: s r)
qed simp

lemma reconcile_mem:
  "distinct (List.map hold_id (mem (g_holds st))) \<Longrightarrow>
     mem (g_holds (fst (reconcile_holds st))) = List.map (settled_hold st) (mem (g_holds st))"
  using fold_reconcile_mem[of "[]" "mem (g_holds st)" st "[]"] by (simp add: reconcile_holds_def)

lemma restart_eq: "restart st = fst (reconcile_holds (reopen_stores st))"
  by (cases "reconcile_holds (reopen_stores st)") (simp add: restart_def reconcile_governance_stores_def)

end
