(* ===== verification/Evidence_Chain.thy ===== *)
theory Evidence_Chain
  imports Reconcile
begin

text \<open>
  How holds, approval records, authorizations and execution audits have to fit together, on the
  lists the lookups read: every hold has its record, an authorization rests on an approved
  record with the same instruction digest, an audit on an authorization, and neither an
  approval nor an authorization is used twice. Each way the lifecycle adds or resolves
  evidence keeps this.
\<close>

section \<open>Evidence that fits together\<close>

definition hold_ok :: "approval_record list \<Rightarrow> approval_hold \<Rightarrow> bool" where
  "hold_ok R h \<longleftrightarrow> (\<exists>r\<in>set R. ar_id r = hold_id h \<and> ar_digest r = pv_digest (hold_prov h) \<and>
     ar_decision r \<in> {''approved'', ''rejected'', ''manual_required''} \<and>
     (hold_status h = Approved \<longleftrightarrow> ar_decision r = ''approved'') \<and>
     (hold_status h = Pending \<longrightarrow> ar_decision r = ''manual_required''))"

definition auth_ok :: "approval_record list \<Rightarrow> authorization \<Rightarrow> bool" where
  "auth_ok R a \<longleftrightarrow> auth_status a = ''approved'' \<and>
     (\<exists>r\<in>set R. auth_approval_id a = Some (ar_id r) \<and> ar_decision r = ''approved'' \<and>
        ar_digest r = pv_digest (auth_prov a))"

definition audit_ok :: "authorization list \<Rightarrow> audit \<Rightarrow> bool" where
  "audit_ok A u \<longleftrightarrow> (\<exists>a\<in>set A. auth_id a = au_authorization_id u \<and> auth_action_id a = au_action_id u \<and>
     pv_digest (auth_prov a) = pv_digest (au_prov u) \<and> pv_adapter (auth_prov a) = Some (au_adapter u))"

record evidence =
  ev_ids :: "ident set"
  ev_holds :: "approval_hold list"
  ev_records :: "approval_record list"
  ev_auths :: "authorization list"
  ev_audits :: "audit list"

definition ids_ok :: "evidence \<Rightarrow> bool" where
  "ids_ok e \<longleftrightarrow> [] \<notin> ev_ids e \<and>
     hold_id ` set (ev_holds e) \<subseteq> ev_ids e \<and> ar_id ` set (ev_records e) \<subseteq> ev_ids e \<and>
     auth_id ` set (ev_auths e) \<subseteq> ev_ids e \<and>
     distinct (List.map hold_id (ev_holds e)) \<and> distinct (List.map ar_id (ev_records e)) \<and>
     distinct (List.map auth_id (ev_auths e))"

definition links_ok :: "evidence \<Rightarrow> bool" where
  "links_ok e \<longleftrightarrow> (\<forall>h\<in>set (ev_holds e). hold_ok (ev_records e) h) \<and>
     (\<forall>a\<in>set (ev_auths e). auth_ok (ev_records e) a) \<and>
     (\<forall>u\<in>set (ev_audits e). audit_ok (ev_auths e) u)"

definition used_once :: "evidence \<Rightarrow> bool" where
  "used_once e \<longleftrightarrow> distinct (List.map auth_approval_id (ev_auths e)) \<and>
     distinct (List.map au_authorization_id (ev_audits e))"

definition evidence_ok :: "evidence \<Rightarrow> bool" where
  "evidence_ok e \<longleftrightarrow> ids_ok e \<and> links_ok e \<and> used_once e"

lemmas evidence_defs = evidence_ok_def ids_ok_def links_ok_def used_once_def

subsection \<open>Adding to the record list\<close>

lemma hold_ok_mono: "hold_ok R h \<Longrightarrow> set R \<subseteq> set R' \<Longrightarrow> hold_ok R' h"
  by (auto simp: hold_ok_def)

lemma auth_ok_mono: "auth_ok R a \<Longrightarrow> set R \<subseteq> set R' \<Longrightarrow> auth_ok R' a"
  by (auto simp: auth_ok_def)

lemma audit_ok_mono: "audit_ok A u \<Longrightarrow> set A \<subseteq> set A' \<Longrightarrow> audit_ok A' u"
  by (auto simp: audit_ok_def)

lemma auth_ok_record: "auth_ok R a \<Longrightarrow> \<exists>r\<in>set R. auth_approval_id a = Some (ar_id r)"
  by (auto simp: auth_ok_def)

lemma audit_ok_auth: "audit_ok A u \<Longrightarrow> au_authorization_id u \<in> auth_id ` set A"
  by (auto simp: audit_ok_def intro: rev_image_eqI)

lemma evidence_ids:
  "evidence_ok e \<Longrightarrow> ev_ids e \<subseteq> I \<Longrightarrow> [] \<notin> I \<Longrightarrow> evidence_ok (e\<lparr>ev_ids := I\<rparr>)"
  by (auto simp: evidence_defs)

lemma evidence_record:
  assumes "evidence_ok e" and "ar_id r \<in> ev_ids e" and "ar_id r \<notin> ar_id ` set (ev_records e)"
  shows "evidence_ok (e\<lparr>ev_records := ev_records e @ [r]\<rparr>)"
  using assms by (auto simp: evidence_defs intro: hold_ok_mono auth_ok_mono)

lemma evidence_hold:
  assumes "evidence_ok e" and "hold_id h \<in> ev_ids e" and "ar_id r = hold_id h"
    and "hold_id h \<notin> hold_id ` set (ev_holds e)" and "ar_id r \<notin> ar_id ` set (ev_records e)"
    and "hold_status h = Pending" and "ar_decision r = ''manual_required''"
    and "ar_digest r = pv_digest (hold_prov h)"
  shows "evidence_ok (e\<lparr>ev_holds := ev_holds e @ [h], ev_records := ev_records e @ [r]\<rparr>)"
proof -
  have "hold_ok (ev_records e @ [r]) h" using assms by (auto simp: hold_ok_def)
  with assms show ?thesis by (auto simp: evidence_defs intro: hold_ok_mono auth_ok_mono)
qed

lemma evidence_auth:
  assumes "evidence_ok e" and "auth_id a \<in> ev_ids e" and "auth_id a \<notin> auth_id ` set (ev_auths e)"
    and "auth_approval_id a \<notin> auth_approval_id ` set (ev_auths e)" and "auth_ok (ev_records e) a"
  shows "evidence_ok (e\<lparr>ev_auths := ev_auths e @ [a]\<rparr>)"
  using assms by (auto simp: evidence_defs intro: audit_ok_mono)

lemma evidence_audit:
  assumes "evidence_ok e" and "audit_ok (ev_auths e) u"
    and "au_authorization_id u \<notin> au_authorization_id ` set (ev_audits e)"
  shows "evidence_ok (e\<lparr>ev_audits := ev_audits e @ [u]\<rparr>)"
  using assms by (auto simp: evidence_defs)

subsection \<open>Resolving a hold\<close>

definition decide :: "string \<Rightarrow> string \<Rightarrow> approval_record \<Rightarrow> approval_record" where
  "decide dec who r = r\<lparr>ar_decision := dec, ar_approved_by := who\<rparr>"

lemma modify_first_distinct:
  "distinct (List.map ident xs) \<Longrightarrow>
     modify_first ident k f xs = List.map (\<lambda>x. if ident x = k then f x else x) xs"
proof (induction xs)
  case (Cons x xs)
  show ?case
  proof (cases "ident x = k")
    case True
    with Cons.prems have "List.map (\<lambda>y. if ident y = k then f y else y) xs = xs"
      by (intro map_idI) (auto simp: image_iff)
    with True show ?thesis by simp
  qed (use Cons in simp)
qed simp

lemma evidence_rewrite:
  assumes e: "evidence_ok e" and H: "List.map hold_id H = List.map hold_id (ev_holds e)"
    and R: "List.map ar_id R = List.map ar_id (ev_records e)"
    and h: "\<And>h. h \<in> set H \<Longrightarrow> hold_ok R h" and a: "\<And>a. a \<in> set (ev_auths e) \<Longrightarrow> auth_ok R a"
  shows "evidence_ok (e\<lparr>ev_holds := H, ev_records := R\<rparr>)"
proof -
  have "hold_id ` set H = hold_id ` set (ev_holds e)" "ar_id ` set R = ar_id ` set (ev_records e)"
    using H R by (metis list.set_map)+
  then show ?thesis using e H R h a by (simp add: evidence_defs)
qed

lemma same_record:
  "evidence_ok e \<Longrightarrow> r \<in> set (ev_records e) \<Longrightarrow> r' \<in> set (ev_records e) \<Longrightarrow> ar_id r = ar_id r' \<Longrightarrow> r = r'"
  by (auto simp: evidence_defs distinct_map inj_on_def)

lemma same_hold:
  "evidence_ok e \<Longrightarrow> h \<in> set (ev_holds e) \<Longrightarrow> h' \<in> set (ev_holds e) \<Longrightarrow> hold_id h = hold_id h' \<Longrightarrow> h = h'"
  by (auto simp: evidence_defs distinct_map inj_on_def)

lemma hold_record:
  assumes e: "evidence_ok e" and h: "h \<in> set (ev_holds e)"
    and r: "r \<in> set (ev_records e)" "ar_id r = hold_id h"
  shows "ar_digest r = pv_digest (hold_prov h) \<and>
     ar_decision r \<in> {''approved'', ''rejected'', ''manual_required''} \<and>
     (hold_status h = Approved \<longleftrightarrow> ar_decision r = ''approved'') \<and>
     (hold_status h = Pending \<longrightarrow> ar_decision r = ''manual_required'')"
proof -
  have "hold_ok (ev_records e) h" using e h by (simp add: evidence_ok_def links_ok_def)
  then obtain r' where r': "r' \<in> set (ev_records e)" "ar_id r' = hold_id h" and x: "hold_ok [r'] h"
    by (auto simp: hold_ok_def)
  have "r = r'" using same_record[OF e r(1) r'(1)] r(2) r'(2) by simp
  with x show ?thesis by (simp add: hold_ok_def)
qed

lemma evidence_holds_map:
  assumes e: "evidence_ok e"
    and f: "\<And>x. x \<in> set (ev_holds e) \<Longrightarrow> hold_id x = k \<Longrightarrow>
      hold_id (f x) = hold_id x \<and> hold_prov (f x) = hold_prov x \<and>
      (hold_status (f x) = hold_status x \<or> hold_status x = Pending \<and> hold_status (f x) = Rejected)"
  shows "evidence_ok (e\<lparr>ev_holds := modify_first hold_id k f (ev_holds e)\<rparr>)"
proof -
  let ?g = "\<lambda>x. if hold_id x = k then f x else x"
  have H: "modify_first hold_id k f (ev_holds e) = List.map ?g (ev_holds e)"
    using e by (intro modify_first_distinct) (simp add: evidence_defs)
  have g: "hold_ok (ev_records e) (?g x)" if x: "x \<in> set (ev_holds e)" for x
  proof -
    have "hold_ok (ev_records e) x" using e x by (simp add: evidence_ok_def links_ok_def)
    then obtain r where m: "r \<in> set (ev_records e)" and ok: "hold_ok [r] x" by (auto simp: hold_ok_def)
    have "hold_ok [r] (?g x)"
      using ok f[OF x] by (cases "hold_id x = k") (auto simp: hold_ok_def)
    then show ?thesis by (rule hold_ok_mono) (use m in simp)
  qed
  have "hold_ok (ev_records e) y" if "y \<in> set (List.map ?g (ev_holds e))" for y
  proof -
    from that obtain x where "x \<in> set (ev_holds e)" "y = ?g x" unfolding set_map by (rule imageE) blast
    then show ?thesis using g by blast
  qed
  moreover have "List.map hold_id (List.map ?g (ev_holds e)) = List.map hold_id (ev_holds e)"
    using f by simp
  moreover have "\<And>a. a \<in> set (ev_auths e) \<Longrightarrow> auth_ok (ev_records e) a"
    using e by (simp add: evidence_ok_def links_ok_def)
  ultimately have "evidence_ok (e\<lparr>ev_holds := List.map ?g (ev_holds e), ev_records := ev_records e\<rparr>)"
    by (intro evidence_rewrite[OF e]) (blast | simp)+
  then show ?thesis unfolding H by simp
qed

lemma evidence_resolve:
  assumes e: "evidence_ok e" and h: "h \<in> set (ev_holds e)" "hold_status h = Pending"
    and f: "hold_id (f h) = hold_id h" "hold_prov (f h) = hold_prov h" "hold_status (f h) = s"
    and s: "(s = Approved \<and> dec = ''approved'') \<or> (s = Rejected \<and> dec = ''rejected'')"
  shows "evidence_ok (e\<lparr>ev_holds := modify_first hold_id (hold_id h) f (ev_holds e),
           ev_records := modify_first ar_id (hold_id h) (decide dec who) (ev_records e)\<rparr>)"
proof -
  let ?g = "\<lambda>x. if hold_id x = hold_id h then f x else x"
  let ?d = "\<lambda>r. if ar_id r = hold_id h then decide dec who r else r"
  have H: "modify_first hold_id (hold_id h) f (ev_holds e) = List.map ?g (ev_holds e)"
    and R: "modify_first ar_id (hold_id h) (decide dec who) (ev_records e) = List.map ?d (ev_records e)"
    using e by (auto intro!: modify_first_distinct simp: evidence_defs)
  have one: "x = h" if "x \<in> set (ev_holds e)" "hold_id x = hold_id h" for x
    using same_hold[OF e] that h by blast
  show ?thesis unfolding H R
  proof (rule evidence_rewrite[OF e])
    show "List.map hold_id (List.map ?g (ev_holds e)) = List.map hold_id (ev_holds e)"
      using f one by auto
    show "List.map ar_id (List.map ?d (ev_records e)) = List.map ar_id (ev_records e)"
      by (simp add: decide_def)
  next
    fix y assume "y \<in> set (List.map ?g (ev_holds e))"
    then obtain x where x: "x \<in> set (ev_holds e)" "y = ?g x" by auto
    then obtain r where r: "r \<in> set (ev_records e)" "ar_id r = hold_id x"
      using e by (auto simp: evidence_defs hold_ok_def)
    have m: "?d r \<in> set (List.map ?d (ev_records e))" using r(1) by (simp only: set_map image_eqI)
    have ok: "hold_ok [?d r] y"
    proof (cases "hold_id x = hold_id h")
      case True
      then have xh: "x = h" using one x(1) by blast
      have "ar_digest r = pv_digest (hold_prov h)" using hold_record[OF e x(1) r] xh by simp
      moreover have y: "y = f h" and d: "?d r = decide dec who r" using x(2) r(2) xh by simp_all
      ultimately show ?thesis using f r(2) s unfolding y d xh by (elim disjE conjE) (simp_all add: hold_ok_def decide_def)
    next
      case False
      then show ?thesis using x r hold_record[OF e x(1) r] by (simp add: hold_ok_def)
    qed
    show "hold_ok (List.map ?d (ev_records e)) y"
      by (rule hold_ok_mono[OF ok]) (use m in simp)
  next
    fix a assume "a \<in> set (ev_auths e)"
    then have ok: "auth_ok (ev_records e) a" using e by (simp add: evidence_defs)
    then obtain r where r: "r \<in> set (ev_records e)" "auth_approval_id a = Some (ar_id r)"
      "ar_decision r = ''approved''" "ar_digest r = pv_digest (auth_prov a)" by (auto simp: auth_ok_def)
    have "ar_id r \<noteq> hold_id h"
    proof
      assume "ar_id r = hold_id h"
      from hold_record[OF e h(1) r(1) this] h(2) have "ar_decision r = ''manual_required''" by simp
      with r(3) show False by simp
    qed
    then have "?d r = r" by simp
    then have "r \<in> set (List.map ?d (ev_records e))" using r(1) by (simp only: set_map) (rule image_eqI, simp_all)
    then show "auth_ok (List.map ?d (ev_records e)) a" using ok r by (auto simp: auth_ok_def)
  qed
qed

end
