(* ===== verification/Governance_Invariant.thy ===== *)
theory Governance_Invariant
  imports Evidence_Chain
begin

text \<open>
  The invariant of the governed lifecycle (\<open>gov_inv\<close>): identifiers come from the supply and are
  not reused, memory and disk of every store agree (holds only up to the status that attribute
  assignment leaves unsaved), registered evaluators have identities, and the evidence fits
  together. Every entry point and every restart keeps it.
\<close>

section \<open>The invariant\<close>

definition issued :: "'w gov \<Rightarrow> ident set" where
  "issued st = g_uuid st ` {..<g_next st}"

definition evidence_of :: "'w gov \<Rightarrow> evidence" where
  "evidence_of st = \<lparr>ev_ids = issued st, ev_holds = mem (g_holds st), ev_records = mem (g_records st),
     ev_auths = mem (g_auths st), ev_audits = mem (g_audits st)\<rparr>"

definition row_rel :: "string option \<times> approval_hold \<Rightarrow> approval_hold \<Rightarrow> bool" where
  "row_rel row h \<longleftrightarrow> fst row = hold_key (snd row) \<and> hold_id (snd row) = hold_id h \<and>
     hold_prov (snd row) = hold_prov h \<and> hold_expires_at (snd row) = hold_expires_at h \<and>
     (hold_status (snd row) = Pending \<or> hold_status (snd row) = hold_status h)"

definition stores_ok :: "'w gov \<Rightarrow> bool" where
  "stores_ok st \<longleftrightarrow>
     backend (g_holds st) \<noteq> InMemory \<and> backend (g_records st) \<noteq> InMemory \<and>
     backend (g_auths st) \<noteq> InMemory \<and> backend (g_audits st) \<noteq> InMemory \<and>
     mirrored record_key (g_records st) \<and> mirrored auth_key (g_auths st) \<and>
     mirrored no_key (g_audits st) \<and> list_all2 row_rel (disk (g_holds st)) (mem (g_holds st))"

definition supply_ok :: "'w gov \<Rightarrow> bool" where
  "supply_ok st \<longleftrightarrow> inj (g_uuid st) \<and> (\<forall>n. g_uuid st n \<noteq> [])"

definition registry_ok :: "'w gov \<Rightarrow> bool" where
  "registry_ok st \<longleftrightarrow> (\<forall>d rg. g_registry st d = Some rg \<longrightarrow> rg_domain rg = d \<and>
     pe_id (rg_policy rg) \<noteq> [] \<and> pe_version (rg_policy rg) \<noteq> [] \<and>
     re_id (rg_risk rg) \<noteq> [] \<and> re_version (rg_risk rg) \<noteq> [])"

definition gov_inv :: "'w gov \<Rightarrow> bool" where
  "gov_inv st \<longleftrightarrow> supply_ok st \<and> stores_ok st \<and> registry_ok st \<and> evidence_ok (evidence_of st)"

lemmas inv_defs = gov_inv_def supply_ok_def stores_ok_def registry_ok_def

lemma row_rel_refl [simp]: "row_rel (row_of hold_key h) h"
  by (simp add: row_rel_def row_of_def)

lemma list_all2_append1: "list_all2 P xs ys \<Longrightarrow> P x y \<Longrightarrow> list_all2 P (xs @ [x]) (ys @ [y])"
  by (simp add: list_all2_appendI)

lemma rows_save:
  "list_all2 row_rel (disk s) (mem s) \<Longrightarrow> backend s \<noteq> InMemory \<Longrightarrow>
     list_all2 row_rel (disk (save hold_key h s)) (mem (save hold_key h s))"
  by (cases "backend s") (auto simp: save_def persist_def sql_insert_def list_all2_append1
      list_all2_map1 list_all2_same)

lemma rows_assign:
  assumes "list_all2 row_rel (disk s) (mem s)"
    and f: "\<And>x. x \<in> set (mem s) \<Longrightarrow> hold_id x = k \<Longrightarrow> hold_id (f x) = hold_id x \<and> hold_prov (f x) = hold_prov x \<and> hold_expires_at (f x) = hold_expires_at x \<and>
      (hold_status (f x) = hold_status x \<or> hold_status x = Pending)"
  shows "list_all2 row_rel (disk (assign_by hold_id k f s)) (mem (assign_by hold_id k f s))"
proof -
  have "list_all2 row_rel xs ys \<Longrightarrow> set ys \<subseteq> set (mem s) \<Longrightarrow> list_all2 row_rel xs (modify_first hold_id k f ys)" for xs ys
  proof (induction rule: list_all2_induct)
    case (Cons x xs y ys)
    then show ?case using f[of y] by (auto simp: row_rel_def)
  qed simp
  then show ?thesis using assms(1) by (simp add: mem_assign_by)
qed

lemma rows_update_by:
  assumes "list_all2 row_rel (disk s) (mem s)" and "backend s \<noteq> InMemory"
    and d: "distinct (List.map hold_id (mem s))" and f: "\<And>x. hold_id (f x) = hold_id x"
  shows "list_all2 row_rel (disk (update_by hold_id hold_key k f s)) (mem (update_by hold_id hold_key k f s))"
proof (cases "first_index (\<lambda>r. hold_id r = k) (mem s)")
  case None
  then show ?thesis using assms by (simp add: update_by_def)
next
  case (Some i)
  then have i: "i < length (mem s)" and k: "hold_id (mem s ! i) = k" by (auto dest: first_index_SomeD)
  show ?thesis
  proof (cases "backend s = Sqlite")
    case True
    have len: "length (disk s) = length (mem s)" using assms(1) by (rule list_all2_lengthD)
    have row: "row_rel (if fst (disk s ! j) = Some k then row_of hold_key (f (mem s ! i)) else disk s ! j)
        ((mem s)[i := f (mem s ! i)] ! j)" if j: "j < length (mem s)" for j
    proof -
      have r: "row_rel (disk s ! j) (mem s ! j)" using assms(1) j len by (simp add: list_all2_conv_all_nth)
      then have "fst (disk s ! j) = Some (hold_id (mem s ! j))" by (simp add: row_rel_def hold_key_def)
      moreover have "hold_id (mem s ! j) = k \<longleftrightarrow> j = i"
        using d i j k by (auto simp: distinct_conv_nth)
      ultimately show ?thesis using r i by (cases "j = i") simp_all
    qed
    show ?thesis using Some True row len k
      by (simp add: update_by_def commit_update_def sql_update_by_key_def list_all2_conv_all_nth Let_def hold_key_def)
  next
    case False
    with assms(2) have "backend s = JsonFile" by (cases "backend s") auto
    then show ?thesis using Some
      by (simp add: update_by_def commit_update_def persist_def Let_def list_all2_map1 list_all2_same)
  qed
qed

section \<open>Fresh identifiers\<close>

lemma issued_next [simp]: "issued (st\<lparr>g_next := Suc (g_next st)\<rparr>) = insert (g_uuid st (g_next st)) (issued st)"
  by (auto simp: issued_def lessThan_Suc)

lemma fresh_not_issued: "supply_ok st \<Longrightarrow> g_uuid st (g_next st) \<notin> issued st"
  by (auto simp: supply_ok_def issued_def inj_eq)

lemma issued_mono: "same_base st st' \<Longrightarrow> issued st \<subseteq> issued st'"
  by (auto simp: same_base_def issued_def)

lemma nil_not_issued: "supply_ok st \<Longrightarrow> [] \<notin> issued st"
  by (auto simp: supply_ok_def issued_def) metis

lemma fresh_inv:
  assumes "gov_inv st"
  shows "gov_inv (st\<lparr>g_next := Suc (g_next st)\<rparr>)"
proof -
  have "evidence_ok ((evidence_of st)\<lparr>ev_ids := issued (st\<lparr>g_next := Suc (g_next st)\<rparr>)\<rparr>)"
  proof (rule evidence_ids)
    show "[] \<notin> issued (st\<lparr>g_next := Suc (g_next st)\<rparr>)"
      by (rule nil_not_issued) (use assms in \<open>simp add: inv_defs\<close>)
  qed (use assms in \<open>auto simp: gov_inv_def evidence_of_def\<close>)
  then show ?thesis using assms by (simp add: inv_defs evidence_of_def)
qed

lemma inv_ids:
  assumes "gov_inv st"
  shows "hold_id ` set (mem (g_holds st)) \<subseteq> issued st" "ar_id ` set (mem (g_records st)) \<subseteq> issued st"
    "auth_id ` set (mem (g_auths st)) \<subseteq> issued st"
    "auth_approval_id ` set (mem (g_auths st)) \<subseteq> Some ` issued st"
    "au_authorization_id ` set (mem (g_audits st)) \<subseteq> issued st"
proof -
  have e: "evidence_ok (evidence_of st)" using assms by (simp add: gov_inv_def)
  show r: "hold_id ` set (mem (g_holds st)) \<subseteq> issued st" "ar_id ` set (mem (g_records st)) \<subseteq> issued st"
    "auth_id ` set (mem (g_auths st)) \<subseteq> issued st"
    using e by (simp_all add: evidence_defs evidence_of_def)
  show "auth_approval_id ` set (mem (g_auths st)) \<subseteq> Some ` issued st"
  proof (rule image_subsetI)
    fix a assume "a \<in> set (mem (g_auths st))"
    then have "auth_ok (mem (g_records st)) a" using e by (simp add: evidence_defs evidence_of_def)
    then show "auth_approval_id a \<in> Some ` issued st" using r(2) by (auto simp: auth_ok_def)
  qed
  show "au_authorization_id ` set (mem (g_audits st)) \<subseteq> issued st"
  proof (rule image_subsetI)
    fix u assume "u \<in> set (mem (g_audits st))"
    then have "audit_ok (mem (g_auths st)) u" using e by (simp add: evidence_defs evidence_of_def)
    then show "au_authorization_id u \<in> issued st" using r(3) audit_ok_auth by blast
  qed
qed

lemma inv_ext:
  assumes "gov_inv st" and "same_base st st'" and "g_audits st' = g_audits st" and "supply_ok st'"
  shows "gov_inv st'"
proof -
  have "evidence_ok ((evidence_of st)\<lparr>ev_ids := issued st'\<rparr>)"
    using assms nil_not_issued[OF assms(4)] issued_mono[OF assms(2)]
    by (intro evidence_ids) (simp_all add: gov_inv_def evidence_of_def)
  moreover have "(evidence_of st)\<lparr>ev_ids := issued st'\<rparr> = evidence_of st'"
    using assms(2,3) by (simp add: evidence_of_def same_base_def)
  ultimately show ?thesis using assms by (simp add: inv_defs same_base_def)
qed

lemma supply_same_base: "supply_ok st \<Longrightarrow> same_base st st' \<Longrightarrow> supply_ok st'"
  by (simp add: supply_ok_def same_base_def)

section \<open>Each step keeps it\<close>

lemma run_request_inv:
  assumes inv: "gov_inv st"
    and unused: "req_authorization_id r \<notin> au_authorization_id ` set (mem (g_audits st))"
  shows "gov_inv (snd (run_request r adapter st))" (is "gov_inv ?st")
proof -
  have base: "same_base st ?st" by (rule run_request_same_base)
  have sup: "supply_ok ?st" using inv supply_same_base[OF _ base] by (simp add: gov_inv_def)
  let ?st1 = "?st\<lparr>g_audits := g_audits st\<rparr>"
  have inv1: "gov_inv ?st1"
    by (rule inv_ext[OF inv]) (use base sup in \<open>simp_all add: same_base_def supply_ok_def\<close>)
  consider "g_audits ?st = g_audits st"
    | au ad where "g_audits ?st = save no_key au (g_audits st)" "cleared st r adapter ad"
        "au_authorization_id au = req_authorization_id r" "au_action_id au = req_action_id r"
        "au_adapter au = adapter" "au_prov au = (req_prov r)\<lparr>pv_adapter := Some adapter\<rparr>"
    using engine_audits[of r adapter st] by (auto simp: run_request_engine)
  then show ?thesis
  proof cases
    case 1
    have "?st1 = ?st" using 1 by simp
    with inv1 show ?thesis by simp
  next
    case (2 au ad)
    then obtain a where a: "get_auth (req_authorization_id r) st = Some a"
      "auth_action_id a = req_action_id r" "\<not> binding_mismatch a r adapter"
      by (auto simp: cleared_def gate_None)
    then have am: "a \<in> set (mem (g_auths st))" "auth_id a = req_authorization_id r"
      by (auto simp: get_auth_def get_by_def dest: find_SomeD)
    have "audit_ok (ev_auths (evidence_of ?st1)) au"
      using a am 2 base
      by (auto simp: audit_ok_def evidence_of_def same_base_def binding_mismatch_def Let_def)
    then have "evidence_ok ((evidence_of ?st1)\<lparr>ev_audits := ev_audits (evidence_of ?st1) @ [au]\<rparr>)"
      using inv1 2 unused by (intro evidence_audit) (simp_all add: gov_inv_def evidence_of_def)
    moreover have "(evidence_of ?st1)\<lparr>ev_audits := ev_audits (evidence_of ?st1) @ [au]\<rparr> = evidence_of ?st"
      using 2 by (simp add: evidence_of_def issued_def)
    ultimately show ?thesis
      using inv1 2(1) inv by (auto simp: inv_defs)
  qed
qed

lemma translate_state [simp]:
  "snd (translate_action_to_execution a k risk adapter p q st) = st\<lparr>g_next := Suc (g_next st)\<rparr>"
  "req_authorization_id (fst (translate_action_to_execution a k risk adapter p q st)) = k"
  by (simp_all add: translate_action_to_execution_def fresh_id_def Let_def)

text \<open>Saving a new authorization and running its request.\<close>

lemma authorized_run_inv:
  assumes inv: "gov_inv st" and k: "auth_id au \<in> issued st" "auth_id au \<notin> auth_id ` set (mem (g_auths st))"
    and once: "auth_approval_id au \<notin> auth_approval_id ` set (mem (g_auths st))"
    and ok: "auth_ok (mem (g_records st)) au"
    and r: "translate_action_to_execution a (auth_id au) risk ad p q (save_authorization au st) = (r, st2)"
  shows "gov_inv (snd (run_request r adapter st2))"
proof -
  let ?st1 = "save_authorization au st"
  have "evidence_ok ((evidence_of st)\<lparr>ev_auths := ev_auths (evidence_of st) @ [au]\<rparr>)"
    using assms by (intro evidence_auth) (simp_all add: gov_inv_def evidence_of_def)
  moreover have "(evidence_of st)\<lparr>ev_auths := ev_auths (evidence_of st) @ [au]\<rparr> = evidence_of ?st1"
    by (simp add: evidence_of_def save_authorization_def issued_def)
  ultimately have inv1: "gov_inv ?st1" using inv by (auto simp: inv_defs save_authorization_def)
  have st2: "st2 = ?st1\<lparr>g_next := Suc (g_next ?st1)\<rparr>" and rk: "req_authorization_id r = auth_id au"
    using arg_cong[OF r, of snd] arg_cong[OF r, of fst] translate_state(2)[of a "auth_id au" risk ad p q ?st1]
    by simp_all
  have unused: "auth_id au \<notin> au_authorization_id ` set (mem (g_audits st))"
  proof
    assume "auth_id au \<in> au_authorization_id ` set (mem (g_audits st))"
    then obtain u where u: "u \<in> set (mem (g_audits st))" "au_authorization_id u = auth_id au" by auto
    then have "audit_ok (mem (g_auths st)) u" using inv by (simp add: gov_inv_def evidence_of_def evidence_defs)
    then show False using k(2) u(2) audit_ok_auth by metis
  qed
  have "gov_inv st2" unfolding st2 by (rule fresh_inv[OF inv1])
  then show ?thesis
    by (rule run_request_inv) (use unused in \<open>simp add: rk st2 save_authorization_def\<close>)
qed


subsection \<open>\<open>execute_governed_action\<close>\<close>

lemma resolve_state:
  assumes "resolve_assessment st a adapter = Inr (asmt, st1)"
  shows "st1 = st\<lparr>g_next := Suc (g_next st)\<rparr>"
  using assms by (auto simp: resolve_assessment_def fresh_id_def result_simps Let_def split: prod.splits)

lemma record_decision_frame [simp]:
  "g_next (record_approval_decision a d dec who k p st) = g_next st"
  "g_uuid (record_approval_decision a d dec who k p st) = g_uuid st"
  "g_now (record_approval_decision a d dec who k p st) = g_now st"
  "g_sha (record_approval_decision a d dec who k p st) = g_sha st"
  "g_holds (record_approval_decision a d dec who k p st) = g_holds st"
  "g_auths (record_approval_decision a d dec who k p st) = g_auths st"
  "g_audits (record_approval_decision a d dec who k p st) = g_audits st"
  "g_world (record_approval_decision a d dec who k p st) = g_world st"
  "g_adapters (record_approval_decision a d dec who k p st) = g_adapters st"
  "g_registry (record_approval_decision a d dec who k p st) = g_registry st"
  by (simp_all add: record_approval_decision_def Let_def)

lemma record_inv:
  assumes inv: "gov_inv st" and k: "ad_id d \<in> issued st" "ad_id d \<notin> ar_id ` set (mem (g_records st))"
  shows "gov_inv (record_approval_decision a d dec who None p st)" (is "gov_inv ?st")
proof -
  obtain rec where r: "?st = st\<lparr>g_records := save record_key rec (g_records st)\<rparr>" "ar_id rec = ad_id d"
    by (simp add: record_approval_decision_def Let_def)
  have "evidence_ok ((evidence_of st)\<lparr>ev_records := ev_records (evidence_of st) @ [rec]\<rparr>)"
    using assms r(2) by (intro evidence_record) (simp_all add: gov_inv_def evidence_of_def)
  moreover have "(evidence_of st)\<lparr>ev_records := ev_records (evidence_of st) @ [rec]\<rparr> = evidence_of ?st"
    by (simp add: r(1) evidence_of_def issued_def)
  ultimately show ?thesis using inv r(1) by (auto simp: inv_defs)
qed

lemma hold_inv:
  assumes inv: "gov_inv st" and k: "hold_id h \<in> issued st" "hold_id h \<notin> hold_id ` set (mem (g_holds st))"
      "hold_id h \<notin> ar_id ` set (mem (g_records st))"
    and h: "hold_status h = Pending"
    and r: "ar_id r = hold_id h" "ar_decision r = ''manual_required''" "ar_digest r = pv_digest (hold_prov h)"
  shows "gov_inv (st\<lparr>g_holds := save hold_key h (g_holds st), g_records := save record_key r (g_records st)\<rparr>)"
    (is "gov_inv ?st")
proof -
  have "evidence_ok ((evidence_of st)\<lparr>ev_holds := ev_holds (evidence_of st) @ [h],
      ev_records := ev_records (evidence_of st) @ [r]\<rparr>)"
    using assms by (intro evidence_hold) (simp_all add: gov_inv_def evidence_of_def)
  moreover have "(evidence_of st)\<lparr>ev_holds := ev_holds (evidence_of st) @ [h],
      ev_records := ev_records (evidence_of st) @ [r]\<rparr> = evidence_of ?st"
    by (simp add: evidence_of_def issued_def)
  ultimately show ?thesis using inv by (auto simp: inv_defs intro: rows_save[unfolded mem_save])
qed

text \<open>The states between the random ids of one call.\<close>

abbreviation after_ids :: "nat \<Rightarrow> 'w gov \<Rightarrow> 'w gov" where
  "after_ids n st \<equiv> st\<lparr>g_next := g_next st + n\<rparr>"

lemma after_ids_inv: "gov_inv st \<Longrightarrow> gov_inv (after_ids n st)"
proof (induction n)
  case (Suc n)
  then show ?case using fresh_inv[of "after_ids n st"] by simp
qed simp

lemma new_id:
  assumes "gov_inv st"
  shows "g_uuid st (g_next st + n) \<notin> issued st" "g_uuid st (g_next st + n) \<noteq> []"
    "m < n \<Longrightarrow> g_uuid st (g_next st + m) \<in> issued (after_ids n st)"
  using assms by (auto simp: gov_inv_def supply_ok_def issued_def inj_eq)

lemma hold_decision_inv:
  assumes inv: "gov_inv st" and h: "hold_for_manual_approval a d adapter risk p st = (h, st1)"
  shows "gov_inv (record_approval_decision a d ''manual_required'' who (Some (hold_id h)) p st1)"
proof -
  let ?k = "g_uuid st (g_next st)"
  let ?st = "st\<lparr>g_next := Suc (g_next st)\<rparr>"
  have hf: "hold_id h = ?k" "hold_status h = Pending" "pv_digest (hold_prov h) = pv_digest (prov_or_absent p)"
    "st1 = ?st\<lparr>g_holds := save hold_key h (g_holds st)\<rparr>"
    using h by (auto simp: hold_for_manual_approval_def fresh_id_def Let_def)
  have k: "?k \<notin> issued st" "?k \<noteq> []" "?k \<in> issued ?st"
    using new_id(1,2)[OF inv, of 0] by simp_all
  obtain r where r: "record_approval_decision a d ''manual_required'' who (Some ?k) p st1
      = st1\<lparr>g_records := save record_key r (g_records st1)\<rparr>"
    "ar_id r = ?k" "ar_decision r = ''manual_required''" "ar_digest r = pv_digest (prov_or_absent p)"
    using k(2) by (simp add: record_approval_decision_def Let_def)
  have "gov_inv (?st\<lparr>g_holds := save hold_key h (g_holds ?st), g_records := save record_key r (g_records ?st)\<rparr>)"
    by (rule hold_inv[OF fresh_inv[OF inv]]) (use k hf r inv_ids(1,2)[OF inv] in auto)
  then show ?thesis unfolding hf(1) r(1) by (simp add: hf(4))
qed

lemma execute_inv:
  assumes inv: "gov_inv st"
  shows "gov_inv (snd (execute_governed_action a adapter st))"
proof (cases "resolve_assessment st a adapter")
  case (Inl e)
  then show ?thesis using inv by (cases e) (simp_all add: execute_governed_action_def)
next
  case (Inr x)
  obtain asmt st1 where x: "resolve_assessment st a adapter = Inr (asmt, st1)" using Inr by (cases x) simp
  have st1: "st1 = after_ids 1 st" using resolve_state[OF x] by simp
  define prov where "prov = asm_prov asmt"
  define d where "d = evaluate_approval (g_uuid st (g_next st + 1)) a (asm_policy asmt) (asm_risk asmt)"
  let ?st2 = "after_ids 2 st"
  have pa: "process_approval a (asm_policy asmt) (asm_risk asmt) st1 = (d, ?st2)"
    by (simp add: process_approval_def fresh_id_def st1 d_def)
  have did: "ad_id d = g_uuid st (g_next st + 1)" by (simp add: d_def)
  have dnew: "ad_id d \<in> issued ?st2" "ad_id d \<notin> issued st" using new_id(1)[OF inv, of 1] new_id(3)[OF inv, of 1 2] by (simp_all add: did)
  then have drec: "ad_id d \<notin> ar_id ` set (mem (g_records st))" using inv_ids[OF inv] by blast
  note step = execute_governed_action_def[of a adapter st] x pa
  consider (denied) "\<not> pol_allowed (asm_policy asmt)"
    | (reject) "pol_allowed (asm_policy asmt)" "ad_mode d = Reject"
    | (manual) "pol_allowed (asm_policy asmt)" "ad_mode d = Manual"
    | (auto) "pol_allowed (asm_policy asmt)" "ad_mode d = Auto"
    by (cases "ad_mode d") auto
  then show ?thesis
  proof cases
    case denied
    then show ?thesis using after_ids_inv[OF inv, of 1] by (simp add: step st1 Let_def)
  next
    case reject
    have "gov_inv (record_approval_decision a d dec who None p ?st2)" for dec who p
      by (rule record_inv) (use after_ids_inv[OF inv, of 2] dnew drec in simp_all)
    then show ?thesis using reject by (simp add: step Let_def)
  next
    case manual
    obtain h st3 where h: "hold_for_manual_approval a d adapter (Some (rk_level (asm_risk asmt)))
        (Some prov) ?st2 = (h, st3)" by fastforce
    show ?thesis using manual hold_decision_inv[OF after_ids_inv[OF inv] h]
      by (simp add: step Let_def h[unfolded prov_def, simplified] prov_def)
  next
    case auto
    let ?st3 = "record_approval_decision a d ''approved'' ''approval_policy'' None (Some prov) ?st2"
    let ?st4 = "?st3\<lparr>g_next := Suc (g_next ?st3)\<rparr>"
    obtain au where au: "create_execution_authorization a d (Some prov) ?st3 = (Some au, ?st4)"
      and f: "auth_id au = g_uuid st (g_next st + 2)" "auth_status au = ''approved''"
        "auth_approval_id au = Some (ad_id d)" "pv_digest (auth_prov au) = pv_digest prov"
      using auto approved_iff_auto[of "g_uuid st (g_next st + 1)" a "asm_policy asmt" "asm_risk asmt"]
      by (simp add: create_execution_authorization_def fresh_id_def Let_def d_def prov_or_absent_def
          record_approval_decision_def)
    have frm: "g_next ?st3 = g_next st + 2" "g_uuid ?st3 = g_uuid st" "g_auths ?st3 = g_auths st"
      by simp_all
    have inv3: "gov_inv ?st3" by (rule record_inv) (use after_ids_inv[OF inv, of 2] dnew drec in simp_all)
    have inv4: "gov_inv ?st4" by (rule fresh_inv[OF inv3])
    have new1: "auth_id au \<in> issued ?st4" by (simp add: f frm issued_def)
    have new: "auth_id au \<notin> auth_id ` set (mem (g_auths ?st4))"
      using new_id(1)[OF inv, of 2] inv_ids(3)[OF inv] by (auto simp: f frm)
    have once: "auth_approval_id au \<notin> auth_approval_id ` set (mem (g_auths ?st4))"
      using inv_ids(4)[OF inv] dnew(2) by (auto simp: f frm)
    have ok: "auth_ok (mem (g_records ?st4)) au"
      by (simp add: auth_ok_def f record_approval_decision_def prov_or_absent_def Let_def)
    obtain r st5 where tr: "translate_action_to_execution a (auth_id au) (Some (rk_level (asm_risk asmt)))
        (Some adapter) (Some prov) None (save_authorization au ?st4) = (r, st5)" by fastforce
    have "gov_inv (snd (run_request r adapter st5))"
      by (rule authorized_run_inv[OF inv4 new1 new once ok tr])
    moreover obtain out st6 where rr: "run_request r adapter st5 = (out, st6)" by fastforce
    moreover have "snd (execute_authorized a adapter asmt au ?st4) = st6"
      using tr rr by (cases out) (simp_all add: execute_authorized_def Let_def prov_def split: prod.split)
    ultimately show ?thesis using auto
      by (simp add: step au[simplified] Let_def flip: prov_def)
  qed
qed

subsection \<open>\<open>approve_held_action\<close>\<close>

lemma set_hold_frame [simp]:
  "g_next (set_hold k f st) = g_next st" "g_uuid (set_hold k f st) = g_uuid st"
  "g_now (set_hold k f st) = g_now st" "g_sha (set_hold k f st) = g_sha st"
  "g_records (set_hold k f st) = g_records st" "g_auths (set_hold k f st) = g_auths st"
  "g_audits (set_hold k f st) = g_audits st" "g_world (set_hold k f st) = g_world st"
  "g_traces (set_hold k f st) = g_traces st" "g_verifs (set_hold k f st) = g_verifs st"
  "g_registry (set_hold k f st) = g_registry st" "g_adapters (set_hold k f st) = g_adapters st"
  by (simp_all add: set_hold_def)

lemma update_record_frame [simp]:
  "g_next (update_record k dec who st) = g_next st" "g_uuid (update_record k dec who st) = g_uuid st"
  "g_now (update_record k dec who st) = g_now st" "g_sha (update_record k dec who st) = g_sha st"
  "g_holds (update_record k dec who st) = g_holds st" "g_auths (update_record k dec who st) = g_auths st"
  "g_audits (update_record k dec who st) = g_audits st" "g_world (update_record k dec who st) = g_world st"
  "g_traces (update_record k dec who st) = g_traces st" "g_verifs (update_record k dec who st) = g_verifs st"
  "g_registry (update_record k dec who st) = g_registry st" "g_adapters (update_record k dec who st) = g_adapters st"
  by (simp_all add: update_record_def)

lemma set_hold_evidence:
  "evidence_of (set_hold k f st) = (evidence_of st)\<lparr>ev_holds := modify_first hold_id k f (mem (g_holds st))\<rparr>"
  by (simp add: evidence_of_def issued_def set_hold_def mem_assign_by)

lemma update_record_evidence:
  "evidence_of (update_record k dec who st) =
     (evidence_of st)\<lparr>ev_records := modify_first ar_id k (decide dec who) (mem (g_records st))\<rparr>"
  by (simp add: evidence_of_def issued_def update_record_def mem_update_by decide_def[abs_def])

lemma set_hold_stores:
  assumes "stores_ok st"
    and "\<And>x. x \<in> set (mem (g_holds st)) \<Longrightarrow> hold_id x = k \<Longrightarrow> hold_id (f x) = hold_id x \<and> hold_prov (f x) = hold_prov x \<and> hold_expires_at (f x) = hold_expires_at x \<and>
      (hold_status (f x) = hold_status x \<or> hold_status x = Pending)"
  shows "stores_ok (set_hold k f st)"
  using assms rows_assign[of "g_holds st" k f] by (simp add: stores_ok_def set_hold_def)

lemma update_record_stores:
  assumes "stores_ok st" and "distinct (List.map ar_id (mem (g_records st)))"
  shows "stores_ok (update_record k dec who st)"
proof -
  have "distinct (List.map record_key (mem (g_records st)))"
    using assms(2) by (simp add: record_key_def distinct_map inj_on_def)
  then have "mirrored record_key (update_by ar_id record_key k
      (\<lambda>r. r\<lparr>ar_decision := dec, ar_approved_by := who\<rparr>) (g_records st))"
    using assms(1) by (intro mirrored_update_by) (simp_all add: stores_ok_def record_key_def)
  then show ?thesis using assms(1) by (simp add: stores_ok_def update_record_def)
qed

lemma hold_unique:
  assumes "gov_inv st" and "get_hold k st = Some h" and "x \<in> set (mem (g_holds st))" and "hold_id x = k"
  shows "x = h"
proof (rule same_hold[of "evidence_of st"])
  have h: "hold_id h = k \<and> h \<in> set (mem (g_holds st))"
    using find_SomeD[OF assms(2)[unfolded get_hold_def get_by_def]] .
  then show "h \<in> set (ev_holds (evidence_of st))" "hold_id x = hold_id h"
    using assms(4) by (simp_all add: evidence_of_def)
qed (use assms in \<open>simp_all add: gov_inv_def evidence_of_def\<close>)

lemma pending_inv:
  assumes inv: "gov_inv st" and h: "get_hold k st = Some h" "hold_status h = Pending"
    and f: "hold_id (f h) = k" "hold_prov (f h) = hold_prov h" "hold_expires_at (f h) = hold_expires_at h" "hold_status (f h) = Rejected"
  shows "gov_inv (set_hold k f st)"
proof -
  have k: "hold_id h = k" using h by (auto simp: get_hold_def get_by_def dest: find_SomeD)
  note one = hold_unique[OF inv h(1)]
  have "stores_ok (set_hold k f st)"
    by (rule set_hold_stores) (use inv h f k one in \<open>auto simp: gov_inv_def\<close>)
  moreover have "evidence_ok (evidence_of (set_hold k f st))"
    unfolding set_hold_evidence
    using evidence_holds_map[of "evidence_of st" k f] inv h f k one
    by (auto simp: gov_inv_def evidence_of_def)
  ultimately show ?thesis using inv by (simp add: inv_defs)
qed

lemma resolve_inv:
  assumes inv: "gov_inv st" and h: "get_hold k st = Some h" "hold_status h = Pending"
    and f: "hold_id (f h) = k" "hold_prov (f h) = hold_prov h" "hold_expires_at (f h) = hold_expires_at h" "hold_status (f h) = s"
    and s: "(s = Approved \<and> dec = ''approved'') \<or> (s = Rejected \<and> dec = ''rejected'')"
  shows "gov_inv (update_record k dec who (set_hold k f st))"
proof -
  have k: "hold_id h = k" and m: "h \<in> set (mem (g_holds st))"
    using h by (auto simp: get_hold_def get_by_def dest: find_SomeD)
  note one = hold_unique[OF inv h(1)]
  have e: "evidence_ok (evidence_of st)" using inv by (simp add: gov_inv_def)
  have "stores_ok (set_hold k f st)"
    by (rule set_hold_stores) (use inv h f k one in \<open>auto simp: gov_inv_def\<close>)
  then have "stores_ok (update_record k dec who (set_hold k f st))"
    by (rule update_record_stores) (use e in \<open>simp add: evidence_defs evidence_of_def\<close>)
  moreover have "evidence_ok (evidence_of (update_record k dec who (set_hold k f st)))"
    unfolding update_record_evidence set_hold_evidence
    using evidence_resolve[OF e _ h(2), of f s dec who] f s m k by (simp add: evidence_of_def)
  ultimately show ?thesis using inv by (simp add: inv_defs)
qed

lemma approve_inv:
  assumes inv: "gov_inv st"
  shows "gov_inv (snd (approve_held_action k who ok st))"
proof (cases "get_hold k st")
  case None
  then show ?thesis using inv by (simp add: approve_held_action_def)
next
  case (Some h)
  have e: "evidence_ok (evidence_of st)" using inv by (simp add: gov_inv_def)
  have k: "hold_id h = k" and m: "h \<in> set (mem (g_holds st))"
    using Some by (auto simp: get_hold_def get_by_def dest: find_SomeD)
  have rej: "hold_status h = Pending \<Longrightarrow> gov_inv (set_hold k (\<lambda>x. x\<lparr>hold_status := Rejected\<rparr>) st)"
    by (rule pending_inv[OF inv Some]) (simp_all add: k)
  have rej2: "hold_status h = Pending \<Longrightarrow>
      gov_inv (update_record k ''rejected'' who (set_hold k (\<lambda>x. x\<lparr>hold_status := Rejected\<rparr>) st))"
    by (rule resolve_inv[OF inv Some]) (simp_all add: k)
  have "gov_inv (snd (resume_hold h who st))" if p: "hold_status h = Pending"
  proof -
    let ?f = "\<lambda>x. x\<lparr>hold_status := Approved, hold_approved_by := Some who\<rparr>"
    let ?st2 = "update_record k ''approved'' who (set_hold k ?f st)"
    let ?st3 = "?st2\<lparr>g_next := Suc (g_next ?st2)\<rparr>"
    have inv2: "gov_inv ?st2" by (rule resolve_inv[OF inv Some p]) (simp_all add: k)
    have inv3: "gov_inv ?st3" by (rule fresh_inv[OF inv2])
    obtain au where au: "create_manual_authorization (hold_action h) who (hold_reason h) (Some k) h ?st2 = (au, ?st3)"
      and f: "auth_id au = g_uuid st (g_next st)" "auth_status au = ''approved''"
        "auth_approval_id au = Some k" "pv_digest (auth_prov au) = pv_digest (hold_prov h)"
      by (simp add: create_manual_authorization_def fresh_id_def Let_def)
    have new1: "auth_id au \<in> issued ?st3" by (simp add: f issued_def)
    have new: "auth_id au \<notin> auth_id ` set (mem (g_auths ?st3))"
      using new_id(1)[OF inv, of 0] inv_ids(3)[OF inv] by (auto simp: f)
    obtain r where r: "r \<in> set (mem (g_records st))" "ar_id r = k"
      using e m k by (fastforce simp: evidence_of_def evidence_defs hold_ok_def)
    have rd: "ar_digest r = pv_digest (hold_prov h)" "ar_decision r = ''manual_required''"
      using hold_record[OF e, of h r] m r k p by (simp_all add: evidence_of_def)
    have once: "auth_approval_id au \<notin> auth_approval_id ` set (mem (g_auths ?st3))"
    proof
      assume "auth_approval_id au \<in> auth_approval_id ` set (mem (g_auths ?st3))"
      then obtain a where a: "a \<in> set (mem (g_auths st))" "auth_approval_id a = Some k" by (auto simp: f)
      then have "auth_ok (mem (g_records st)) a" using e by (simp add: evidence_defs evidence_of_def)
      then obtain r' where r': "r' \<in> set (mem (g_records st))" "ar_id r' = k" "ar_decision r' = ''approved''"
        using a(2) by (auto simp: auth_ok_def)
      have "r' = r" using same_record[OF e, of r' r] r r' by (simp add: evidence_of_def)
      with rd(2) r'(3) show False by simp
    qed
    have "decide ''approved'' who r \<in> set (mem (g_records ?st2))"
    proof -
      have "distinct (List.map ar_id (mem (g_records st)))" using e by (simp add: evidence_defs evidence_of_def)
      then have "mem (g_records ?st2) = List.map (\<lambda>x. if ar_id x = k then decide ''approved'' who x else x) (mem (g_records st))"
        by (simp add: update_record_def mem_update_by modify_first_distinct decide_def)
      with r show ?thesis by force
    qed
    then have ok: "auth_ok (mem (g_records ?st3)) au"
      using rd r by (auto simp: auth_ok_def f decide_def intro!: bexI[rotated])
    obtain q st5 where tr: "translate_action_to_execution (hold_action h) (auth_id au) (hold_risk h)
        (Some (hold_adapter h)) None (Some (hold_prov h)) (save_authorization au ?st3) = (q, st5)" by fastforce
    have fin: "gov_inv (snd (run_request q (hold_adapter h) st5))"
      by (rule authorized_run_inv[OF inv3 new1 new once ok tr])
    obtain out st6 where rr: "run_request q (hold_adapter h) st5 = (out, st6)" by fastforce
    have "snd (resume_hold h who st) = st6"
      using au tr rr by (cases out) (simp_all add: resume_hold_def Let_def k split: prod.split)
    then show ?thesis using fin rr by simp
  qed
  then show ?thesis using inv Some rej rej2 by (simp add: approve_held_action_def split: option.split)
qed


subsection \<open>A restart\<close>

lemma rows_mem_disk: "list_all2 row_rel (disk s) (mem s) \<Longrightarrow> backend s \<noteq> InMemory \<Longrightarrow>
    list_all2 row_rel (disk (reopen s)) (mem (reopen s))"
  by (auto simp: reopen_def load_def list_all2_map2 list_all2_same row_rel_def list_all2_conv_all_nth)

lemma reopen_others:
  assumes "stores_ok st"
  shows "g_records (reopen_stores st) = g_records st" "g_auths (reopen_stores st) = g_auths st"
    "g_audits (reopen_stores st) = g_audits st"
  using assms by (auto simp: reopen_stores_def stores_ok_def intro: reopen_mirrored)

lemma reopen_holds: "stores_ok st \<Longrightarrow> mem (g_holds (reopen_stores st)) = List.map snd (disk (g_holds st))"
  by (simp add: reopen_stores_def stores_ok_def reopen_def load_def)

lemma reopened_rows:
  assumes "stores_ok st"
  shows "list_all2 (\<lambda>y x. hold_id y = hold_id x \<and> hold_prov y = hold_prov x \<and>
      hold_expires_at y = hold_expires_at x \<and> (hold_status y = Pending \<or> hold_status y = hold_status x)) (mem (g_holds (reopen_stores st))) (mem (g_holds st))"
  using assms by (auto simp: reopen_holds list_all2_map1 stores_ok_def row_rel_def elim: list_all2_mono)

text \<open>The hold a restart leaves in place of each hold there was.\<close>

lemma fold_reconcile_rows:
  assumes "list_all2 row_rel (disk (g_holds st)) (mem (g_holds st))" and "backend (g_holds st) \<noteq> InMemory"
    and "distinct (List.map hold_id (mem (g_holds st)))"
  shows "let st' = fst (fold reconcile_hold hs (st, ids)) in
    list_all2 row_rel (disk (g_holds st')) (mem (g_holds st')) \<and> backend (g_holds st') = backend (g_holds st)"
  using assms
proof (induction hs arbitrary: st ids)
  case (Cons h hs)
  obtain st1 ids1 where s: "reconcile_hold h (st, ids) = (st1, ids1)" by fastforce
  show ?case
  proof (cases "hold_resolution st h")
    case None
    then have "st1 = st" using s by (simp add: reconcile_hold_def)
    then show ?thesis using Cons.IH[OF Cons.prems, of ids1] by (simp add: s)
  next
    case (Some x)
    obtain c who where x: "x = (c, who)" by (cases x)
    have g: "g_holds st1 = update_by hold_id hold_key (hold_id h) (correct_hold c who h) (g_holds st)"
      using s Some x by (auto simp: reconcile_hold_def)
    have f: "\<And>y. hold_id (correct_hold c who h y) = hold_id y" by (simp add: correct_hold_def)
    have "list_all2 row_rel (disk (g_holds st1)) (mem (g_holds st1))"
      unfolding g using Cons.prems f by (intro rows_update_by)
    moreover have "backend (g_holds st1) = backend (g_holds st)" by (simp add: g)
    moreover have "List.map hold_id (mem (g_holds st1)) = List.map hold_id (mem (g_holds st))"
      unfolding g mem_update_by by (rule map_modify_first[of hold_id "correct_hold c who h", OF f])
    ultimately show ?thesis using Cons.IH[of st1 ids1] Cons.prems by (simp add: s)
  qed
qed simp

lemma restart_inv:
  assumes inv: "gov_inv st"
  shows "gov_inv (restart st)"
proof -
  let ?st1 = "reopen_stores st"
  have st: "stores_ok st" and e: "evidence_ok (evidence_of st)" using inv by (simp_all add: gov_inv_def)
  have rows1: "list_all2 row_rel (disk (g_holds ?st1)) (mem (g_holds ?st1))"
    using rows_mem_disk st by (simp add: stores_ok_def reopen_stores_def)
  have same: "g_uuid ?st1 = g_uuid st" "g_next ?st1 = g_next st" "g_registry ?st1 = g_registry st"
    by (simp_all add: reopen_stores_def)
  note recs = reopen_others[OF st]
  have ids: "List.map hold_id (mem (g_holds ?st1)) = List.map hold_id (mem (g_holds st))"
    using reopened_rows[OF st] by (induction rule: list_all2_induct) auto
  have d: "distinct (List.map hold_id (mem (g_holds ?st1)))"
    using e by (simp add: ids evidence_defs evidence_of_def)
  have b: "backend (g_holds ?st1) \<noteq> InMemory" using st by (simp add: stores_ok_def reopen_stores_def)
  have rows2: "list_all2 row_rel (disk (g_holds (restart st))) (mem (g_holds (restart st)))"
      "backend (g_holds (restart st)) \<noteq> InMemory"
    using fold_reconcile_rows[OF rows1 b d, of "mem (g_holds ?st1)" "[]"] b
    by (simp_all add: restart_eq reconcile_holds_def Let_def)
  have m: "mem (g_holds (restart st)) = List.map (settled_hold ?st1) (mem (g_holds ?st1))"
    by (simp add: restart_eq reconcile_mem[OF d])
  have ok: "hold_ok (mem (g_records st)) (settled_hold ?st1 y)" if y: "y \<in> set (mem (g_holds ?st1))" for y
  proof -
    obtain x where x: "x \<in> set (mem (g_holds st))" "hold_id y = hold_id x" "hold_prov y = hold_prov x"
      "hold_status y = Pending \<or> hold_status y = hold_status x"
      using reopened_rows[OF st] y by (auto simp: list_all2_conv_all_nth in_set_conv_nth) blast
    have "hold_ok (mem (g_records st)) x" using e x(1) by (simp add: evidence_defs evidence_of_def)
    then obtain r where r: "r \<in> set (mem (g_records st))" "ar_id r = hold_id x" by (auto simp: hold_ok_def)
    note hr = hold_record[OF e, of x r, unfolded evidence_of_def evidence.simps, OF x(1) r]
    have "distinct (List.map ar_id (mem (g_records st)))" using e by (simp add: evidence_defs evidence_of_def)
    then have "get_record (hold_id y) ?st1 = Some r"
      using find_unique[of ar_id "mem (g_records st)" r] r by (simp add: get_record_def get_by_def recs x(2))
    then have "hold_ok [r] (settled_hold ?st1 y)"
      using hr r(2) x by (auto simp: hold_ok_def settled_hold_def hold_resolution_def terminal_status_def correct_hold_def)
    then show ?thesis by (rule hold_ok_mono) (use r in simp)
  qed
  have "evidence_ok ((evidence_of st)\<lparr>ev_holds := mem (g_holds (restart st)), ev_records := mem (g_records st)\<rparr>)"
    by (rule evidence_rewrite[OF e])
      (use ok e in \<open>auto simp: m ids evidence_of_def evidence_defs o_def\<close>)
  moreover have "(evidence_of st)\<lparr>ev_holds := mem (g_holds (restart st)), ev_records := mem (g_records st)\<rparr>
      = evidence_of (restart st)"
    by (simp add: evidence_of_def issued_def restart_eq same recs)
  ultimately show ?thesis
    using inv rows2 st by (simp add: inv_defs restart_eq same recs)
qed


section \<open>Reachable states\<close>

text \<open>
  One step: an entry point is called, the caller changes the action object a hold still refers
  to (the source keeps the caller's object), a domain or an adapter is registered, the clock
  moves on, the world changes by itself, the process restarts, or a layer above the core draws an
  identifier or saves a verification result.
\<close>

inductive gov_step :: "'w gov \<Rightarrow> 'w gov \<Rightarrow> bool" where
  step_execute: "execute_governed_action a adapter st = (out, st') \<Longrightarrow> gov_step st st'"
| step_approve: "approve_held_action k who ok st = (out, st') \<Longrightarrow> gov_step st st'"
| step_mutate: "gov_step st (set_hold k (\<lambda>h. h\<lparr>hold_action := f (hold_action h)\<rparr>) st)"
| step_domain: "register_domain rg st = Inr st' \<Longrightarrow> gov_step st st'"
| step_adapter: "gov_step st (register_adapter name ad st)"
| step_tick: "0 \<le> dt \<Longrightarrow> gov_step st (st\<lparr>g_now := g_now st + dt\<rparr>)"
| step_world: "gov_step st (st\<lparr>g_world := w\<rparr>)"
| step_restart: "gov_step st (restart st)"
| step_id: "gov_step st (snd (fresh_id st))"
| step_verif: "gov_step st (st\<lparr>g_verifs := save verification_key v (g_verifs st)\<rparr>)"

inductive_cases gov_stepE: "gov_step st st'"

text \<open>A new deployment: empty stores on disk and an identifier supply without repetition.\<close>

definition fresh_start :: "'w gov \<Rightarrow> bool" where
  "fresh_start st \<longleftrightarrow> (\<exists>b. b \<noteq> InMemory \<and> g_holds st = empty_store b \<and> g_records st = empty_store b \<and>
     g_auths st = empty_store b \<and> g_audits st = empty_store b \<and> g_traces st = empty_store b \<and> g_verifs st = empty_store b) \<and>
     g_next st = 0 \<and> inj (g_uuid st) \<and> (\<forall>n. g_uuid st n \<noteq> []) \<and> g_registry st = (\<lambda>d. None)"

inductive gov_reachable :: "'w gov \<Rightarrow> bool" where
  reach_start: "fresh_start st \<Longrightarrow> gov_reachable st"
| reach_step: "gov_reachable st \<Longrightarrow> gov_step st st' \<Longrightarrow> gov_reachable st'"

lemma start_inv: "fresh_start st \<Longrightarrow> gov_inv st"
  by (auto simp: fresh_start_def inv_defs evidence_of_def evidence_defs empty_store_def issued_def mirrored_def)

lemma register_domain_inv: "gov_inv st \<Longrightarrow> register_domain rg st = Inr st' \<Longrightarrow> gov_inv st'"
  by (auto simp: register_domain_def inv_defs evidence_of_def issued_def split: if_splits)

lemma mutate_inv:
  assumes inv: "gov_inv st"
  shows "gov_inv (set_hold k (\<lambda>h. h\<lparr>hold_action := f (hold_action h)\<rparr>) st)"
proof -
  have "stores_ok (set_hold k (\<lambda>h. h\<lparr>hold_action := f (hold_action h)\<rparr>) st)"
    by (rule set_hold_stores) (use inv in \<open>simp_all add: gov_inv_def\<close>)
  moreover have "evidence_ok (evidence_of (set_hold k (\<lambda>h. h\<lparr>hold_action := f (hold_action h)\<rparr>) st))"
    unfolding set_hold_evidence
    using evidence_holds_map[of "evidence_of st" k "\<lambda>h. h\<lparr>hold_action := f (hold_action h)\<rparr>"] inv
    by (simp add: gov_inv_def evidence_of_def)
  ultimately show ?thesis using inv by (simp add: inv_defs)
qed

lemma step_inv: "gov_step st st' \<Longrightarrow> gov_inv st \<Longrightarrow> gov_inv st'"
proof (induction rule: gov_step.induct)
  case (step_execute a adapter st out st')
  then show ?case using execute_inv[of st a adapter] by simp
next
  case (step_approve k who ok st out st')
  then show ?case using approve_inv[of st k who ok] by simp
next
  case (step_adapter st name ad)
  then show ?case by (simp add: register_adapter_def inv_defs evidence_of_def issued_def)
next
  case (step_tick dt st)
  then show ?case by (simp add: inv_defs evidence_of_def issued_def)
next
  case (step_world st w)
  then show ?case by (simp add: inv_defs evidence_of_def issued_def)
next
  case (step_id st)
  then show ?case using fresh_inv by (simp add: fresh_id_def)
next
  case (step_verif st v)
  then show ?case by (simp add: inv_defs evidence_of_def issued_def)
qed (auto intro: mutate_inv register_domain_inv restart_inv)

lemma reachable_inv: "gov_reachable st \<Longrightarrow> gov_inv st"
  by (induction rule: gov_reachable.induct) (auto intro: start_inv step_inv)

text \<open>What an audit record rests on.\<close>

lemma audit_evidence:
  assumes "gov_reachable st" and "u \<in> set (mem (g_audits st))"
  obtains a r where "get_auth (au_authorization_id u) st = Some a" "auth_status a = ''approved''"
    "auth_action_id a = au_action_id u" "pv_adapter (auth_prov a) = Some (au_adapter u)"
    "pv_digest (auth_prov a) = pv_digest (au_prov u)" "auth_approval_id a = Some (ar_id r)"
    "get_record (ar_id r) st = Some r" "ar_decision r = ''approved''" "ar_digest r = pv_digest (au_prov u)"
proof -
  have e: "evidence_ok (evidence_of st)" using reachable_inv[OF assms(1)] by (simp add: gov_inv_def)
  have "audit_ok (mem (g_auths st)) u" using e assms(2) by (simp add: evidence_defs evidence_of_def)
  then obtain a where a: "a \<in> set (mem (g_auths st))" "auth_id a = au_authorization_id u"
    "auth_action_id a = au_action_id u" "pv_digest (auth_prov a) = pv_digest (au_prov u)"
    "pv_adapter (auth_prov a) = Some (au_adapter u)" by (auto simp: audit_ok_def)
  have "auth_ok (mem (g_records st)) a" using e a(1) by (simp add: evidence_defs evidence_of_def)
  then obtain r where r: "auth_status a = ''approved''" "r \<in> set (mem (g_records st))"
    "auth_approval_id a = Some (ar_id r)" "ar_decision r = ''approved''" "ar_digest r = pv_digest (auth_prov a)"
    by (auto simp: auth_ok_def)
  have "get_auth (au_authorization_id u) st = Some a"
    using e a(1) find_unique[of auth_id "mem (g_auths st)" a]
    by (simp add: get_auth_def get_by_def evidence_defs evidence_of_def flip: a(2))
  moreover have "get_record (ar_id r) st = Some r"
    using e r(2) find_unique[of ar_id "mem (g_records st)" r]
    by (simp add: get_record_def get_by_def evidence_defs evidence_of_def)
  ultimately show thesis using a r by (intro that[of a r]) simp_all
qed

lemma used_once_reachable:
  assumes "gov_reachable st"
  shows "distinct (List.map auth_approval_id (mem (g_auths st)))" "distinct (List.map au_authorization_id (mem (g_audits st)))"
  using reachable_inv[OF assms] by (simp_all add: gov_inv_def evidence_of_def evidence_ok_def used_once_def)

section \<open>Traces and verification results\<close>

text \<open>The two stores that carry no links are only appended to, so memory and disk agree.\<close>

definition side_ok :: "'w gov \<Rightarrow> bool" where
  "side_ok st \<longleftrightarrow> backend (g_traces st) \<noteq> InMemory \<and> mirrored no_key (g_traces st) \<and>
     backend (g_verifs st) \<noteq> InMemory \<and> mirrored verification_key (g_verifs st)"

lemma side_ext: "g_traces st' = g_traces st \<Longrightarrow> g_verifs st' = g_verifs st \<Longrightarrow> side_ok st \<Longrightarrow> side_ok st'"
  by (simp add: side_ok_def)

lemma side_trace: "side_ok st \<Longrightarrow> side_ok (save_trace e r p k oc why st)"
  by (auto simp: side_ok_def save_trace_def fresh_id_def Let_def)

lemma side_verify: "side_ok st \<Longrightarrow> side_ok (snd (verify_execution e x r st))"
  by (auto simp: side_ok_def verify_execution_def fresh_id_def Let_def)

lemma side_engine:
  assumes "side_ok st"
  shows "side_ok (snd (engine_execute r adapter st))"
proof -
  have world: "side_ok (st\<lparr>g_world := w\<rparr>)" for w using assms by (simp add: side_ok_def)
  have audit: "side_ok (save_audit res r adapter k (st\<lparr>g_world := w\<rparr>))" for res k w using assms by (simp add: side_ok_def save_audit_def)
  show ?thesis using assms
    by (auto simp: engine_execute_def block_def run_adapter_def Let_def intro: side_trace world audit split: option.split prod.split)
qed

lemma side_run: "side_ok st \<Longrightarrow> side_ok (snd (run_request r adapter st))"
  by (rule run_request_cases[of r adapter st]) (simp_all add: side_engine side_verify)

lemma side_execute:
  assumes "side_ok st"
  shows "side_ok (snd (execute_governed_action a adapter st))"
proof (cases "resolve_assessment st a adapter")
  case (Inl e)
  then show ?thesis using assms by (cases e) (simp_all add: execute_governed_action_def)
next
  case (Inr x)
  obtain asmt st1 where x: "resolve_assessment st a adapter = Inr (asmt, st1)" using Inr by (cases x) simp
  have st1: "side_ok st1" using assms resolve_state[OF x] by (auto intro: side_ext)
  have ran: "side_ok (snd (execute_authorized a adapter asmt au s))" if "side_ok s" for au s
  proof -
    obtain r s2 where tr: "translate_action_to_execution a (auth_id au) (Some (rk_level (asm_risk asmt))) (Some adapter)
        (Some (asm_prov asmt)) None (save_authorization au s) = (r, s2)" by fastforce
    then have "side_ok s2" using that
      by (auto simp: translate_action_to_execution_def save_authorization_def fresh_id_def Let_def side_ok_def)
    moreover have "snd (execute_authorized a adapter asmt au s) = snd (run_request r adapter s2)"
      by (simp add: execute_authorized_def tr split: prod.split option.split)
    ultimately show ?thesis by (simp add: side_run)
  qed
  show ?thesis using st1
    by (auto simp: execute_governed_action_def x Let_def process_approval_def fresh_id_def hold_for_manual_approval_def
        record_approval_decision_def create_execution_authorization_def side_ok_def
        intro!: ran[unfolded side_ok_def] split: prod.split option.split)
qed

lemma side_approve:
  assumes "side_ok st"
  shows "side_ok (snd (approve_held_action k who ok st))"
proof -
  have res: "side_ok (snd (resume_hold h who st))" for h
  proof -
    let ?st2 = "update_record (hold_id h) ''approved'' who
      (set_hold (hold_id h) (\<lambda>x. x\<lparr>hold_status := Approved, hold_approved_by := Some who\<rparr>) st)"
    obtain au st3 where au: "create_manual_authorization (hold_action h) who (hold_reason h) (Some (hold_id h)) h ?st2 = (au, st3)" by fastforce
    obtain r st5 where tr: "translate_action_to_execution (hold_action h) (auth_id au) (hold_risk h) (Some (hold_adapter h)) None
        (Some (hold_prov h)) (save_authorization au st3) = (r, st5)" by fastforce
    have "side_ok st3" using au assms
      by (auto simp: create_manual_authorization_def fresh_id_def Let_def side_ok_def update_record_def set_hold_def)
    then have "side_ok st5" using tr
      by (auto simp: translate_action_to_execution_def save_authorization_def fresh_id_def Let_def side_ok_def)
    moreover have "snd (resume_hold h who st) = snd (run_request r (hold_adapter h) st5)"
      by (simp add: resume_hold_def Let_def au tr split: prod.split option.split)
    ultimately show ?thesis by (simp add: side_run)
  qed
  show ?thesis using assms res
    by (auto simp: approve_held_action_def side_ok_def update_record_def set_hold_def split: option.split)
qed

lemma side_restart: "side_ok st \<Longrightarrow> g_traces (restart st) = g_traces st \<and> g_verifs (restart st) = g_verifs st"
  using reconcile_shape[of "reopen_stores st"]
  by (auto simp: restart_eq reopen_stores_def side_ok_def reopen_mirrored)

lemma reachable_side: "gov_reachable st \<Longrightarrow> side_ok st"
proof (induction rule: gov_reachable.induct)
  case (reach_start st)
  then show ?case by (auto simp: fresh_start_def side_ok_def empty_store_def mirrored_def)
next
  case (reach_step st st')
  from reach_step.hyps(2) reach_step.IH show ?case
  proof (induction rule: gov_step.induct)
    case (step_execute a adapter st out st')
    then show ?case using side_execute[of st a adapter] by simp
  next
    case (step_approve k who ok st out st')
    then show ?case using side_approve[of st k who ok] by simp
  next
    case (step_domain rg st st')
    then show ?case by (auto simp: register_domain_def side_ok_def split: if_splits)
  next
    case (step_restart st)
    then show ?case using side_restart[of st] by (auto intro: side_ext)
  next
    case (step_verif st v)
    then show ?case by (auto simp: side_ok_def)
  qed (auto simp: side_ok_def set_hold_def register_adapter_def fresh_id_def)
qed

end
