(* ===== verification/Governed_Runs.thy ===== *)
theory Governed_Runs
  imports Governance_Invariant
begin

text \<open>
  What a governed call does, end to end: the request built from an action carries the fields and
  the provenance of its assessment or hold, a freshly saved authorization for the same
  instruction clears every gate of the engine, and every hold keeps a digest and the
  canonicalization version. These lemmas carry the completeness properties.
\<close>

section \<open>Shapes\<close>

lemma or_list_Nil [simp]: "or_list xs [] = xs" "or_list [] ys = ys"
  by (simp_all add: or_list_def)

lemma or_str_None [simp]: "truthy_str x \<Longrightarrow> or_str x None = x"
  by (auto simp: truthy_str_ex)

definition identified :: "provenance \<Rightarrow> bool" where
  "identified p \<longleftrightarrow> truthy_str (pv_assessment_id p) \<and> truthy_str (pv_policy_id p) \<and>
     truthy_str (pv_policy_version p) \<and> truthy_str (pv_risk_id p) \<and> truthy_str (pv_risk_version p) \<and>
     pv_canon_version p = Some canonicalization_version \<and> truthy_str (pv_digest p)"

lemma translate_fields:
  assumes "translate_action_to_execution a k risk adapter p q st = (r, st')"
  shows "req_authorization_id r = k" "req_action_id r = act_id a" "req_decision_id r = act_decision_id a"
    "req_target r = act_component a" "req_operation r = type_value (act_type a)"
    "req_parameters r = act_parameters a" "req_expected r = act_expected a" "req_risk r = risk"
    "pv_domain (req_prov r) = act_domain a" "pv_adapter (req_prov r) = adapter"
    "p = None \<Longrightarrow> q = Some p' \<Longrightarrow> req_prov r = p'\<lparr>pv_domain := act_domain a, pv_adapter := adapter\<rparr>"
    "p = Some p' \<Longrightarrow> q = None \<Longrightarrow> identified p' \<Longrightarrow>
       req_prov r = p'\<lparr>pv_domain := act_domain a, pv_adapter := adapter\<rparr>"
    "st' = st\<lparr>g_next := Suc (g_next st)\<rparr>"
  using assms
  by (auto simp: translate_action_to_execution_def fresh_id_def Let_def prov_or_absent_def absent_def
      identified_def canonicalization_version_def)

lemma resume_hold_state:
  obtains st5 r where "snd (resume_hold h who st) = snd (run_request r (hold_adapter h) st5)"
    "g_holds st5 = assign_by hold_id (hold_id h) (\<lambda>x. x\<lparr>hold_status := Approved, hold_approved_by := Some who\<rparr>) (g_holds st)"
    "g_sha st5 = g_sha st"
proof -
  let ?f = "\<lambda>x. x\<lparr>hold_status := Approved, hold_approved_by := Some who\<rparr>"
  let ?st2 = "update_record (hold_id h) ''approved'' who (set_hold (hold_id h) ?f st)"
  obtain au st3 where au: "create_manual_authorization (hold_action h) who (hold_reason h) (Some (hold_id h)) h ?st2 = (au, st3)"
    by fastforce
  obtain r st5 where tr: "translate_action_to_execution (hold_action h) (auth_id au) (hold_risk h)
      (Some (hold_adapter h)) None (Some (hold_prov h)) (save_authorization au st3) = (r, st5)" by fastforce
  obtain res st6 where rr: "run_request r (hold_adapter h) st5 = (res, st6)" by fastforce
  have "snd (resume_hold h who st) = snd (run_request r (hold_adapter h) st5)"
    using au tr rr by (cases res) (simp_all add: resume_hold_def Let_def split: prod.split)
  moreover have "g_holds st5 = g_holds st3" "g_sha st5 = g_sha st3"
    using translate_fields(13)[OF tr] by (simp_all add: save_authorization_def)
  moreover have "g_holds st3 = g_holds ?st2" "g_sha st3 = g_sha ?st2"
    using au by (auto simp: create_manual_authorization_def fresh_id_def Let_def)
  ultimately show thesis by (intro that[of r st5]) (simp_all add: set_hold_def)
qed

definition auto_eligible :: "action \<Rightarrow> assessment \<Rightarrow> bool" where
  "auto_eligible a asmt \<longleftrightarrow> pol_allowed (asm_policy asmt) \<and> rk_level (asm_risk asmt) \<in> {''low'', ''medium''} \<and>
     90 \<le> act_confidence a \<and> \<not> act_requires_approval a \<and> rk_rollback (asm_risk asmt)"

lemma process_approval_mode:
  "ad_mode (fst (process_approval a (asm_policy asmt) (asm_risk asmt) st)) = Auto \<longleftrightarrow> auto_eligible a asmt"
  by (simp add: process_approval_def fresh_id_def auto_iff auto_eligible_def Let_def)

lemma execute_not_auto:
  assumes x: "resolve_assessment st a adapter = Inr (asmt, st1)" and n: "\<not> auto_eligible a asmt"
    and out: "execute_governed_action a adapter st = (out, st')"
  shows "g_world st' = g_world st \<and> g_auths st' = g_auths st \<and> g_audits st' = g_audits st \<and>
     (\<forall>res v. out \<noteq> Executed res v) \<and> out \<noteq> Raised"
proof -
  obtain d st2 where d: "process_approval a (asm_policy asmt) (asm_risk asmt) st1 = (d, st2)" by fastforce
  have base: "g_world st2 = g_world st" "g_auths st2 = g_auths st" "g_audits st2 = g_audits st"
    using d resolve_state[OF x] by (auto simp: process_approval_def fresh_id_def Let_def)
  have mode: "ad_mode d \<noteq> Auto" using process_approval_mode[of a asmt st1] n d by simp
  obtain h st3 where h: "hold_for_manual_approval a d adapter (Some (rk_level (asm_risk asmt)))
      (Some (asm_prov asmt)) st2 = (h, st3)" by fastforce
  then have base3: "g_world st3 = g_world st2" "g_auths st3 = g_auths st2" "g_audits st3 = g_audits st2"
    by (auto simp: hold_for_manual_approval_def fresh_id_def Let_def)
  have st1: "g_world st1 = g_world st" "g_auths st1 = g_auths st" "g_audits st1 = g_audits st"
    using resolve_state[OF x] by simp_all
  show ?thesis
  proof (cases "pol_allowed (asm_policy asmt)")
    case False
    then show ?thesis using out st1 by (auto simp: execute_governed_action_def x Let_def)
  next
    case True
    then show ?thesis using out base base3 mode
      by (cases "ad_mode d") (auto simp: execute_governed_action_def x d h Let_def)
  qed
qed

lemma get_hold_update_record [simp]: "get_hold j (update_record k dec who st) = get_hold j st"
  by (simp add: get_hold_def)

lemma restart_holds:
  assumes st: "gov_inv st"
  shows "list_all2 (\<lambda>y x. hold_id y = hold_id x \<and> hold_prov y = hold_prov x \<and> hold_expires_at y = hold_expires_at x)
     (mem (g_holds (restart st))) (mem (g_holds st))"
proof -
  let ?st1 = "reopen_stores st"
  have s: "stores_ok st" and e: "evidence_ok (evidence_of st)" using st by (simp_all add: gov_inv_def)
  have r: "list_all2 (\<lambda>y x. hold_id y = hold_id x \<and> hold_prov y = hold_prov x \<and> hold_expires_at y = hold_expires_at x)
      (mem (g_holds ?st1)) (mem (g_holds st))"
    by (rule list_all2_mono[OF reopened_rows[OF s]]) simp
  then have "List.map hold_id (mem (g_holds ?st1)) = List.map hold_id (mem (g_holds st))"
    by (induction rule: list_all2_induct) auto
  then have d: "distinct (List.map hold_id (mem (g_holds ?st1)))"
    using e by (simp add: evidence_defs evidence_of_def)
  show ?thesis using r by (simp add: restart_eq reconcile_mem[OF d] list_all2_map1)
qed

section \<open>Governed requests pass the gates\<close>

lemma policy_allows_actions: "req_operation r = type_value t \<Longrightarrow> execution_policy r = Allow"
  by (cases t) (simp_all add: execution_policy_def lower_def lower_char_def of_char_def)

lemma gate_passes:
  assumes "get_auth (req_authorization_id r) st = Some a" and "auth_status a = ''approved''"
    and "\<not> expired (auth_expires_at a) (g_now st)"
    and "auth_action_id a = req_action_id r" and "auth_target a = req_target r"
    and "auth_operation a = req_operation r" and "auth_expected a = req_expected r"
    and "auth_prov a = req_prov r" and "pv_adapter (req_prov r) = Some adapter"
    and "bind_execution_request (g_sha st) r adapter = Inr (d, payload)"
    and "pv_digest (req_prov r) = Some d" and "d \<noteq> []"
    and "pv_canon_version (req_prov r) = Some canonicalization_version"
  shows "gate st r adapter = None"
proof -
  have "map_of payload ''canonicalization_version'' = Some (PStr canonicalization_version)"
    using assms(10) by (auto simp: binding_defs result_simps split: if_splits)
  then have "\<not> instruction_mismatch (g_sha st) r adapter"
    using assms by (simp add: instruction_mismatch_def Let_def)
  moreover have "\<not> binding_mismatch a r adapter" using assms by (simp add: binding_mismatch_def Let_def)
  ultimately show ?thesis using assms by (simp add: gate_None)
qed

lemma run_request_cleared:
  assumes "cleared st r adapter ad"
  shows "case ad_execute ad r (g_world st) of
      (Some res, w) \<Rightarrow> (\<exists>v. fst (run_request r adapter st) = Some (res, v)) \<and> g_world (snd (run_request r adapter st)) = w
    | (None, w) \<Rightarrow> fst (run_request r adapter st) = None \<and> g_world (snd (run_request r adapter st)) = w"
  using assms unfolding run_request_engine
  by (auto simp: run_request_def engine_cleared run_adapter_def save_audit_def save_trace_def fresh_id_def Let_def
      split: prod.split option.split)

text \<open>A request that every gate lets through; the adapter is asked next whether it supports it.\<close>

definition admitted :: "'w gov \<Rightarrow> request \<Rightarrow> string \<Rightarrow> 'w adapter \<Rightarrow> bool" where
  "admitted st r adapter ad \<longleftrightarrow> gate st r adapter = None \<and> execution_policy r = Allow \<and> g_adapters st adapter = Some ad"

lemma cleared_admitted: "cleared st r adapter ad \<longleftrightarrow> admitted st r adapter ad \<and> ad_supports ad r"
  by (auto simp: cleared_def admitted_def)

lemma run_request_unsupported:
  "admitted st r adapter ad \<Longrightarrow> \<not> ad_supports ad r \<Longrightarrow>
     run_request r adapter st = (Some (failed r ''Adapter does not support request'', None), st)"
  by (simp add: run_request_def engine_execute_def admitted_def failed_def Let_def)

lemma run_request_admitted:
  assumes "admitted st r adapter ad"
  shows "if ad_supports ad r then (case ad_execute ad r (g_world st) of
      (Some res, w) \<Rightarrow> (\<exists>v. fst (run_request r adapter st) = Some (res, v)) \<and> g_world (snd (run_request r adapter st)) = w
    | (None, w) \<Rightarrow> fst (run_request r adapter st) = None \<and> g_world (snd (run_request r adapter st)) = w)
    else run_request r adapter st = (Some (failed r ''Adapter does not support request'', None), st)"
  using assms run_request_cleared[of st r adapter ad] run_request_unsupported[OF assms] by (simp add: cleared_admitted)

text \<open>The request of a freshly saved authorization for the same instruction is admitted.\<close>

lemma authorized_request_admitted:
  assumes new: "get_auth (auth_id au) st = None"
    and au: "auth_status au = ''approved''" "auth_expires_at au = Some (g_now st + authorization_ttl)"
      "auth_action_id au = act_id a" "auth_target au = act_component a"
      "auth_operation au = type_value (act_type a)" "auth_expected au = act_expected a"
      "auth_prov au = prov\<lparr>pv_domain := act_domain a, pv_adapter := Some adapter\<rparr>"
    and tr: "translate_action_to_execution a (auth_id au) risk (Some adapter) p q (save_authorization au st) = (r, st')"
    and pq: "(p = None \<and> q = Some prov) \<or> (p = Some prov \<and> q = None \<and> identified prov)"
    and bind: "bind_action (g_sha st) a adapter = Inr (d, payload)" "d \<noteq> []" "pv_digest prov = Some d"
      "pv_canon_version prov = Some canonicalization_version"
    and ad: "g_adapters st adapter = Some ad"
  shows "admitted st' r adapter ad"
proof -
  note tf = translate_fields[OF tr]
  have st': "g_auths st' = save auth_key au (g_auths st)" "g_now st' = g_now st" "g_sha st' = g_sha st"
    "g_adapters st' = g_adapters st" by (simp_all add: tf(13) save_authorization_def)
  have prov: "req_prov r = prov\<lparr>pv_domain := act_domain a, pv_adapter := Some adapter\<rparr>"
    using pq tf(11)[of prov] tf(12)[of prov] by blast
  have get: "get_auth (req_authorization_id r) st' = Some au"
    using new auths.get_put_new[of au "g_auths st"] by (simp add: get_auth_def st' tf(1))
  have "bind_execution_request (g_sha st) r adapter = Inr (d, payload)"
    using bind(1) by (simp add: bind_action_def bind_execution_request_def tf(2-7,9))
  then have "gate st' r adapter = None"
    by (intro gate_passes[OF get]) (use au bind in \<open>simp_all add: tf prov expired_def authorization_ttl_def save_authorization_def\<close>)
  moreover have "execution_policy r = Allow" by (rule policy_allows_actions[OF tf(5)])
  ultimately show ?thesis using ad by (simp add: admitted_def st')
qed

lemma resolve_digest:
  assumes "resolve_assessment st a adapter = Inr (asmt, st1)"
  shows "\<exists>d payload. bind_action (g_sha st) a adapter = Inr (d, payload) \<and> pv_digest (asm_prov asmt) = Some d \<and>
     pv_canon_version (asm_prov asmt) = Some canonicalization_version"
proof -
  obtain rg digest p r where run: "run_evaluators st rg a adapter = Inr (digest, p, r)"
    and prov: "pv_digest (asm_prov asmt) = Some digest" "pv_canon_version (asm_prov asmt) = Some canonicalization_version"
    using assms by (auto simp: resolve_assessment_def fresh_id_def result_simps Let_def)
  then show ?thesis by (auto simp: run_evaluators_def Let_def split: sum.splits option.splits)
qed

lemma resolve_prov:
  assumes "resolve_assessment st a adapter = Inr (asmt, st1)" and inv: "gov_inv st"
    and sha: "\<And>t. g_sha st t \<noteq> []"
  shows "\<exists>d payload. bind_action (g_sha st) a adapter = Inr (d, payload) \<and> d \<noteq> [] \<and>
     pv_digest (asm_prov asmt) = Some d \<and> pv_domain (asm_prov asmt) = act_domain a \<and>
     pv_adapter (asm_prov asmt) = Some adapter \<and> identified (asm_prov asmt)"
proof -
  obtain rg digest p r where rg: "g_registry st (act_domain a) = Some rg"
    and run: "run_evaluators st rg a adapter = Inr (digest, p, r)"
    and prov: "pv_digest (asm_prov asmt) = Some digest" "pv_domain (asm_prov asmt) = act_domain a"
      "pv_adapter (asm_prov asmt) = Some adapter" "pv_assessment_id (asm_prov asmt) = Some (g_uuid st (g_next st))"
      "pv_policy_id (asm_prov asmt) = Some (pe_id (rg_policy rg))"
      "pv_policy_version (asm_prov asmt) = Some (pe_version (rg_policy rg))"
      "pv_risk_id (asm_prov asmt) = Some (re_id (rg_risk rg))"
      "pv_risk_version (asm_prov asmt) = Some (re_version (rg_risk rg))"
      "pv_canon_version (asm_prov asmt) = Some canonicalization_version"
    using assms(1) by (auto simp: resolve_assessment_def fresh_id_def result_simps Let_def)
  obtain payload where b: "bind_action (g_sha st) a adapter = Inr (digest, payload)"
    using run by (auto simp: run_evaluators_def Let_def split: sum.splits option.splits)
  have "digest \<noteq> []" using bind_action_digest[OF b] sha by auto
  moreover have "identified (asm_prov asmt)"
    using inv rg prov \<open>digest \<noteq> []\<close> by (simp add: identified_def inv_defs)
  ultimately show ?thesis using b prov by blast
qed

lemma get_auth_fresh:
  assumes "gov_inv st" and "g_uuid st (g_next st + n) = k" and "g_auths st' = g_auths st"
  shows "get_auth k st' = None"
  using new_id(1)[OF assms(1), of n] inv_ids(3)[OF assms(1)] assms(2,3)
  by (auto simp: get_auth_def get_by_def find_None)

lemma eligible_admitted:
  assumes reach: "gov_reachable st" and sha: "\<And>t. g_sha st t \<noteq> []"
    and x: "resolve_assessment st a adapter = Inr (asmt, st1)"
    and el: "pol_allowed (asm_policy asmt)" "rk_level (asm_risk asmt) \<in> {''low'', ''medium''}"
      "90 \<le> act_confidence a" "\<not> act_requires_approval a" "rk_rollback (asm_risk asmt)"
    and ad: "g_adapters st adapter = Some ad"
  shows "\<exists>r st5. admitted st5 r adapter ad \<and> g_world st5 = g_world st \<and> g_audits st5 = g_audits st \<and>
     req_target r = act_component a \<and> req_operation r = type_value (act_type a) \<and>
     req_parameters r = act_parameters a \<and> pv_digest (req_prov r) = pv_digest (asm_prov asmt) \<and>
     pv_domain (req_prov r) = act_domain a \<and>
     execute_governed_action a adapter st = (case run_request r adapter st5 of
       (None, s) \<Rightarrow> (Raised, s) | (Some (res, v), s) \<Rightarrow> (Executed res v, s))"
proof -
  have inv: "gov_inv st" by (rule reachable_inv[OF reach])
  obtain dg payload where b: "bind_action (g_sha st) a adapter = Inr (dg, payload)" "dg \<noteq> []"
    "pv_digest (asm_prov asmt) = Some dg" "pv_domain (asm_prov asmt) = act_domain a"
    "pv_adapter (asm_prov asmt) = Some adapter" "identified (asm_prov asmt)"
    using resolve_prov[OF x inv sha] by blast
  obtain d st2 where d: "process_approval a (asm_policy asmt) (asm_risk asmt) st1 = (d, st2)" by fastforce
  have mode: "ad_mode d = Auto" using process_approval_mode[of a asmt st1] el d by (simp add: auto_eligible_def)
  have st2: "st2 = after_ids 2 st" and appr: "ad_approved d"
    using d mode resolve_state[OF x] approved_iff_auto
    by (auto simp: process_approval_def fresh_id_def Let_def)
  let ?st3 = "record_approval_decision a d ''approved'' ''approval_policy'' None (Some (asm_prov asmt)) st2"
  let ?st4 = "?st3\<lparr>g_next := Suc (g_next ?st3)\<rparr>"
  obtain au where au: "create_execution_authorization a d (Some (asm_prov asmt)) ?st3 = (Some au, ?st4)"
    and f: "auth_id au = g_uuid st (g_next st + 2)" "auth_status au = ''approved''"
      "auth_expires_at au = Some (g_now ?st4 + authorization_ttl)" "auth_action_id au = act_id a"
      "auth_target au = act_component a" "auth_operation au = type_value (act_type a)"
      "auth_expected au = act_expected a"
      "auth_prov au = (asm_prov asmt)\<lparr>pv_domain := act_domain a, pv_adapter := Some adapter\<rparr>"
    using mode appr b(4,5) by (simp add: create_execution_authorization_def fresh_id_def Let_def prov_or_absent_def st2)
  obtain r st5 where tr: "translate_action_to_execution a (auth_id au) (Some (rk_level (asm_risk asmt)))
      (Some adapter) (Some (asm_prov asmt)) None (save_authorization au ?st4) = (r, st5)" by fastforce
  have new: "get_auth (auth_id au) ?st4 = None"
    by (rule get_auth_fresh[OF inv, of 2]) (simp_all add: f(1) st2)
  have prov: "req_prov r = (asm_prov asmt)\<lparr>pv_domain := act_domain a, pv_adapter := Some adapter\<rparr>"
    using translate_fields(12)[OF tr refl refl b(6)] .
  have clr: "admitted st5 r adapter ad"
    by (rule authorized_request_admitted[OF new f(2-8) tr _ _ b(2,3)])
      (use b ad in \<open>simp_all add: st2 identified_def\<close>)
  have "execute_governed_action a adapter st = (case run_request r adapter st5 of
      (None, s) \<Rightarrow> (Raised, s) | (Some (res, v), s) \<Rightarrow> (Executed res v, s))"
    using el(1) mode by (simp add: execute_governed_action_def x d au Let_def execute_authorized_def tr[simplified])
  moreover have "g_world st5 = g_world st \<and> g_audits st5 = g_audits st"
    using translate_fields(13)[OF tr] by (simp add: save_authorization_def st2)
  moreover have "pv_digest (req_prov r) = pv_digest (asm_prov asmt)" "pv_domain (req_prov r) = act_domain a" by (simp_all add: prov)
  ultimately show ?thesis using clr translate_fields(4-6)[OF tr] by blast
qed

lemma eligible_runs:
  assumes reach: "gov_reachable st" and sha: "\<And>t. g_sha st t \<noteq> []"
    and x: "resolve_assessment st a adapter = Inr (asmt, st1)"
    and el: "pol_allowed (asm_policy asmt)" "rk_level (asm_risk asmt) \<in> {''low'', ''medium''}"
      "90 \<le> act_confidence a" "\<not> act_requires_approval a" "rk_rollback (asm_risk asmt)"
    and ad: "g_adapters st adapter = Some ad"
      "\<And>r. req_operation r = type_value (act_type a) \<Longrightarrow> req_parameters r = act_parameters a \<Longrightarrow>
         pv_domain (req_prov r) = act_domain a \<Longrightarrow> pv_digest (req_prov r) = pv_digest (asm_prov asmt) \<Longrightarrow>
         ad_supports ad r"
  shows "\<exists>r st5. cleared st5 r adapter ad \<and> g_world st5 = g_world st \<and> g_audits st5 = g_audits st \<and>
     req_target r = act_component a \<and> req_operation r = type_value (act_type a) \<and>
     req_parameters r = act_parameters a \<and> pv_digest (req_prov r) = pv_digest (asm_prov asmt) \<and>
     execute_governed_action a adapter st = (case run_request r adapter st5 of
       (None, s) \<Rightarrow> (Raised, s) | (Some (res, v), s) \<Rightarrow> (Executed res v, s))"
  using eligible_admitted[OF reach sha x el ad(1)] ad(2) unfolding cleared_admitted by blast

text \<open>Whatever the state: the world changes only through one call of the adapter.\<close>

lemma run_request_shape:
  assumes "run_request r adapter st = (out, st')"
  shows "(g_world st' = g_world st \<and> (\<exists>res. out = Some (res, None) \<and> \<not> res_success res)) \<or>
     (\<exists>ad. cleared st r adapter ad \<and> (case ad_execute ad r (g_world st) of
        (Some res, w) \<Rightarrow> (\<exists>v. out = Some (res, v)) \<and> g_world st' = w
      | (None, w) \<Rightarrow> out = None \<and> g_world st' = w))"
proof (cases "\<exists>ad. cleared st r adapter ad")
  case True
  then obtain ad where ad: "cleared st r adapter ad" by blast
  then show ?thesis using run_request_cleared[OF ad] assms
    by (intro disjI2 exI[of _ ad]) (auto split: prod.splits option.splits)
next
  case False
  then have w: "g_world st' = g_world st"
    using engine_not_cleared[of st r adapter] assms run_request_engine(2)[of r adapter st] by simp
  have f: "\<exists>res. fst (engine_execute r adapter st) = Some res \<and> \<not> res_success res"
    using False by (auto simp: engine_execute_def cleared_def block_def failed_def Let_def split: option.split)
  then show ?thesis using assms w by (auto simp: run_request_def split: prod.splits option.splits if_splits)
qed

lemma execute_shape:
  assumes "execute_governed_action a adapter st = (out, st')"
  shows "(g_world st' = g_world st \<and> out \<noteq> Raised \<and> (\<forall>res v. out = Executed res v \<longrightarrow> \<not> res_success res)) \<or>
     (resolve_assessment st a adapter = Inl UnhashableRiskLevel \<and> out = Raised \<and> st' = st) \<or>
     (\<exists>r ad d payload. g_adapters st adapter = Some ad \<and> ad_supports ad r \<and> req_target r = act_component a \<and>
        req_operation r = type_value (act_type a) \<and> req_parameters r = act_parameters a \<and>
        bind_action (g_sha st) a adapter = Inr (d, payload) \<and> pv_digest (req_prov r) = Some d \<and>
        (case ad_execute ad r (g_world st) of
           (Some res, w) \<Rightarrow> (\<exists>v. out = Executed res v) \<and> g_world st' = w
         | (None, w) \<Rightarrow> out = Raised \<and> g_world st' = w))"
proof (cases "resolve_assessment st a adapter")
  case (Inl e)
  then show ?thesis using assms by (cases e) (auto simp: execute_governed_action_def)
next
  case (Inr x)
  obtain asmt st1 where x: "resolve_assessment st a adapter = Inr (asmt, st1)" using Inr by (cases x) simp
  show ?thesis
  proof (cases "auto_eligible a asmt")
    case False
    then show ?thesis using execute_not_auto[OF x False assms] by blast
  next
    case True
    obtain d st2 where d: "process_approval a (asm_policy asmt) (asm_risk asmt) st1 = (d, st2)" by fastforce
    have mode: "ad_mode d = Auto" using process_approval_mode[of a asmt st1] True d by simp
    obtain dg payload where b: "bind_action (g_sha st) a adapter = Inr (dg, payload)" "pv_digest (asm_prov asmt) = Some dg"
      using resolve_digest[OF x] by blast
    let ?st3 = "record_approval_decision a d ''approved'' ''approval_policy'' None (Some (asm_prov asmt)) st2"
    obtain au st4 where au: "create_execution_authorization a d (Some (asm_prov asmt)) ?st3 = (au, st4)" by fastforce
    have base: "g_world st4 = g_world st" "g_adapters st4 = g_adapters st" "g_sha st4 = g_sha st"
      using au d resolve_state[OF x]
      by (auto simp: create_execution_authorization_def process_approval_def record_approval_decision_def fresh_id_def Let_def
          split: if_splits)
    show ?thesis
    proof (cases au)
      case None
      then show ?thesis using assms True mode base au
        by (auto simp: execute_governed_action_def x d Let_def auto_eligible_def)
    next
      case (Some y)
      obtain r st5 where tr: "translate_action_to_execution a (auth_id y) (Some (rk_level (asm_risk asmt)))
          (Some adapter) (Some (asm_prov asmt)) None (save_authorization y st4) = (r, st5)" by fastforce
      obtain o6 st6 where rr: "run_request r adapter st5 = (o6, st6)" by fastforce
      have st5: "g_world st5 = g_world st" "g_adapters st5 = g_adapters st"
        using translate_fields(13)[OF tr] base by (simp_all add: save_authorization_def)
      have o: "st' = st6" "out = (case o6 of None \<Rightarrow> Raised | Some (res, v) \<Rightarrow> Executed res v)"
        using assms True mode au Some tr rr
        by (auto simp: execute_governed_action_def x d Let_def execute_authorized_def auto_eligible_def split: option.splits prod.splits)
      have dig: "pv_digest (req_prov r) = or_str (Some dg) None"
        using tr b(2) by (auto simp: translate_action_to_execution_def prov_or_absent_def absent_def fresh_id_def Let_def)
      from run_request_shape[OF rr] show ?thesis
      proof (elim disjE exE conjE)
        fix res assume "g_world st6 = g_world st5" "o6 = Some (res, None)" "\<not> res_success res"
        then show ?thesis using o st5 by simp
      next
        fix ad
        assume c: "cleared st5 r adapter ad" and w: "case ad_execute ad r (g_world st5) of
            (Some res, w) \<Rightarrow> (\<exists>v. o6 = Some (res, v)) \<and> g_world st6 = w | (None, w) \<Rightarrow> o6 = None \<and> g_world st6 = w"
        then have "truthy_str (pv_digest (req_prov r))" by (auto simp: cleared_def gate_None binding_mismatch_def Let_def)
        then have "pv_digest (req_prov r) = Some dg" using dig by (cases "dg = []") simp_all
        moreover have "g_adapters st adapter = Some ad" "ad_supports ad r" using c st5 by (simp_all add: cleared_def)
        ultimately show ?thesis using w o st5 b(1) translate_fields(4-6)[OF tr]
          by (intro disjI2 exI[of _ r] exI[of _ ad] exI[of _ dg] exI[of _ payload]) (auto split: prod.splits option.splits)
      qed
    qed
  qed
qed

section \<open>What every hold carries\<close>

definition bound_hold :: "(string \<Rightarrow> string) \<Rightarrow> approval_hold \<Rightarrow> bool" where
  "bound_hold sha h \<longleftrightarrow> pv_canon_version (hold_prov h) = Some canonicalization_version \<and>
     (\<exists>t. pv_digest (hold_prov h) = Some (sha t))"

definition holds_bound :: "'w gov \<Rightarrow> bool" where
  "holds_bound st \<longleftrightarrow> (\<forall>h\<in>set (mem (g_holds st)) \<union> snd ` set (disk (g_holds st)). bound_hold (g_sha st) h)"

lemma holds_bound_frame:
  "holds_bound st \<Longrightarrow> g_holds st' = g_holds st \<Longrightarrow> g_sha st' = g_sha st \<Longrightarrow> holds_bound st'"
  by (simp add: holds_bound_def)

lemma holds_bound_set:
  assumes "holds_bound st" and f: "\<And>h. hold_prov (f h) = hold_prov h"
  shows "holds_bound (set_hold k f st)"
proof -
  have "bound_hold (g_sha st) h" if "h \<in> set (modify_first hold_id k f (mem (g_holds st)))" for h
    using that assms by (elim set_modify_firstE) (auto simp: holds_bound_def bound_hold_def)
  then show ?thesis using assms(1) by (auto simp: holds_bound_def set_hold_def mem_assign_by)
qed

lemma holds_bound_update:
  assumes b: "\<forall>h\<in>set (mem s) \<union> snd ` set (disk s). bound_hold sha h" and f: "\<And>h. hold_prov (f h) = hold_prov h"
  shows "\<forall>h\<in>set (mem (update_by hold_id hold_key k f s)) \<union> snd ` set (disk (update_by hold_id hold_key k f s)). bound_hold sha h"
proof (cases "first_index (\<lambda>r. hold_id r = k) (mem s)")
  case None
  then show ?thesis using b by (simp add: update_by_def)
next
  case (Some i)
  then have i: "i < length (mem s)" by (auto dest: first_index_SomeD)
  have new: "bound_hold sha (f (mem s ! i))" using b f i by (simp add: bound_hold_def)
  have m: "\<forall>h\<in>set ((mem s)[i := f (mem s ! i)]). bound_hold sha h"
    using b new set_update_subset_insert[of "mem s" i] by blast
  then show ?thesis using Some b new
    by (auto simp: update_by_def commit_update_def sql_update_by_key_def persist_def row_of_def Let_def)
qed

lemma holds_bound_reconcile:
  assumes "holds_bound st"
  shows "holds_bound (fst (fold reconcile_hold hs (st, ids)))"
  using assms
proof (induction hs arbitrary: st ids)
  case (Cons h hs)
  have "holds_bound (fst (reconcile_hold h (st, ids)))"
  proof (cases "hold_resolution st h")
    case None
    then show ?thesis using Cons.prems by (simp add: reconcile_hold_def)
  next
    case (Some x)
    then show ?thesis using Cons.prems holds_bound_update[of "g_holds st" "g_sha st" "correct_hold (fst x) (snd x) h" "hold_id h"]
      by (cases x) (simp add: reconcile_hold_def holds_bound_def correct_hold_def)
  qed
  then show ?case using Cons.IH by (cases "reconcile_hold h (st, ids)") auto
qed simp

lemma holds_bound_restart:
  assumes "holds_bound st"
  shows "holds_bound (restart st)"
proof -
  have "holds_bound (reopen_stores st)"
    using assms by (auto simp: holds_bound_def reopen_stores_def reopen_def load_def)
  then show ?thesis by (simp add: restart_eq reconcile_holds_def holds_bound_reconcile)
qed

lemma execute_holds:
  "g_sha (snd (execute_governed_action a adapter st)) = g_sha st \<and>
   (g_holds (snd (execute_governed_action a adapter st)) = g_holds st \<or>
    (\<exists>h. g_holds (snd (execute_governed_action a adapter st)) = save hold_key h (g_holds st) \<and> bound_hold (g_sha st) h))"
proof (cases "resolve_assessment st a adapter")
  case (Inl e)
  then show ?thesis by (cases e) (simp_all add: execute_governed_action_def)
next
  case (Inr x)
  obtain asmt st1 where x: "resolve_assessment st a adapter = Inr (asmt, st1)" using Inr by (cases x) simp
  obtain d st2 where d: "process_approval a (asm_policy asmt) (asm_risk asmt) st1 = (d, st2)" by fastforce
  have st1: "g_holds st1 = g_holds st" "g_sha st1 = g_sha st" using resolve_state[OF x] by simp_all
  have base: "g_holds st2 = g_holds st" "g_sha st2 = g_sha st"
    using d st1 by (auto simp: process_approval_def fresh_id_def Let_def)
  obtain h st3 where h: "hold_for_manual_approval a d adapter (Some (rk_level (asm_risk asmt)))
      (Some (asm_prov asmt)) st2 = (h, st3)" by fastforce
  then have st3: "g_holds st3 = save hold_key h (g_holds st)" "g_sha st3 = g_sha st"
    "pv_canon_version (hold_prov h) = pv_canon_version (asm_prov asmt)"
    "pv_digest (hold_prov h) = pv_digest (asm_prov asmt)"
    using base by (auto simp: hold_for_manual_approval_def fresh_id_def prov_or_absent_def Let_def)
  have "bound_hold (g_sha st) h"
  proof -
    obtain digest payload where b: "bind_action (g_sha st) a adapter = Inr (digest, payload)"
      and prov: "pv_digest (asm_prov asmt) = Some digest" "pv_canon_version (asm_prov asmt) = Some canonicalization_version"
      using resolve_digest[OF x] by blast
    show ?thesis using bind_action_digest[OF b] prov st3 by (auto simp: bound_hold_def)
  qed
  moreover have "g_holds (snd (execute_governed_action a adapter st)) = g_holds st \<and>
      g_sha (snd (execute_governed_action a adapter st)) = g_sha st"
    if "pol_allowed (asm_policy asmt)" "ad_mode d = Auto"
  proof -
    let ?st3 = "record_approval_decision a d ''approved'' ''approval_policy'' None (Some (asm_prov asmt)) st2"
    obtain au st4 where au: "create_execution_authorization a d (Some (asm_prov asmt)) ?st3 = (au, st4)" by fastforce
    then have s4: "g_holds st4 = g_holds st" "g_sha st4 = g_sha st" using base
      by (auto simp: create_execution_authorization_def fresh_id_def Let_def split: if_splits)
    show ?thesis
    proof (cases au)
      case None
      then show ?thesis using that au s4 by (simp add: execute_governed_action_def x d Let_def)
    next
      case (Some y)
      obtain r st5 where tr: "translate_action_to_execution a (auth_id y) (Some (rk_level (asm_risk asmt)))
          (Some adapter) (Some (asm_prov asmt)) None (save_authorization y st4) = (r, st5)" by fastforce
      obtain out st6 where rr: "run_request r adapter st5 = (out, st6)" by fastforce
      have "snd (execute_governed_action a adapter st) = st6"
        using that au Some tr rr
        by (cases out) (simp_all add: execute_governed_action_def x d Let_def execute_authorized_def split: prod.split)
      moreover have "same_base st5 st6" using run_request_same_base[of st5 r adapter] rr by simp
      ultimately show ?thesis using s4 translate_fields(13)[OF tr]
        by (simp add: same_base_def save_authorization_def)
    qed
  qed
  ultimately show ?thesis using st1 st3 base
    by (cases "pol_allowed (asm_policy asmt)"; cases "ad_mode d")
      (auto simp: execute_governed_action_def x d h Let_def)
qed

lemma approve_holds_bound:
  assumes b: "holds_bound st"
  shows "holds_bound (snd (approve_held_action k who ok st))"
proof -
  have frame: "holds_bound (update_record j dec who (set_hold j (\<lambda>x. x\<lparr>hold_status := s\<rparr>) st))" for j dec s
    by (rule holds_bound_frame[OF holds_bound_set[OF b, of "\<lambda>x. x\<lparr>hold_status := s\<rparr>" j]]) simp_all
  have res: "holds_bound (snd (resume_hold h who st))" for h
  proof (rule resume_hold_state[of h who st])
    fix st5 r
    assume a: "snd (resume_hold h who st) = snd (run_request r (hold_adapter h) st5)"
      "g_holds st5 = assign_by hold_id (hold_id h) (\<lambda>x. x\<lparr>hold_status := Approved, hold_approved_by := Some who\<rparr>) (g_holds st)"
      "g_sha st5 = g_sha st"
    have "holds_bound (set_hold (hold_id h) (\<lambda>x. x\<lparr>hold_status := Approved, hold_approved_by := Some who\<rparr>) st)"
      by (rule holds_bound_set[OF b]) simp
    then show ?thesis
      by (rule holds_bound_frame)
        (use a run_request_same_base[of st5 r "hold_adapter h"] in \<open>simp_all add: same_base_def set_hold_def\<close>)
  qed
  show ?thesis using b holds_bound_set[OF b, of "\<lambda>x. x\<lparr>hold_status := Rejected\<rparr>" k] frame res
    by (auto simp: approve_held_action_def split: option.split)
qed

lemma holds_bound_save:
  "holds_bound st \<Longrightarrow> g_holds st' = save hold_key h (g_holds st) \<Longrightarrow> bound_hold (g_sha st) h \<Longrightarrow>
     g_sha st' = g_sha st \<Longrightarrow> holds_bound st'"
  by (cases "backend (g_holds st)") (auto simp: holds_bound_def save_def persist_def sql_insert_def row_of_def Let_def)

lemma reachable_bound: "gov_reachable st \<Longrightarrow> holds_bound st"
proof (induction rule: gov_reachable.induct)
  case (reach_start st)
  then show ?case by (auto simp: fresh_start_def holds_bound_def empty_store_def)
next
  case (reach_step st st')
  from reach_step.hyps(2) reach_step.IH show ?case
  proof (induction rule: gov_step.induct)
    case (step_execute a adapter st out st')
    then have s: "st' = snd (execute_governed_action a adapter st)" by simp
    show ?case using execute_holds[of a adapter st] holds_bound_frame[OF step_execute.prems]
        holds_bound_save[OF step_execute.prems] by (auto simp: s)
  next
    case (step_approve k who ok st out st')
    then show ?case using approve_holds_bound[of st k who ok] by simp
  next
    case (step_domain rg st st')
    then show ?case by (auto simp: register_domain_def split: if_splits intro: holds_bound_frame)
  qed (auto simp: holds_bound_set holds_bound_restart holds_bound_frame register_adapter_def fresh_id_def
        intro: holds_bound_frame)
qed

lemma held_admitted:
  assumes reach: "gov_reachable st" and sha: "\<And>t. g_sha st t \<noteq> []"
    and h: "get_hold k st = Some h" "hold_status h = Pending" "\<not> expired (hold_expires_at h) (g_now st)"
    and rg: "g_registry st (pv_domain (hold_prov h)) = Some rg" "evaluator_binding rg h"
    and same: "pv_digest (hold_prov h) = Some (held_digest (g_sha st) h)"
    and ad: "g_adapters st (hold_adapter h) = Some ad"
  shows "\<exists>r st5. admitted st5 r (hold_adapter h) ad \<and> g_world st5 = g_world st \<and> g_audits st5 = g_audits st \<and>
     req_action_id r = act_id (hold_action h) \<and> req_target r = act_component (hold_action h) \<and>
     req_operation r = type_value (act_type (hold_action h)) \<and> req_parameters r = act_parameters (hold_action h) \<and>
     approve_held_action k who True st = (case run_request r (hold_adapter h) st5 of
       (None, s) \<Rightarrow> (ApprovalRaised, s) | (Some (res, v), s) \<Rightarrow> (ApprovalExecuted res v, s))"
proof -
  have inv: "gov_inv st" by (rule reachable_inv[OF reach])
  have k: "hold_id h = k" and m: "h \<in> set (mem (g_holds st))"
    using h(1) by (auto simp: get_hold_def get_by_def dest: find_SomeD)
  have bh: "bound_hold (g_sha st) h" using reachable_bound[OF reach] m by (simp add: holds_bound_def)
  then have ne: "held_digest (g_sha st) h \<noteq> []" using same by (auto simp: bound_hold_def) (metis sha)
  then obtain d payload where b: "bind_action (g_sha st) (hold_action h) (hold_adapter h) = Inr (d, payload)"
    "held_digest (g_sha st) h = d" by (auto simp: held_digest_def split: sum.splits)
  let ?f = "\<lambda>x. x\<lparr>hold_status := Approved, hold_approved_by := Some who\<rparr>"
  let ?st2 = "update_record k ''approved'' who (set_hold k ?f st)"
  let ?st3 = "?st2\<lparr>g_next := Suc (g_next ?st2)\<rparr>"
  let ?a = "hold_action h"
  obtain au where au: "create_manual_authorization ?a who (hold_reason h) (Some k) h ?st2 = (au, ?st3)"
    and f: "auth_id au = g_uuid st (g_next st + 0)" "auth_status au = ''approved''"
      "auth_expires_at au = Some (g_now ?st3 + authorization_ttl)" "auth_action_id au = act_id ?a"
      "auth_target au = act_component ?a" "auth_operation au = type_value (act_type ?a)"
      "auth_expected au = act_expected ?a"
      "auth_prov au = (hold_prov h)\<lparr>pv_domain := act_domain ?a, pv_adapter := Some (hold_adapter h)\<rparr>"
    by (simp add: create_manual_authorization_def fresh_id_def Let_def)
  obtain r st5 where tr: "translate_action_to_execution ?a (auth_id au) (hold_risk h)
      (Some (hold_adapter h)) None (Some (hold_prov h)) (save_authorization au ?st3) = (r, st5)" by fastforce
  have new: "get_auth (auth_id au) ?st3 = None"
    by (rule get_auth_fresh[OF inv f(1)[symmetric]]) simp
  have clr: "admitted st5 r (hold_adapter h) ad"
    by (rule authorized_request_admitted[OF new f(2-8) tr _ _ ne])
      (use b ad same bh in \<open>simp_all add: bound_hold_def\<close>)
  have "approve_held_action k who True st = (case run_request r (hold_adapter h) st5 of
      (None, s) \<Rightarrow> (ApprovalRaised, s) | (Some (res, v), s) \<Rightarrow> (ApprovalExecuted res v, s))"
    using h rg same au tr by (simp add: approve_held_action_def resume_hold_def Let_def k)
  moreover have "g_world st5 = g_world st \<and> g_audits st5 = g_audits st"
    using translate_fields(13)[OF tr] by (simp add: save_authorization_def)
  ultimately show ?thesis using clr translate_fields(2,4-6)[OF tr] by blast
qed

end
