(* ===== verification/Governance_Sample.thy ===== *)
theory Governance_Sample
  imports Governed_Runs
begin

text \<open>
  A small deployment for the witnesses: the default domain, one adapter that counts its calls, a
  constant hash, and one action, submitted with and without an explicit approval requirement.
\<close>

definition counter_adapter :: "nat adapter" where
  "counter_adapter = \<lparr>ad_supports = (\<lambda>r. True),
     ad_execute = (\<lambda>r w. (Some \<lparr>res_execution_id = req_execution_id r, res_status = ''completed'',
        res_success = True, res_message = ''done'', res_output = []\<rparr>, Suc w))\<rparr>"

definition sample_start :: "nat gov" where
  "sample_start = \<lparr>g_holds = empty_store Sqlite, g_records = empty_store Sqlite, g_auths = empty_store Sqlite,
     g_audits = empty_store Sqlite, g_traces = empty_store Sqlite, g_verifs = empty_store Sqlite,
     g_registry = (\<lambda>d. None), g_adapters = (\<lambda>a. None), g_modules = (\<lambda>w. Some []),
     g_uuid = (\<lambda>n. CHR ''u'' # replicate n CHR ''x''), g_next = 0, g_now = 0, g_sha = (\<lambda>t. ''h''),
     g_world = 0\<rparr>"

definition sample_gov :: "nat gov" where
  "sample_gov = register_adapter ''simulation'' counter_adapter
     (sample_start\<lparr>g_registry := [default_domain \<mapsto> default_registration]\<rparr>)"

definition sample_action :: "bool \<Rightarrow> action" where
  "sample_action approval = \<lparr>act_id = ''a'', act_created_at = 0, act_decision_id = ''d'', act_domain = default_domain,
     act_component = ''c'', act_type = Restart, act_status = APending, act_reason = ''r'',
     act_confidence = 95, act_requires_approval = approval, act_rollback_required = True,
     act_parameters = [], act_expected = None\<rparr>"

definition sample_executed :: "nat gov" where
  "sample_executed = snd (execute_governed_action (sample_action False) ''simulation'' sample_gov)"

definition sample_held :: "nat gov" where
  "sample_held = snd (execute_governed_action (sample_action True) ''simulation'' sample_gov)"

lemma sample_reachable: "gov_reachable sample_gov"
proof -
  let ?st = "sample_start\<lparr>g_registry := [default_domain \<mapsto> default_registration]\<rparr>"
  have "gov_reachable sample_start"
    by (rule reach_start) (auto simp: fresh_start_def sample_start_def inj_def intro!: exI[of _ Sqlite])
  moreover have "gov_step sample_start ?st"
    by (rule step_domain[of default_registration])
      (simp add: register_domain_def sample_start_def default_registration_def default_policy_evaluator_def
        default_risk_evaluator_def default_domain_def)
  ultimately have "gov_reachable ?st" by (rule reach_step)
  then show ?thesis unfolding sample_gov_def by (rule reach_step) (rule step_adapter)
qed

lemma sample_executed_reachable: "gov_reachable sample_executed"
  using reach_step[OF sample_reachable step_execute[OF surjective_pairing]]
  by (simp add: sample_executed_def)

lemma sample_held_reachable: "gov_reachable sample_held"
  using reach_step[OF sample_reachable step_execute[OF surjective_pairing]]
  by (simp add: sample_held_def)


lemma sample_digest:
  "digest_payload (\<lambda>t. ''h'') [(''canonicalization_version'', PStr canonicalization_version),
     (''governance_domain'', PStr default_domain), (''action_id'', PStr ''a''), (''decision_id'', PStr ''d''),
     (''target'', PStr ''c''), (''operation'', PStr ''restart''), (''parameters'', PDict []),
     (''expected_outcome'', PNone), (''adapter_name'', PStr ''simulation'')] = Inr ''h''"
  by code_simp

lemmas sample_defs = sample_gov_def sample_start_def sample_action_def register_adapter_def

lemma sample_binds:
  "\<exists>payload. bind_action (\<lambda>t. ''h'') (sample_action b) ''simulation'' = Inr (''h'', payload) \<and>
     map_of payload ''canonicalization_version'' = Some (PStr canonicalization_version)"
  using sample_digest by (simp add: bind_action_def instruction_payload_def sample_action_def default_domain_def outcome_json_def)

definition sample_assessment :: assessment where
  "sample_assessment = \<lparr>asm_policy = \<lparr>pol_allowed = True, pol_reason = ''Action type allowed by policy'',
        pol_requires_approval = False, pol_refs = []\<rparr>,
     asm_risk = simulate_action (sample_action False),
     asm_prov = \<lparr>pv_domain = default_domain, pv_adapter = Some ''simulation'', pv_assessment_id = Some ''u'',
       pv_policy_id = Some ''rmt.default.action-policy'', pv_policy_version = Some ''1'',
       pv_risk_id = Some ''rmt.default.action-simulation'', pv_risk_version = Some ''1'',
       pv_canon_version = Some canonicalization_version, pv_digest = Some ''h'',
       pv_policy_refs = [], pv_risk_refs = [], pv_uncertainty = ''unspecified'', pv_recovery = []\<rparr>,
     asm_at = 0\<rparr>"

lemma sample_resolves:
  "resolve_assessment sample_gov (sample_action b) ''simulation'' = Inr 
     (sample_assessment\<lparr>asm_policy := (asm_policy sample_assessment)\<lparr>pol_requires_approval := b\<rparr>\<rparr>, sample_gov\<lparr>g_next := 1\<rparr>)"
proof -
  have a: "act_domain (sample_action b) = default_domain" "act_type (sample_action b) = Restart"
    "act_confidence (sample_action b) = 95" "act_requires_approval (sample_action b) = b" "act_id (sample_action b) = ''a''"
    "act_component (sample_action b) = ''c''"
    by (simp_all add: sample_action_def)
  have reg: "g_registry sample_gov default_domain = Some default_registration" "g_sha sample_gov = (\<lambda>t. ''h'')"
    "g_next sample_gov = 0" "g_now sample_gov = 0" "g_uuid sample_gov = (\<lambda>n. CHR ''u'' # replicate n CHR ''x'')"
    by (simp_all add: sample_defs)
  have run: "run_evaluators sample_gov default_registration (sample_action b) ''simulation'' =
     Inr (''h'', Answer (py_policy (evaluate_action_policy (sample_action b) None)), Answer (py_risk (simulate_action (sample_action b))))"
    using sample_binds[of b] by (auto simp: run_evaluators_def reg default_registration_def default_policy_evaluator_def default_risk_evaluator_def raised_def Let_def)
  have pol: "check_policy (Answer (py_policy (evaluate_action_policy (sample_action b) None))) =
      Inr ((asm_policy sample_assessment)\<lparr>pol_requires_approval := b\<rparr>)"
    by (simp add: check_policy_def py_policy_def evaluate_action_policy_def a allowed_action_types_def text_refs_def sample_assessment_def)
  have rk: "check_risk (sample_action b) (Answer (py_risk (simulate_action (sample_action b)))) =
      Inr (asm_risk sample_assessment)"
    by (simp add: check_risk_def py_risk_def simulate_action_def simulated_def a risk_levels_def text_refs_def sample_assessment_def sample_action_def Let_def)
  have ops: "''restart'' \<in> set (rg_operations default_registration)"
    "''simulation'' \<in> set (rg_adapters default_registration)"
    "pe_id (rg_policy default_registration) = ''rmt.default.action-policy''"
    "pe_version (rg_policy default_registration) = ''1''"
    "re_id (rg_risk default_registration) = ''rmt.default.action-simulation''"
    "re_version (rg_risk default_registration) = ''1''"
    by (simp_all add: default_registration_def default_policy_evaluator_def default_risk_evaluator_def)
  show ?thesis
    by (simp add: resolve_assessment_def a reg run pol rk fresh_id_def ops Let_def
        del: One_nat_def)
      (simp add: sample_assessment_def simulate_action_def simulated_def sample_action_def)
qed


lemma sample_sha: "\<And>t. g_sha sample_gov t \<noteq> []"
  by (simp add: sample_defs)

lemma sample_adapter: "g_adapters sample_gov ''simulation'' = Some counter_adapter" "\<And>r. ad_supports counter_adapter r"
  by (simp_all add: sample_defs counter_adapter_def)

lemma sample_eligible:
  "\<exists>asmt st1. resolve_assessment sample_gov (sample_action False) ''simulation'' = Inr (asmt, st1) \<and>
     pol_allowed (asm_policy asmt) \<and> rk_level (asm_risk asmt) \<in> {''low'', ''medium''} \<and>
     90 \<le> act_confidence (sample_action False) \<and> \<not> act_requires_approval (sample_action False) \<and>
     rk_rollback (asm_risk asmt)"
  using sample_resolves[of False]
  by (auto simp: sample_assessment_def sample_action_def simulate_action_def simulated_def)

lemma sample_cleared:
  "\<exists>r st5. cleared st5 r ''simulation'' counter_adapter \<and> g_world st5 = (0::nat) \<and> mem (g_audits st5) = [] \<and>
     execute_governed_action (sample_action False) ''simulation'' sample_gov = (case run_request r ''simulation'' st5 of
       (None, s) \<Rightarrow> (Raised, s) | (Some (res, v), s) \<Rightarrow> (Executed res v, s))"
proof -
  obtain asmt st1 where a: "resolve_assessment sample_gov (sample_action False) ''simulation'' = Inr (asmt, st1)"
    "pol_allowed (asm_policy asmt)" "rk_level (asm_risk asmt) \<in> {''low'', ''medium''}"
    "90 \<le> act_confidence (sample_action False)" "\<not> act_requires_approval (sample_action False)"
    "rk_rollback (asm_risk asmt)" using sample_eligible by blast
  have "g_world sample_gov = 0" "mem (g_audits sample_gov) = []" by (simp_all add: sample_defs empty_store_def)
  moreover obtain r st5 where "cleared st5 r ''simulation'' counter_adapter" "g_world st5 = g_world sample_gov"
    "g_audits st5 = g_audits sample_gov"
    "execute_governed_action (sample_action False) ''simulation'' sample_gov = (case run_request r ''simulation'' st5 of
       (None, s) \<Rightarrow> (Raised, s) | (Some (res, v), s) \<Rightarrow> (Executed res v, s))"
    using eligible_runs[OF sample_reachable sample_sha a sample_adapter] by blast
  ultimately show ?thesis by (intro exI[of _ r] exI[of _ st5] conjI) simp_all
qed

lemma sample_run:
  "\<exists>res v. fst (execute_governed_action (sample_action False) ''simulation'' sample_gov) = Executed res v"
  "g_world sample_executed = 1" "\<exists>u. mem (g_audits sample_executed) = [u]"
proof -
  obtain r st5 where c: "cleared st5 r ''simulation'' counter_adapter" "g_world st5 = 0" "mem (g_audits st5) = []"
    and ex: "execute_governed_action (sample_action False) ''simulation'' sample_gov = (case run_request r ''simulation'' st5 of
       (None, s) \<Rightarrow> (Raised, s) | (Some (res, v), s) \<Rightarrow> (Executed res v, s))"
    using sample_cleared by blast
  have w: "\<exists>res v. fst (run_request r ''simulation'' st5) = Some (res, v)"
    "g_world (snd (run_request r ''simulation'' st5)) = 1"
    using run_request_cleared[OF c(1)] c(2) by (simp_all add: counter_adapter_def) blast
  have a: "\<exists>u. mem (g_audits (snd (run_request r ''simulation'' st5))) = [u]"
    using c by (simp add: run_request_engine engine_cleared run_adapter_def counter_adapter_def save_audit_def
        save_trace_def fresh_id_def Let_def)
  show "\<exists>res v. fst (execute_governed_action (sample_action False) ''simulation'' sample_gov) = Executed res v"
    using w by (auto simp: ex split: prod.splits)
  show "g_world sample_executed = 1" "\<exists>u. mem (g_audits sample_executed) = [u]"
    using w a by (auto simp: sample_executed_def ex split: prod.splits)
qed

definition sample_hold :: approval_hold where
  "sample_hold = \<lparr>hold_id = ''uxx'', hold_action_id = ''a'', hold_action = sample_action True,
     hold_adapter = ''simulation'', hold_reason = ''Action explicitly requires approval'',
     hold_status = Pending, hold_approved_by = None, hold_expires_at = Some approval_ttl,
     hold_risk = Some ''medium'', hold_prov = asm_prov sample_assessment, hold_created_at = 0\<rparr>"

lemma sample_held_eq:
  "get_hold ''uxx'' sample_held = Some sample_hold" "g_registry sample_held default_domain = Some default_registration"
  "g_sha sample_held = (\<lambda>t. ''h'')" "g_now sample_held = 0" "g_adapters sample_held ''simulation'' = Some counter_adapter"
  "g_world sample_held = 0"
proof -
  let ?asmt = "sample_assessment\<lparr>asm_policy := (asm_policy sample_assessment)\<lparr>pol_requires_approval := True\<rparr>\<rparr>"
  have mode: "ad_mode (evaluate_approval k (sample_action True) (asm_policy ?asmt) (asm_risk ?asmt)) = Manual"
    "ad_reason (evaluate_approval k (sample_action True) (asm_policy ?asmt) (asm_risk ?asmt)) =
       ''Action explicitly requires approval''" for k
    by (simp_all add: approval_defs sample_assessment_def sample_action_def simulate_action_def simulated_def)
  have pol: "pol_allowed (asm_policy ?asmt)" by (simp add: sample_assessment_def)
  note eq = sample_held_def execute_governed_action_def sample_resolves
  show "get_hold ''uxx'' sample_held = Some sample_hold"
    "g_registry sample_held default_domain = Some default_registration"
    "g_sha sample_held = (\<lambda>t. ''h'')" "g_now sample_held = 0" "g_world sample_held = 0"
    "g_adapters sample_held ''simulation'' = Some counter_adapter"
    using mode pol unfolding eq
    by (simp_all add: process_approval_def fresh_id_def hold_for_manual_approval_def Let_def get_hold_def get_by_def
      sample_defs empty_store_def sample_hold_def prov_or_absent_def)
      (simp add: sample_assessment_def sample_action_def default_domain_def simulate_action_def simulated_def)
qed

lemma sample_hold_fields [simp]:
  "hold_status sample_hold = Pending" "hold_adapter sample_hold = ''simulation''"
  "pv_domain (hold_prov sample_hold) = default_domain" "\<not> expired (hold_expires_at sample_hold) 0"
  "evaluator_binding default_registration sample_hold"
  by (simp_all add: sample_hold_def sample_assessment_def expired_def approval_ttl_def evaluator_binding_def
      default_registration_def default_policy_evaluator_def default_risk_evaluator_def)

lemma sample_hold_digest:
  "pv_digest (hold_prov sample_hold) = Some (held_digest (g_sha sample_held) sample_hold)"
  using sample_binds[of True]
  by (auto simp: held_digest_def sample_held_eq sample_hold_def sample_assessment_def)

end
