(* ===== verification/Governed_Frame.thy ===== *)
theory Governed_Frame
  imports Governed_Runs
begin

text \<open>
  What no governed call changes: the clock, the registries and the identifier supply, which is only
  read further. The layers above the core rely on this when they take two readings of the clock or
  of the registry to be the same.
\<close>

definition same_config :: "'w gov \<Rightarrow> 'w gov \<Rightarrow> bool" where
  "same_config st st' \<longleftrightarrow> g_registry st' = g_registry st \<and> g_adapters st' = g_adapters st \<and>
     g_modules st' = g_modules st \<and> g_uuid st' = g_uuid st \<and> g_now st' = g_now st \<and> g_sha st' = g_sha st \<and>
     g_next st \<le> g_next st'"

lemma same_config_refl [simp, intro]: "same_config st st"
  by (simp add: same_config_def)

lemma same_config_trans [trans]: "same_config a b \<Longrightarrow> same_config b c \<Longrightarrow> same_config a c"
  by (auto simp: same_config_def)

lemma base_config: "same_base st st' \<Longrightarrow> same_config st st'"
  by (simp add: same_config_def same_base_def)

lemma stores_config [simp]:
  "same_config st (st\<lparr>g_holds := h\<rparr>)" "same_config st (st\<lparr>g_records := r\<rparr>)" "same_config st (st\<lparr>g_auths := a\<rparr>)"
  "same_config st (st\<lparr>g_verifs := v\<rparr>)" "same_config st (st\<lparr>g_next := Suc (g_next st)\<rparr>)"
  by (simp_all add: same_config_def)

lemma small_config [simp]:
  "same_config st (snd (fresh_id st))"
  "same_config st (snd (process_approval a p r st))"
  "same_config st (record_approval_decision a d dec who ko asmt st)"
  "same_config st (snd (hold_for_manual_approval a d adapter risk asmt st))"
  "same_config st (snd (create_execution_authorization a d asmt st))"
  "same_config st (snd (create_manual_authorization a who why ko h st))"
  "same_config st (save_authorization au st)"
  "same_config st (snd (translate_action_to_execution a k risk ado asmt hold st))"
  "same_config st (set_hold k f st)"
  "same_config st (update_record k dec who st)"
  by (simp_all add: same_config_def fresh_id_def process_approval_def record_approval_decision_def hold_for_manual_approval_def
      create_execution_authorization_def create_manual_authorization_def save_authorization_def translate_action_to_execution_def
      set_hold_def update_record_def Let_def)

lemma run_config [simp]: "same_config st (snd (run_request r adapter st))"
  by (rule base_config[OF run_request_same_base])

lemma snd_config: "p = (x, st') \<Longrightarrow> same_config st (snd p) \<Longrightarrow> same_config st st'"
  by simp

lemma authorized_config: "same_config st (snd (execute_authorized a adapter asmt au st))"
proof -
  obtain r st2 where t: "translate_action_to_execution a (auth_id au) (Some (rk_level (asm_risk asmt))) (Some adapter)
      (Some (asm_prov asmt)) None (save_authorization au st) = (r, st2)" by fastforce
  have "same_config st (save_authorization au st)" by simp
  also have "same_config (save_authorization au st) st2" using snd_config[OF t] by simp
  also have "same_config st2 (snd (run_request r adapter st2))" by simp
  finally show ?thesis by (auto simp: execute_authorized_def t split: prod.split option.split)
qed

lemma execute_config [simp]: "same_config st (snd (execute_governed_action a adapter st))"
proof (cases "resolve_assessment st a adapter")
  case (Inl e)
  then show ?thesis by (cases e) (auto simp: execute_governed_action_def)
next
  case (Inr x)
  obtain asmt st1 where x: "resolve_assessment st a adapter = Inr (asmt, st1)" using Inr by (cases x) simp
  obtain d st2 where d: "process_approval a (asm_policy asmt) (asm_risk asmt) st1 = (d, st2)" by fastforce
  have "same_config st st1" using resolve_state[OF x] by (simp add: same_config_def)
  also have "same_config st1 st2" using snd_config[OF d] by simp
  finally have st2: "same_config st st2" .
  have rec: "same_config st (record_approval_decision a d dec who k p st2)" for dec who k p
    by (rule same_config_trans[OF st2]) simp
  have hold: "same_config st (record_approval_decision a d dec who k p (snd (hold_for_manual_approval a d adapter risk asmt' st2)))"
    for dec who k p risk asmt'
    by (rule same_config_trans[OF same_config_trans[OF st2 small_config(4)[of st2 a d adapter risk asmt']]]) simp
  have auth: "same_config st (snd (create_execution_authorization a d p (record_approval_decision a d dec who k q st2)))"
    for p dec who k q by (rule same_config_trans[OF rec[of dec who k q]]) simp
  have run: "same_config st (snd (execute_authorized a adapter asmt au (snd (create_execution_authorization a d p
      (record_approval_decision a d dec who k q st2)))))" for au p dec who k q
    by (rule same_config_trans[OF auth[of p dec who k q] authorized_config])
  show ?thesis using \<open>same_config st st1\<close> rec hold auth run
    by (auto simp: execute_governed_action_def x d Let_def split: prod.split option.split) (metis snd_conv)+
qed

lemma resume_config: "same_config st (snd (resume_hold h who st))"
proof -
  let ?st2 = "update_record (hold_id h) ''approved'' who
      (set_hold (hold_id h) (\<lambda>x. x\<lparr>hold_status := Approved, hold_approved_by := Some who\<rparr>) st)"
  obtain au st3 where a: "create_manual_authorization (hold_action h) who (hold_reason h) (Some (hold_id h)) h ?st2 = (au, st3)" by fastforce
  obtain r st5 where t: "translate_action_to_execution (hold_action h) (auth_id au) (hold_risk h) (Some (hold_adapter h)) None
      (Some (hold_prov h)) (save_authorization au st3) = (r, st5)" by fastforce
  have "same_config st (set_hold (hold_id h) (\<lambda>x. x\<lparr>hold_status := Approved, hold_approved_by := Some who\<rparr>) st)" by simp
  also have "same_config \<dots> ?st2" by simp
  also have "same_config ?st2 st3" using snd_config[OF a] by simp
  also have "same_config st3 (save_authorization au st3)" by simp
  also have "same_config \<dots> st5" using snd_config[OF t] by simp
  also have "same_config st5 (snd (run_request r (hold_adapter h) st5))" by simp
  finally show ?thesis by (auto simp: resume_hold_def a t Let_def split: prod.split option.split)
qed

lemma approve_config [simp]: "same_config st (snd (approve_held_action k who ok st))"
proof -
  have "same_config st (update_record k dec who (set_hold k f st))" for dec f
    by (rule same_config_trans[of _ "set_hold k f st"]) simp_all
  then show ?thesis by (auto simp: approve_held_action_def resume_config split: option.split)
qed

end
