(* ===== verification/Decision_History.thy ===== *)
theory Decision_History
  imports Governed_Frame
begin

text \<open>
  What happens to the decision on one hold over a run: the hold and its approval record stay, with
  the expiry time and the decision they have, whatever is executed, approved, changed by callers or
  restarted. The status of a hold that lapsed lives in memory only, so a lapsed hold is described by
  its undecided record and its expiry time.
\<close>

definition settled_as :: "ident \<Rightarrow> string \<Rightarrow> 'w gov \<Rightarrow> bool" where
  "settled_as k dec st \<longleftrightarrow> (\<exists>h r. get_hold k st = Some h \<and> get_record k st = Some r \<and> ar_decision r = dec \<and>
     (dec = ''manual_required'' \<longrightarrow> expired (hold_expires_at h) (g_now st)))"

section \<open>One entry point\<close>

lemma get_record_update:
  "get_record k (update_record j dec who st) =
     (if k = j then map_option (\<lambda>r. r\<lparr>ar_decision := dec, ar_approved_by := who\<rparr>) (get_record k st) else get_record k st)"
  by (simp add: get_record_def update_record_def find_modify_store)

lemma get_hold_set:
  assumes "\<And>x. hold_id (f x) = hold_id x"
  shows "get_hold k (set_hold j f st) = (if k = j then map_option f (get_hold k st) else get_hold k st)"
  using get_by_assign[of hold_id f k j "g_holds st"] assms by (auto simp: get_hold_def set_hold_def)

lemma resume_stores:
  "g_holds (snd (resume_hold h who st)) =
     g_holds (set_hold (hold_id h) (\<lambda>x. x\<lparr>hold_status := Approved, hold_approved_by := Some who\<rparr>) st)"
  "g_records (snd (resume_hold h who st)) = g_records (update_record (hold_id h) ''approved'' who st)"
proof -
  let ?st2 = "update_record (hold_id h) ''approved'' who
      (set_hold (hold_id h) (\<lambda>x. x\<lparr>hold_status := Approved, hold_approved_by := Some who\<rparr>) st)"
  obtain au st3 where a: "create_manual_authorization (hold_action h) who (hold_reason h) (Some (hold_id h)) h ?st2 = (au, st3)" by fastforce
  obtain r st5 where t: "translate_action_to_execution (hold_action h) (auth_id au) (hold_risk h) (Some (hold_adapter h)) None
      (Some (hold_prov h)) (save_authorization au st3) = (r, st5)" by fastforce
  have "snd (resume_hold h who st) = snd (run_request r (hold_adapter h) st5)"
    by (simp add: resume_hold_def Let_def a t split: prod.split option.split)
  moreover have "g_holds st5 = g_holds ?st2" "g_records st5 = g_records ?st2"
    using a translate_fields(13)[OF t]
    by (auto simp: save_authorization_def create_manual_authorization_def fresh_id_def Let_def)
  ultimately show
    "g_holds (snd (resume_hold h who st)) =
       g_holds (set_hold (hold_id h) (\<lambda>x. x\<lparr>hold_status := Approved, hold_approved_by := Some who\<rparr>) st)"
    "g_records (snd (resume_hold h who st)) = g_records (update_record (hold_id h) ''approved'' who st)"
    using run_request_same_base[of st5 r "hold_adapter h"] by (simp_all add: same_base_def update_record_def)
qed

lemma approve_hold_kept:
  assumes "get_hold k st = Some h"
  shows "\<exists>h'. get_hold k (snd (approve_held_action j who ok st)) = Some h' \<and> hold_expires_at h' = hold_expires_at h"
proof -
  have set: "\<exists>h'. get_hold k (set_hold j f st) = Some h' \<and> hold_expires_at h' = hold_expires_at h"
    if "\<And>x. hold_id (f x) = hold_id x \<and> hold_expires_at (f x) = hold_expires_at x" for f
    using that assms by (cases "k = j") (simp_all add: get_hold_set)
  have resume: "\<exists>h'. get_hold k (snd (resume_hold x who st)) = Some h' \<and> hold_expires_at h' = hold_expires_at h"
    if "hold_id x = j" for x
    using set[of "\<lambda>x. x\<lparr>hold_status := Approved, hold_approved_by := Some who\<rparr>"] that
    by (simp add: get_hold_def resume_stores)
  show ?thesis
    using assms set[of "\<lambda>x. x\<lparr>hold_status := Rejected\<rparr>"] resume
    by (auto simp: approve_held_action_def get_hold_def get_by_def dest: find_SomeD split: option.split)
qed

text \<open>An approval touches the record of a pending hold within its time, and no other record.\<close>

lemma approve_record_kept:
  assumes r: "get_record k st = Some r"
    and quiet: "k = j \<Longrightarrow> get_hold j st = Some h \<and> (hold_status h \<noteq> Pending \<or> expired (hold_expires_at h) (g_now st))"
  shows "get_record k (snd (approve_held_action j who ok st)) = Some r"
proof (cases "k = j")
  case True
  then show ?thesis using r quiet by (auto simp: approve_held_action_def get_record_def set_hold_def)
next
  case False
  have k: "ar_id r = k" using r by (auto simp: get_record_def get_by_def dest: find_SomeD)
  have upd: "get_record k (update_record j dec who st) = Some r" for dec
    using r k False by (simp add: get_record_update)
  have resume: "get_record k (snd (resume_hold x who st)) = Some r" if "hold_id x = j" for x
    using upd[of "''approved''"] that by (simp add: get_record_def resume_stores)
  have rej: "get_record k (update_record j dec who (set_hold j f st)) = Some r" for dec f
    using upd[of dec] by (simp add: get_record_def update_record_def set_hold_def)
  show ?thesis using r resume rej
    by (auto simp: approve_held_action_def get_hold_def get_by_def get_record_def set_hold_def dest: find_SomeD split: option.split)
qed

lemma execute_records:
  fixes st :: "'w gov"
  shows "g_records (snd (execute_governed_action a adapter st)) = g_records st \<or>
   (\<exists>r. g_records (snd (execute_governed_action a adapter st)) = save record_key r (g_records st))"
proof (cases "resolve_assessment st a adapter")
  case (Inl e)
  then show ?thesis by (cases e) (simp_all add: execute_governed_action_def)
next
  case (Inr x)
  obtain asmt st1 where x: "resolve_assessment st a adapter = Inr (asmt, st1)" using Inr by (cases x) simp
  obtain d st2 where d: "process_approval a (asm_policy asmt) (asm_risk asmt) st1 = (d, st2)" by fastforce
  have st2: "g_records st2 = g_records st" "g_records st1 = g_records st"
    using d resolve_state[OF x] by (auto simp: process_approval_def fresh_id_def Let_def)
  have rec: "\<exists>r. g_records (record_approval_decision a d dec who k p s) = save record_key r (g_records s)" for dec who k p s
    by (auto simp: record_approval_decision_def Let_def)
  have hold: "g_records (snd (hold_for_manual_approval a d adapter risk p s)) = g_records s" for risk p s
    by (simp add: hold_for_manual_approval_def fresh_id_def Let_def)
  have auth: "g_records (snd (create_execution_authorization a d p s)) = g_records s" for p s
    by (simp add: create_execution_authorization_def fresh_id_def Let_def)
  have run: "g_records (snd (execute_authorized a adapter asmt au s)) = g_records s" for au and s :: "'w gov"
  proof -
    obtain r s2 where t: "translate_action_to_execution a (auth_id au) (Some (rk_level (asm_risk asmt))) (Some adapter)
        (Some (asm_prov asmt)) None (save_authorization au s) = (r, s2)" by fastforce
    have "snd (execute_authorized a adapter asmt au s) = snd (run_request r adapter s2)"
      by (simp add: execute_authorized_def t split: prod.split option.split)
    then show ?thesis using run_request_same_base[of s2 r adapter] translate_fields(13)[OF t]
      by (simp add: same_base_def save_authorization_def)
  qed
  show ?thesis
  proof (cases "pol_allowed (asm_policy asmt)")
    case False
    then show ?thesis using st2 by (simp add: execute_governed_action_def x Let_def)
  next
    case True
    obtain h st3 where h: "hold_for_manual_approval a d adapter (Some (rk_level (asm_risk asmt))) (Some (asm_prov asmt)) st2 = (h, st3)"
      by fastforce
    have st3: "g_records st3 = g_records st" using hold[of "Some (rk_level (asm_risk asmt))" "Some (asm_prov asmt)" st2] h st2 by simp
    let ?s = "record_approval_decision a d ''approved'' ''approval_policy'' None (Some (asm_prov asmt)) st2"
    obtain au st4 where au: "create_execution_authorization a d (Some (asm_prov asmt)) ?s = (au, st4)" by fastforce
    have st4: "g_records st4 = g_records ?s" using auth[of "Some (asm_prov asmt)" ?s] au by simp
    show ?thesis
    proof (cases "ad_mode d")
      case Auto
      then have "g_records (snd (execute_governed_action a adapter st)) = g_records ?s"
        using True au st4 run by (cases au) (simp_all add: execute_governed_action_def x d Let_def)
      then show ?thesis using rec[of "''approved''" "''approval_policy''" None "Some (asm_prov asmt)" st2] st2 by simp
    next
      case Manual
      then show ?thesis using True rec[of "''manual_required''" "[]" "Some (hold_id h)" "Some (asm_prov asmt)" st3] st3
        by (simp add: execute_governed_action_def x d h Let_def)
    next
      case Reject
      then show ?thesis using True rec[of "''rejected''" "''approval_policy''" None "Some (asm_prov asmt)" st2] st2
        by (simp add: execute_governed_action_def x d Let_def)
    qed
  qed
qed

section \<open>One step\<close>

lemma clock_step: "gov_step st st' \<Longrightarrow> g_now st \<le> g_now st'"
proof (induction rule: gov_step.induct)
  case (step_execute a adapter st out st')
  then show ?case using execute_config[of st a adapter] by (simp add: same_config_def)
next
  case (step_approve k who ok st out st')
  then show ?case using approve_config[of st k who ok] by (simp add: same_config_def)
next
  case (step_domain rg st st')
  then show ?case by (auto simp: register_domain_def split: if_splits)
next
  case (step_restart st)
  then show ?case by (simp add: restart_eq reopen_stores_def)
qed (simp_all add: register_adapter_def fresh_id_def)

lemma restart_record: "gov_inv st \<Longrightarrow> g_records (restart st) = g_records st"
  by (simp add: restart_eq reopen_others gov_inv_def)

lemma restart_hold_kept:
  assumes "gov_inv st" and "get_hold k st = Some h"
  shows "\<exists>h'. get_hold k (restart st) = Some h' \<and> hold_prov h' = hold_prov h \<and> hold_expires_at h' = hold_expires_at h"
proof -
  have "\<exists>h'. find (\<lambda>x. hold_id x = k) ys = Some h' \<and> hold_prov h' = hold_prov h \<and> hold_expires_at h' = hold_expires_at h"
    if "list_all2 (\<lambda>y x. hold_id y = hold_id x \<and> hold_prov y = hold_prov x \<and> hold_expires_at y = hold_expires_at x) ys xs"
      "find (\<lambda>x. hold_id x = k) xs = Some h" for xs ys
    using that by (induction rule: list_all2_induct) (auto split: if_splits)
  from this[OF restart_holds[OF assms(1)]] assms(2) show ?thesis by (simp add: get_hold_def get_by_def)
qed

lemma hold_step:
  assumes "gov_step st st'" and "gov_inv st" and "get_hold k st = Some h"
  shows "\<exists>h'. get_hold k st' = Some h' \<and> hold_expires_at h' = hold_expires_at h"
  using assms
proof (induction rule: gov_step.induct)
  case (step_execute a adapter st out st')
  then have "st' = snd (execute_governed_action a adapter st)" by simp
  then show ?case using step_execute.prems(2) execute_holds[of a adapter st]
    by (auto simp: get_hold_def get_by_save)
next
  case (step_approve j who ok st out st')
  then show ?case using approve_hold_kept[of k st h j who ok] by simp
next
  case (step_mutate st j f)
  then show ?case by (cases "k = j") (simp_all add: get_hold_set)
next
  case (step_domain rg st st')
  then show ?case by (auto simp: register_domain_def get_hold_def split: if_splits)
next
  case (step_restart st)
  then show ?case using restart_hold_kept[of st k h] by blast
qed (simp_all add: register_adapter_def fresh_id_def get_hold_def)

lemma hold_decision:
  assumes "gov_inv st" and "get_hold k st = Some h" and "get_record k st = Some r"
  shows "(hold_status h = Approved \<longleftrightarrow> ar_decision r = ''approved'') \<and>
     (hold_status h = Pending \<longrightarrow> ar_decision r = ''manual_required'')"
proof -
  have "h \<in> set (ev_holds (evidence_of st))" "r \<in> set (ev_records (evidence_of st))" "ar_id r = hold_id h"
    using assms(2,3) by (auto simp: evidence_of_def get_hold_def get_record_def get_by_def dest: find_SomeD)
  then show ?thesis using assms(1) hold_record[of "evidence_of st" h r] by (simp add: gov_inv_def)
qed

lemma record_step:
  assumes "gov_step st st'" and "gov_inv st" and "settled_as k dec st" and "get_record k st = Some r"
  shows "get_record k st' = Some r"
  using assms
proof (induction rule: gov_step.induct)
  case (step_execute a adapter st out st')
  then have "st' = snd (execute_governed_action a adapter st)" by simp
  then show ?case using step_execute.prems(3) execute_records[of a adapter st]
    by (auto simp: get_record_def get_by_save)
next
  case (step_approve j who ok st out st')
  obtain h where h: "get_hold k st = Some h" and dec: "ar_decision r = ''manual_required'' \<longrightarrow> expired (hold_expires_at h) (g_now st)"
    using step_approve.prems by (auto simp: settled_as_def)
  have "hold_status h \<noteq> Pending \<or> expired (hold_expires_at h) (g_now st)"
    using hold_decision[OF step_approve.prems(1) h step_approve.prems(3)] dec by blast
  then show ?case using approve_record_kept[of k st r j h who ok] h step_approve(1) step_approve.prems(3) by (cases "k = j") simp_all
next
  case (step_domain rg st st')
  then show ?case by (auto simp: register_domain_def get_record_def split: if_splits)
next
  case (step_restart st)
  then show ?case using restart_record[of st] by (simp add: get_record_def)
qed (simp_all add: register_adapter_def fresh_id_def get_record_def set_hold_def)

lemma settled_step:
  assumes "gov_step st st'" and "gov_inv st" and "settled_as k dec st"
  shows "settled_as k dec st'"
proof -
  obtain h r where h: "get_hold k st = Some h" and r: "get_record k st = Some r" "ar_decision r = dec"
    and late: "dec = ''manual_required'' \<longrightarrow> expired (hold_expires_at h) (g_now st)"
    using assms(3) by (auto simp: settled_as_def)
  obtain h' where h': "get_hold k st' = Some h'" "hold_expires_at h' = hold_expires_at h"
    using hold_step[OF assms(1,2) h] by blast
  have "expired (hold_expires_at h) (g_now st) \<longrightarrow> expired (hold_expires_at h') (g_now st')"
    using clock_step[OF assms(1)] h'(2) by (auto simp: expired_def split: option.splits)
  then show ?thesis using h'(1) record_step[OF assms r(1)] r(2) late by (auto simp: settled_as_def)
qed

lemma settled_run:
  assumes "gov_step\<^sup>*\<^sup>* st st'" and "gov_inv st" and "settled_as k dec st"
  shows "settled_as k dec st' \<and> gov_inv st'"
  using assms by (induction rule: rtranclp_induct) (auto intro: settled_step step_inv)

section \<open>What an approval attempt settles, and what a settled hold answers\<close>

lemma resume_not_expired: "fst (resume_hold h who st) \<noteq> ApprovalExpired \<and> fst (resume_hold h who st) \<noteq> ApprovalRejected"
  by (simp add: resume_hold_def Let_def split: prod.split option.split)

lemma approval_settles:
  assumes inv: "gov_inv st" and out: "approve_held_action k who ok st = (out, st')"
    and dec: "out \<notin> {ApprovalNotFound, AssessmentInvalid} \<union> range AlreadyResolved"
  shows "settled_as k (case out of ApprovalExpired \<Rightarrow> ''manual_required'' | ApprovalRejected \<Rightarrow> ''rejected'' | _ \<Rightarrow> ''approved'') st'"
proof -
  obtain h where h: "get_hold k st = Some h" "hold_status h = Pending"
    using out dec by (auto simp: approve_held_action_def split: option.splits if_splits)
  have k: "hold_id h = k" and m: "h \<in> set (mem (g_holds st))" using h(1) by (auto simp: get_hold_def get_by_def dest: find_SomeD)
  obtain r where r: "get_record k st = Some r"
  proof -
    have "\<exists>r\<in>set (mem (g_records st)). ar_id r = k"
      using inv m k by (fastforce simp: gov_inv_def evidence_of_def evidence_defs hold_ok_def)
    then show thesis using that by (cases "get_record k st") (auto simp: get_record_def get_by_def find_None)
  qed
  have man: "ar_decision r = ''manual_required''" using hold_decision[OF inv h(1) r] h(2) by simp
  let ?rej = "set_hold k (\<lambda>x. x\<lparr>hold_status := Rejected\<rparr>) st"
  consider "out = ApprovalExpired" "st' = ?rej" "expired (hold_expires_at h) (g_now st)"
    | "out = ApprovalRejected" "st' = update_record k ''rejected'' who ?rej"
    | "st' = snd (resume_hold h who st)" "out = fst (resume_hold h who st)"
  proof -
    have "(out, st') \<in> {(ApprovalExpired, ?rej), (ApprovalRejected, update_record k ''rejected'' who ?rej),
        (AssessmentInvalid, st), resume_hold h who st} \<and>
        (fst (out, st') = ApprovalExpired \<longrightarrow> expired (hold_expires_at h) (g_now st))"
      unfolding out[symmetric] using h resume_not_expired[of h who st]
      by (cases "g_registry st (pv_domain (hold_prov h))") (simp_all add: approve_held_action_def)
    then show thesis using that dec by (cases "resume_hold h who st") auto
  qed
  then show ?thesis
  proof cases
    case 1
    have "get_record k st' = Some r" using r 1 by (simp add: get_record_def set_hold_def)
    then show ?thesis using 1 h man by (simp add: settled_as_def get_hold_set)
  next
    case 2
    then have "get_record k st' = Some (r\<lparr>ar_decision := ''rejected'', ar_approved_by := who\<rparr>)"
      using r by (simp add: get_record_update) (simp add: get_record_def set_hold_def)
    then show ?thesis using 2 h by (simp add: settled_as_def get_hold_set)
  next
    case 3
    have "out \<noteq> ApprovalExpired" "out \<noteq> ApprovalRejected"
      unfolding 3(2) using resume_not_expired[of h who st] by simp_all
    moreover have "get_record k st' = Some (r\<lparr>ar_decision := ''approved'', ar_approved_by := who\<rparr>)"
      using r k get_record_update[of k k "''approved''" who st] by (simp add: 3(1) get_record_def resume_stores)
    moreover have "\<exists>h'. get_hold k st' = Some h'"
      using h k get_hold_set[of "\<lambda>x. x\<lparr>hold_status := Approved, hold_approved_by := Some who\<rparr>" k k st]
      by (simp add: 3(1) get_hold_def resume_stores)
    ultimately show ?thesis by (cases out) (simp_all add: settled_as_def)
  qed
qed

lemma settled_answer:
  assumes inv: "gov_inv st" and s: "settled_as k dec st"
  shows "dec = ''approved'' \<Longrightarrow> approve_held_action k who ok st = (AlreadyResolved Approved, st)"
    and "dec = ''rejected'' \<Longrightarrow> approve_held_action k who ok st = (AlreadyResolved Rejected, st)"
    and "dec = ''manual_required'' \<Longrightarrow> approve_held_action k who ok st \<in>
       {(AlreadyResolved Rejected, st), (ApprovalExpired, set_hold k (\<lambda>h. h\<lparr>hold_status := Rejected\<rparr>) st)}"
proof -
  obtain h r where h: "get_hold k st = Some h" and r: "get_record k st = Some r" "ar_decision r = dec"
    and late: "dec = ''manual_required'' \<longrightarrow> expired (hold_expires_at h) (g_now st)"
    using s by (auto simp: settled_as_def)
  note d = hold_decision[OF inv h r(1)]
  show "dec = ''approved'' \<Longrightarrow> approve_held_action k who ok st = (AlreadyResolved Approved, st)"
    using d h r(2) by (simp add: approve_held_action_def)
  show "dec = ''rejected'' \<Longrightarrow> approve_held_action k who ok st = (AlreadyResolved Rejected, st)"
    using d h r(2) by (cases "hold_status h") (simp_all add: approve_held_action_def)
  show "dec = ''manual_required'' \<Longrightarrow> approve_held_action k who ok st \<in>
       {(AlreadyResolved Rejected, st), (ApprovalExpired, set_hold k (\<lambda>h. h\<lparr>hold_status := Rejected\<rparr>) st)}"
    using d h r(2) late by (cases "hold_status h") (simp_all add: approve_held_action_def)
qed

end
