(* ===== verification/Governance_Properties.thy ===== *)
theory Governance_Properties
  imports Governance_Sample Decision_History
begin

text \<open>
  The properties of the governed lifecycle: what has to hold before an adapter runs, what a
  refusal leaves behind, which actions run without a human, that approvals are decided and used
  once and survive a restart, and that a digest identifies the instruction it was computed from.
\<close>

section \<open>A digest identifies its instruction\<close>

lemma map_of_sort_key:
  assumes "distinct (List.map fst xs)"
  shows "map_of (sort_key fst xs) = map_of xs"
proof -
  have "distinct (List.map fst (sort_key fst xs))"
    using assms by (simp add: distinct_map)
  then show ?thesis using assms by (simp add: map_of_inject_set)
qed

lemma canon_lookup:
  assumes "canon (PDict p) = canon (PDict q)" and "distinct (List.map fst p)" and "distinct (List.map fst q)"
  shows "map_option canon (map_of p k) = map_option canon (map_of q k)"
proof -
  let ?c = "\<lambda>(k, v). (k, canon v)"
  have "map_of (List.map ?c p) = map_of (List.map ?c q)"
    using assms map_of_sort_key[of "List.map ?c p"] map_of_sort_key[of "List.map ?c q"]
    by (simp add: case_prod_beta o_def)
  then have "map_of (List.map ?c p) k = map_of (List.map ?c q) k" by simp
  then show ?thesis by (simp add: map_of_map)
qed

lemma outcome_json_inj: "canon (outcome_json e) = canon (outcome_json e') \<Longrightarrow> e = e'"
proof (cases e; cases e')
  fix x y assume c: "canon (outcome_json e) = canon (outcome_json e')" and e: "e = Some x" "e' = Some y"
  let ?p = "\<lambda>x. [(''target'', PStr (exp_target x)), (''operation'', PStr (exp_operation x)), (''expected_state'', PStr (exp_state x))]"
  have "map_option canon (map_of (?p x) k) = map_option canon (map_of (?p y) k)" for k
    by (rule canon_lookup) (use c e in \<open>simp_all add: outcome_json_def\<close>)
  from this[of "''target''"] this[of "''operation''"] this[of "''expected_state''"]
  show "e = e'" using e by simp
qed (auto simp: outcome_json_def)

lemma digest_identifies:
  assumes sha: "inj sha" and b: "bind_action sha a ad = Inr (d, p)" "bind_action sha a' ad' = Inr (d, p')"
    and wf: "wf_json (PDict (act_parameters a))" "wf_json (PDict (act_parameters a'))"
  shows "act_domain a = act_domain a' \<and> act_id a = act_id a' \<and> act_decision_id a = act_decision_id a' \<and>
     act_component a = act_component a' \<and> act_type a = act_type a' \<and> act_expected a = act_expected a' \<and>
     ad = ad' \<and> canon (PDict (act_parameters a)) = canon (PDict (act_parameters a'))"
proof -
  have type_inj: "type_value t = type_value t' \<Longrightarrow> t = t'" for t t' by (cases t; cases t'; simp)
  have shape: "p = [(''canonicalization_version'', PStr canonicalization_version),
      (''governance_domain'', PStr (act_domain a)), (''action_id'', PStr (act_id a)),
      (''decision_id'', PStr (act_decision_id a)), (''target'', PStr (act_component a)),
      (''operation'', PStr (type_value (act_type a))), (''parameters'', PDict (act_parameters a)),
      (''expected_outcome'', outcome_json (act_expected a)), (''adapter_name'', PStr ad)]"
    if "bind_action sha a ad = Inr (d, p)" for a ad p
    using that by (auto simp: binding_defs result_simps split: if_splits)
  have wf_out: "wf_json (outcome_json e)" for e by (simp add: outcome_json_def split: option.split)
  obtain t where t: "dump (PDict p) = Some t" "d = sha t" using bind_action_digest[OF b(1)] by blast
  obtain t' where t': "dump (PDict p') = Some t'" "d = sha t'" using bind_action_digest[OF b(2)] by blast
  have "t' = t" using t(2) t'(2) sha by (simp add: inj_eq)
  moreover have "wf_json (PDict p)" "wf_json (PDict p')" using shape[OF b(1)] shape[OF b(2)] wf wf_out by simp_all
  ultimately have c: "canon (PDict p) = canon (PDict p')" using canonical_text_iff t(1) t'(1) by blast
  have l: "map_option canon (map_of p k) = map_option canon (map_of p' k)" for k
    by (rule canon_lookup[OF c]) (simp_all add: shape[OF b(1)] shape[OF b(2)])
  show ?thesis
    using l[of "''governance_domain''"] l[of "''action_id''"] l[of "''decision_id''"] l[of "''target''"]
      l[of "''operation''"] l[of "''parameters''"] l[of "''expected_outcome''"] l[of "''adapter_name''"]
    by (auto simp: shape[OF b(1)] shape[OF b(2)] dest: type_inj outcome_json_inj)
qed

text \<open>The canonical text that is hashed: what \<open>bind_action\<close> gives for the identity as hash.\<close>

definition instruction_text :: "action \<Rightarrow> string \<Rightarrow> string option" where
  "instruction_text a adapter = (case bind_action (\<lambda>t. t) a adapter of Inl e \<Rightarrow> None | Inr (t, payload) \<Rightarrow> Some t)"

definition same_instruction :: "action \<Rightarrow> string \<Rightarrow> action \<Rightarrow> string \<Rightarrow> bool" where
  "same_instruction a ad a' ad' \<longleftrightarrow> act_domain a = act_domain a' \<and> act_id a = act_id a' \<and>
     act_decision_id a = act_decision_id a' \<and> act_component a = act_component a' \<and> act_type a = act_type a' \<and>
     act_expected a = act_expected a' \<and> ad = ad' \<and> canon (PDict (act_parameters a)) = canon (PDict (act_parameters a'))"

lemma bind_action_text:
  "bind_action sha a adapter = Inr (d, p) \<Longrightarrow> \<exists>t. instruction_text a adapter = Some t \<and> d = sha t"
  by (auto simp: instruction_text_def binding_defs result_simps split: if_splits sum.splits option.splits)

lemma text_identifies:
  assumes "instruction_text a ad = Some t" and "instruction_text a' ad' = Some t"
    and "wf_json (PDict (act_parameters a))" and "wf_json (PDict (act_parameters a'))"
  shows "same_instruction a ad a' ad'"
proof -
  obtain p p' where "bind_action (\<lambda>t. t) a ad = Inr (t, p)" "bind_action (\<lambda>t. t) a' ad' = Inr (t, p')"
    using assms(1,2) by (auto simp: instruction_text_def split: sum.splits)
  then show ?thesis using digest_identifies[of "\<lambda>t. t" a ad t p a' ad' p'] assms(3,4)
    by (simp add: same_instruction_def inj_def)
qed

lemma sample_binds_text: "\<exists>d p. bind_action (\<lambda>t. t) (sample_action True) ''simulation'' = Inr (d, p) \<and> d \<noteq> []"
proof -
  let ?p = "[(''canonicalization_version'', PStr canonicalization_version),
     (''governance_domain'', PStr default_domain), (''action_id'', PStr ''a''), (''decision_id'', PStr ''d''),
     (''target'', PStr ''c''), (''operation'', PStr ''restart''), (''parameters'', PDict []),
     (''expected_outcome'', PNone), (''adapter_name'', PStr ''simulation'')]"
  have "case digest_payload (\<lambda>t. t) ?p of Inl e \<Rightarrow> False | Inr t \<Rightarrow> t \<noteq> []"
    by code_simp
  then obtain t where t: "digest_payload (\<lambda>t. t) ?p = Inr t" "t \<noteq> []"
    by (cases "digest_payload (\<lambda>t. t) ?p") simp_all
  have "instruction_payload default_domain ''a'' ''d'' ''c'' ''restart'' [] None ''simulation'' = Inr ?p"
    by (simp add: instruction_payload_def default_domain_def outcome_json_def)
  then have "bind_action (\<lambda>t. t) (sample_action True) ''simulation'' = Inr (t, ?p)"
    using t(1) by (simp add: bind_action_def sample_action_def)
  then show ?thesis using t(2) by blast
qed

section \<open>The execution boundary\<close>

text \<open>C1: The engine lets the world change, or writes an audit record, only for a request whose stored
  authorization is approved, not expired, and agrees with the request on action, target,
  operation and expected outcome and on every field of the provenance (domain, adapter,
  assessment, both evaluators with their versions, canonicalization version, digest, evidence
  references, uncertainty and recovery conditions); the digest recomputed from the request, in the
  current canonicalization, is the digest that was authorized, for this adapter; the policy allows
  it and the adapter supports it.
\<close>

theorem engine_needs_authorization:
  assumes "g_world (snd (engine_execute r adapter st)) \<noteq> g_world st \<or>
     g_audits (snd (engine_execute r adapter st)) \<noteq> g_audits st"
  shows "\<exists>a d payload ad. get_auth (req_authorization_id r) st = Some a \<and>
     auth_status a = ''approved'' \<and> \<not> expired (auth_expires_at a) (g_now st) \<and>
     auth_action_id a = req_action_id r \<and> auth_target a = req_target r \<and>
     auth_operation a = req_operation r \<and> auth_expected a = req_expected r \<and>
     auth_prov a = req_prov r \<and> pv_adapter (req_prov r) = Some adapter \<and>
     bind_execution_request (g_sha st) r adapter = Inr (d, payload) \<and>
     pv_digest (req_prov r) = Some d \<and> d \<noteq> [] \<and> pv_canon_version (req_prov r) = Some canonicalization_version \<and>
     execution_policy r = Allow \<and> g_adapters st adapter = Some ad \<and> ad_supports ad r"
proof -
  obtain ad where c: "cleared st r adapter ad" using assms engine_not_cleared by metis
  then obtain a where a: "get_auth (req_authorization_id r) st = Some a" "auth_status a = ''approved''"
    "\<not> expired (auth_expires_at a) (g_now st)" "auth_action_id a = req_action_id r"
    "auth_target a = req_target r" "auth_operation a = req_operation r" "auth_expected a = req_expected r"
    "\<not> binding_mismatch a r adapter" "\<not> instruction_mismatch (g_sha st) r adapter"
    by (auto simp: cleared_def gate_None)
  have prov: "auth_prov a = req_prov r"
    using a(8) by (intro provenance.equality) (simp_all add: binding_mismatch_def Let_def)
  have q: "truthy_str (pv_digest (req_prov r))" "pv_adapter (req_prov r) = Some adapter"
    using a(8) by (simp_all add: binding_mismatch_def Let_def)
  obtain d payload where b: "bind_execution_request (g_sha st) r adapter = Inr (d, payload)"
    "Some d = pv_digest (req_prov r)"
    "map_option PStr (pv_canon_version (req_prov r)) = map_of payload ''canonicalization_version''"
    using a(9) q(1)
    by (cases "bind_execution_request (g_sha st) r adapter") (auto simp: instruction_mismatch_def Let_def truthy_str_ex)
  have "map_of payload ''canonicalization_version'' = Some (PStr canonicalization_version)"
    using b(1) by (auto simp: binding_defs result_simps split: if_splits)
  then have "pv_canon_version (req_prov r) = Some canonicalization_version" using b(3) by auto
  moreover have "d \<noteq> []" using q(1) b(2) by (cases d) (simp_all flip: b(2))
  ultimately show ?thesis using a c b q prov by (auto simp: cleared_def)
qed

lemma engine_needs_authorization_witness:
  "\<exists>r (st :: nat gov). (g_world (snd (engine_execute r ''simulation'' st)) \<noteq> g_world st \<or>
       g_audits (snd (engine_execute r ''simulation'' st)) \<noteq> g_audits st) \<and>
     (\<exists>a. get_auth (req_authorization_id r) st = Some a \<and> auth_status a = ''approved'')"
proof -
  obtain r st where c: "cleared st r ''simulation'' counter_adapter" using sample_cleared by blast
  have "g_world (snd (engine_execute r ''simulation'' st)) = Suc (g_world st)"
    by (simp add: engine_cleared[OF c] run_adapter_def counter_adapter_def save_audit_def save_trace_def
        fresh_id_def Let_def)
  then have w: "g_world (snd (engine_execute r ''simulation'' st)) \<noteq> g_world st \<or>
       g_audits (snd (engine_execute r ''simulation'' st)) \<noteq> g_audits st" by simp
  show ?thesis using engine_needs_authorization[OF w] w by blast
qed

text \<open>a request that a gate refuses returns a failed result with the gate's message, changes neither
  the world nor the audit records, and leaves exactly one new trace, marked as blocked, with the
  reason and the provenance of the request.
\<close>

theorem blocked_leaves_one_trace:
  assumes "gate st r adapter = Some why"
  shows "fst (engine_execute r adapter st) = Some (failed r why) \<and>
     g_world (snd (engine_execute r adapter st)) = g_world st \<and>
     g_audits (snd (engine_execute r adapter st)) = g_audits st \<and>
     (\<exists>t. mem (g_traces (snd (engine_execute r adapter st))) = mem (g_traces st) @ [t] \<and>
        tr_outcome t = ''blocked'' \<and> tr_reason t = why \<and> tr_execution_id t = req_execution_id r \<and>
        tr_prov t = req_prov r)"
  using assms by (simp add: engine_execute_def block_def save_trace_def fresh_id_def Let_def)

lemma blocked_leaves_one_trace_witness:
  "\<exists>r. gate sample_gov r ''simulation'' = Some ''Authorization not found'' \<and>
     fst (engine_execute r ''simulation'' sample_gov) = Some (failed r ''Authorization not found'')"
proof -
  have g: "gate sample_gov r ''simulation'' = Some ''Authorization not found''" for r
    by (simp add: gate_def get_auth_def get_by_def sample_defs empty_store_def)
  show ?thesis using blocked_leaves_one_trace[OF g] g by blast
qed

text \<open>C2: A call of the governed entry point executes, authorizes or changes the world only for an
  action whose assessment succeeded, that the policy allows, with low or medium risk, confidence
  of at least 90, no approval requirement, and a rollback.
\<close>

theorem execution_needs_automatic_approval:
  assumes out: "execute_governed_action a adapter st = (out, st')"
    and ran: "g_world st' \<noteq> g_world st \<or> g_auths st' \<noteq> g_auths st \<or> g_audits st' \<noteq> g_audits st \<or>
      (\<exists>res v. out = Executed res v)"
  shows "\<exists>asmt st1. resolve_assessment st a adapter = Inr (asmt, st1) \<and> pol_allowed (asm_policy asmt) \<and>
     rk_level (asm_risk asmt) \<in> {''low'', ''medium''} \<and> 90 \<le> act_confidence a \<and>
     \<not> act_requires_approval a \<and> rk_rollback (asm_risk asmt)"
proof (cases "resolve_assessment st a adapter")
  case (Inl e)
  then have "st' = st \<and> (\<forall>res v. out \<noteq> Executed res v)"
    using out by (cases e) (auto simp: execute_governed_action_def)
  with ran show ?thesis by blast
next
  case (Inr x)
  obtain asmt st1 where x: "resolve_assessment st a adapter = Inr (asmt, st1)" using Inr by (cases x) simp
  have "auto_eligible a asmt" using execute_not_auto[OF x _ out] ran by blast
  then show ?thesis using x unfolding auto_eligible_def by blast
qed

lemma execution_needs_automatic_approval_witness:
  "\<exists>asmt st1. resolve_assessment sample_gov (sample_action False) ''simulation'' = Inr (asmt, st1) \<and>
     rk_level (asm_risk asmt) \<in> {''low'', ''medium''}"
proof -
  have out: "execute_governed_action (sample_action False) ''simulation'' sample_gov =
      (fst (execute_governed_action (sample_action False) ''simulation'' sample_gov), sample_executed)"
    by (simp add: sample_executed_def)
  show ?thesis using execution_needs_automatic_approval[OF out] sample_run(1) by blast
qed

text \<open>C19: The converse, in every reachable state: an action that meets the automatic criteria, for a
  registered adapter, passes all gates of the engine. When the adapter supports the request it is
  called with the action's target, operation and parameters, the outcome is the adapter's result,
  and the world is the one it leaves (or the call raises what the adapter raised); when it does not,
  the outcome is the failed result that says so and the world stays. The hash is assumed to give
  non-empty text.
\<close>

theorem eligible_action_executes:
  assumes reach: "gov_reachable st" and sha: "\<And>t. g_sha st t \<noteq> []"
    and x: "resolve_assessment st a adapter = Inr (asmt, st1)"
    and el: "pol_allowed (asm_policy asmt)" "rk_level (asm_risk asmt) \<in> {''low'', ''medium''}"
      "90 \<le> act_confidence a" "\<not> act_requires_approval a" "rk_rollback (asm_risk asmt)"
    and ad: "g_adapters st adapter = Some ad"
  shows "\<exists>r. req_target r = act_component a \<and> req_operation r = type_value (act_type a) \<and>
     req_parameters r = act_parameters a \<and>
     (if ad_supports ad r then
        (case ad_execute ad r (g_world st) of
           (Some res, w) \<Rightarrow> (\<exists>v. fst (execute_governed_action a adapter st) = Executed res v) \<and>
              g_world (snd (execute_governed_action a adapter st)) = w
         | (None, w) \<Rightarrow> fst (execute_governed_action a adapter st) = Raised \<and>
              g_world (snd (execute_governed_action a adapter st)) = w)
      else fst (execute_governed_action a adapter st) = Executed (failed r ''Adapter does not support request'') None \<and>
        g_world (snd (execute_governed_action a adapter st)) = g_world st)"
proof -
  obtain r st5 where r: "admitted st5 r adapter ad" "g_world st5 = g_world st"
    "req_target r = act_component a" "req_operation r = type_value (act_type a)"
    "req_parameters r = act_parameters a"
    and ex: "execute_governed_action a adapter st = (case run_request r adapter st5 of
       (None, s) \<Rightarrow> (Raised, s) | (Some (res, v), s) \<Rightarrow> (Executed res v, s))"
    using eligible_admitted[OF reach sha x el ad] by blast
  show ?thesis
    by (rule exI[of _ r])
      (use run_request_admitted[OF r(1)] r in \<open>auto simp: ex split: prod.splits option.splits\<close>)
qed

lemma eligible_action_executes_witness:
  "\<exists>res v. fst (execute_governed_action (sample_action False) ''simulation'' sample_gov) = Executed res v"
proof -
  obtain asmt st1 where a: "resolve_assessment sample_gov (sample_action False) ''simulation'' = Inr (asmt, st1)"
    "pol_allowed (asm_policy asmt)" "rk_level (asm_risk asmt) \<in> {''low'', ''medium''}"
    "90 \<le> act_confidence (sample_action False)" "\<not> act_requires_approval (sample_action False)"
    "rk_rollback (asm_risk asmt)" using sample_eligible by blast
  show ?thesis
    using eligible_action_executes[OF sample_reachable sample_sha a sample_adapter(1)]
    by (auto simp: counter_adapter_def)
qed

section \<open>Human approval\<close>

text \<open>C20: In every reachable state, approving a pending hold within its time, whose domain is registered
  with the evaluators that assessed it, whose digest still matches the held action and whose adapter
  is registered, passes all gates: an adapter that supports the request is called once with the held
  action and the outcome is its result; one that does not is answered with the failed result that
  says so, and the world stays.
\<close>

theorem approved_hold_executes:
  assumes reach: "gov_reachable st" and sha: "\<And>t. g_sha st t \<noteq> []"
    and h: "get_hold k st = Some h" "hold_status h = Pending" "\<not> expired (hold_expires_at h) (g_now st)"
    and rg: "g_registry st (pv_domain (hold_prov h)) = Some rg" "evaluator_binding rg h"
    and same: "pv_digest (hold_prov h) = Some (held_digest (g_sha st) h)"
    and ad: "g_adapters st (hold_adapter h) = Some ad"
  shows "\<exists>r. req_action_id r = act_id (hold_action h) \<and> req_target r = act_component (hold_action h) \<and>
     req_operation r = type_value (act_type (hold_action h)) \<and> req_parameters r = act_parameters (hold_action h) \<and>
     (if ad_supports ad r then
        (case ad_execute ad r (g_world st) of
           (Some res, w) \<Rightarrow> (\<exists>v. fst (approve_held_action k who True st) = ApprovalExecuted res v) \<and>
              g_world (snd (approve_held_action k who True st)) = w
         | (None, w) \<Rightarrow> fst (approve_held_action k who True st) = ApprovalRaised \<and>
              g_world (snd (approve_held_action k who True st)) = w)
      else fst (approve_held_action k who True st) =
          ApprovalExecuted (failed r ''Adapter does not support request'') None \<and>
        g_world (snd (approve_held_action k who True st)) = g_world st)"
proof -
  obtain r st5 where r: "admitted st5 r (hold_adapter h) ad" "g_world st5 = g_world st"
    "req_action_id r = act_id (hold_action h)" "req_target r = act_component (hold_action h)"
    "req_operation r = type_value (act_type (hold_action h))" "req_parameters r = act_parameters (hold_action h)"
    and ex: "approve_held_action k who True st = (case run_request r (hold_adapter h) st5 of
       (None, s) \<Rightarrow> (ApprovalRaised, s) | (Some (res, v), s) \<Rightarrow> (ApprovalExecuted res v, s))"
    using held_admitted[OF reach sha h rg same ad] by blast
  show ?thesis
    by (rule exI[of _ r])
      (use run_request_admitted[OF r(1)] r in \<open>auto simp: ex split: prod.splits option.splits\<close>)
qed

lemma approved_hold_executes_witness:
  "\<exists>res v. fst (approve_held_action ''uxx'' ''operator'' True sample_held) = ApprovalExecuted res v"
  using approved_hold_executes[OF sample_held_reachable _ sample_held_eq(1) _ _ _ _ sample_hold_digest, of default_registration counter_adapter "''operator''"]
  by (auto simp: sample_held_eq counter_adapter_def)

text \<open>C4: In every reachable state, once an approval attempt has decided a hold, every later attempt is
  refused, whatever happens in between (other executions and approvals, changes to the held
  action, the clock, restarts): after an execution, also one where the adapter raised, it answers
  that the hold is already approved, after a rejection that it is already rejected, and the state
  stays as it is. A hold that lapsed is never decided otherwise: a later attempt answers that it is
  rejected, or, since a restart forgets the lapse, that it lapsed, and then changes nothing but the
  hold's status. Evidence is not moved to an archive in between.
\<close>

theorem approval_decides_once:
  assumes "gov_reachable st" and "approve_held_action k who ok st = (out, st')"
    and "out \<notin> {ApprovalNotFound, AssessmentInvalid} \<union> range AlreadyResolved"
    and "gov_step\<^sup>*\<^sup>* st' st''"
  shows "case out of
      ApprovalRejected \<Rightarrow> approve_held_action k who' ok' st'' = (AlreadyResolved Rejected, st'')
    | ApprovalExpired \<Rightarrow> approve_held_action k who' ok' st'' \<in>
        {(AlreadyResolved Rejected, st''), (ApprovalExpired, set_hold k (\<lambda>h. h\<lparr>hold_status := Rejected\<rparr>) st'')}
    | _ \<Rightarrow> approve_held_action k who' ok' st'' = (AlreadyResolved Approved, st'')"
proof -
  have inv: "gov_inv st" by (rule reachable_inv[OF assms(1)])
  have inv': "gov_inv st'" using approve_inv[OF inv, of k who ok] assms(2) by simp
  note run = settled_run[OF assms(4) inv' approval_settles[OF inv assms(2,3)]]
  show ?thesis using assms(3) run settled_answer[of st'' k _ who' ok'] by (cases out) auto
qed

lemma approval_decides_once_witness:
  "\<exists>st'. approve_held_action ''uxx'' ''operator'' False sample_held = (ApprovalRejected, st') \<and>
     approve_held_action ''uxx'' ''operator'' True (restart st') = (AlreadyResolved Rejected, restart st')"
proof -
  obtain st' where a: "approve_held_action ''uxx'' ''operator'' False sample_held = (ApprovalRejected, st')"
    by (simp add: approve_held_action_def sample_held_eq)
  have "gov_step\<^sup>*\<^sup>* st' (restart st')" by (rule r_into_rtranclp) (rule step_restart)
  then show ?thesis using approval_decides_once[OF sample_held_reachable a _, of "restart st'" "''operator''" True] a by auto
qed

text \<open>Two actions bound to the same digest are the same instruction: domain, action and decision
  ids, target, operation, expected outcome and adapter agree, and the parameters agree up to the
  order of keys and tuples against lists. The hash is assumed to be free of collisions.
\<close>

theorem digest_means_instruction:
  assumes "inj sha" and "bind_action sha a ad = Inr (d, p)" and "bind_action sha a' ad' = Inr (d, p')"
    and "wf_json (PDict (act_parameters a))" and "wf_json (PDict (act_parameters a'))"
  shows "act_domain a = act_domain a' \<and> act_id a = act_id a' \<and> act_decision_id a = act_decision_id a' \<and>
     act_component a = act_component a' \<and> act_type a = act_type a' \<and> act_expected a = act_expected a' \<and>
     ad = ad' \<and> canon (PDict (act_parameters a)) = canon (PDict (act_parameters a'))"
  by (rule digest_identifies[OF assms])

lemma digest_means_instruction_witness:
  "\<exists>d p. bind_action (\<lambda>t. t) (sample_action True) ''simulation'' = Inr (d, p) \<and>
     act_component (sample_action True) = act_component (sample_action True)"
proof -
  obtain d p where b: "bind_action (\<lambda>t. t) (sample_action True) ''simulation'' = Inr (d, p)"
    using sample_binds_text by blast
  have "wf_json (PDict (act_parameters (sample_action True)))" by (simp add: sample_action_def)
  from digest_means_instruction[OF _ b b this this] b show ?thesis by (simp add: inj_def)
qed

text \<open>C5: Approving a pending hold that carries the digest of an assessed action, while the held action is
  not that instruction any more (domain, action or decision id, target, type, expected outcome,
  parameters up to the order of keys, or adapter), executes nothing: within its time the answer is
  that the assessment is invalid and the whole state stays as it was, after it that the hold lapsed.
  The hash is assumed not to give the same value for the two instruction texts, and no hash is empty.
\<close>

theorem changed_instruction_is_refused:
  assumes "get_hold k st = Some h" and "hold_status h = Pending"
    and "instruction_text a adapter = Some t" and "pv_digest (hold_prov h) = Some (g_sha st t)" and "g_sha st t \<noteq> []"
    and "\<not> same_instruction a adapter (hold_action h) (hold_adapter h)"
    and "wf_json (PDict (act_parameters a))" and "wf_json (PDict (act_parameters (hold_action h)))"
    and collision: "\<And>t'. instruction_text (hold_action h) (hold_adapter h) = Some t' \<Longrightarrow> g_sha st t' = g_sha st t \<Longrightarrow> t' = t"
  shows "approve_held_action k who True st =
     (if expired (hold_expires_at h) (g_now st) then (ApprovalExpired, set_hold k (\<lambda>x. x\<lparr>hold_status := Rejected\<rparr>) st)
      else (AssessmentInvalid, st))"
proof -
  have "held_digest (g_sha st) h \<noteq> g_sha st t"
  proof
    assume eq: "held_digest (g_sha st) h = g_sha st t"
    then obtain p' where "bind_action (g_sha st) (hold_action h) (hold_adapter h) = Inr (g_sha st t, p')"
      using assms(5) by (auto simp: held_digest_def split: sum.splits)
    from bind_action_text[OF this] obtain t' where "instruction_text (hold_action h) (hold_adapter h) = Some t'"
      "g_sha st t' = g_sha st t" by auto
    then have "instruction_text (hold_action h) (hold_adapter h) = Some t" using collision by simp
    from text_identifies[OF assms(3) this assms(7,8)] assms(6) show False by blast
  qed
  then show ?thesis using assms(1,2,4) by (auto simp: approve_held_action_def split: option.split)
qed

lemma changed_instruction_is_refused_witness:
  "\<exists>k (st :: nat gov). approve_held_action k ''operator'' True st = (AssessmentInvalid, st)"
proof -
  obtain t p where b: "bind_action (\<lambda>t. t) (sample_action True) ''simulation'' = Inr (t, p)" "t \<noteq> []"
    using sample_binds_text by blast
  define h where "h = sample_hold\<lparr>hold_action := (sample_action True)\<lparr>act_component := ''other''\<rparr>,
    hold_prov := (hold_prov sample_hold)\<lparr>pv_digest := Some t\<rparr>\<rparr>"
  define st where "st = sample_gov\<lparr>g_sha := (\<lambda>t. t), g_holds := save hold_key h (g_holds sample_gov)\<rparr>"
  have s: "get_hold ''uxx'' st = Some h" "g_sha st = (\<lambda>t. t)" "g_now st = 0"
    by (simp_all add: get_hold_def get_by_def st_def h_def sample_defs empty_store_def sample_hold_def)
  have "approve_held_action ''uxx'' ''operator'' True st = (if expired (hold_expires_at h) (g_now st)
      then (ApprovalExpired, set_hold ''uxx'' (\<lambda>x. x\<lparr>hold_status := Rejected\<rparr>) st) else (AssessmentInvalid, st))"
    by (rule changed_instruction_is_refused[OF s(1), of "sample_action True" "''simulation''" t])
      (use b s in \<open>simp_all add: instruction_text_def h_def same_instruction_def sample_action_def sample_hold_def\<close>)
  then have "approve_held_action ''uxx'' ''operator'' True st = (AssessmentInvalid, st)"
    by (simp add: s h_def sample_hold_def expired_def approval_ttl_def)
  then show ?thesis by blast
qed

section \<open>Evidence in reachable states\<close>

text \<open>C6: In every reachable state, whatever was executed, approved, changed by callers or restarted,
  each audit record of an adapter call leads to a stored approved authorization for the same
  action, adapter and digest, and that to a stored approval record that says approved for the
  same digest.
\<close>

theorem audit_chain:
  assumes "gov_reachable st" and "u \<in> set (mem (g_audits st))"
  shows "\<exists>a r. get_auth (au_authorization_id u) st = Some a \<and> auth_status a = ''approved'' \<and>
     auth_action_id a = au_action_id u \<and> pv_adapter (auth_prov a) = Some (au_adapter u) \<and>
     pv_digest (auth_prov a) = pv_digest (au_prov u) \<and>
     auth_approval_id a = Some (ar_id r) \<and> get_record (ar_id r) st = Some r \<and>
     ar_decision r = ''approved'' \<and> ar_digest r = pv_digest (au_prov u)"
  by (rule audit_evidence[OF assms]) blast

lemma audit_chain_witness:
  "\<exists>u a r. u \<in> set (mem (g_audits sample_executed)) \<and>
     get_auth (au_authorization_id u) sample_executed = Some a \<and> get_record (ar_id r) sample_executed = Some r \<and>
     ar_decision r = ''approved''"
proof -
  obtain u where u: "u \<in> set (mem (g_audits sample_executed))" using sample_run(3) by auto
  show ?thesis using audit_chain[OF sample_executed_reachable u] u by blast
qed

text \<open>
  In every reachable state no approval has produced two authorizations and no authorization two
  audit records, also across restarts.
\<close>

theorem approvals_used_once:
  assumes "gov_reachable st"
  shows "distinct (List.map auth_approval_id (mem (g_auths st))) \<and>
     distinct (List.map au_authorization_id (mem (g_audits st)))"
  using used_once_reachable[OF assms] by blast

lemma approvals_used_once_witness:
  "distinct (List.map au_authorization_id (mem (g_audits sample_executed)))"
  using approvals_used_once[OF sample_executed_reachable] by simp

text \<open>
  The startup audit of authorizations (E6) reports nothing in any reachable state.
\<close>

theorem authorization_audit_clean:
  assumes "gov_reachable st"
  shows "audit_authorizations st = []"
proof -
  have inv: "gov_inv st" by (rule reachable_inv[OF assms])
  have e: "evidence_ok (evidence_of st)" using inv by (simp add: gov_inv_def)
  have "linkage st a = None" if a: "a \<in> set (mem (g_auths st))" for a
  proof -
    have "auth_ok (mem (g_records st)) a" using e a by (simp add: evidence_defs evidence_of_def)
    then obtain r where r: "r \<in> set (mem (g_records st))" "auth_approval_id a = Some (ar_id r)"
      "ar_decision r = ''approved''" by (auto simp: auth_ok_def)
    have rec: "get_record (ar_id r) st = Some r"
      using e r(1) find_unique[of ar_id "mem (g_records st)" r]
      by (simp add: get_record_def get_by_def evidence_defs evidence_of_def)
    have "hold_status h \<noteq> Pending" if h: "get_hold (ar_id r) st = Some h" for h
    proof -
      have "h \<in> set (mem (g_holds st))" "hold_id h = ar_id r"
        using h by (auto simp: get_hold_def get_by_def dest: find_SomeD)
      then show ?thesis using hold_record[OF e, of h r] r by (auto simp: evidence_of_def)
    qed
    then show ?thesis using r rec by (auto simp: linkage_def terminal_status_def split: option.split)
  qed
  then show ?thesis by (induction "mem (g_auths st)") (auto simp: audit_authorizations_def List.map_filter_def)
qed

lemma authorization_audit_clean_witness: "audit_authorizations sample_executed = []"
  by (rule authorization_audit_clean[OF sample_executed_reachable])

text \<open>C7: A restart from any reachable state loses no approval record, authorization, audit record, trace or
  verification result, and keeps every hold with its provenance and expiry time. With the startup
  reconciliation (E2) a hold is approved exactly when its record says approved and rejected when its
  record says rejected.
\<close>

theorem restart_keeps_decisions:
  assumes "gov_reachable st"
  shows "g_records (restart st) = g_records st \<and> g_auths (restart st) = g_auths st \<and>
     g_audits (restart st) = g_audits st \<and> g_traces (restart st) = g_traces st \<and>
     g_verifs (restart st) = g_verifs st \<and>
     (\<forall>k h. get_hold k st = Some h \<longrightarrow> (\<exists>h'. get_hold k (restart st) = Some h' \<and>
        hold_prov h' = hold_prov h \<and> hold_expires_at h' = hold_expires_at h \<and>
        (\<forall>r. get_record k st = Some r \<longrightarrow>
           (hold_status h' = Approved \<longleftrightarrow> ar_decision r = ''approved'') \<and>
           (ar_decision r = ''rejected'' \<longrightarrow> hold_status h' = Rejected))))"
proof -
  have inv: "gov_inv st" by (rule reachable_inv[OF assms])
  have same: "g_records (restart st) = g_records st" "g_auths (restart st) = g_auths st"
    "g_audits (restart st) = g_audits st"
    using inv by (simp_all add: restart_eq reopen_others gov_inv_def)
  note side = side_restart[OF reachable_side[OF assms]]
  have "\<exists>h'. get_hold k (restart st) = Some h' \<and> hold_prov h' = hold_prov h \<and> hold_expires_at h' = hold_expires_at h \<and>
      (\<forall>r. get_record k st = Some r \<longrightarrow> (hold_status h' = Approved \<longleftrightarrow> ar_decision r = ''approved'') \<and>
         (ar_decision r = ''rejected'' \<longrightarrow> hold_status h' = Rejected))"
    if h: "get_hold k st = Some h" for k h
  proof -
    obtain h' where h': "get_hold k (restart st) = Some h'" "hold_prov h' = hold_prov h" "hold_expires_at h' = hold_expires_at h"
      using restart_hold_kept[OF inv h] by blast
    have "(hold_status h' = Approved \<longleftrightarrow> ar_decision r = ''approved'') \<and>
        (ar_decision r = ''rejected'' \<longrightarrow> hold_status h' = Rejected)" if r: "get_record k st = Some r" for r
      using hold_decision[OF restart_inv[OF inv] h'(1)] r same(1) by (cases "hold_status h'") (auto simp: get_record_def)
    then show ?thesis using h' by blast
  qed
  with same side show ?thesis by blast
qed

lemma restart_keeps_decisions_witness:
  "g_records (restart sample_held) = g_records sample_held \<and> g_verifs (restart sample_held) = g_verifs sample_held"
  using restart_keeps_decisions[OF sample_held_reachable] by simp

end
