(* ===== verification/Budget_Tables.thy ===== *)
theory Budget_Tables
  imports Governance_Types
begin

text \<open>
  The Budget Control database: \<open>app/budget/models.py\<close> and \<open>app/budget/storage.py\<close>.
  A table is the list of its rows in insertion order. \<open>insert_*\<close> are the \<open>INSERT\<close> statements
  with every constraint of the schema (primary keys, \<open>UNIQUE\<close>, \<open>CHECK\<close>, foreign keys, the
  partial unique index on corrections); a violated constraint is \<open>sqlite3.IntegrityError\<close> and an
  integer outside 64 bits the \<open>OverflowError\<close> of parameter binding.
  \<open>transaction\<close> is \<open>immediate_transaction\<close>: an error leaves the database as it was. Lock
  contention and I/O errors (\<open>database_busy\<close>, \<open>database_error\<close>) depend on the environment and
  are not modelled, nor is the overflow of \<open>SUM\<close> beyond 64 bits.
  Besides the tables the world holds the supply of random ids, the clock, today's date, the
  configured bootstrap principal and SHA-256; an operation reads the clock once.
\<close>

section \<open>Errors and rows\<close>

datatype berror =
    Domain string  \<comment> \<open>\<open>BudgetError\<close> with its code\<close>
  | Integrity string  \<comment> \<open>\<open>sqlite3.IntegrityError\<close>\<close>
  | PyError string  \<comment> \<open>any other exception, by class name\<close>

datatype mutation = Bootstrap | Adjustment | Commitment | Settlement | Cancellation | Correction

fun mutation_value :: "mutation \<Rightarrow> string" where
  "mutation_value Bootstrap = ''bootstrap''"
| "mutation_value Adjustment = ''adjustment''"
| "mutation_value Commitment = ''commitment''"
| "mutation_value Settlement = ''settlement''"
| "mutation_value Cancellation = ''cancellation''"
| "mutation_value Correction = ''correction''"

record organization =
  org_id :: ident
  org_name :: string
  org_currency :: string
  org_principal :: string
  org_created :: string

record budget =
  b_id :: ident
  b_org :: ident
  b_name :: string
  b_owner_type :: string
  b_owner_name :: string
  b_start :: string
  b_end :: string
  b_currency :: string
  b_status :: string
  b_created :: string

record role_row =
  ro_id :: ident
  ro_org :: ident
  ro_budget :: "ident option"
  ro_principal :: string
  ro_role :: string
  ro_created :: string

record purchase =
  pr_id :: ident
  pr_org :: ident
  pr_budget :: ident
  pr_requester :: string
  pr_status :: string
  pr_version :: int
  pr_created :: string
  pr_updated :: string

record version =
  v_request :: ident
  v_version :: int
  v_amount :: int
  v_currency :: string
  v_purpose :: string
  v_reference :: string
  v_by :: string
  v_created :: string

record decision =
  d_id :: ident
  d_request :: ident
  d_version :: int
  d_decision :: string
  d_by :: string
  d_reason :: string
  d_digest :: "string option"
  d_action :: "string option"
  d_balance :: "int option"
  d_created :: string

record entry =
  e_id :: ident
  e_org :: ident
  e_budget :: ident
  e_type :: string
  e_amount :: int
  e_currency :: string
  e_request :: "ident option"
  e_version :: pyval
  e_related :: "ident option"
  e_correction :: "ident option"
  e_digest :: string
  e_execution :: ident
  e_actor :: string
  e_created :: string

record receipt =
  rc_digest :: string
  rc_key :: string
  rc_content :: string
  rc_parameters :: string
  rc_execution :: ident
  rc_entry :: ident
  rc_mutation :: string
  rc_request :: "ident option"
  rc_version :: "int option"
  rc_available :: int
  rc_currency :: string
  rc_created :: string

record financial_verification =
  fv_id :: ident
  fv_execution :: ident
  fv_digest :: string
  fv_status :: string
  fv_reason :: string
  fv_expected :: pyval
  fv_observed :: "int option"
  fv_entry :: "ident option"
  fv_created :: string

record bdb =
  t_orgs :: "organization list"
  t_budgets :: "budget list"
  t_roles :: "role_row list"
  t_requests :: "purchase list"
  t_versions :: "version list"
  t_decisions :: "decision list"
  t_ledger :: "entry list"
  t_receipts :: "receipt list"
  t_verifs :: "financial_verification list"
  bw_uuid :: "nat \<Rightarrow> ident"
  bw_next :: nat
  bw_now :: string
  bw_today :: string
  bw_principal :: string
  bw_sha :: "string \<Rightarrow> string"

definition new_id :: "bdb \<Rightarrow> ident \<times> bdb" where
  "new_id db = (bw_uuid db (bw_next db), db\<lparr>bw_next := Suc (bw_next db)\<rparr>)"

definition transaction :: "(bdb \<Rightarrow> berror + ('a \<times> bdb)) \<Rightarrow> bdb \<Rightarrow> (berror + 'a) \<times> bdb" where
  "transaction f db = (case f db of Inl e \<Rightarrow> (Inl e, db) | Inr (x, db') \<Rightarrow> (Inr x, db'))"

section \<open>Binding of values\<close>

definition int64 :: "int \<Rightarrow> bool" where
  "int64 i \<longleftrightarrow> - (2 ^ 63) \<le> i \<and> i < 2 ^ 63"

text \<open>A parameter bound to a \<open>TEXT\<close> column, and one bound to an \<open>INTEGER\<close> column.\<close>

fun bind_text :: "pyval \<Rightarrow> berror + string option" where
  "bind_text PNone = Inr None"
| "bind_text (PBool b) = Inr (Some (if b then ''1'' else ''0''))"
| "bind_text (PInt i) = (if int64 i then Inr (Some (show_int i)) else Inl (PyError ''OverflowError''))"
| "bind_text (PFloat t) = Inr (Some t)"
| "bind_text (PStr s) = Inr (Some s)"
| "bind_text v = Inl (PyError ''ProgrammingError'')"

fun bind_cell :: "pyval \<Rightarrow> berror + pyval" where
  "bind_cell PNone = Inr PNone"
| "bind_cell (PBool b) = Inr (PInt (if b then 1 else 0))"
| "bind_cell (PInt i) = (if int64 i then Inr (PInt i) else Inl (PyError ''OverflowError''))"
| "bind_cell (PFloat t) = Inr (PFloat t)"
| "bind_cell (PStr s) = Inr (PStr s)"
| "bind_cell v = Inl (PyError ''ProgrammingError'')"

section \<open>Constraints\<close>

definition check :: "string \<Rightarrow> bool \<Rightarrow> berror + unit" where
  "check what ok = ensure ok (Integrity what)"

definition fits :: "int \<Rightarrow> berror + unit" where
  "fits i = ensure (int64 i) (PyError ''OverflowError'')"

lemma check_iff [result_simps]: "check w b = Inr u \<longleftrightarrow> b"
  by (simp add: check_def result_simps)

lemma fits_iff [result_simps]: "fits i = Inr u \<longleftrightarrow> int64 i"
  by (simp add: fits_def result_simps)

lemma check_error [result_simps]: "check w b = Inl e \<longleftrightarrow> \<not> b \<and> e = Integrity w"
  by (auto simp: check_def result_simps)

lemma fits_error [result_simps]: "fits i = Inl e \<longleftrightarrow> \<not> int64 i \<and> e = PyError ''OverflowError''"
  by (auto simp: fits_def result_simps)

definition references :: "ident option \<Rightarrow> ('a \<Rightarrow> ident) \<Rightarrow> 'a list \<Rightarrow> bool" where
  "references k ident rows \<longleftrightarrow> (case k of None \<Rightarrow> True | Some i \<Rightarrow> i \<in> ident ` set rows)"

definition insert_organization :: "organization \<Rightarrow> bdb \<Rightarrow> berror + bdb" where
  "insert_organization g db =
     and_then (check ''UNIQUE organizations.id'' (org_id g \<notin> org_id ` set (t_orgs db))) (\<lambda>_.
     and_then (check ''CHECK currency'' (length (org_currency g) = 3)) (\<lambda>_.
     Inr (db\<lparr>t_orgs := t_orgs db @ [g]\<rparr>)))"

definition insert_budget :: "budget \<Rightarrow> bdb \<Rightarrow> berror + bdb" where
  "insert_budget b db =
     and_then (check ''UNIQUE budgets.id'' (b_id b \<notin> b_id ` set (t_budgets db))) (\<lambda>_.
     and_then (check ''FOREIGN KEY'' (b_org b \<in> org_id ` set (t_orgs db))) (\<lambda>_.
     and_then (check ''CHECK owner_type'' (b_owner_type b \<in> {''department'', ''project''})) (\<lambda>_.
     and_then (check ''CHECK currency'' (length (b_currency b) = 3)) (\<lambda>_.
     and_then (check ''CHECK status'' (b_status b \<in> {''open'', ''closed''})) (\<lambda>_.
     and_then (check ''CHECK period'' (b_start b \<le> b_end b)) (\<lambda>_.
     Inr (db\<lparr>t_budgets := t_budgets db @ [b]\<rparr>)))))))"

text \<open>A \<open>NULL\<close> in a \<open>UNIQUE\<close> column differs from every other value.\<close>

definition same_role :: "role_row \<Rightarrow> role_row \<Rightarrow> bool" where
  "same_role r x \<longleftrightarrow> ro_budget r \<noteq> None \<and> ro_org x = ro_org r \<and> ro_budget x = ro_budget r \<and>
     ro_principal x = ro_principal r \<and> ro_role x = ro_role r"

definition insert_role :: "role_row \<Rightarrow> bdb \<Rightarrow> berror + bdb" where
  "insert_role r db =
     and_then (check ''UNIQUE role_assignments.id'' (ro_id r \<notin> ro_id ` set (t_roles db))) (\<lambda>_.
     and_then (check ''UNIQUE role_assignments'' (\<not> list_ex (same_role r) (t_roles db))) (\<lambda>_.
     and_then (check ''FOREIGN KEY'' (ro_org r \<in> org_id ` set (t_orgs db) \<and>
        references (ro_budget r) b_id (t_budgets db))) (\<lambda>_.
     and_then (check ''CHECK role'' (ro_role r \<in> {''bootstrap_admin'', ''budget_owner'', ''requester''})) (\<lambda>_.
     Inr (db\<lparr>t_roles := t_roles db @ [r]\<rparr>)))))"

definition request_statuses :: "string list" where
  "request_statuses = [''draft'', ''submitted'', ''approved'', ''rejected'', ''committed'', ''settled'', ''cancelled'']"

definition insert_request :: "purchase \<Rightarrow> bdb \<Rightarrow> berror + bdb" where
  "insert_request r db =
     and_then (check ''UNIQUE purchase_requests.id'' (pr_id r \<notin> pr_id ` set (t_requests db))) (\<lambda>_.
     and_then (check ''FOREIGN KEY'' (pr_org r \<in> org_id ` set (t_orgs db) \<and>
        pr_budget r \<in> b_id ` set (t_budgets db))) (\<lambda>_.
     and_then (check ''CHECK status'' (pr_status r \<in> set request_statuses)) (\<lambda>_.
     and_then (check ''CHECK current_version'' (0 < pr_version r)) (\<lambda>_.
     Inr (db\<lparr>t_requests := t_requests db @ [r]\<rparr>)))))"

definition insert_version :: "version \<Rightarrow> bdb \<Rightarrow> berror + bdb" where
  "insert_version v db =
     and_then (fits (v_version v)) (\<lambda>_. and_then (fits (v_amount v)) (\<lambda>_.
     and_then (check ''UNIQUE purchase_request_versions''
        (\<not> list_ex (\<lambda>x. v_request x = v_request v \<and> v_version x = v_version v) (t_versions db))) (\<lambda>_.
     and_then (check ''FOREIGN KEY'' (v_request v \<in> pr_id ` set (t_requests db))) (\<lambda>_.
     and_then (check ''CHECK version'' (0 < v_version v)) (\<lambda>_.
     and_then (check ''CHECK amount_minor'' (0 < v_amount v)) (\<lambda>_.
     and_then (check ''CHECK currency'' (length (v_currency v) = 3)) (\<lambda>_.
     Inr (db\<lparr>t_versions := t_versions db @ [v]\<rparr>))))))))"

definition insert_decision :: "decision \<Rightarrow> bdb \<Rightarrow> berror + bdb" where
  "insert_decision d db =
     and_then (check ''UNIQUE domain_decisions.id'' (d_id d \<notin> d_id ` set (t_decisions db))) (\<lambda>_.
     and_then (check ''CHECK decision'' (d_decision d \<in> {''approved'', ''rejected''})) (\<lambda>_.
     and_then (case d_balance d of None \<Rightarrow> Inr () | Some i \<Rightarrow> fits i) (\<lambda>_.
     and_then (check ''FOREIGN KEY''
        (list_ex (\<lambda>x. v_request x = d_request d \<and> v_version x = d_version d) (t_versions db))) (\<lambda>_.
     Inr (db\<lparr>t_decisions := t_decisions db @ [d]\<rparr>)))))"

definition entry_types :: "string list" where
  "entry_types = [''allocation'', ''adjustment'', ''commitment'', ''settlement'', ''cancellation'', ''correction'']"

definition insert_entry :: "entry \<Rightarrow> bdb \<Rightarrow> berror + bdb" where
  "insert_entry e db =
     and_then (fits (e_amount e)) (\<lambda>_.
     and_then (check ''UNIQUE ledger_entries.id'' (e_id e \<notin> e_id ` set (t_ledger db))) (\<lambda>_.
     and_then (check ''UNIQUE ledger_entries.instruction_digest'' (e_digest e \<notin> e_digest ` set (t_ledger db))) (\<lambda>_.
     and_then (check ''UNIQUE ledger_entries.correction_of''
        (e_correction e = None \<or> e_correction e \<notin> e_correction ` set (t_ledger db))) (\<lambda>_.
     and_then (check ''FOREIGN KEY'' (e_org e \<in> org_id ` set (t_orgs db) \<and> e_budget e \<in> b_id ` set (t_budgets db) \<and>
        references (e_request e) pr_id (t_requests db) \<and>
        references (e_related e) e_id (t_ledger db) \<and> references (e_correction e) e_id (t_ledger db))) (\<lambda>_.
     and_then (check ''CHECK entry_type'' (e_type e \<in> set entry_types)) (\<lambda>_.
     and_then (check ''CHECK currency'' (length (e_currency e) = 3)) (\<lambda>_.
     and_then (check ''CHECK amount_minor'' (e_type e \<in> {''adjustment'', ''correction''} \<or> 0 < e_amount e)) (\<lambda>_.
     Inr (db\<lparr>t_ledger := t_ledger db @ [e]\<rparr>)))))))))"

definition insert_receipt :: "receipt \<Rightarrow> bdb \<Rightarrow> berror + bdb" where
  "insert_receipt r db =
     and_then (case rc_version r of None \<Rightarrow> Inr () | Some i \<Rightarrow> fits i) (\<lambda>_.
     and_then (fits (rc_available r)) (\<lambda>_.
     and_then (check ''UNIQUE idempotency_receipts.instruction_digest'' (rc_digest r \<notin> rc_digest ` set (t_receipts db))) (\<lambda>_.
     and_then (check ''UNIQUE idempotency_receipts.idempotency_key'' (rc_key r \<notin> rc_key ` set (t_receipts db))) (\<lambda>_.
     and_then (check ''FOREIGN KEY'' (rc_entry r \<in> e_id ` set (t_ledger db))) (\<lambda>_.
     and_then (check ''CHECK currency'' (length (rc_currency r) = 3)) (\<lambda>_.
     Inr (db\<lparr>t_receipts := t_receipts db @ [r]\<rparr>)))))))"

definition insert_verification :: "financial_verification \<Rightarrow> bdb \<Rightarrow> berror + bdb" where
  "insert_verification v db =
     and_then (check ''UNIQUE financial_verifications.id'' (fv_id v \<notin> fv_id ` set (t_verifs db))) (\<lambda>_.
     and_then (bind_cell (fv_expected v)) (\<lambda>c.
     and_then (case fv_observed v of None \<Rightarrow> Inr () | Some i \<Rightarrow> fits i) (\<lambda>_.
     Inr (db\<lparr>t_verifs := t_verifs db @ [v\<lparr>fv_expected := c\<rparr>]\<rparr>))))"

text \<open>\<open>UPDATE purchase_requests SET ... WHERE id = ?\<close>\<close>

definition update_request :: "ident \<Rightarrow> (purchase \<Rightarrow> purchase) \<Rightarrow> bdb \<Rightarrow> bdb" where
  "update_request k f db =
     db\<lparr>t_requests := List.map (\<lambda>r. if pr_id r = k then f r else r) (t_requests db)\<rparr>"

lemmas insert_defs = insert_organization_def insert_budget_def insert_role_def insert_request_def
  insert_version_def insert_decision_def insert_entry_def insert_receipt_def insert_verification_def

end
