(* ===== verification/Budget_Repository.thy ===== *)
theory Budget_Repository
  imports Budget_Tables Action_Assessment
begin

text \<open>
  \<open>app/budget/repository.py\<close>: roles, balances, purchase requests and their versions, decisions,
  the validation of a financial mutation and its application in one transaction, receipts and
  verification records. A query is a filter of the table in insertion order; \<open>ORDER BY\<close> is a
  stable sort.
\<close>

section \<open>Parameters of a mutation\<close>

text \<open>\<open>parameters.get(key)\<close>.\<close>

definition param :: "params \<Rightarrow> string \<Rightarrow> pyval" where
  "param ps k = (case map_of ps k of None \<Rightarrow> PNone | Some v \<Rightarrow> v)"

definition text_param :: "params \<Rightarrow> string \<Rightarrow> berror + string" where
  "text_param ps k =
     (case param ps k of
        PStr s \<Rightarrow> if strip s = [] then Inl (Domain ''validation'') else Inr (strip s)
      | _ \<Rightarrow> Inl (Domain ''validation''))"

definition int_param :: "params \<Rightarrow> string \<Rightarrow> berror + int" where
  "int_param ps k = (case param ps k of PInt i \<Rightarrow> Inr i | _ \<Rightarrow> Inl (Domain ''validation''))"

definition positive_param :: "params \<Rightarrow> string \<Rightarrow> berror + int" where
  "positive_param ps k =
     and_then (int_param ps k) (\<lambda>i. if i \<le> 0 then Inl (Domain ''validation'') else Inr i)"

definition currency_param :: "params \<Rightarrow> berror + string" where
  "currency_param ps =
     (case param ps ''currency'' of
        PStr s \<Rightarrow> if length s \<noteq> 3 \<or> \<not> list_all is_alpha s then Inl (Domain ''validation'') else Inr (upper s)
      | _ \<Rightarrow> Inl (Domain ''validation''))"

definition mutation_param :: "params \<Rightarrow> berror + mutation" where
  "mutation_param ps =
     require_some (find (\<lambda>m. param ps ''mutation_type'' = PStr (mutation_value m))
        [Bootstrap, Adjustment, Commitment, Settlement, Cancellation, Correction])
       (Domain ''unsupported_operation'')"

definition content_json :: "params \<Rightarrow> berror + string" where
  "content_json ps = require_some (dump (PDict ps)) (PyError ''ValueError'')"

definition content_digest :: "(string \<Rightarrow> string) \<Rightarrow> params \<Rightarrow> berror + string" where
  "content_digest sha ps = and_then (content_json ps) (\<lambda>t. Inr (sha t))"

section \<open>Roles\<close>

definition has_role :: "string \<Rightarrow> string \<Rightarrow> ident option \<Rightarrow> bdb \<Rightarrow> bool" where
  "has_role who role budget_id db =
     list_ex (\<lambda>r. ro_principal r = who \<and> ro_role r = role \<and>
        (case budget_id of None \<Rightarrow> True | Some b \<Rightarrow> ro_budget r = Some b)) (t_roles db)"

definition require_role :: "string \<Rightarrow> string \<Rightarrow> ident option \<Rightarrow> bdb \<Rightarrow> berror + unit" where
  "require_role who role budget_id db = ensure (has_role who role budget_id db) (Domain ''forbidden'')"

section \<open>Balances\<close>

definition terminal_types :: "string list" where
  "terminal_types = [''settlement'', ''cancellation'']"

definition closed_by :: "entry \<Rightarrow> entry \<Rightarrow> bool" where
  "closed_by c t \<longleftrightarrow> e_related t = Some (e_id c) \<and> e_type t \<in> set terminal_types"

definition is_closed :: "entry list \<Rightarrow> entry \<Rightarrow> bool" where
  "is_closed es c = list_ex (closed_by c) es"

definition balance :: "entry list \<Rightarrow> ident \<Rightarrow> int" where
  "balance es b =
     sum_where (\<lambda>e. e_budget e = b \<and> e_type e = ''allocation'') e_amount es
     + sum_where (\<lambda>e. e_budget e = b \<and> e_type e \<in> {''adjustment'', ''correction''}) e_amount es
     - sum_where (\<lambda>e. e_budget e = b \<and> e_type e = ''settlement'') e_amount es
     - sum_where (\<lambda>e. e_budget e = b \<and> e_type e = ''commitment'' \<and> \<not> is_closed es e) e_amount es"

definition available_minor :: "ident \<Rightarrow> bdb \<Rightarrow> int" where
  "available_minor b db = balance (t_ledger db) b"

definition available_minor_at :: "ident \<Rightarrow> string \<Rightarrow> bdb \<Rightarrow> int" where
  "available_minor_at b at db = balance (filter (\<lambda>e. e_created e \<le> at) (t_ledger db)) b"

section \<open>Looking rows up\<close>

definition the_request :: "ident \<Rightarrow> bdb \<Rightarrow> berror + purchase" where
  "the_request k db = require_some (find (\<lambda>r. pr_id r = k) (t_requests db)) (Domain ''not_found'')"

definition the_version :: "ident \<Rightarrow> int \<Rightarrow> bdb \<Rightarrow> berror + version" where
  "the_version k n db =
     require_some (find (\<lambda>v. v_request v = k \<and> v_version v = n) (t_versions db)) (Domain ''stale_version'')"

definition the_budget :: "ident \<Rightarrow> bdb \<Rightarrow> berror + budget" where
  "the_budget k db = require_some (find (\<lambda>b. b_id b = k) (t_budgets db)) (Domain ''not_found'')"

definition open_commitment :: "ident \<Rightarrow> int \<Rightarrow> bdb \<Rightarrow> berror + entry" where
  "open_commitment k n db =
     require_some (find (\<lambda>c. e_request c = Some k \<and> e_version c = PInt n \<and> e_type c = ''commitment'' \<and>
          \<not> is_closed (t_ledger db) c) (t_ledger db)) (Domain ''invalid_transition'')"

definition receipt_by_digest :: "string \<Rightarrow> bdb \<Rightarrow> receipt option" where
  "receipt_by_digest d db = find (\<lambda>r. rc_digest r = d) (t_receipts db)"

definition receipt_by_execution :: "ident \<Rightarrow> bdb \<Rightarrow> receipt option" where
  "receipt_by_execution k db = find (\<lambda>r. rc_execution r = k) (t_receipts db)"

definition receipt_by_key :: "string \<Rightarrow> bdb \<Rightarrow> receipt option" where
  "receipt_by_key k db = find (\<lambda>r. rc_key r = k) (t_receipts db)"

definition require_open_period :: "budget \<Rightarrow> bdb \<Rightarrow> berror + unit" where
  "require_open_period b db =
     ensure (b_status b = ''open'' \<and> b_start b \<le> bw_today db \<and> bw_today db \<le> b_end b) (Domain ''closed_period'')"

definition initialized :: "bdb \<Rightarrow> bool" where
  "initialized db \<longleftrightarrow> t_orgs db \<noteq> []"

definition the_organization :: "bdb \<Rightarrow> organization option" where
  "the_organization db = (case t_orgs db of [] \<Rightarrow> None | g # gs \<Rightarrow> Some g)"

section \<open>Views\<close>

definition sort_desc :: "('a \<Rightarrow> 'k::linorder) \<Rightarrow> 'a list \<Rightarrow> 'a list" where
  "sort_desc key xs = rev (sort_key key (rev xs))"

record request_view =
  rv_request :: purchase
  rv_versions :: "version list"
  rv_decisions :: "decision list"

definition view_request :: "bdb \<Rightarrow> purchase \<Rightarrow> request_view" where
  "view_request db r = \<lparr>rv_request = r,
     rv_versions = sort_key v_version (filter (\<lambda>v. v_request v = pr_id r) (t_versions db)),
     rv_decisions = sort_key d_created (filter (\<lambda>d. d_request d = pr_id r) (t_decisions db))\<rparr>"

definition request_detail :: "string \<Rightarrow> ident \<Rightarrow> bdb \<Rightarrow> berror + request_view" where
  "request_detail actor k db =
     and_then (the_request k db) (\<lambda>r.
     and_then (ensure (pr_requester r = actor \<or> has_role actor ''budget_owner'' (Some (pr_budget r)) db)
        (Domain ''forbidden'')) (\<lambda>_.
     Inr (view_request db r)))"

definition list_requests :: "string \<Rightarrow> bdb \<Rightarrow> request_view list" where
  "list_requests actor db =
     List.map (view_request db) (sort_desc pr_updated
       (filter (\<lambda>r. pr_requester r = actor \<or> has_role actor ''budget_owner'' (Some (pr_budget r)) db) (t_requests db)))"

definition approval_queue :: "string \<Rightarrow> bdb \<Rightarrow> request_view list" where
  "approval_queue actor db =
     List.map (view_request db) (sort_key pr_updated
       (concat (List.map (\<lambda>r. List.map (\<lambda>_. r)
          (filter (\<lambda>o'. ro_budget o' = Some (pr_budget r) \<and> ro_principal o' = actor \<and> ro_role o' = ''budget_owner'')
            (t_roles db)))
         (filter (\<lambda>r. pr_status r = ''submitted'' \<and> pr_requester r \<noteq> actor) (t_requests db)))))"

record budget_view =
  bv_row :: budget
  bv_available :: int
  bv_roles :: "(string \<times> string) list"

definition view_budget :: "bdb \<Rightarrow> budget \<Rightarrow> budget_view" where
  "view_budget db b = \<lparr>bv_row = b, bv_available = available_minor (b_id b) db,
     bv_roles = List.map (\<lambda>r. (ro_principal r, ro_role r))
       (sort_key ro_role (sort_key ro_principal (filter (\<lambda>r. ro_budget r = Some (b_id b)) (t_roles db))))\<rparr>"

definition list_budgets :: "string \<Rightarrow> bdb \<Rightarrow> budget_view list" where
  "list_budgets who db =
     List.map (view_budget db) (sort_desc b_start (sort_key b_name
       (filter (\<lambda>b. list_ex (\<lambda>r. ro_budget r = Some (b_id b) \<and> ro_principal r = who) (t_roles db)) (t_budgets db))))"

definition budget_history :: "string \<Rightarrow> ident \<Rightarrow> bdb \<Rightarrow> berror + entry list" where
  "budget_history who b db =
     (let owner = has_role who ''budget_owner'' (Some b) db;
          ordered = (\<lambda>es. sort_key e_created (sort_key e_id es)) in
      if \<not> (owner \<or> has_role who ''requester'' (Some b) db) then Inl (Domain ''forbidden'')
      else if owner then Inr (ordered (filter (\<lambda>e. e_budget e = b) (t_ledger db)))
      else Inr (ordered (filter (\<lambda>e. e_budget e = b \<and>
          (case e_request e of None \<Rightarrow> False
           | Some k \<Rightarrow> list_ex (\<lambda>r. pr_id r = k \<and> pr_requester r = who) (t_requests db))) (t_ledger db))))"

section \<open>Purchase requests\<close>

definition then_view :: "string \<Rightarrow> (berror + ident) \<times> bdb \<Rightarrow> (berror + request_view) \<times> bdb" where
  "then_view actor out = (case out of (res, db) \<Rightarrow> (and_then res (\<lambda>k. request_detail actor k db), db))"

definition create_request ::
  "string \<Rightarrow> ident \<Rightarrow> int \<Rightarrow> string \<Rightarrow> string \<Rightarrow> string \<Rightarrow> bdb \<Rightarrow> (berror + request_view) \<times> bdb" where
  "create_request actor budget_id amount currency purpose reference db =
    (if amount \<le> 0 \<or> strip purpose = [] then (Inl (Domain ''validation''), db)
     else then_view actor (transaction (\<lambda>db0.
       and_then (require_role actor ''requester'' (Some budget_id) db0) (\<lambda>_.
       and_then (the_budget budget_id db0) (\<lambda>b.
       and_then (ensure (b_currency b = upper currency) (Domain ''wrong_currency'')) (\<lambda>_.
       and_then (require_open_period b db0) (\<lambda>_.
       let (k, db1) = new_id db0; now = bw_now db0 in
       and_then (insert_request \<lparr>pr_id = k, pr_org = b_org b, pr_budget = budget_id, pr_requester = actor,
            pr_status = ''draft'', pr_version = 1, pr_created = now, pr_updated = now\<rparr> db1) (\<lambda>db2.
       and_then (insert_version \<lparr>v_request = k, v_version = 1, v_amount = amount, v_currency = upper currency,
            v_purpose = strip purpose, v_reference = strip reference, v_by = actor, v_created = now\<rparr> db2) (\<lambda>db3.
       Inr (k, db3)))))))) db))"

definition add_request_version ::
  "string \<Rightarrow> ident \<Rightarrow> int \<Rightarrow> string \<Rightarrow> string \<Rightarrow> string \<Rightarrow> bdb \<Rightarrow> (berror + request_view) \<times> bdb" where
  "add_request_version actor k amount currency purpose reference db =
    (if amount \<le> 0 \<or> strip purpose = [] then (Inl (Domain ''validation''), db)
     else then_view actor (transaction (\<lambda>db0.
       and_then (the_request k db0) (\<lambda>r.
       and_then (ensure (pr_requester r = actor) (Domain ''forbidden'')) (\<lambda>_.
       and_then (ensure (pr_status r \<notin> {''committed'', ''settled'', ''cancelled''}) (Domain ''invalid_transition'')) (\<lambda>_.
       and_then (the_budget (pr_budget r) db0) (\<lambda>b.
       and_then (ensure (b_currency b = upper currency) (Domain ''wrong_currency'')) (\<lambda>_.
       let n = pr_version r + 1; now = bw_now db0 in
       and_then (insert_version \<lparr>v_request = k, v_version = n, v_amount = amount, v_currency = upper currency,
            v_purpose = strip purpose, v_reference = strip reference, v_by = actor, v_created = now\<rparr> db0) (\<lambda>db1.
       Inr (k, update_request k (\<lambda>x. x\<lparr>pr_version := n, pr_status := ''draft'', pr_updated := now\<rparr>) db1)))))))) db))"

definition submit_request :: "string \<Rightarrow> ident \<Rightarrow> bdb \<Rightarrow> (berror + request_view) \<times> bdb" where
  "submit_request actor k db =
    then_view actor (transaction (\<lambda>db0.
      and_then (the_request k db0) (\<lambda>r.
      and_then (ensure (pr_requester r = actor) (Domain ''forbidden'')) (\<lambda>_.
      and_then (ensure (pr_status r = ''draft'') (Domain ''invalid_transition'')) (\<lambda>_.
      Inr (k, update_request k (\<lambda>x. x\<lparr>pr_status := ''submitted'', pr_updated := bw_now db0\<rparr>) db0))))) db)"

definition save_decision ::
  "ident \<Rightarrow> string \<Rightarrow> ident \<Rightarrow> string \<Rightarrow> string \<Rightarrow> string option \<Rightarrow> string option \<Rightarrow> int option \<Rightarrow> bdb
     \<Rightarrow> (berror + request_view) \<times> bdb" where
  "save_decision decision_id actor k dec why digest action_json evidence db =
    then_view actor (transaction (\<lambda>db0.
      and_then (the_request k db0) (\<lambda>r.
      and_then (require_role actor ''budget_owner'' (Some (pr_budget r)) db0) (\<lambda>_.
      and_then (ensure (pr_requester r \<noteq> actor) (Domain ''self_approval'')) (\<lambda>_.
      and_then (ensure (pr_status r = ''submitted'') (Domain ''stale_version'')) (\<lambda>_.
      and_then (ensure (dec \<in> {''approved'', ''rejected''}) (Domain ''validation'')) (\<lambda>_.
      and_then (insert_decision \<lparr>d_id = decision_id, d_request = k, d_version = pr_version r, d_decision = dec,
           d_by = actor, d_reason = strip why, d_digest = digest, d_action = action_json,
           d_balance = evidence, d_created = bw_now db0\<rparr> db0) (\<lambda>db1.
      Inr (k, update_request k (\<lambda>x. x\<lparr>pr_status := dec, pr_updated := bw_now db0\<rparr>) db1)))))))) db)"

text \<open>The most recent of some rows; of equally recent ones the one inserted first.\<close>

fun latest :: "(decision \<Rightarrow> string) \<Rightarrow> decision list \<Rightarrow> decision option" where
  "latest key [] = None"
| "latest key (d # ds) =
     (case latest key ds of None \<Rightarrow> Some d | Some x \<Rightarrow> if key d < key x then Some x else Some d)"

definition approved_action :: "string \<Rightarrow> ident \<Rightarrow> bdb \<Rightarrow> berror + string" where
  "approved_action actor k db =
     and_then (the_request k db) (\<lambda>r.
     and_then (require_role actor ''budget_owner'' (Some (pr_budget r)) db) (\<lambda>_.
     case latest d_created (filter (\<lambda>d. d_request d = k \<and> d_version d = pr_version r \<and> d_decision d = ''approved'') (t_decisions db)) of
       None \<Rightarrow> Inl (Domain ''approval_required'')
     | Some d \<Rightarrow>
        and_then (ensure (truthy_str (d_action d)) (Domain ''approval_required'')) (\<lambda>_.
        and_then (ensure (d_by d = actor) (Domain ''forbidden'')) (\<lambda>_.
        require_some (d_action d) (Domain ''approval_required'')))))"

section \<open>Validating a mutation\<close>

record mutation_evidence =
  me_mutation :: string
  me_budget :: "pyval option"
  me_currency :: string
  me_amount :: pyval
  me_before :: int
  me_after :: int
  me_refs :: "string list"

definition replay_evidence :: "params \<Rightarrow> receipt \<Rightarrow> bdb \<Rightarrow> berror + mutation_evidence" where
  "replay_evidence ps r db =
     and_then (content_digest (bw_sha db) ps) (\<lambda>c.
     and_then (ensure (rc_content r = c \<and> param ps ''idempotency_key'' = PStr (rc_key r)) (Domain ''idempotency_conflict'')) (\<lambda>_.
     and_then (require_some (map_of ps ''budget_id'') (PyError ''KeyError'')) (\<lambda>b.
     Inr \<lparr>me_mutation = rc_mutation r, me_budget = Some b, me_currency = rc_currency r,
          me_amount = (case map_of ps ''amount_minor'' of Some v \<Rightarrow> v | None \<Rightarrow> param ps ''allocation_minor''),
          me_before = rc_available r, me_after = rc_available r,
          me_refs = [''budget:receipt:'' @ rc_digest r, ''budget:idempotent-replay'']\<rparr>)))"

definition bootstrap_evidence :: "params \<Rightarrow> string \<Rightarrow> string \<Rightarrow> bdb \<Rightarrow> berror + mutation_evidence" where
  "bootstrap_evidence ps actor currency db =
     and_then (ensure (t_orgs db = []) (Domain ''already_initialized'')) (\<lambda>_.
     and_then (ensure (bw_principal db \<noteq> [] \<and> actor = bw_principal db) (Domain ''forbidden'')) (\<lambda>_.
     and_then (positive_param ps ''allocation_minor'') (\<lambda>amount.
     and_then (text_param ps ''owner_principal'') (\<lambda>owner.
     and_then (text_param ps ''requester_principal'') (\<lambda>requester.
     and_then (ensure (owner \<noteq> requester) (Domain ''separation_required'')) (\<lambda>_.
     and_then (ensure (hashable (param ps ''owner_type'')) (PyError ''TypeError'')) (\<lambda>_.
     and_then (ensure (param ps ''owner_type'' \<in> {PStr ''department'', PStr ''project''}) (Domain ''validation'')) (\<lambda>_.
     and_then (text_param ps ''owner_name'') (\<lambda>_.
     Inr \<lparr>me_mutation = mutation_value Bootstrap, me_budget = None, me_currency = currency,
          me_amount = PInt amount, me_before = 0, me_after = amount,
          me_refs = [''budget:bootstrap:uninitialized'']\<rparr>)))))))))"

definition correction_target :: "params \<Rightarrow> ident \<Rightarrow> bdb \<Rightarrow> berror + unit" where
  "correction_target ps budget_id db =
     and_then (text_param ps ''correction_of'') (\<lambda>k.
     and_then (require_some (find (\<lambda>e. e_id e = k \<and> e_budget e = budget_id) (t_ledger db)) (Domain ''not_found'')) (\<lambda>e.
     and_then (ensure (e_type e \<in> {''allocation'', ''adjustment''}) (Domain ''invalid_transition'')) (\<lambda>_.
     ensure (\<not> list_ex (\<lambda>x. e_correction x = Some k) (t_ledger db)) (Domain ''conflict''))))"

text \<open>The amount and the balance after it, for a balance change.\<close>

definition change_amounts :: "mutation \<Rightarrow> params \<Rightarrow> ident \<Rightarrow> int \<Rightarrow> bdb \<Rightarrow> berror + (int \<times> int)" where
  "change_amounts m ps budget_id prior db =
     and_then (int_param ps ''amount_minor'') (\<lambda>amount.
     and_then (ensure (amount \<noteq> 0) (Domain ''validation'')) (\<lambda>_.
     and_then (if m = Correction then correction_target ps budget_id db else Inr ()) (\<lambda>_.
     and_then (ensure (0 \<le> prior + amount) (Domain ''insufficient_funds'')) (\<lambda>_.
     Inr (amount, prior + amount)))))"

definition approval_binds :: "decision \<Rightarrow> ident \<Rightarrow> int \<Rightarrow> string \<Rightarrow> string option \<Rightarrow> bool" where
  "approval_binds d request_id n actor digest \<longleftrightarrow>
     d_decision d = ''approved'' \<and> d_request d = request_id \<and> d_version d = n \<and> d_by d = actor \<and>
     truthy_str digest \<and> d_digest d = digest"

definition commit_amounts ::
  "params \<Rightarrow> string \<Rightarrow> string option \<Rightarrow> purchase \<Rightarrow> version \<Rightarrow> int \<Rightarrow> int \<Rightarrow> bdb \<Rightarrow> berror + (int \<times> int)" where
  "commit_amounts ps actor digest r v amount prior db =
     and_then (ensure (pr_status r = ''approved'') (Domain ''invalid_transition'')) (\<lambda>_.
     and_then (ensure (amount = v_amount v) (Domain ''changed_instruction'')) (\<lambda>_.
     and_then (text_param ps ''domain_approval_id'') (\<lambda>k.
     and_then (require_some (find (\<lambda>d. d_id d = k) (t_decisions db)) (Domain ''approval_invalid'')) (\<lambda>d.
     and_then (ensure (approval_binds d (pr_id r) (v_version v) actor digest) (Domain ''approval_invalid'')) (\<lambda>_.
     and_then (require_some (d_balance d) (PyError ''TypeError'')) (\<lambda>evidence.
     and_then (ensure (evidence = prior) (Domain ''stale_evidence'')) (\<lambda>_.
     and_then (ensure (amount \<le> prior) (Domain ''insufficient_funds'')) (\<lambda>_.
     Inr (amount, prior - amount)))))))))"

definition settle_amounts :: "purchase \<Rightarrow> int \<Rightarrow> int \<Rightarrow> int \<Rightarrow> bdb \<Rightarrow> berror + (int \<times> int)" where
  "settle_amounts r n amount prior db =
     and_then (ensure (pr_status r = ''committed'') (Domain ''invalid_transition'')) (\<lambda>_.
     and_then (open_commitment (pr_id r) n db) (\<lambda>c.
     and_then (ensure (amount \<le> e_amount c) (Domain ''over_settlement'')) (\<lambda>_.
     Inr (amount, prior + e_amount c - amount))))"

definition cancel_amounts :: "purchase \<Rightarrow> int \<Rightarrow> int \<Rightarrow> int \<Rightarrow> bdb \<Rightarrow> berror + (int \<times> int)" where
  "cancel_amounts r n amount prior db =
     and_then (ensure (pr_status r = ''committed'') (Domain ''invalid_transition'')) (\<lambda>_.
     and_then (open_commitment (pr_id r) n db) (\<lambda>c.
     and_then (ensure (amount = e_amount c) (Domain ''changed_instruction'')) (\<lambda>_.
     Inr (amount, prior + amount))))"

definition request_amounts ::
  "mutation \<Rightarrow> params \<Rightarrow> string \<Rightarrow> string option \<Rightarrow> ident \<Rightarrow> int \<Rightarrow> bdb \<Rightarrow> berror + (int \<times> int)" where
  "request_amounts m ps actor digest budget_id prior db =
     and_then (text_param ps ''request_id'') (\<lambda>k.
     and_then (the_request k db) (\<lambda>r.
     and_then (ensure (pr_budget r = budget_id) (Domain ''conflict'')) (\<lambda>_.
     and_then (positive_param ps ''request_version'') (\<lambda>n.
     and_then (ensure (pr_version r = n) (Domain ''stale_version'')) (\<lambda>_.
     and_then (the_version k n db) (\<lambda>v.
     and_then (positive_param ps ''amount_minor'') (\<lambda>amount.
     if m = Commitment then commit_amounts ps actor digest r v amount prior db
     else if m = Settlement then settle_amounts r n amount prior db
     else if m = Cancellation then cancel_amounts r n amount prior db
     else Inl (Domain ''unsupported_operation''))))))))"

definition budget_evidence ::
  "mutation \<Rightarrow> params \<Rightarrow> string \<Rightarrow> string \<Rightarrow> string option \<Rightarrow> bdb \<Rightarrow> berror + mutation_evidence" where
  "budget_evidence m ps actor currency digest db =
     and_then (text_param ps ''budget_id'') (\<lambda>budget_id.
     and_then (the_budget budget_id db) (\<lambda>b.
     and_then (ensure (b_currency b = currency) (Domain ''wrong_currency'')) (\<lambda>_.
     and_then (require_open_period b db) (\<lambda>_.
     and_then (require_role actor ''budget_owner'' (Some budget_id) db) (\<lambda>_.
     let prior = available_minor budget_id db in
     and_then (if m \<in> {Adjustment, Correction} then change_amounts m ps budget_id prior db
               else request_amounts m ps actor digest budget_id prior db) (\<lambda>(amount, after).
     Inr \<lparr>me_mutation = mutation_value m, me_budget = Some (PStr budget_id), me_currency = currency,
          me_amount = PInt amount, me_before = prior, me_after = after,
          me_refs = [''budget:'' @ budget_id, ''balance:'' @ show_int prior, ''mutation:'' @ mutation_value m]\<rparr>))))))"

definition validate_mutation :: "params \<Rightarrow> string option \<Rightarrow> bdb \<Rightarrow> berror + mutation_evidence" where
  "validate_mutation ps digest db =
     and_then (mutation_param ps) (\<lambda>m.
     and_then (text_param ps ''actor'') (\<lambda>actor.
     and_then (currency_param ps) (\<lambda>currency.
     case (if truthy_str digest then receipt_by_digest (the digest) db else None) of
       Some r \<Rightarrow> replay_evidence ps r db
     | None \<Rightarrow>
        if m = Bootstrap then bootstrap_evidence ps actor currency db
        else budget_evidence m ps actor currency digest db)))"


section \<open>Applying a mutation\<close>

text \<open>\<open>str(v)\<close> and \<open>int(v)\<close> on what \<open>request_id\<close> and \<open>request_version\<close> may hold.\<close>

fun py_str :: "pyval \<Rightarrow> string" where
  "py_str PNone = ''None''"
| "py_str (PBool b) = (if b then ''True'' else ''False'')"
| "py_str (PInt i) = show_int i"
| "py_str (PFloat t) = t"
| "py_str (PStr s) = s"
| "py_str v = []"

definition int_of_text :: "string \<Rightarrow> berror + int" where
  "int_of_text s =
     (let sign = take 1 s \<in> {''-'', ''+''}; digits = (if sign then drop 1 s else s) in
      if digits = [] \<or> \<not> list_all is_digit digits then Inl (PyError ''ValueError'')
      else Inr (if take 1 s = ''-'' then - read_int digits else read_int digits))"

fun py_int :: "pyval \<Rightarrow> berror + int" where
  "py_int (PBool b) = Inr (if b then 1 else 0)"
| "py_int (PInt i) = Inr i"
| "py_int (PFloat t) = Inr (read_int (takeWhile (\<lambda>c. c \<noteq> CHR ''.'') t))"
| "py_int (PStr s) = int_of_text (strip s)"
| "py_int v = Inl (PyError ''TypeError'')"

definition py_truthy_cell :: "pyval \<Rightarrow> bool" where
  "py_truthy_cell v = (v \<notin> {PNone, PBool False, PInt 0, PStr [], PFloat ''0.0'', PFloat ''-0.0''})"

text \<open>The rows a bootstrap creates before its allocation.\<close>

definition bootstrap_roles ::
  "string \<Rightarrow> string \<Rightarrow> string \<Rightarrow> ident \<Rightarrow> ident \<Rightarrow> bdb \<Rightarrow> berror + bdb" where
  "bootstrap_roles actor owner requester g b db0 =
     (let (i1, db1) = new_id db0; (i2, db2) = new_id db1; (i3, db3) = new_id db2; now = bw_now db0;
          row = (\<lambda>i scope who role. \<lparr>ro_id = i, ro_org = g, ro_budget = scope, ro_principal = who,
                   ro_role = role, ro_created = now\<rparr>) in
      and_then (insert_role (row i1 None actor ''bootstrap_admin'') db3) (\<lambda>db4.
      and_then (insert_role (row i2 (Some b) owner ''budget_owner'') db4) (\<lambda>db5.
      insert_role (row i3 (Some b) requester ''requester'') db5)))"

definition bootstrap_rows :: "params \<Rightarrow> string \<Rightarrow> bdb \<Rightarrow> berror + ((ident \<times> ident \<times> string) \<times> bdb)" where
  "bootstrap_rows ps currency db0 =
     (let now = bw_now db0 in
      and_then (text_param ps ''organization_id'') (\<lambda>g.
      and_then (text_param ps ''budget_id'') (\<lambda>b.
      and_then (text_param ps ''actor'') (\<lambda>actor.
      and_then (text_param ps ''organization_name'') (\<lambda>gname.
      and_then (insert_organization \<lparr>org_id = g, org_name = gname, org_currency = currency,
           org_principal = actor, org_created = now\<rparr> db0) (\<lambda>db1.
      and_then (text_param ps ''budget_name'') (\<lambda>bname.
      and_then (text_param ps ''owner_type'') (\<lambda>otype.
      and_then (text_param ps ''owner_name'') (\<lambda>oname.
      and_then (text_param ps ''period_start'') (\<lambda>start.
      and_then (text_param ps ''period_end'') (\<lambda>stop.
      and_then (insert_budget \<lparr>b_id = b, b_org = g, b_name = bname, b_owner_type = otype, b_owner_name = oname,
           b_start = start, b_end = stop, b_currency = currency, b_status = ''open'', b_created = now\<rparr> db1) (\<lambda>db2.
      and_then (text_param ps ''owner_principal'') (\<lambda>owner.
      and_then (text_param ps ''requester_principal'') (\<lambda>requester.
      and_then (bootstrap_roles actor owner requester g b db2) (\<lambda>db3.
      Inr ((g, b, actor), db3))))))))))))))))"

text \<open>The organization, budget, actor and linked entries of the new ledger row.\<close>

definition mutation_rows ::
  "mutation \<Rightarrow> params \<Rightarrow> mutation_evidence \<Rightarrow> bdb
     \<Rightarrow> berror + ((ident \<times> ident \<times> string \<times> ident option \<times> ident option) \<times> bdb)" where
  "mutation_rows m ps ev db =
     (if m = Bootstrap then
        and_then (bootstrap_rows ps (me_currency ev) db) (\<lambda>((g, b, actor), db1).
        Inr ((g, b, actor, None, None), db1))
      else
        (case me_budget ev of
           Some (PStr b) \<Rightarrow>
            and_then (the_budget b db) (\<lambda>row.
            and_then (text_param ps ''actor'') (\<lambda>actor.
            and_then (if m = Correction then map_sum id Some (text_param ps ''correction_of'') else Inr None) (\<lambda>corr.
            and_then (if m \<in> {Settlement, Cancellation} then
                 and_then (py_int (param ps ''request_version'')) (\<lambda>n.
                 map_sum id (\<lambda>c. Some (e_id c)) (open_commitment (py_str (param ps ''request_id'')) n db))
               else Inr None) (\<lambda>related.
            Inr ((b_org row, b, actor, related, corr), db)))))
         | _ \<Rightarrow> Inl (PyError ''InterfaceError'')))"

definition transition :: "ident \<Rightarrow> string \<Rightarrow> string \<Rightarrow> bdb \<Rightarrow> berror + bdb" where
  "transition k expected target db =
     (if length (filter (\<lambda>r. pr_id r = k \<and> pr_status r = expected) (t_requests db)) \<noteq> 1
      then Inl (Domain ''invalid_transition'')
      else Inr (db\<lparr>t_requests := List.map (\<lambda>r. if pr_id r = k \<and> pr_status r = expected
             then r\<lparr>pr_status := target, pr_updated := bw_now db\<rparr> else r) (t_requests db)\<rparr>))"

definition mutation_transition :: "mutation \<Rightarrow> params \<Rightarrow> bdb \<Rightarrow> berror + bdb" where
  "mutation_transition m ps db =
     (let k = py_str (param ps ''request_id'') in
      if m = Commitment then transition k ''approved'' ''committed'' db
      else if m = Settlement then transition k ''committed'' ''settled'' db
      else if m = Cancellation then transition k ''committed'' ''cancelled'' db
      else Inr db)"

definition entry_type_of :: "mutation \<Rightarrow> string" where
  "entry_type_of m = (if m = Bootstrap then ''allocation'' else mutation_value m)"

definition the_amount :: "pyval \<Rightarrow> berror + int" where
  "the_amount v = (case v of PInt i \<Rightarrow> Inr i | _ \<Rightarrow> Inl (PyError ''InterfaceError''))"

definition apply_validated ::
  "mutation \<Rightarrow> params \<Rightarrow> mutation_evidence \<Rightarrow> string \<Rightarrow> string \<Rightarrow> string \<Rightarrow> string \<Rightarrow> ident \<Rightarrow> bdb
     \<Rightarrow> berror + (receipt \<times> bdb)" where
  "apply_validated m ps ev key digest cdigest text execution_id db0 =
     (let now = bw_now db0; (ledger_id, db1) = new_id db0;
          raw_id = param ps ''request_id''; raw_version = param ps ''request_version'' in
      and_then (mutation_rows m ps ev db1) (\<lambda>((g, b, actor, related, corr), db2).
      and_then (the_amount (me_amount ev)) (\<lambda>amount.
      and_then (bind_text raw_id) (\<lambda>request_id.
      and_then (bind_cell raw_version) (\<lambda>request_version.
      and_then (insert_entry \<lparr>e_id = ledger_id, e_org = g, e_budget = b, e_type = entry_type_of m,
           e_amount = amount, e_currency = me_currency ev, e_request = request_id,
           e_version = request_version, e_related = related, e_correction = corr, e_digest = digest,
           e_execution = execution_id, e_actor = actor, e_created = now\<rparr> db2) (\<lambda>db3.
      and_then (mutation_transition m ps db3) (\<lambda>db4.
      let observed = available_minor b db4 in
      and_then (ensure (observed = me_after ev) (Domain ''invariant_failure'')) (\<lambda>_.
      and_then (if py_truthy_cell raw_version then map_sum id Some (py_int raw_version) else Inr None) (\<lambda>rver.
      let rc = \<lparr>rc_digest = digest, rc_key = key, rc_content = cdigest, rc_parameters = text,
           rc_execution = execution_id, rc_entry = ledger_id, rc_mutation = mutation_value m,
           rc_request = (if py_truthy_cell raw_id then Some (py_str raw_id) else None),
           rc_version = rver, rc_available = observed, rc_currency = me_currency ev, rc_created = now\<rparr> in
      and_then (insert_receipt rc db4) (\<lambda>db5.
      Inr (rc, db5)))))))))))"

definition apply_mutation :: "params \<Rightarrow> string \<Rightarrow> ident \<Rightarrow> bdb \<Rightarrow> (berror + receipt) \<times> bdb" where
  "apply_mutation ps digest execution_id db =
    (case and_then (text_param ps ''idempotency_key'') (\<lambda>key.
          and_then (content_json ps) (\<lambda>text. Inr (key, text))) of
       Inl e \<Rightarrow> (Inl e, db)
     | Inr (key, text) \<Rightarrow>
        transaction (\<lambda>db0.
          let cdigest = bw_sha db0 text in
          case receipt_by_digest digest db0 of
            Some r \<Rightarrow>
              if rc_content r \<noteq> cdigest \<or> rc_key r \<noteq> key then Inl (Domain ''idempotency_conflict'')
              else Inr (r, db0)
          | None \<Rightarrow>
              and_then (ensure (receipt_by_key key db0 = None) (Domain ''idempotency_conflict'')) (\<lambda>_.
              and_then (validate_mutation ps (Some digest) db0) (\<lambda>ev.
              and_then (mutation_param [(''mutation_type'', PStr (me_mutation ev))]) (\<lambda>m.
              apply_validated m ps ev key digest cdigest text execution_id db0)))) db)"

section \<open>Verification records\<close>

definition record_verification ::
  "ident \<Rightarrow> string \<Rightarrow> string \<Rightarrow> string \<Rightarrow> pyval \<Rightarrow> int option \<Rightarrow> ident option \<Rightarrow> bdb \<Rightarrow> (berror + ident) \<times> bdb" where
  "record_verification execution_id digest status why expected observed entry_id db =
     transaction (\<lambda>db0. let (k, db1) = new_id db0 in
       and_then (insert_verification \<lparr>fv_id = k, fv_execution = execution_id, fv_digest = digest,
            fv_status = status, fv_reason = why, fv_expected = expected, fv_observed = observed,
            fv_entry = entry_id, fv_created = bw_now db0\<rparr> db1) (\<lambda>db2.
       Inr (k, db2))) db"

end
