(* ===== verification/Ledger_Accounting.thy ===== *)
theory Ledger_Accounting
  imports Budget_Repository
begin

text \<open>
  How the available balance of a budget changes when one entry is appended to the ledger: an
  entry without a link adds its own flow, and a settlement or cancellation also releases the
  commitment it closes. The lemmas carry the balance properties of \<open>apply_mutation\<close>.
\<close>

section \<open>Balances after one more entry\<close>

definition refs_ok :: "entry list \<Rightarrow> bool" where
  "refs_ok es \<longleftrightarrow> distinct (List.map e_id es) \<and> (\<forall>e\<in>set es. \<forall>k. e_related e = Some k \<longrightarrow> k \<in> e_id ` set es)"

definition open_total :: "entry list \<Rightarrow> ident \<Rightarrow> int" where
  "open_total es b = sum_where (\<lambda>e. e_budget e = b \<and> e_type e = ''commitment'' \<and> \<not> is_closed es e) e_amount es"

definition flow :: "entry \<Rightarrow> ident \<Rightarrow> int" where
  "flow e b = (if e_budget e \<noteq> b then 0
     else if e_type e \<in> {''allocation'', ''adjustment'', ''correction''} then e_amount e
     else if e_type e = ''settlement'' then - e_amount e else 0)"

lemma is_closed_append: "is_closed (es @ [t]) c \<longleftrightarrow> is_closed es c \<or> closed_by c t"
  by (simp add: is_closed_def)

lemma balance_append:
  "balance (es @ [e]) b = balance es b + flow e b + open_total es b - open_total (es @ [e]) b"
  by (auto simp: balance_def open_total_def flow_def)

lemma fresh_not_closed:
  assumes "refs_ok es" and "e_id e \<notin> e_id ` set es" and "e_related e = None \<or> (\<exists>k. e_related e = Some k \<and> k \<in> e_id ` set es)"
  shows "\<not> is_closed (es @ [e]) e"
  using assms by (auto simp: is_closed_def closed_by_def refs_ok_def list_ex_iff)

lemma open_total_plain:
  assumes "refs_ok es" and "e_id e \<notin> e_id ` set es" and "e_related e = None"
  shows "open_total (es @ [e]) b =
     open_total es b + (if e_budget e = b \<and> e_type e = ''commitment'' then e_amount e else 0)"
proof -
  have "sum_where (\<lambda>x. e_budget x = b \<and> e_type x = ''commitment'' \<and> \<not> is_closed (es @ [e]) x) e_amount es
      = sum_where (\<lambda>x. e_budget x = b \<and> e_type x = ''commitment'' \<and> \<not> is_closed es x) e_amount es"
    by (rule sum_where_cong) (use assms(3) in \<open>simp_all add: is_closed_append closed_by_def\<close>)
  moreover have "\<not> is_closed (es @ [e]) e" by (rule fresh_not_closed[OF assms(1,2)]) (use assms(3) in simp)
  ultimately show ?thesis by (simp add: open_total_def)
qed

lemma open_total_closing:
  assumes r: "refs_ok es" and e: "e_id e \<notin> e_id ` set es" "e_related e = Some (e_id c)" "e_type e \<in> set terminal_types"
    and c: "c \<in> set es" "e_type c = ''commitment''" "\<not> is_closed es c"
  shows "open_total (es @ [e]) b = open_total es b - (if e_budget c = b then e_amount c else 0)"
proof -
  have d: "distinct (List.map e_id es)" using r by (simp add: refs_ok_def)
  have nc: "e_type e \<noteq> ''commitment''" using e(3) by (auto simp: terminal_types_def)
  have eq: "closed_by x e \<longleftrightarrow> e_id x = e_id c" for x using e by (auto simp: closed_by_def)
  let ?P = "\<lambda>x. e_budget x = b \<and> e_type x = ''commitment'' \<and> \<not> is_closed es x"
  have after: "open_total (es @ [e]) b = sum_where (\<lambda>x. ?P x \<and> e_id x \<noteq> e_id c) e_amount es"
    using nc by (auto simp: open_total_def is_closed_append eq intro!: sum_where_cong)
  show ?thesis
  proof (cases "e_budget c = b")
    case True
    then have "sum_where ?P e_amount es = e_amount c + sum_where (\<lambda>x. ?P x \<and> e_id x \<noteq> e_id c) e_amount es"
      using c by (intro sum_where_remove[OF d]) simp_all
    then show ?thesis using True by (simp add: after open_total_def[of es])
  next
    case False
    have "sum_where (\<lambda>x. ?P x \<and> e_id x \<noteq> e_id c) e_amount es = sum_where ?P e_amount es"
    proof (rule sum_where_cong)
      fix x assume x: "x \<in> set es"
      show "(?P x \<and> e_id x \<noteq> e_id c) = ?P x"
        using x c(1) d False by (auto simp: distinct_map inj_on_def)
    qed simp
    then show ?thesis using False by (simp add: after open_total_def[of es])
  qed
qed

lemma balance_plain:
  assumes "refs_ok es" and "e_id e \<notin> e_id ` set es" and "e_related e = None"
  shows "balance (es @ [e]) b = balance es b + flow e b
     - (if e_budget e = b \<and> e_type e = ''commitment'' then e_amount e else 0)"
  using open_total_plain[OF assms, of b] by (simp add: balance_append)

lemma balance_closing:
  assumes "refs_ok es" and "e_id e \<notin> e_id ` set es" and "e_related e = Some (e_id c)" "e_type e \<in> set terminal_types"
    and "c \<in> set es" "e_type c = ''commitment''" "\<not> is_closed es c"
  shows "balance (es @ [e]) b = balance es b + flow e b + (if e_budget c = b then e_amount c else 0)"
  using open_total_closing[OF assms, of b] by (simp add: balance_append)

lemma balance_foreign: "(\<And>e. e \<in> set es \<Longrightarrow> e_budget e \<noteq> b) \<Longrightarrow> balance es b = 0"
  by (auto simp: balance_def sum_where_none)

end
