(* ===== verification/Ledger_Invariant.thy ===== *)
theory Ledger_Invariant
  imports Ledger_Accounting
begin

text \<open>
  The invariant of the Budget Control database: every key is unique, every row refers to rows that
  justify it (a commitment to an approved decision on the same request, version, amount and
  instruction; a settlement or cancellation to the one commitment it closes; a receipt to its
  ledger row and back), a purchase request is committed exactly while it has an open commitment,
  and no budget is overdrawn. The operations on requests, decisions and verification records keep it.
\<close>

section \<open>The invariant of the database\<close>

definition open_for :: "bdb \<Rightarrow> ident \<Rightarrow> entry \<Rightarrow> bool" where
  "open_for db k c \<longleftrightarrow> e_type c = ''commitment'' \<and> e_request c = Some k \<and> \<not> is_closed (t_ledger db) c"

definition commitment_ok :: "bdb \<Rightarrow> entry \<Rightarrow> bool" where
  "commitment_ok db e \<longleftrightarrow> (\<exists>r\<in>set (t_requests db). \<exists>v\<in>set (t_versions db). \<exists>d\<in>set (t_decisions db).
     e_request e = Some (pr_id r) \<and> e_version e = PInt (v_version v) \<and> pr_budget r = e_budget e \<and>
     v_request v = pr_id r \<and> v_amount v = e_amount e \<and>
     d_decision d = ''approved'' \<and> d_request d = pr_id r \<and> d_version d = v_version v \<and>
     d_by d = e_actor e \<and> d_digest d = Some (e_digest e))"

definition terminal_ok :: "entry list \<Rightarrow> entry \<Rightarrow> bool" where
  "terminal_ok es t \<longleftrightarrow> (\<exists>c\<in>set es. e_related t = Some (e_id c) \<and> e_type c = ''commitment'' \<and>
     e_budget c = e_budget t \<and> e_amount t \<le> e_amount c \<and>
     (e_type t = ''cancellation'' \<longrightarrow> e_amount t = e_amount c))"

definition entry_ok :: "bdb \<Rightarrow> entry \<Rightarrow> bool" where
  "entry_ok db e \<longleftrightarrow> e_budget e \<in> b_id ` set (t_budgets db) \<and>
     (e_type e = ''commitment'' \<longrightarrow> commitment_ok db e) \<and>
     (if e_type e \<in> set terminal_types then terminal_ok (t_ledger db) e else e_related e = None)"

definition one_terminal :: "entry list \<Rightarrow> bool" where
  "one_terminal es \<longleftrightarrow> (\<forall>t\<in>set es. \<forall>t'\<in>set es. e_related t \<noteq> None \<and> e_related t = e_related t' \<longrightarrow> t = t')"

definition opens :: "bdb \<Rightarrow> ident \<Rightarrow> entry set" where
  "opens db k = {c \<in> set (t_ledger db). open_for db k c}"

text \<open>A request is committed exactly while it has an open commitment, which is then the only one.\<close>

definition request_ok :: "bdb \<Rightarrow> purchase \<Rightarrow> bool" where
  "request_ok db r \<longleftrightarrow> strip (pr_id r) = pr_id r \<and>
     (if pr_status r = ''committed'' then \<exists>c. opens db (pr_id r) = {c} \<and> e_version c = PInt (pr_version r)
      else opens db (pr_id r) = {})"

definition decision_ok :: "bdb \<Rightarrow> decision \<Rightarrow> bool" where
  "decision_ok db d \<longleftrightarrow> (\<exists>r\<in>set (t_requests db). pr_id r = d_request d \<and> pr_requester r \<noteq> d_by d)"

definition receipt_ok :: "bdb \<Rightarrow> receipt \<Rightarrow> bool" where
  "receipt_ok db rc \<longleftrightarrow> (\<exists>e\<in>set (t_ledger db). e_id e = rc_entry rc \<and> e_digest e = rc_digest rc \<and>
     e_execution e = rc_execution rc \<and> e_currency e = rc_currency rc)"

definition keys_ok :: "bdb \<Rightarrow> bool" where
  "keys_ok db \<longleftrightarrow> distinct (List.map pr_id (t_requests db)) \<and> distinct (List.map b_id (t_budgets db)) \<and>
     distinct (List.map d_id (t_decisions db)) \<and>
     distinct (List.map rc_digest (t_receipts db)) \<and> distinct (List.map rc_key (t_receipts db)) \<and>
     distinct (List.map e_digest (t_ledger db)) \<and> refs_ok (t_ledger db) \<and> one_terminal (t_ledger db)"

definition rows_ok :: "bdb \<Rightarrow> bool" where
  "rows_ok db \<longleftrightarrow> (\<forall>e\<in>set (t_ledger db). entry_ok db e) \<and> (\<forall>r\<in>set (t_requests db). request_ok db r) \<and>
     (\<forall>d\<in>set (t_decisions db). decision_ok db d) \<and> (\<forall>rc\<in>set (t_receipts db). receipt_ok db rc) \<and>
     (\<forall>e\<in>set (t_ledger db). e_digest e \<in> rc_digest ` set (t_receipts db))"

definition funded :: "bdb \<Rightarrow> bool" where
  "funded db \<longleftrightarrow> (\<forall>b. 0 \<le> balance (t_ledger db) b)"

definition supply_text :: "bdb \<Rightarrow> bool" where
  "supply_text db \<longleftrightarrow> (\<forall>n. strip (bw_uuid db n) = bw_uuid db n)"

definition bdb_inv :: "bdb \<Rightarrow> bool" where
  "bdb_inv db \<longleftrightarrow> keys_ok db \<and> rows_ok db \<and> funded db \<and> supply_text db"

lemmas bdb_defs = bdb_inv_def keys_ok_def rows_ok_def funded_def supply_text_def

section \<open>Operations that leave the ledger alone\<close>

text \<open>A change of requests, versions and decisions that keeps what the ledger refers to.\<close>

definition keeps_request :: "purchase \<Rightarrow> purchase \<Rightarrow> bool" where
  "keeps_request r r' \<longleftrightarrow> pr_id r' = pr_id r \<and> pr_budget r' = pr_budget r \<and> pr_requester r' = pr_requester r \<and>
     (pr_status r \<noteq> ''committed'' \<and> pr_status r' \<noteq> ''committed'' \<or>
      pr_status r' = pr_status r \<and> pr_version r' = pr_version r)"

lemma commitment_ok_mono:
  assumes "commitment_ok db e" and "\<And>r. r \<in> set (t_requests db) \<Longrightarrow> \<exists>r'\<in>set (t_requests db'). keeps_request r r'"
    and "set (t_versions db) \<subseteq> set (t_versions db')" and "set (t_decisions db) \<subseteq> set (t_decisions db')"
  shows "commitment_ok db' e"
proof -
  obtain r v d where x: "r \<in> set (t_requests db)" "v \<in> set (t_versions db)" "d \<in> set (t_decisions db)"
     "e_request e = Some (pr_id r)" "e_version e = PInt (v_version v)" "pr_budget r = e_budget e"
     "v_request v = pr_id r" "v_amount v = e_amount e"
     "d_decision d = ''approved''" "d_request d = pr_id r" "d_version d = v_version v"
     "d_by d = e_actor e" "d_digest d = Some (e_digest e)"
    using assms(1) unfolding commitment_ok_def by blast
  obtain r' where "r' \<in> set (t_requests db')" "keeps_request r r'" using assms(2) x(1) by blast
  moreover have "v \<in> set (t_versions db')" "d \<in> set (t_decisions db')" using x assms(3,4) by blast+
  ultimately show ?thesis using x unfolding commitment_ok_def keeps_request_def by metis
qed

lemma decision_ok_mono:
  assumes "decision_ok db d" and "\<And>r. r \<in> set (t_requests db) \<Longrightarrow> \<exists>r'\<in>set (t_requests db'). keeps_request r r'"
  shows "decision_ok db' d"
  using assms unfolding decision_ok_def keeps_request_def by metis

lemma request_ok_keep:
  assumes "request_ok db r" and "keeps_request r r'" and "t_ledger db' = t_ledger db"
  shows "request_ok db' r'"
  using assms by (auto simp: request_ok_def keeps_request_def opens_def open_for_def)

lemma quiet_change:
  assumes inv: "bdb_inv db"
    and ledger: "t_ledger db' = t_ledger db" "t_budgets db' = t_budgets db" "t_receipts db' = t_receipts db"
      "bw_uuid db' = bw_uuid db"
    and req: "\<And>r'. r' \<in> set (t_requests db') \<Longrightarrow>
        (\<exists>r\<in>set (t_requests db). keeps_request r r') \<or> request_ok db' r'"
      "\<And>r. r \<in> set (t_requests db) \<Longrightarrow> \<exists>r'\<in>set (t_requests db'). keeps_request r r'"
      "distinct (List.map pr_id (t_requests db'))"
    and vers: "set (t_versions db) \<subseteq> set (t_versions db')"
    and dec: "set (t_decisions db) \<subseteq> set (t_decisions db')" "distinct (List.map d_id (t_decisions db'))"
      "\<And>d. d \<in> set (t_decisions db') \<Longrightarrow> d \<notin> set (t_decisions db) \<Longrightarrow> decision_ok db' d"
  shows "bdb_inv db'"
proof -
  have "entry_ok db' e" if "e \<in> set (t_ledger db')" for e
    using that inv commitment_ok_mono[of db e db', OF _ req(2) vers dec(1)]
    by (auto simp: entry_ok_def bdb_defs ledger)
  moreover have "request_ok db' r'" if r': "r' \<in> set (t_requests db')" for r'
    using req(1)[OF r'] request_ok_keep[OF _ _ ledger(1)] inv by (auto simp: bdb_defs)
  moreover have "decision_ok db' d" if "d \<in> set (t_decisions db')" for d
    using that inv dec(3) decision_ok_mono[of db d db', OF _ req(2)] by (auto simp: bdb_defs)
  moreover have "receipt_ok db' rc" if "rc \<in> set (t_receipts db')" for rc
    using that inv by (auto simp: bdb_defs receipt_ok_def ledger)
  ultimately show ?thesis using inv req(3) dec(2) by (auto simp: bdb_defs ledger)
qed

lemma the_request_in: "the_request k db = Inr r \<Longrightarrow> r \<in> set (t_requests db) \<and> pr_id r = k"
  by (auto simp: the_request_def result_simps dest: find_SomeD)

lemma new_id_simps [simp]:
  "t_orgs (snd (new_id db)) = t_orgs db" "t_budgets (snd (new_id db)) = t_budgets db"
  "t_roles (snd (new_id db)) = t_roles db" "t_requests (snd (new_id db)) = t_requests db"
  "t_versions (snd (new_id db)) = t_versions db" "t_decisions (snd (new_id db)) = t_decisions db"
  "t_ledger (snd (new_id db)) = t_ledger db" "t_receipts (snd (new_id db)) = t_receipts db"
  "bw_uuid (snd (new_id db)) = bw_uuid db" "bw_now (snd (new_id db)) = bw_now db"
  by (simp_all add: new_id_def)

lemma update_request_change:
  assumes inv: "bdb_inv db"
    and db': "t_ledger db' = t_ledger db" "t_budgets db' = t_budgets db" "t_receipts db' = t_receipts db"
      "bw_uuid db' = bw_uuid db" "t_requests db' = List.map (\<lambda>r. if pr_id r = k then f r else r) (t_requests db)"
    and f: "\<And>r. r \<in> set (t_requests db) \<Longrightarrow> pr_id r = k \<Longrightarrow> keeps_request r (f r)"
    and vers: "set (t_versions db) \<subseteq> set (t_versions db')"
    and dec: "set (t_decisions db) \<subseteq> set (t_decisions db')" "distinct (List.map d_id (t_decisions db'))"
      "\<And>d. d \<in> set (t_decisions db') \<Longrightarrow> d \<notin> set (t_decisions db) \<Longrightarrow> decision_ok db' d"
  shows "bdb_inv db'"
proof (rule quiet_change[OF inv db'(1-4) _ _ _ vers dec])
  have self: "keeps_request r r" for r by (auto simp: keeps_request_def)
  let ?f = "\<lambda>r. if pr_id r = k then f r else r"
  have keep: "keeps_request r (?f r)" if "r \<in> set (t_requests db)" for r using f that self by auto
  show "(\<exists>r\<in>set (t_requests db). keeps_request r r') \<or> request_ok db' r'" if r': "r' \<in> set (t_requests db')" for r'
  proof -
    obtain r where "r \<in> set (t_requests db)" "r' = ?f r" using r' unfolding db'(5) set_map by blast
    then show ?thesis using keep by blast
  qed
  show "\<exists>r'\<in>set (t_requests db'). keeps_request r r'" if r: "r \<in> set (t_requests db)" for r
  proof -
    have "?f r \<in> set (t_requests db')" using r unfolding db'(5) set_map by (rule imageI)
    with keep[OF r] show ?thesis by blast
  qed
  have "List.map pr_id (t_requests db') = List.map pr_id (t_requests db)"
    using keep unfolding db'(5) by (auto simp: keeps_request_def)
  then show "distinct (List.map pr_id (t_requests db'))" using inv by (simp add: bdb_defs)
qed

section \<open>Purchase requests and decisions keep the invariant\<close>

lemma transaction_inv:
  assumes "bdb_inv db" and "\<And>x db'. f db = Inr (x, db') \<Longrightarrow> bdb_inv db'"
  shows "bdb_inv (snd (transaction f db))"
  using assms by (auto simp: transaction_def split: sum.splits prod.splits)

lemma then_view_snd [simp]: "snd (then_view actor out) = snd out"
  by (simp add: then_view_def split: prod.splits)

lemma update_request_fields [simp]:
  "t_requests (update_request k f db) = List.map (\<lambda>r. if pr_id r = k then f r else r) (t_requests db)"
  "t_ledger (update_request k f db) = t_ledger db" "t_budgets (update_request k f db) = t_budgets db"
  "t_receipts (update_request k f db) = t_receipts db" "bw_uuid (update_request k f db) = bw_uuid db"
  "t_versions (update_request k f db) = t_versions db" "t_decisions (update_request k f db) = t_decisions db"
  by (simp_all add: update_request_def)

lemma request_unique: "bdb_inv db \<Longrightarrow> r \<in> set (t_requests db) \<Longrightarrow> r' \<in> set (t_requests db) \<Longrightarrow> pr_id r = pr_id r' \<Longrightarrow> r = r'"
  by (auto simp: bdb_defs distinct_map inj_on_def)

lemma the_request_is: "bdb_inv db \<Longrightarrow> the_request k db = Inr r \<Longrightarrow> x \<in> set (t_requests db) \<Longrightarrow> pr_id x = k \<Longrightarrow> x = r"
  using the_request_in request_unique by metis

lemma keeps_request_refl [simp]: "keeps_request r r"
  by (auto simp: keeps_request_def)

lemma insert_decision_facts:
  "insert_decision d db = Inr db' \<Longrightarrow> d_id d \<notin> d_id ` set (t_decisions db) \<and> db' = db\<lparr>t_decisions := t_decisions db @ [d]\<rparr>"
  by (auto simp: insert_decision_def result_simps)

lemma insert_version_facts:
  "insert_version v db = Inr db' \<Longrightarrow> db' = db\<lparr>t_versions := t_versions db @ [v]\<rparr>"
  by (auto simp: insert_version_def result_simps)

lemma submit_request_inv: "bdb_inv db \<Longrightarrow> bdb_inv (snd (submit_request actor k db))"
proof -
  assume inv: "bdb_inv db"
  have "bdb_inv db'" if r: "the_request k db = Inr r" "pr_status r = ''draft''"
    and db': "db' = update_request k (\<lambda>x. x\<lparr>pr_status := ''submitted'', pr_updated := bw_now db\<rparr>) db" for r db'
  proof (rule update_request_change[OF inv, of _ k])
    show "keeps_request x (x\<lparr>pr_status := ''submitted'', pr_updated := bw_now db\<rparr>)"
      if "x \<in> set (t_requests db)" "pr_id x = k" for x
      using the_request_is[OF inv r(1) that] r(2) by (auto simp: keeps_request_def)
  qed (use inv in \<open>auto simp: db' bdb_defs\<close>)
  then show ?thesis using inv unfolding submit_request_def then_view_snd
    by (intro transaction_inv) (auto simp: result_simps)
qed

lemma add_request_version_inv:
  assumes inv: "bdb_inv db"
  shows "bdb_inv (snd (add_request_version actor k amount currency purpose reference db))"
proof -
  have "bdb_inv db'" if r: "the_request k db = Inr r" "pr_status r \<notin> {''committed'', ''settled'', ''cancelled''}"
    and v: "insert_version v db = Inr db1"
    and db': "db' = update_request k (\<lambda>x. x\<lparr>pr_version := n, pr_status := ''draft'', pr_updated := bw_now db\<rparr>) db1"
    for r v n db1 db'
  proof (rule update_request_change[OF inv, of _ k])
    show "keeps_request x (x\<lparr>pr_version := n, pr_status := ''draft'', pr_updated := bw_now db\<rparr>)"
      if "x \<in> set (t_requests db)" "pr_id x = k" for x
      using the_request_is[OF inv r(1) that] r(2) by (auto simp: keeps_request_def)
  qed (use inv in \<open>auto simp: db' insert_version_facts[OF v] bdb_defs\<close>)
  then show ?thesis using inv unfolding add_request_version_def
    by (auto simp: result_simps Let_def intro!: transaction_inv)
qed

lemma save_decision_inv:
  assumes inv: "bdb_inv db"
  shows "bdb_inv (snd (save_decision decision_id actor k dec why digest action_json evidence db))"
proof -
  have "bdb_inv db'" if r: "the_request k db = Inr r" "pr_status r = ''submitted''" "pr_requester r \<noteq> actor"
    and dec: "dec \<in> {''approved'', ''rejected''}"
    and d: "insert_decision d db = Inr db1" "d_request d = k" "d_by d = actor"
    and db': "db' = update_request k (\<lambda>x. x\<lparr>pr_status := dec, pr_updated := bw_now db\<rparr>) db1"
    for r d db1 db'
  proof (rule update_request_change[OF inv, of _ k])
    let ?f = "\<lambda>x. x\<lparr>pr_status := dec, pr_updated := bw_now db\<rparr>"
    note facts = insert_decision_facts[OF d(1)]
    show reqs: "t_requests db' = List.map (\<lambda>r. if pr_id r = k then ?f r else r) (t_requests db)"
      by (simp add: db' facts)
    show "keeps_request x (?f x)" if "x \<in> set (t_requests db)" "pr_id x = k" for x
      using the_request_is[OF inv r(1) that] r(2) dec by (auto simp: keeps_request_def)
    show "decision_ok db' y" if "y \<in> set (t_decisions db')" "y \<notin> set (t_decisions db)" for y
    proof -
      have "y = d" using that by (auto simp: db' facts)
      moreover have "?f r \<in> set (t_requests db')" using the_request_in[OF r(1)] by (auto simp: reqs)
      ultimately show ?thesis using the_request_in[OF r(1)] r(3) d(2,3)
        by (auto simp: decision_ok_def intro!: bexI[of _ "?f r"])
    qed
    show "distinct (List.map d_id (t_decisions db'))" using inv facts by (simp add: db' bdb_defs)
  qed (use inv in \<open>auto simp: db' insert_decision_facts[OF d(1)]\<close>)
  then show ?thesis using inv unfolding save_decision_def
    by (auto simp: result_simps intro!: transaction_inv)
qed

lemma create_request_inv:
  assumes inv: "bdb_inv db"
  shows "bdb_inv (snd (create_request actor budget_id amount currency purpose reference db))"
proof -
  have "bdb_inv db'" if r: "insert_request r (snd (new_id db)) = Inr db1" "pr_id r = fst (new_id db)" "pr_status r = ''draft''"
    and v: "insert_version v db1 = Inr db'" for r v db1 db'
  proof -
    have fresh: "pr_id r \<notin> pr_id ` set (t_requests db)" and db1: "db1 = (snd (new_id db))\<lparr>t_requests := t_requests db @ [r]\<rparr>"
      using r(1) by (auto simp: insert_request_def result_simps)
    note db' = insert_version_facts[OF v]
    show ?thesis
  proof (rule quiet_change[OF inv])
    show "(\<exists>x\<in>set (t_requests db). keeps_request x r') \<or> request_ok db' r'" if "r' \<in> set (t_requests db')" for r'
    proof (cases "r' = r")
      case True
      have "\<not> open_for db' (pr_id r) c" if "c \<in> set (t_ledger db)" for c
        using that inv fresh by (auto simp: open_for_def bdb_defs entry_ok_def commitment_ok_def rev_image_eqI)
      then show ?thesis using True r(2,3) inv
        by (auto simp: request_ok_def opens_def db' db1 bdb_defs new_id_def)
    next
      case False
      then show ?thesis using that by (auto simp: db' db1 intro: bexI[of _ r'])
    qed
    show "distinct (List.map pr_id (t_requests db'))" using inv fresh by (simp add: db' db1 bdb_defs)
    show "\<exists>x\<in>set (t_requests db'). keeps_request y x" if "y \<in> set (t_requests db)" for y
      using that by (auto simp: db' db1 intro: bexI[of _ y])
  qed (use inv in \<open>auto simp: db' db1 bdb_defs\<close>)
  qed
  then show ?thesis using inv unfolding create_request_def
    by (auto simp: result_simps Let_def case_prod_beta intro!: transaction_inv)
qed

lemma record_verification_inv:
  assumes inv: "bdb_inv db"
  shows "bdb_inv (snd (record_verification x digest status why expected observed entry_id db))"
proof -
  have "bdb_inv db'" if v: "insert_verification v (snd (new_id db)) = Inr db'" for v db'
  proof (rule quiet_change[OF inv])
    obtain c where db': "db' = (snd (new_id db))\<lparr>t_verifs := t_verifs (snd (new_id db)) @ [v\<lparr>fv_expected := c\<rparr>]\<rparr>"
      using v by (auto simp: insert_verification_def result_simps)
    show "t_ledger db' = t_ledger db" "t_budgets db' = t_budgets db" "t_receipts db' = t_receipts db"
      "set (t_versions db) \<subseteq> set (t_versions db')" "set (t_decisions db) \<subseteq> set (t_decisions db')"
      "distinct (List.map pr_id (t_requests db'))" "distinct (List.map d_id (t_decisions db'))"
      using inv by (simp_all add: db' bdb_defs)
    show "(\<exists>x\<in>set (t_requests db). keeps_request x r') \<or> request_ok db' r'" if "r' \<in> set (t_requests db')" for r'
      using that by (auto simp: db' intro: bexI[of _ r'])
    show "\<exists>x\<in>set (t_requests db'). keeps_request y x" if "y \<in> set (t_requests db)" for y
      using that by (auto simp: db' intro: bexI[of _ y])
    show "decision_ok db' d" if "d \<in> set (t_decisions db')" "d \<notin> set (t_decisions db)" for d
      using that by (simp add: db')
    show "bw_uuid db' = bw_uuid db" by (simp add: db')
  qed
  then show ?thesis using inv unfolding record_verification_def
    by (auto simp: result_simps Let_def case_prod_beta intro!: transaction_inv)
qed

end
