(* ===== verification/Ledger_Mutation.thy ===== *)
theory Ledger_Mutation
  imports Ledger_Invariant
begin

text \<open>
  \<open>apply_mutation\<close> keeps the invariant. A successful mutation appends one ledger row and one
  receipt; the lemmas \<open>done_bootstrap\<close>, \<open>done_change\<close>, \<open>done_commitment\<close> and \<open>done_terminal\<close> show for
  each kind of row that the balance after it is the one the validation computed.
\<close>

section \<open>One more ledger row\<close>

definition appends :: "bdb \<Rightarrow> entry \<Rightarrow> receipt \<Rightarrow> bdb \<Rightarrow> bool" where
  "appends db e rc db' \<longleftrightarrow>
     t_ledger db' = t_ledger db @ [e] \<and> t_receipts db' = t_receipts db @ [rc] \<and>
     e_id e \<notin> e_id ` set (t_ledger db) \<and> e_digest e \<notin> e_digest ` set (t_ledger db) \<and>
     rc_digest rc \<notin> rc_digest ` set (t_receipts db) \<and> rc_key rc \<notin> rc_key ` set (t_receipts db) \<and>
     rc_digest rc = e_digest e \<and> rc_entry rc = e_id e \<and> rc_execution rc = e_execution e \<and>
     rc_currency rc = e_currency e \<and> t_versions db' = t_versions db \<and> t_decisions db' = t_decisions db \<and>
     bw_uuid db' = bw_uuid db \<and> set (t_budgets db) \<subseteq> set (t_budgets db') \<and>
     distinct (List.map b_id (t_budgets db')) \<and> e_budget e \<in> b_id ` set (t_budgets db')"

definition same_purchases :: "bdb \<Rightarrow> bdb \<Rightarrow> bool" where
  "same_purchases db db' \<longleftrightarrow> (\<exists>f. t_requests db' = List.map f (t_requests db) \<and>
     (\<forall>r. pr_id (f r) = pr_id r \<and> pr_budget (f r) = pr_budget r \<and> pr_requester (f r) = pr_requester r))"

lemma append_commitment_ok:
  assumes "appends db e rc db'" and "same_purchases db db'" and "commitment_ok db x"
  shows "commitment_ok db' x"
proof -
  obtain f where f: "t_requests db' = List.map f (t_requests db)"
     "\<And>r. pr_id (f r) = pr_id r \<and> pr_budget (f r) = pr_budget r"
    using assms(2) unfolding same_purchases_def by blast
  obtain r where "r \<in> set (t_requests db)" and
     "\<exists>v\<in>set (t_versions db). \<exists>d\<in>set (t_decisions db).
     e_request x = Some (pr_id r) \<and> e_version x = PInt (v_version v) \<and> pr_budget r = e_budget x \<and>
     v_request v = pr_id r \<and> v_amount v = e_amount x \<and>
     d_decision d = ''approved'' \<and> d_request d = pr_id r \<and> d_version d = v_version v \<and>
     d_by d = e_actor x \<and> d_digest d = Some (e_digest x)" using assms(3) unfolding commitment_ok_def by blast
  moreover have "f r \<in> set (t_requests db')" using \<open>r \<in> set (t_requests db)\<close> by (simp add: f(1))
  ultimately show ?thesis using assms(1) unfolding commitment_ok_def appends_def by (metis f(2))
qed

lemma terminal_ok_append: "terminal_ok es x \<Longrightarrow> terminal_ok (es @ [e]) x"
  by (auto simp: terminal_ok_def)

lemma one_terminal_append:
  assumes "one_terminal es" and "\<forall>x\<in>set es. e_related x \<noteq> None \<longrightarrow> e_type x \<in> set terminal_types"
    and "e_related e = None \<or> (\<exists>c. e_related e = Some (e_id c) \<and> \<not> is_closed es c)"
  shows "one_terminal (es @ [e])"
  using assms unfolding one_terminal_def is_closed_def closed_by_def list_ex_iff
  by (smt (verit) Un_iff empty_iff empty_set insert_iff list.simps(15) set_append)

lemma entry_related: "bdb_inv db \<Longrightarrow> x \<in> set (t_ledger db) \<Longrightarrow> e_related x \<noteq> None \<Longrightarrow> e_type x \<in> set terminal_types"
  unfolding bdb_inv_def rows_ok_def entry_ok_def by metis

lemma append_inv:
  assumes inv: "bdb_inv db" and app: "appends db e rc db'" and same: "same_purchases db db'"
    and e: "entry_ok db' e"
    and rel: "e_related e = None \<or> (\<exists>c\<in>set (t_ledger db). e_related e = Some (e_id c) \<and> \<not> is_closed (t_ledger db) c)"
    and req: "\<And>r. r \<in> set (t_requests db') \<Longrightarrow> request_ok db' r"
    and bal: "\<And>b. 0 \<le> balance (t_ledger db @ [e]) b"
  shows "bdb_inv db'"
proof -
  note a = app[unfolded appends_def]
  obtain f where f: "t_requests db' = List.map f (t_requests db)"
     "\<And>r. pr_id (f r) = pr_id r \<and> pr_requester (f r) = pr_requester r"
    using same unfolding same_purchases_def by blast
  have ids: "List.map pr_id (t_requests db') = List.map pr_id (t_requests db)" by (simp add: f)
  have linked: "\<forall>x\<in>set (t_ledger db). e_related x \<noteq> None \<longrightarrow> e_type x \<in> set terminal_types"
    using entry_related[OF inv] by blast
  have "refs_ok (t_ledger db')" using inv a rel by (auto simp: refs_ok_def bdb_defs)
  moreover have "one_terminal (t_ledger db')"
    using one_terminal_append[OF _ linked] inv a rel by (auto simp: bdb_defs)
  ultimately have keys: "keys_ok db'" using inv a by (auto simp: keys_ok_def ids bdb_defs)
  have "entry_ok db' x" if "x \<in> set (t_ledger db')" for x
  proof (cases "x = e")
    case False
    then have "entry_ok db x" using that inv a by (auto simp: bdb_defs)
    then show ?thesis using append_commitment_ok[OF app same, of x] terminal_ok_append[of "t_ledger db" x e] a
      by (auto simp: entry_ok_def split: if_splits)
  qed (use e in simp)
  moreover have "decision_ok db' d" if "d \<in> set (t_decisions db')" for d
    using that inv a unfolding bdb_inv_def rows_ok_def decision_ok_def by (auto simp: f(1)) (metis f(2))
  moreover have "receipt_ok db' x" if "x \<in> set (t_receipts db')" for x
    using that inv a by (auto simp: bdb_defs receipt_ok_def)
  moreover have "e_digest x \<in> rc_digest ` set (t_receipts db')" if "x \<in> set (t_ledger db')" for x
    using that inv a by (auto simp: bdb_defs)
  ultimately have "rows_ok db'" using req by (simp add: rows_ok_def)
  then show ?thesis using keys inv bal a by (simp add: bdb_inv_def funded_def supply_text_def)
qed

text \<open>The three kinds of row, by what they do to the open commitments.\<close>

lemma append_plain:
  assumes inv: "bdb_inv db" and app: "appends db e rc db'" and same: "t_requests db' = t_requests db"
    and e: "e_type e \<in> {''allocation'', ''adjustment'', ''correction''}" "e_related e = None"
    and bal: "0 \<le> balance (t_ledger db) (e_budget e) + e_amount e"
  shows "bdb_inv db'"
    and "balance (t_ledger db @ [e]) b = balance (t_ledger db) b + (if b = e_budget e then e_amount e else 0)"
proof -
  note a = app[unfolded appends_def]
  have refs: "refs_ok (t_ledger db)" using inv by (simp add: bdb_defs)
  have nc: "e_type e \<noteq> ''commitment''" using e by auto
  have nt: "e_type e \<notin> set terminal_types" using e by (auto simp: terminal_types_def)
  show eq: "balance (t_ledger db @ [e]) b = balance (t_ledger db) b + (if b = e_budget e then e_amount e else 0)" for b
    using balance_plain[OF refs _ e(2), of b] a e(1) nc by (auto simp: flow_def)
  show "bdb_inv db'"
  proof (rule append_inv[OF inv app])
    show "same_purchases db db'" using same by (auto simp: same_purchases_def intro: exI[of _ id])
    show "entry_ok db' e" using a nc nt e(2) by (auto simp: entry_ok_def)
    have "opens db' k = opens db k" for k
      using a e(2) nc by (auto simp: opens_def open_for_def is_closed_append closed_by_def)
    then show "request_ok db' r" if "r \<in> set (t_requests db')" for r
      using that inv same by (simp add: request_ok_def bdb_defs)
    show "0 \<le> balance (t_ledger db @ [e]) b" for b using eq[of b] bal inv by (auto simp: bdb_defs)
  qed (use e in simp)
qed

lemma append_commitment:
  assumes inv: "bdb_inv db" and app: "appends db e rc db'"
    and r: "r \<in> set (t_requests db)" "pr_status r = ''approved''" "e_request e = Some (pr_id r)" "e_version e = PInt (pr_version r)"
    and r': "t_requests db' = List.map (\<lambda>x. if pr_id x = pr_id r \<and> pr_status x = ''approved'' then x\<lparr>pr_status := ''committed'', pr_updated := t\<rparr> else x) (t_requests db)"
    and e: "e_type e = ''commitment''" "e_related e = None" "commitment_ok db' e"
    and bal: "e_amount e \<le> balance (t_ledger db) (e_budget e)"
  shows "bdb_inv db'"
    and "balance (t_ledger db @ [e]) b = balance (t_ledger db) b - (if b = e_budget e then e_amount e else 0)"
proof -
  note a = app[unfolded appends_def]
  have refs: "refs_ok (t_ledger db)" using inv by (simp add: bdb_defs)
  have nt: "e_type e \<notin> set terminal_types" using e by (auto simp: terminal_types_def)
  show eq: "balance (t_ledger db @ [e]) b = balance (t_ledger db) b - (if b = e_budget e then e_amount e else 0)" for b
    using balance_plain[OF refs _ e(2), of b] a e(1) by (auto simp: flow_def)
  have "\<not> is_closed (t_ledger db @ [e]) e" by (rule fresh_not_closed[OF refs]) (use a e(2) in auto)
  then have opens: "opens db' k = (if k = pr_id r then insert e (opens db k) else opens db k)" for k
    using a e(1,2) r(3) by (auto simp: opens_def open_for_def is_closed_append closed_by_def)
  show "bdb_inv db'"
  proof (rule append_inv[OF inv app])
    show "same_purchases db db'" unfolding same_purchases_def r' by (rule exI, rule conjI, rule refl) simp
    show "entry_ok db' e" using a nt e by (auto simp: entry_ok_def)
    show "request_ok db' x" if x': "x \<in> set (t_requests db')" for x
    proof -
      obtain y where x: "x = (if pr_id y = pr_id r \<and> pr_status y = ''approved''
          then y\<lparr>pr_status := ''committed'', pr_updated := t\<rparr> else y)"
        and y: "y \<in> set (t_requests db)" using x' unfolding r' set_map by (rule imageE)
      have ok: "request_ok db y" using inv y by (simp add: bdb_defs)
      show ?thesis
      proof (cases "pr_id y = pr_id r")
        case True
        then have "y = r" using request_unique[OF inv y r(1)] by simp
        then show ?thesis using x r(2,4) ok by (simp add: request_ok_def opens)
      next
        case False
        then show ?thesis using x ok by (simp add: request_ok_def opens)
      qed
    qed
    show "0 \<le> balance (t_ledger db @ [e]) b" for b using eq[of b] bal inv by (auto simp: bdb_defs)
  qed (use e in simp)
qed

lemma append_terminal:
  assumes inv: "bdb_inv db" and app: "appends db e rc db'"
    and r: "r \<in> set (t_requests db)" "pr_status r = ''committed''"
    and r': "t_requests db' = List.map (\<lambda>x. if pr_id x = pr_id r \<and> pr_status x = ''committed'' then x\<lparr>pr_status := s, pr_updated := t\<rparr> else x) (t_requests db)"
      "s \<noteq> ''committed''"
    and c: "c \<in> set (t_ledger db)" "open_for db (pr_id r) c" "e_budget c = e_budget e"
    and e: "e_type e \<in> {''settlement'', ''cancellation''}" "e_related e = Some (e_id c)" "e_amount e \<le> e_amount c"
      "e_type e = ''cancellation'' \<Longrightarrow> e_amount e = e_amount c" and pos: "0 \<le> e_amount e"
  shows "bdb_inv db'"
    and "balance (t_ledger db @ [e]) b = balance (t_ledger db) b +
      (if b = e_budget e then if e_type e = ''settlement'' then e_amount c - e_amount e else e_amount c else 0)"
proof -
  note a = app[unfolded appends_def]
  have refs: "refs_ok (t_ledger db)" using inv by (simp add: bdb_defs)
  have tt: "e_type e \<in> set terminal_types" using e by (auto simp: terminal_types_def)
  have nc: "e_type e \<noteq> ''commitment''" using e by auto
  have co: "e_type c = ''commitment''" "\<not> is_closed (t_ledger db) c" using c by (auto simp: open_for_def)
  show eq: "balance (t_ledger db @ [e]) b = balance (t_ledger db) b +
      (if b = e_budget e then if e_type e = ''settlement'' then e_amount c - e_amount e else e_amount c else 0)" for b
    using balance_closing[OF refs _ e(2) tt c(1) co, of b] a e(1) c(3) by (auto simp: flow_def)
  have "e_id c = e_id x \<longleftrightarrow> x = c" if "x \<in> set (t_ledger db)" for x
    using refs that c(1) by (auto simp: refs_ok_def distinct_map inj_on_def)
  then have opens: "opens db' k = opens db k - {c}" for k
    using a tt nc e(2) by (auto simp: opens_def open_for_def is_closed_append closed_by_def)
  show "bdb_inv db'"
  proof (rule append_inv[OF inv app])
    show "same_purchases db db'" unfolding same_purchases_def r' by (rule exI, rule conjI, rule refl) simp
    show "entry_ok db' e" using a nc tt e c co by (auto simp: entry_ok_def terminal_ok_def)
    show "request_ok db' x" if x': "x \<in> set (t_requests db')" for x
    proof -
      obtain y where x: "x = (if pr_id y = pr_id r \<and> pr_status y = ''committed''
          then y\<lparr>pr_status := s, pr_updated := t\<rparr> else y)"
        and y: "y \<in> set (t_requests db)" using x' unfolding r'(1) set_map by (rule imageE)
      have ok: "request_ok db y" using inv y by (simp add: bdb_defs)
      show ?thesis
      proof (cases "pr_id y = pr_id r")
        case True
        then have "y = r" using request_unique[OF inv y r(1)] by simp
        moreover have "c \<in> opens db (pr_id r)" using c by (simp add: opens_def)
        ultimately show ?thesis using x r(2) r'(2) ok by (auto simp: request_ok_def opens)
      next
        case False
        then have "c \<notin> opens db (pr_id y)" using c(2) by (auto simp: opens_def open_for_def)
        then show ?thesis using False x ok by (simp add: request_ok_def opens)
      qed
    qed
    show "0 \<le> balance (t_ledger db @ [e]) b" for b
      using eq[of b] inv e(3) pos by (auto simp: bdb_defs)
  qed (use c co e in auto)
qed

section \<open>Applying a validated mutation\<close>

lemma map_sum_Inr [result_simps]: "map_sum f g x = Inr y \<longleftrightarrow> (\<exists>z. x = Inr z \<and> y = g z)"
  by (cases x) auto

lemma map_sum_Inl [result_simps]: "map_sum id g x = Inl y \<longleftrightarrow> x = Inl y"
  by (cases x) auto

lemma text_param_iff [result_simps]:
  "text_param ps k = Inr t \<longleftrightarrow> (\<exists>s. param ps k = PStr s \<and> strip s = t \<and> t \<noteq> [])"
  by (auto simp: text_param_def split: pyval.splits)

lemma positive_param_iff [result_simps]: "positive_param ps k = Inr i \<longleftrightarrow> param ps k = PInt i \<and> 0 < i"
  by (auto simp: positive_param_def int_param_def split: pyval.splits)

lemma insert_entry_facts:
  "insert_entry e db = Inr db' \<Longrightarrow> db' = db\<lparr>t_ledger := t_ledger db @ [e]\<rparr> \<and> e_id e \<notin> e_id ` set (t_ledger db) \<and>
     e_digest e \<notin> e_digest ` set (t_ledger db) \<and> e_budget e \<in> b_id ` set (t_budgets db) \<and> int64 (e_amount e) \<and>
     (e_type e \<in> {''adjustment'', ''correction''} \<or> 0 < e_amount e)"
  by (auto simp: insert_entry_def result_simps)

lemma insert_receipt_facts:
  "insert_receipt rc db = Inr db' \<Longrightarrow> db' = db\<lparr>t_receipts := t_receipts db @ [rc]\<rparr> \<and>
     rc_digest rc \<notin> rc_digest ` set (t_receipts db) \<and> rc_key rc \<notin> rc_key ` set (t_receipts db)"
  by (auto simp: insert_receipt_def result_simps)

lemma transition_facts:
  assumes "transition k a b db = Inr db'"
  shows "db' = db\<lparr>t_requests := List.map (\<lambda>r. if pr_id r = k \<and> pr_status r = a
             then r\<lparr>pr_status := b, pr_updated := bw_now db\<rparr> else r) (t_requests db)\<rparr>"
    and "\<exists>r\<in>set (t_requests db). pr_id r = k \<and> pr_status r = a"
proof -
  let ?P = "\<lambda>r. pr_id r = k \<and> pr_status r = a"
  have "length (filter ?P (t_requests db)) = 1" and eq: "db' = db\<lparr>t_requests := List.map (\<lambda>r. if pr_id r = k \<and> pr_status r = a
             then r\<lparr>pr_status := b, pr_updated := bw_now db\<rparr> else r) (t_requests db)\<rparr>"
    using assms by (auto simp: transition_def split: if_splits)
  then have "filter ?P (t_requests db) \<noteq> []" by auto
  then show "\<exists>r\<in>set (t_requests db). ?P r" by (simp add: filter_empty_conv)
  show "db' = db\<lparr>t_requests := List.map (\<lambda>r. if pr_id r = k \<and> pr_status r = a
             then r\<lparr>pr_status := b, pr_updated := bw_now db\<rparr> else r) (t_requests db)\<rparr>" by (rule eq)
qed

definition mutation_entry :: "mutation \<Rightarrow> params \<Rightarrow> mutation_evidence \<Rightarrow> string \<Rightarrow> bdb \<Rightarrow> bdb \<Rightarrow> entry \<Rightarrow> bool" where
  "mutation_entry m ps ev digest db db2 e \<longleftrightarrow>
     mutation_rows m ps ev (snd (new_id db)) = Inr ((e_org e, e_budget e, e_actor e, e_related e, e_correction e), db2) \<and>
     me_amount ev = PInt (e_amount e) \<and> e_type e = entry_type_of m \<and> e_currency e = me_currency ev \<and>
     bind_text (param ps ''request_id'') = Inr (e_request e) \<and>
     bind_cell (param ps ''request_version'') = Inr (e_version e) \<and> e_digest e = digest \<and> e_id e = fst (new_id db)"

lemma apply_validated_steps:
  assumes "apply_validated m ps ev key digest cdigest text x db = Inr (rc, db')"
  obtains e db2 db4 where "mutation_entry m ps ev digest db db2 e" and "insert_entry e db2 = Inr (db2\<lparr>t_ledger := t_ledger db2 @ [e]\<rparr>)"
    and "mutation_transition m ps (db2\<lparr>t_ledger := t_ledger db2 @ [e]\<rparr>) = Inr db4"
    and "available_minor (e_budget e) db4 = me_after ev" and "insert_receipt rc db4 = Inr db'"
    and "rc_digest rc = digest" "rc_key rc = key" "rc_content rc = cdigest" "rc_parameters rc = text"
    "rc_entry rc = e_id e" "rc_execution rc = x" "e_execution e = x" "rc_currency rc = e_currency e"
    "rc_available rc = me_after ev" "rc_mutation rc = mutation_value m"
proof -
  obtain g b actor related corr db2 amount rid rver db3 db4 rver' where
    rows: "mutation_rows m ps ev (snd (new_id db)) = Inr ((g, b, actor, related, corr), db2)"
    and amount: "the_amount (me_amount ev) = Inr amount" and rid: "bind_text (param ps ''request_id'') = Inr rid"
    and rver: "bind_cell (param ps ''request_version'') = Inr rver"
    and ins: "insert_entry \<lparr>e_id = fst (new_id db), e_org = g, e_budget = b, e_type = entry_type_of m,
           e_amount = amount, e_currency = me_currency ev, e_request = rid,
           e_version = rver, e_related = related, e_correction = corr, e_digest = digest,
           e_execution = x, e_actor = actor, e_created = bw_now db\<rparr> db2 = Inr db3"
    and tr: "mutation_transition m ps db3 = Inr db4" and obs: "available_minor b db4 = me_after ev"
    and rc: "rc = \<lparr>rc_digest = digest, rc_key = key, rc_content = cdigest, rc_parameters = text,
           rc_execution = x, rc_entry = fst (new_id db), rc_mutation = mutation_value m,
           rc_request = (if py_truthy_cell (param ps ''request_id'') then Some (py_str (param ps ''request_id'')) else None),
           rc_version = rver', rc_available = me_after ev, rc_currency = me_currency ev, rc_created = bw_now db\<rparr>"
    and rec: "insert_receipt rc db4 = Inr db'"
    using assms unfolding apply_validated_def
    by (auto simp: result_simps Let_def case_prod_beta simp del: new_id_simps)
  have am: "me_amount ev = PInt amount" using amount by (auto simp: the_amount_def split: pyval.splits)
  note i = insert_entry_facts[OF ins]
  let ?e = "\<lparr>e_id = fst (new_id db), e_org = g, e_budget = b, e_type = entry_type_of m,
           e_amount = amount, e_currency = me_currency ev, e_request = rid,
           e_version = rver, e_related = related, e_correction = corr, e_digest = digest,
           e_execution = x, e_actor = actor, e_created = bw_now db\<rparr>"
  show thesis
    by (rule that[of db2 ?e db4]) (use rec rows am rid rver ins tr obs i in \<open>simp_all add: rc mutation_entry_def\<close>)
qed

definition same_books :: "bdb \<Rightarrow> bdb \<Rightarrow> bool" where
  "same_books db db' \<longleftrightarrow> t_ledger db' = t_ledger db \<and> t_requests db' = t_requests db \<and> t_versions db' = t_versions db \<and>
     t_decisions db' = t_decisions db \<and> t_receipts db' = t_receipts db \<and> bw_uuid db' = bw_uuid db"

lemma insert_organization_facts: "insert_organization g db = Inr db' \<Longrightarrow> same_books db db' \<and> t_budgets db' = t_budgets db"
  by (auto simp: insert_organization_def result_simps same_books_def)

lemma insert_budget_facts: "insert_budget b db = Inr db' \<Longrightarrow> same_books db db' \<and> t_budgets db' = t_budgets db @ [b] \<and>
    b_id b \<notin> b_id ` set (t_budgets db)"
  by (auto simp: insert_budget_def result_simps same_books_def)

lemma insert_role_facts: "insert_role g db = Inr db' \<Longrightarrow> same_books db db' \<and> t_budgets db' = t_budgets db"
  by (auto simp: insert_role_def result_simps same_books_def)

lemma new_id_books: "same_books db (snd (new_id db)) \<and> t_budgets (snd (new_id db)) = t_budgets db"
  by (simp add: same_books_def)

lemma same_books_trans: "same_books a b \<Longrightarrow> same_books b c \<Longrightarrow> same_books a c"
  by (simp add: same_books_def)

lemma bootstrap_roles_facts:
  assumes "bootstrap_roles actor owner requester g b db = Inr db'"
  shows "same_books db db' \<and> t_budgets db' = t_budgets db"
proof -
  obtain r1 r2 r3 db4 db5 where
    "insert_role r1 (snd (new_id (snd (new_id (snd (new_id db)))))) = Inr db4" "insert_role r2 db4 = Inr db5" "insert_role r3 db5 = Inr db'"
    using assms unfolding bootstrap_roles_def Let_def case_prod_beta by (auto simp only: and_then_eq_Inr)
  then show ?thesis using insert_role_facts new_id_books same_books_trans by metis
qed

lemma bootstrap_rows_facts:
  assumes "bootstrap_rows ps cur db = Inr ((g, b, actor), db2)"
  shows "same_books db db2 \<and> (\<exists>row. t_budgets db2 = t_budgets db @ [row] \<and> b_id row = b \<and> b \<notin> b_id ` set (t_budgets db))"
proof -
  obtain og row a1 a2 a3 a4 db0 db1 where
    "insert_organization og db = Inr db0" "insert_budget row db0 = Inr db1" "b_id row = b" "bootstrap_roles a1 a2 a3 a4 b db1 = Inr db2"
    using assms unfolding bootstrap_rows_def Let_def
    by (simp only: and_then_eq_Inr prod.inject sum.inject) (metis budget.select_convs(1))
  then show ?thesis using insert_organization_facts insert_budget_facts bootstrap_roles_facts same_books_trans by metis
qed

lemma mutation_rows_unfold:
  assumes "mutation_rows m ps ev db = Inr ((g, b, actor, related, corr), db2)" and "m \<noteq> Bootstrap"
  shows "db2 = db \<and> me_budget ev = Some (PStr b) \<and> text_param ps ''actor'' = Inr actor \<and>
    and_then (if m \<in> {Settlement, Cancellation} then
                 and_then (py_int (param ps ''request_version'')) (\<lambda>n.
                 map_sum id (\<lambda>c. Some (e_id c)) (open_commitment (py_str (param ps ''request_id'')) n db))
               else Inr None) Inr = Inr related"
  using assms unfolding mutation_rows_def if_not_P[OF assms(2)]
  by (auto simp: and_then_eq_Inr split: option.splits pyval.splits)

lemma mutation_rows_facts:
  assumes "mutation_rows m ps ev db = Inr ((g, b, actor, related, corr), db2)" and "m \<noteq> Bootstrap"
  shows "db2 = db" and "me_budget ev = Some (PStr b)" and "text_param ps ''actor'' = Inr actor"
    and "m \<notin> {Settlement, Cancellation} \<Longrightarrow> related = None"
    and "m \<in> {Settlement, Cancellation} \<Longrightarrow> \<exists>n c. py_int (param ps ''request_version'') = Inr n \<and>
       open_commitment (py_str (param ps ''request_id'')) n db = Inr c \<and> related = Some (e_id c)"
  using mutation_rows_unfold[OF assms] by (simp_all add: and_then_eq_Inr map_sum_Inr)

lemma request_amounts_facts:
  assumes "request_amounts m ps actor digest b prior db = Inr (amount, after)"
  obtains s n r v where "param ps ''request_id'' = PStr s" "the_request (strip s) db = Inr r" "pr_budget r = b"
    "param ps ''request_version'' = PInt n" "pr_version r = n" "the_version (strip s) n db = Inr v" "0 < amount"
    "m = Commitment \<and> commit_amounts ps actor digest r v amount prior db = Inr (amount, after) \<or>
     m = Settlement \<and> settle_amounts r n amount prior db = Inr (amount, after) \<or>
     m = Cancellation \<and> cancel_amounts r n amount prior db = Inr (amount, after)"
proof -
  obtain k r n v a where x: "text_param ps ''request_id'' = Inr k" "the_request k db = Inr r" "pr_budget r = b"
      "positive_param ps ''request_version'' = Inr n" "pr_version r = n" "the_version k n db = Inr v"
      "positive_param ps ''amount_minor'' = Inr a" and
    y: "(if m = Commitment then commit_amounts ps actor digest r v a prior db
     else if m = Settlement then settle_amounts r n a prior db
     else if m = Cancellation then cancel_amounts r n a prior db
     else Inl (Domain ''unsupported_operation'')) = Inr (amount, after)"
    using assms unfolding request_amounts_def by (auto simp: and_then_eq_Inr ensure_eq_Inr)
  have "a = amount" using y
    by (auto simp: commit_amounts_def settle_amounts_def cancel_amounts_def result_simps split: if_splits)
  then show thesis using x y that by (auto simp: text_param_iff positive_param_iff split: if_splits)
qed

lemma mutation_param_value: "mutation_param [(''mutation_type'', PStr (mutation_value m))] = Inr m"
  by (cases m) (simp_all add: mutation_param_def param_def)

definition mutation_done ::
  "mutation \<Rightarrow> params \<Rightarrow> mutation_evidence \<Rightarrow> string \<Rightarrow> bdb \<Rightarrow> bdb \<Rightarrow> entry \<Rightarrow> bdb \<Rightarrow> receipt \<Rightarrow> bool" where
  "mutation_done m ps ev digest db db2 e db4 rc \<longleftrightarrow>
     bdb_inv db \<and> validate_mutation ps (Some digest) db = Inr ev \<and> receipt_by_digest digest db = None \<and>
     me_mutation ev = mutation_value m \<and>
     mutation_entry m ps ev digest db db2 e \<and> insert_entry e db2 = Inr (db2\<lparr>t_ledger := t_ledger db2 @ [e]\<rparr>) \<and>
     mutation_transition m ps (db2\<lparr>t_ledger := t_ledger db2 @ [e]\<rparr>) = Inr db4 \<and>
     rc_digest rc = digest \<and> rc_key rc \<notin> rc_key ` set (t_receipts db) \<and> rc_entry rc = e_id e \<and>
     rc_execution rc = e_execution e \<and> rc_currency rc = e_currency e"

abbreviation with_receipt :: "bdb \<Rightarrow> receipt \<Rightarrow> bdb" where
  "with_receipt db rc \<equiv> db\<lparr>t_receipts := t_receipts db @ [rc]\<rparr>"

lemma mutation_value_inj: "mutation_value m = mutation_value m' \<longleftrightarrow> m = m'"
  by (cases m; cases m') simp_all

lemma validated_cases:
  assumes "validate_mutation ps (Some digest) db = Inr ev" and "receipt_by_digest digest db = None"
    and "me_mutation ev = mutation_value m"
  obtains actor currency where "text_param ps ''actor'' = Inr actor" and
    "m = Bootstrap \<and> bootstrap_evidence ps actor currency db = Inr ev \<or>
     m \<noteq> Bootstrap \<and> budget_evidence m ps actor currency (Some digest) db = Inr ev"
proof -
  obtain m' actor currency where a: "text_param ps ''actor'' = Inr actor" and
    x: "m' = Bootstrap \<and> bootstrap_evidence ps actor currency db = Inr ev \<or>
     m' \<noteq> Bootstrap \<and> budget_evidence m' ps actor currency (Some digest) db = Inr ev"
    using assms(1,2) unfolding validate_mutation_def by (auto simp: result_simps split: if_splits)
  have "me_mutation ev = mutation_value m'"
    using x by (auto simp: bootstrap_evidence_def budget_evidence_def Let_def result_simps)
  then have "m' = m" using assms(3) mutation_value_inj by simp
  then show thesis using that a x by blast
qed

lemma budget_evidence_facts:
  assumes "budget_evidence m ps actor currency digest db = Inr ev"
  obtains b amount after where "me_budget ev = Some (PStr b)" "me_amount ev = PInt amount" "me_after ev = after"
    "if m \<in> {Adjustment, Correction} then change_amounts m ps b (available_minor b db) db = Inr (amount, after)
     else request_amounts m ps actor digest b (available_minor b db) db = Inr (amount, after)"
proof -
  have "\<exists>b amount after. me_budget ev = Some (PStr b) \<and> me_amount ev = PInt amount \<and> me_after ev = after \<and>
    (if m \<in> {Adjustment, Correction} then change_amounts m ps b (available_minor b db) db
     else request_amounts m ps actor digest b (available_minor b db) db) = Inr (amount, after)"
    using assms unfolding budget_evidence_def by (auto simp: and_then_eq_Inr ensure_eq_Inr Let_def split: if_splits)
  then show thesis using that by (metis (full_types))
qed

lemma done_appends:
  assumes d: "mutation_done m ps ev digest db db2 e db4 rc"
  shows "appends db e rc (with_receipt db4 rc)" and "t_ledger db4 = t_ledger db @ [e]"
    and "m \<notin> {Commitment, Settlement, Cancellation} \<Longrightarrow> t_requests db4 = t_requests db"
proof -
  note d = d[unfolded mutation_done_def mutation_entry_def]
  have i: "e_id e \<notin> e_id ` set (t_ledger db2)" "e_digest e \<notin> e_digest ` set (t_ledger db2)"
     "e_budget e \<in> b_id ` set (t_budgets db2)"
    using insert_entry_facts[of e db2 "db2\<lparr>t_ledger := t_ledger db2 @ [e]\<rparr>"] d by blast+
  have rows: "t_ledger db2 = t_ledger db \<and> t_requests db2 = t_requests db \<and> t_versions db2 = t_versions db \<and>
     t_decisions db2 = t_decisions db \<and> t_receipts db2 = t_receipts db \<and> bw_uuid db2 = bw_uuid db \<and>
     set (t_budgets db) \<subseteq> set (t_budgets db2) \<and> distinct (List.map b_id (t_budgets db2))"
  proof (cases "m = Bootstrap")
    case True
    then have "bootstrap_rows ps (me_currency ev) (snd (new_id db)) = Inr ((e_org e, e_budget e, e_actor e), db2)"
      using d by (auto simp: mutation_rows_def result_simps)
    from bootstrap_rows_facts[OF this] d show ?thesis by (auto simp: bdb_defs same_books_def)
  next
    case False
    then have "db2 = snd (new_id db)" using d mutation_rows_facts(1) by metis
    then show ?thesis using d by (simp add: bdb_defs)
  qed
  have tr: "t_ledger db4 = t_ledger db2 @ [e] \<and> t_versions db4 = t_versions db2 \<and> t_budgets db4 = t_budgets db2 \<and>
     t_decisions db4 = t_decisions db2 \<and> t_receipts db4 = t_receipts db2 \<and> bw_uuid db4 = bw_uuid db2 \<and>
     (m \<notin> {Commitment, Settlement, Cancellation} \<longrightarrow> t_requests db4 = t_requests db2)"
    using d by (auto simp: mutation_transition_def Let_def split: if_splits dest: transition_facts(1))
  have "digest \<notin> rc_digest ` set (t_receipts db)" using d by (auto simp: receipt_by_digest_def find_None)
  then show "appends db e rc (with_receipt db4 rc)" using d i rows tr by (auto simp: appends_def)
  show "t_ledger db4 = t_ledger db @ [e]" using rows tr by simp
  show "m \<notin> {Commitment, Settlement, Cancellation} \<Longrightarrow> t_requests db4 = t_requests db" using rows tr by simp
qed

lemma entry_budget: "bdb_inv db \<Longrightarrow> x \<in> set (t_ledger db) \<Longrightarrow> e_budget x \<in> b_id ` set (t_budgets db)"
  unfolding bdb_inv_def rows_ok_def entry_ok_def by blast

lemma done_bootstrap:
  assumes d: "mutation_done m ps ev digest db db2 e db4 rc" and m: "m = Bootstrap"
  shows "bdb_inv (with_receipt db4 rc)" and "balance (t_ledger db @ [e]) (e_budget e) = me_after ev"
    and "b \<noteq> e_budget e \<Longrightarrow> balance (t_ledger db @ [e]) b = balance (t_ledger db) b"
proof -
  note u = d[unfolded mutation_done_def mutation_entry_def]
  obtain actor currency where "bootstrap_evidence ps actor currency db = Inr ev"
    using validated_cases[of ps digest db ev m] u m by metis
  then have ev: "me_amount ev = PInt (me_after ev)" "0 < me_after ev"
    by (auto simp: bootstrap_evidence_def result_simps)
  have "bootstrap_rows ps (me_currency ev) (snd (new_id db)) = Inr ((e_org e, e_budget e, e_actor e), db2)"
    and rel: "e_related e = None" using u m by (auto simp: mutation_rows_def result_simps)
  from bootstrap_rows_facts[OF this(1)] have "e_budget e \<notin> b_id ` set (t_budgets db)" by auto
  then have "balance (t_ledger db) (e_budget e) = 0"
    using u entry_budget[of db] by (intro balance_foreign) metis
  moreover have "e_amount e = me_after ev" using u ev by simp
  moreover have t: "e_type e \<in> {''allocation'', ''adjustment'', ''correction''}" using u m by (simp add: entry_type_of_def)
  moreover have q: "t_requests (with_receipt db4 rc) = t_requests db" using done_appends(3)[OF d] m by simp
  ultimately show "bdb_inv (with_receipt db4 rc)" and "balance (t_ledger db @ [e]) (e_budget e) = me_after ev"
    and "b \<noteq> e_budget e \<Longrightarrow> balance (t_ledger db @ [e]) b = balance (t_ledger db) b"
    using append_plain[OF _ done_appends(1)[OF d] q t rel] u ev by simp_all
qed

lemma done_change:
  assumes d: "mutation_done m ps ev digest db db2 e db4 rc" and m: "m \<in> {Adjustment, Correction}"
  shows "bdb_inv (with_receipt db4 rc)" and "balance (t_ledger db @ [e]) (e_budget e) = me_after ev"
    and "b \<noteq> e_budget e \<Longrightarrow> balance (t_ledger db @ [e]) b = balance (t_ledger db) b"
proof -
  note u = d[unfolded mutation_done_def mutation_entry_def]
  obtain actor currency where be: "budget_evidence m ps actor currency (Some digest) db = Inr ev"
    using validated_cases[of ps digest db ev m] u m by (metis insertE mutation.distinct(1,9) singletonD)
  obtain bb amount after where ev: "me_budget ev = Some (PStr bb)" "me_amount ev = PInt amount" "me_after ev = after"
    and ch: "change_amounts m ps bb (available_minor bb db) db = Inr (amount, after)"
    using budget_evidence_facts[OF be] m by metis
  have after: "after = available_minor bb db + amount" "0 \<le> after" using ch by (auto simp: change_amounts_def result_simps)
  have rows: "mutation_rows m ps ev (snd (new_id db)) = Inr ((e_org e, e_budget e, e_actor e, e_related e, e_correction e), db2)"
    "m \<noteq> Bootstrap" using u m by auto
  have bb: "bb = e_budget e" using mutation_rows_facts(2)[OF rows] ev by simp
  have rel: "e_related e = None" using mutation_rows_facts(4)[OF rows] m by auto
  have am: "e_amount e = amount" using u ev by simp
  have t: "e_type e \<in> {''allocation'', ''adjustment'', ''correction''}" using u m by (auto simp: entry_type_of_def)
  have q: "t_requests (with_receipt db4 rc) = t_requests db" using done_appends(3)[OF d] m by auto
  show "bdb_inv (with_receipt db4 rc)" and "balance (t_ledger db @ [e]) (e_budget e) = me_after ev"
    and "b \<noteq> e_budget e \<Longrightarrow> balance (t_ledger db @ [e]) b = balance (t_ledger db) b"
    using append_plain[OF _ done_appends(1)[OF d] q t rel] u after am ev by (simp_all add: bb available_minor_def)
qed


text \<open>A purchase mutation acts on the request its parameters name, however they were padded.\<close>

lemma done_request:
  assumes d: "mutation_done m ps ev digest db db2 e db4 rc" and m: "m \<in> {Commitment, Settlement, Cancellation}"
  obtains actor r v k where "text_param ps ''actor'' = Inr actor" "e_actor e = actor"
    "r \<in> set (t_requests db)" "e_request e = Some (pr_id r)" "e_version e = PInt (pr_version r)" "pr_budget r = e_budget e"
    "v \<in> set (t_versions db)" "v_request v = pr_id r" "v_version v = pr_version r"
    "py_str (param ps ''request_id'') = pr_id r" "param ps ''request_version'' = PInt (pr_version r)" "0 < e_amount e"
    "pr_status r = (if m = Commitment then ''approved'' else ''committed'')"
    "t_requests db4 = List.map (\<lambda>x. if pr_id x = pr_id r \<and> pr_status x = (if m = Commitment then ''approved'' else ''committed'')
       then x\<lparr>pr_status := (case m of Commitment \<Rightarrow> ''committed'' | Settlement \<Rightarrow> ''settled'' | _ \<Rightarrow> ''cancelled''), pr_updated := k\<rparr> else x) (t_requests db)"
    "m = Commitment \<and> commit_amounts ps actor (Some digest) r v (e_amount e) (available_minor (e_budget e) db) db = Inr (e_amount e, me_after ev) \<or>
     m = Settlement \<and> settle_amounts r (pr_version r) (e_amount e) (available_minor (e_budget e) db) db = Inr (e_amount e, me_after ev) \<or>
     m = Cancellation \<and> cancel_amounts r (pr_version r) (e_amount e) (available_minor (e_budget e) db) db = Inr (e_amount e, me_after ev)"
proof -
  note u = d[unfolded mutation_done_def mutation_entry_def]
  obtain actor currency where ac: "text_param ps ''actor'' = Inr actor" and
    be: "budget_evidence m ps actor currency (Some digest) db = Inr ev"
    using validated_cases[of ps digest db ev m] u m by (metis insertE mutation.distinct(3,5,7) singletonD)
  obtain b amount after where ev: "me_budget ev = Some (PStr b)" "me_amount ev = PInt amount" "me_after ev = after"
    and ra: "request_amounts m ps actor (Some digest) b (available_minor b db) db = Inr (amount, after)"
    by (rule budget_evidence_facts[OF be]) (use m in \<open>simp split: if_splits, force+\<close>)
  obtain s n r v where rq: "param ps ''request_id'' = PStr s" "the_request (strip s) db = Inr r" "pr_budget r = b"
    "param ps ''request_version'' = PInt n" "pr_version r = n" "the_version (strip s) n db = Inr v" "0 < amount"
    and am: "m = Commitment \<and> commit_amounts ps actor (Some digest) r v amount (available_minor b db) db = Inr (amount, after) \<or>
     m = Settlement \<and> settle_amounts r n amount (available_minor b db) db = Inr (amount, after) \<or>
     m = Cancellation \<and> cancel_amounts r n amount (available_minor b db) db = Inr (amount, after)"
    using request_amounts_facts[OF ra] by metis
  have rows: "mutation_rows m ps ev (snd (new_id db)) = Inr ((e_org e, e_budget e, e_actor e, e_related e, e_correction e), db2)"
    "m \<noteq> Bootstrap" using u m by auto
  have db2: "db2 = snd (new_id db)" and bb: "b = e_budget e" and act: "e_actor e = actor"
    using mutation_rows_facts(1-3)[OF rows] ev ac by auto
  let ?old = "if m = Commitment then ''approved'' else ''committed''"
  let ?new = "case m of Commitment \<Rightarrow> ''committed'' | Settlement \<Rightarrow> ''settled'' | _ \<Rightarrow> ''cancelled''"
  have tr: "transition s ?old ?new (db2\<lparr>t_ledger := t_ledger db2 @ [e]\<rparr>) = Inr db4"
    using u m rq(1) by (auto simp: mutation_transition_def)
  obtain r0 where r0: "r0 \<in> set (t_requests db)" "pr_id r0 = s" "pr_status r0 = ?old"
    using transition_facts(2)[OF tr] by (auto simp: db2)
  have "strip s = s" using r0(1,2) u by (auto simp: bdb_inv_def rows_ok_def request_ok_def)
  then have r: "r \<in> set (t_requests db)" "pr_id r = s" using the_request_in[OF rq(2)] by simp_all
  then have "r0 = r" using request_unique[of db r0 r] u r0 by simp
  have v: "v \<in> set (t_versions db)" "v_request v = s" "v_version v = n"
    using rq(6) \<open>strip s = s\<close> by (auto simp: the_version_def result_simps dest: find_SomeD)
  have "bind_cell (PInt n) = Inr (e_version e)" using u rq(4) by simp
  then have ver: "e_version e = PInt n" by (simp split: if_splits)
  have amt: "e_amount e = amount" using u ev by simp
  show thesis
    by (rule that[of actor r v "bw_now db2"])
      (use ac act r rq ver bb v amt am ev r0(3) \<open>r0 = r\<close> transition_facts(1)[OF tr] u in \<open>simp_all add: db2\<close>)
qed

lemma done_commitment:
  assumes d: "mutation_done m ps ev digest db db2 e db4 rc" and m: "m = Commitment"
  shows "bdb_inv (with_receipt db4 rc)" and "balance (t_ledger db @ [e]) (e_budget e) = me_after ev"
    and "b \<noteq> e_budget e \<Longrightarrow> balance (t_ledger db @ [e]) b = balance (t_ledger db) b"
proof -
  note u = d[unfolded mutation_done_def mutation_entry_def]
  have m': "m \<in> {Commitment, Settlement, Cancellation}" using m by simp
  obtain actor r v k where x: "e_actor e = actor" "r \<in> set (t_requests db)" "e_request e = Some (pr_id r)"
    "e_version e = PInt (pr_version r)" "pr_budget r = e_budget e" "v \<in> set (t_versions db)" "v_request v = pr_id r"
    "v_version v = pr_version r" "pr_status r = ''approved''" and
    reqs: "t_requests db4 = List.map (\<lambda>x. if pr_id x = pr_id r \<and> pr_status x = ''approved''
       then x\<lparr>pr_status := ''committed'', pr_updated := k\<rparr> else x) (t_requests db)" and
    am: "commit_amounts ps actor (Some digest) r v (e_amount e) (available_minor (e_budget e) db) db = Inr (e_amount e, me_after ev)"
    by (rule done_request[OF d m']) (simp only: m mutation.case mutation.distinct simp_thms if_True)
  obtain dd where dd: "dd \<in> set (t_decisions db)" "approval_binds dd (pr_id r) (v_version v) actor (Some digest)"
    and amt: "e_amount e = v_amount v" "e_amount e \<le> available_minor (e_budget e) db"
      "me_after ev = available_minor (e_budget e) db - e_amount e"
    using am by (auto simp: commit_amounts_def result_simps dest: find_SomeD)
  have rows: "mutation_rows m ps ev (snd (new_id db)) = Inr ((e_org e, e_budget e, e_actor e, e_related e, e_correction e), db2)"
    "m \<noteq> Bootstrap" using u m by auto
  have rel: "e_related e = None" using mutation_rows_facts(4)[OF rows] m by auto
  note app = done_appends(1)[OF d]
  have q: "t_requests (with_receipt db4 rc) = List.map (\<lambda>x. if pr_id x = pr_id r \<and> pr_status x = ''approved''
       then x\<lparr>pr_status := ''committed'', pr_updated := k\<rparr> else x) (t_requests db)" using reqs by simp
  have same: "same_purchases db (with_receipt db4 rc)" unfolding same_purchases_def q
    by (rule exI, rule conjI, rule refl) simp
  have "commitment_ok db e" using x dd amt(1) u unfolding commitment_ok_def approval_binds_def
    by (auto intro!: bexI[of _ r] bexI[of _ v] bexI[of _ dd])
  then have cok: "commitment_ok (with_receipt db4 rc) e" by (rule append_commitment_ok[OF app same])
  have t: "e_type e = ''commitment''" using u m by (simp add: entry_type_of_def)
  show "bdb_inv (with_receipt db4 rc)" and "balance (t_ledger db @ [e]) (e_budget e) = me_after ev"
    and "b \<noteq> e_budget e \<Longrightarrow> balance (t_ledger db @ [e]) b = balance (t_ledger db) b"
    using append_commitment[OF _ app x(2,9,3,4) q t rel cok] u amt by (simp_all add: available_minor_def)
qed

lemma open_commitment_facts:
  "open_commitment k n db = Inr c \<Longrightarrow> c \<in> set (t_ledger db) \<and> open_for db k c"
  by (auto simp: open_commitment_def open_for_def result_simps dest: find_SomeD)

lemma commitment_budget:
  assumes "bdb_inv db" "c \<in> set (t_ledger db)" "open_for db (pr_id r) c" "r \<in> set (t_requests db)"
  shows "e_budget c = pr_budget r"
proof -
  have "entry_ok db c" using assms(1,2) by (simp add: bdb_inv_def rows_ok_def)
  then have "commitment_ok db c" using assms(3) by (simp add: entry_ok_def open_for_def)
  then obtain r' where "r' \<in> set (t_requests db)" "e_request c = Some (pr_id r')" "pr_budget r' = e_budget c"
    unfolding commitment_ok_def by blast
  moreover have "e_request c = Some (pr_id r)" using assms(3) by (simp add: open_for_def)
  ultimately show ?thesis using request_unique[OF assms(1,4)] by (metis option.inject)
qed

lemma done_terminal:
  assumes d: "mutation_done m ps ev digest db db2 e db4 rc" and m: "m \<in> {Settlement, Cancellation}"
  shows "bdb_inv (with_receipt db4 rc)" and "balance (t_ledger db @ [e]) (e_budget e) = me_after ev"
    and "b \<noteq> e_budget e \<Longrightarrow> balance (t_ledger db @ [e]) b = balance (t_ledger db) b"
proof -
  note u = d[unfolded mutation_done_def mutation_entry_def]
  have m': "m \<in> {Commitment, Settlement, Cancellation}" using m by auto
  let ?new = "case m of Settlement \<Rightarrow> ''settled'' | _ \<Rightarrow> ''cancelled''"
  have ms: "m \<noteq> Commitment" "(case m of Commitment \<Rightarrow> ''committed'' | Settlement \<Rightarrow> ''settled'' | _ \<Rightarrow> ''cancelled'') = ?new"
    using m by auto
  obtain r k where x: "r \<in> set (t_requests db)" "e_request e = Some (pr_id r)" "pr_budget r = e_budget e"
    "py_str (param ps ''request_id'') = pr_id r" "param ps ''request_version'' = PInt (pr_version r)" "0 < e_amount e"
    "pr_status r = ''committed''" and
    reqs: "t_requests db4 = List.map (\<lambda>x. if pr_id x = pr_id r \<and> pr_status x = ''committed''
       then x\<lparr>pr_status := ?new, pr_updated := k\<rparr> else x) (t_requests db)" and
    am: "m = Settlement \<and> settle_amounts r (pr_version r) (e_amount e) (available_minor (e_budget e) db) db = Inr (e_amount e, me_after ev) \<or>
     m = Cancellation \<and> cancel_amounts r (pr_version r) (e_amount e) (available_minor (e_budget e) db) db = Inr (e_amount e, me_after ev)"
    by (rule done_request[OF d m']) (simp only: ms simp_thms if_False)
  have rows: "mutation_rows m ps ev (snd (new_id db)) = Inr ((e_org e, e_budget e, e_actor e, e_related e, e_correction e), db2)"
    "m \<noteq> Bootstrap" using u m by auto
  obtain c where c: "open_commitment (pr_id r) (pr_version r) db = Inr c" and rel: "e_related e = Some (e_id c)"
    using mutation_rows_facts(5)[OF rows m] x(4,5) by (auto simp: open_commitment_def)
  note co = open_commitment_facts[OF c]
  have amt: "e_amount e \<le> e_amount c" "m = Cancellation \<Longrightarrow> e_amount e = e_amount c"
    "me_after ev = available_minor (e_budget e) db + (if m = Settlement then e_amount c - e_amount e else e_amount c)"
    using am c by (auto simp: settle_amounts_def cancel_amounts_def result_simps)
  have t: "e_type e = mutation_value m" using u m by (auto simp: entry_type_of_def)
  have bc: "e_budget c = e_budget e" using commitment_budget[of db c r] u co x by simp
  have q: "t_requests (with_receipt db4 rc) = List.map (\<lambda>x. if pr_id x = pr_id r \<and> pr_status x = ''committed''
       then x\<lparr>pr_status := ?new, pr_updated := k\<rparr> else x) (t_requests db)" using reqs by simp
  have n: "?new \<noteq> ''committed''" by (cases m) simp_all
  have e: "e_type e \<in> {''settlement'', ''cancellation''}" "e_type e = ''cancellation'' \<Longrightarrow> e_amount e = e_amount c"
    using t m amt(2) by auto
  show "bdb_inv (with_receipt db4 rc)" and "balance (t_ledger db @ [e]) (e_budget e) = me_after ev"
    and "b \<noteq> e_budget e \<Longrightarrow> balance (t_ledger db @ [e]) b = balance (t_ledger db) b"
    using append_terminal[OF _ done_appends(1)[OF d] x(1,7) q n _ _ bc e(1) rel amt(1) e(2)] u co amt x(6) t m
    by (auto simp: available_minor_def)
qed


lemma done_inv:
  assumes d: "mutation_done m ps ev digest db db2 e db4 rc"
  shows "bdb_inv (with_receipt db4 rc)" and "balance (t_ledger db @ [e]) (e_budget e) = me_after ev"
    and "b \<noteq> e_budget e \<Longrightarrow> balance (t_ledger db @ [e]) b = balance (t_ledger db) b"
proof -
  consider "m = Bootstrap" | "m \<in> {Adjustment, Correction}" | "m = Commitment" | "m \<in> {Settlement, Cancellation}"
    by (cases m) auto
  then show "bdb_inv (with_receipt db4 rc)" "balance (t_ledger db @ [e]) (e_budget e) = me_after ev"
    "b \<noteq> e_budget e \<Longrightarrow> balance (t_ledger db @ [e]) b = balance (t_ledger db) b"
    using done_bootstrap[OF d] done_change[OF d] done_commitment[OF d] done_terminal[OF d] by (cases, blast+)+
qed

section \<open>The outcomes of apply\_mutation\<close>

text \<open>Either an error and the database as it was, or the receipt already kept, or one new row.\<close>

lemma apply_mutation_cases:
  assumes "apply_mutation ps digest x db = (res, db')"
  obtains err where "res = Inl err" "db' = db"
  | r t where "res = Inr r" "db' = db" "receipt_by_digest digest db = Some r"
      "content_json ps = Inr t" "rc_content r = bw_sha db t" "text_param ps ''idempotency_key'' = Inr (rc_key r)"
  | r key t m ev where "res = Inr r" "receipt_by_digest digest db = None" "receipt_by_key key db = None"
      "text_param ps ''idempotency_key'' = Inr key" "content_json ps = Inr t"
      "validate_mutation ps (Some digest) db = Inr ev" "me_mutation ev = mutation_value m"
      "apply_validated m ps ev key digest (bw_sha db t) t x db = Inr (r, db')"
proof (cases res)
  case (Inl err)
  then have "db' = db" using assms unfolding apply_mutation_def transaction_def
    by (auto split: sum.splits prod.splits)
  then show thesis using that(1) Inl by blast
next
  case (Inr r)
  obtain key t where k: "text_param ps ''idempotency_key'' = Inr key" "content_json ps = Inr t"
    using assms Inr unfolding apply_mutation_def
    by (auto simp: and_then_eq_Inr and_then_eq_Inl split: sum.splits prod.splits) 
  show thesis
  proof (cases "receipt_by_digest digest db")
    case None
    obtain ev m where "receipt_by_key key db = None" "validate_mutation ps (Some digest) db = Inr ev"
      "mutation_param [(''mutation_type'', PStr (me_mutation ev))] = Inr m"
      "apply_validated m ps ev key digest (bw_sha db t) t x db = Inr (r, db')"
      using assms Inr k None unfolding apply_mutation_def transaction_def Let_def
      by (auto simp: and_then_eq_Inr ensure_eq_Inr split: sum.splits prod.splits)
    moreover have "me_mutation ev = mutation_value m" if "mutation_param [(''mutation_type'', PStr (me_mutation ev))] = Inr m"
      using that unfolding mutation_param_def require_some_eq_Inr by - (drule find_SomeD, simp add: param_def)
    ultimately show thesis using that(3) Inr None k by blast
  next
    case (Some r')
    then show thesis using assms Inr k that(2) unfolding apply_mutation_def transaction_def Let_def
      by (auto split: if_splits)
  qed
qed

lemma receipt_none: "receipt_by_digest d db = None \<longleftrightarrow> d \<notin> rc_digest ` set (t_receipts db)"
  "receipt_by_key k db = None \<longleftrightarrow> k \<notin> rc_key ` set (t_receipts db)"
  by (auto simp: receipt_by_digest_def receipt_by_key_def find_None)

lemma apply_validated_done:
  assumes inv: "bdb_inv db" and "validate_mutation ps (Some digest) db = Inr ev" "me_mutation ev = mutation_value m"
    and "receipt_by_digest digest db = None" "receipt_by_key key db = None"
    and app: "apply_validated m ps ev key digest cdigest text x db = Inr (rc, db')"
  obtains e db2 db4 where "mutation_done m ps ev digest db db2 e db4 rc" "db' = with_receipt db4 rc"
    "rc_key rc = key" "rc_content rc = cdigest" "rc_execution rc = x" "rc_available rc = me_after ev" "rc_mutation rc = mutation_value m"
proof -
  obtain e db2 db4 where s: "mutation_entry m ps ev digest db db2 e" "insert_entry e db2 = Inr (db2\<lparr>t_ledger := t_ledger db2 @ [e]\<rparr>)"
    "mutation_transition m ps (db2\<lparr>t_ledger := t_ledger db2 @ [e]\<rparr>) = Inr db4"
    "insert_receipt rc db4 = Inr db'"
    "rc_digest rc = digest" "rc_key rc = key" "rc_content rc = cdigest"
    "rc_entry rc = e_id e" "rc_execution rc = x" "e_execution e = x" "rc_currency rc = e_currency e"
    "rc_available rc = me_after ev" "rc_mutation rc = mutation_value m"
    by (rule apply_validated_steps[OF app])
  have "mutation_done m ps ev digest db db2 e db4 rc"
    using assms s by (simp add: mutation_done_def receipt_none)
  moreover have "db' = with_receipt db4 rc" using insert_receipt_facts[OF s(4)] by simp
  ultimately show thesis using that s by blast
qed

lemma apply_mutation_inv:
  assumes inv: "bdb_inv db"
  shows "bdb_inv (snd (apply_mutation ps digest x db))"
proof -
  obtain res db' where o: "apply_mutation ps digest x db = (res, db')" by fastforce
  show ?thesis
  proof (rule apply_mutation_cases[OF o])
    fix r key t m ev
    assume n: "receipt_by_digest digest db = None" "receipt_by_key key db = None"
      "validate_mutation ps (Some digest) db = Inr ev" "me_mutation ev = mutation_value m"
      "apply_validated m ps ev key digest (bw_sha db t) t x db = Inr (r, db')"
    obtain e db2 db4 where "mutation_done m ps ev digest db db2 e db4 r" "db' = with_receipt db4 r"
      by (rule apply_validated_done[OF inv n(3,4,1,2,5)])
    then show ?thesis using done_inv(1) o by simp
  qed (use inv o in simp_all)
qed

end
