(* ===== verification/Budget_History.thy ===== *)
theory Budget_History
  imports Ledger_Mutation
begin

text \<open>
  Histories of the Budget Control database as a step relation, the invariant in every reachable
  state, and what one step may change: ledger, receipts, decisions and versions only grow, and a
  purchase request moves along the edges of its status machine.
\<close>

section \<open>Histories of the database\<close>

text \<open>
  One step is one operation of the repository, successful or not, or a change of clock or date.
  A history starts with empty tables.
\<close>

inductive bdb_step :: "bdb \<Rightarrow> bdb \<Rightarrow> bool" where
  create: "bdb_step db (snd (create_request actor b amount cur purpose reference db))"
| version: "bdb_step db (snd (add_request_version actor k amount cur purpose reference db))"
| submit: "bdb_step db (snd (submit_request actor k db))"
| decide: "bdb_step db (snd (save_decision i actor k dec why digest action evidence db))"
| mutate: "bdb_step db (snd (apply_mutation ps digest x db))"
| verify: "bdb_step db (snd (record_verification x digest status why expected observed e db))"
| tick: "bdb_step db (db\<lparr>bw_now := t, bw_today := d\<rparr>)"

inductive_cases bdb_stepE: "bdb_step db db'"

definition empty_bdb :: "bdb \<Rightarrow> bool" where
  "empty_bdb db \<longleftrightarrow> t_orgs db = [] \<and> t_budgets db = [] \<and> t_roles db = [] \<and> t_requests db = [] \<and> t_versions db = [] \<and>
     t_decisions db = [] \<and> t_ledger db = [] \<and> t_receipts db = [] \<and> t_verifs db = [] \<and> supply_text db"

inductive bdb_reachable :: "bdb \<Rightarrow> bool" where
  start: "empty_bdb db \<Longrightarrow> bdb_reachable db"
| step: "bdb_reachable db \<Longrightarrow> bdb_step db db' \<Longrightarrow> bdb_reachable db'"

lemma empty_inv: "empty_bdb db \<Longrightarrow> bdb_inv db"
  by (auto simp: empty_bdb_def bdb_defs refs_ok_def one_terminal_def balance_def)

lemma tick_inv: "bdb_inv db \<Longrightarrow> bdb_inv (db\<lparr>bw_now := t, bw_today := d\<rparr>)"
  by (rule quiet_change) (auto simp: bdb_defs intro: keeps_request_refl)

lemma bdb_step_inv: "bdb_step db db' \<Longrightarrow> bdb_inv db \<Longrightarrow> bdb_inv db'"
  by (induction rule: bdb_step.induct)
    (simp_all add: create_request_inv add_request_version_inv submit_request_inv save_decision_inv apply_mutation_inv
      record_verification_inv tick_inv)

lemma reachable_bdb_inv: "bdb_reachable db \<Longrightarrow> bdb_inv db"
  by (induction rule: bdb_reachable.induct) (auto intro: empty_inv bdb_step_inv)

lemma steps_inv: "bdb_step\<^sup>*\<^sup>* db db' \<Longrightarrow> bdb_inv db \<Longrightarrow> bdb_inv db'"
  by (induction rule: rtranclp_induct) (auto intro: bdb_step_inv)

section \<open>What a step may change\<close>

inductive request_move :: "string \<Rightarrow> string \<Rightarrow> bool" where
  stay: "request_move s s"
| revise: "s \<in> {''draft'', ''submitted'', ''approved'', ''rejected''} \<Longrightarrow> request_move s ''draft''"
| submit: "request_move ''draft'' ''submitted''"
| judge: "s \<in> {''approved'', ''rejected''} \<Longrightarrow> request_move ''submitted'' s"
| commit: "request_move ''approved'' ''committed''"
| settle: "s \<in> {''settled'', ''cancelled''} \<Longrightarrow> request_move ''committed'' s"

definition purchase_next :: "purchase \<Rightarrow> purchase \<Rightarrow> bool" where
  "purchase_next r r' \<longleftrightarrow> pr_id r' = pr_id r \<and> pr_budget r' = pr_budget r \<and> pr_requester r' = pr_requester r \<and>
     request_move (pr_status r) (pr_status r') \<and>
     (pr_version r' = pr_version r \<and> (pr_status r' = ''draft'' \<longrightarrow> pr_status r = ''draft'') \<or>
      pr_version r' = pr_version r + 1 \<and> pr_status r' = ''draft'')"

definition statuses_ok :: "bdb \<Rightarrow> bool" where
  "statuses_ok db \<longleftrightarrow> (\<forall>r\<in>set (t_requests db). pr_status r \<in> set request_statuses)"

definition moves :: "bdb \<Rightarrow> bdb \<Rightarrow> bool" where
  "moves db db' \<longleftrightarrow> prefix (t_ledger db) (t_ledger db') \<and> prefix (t_receipts db) (t_receipts db') \<and>
     prefix (t_decisions db) (t_decisions db') \<and> prefix (t_versions db) (t_versions db') \<and> bw_sha db' = bw_sha db \<and>
     (\<exists>f new. t_requests db' = List.map f (t_requests db) @ new \<and> (\<forall>r\<in>set (t_requests db). purchase_next r (f r)) \<and>
        (\<forall>r\<in>set new. pr_status r = ''draft''))"

lemma moves_refl [simp]: "moves db db"
  by (auto simp: moves_def purchase_next_def intro!: exI[of _ id] request_move.stay)

lemma transaction_moves:
  assumes "\<And>x db'. f db = Inr (x, db') \<Longrightarrow> moves db db'"
  shows "moves db (snd (transaction f db))"
  using assms by (auto simp: transaction_def split: sum.splits prod.splits)

lemma moves_update:
  assumes "bdb_inv db" and "the_request k db = Inr r" and "purchase_next r (f r)"
    and "t_requests db1 = t_requests db" "t_ledger db1 = t_ledger db" "t_receipts db1 = t_receipts db"
      "prefix (t_decisions db) (t_decisions db1)" "prefix (t_versions db) (t_versions db1)" "bw_sha db1 = bw_sha db"
  shows "moves db (update_request k f db1)"
  unfolding moves_def
proof (intro conjI exI)
  show "t_requests (update_request k f db1) = List.map (\<lambda>r. if pr_id r = k then f r else r) (t_requests db) @ []"
    using assms(4) by simp
  show "\<forall>x\<in>set (t_requests db). purchase_next x (if pr_id x = k then f x else x)"
    using the_request_is[OF assms(1,2)] assms(3) by (auto simp: purchase_next_def intro: request_move.stay)
qed (use assms in \<open>simp_all add: update_request_def\<close>)

lemma quiet_moves:
  "t_requests db' = t_requests db \<Longrightarrow> t_ledger db' = t_ledger db \<Longrightarrow> t_receipts db' = t_receipts db \<Longrightarrow>
   t_decisions db' = t_decisions db \<Longrightarrow> t_versions db' = t_versions db \<Longrightarrow> bw_sha db' = bw_sha db \<Longrightarrow> moves db db'"
  unfolding moves_def
  by (intro conjI exI[of _ id] exI[of _ "[]"]) (simp_all add: purchase_next_def request_move.stay)

lemma submit_moves: "bdb_inv db \<Longrightarrow> moves db (snd (submit_request actor k db))"
  unfolding submit_request_def
  by (auto simp: result_simps purchase_next_def intro!: transaction_moves moves_update request_move.submit)

lemma decide_moves: "bdb_inv db \<Longrightarrow> moves db (snd (save_decision i actor k dec why digest action evidence db))"
  unfolding save_decision_def
  by (auto simp: result_simps purchase_next_def dest!: insert_decision_facts intro!: transaction_moves moves_update request_move.judge)

lemma version_moves:
  assumes "bdb_inv db" "statuses_ok db"
  shows "moves db (snd (add_request_version actor k amount cur purpose reference db))"
proof -
  have "purchase_next r (r\<lparr>pr_version := pr_version r + 1, pr_status := ''draft'', pr_updated := t\<rparr>)"
    if "the_request k db = Inr r" "pr_status r \<notin> {''committed'', ''settled'', ''cancelled''}" for r t
    using that the_request_in[OF that(1)] assms(2)
    by (auto simp: purchase_next_def statuses_ok_def request_statuses_def intro!: request_move.revise)
  then show ?thesis unfolding add_request_version_def using assms(1)
    by (auto simp: result_simps Let_def dest!: insert_version_facts intro!: transaction_moves moves_update)
qed

lemma create_moves: "moves db (snd (create_request actor b amount cur purpose reference db))"
proof -
  have "moves db db'" if r: "insert_request r (snd (new_id db)) = Inr db1" "pr_status r = ''draft''"
    and v: "insert_version v db1 = Inr db'" for r v db1 db'
  proof -
    have db1: "db1 = (snd (new_id db))\<lparr>t_requests := t_requests db @ [r]\<rparr>"
      using r(1) by (auto simp: insert_request_def result_simps)
    show ?thesis unfolding moves_def insert_version_facts[OF v] db1
      by (intro conjI exI[of _ id] exI[of _ "[r]"]) (simp_all add: purchase_next_def request_move.stay r(2) new_id_def)
  qed
  then show ?thesis unfolding create_request_def
    by (auto simp: result_simps Let_def case_prod_beta intro!: transaction_moves)
qed

lemma verification_moves: "moves db (snd (record_verification x digest status why expected observed e db))"
  unfolding record_verification_def insert_verification_def
  by (auto simp: result_simps Let_def new_id_def intro!: transaction_moves quiet_moves)

lemma done_moves:
  assumes d: "mutation_done m ps ev digest db db2 e db4 rc" and sha: "bw_sha db4 = bw_sha db"
  shows "moves db (with_receipt db4 rc)"
proof -
  note a = done_appends(1)[OF d, unfolded appends_def]
  have "\<exists>f. t_requests db4 = List.map f (t_requests db) \<and> (\<forall>r\<in>set (t_requests db). purchase_next r (f r))"
  proof (cases "m \<in> {Commitment, Settlement, Cancellation}")
    case True
    show ?thesis
    proof (rule done_request[OF d True])
      fix r k
      assume q: "t_requests db4 = List.map (\<lambda>x. if pr_id x = pr_id r \<and> pr_status x = (if m = Commitment then ''approved'' else ''committed'')
       then x\<lparr>pr_status := (case m of Commitment \<Rightarrow> ''committed'' | Settlement \<Rightarrow> ''settled'' | _ \<Rightarrow> ''cancelled''), pr_updated := k\<rparr> else x) (t_requests db)"
      show ?thesis
        by (rule exI, rule conjI, rule q) (use True in \<open>auto simp: purchase_next_def intro: request_move.intros\<close>)
    qed
  next
    case False
    then show ?thesis using done_appends(3)[OF d]
      by (intro exI[of _ id]) (simp add: purchase_next_def request_move.stay)
  qed
  then obtain f where "t_requests db4 = List.map f (t_requests db)" "\<forall>r\<in>set (t_requests db). purchase_next r (f r)" by blast
  then show ?thesis using a sha unfolding moves_def
    by (intro conjI exI[of _ f] exI[of _ "[]"]) simp_all
qed


lemma rows_sha: "mutation_rows m ps ev db = Inr (rows, db2) \<Longrightarrow> bw_sha db2 = bw_sha db \<and> bw_now db2 = bw_now db"
  unfolding mutation_rows_def bootstrap_rows_def bootstrap_roles_def insert_organization_def insert_budget_def insert_role_def
  by (auto simp: result_simps Let_def case_prod_beta new_id_def split: if_splits option.splits pyval.splits)

lemma transition_keeps: "transition k a b db = Inr db' \<Longrightarrow> bw_sha db' = bw_sha db \<and> bw_now db' = bw_now db"
  by (auto simp: transition_def split: if_splits)

lemma done_sha:
  assumes d: "mutation_done m ps ev digest db db2 e db4 rc"
  shows "bw_sha db4 = bw_sha db"
proof -
  have "mutation_rows m ps ev (snd (new_id db)) = Inr ((e_org e, e_budget e, e_actor e, e_related e, e_correction e), db2)"
    and t: "mutation_transition m ps (db2\<lparr>t_ledger := t_ledger db2 @ [e]\<rparr>) = Inr db4"
    using d by (simp_all add: mutation_done_def mutation_entry_def)
  from rows_sha[OF this(1)] have "bw_sha db2 = bw_sha db" by (simp add: new_id_def)
  moreover have "bw_sha db4 = bw_sha db2"
    using t by (auto simp: mutation_transition_def Let_def dest: transition_keeps split: if_splits)
  ultimately show ?thesis by simp
qed

lemma mutate_moves:
  assumes inv: "bdb_inv db"
  shows "moves db (snd (apply_mutation ps digest x db))"
proof -
  obtain res db' where o: "apply_mutation ps digest x db = (res, db')" by fastforce
  show ?thesis
  proof (rule apply_mutation_cases[OF o])
    fix r key t m ev
    assume n: "receipt_by_digest digest db = None" "receipt_by_key key db = None"
      "validate_mutation ps (Some digest) db = Inr ev" "me_mutation ev = mutation_value m"
      "apply_validated m ps ev key digest (bw_sha db t) t x db = Inr (r, db')"
    obtain e db2 db4 where "mutation_done m ps ev digest db db2 e db4 r" "db' = with_receipt db4 r"
      by (rule apply_validated_done[OF inv n(3,4,1,2,5)])
    then show ?thesis using done_moves done_sha o by simp
  qed (use o in simp_all)
qed

lemma step_moves: "bdb_step db db' \<Longrightarrow> bdb_inv db \<Longrightarrow> statuses_ok db \<Longrightarrow> moves db db'"
  by (induction rule: bdb_step.induct)
    (simp_all add: create_moves version_moves submit_moves decide_moves mutate_moves verification_moves quiet_moves)

lemma draft_status: "''draft'' \<in> set request_statuses"
  by (simp add: request_statuses_def)

lemma move_status: "request_move s s' \<Longrightarrow> s \<in> set request_statuses \<Longrightarrow> s' \<in> set request_statuses"
  by (induction rule: request_move.induct) (auto simp: request_statuses_def)

lemma moves_statuses:
  assumes "moves db db'" and "statuses_ok db"
  shows "statuses_ok db'"
proof -
  obtain f new where f: "t_requests db' = List.map f (t_requests db) @ new"
    "\<forall>r\<in>set (t_requests db). purchase_next r (f r)" "\<forall>r\<in>set new. pr_status r = ''draft''"
    using assms(1) by (auto simp: moves_def)
  have "pr_status (f r) \<in> set request_statuses" if "r \<in> set (t_requests db)" for r
    using f(2) assms(2) that move_status[of "pr_status r" "pr_status (f r)"] by (simp add: purchase_next_def statuses_ok_def)
  then show ?thesis using f draft_status by (auto simp: statuses_ok_def)
qed

lemma reachable_statuses: "bdb_reachable db \<Longrightarrow> statuses_ok db"
proof (induction rule: bdb_reachable.induct)
  case (start db)
  then show ?case by (simp add: empty_bdb_def statuses_ok_def)
next
  case (step db db')
  then show ?case using step_moves reachable_bdb_inv moves_statuses by blast
qed

definition grows :: "bdb \<Rightarrow> bdb \<Rightarrow> bool" where
  "grows db db' \<longleftrightarrow> prefix (t_ledger db) (t_ledger db') \<and> prefix (t_receipts db) (t_receipts db') \<and>
     prefix (t_decisions db) (t_decisions db') \<and> prefix (t_versions db) (t_versions db') \<and> bw_sha db' = bw_sha db"

lemma moves_grows: "moves db db' \<Longrightarrow> grows db db'"
  by (simp add: moves_def grows_def)

lemma steps_grow: "bdb_step\<^sup>*\<^sup>* db db' \<Longrightarrow> bdb_reachable db \<Longrightarrow> bdb_reachable db' \<and> grows db db'"
proof (induction rule: rtranclp_induct)
  case base
  then show ?case by (simp add: grows_def)
next
  case (step y z)
  then have r: "bdb_reachable y" "grows db y" by simp_all
  then have "grows y z" using step.hyps(2) step_moves reachable_bdb_inv reachable_statuses moves_grows by blast
  then have "grows db z" using r(2) unfolding grows_def by (metis prefix_order.order_trans)
  then show ?case using r(1) step.hyps(2) bdb_reachable.step by blast
qed

lemma receipt_found:
  assumes "bdb_inv db" and "rc \<in> set (t_receipts db)"
  shows "receipt_by_digest (rc_digest rc) db = Some rc" and "receipt_by_key (rc_key rc) db = Some rc"
  using assms by (auto simp: receipt_by_digest_def receipt_by_key_def bdb_defs intro!: find_unique)

lemma replay_receipt:
  assumes "bdb_inv db" and "rc \<in> set (t_receipts db)" and "content_json ps = Inr t" and "rc_content rc = bw_sha db t"
    and "text_param ps ''idempotency_key'' = Inr (rc_key rc)"
  shows "apply_mutation ps (rc_digest rc) x db = (Inr rc, db)"
  using assms receipt_found(1)[OF assms(1,2)] by (simp add: apply_mutation_def transaction_def)

lemma mutation_success:
  assumes inv: "bdb_inv db" and o: "apply_mutation ps digest x db = (Inr rc, db')"
  obtains t where "rc \<in> set (t_receipts db')" "rc_digest rc = digest" "content_json ps = Inr t" "rc_content rc = bw_sha db' t"
    "text_param ps ''idempotency_key'' = Inr (rc_key rc)"
proof (rule apply_mutation_cases[OF o])
  fix r t
  assume "Inr rc = (Inr r :: berror + receipt)" "db' = db" "receipt_by_digest digest db = Some r" "content_json ps = Inr t"
    "rc_content r = bw_sha db t" "text_param ps ''idempotency_key'' = Inr (rc_key r)"
  then show thesis using that by (auto simp: receipt_by_digest_def dest: find_SomeD)
next
  fix r key t m ev
  assume n: "receipt_by_digest digest db = None" "receipt_by_key key db = None"
    "validate_mutation ps (Some digest) db = Inr ev" "me_mutation ev = mutation_value m"
    "apply_validated m ps ev key digest (bw_sha db t) t x db = Inr (r, db')"
    and j: "Inr rc = (Inr r :: berror + receipt)" "text_param ps ''idempotency_key'' = Inr key" "content_json ps = Inr t"
  obtain e db2 db4 where d: "mutation_done m ps ev digest db db2 e db4 r" "db' = with_receipt db4 r"
      "rc_key r = key" "rc_content r = bw_sha db t"
    by (rule apply_validated_done[OF inv n(3,4,1,2,5)])
  then show thesis using that j done_sha[OF d(1)] by (simp add: mutation_done_def)
qed simp

section \<open>The effect of one row on the account of its budget\<close>

text \<open>What a settlement or cancellation releases, and the change of the available balance.\<close>

definition released :: "entry list \<Rightarrow> entry \<Rightarrow> int" where
  "released es e = (case e_related e of None \<Rightarrow> 0
     | Some k \<Rightarrow> (case find (\<lambda>c. e_id c = k) es of None \<Rightarrow> 0 | Some c \<Rightarrow> e_amount c))"

definition account_effect :: "entry list \<Rightarrow> entry \<Rightarrow> int" where
  "account_effect es e =
     (if e_type e \<in> {''allocation'', ''adjustment'', ''correction''} then e_amount e
      else if e_type e = ''commitment'' then - e_amount e
      else if e_type e = ''settlement'' then released es e - e_amount e
      else released es e)"

lemma balance_effect:
  assumes inv: "bdb_inv db'" and l: "t_ledger db' = es @ [e]" and r: "refs_ok es" "one_terminal es"
    and rel: "e_related e = None \<or> (\<exists>c\<in>set es. e_related e = Some (e_id c) \<and> e_type c = ''commitment'' \<and> e_budget c = e_budget e \<and> \<not> is_closed es c)"
    and new: "e_id e \<notin> e_id ` set es" and known: "e_type e \<in> set entry_types"
  shows "balance (es @ [e]) (e_budget e) = balance es (e_budget e) + account_effect es e"
proof -
  have ok: "entry_ok db' e" using inv l by (simp add: bdb_inv_def rows_ok_def)
  show ?thesis
  proof (cases "e_type e \<in> set terminal_types")
    case True
    then obtain c where c: "c \<in> set es" "e_related e = Some (e_id c)" "e_type c = ''commitment''" "e_budget c = e_budget e" "\<not> is_closed es c"
      using ok rel by (auto simp: entry_ok_def terminal_ok_def)
    have "find (\<lambda>x. e_id x = e_id c) es = Some c" using r(1) c(1) by (intro find_unique) (simp add: refs_ok_def)
    then have "released es e = e_amount c" by (simp add: released_def c(2))
    then show ?thesis using balance_closing[OF r(1) new c(2) True c(1,3,5), of "e_budget e"] True c(4)
      by (auto simp: account_effect_def flow_def terminal_types_def)
  next
    case False
    then have "e_related e = None" using ok by (simp add: entry_ok_def)
    then show ?thesis using balance_plain[OF r(1) new, of "e_budget e"] False known
      by (auto simp: account_effect_def flow_def terminal_types_def entry_types_def)
  qed
qed

lemma related_open:
  assumes inv: "bdb_inv db" and inv': "bdb_inv db'" and l: "t_ledger db' = t_ledger db @ [e]" and new: "e_id e \<notin> e_id ` set (t_ledger db)"
  shows "e_related e = None \<or> (\<exists>c\<in>set (t_ledger db). e_related e = Some (e_id c) \<and> e_type c = ''commitment'' \<and>
     e_budget c = e_budget e \<and> \<not> is_closed (t_ledger db) c)"
proof (cases "e_type e \<in> set terminal_types")
  case True
  have ok: "entry_ok db' e" using inv' l by (simp add: bdb_inv_def rows_ok_def)
  then obtain c where c: "c \<in> set (t_ledger db')" "e_related e = Some (e_id c)" "e_type c = ''commitment''" "e_budget c = e_budget e"
    using True by (auto simp: entry_ok_def terminal_ok_def)
  have "c \<noteq> e" using c(3) True by (auto simp: terminal_types_def)
  then have c': "c \<in> set (t_ledger db)" using c(1) l by simp
  have "\<not> is_closed (t_ledger db) c"
  proof
    assume "is_closed (t_ledger db) c"
    then obtain t where "t \<in> set (t_ledger db)" "e_related t = Some (e_id c)"
      by (auto simp: is_closed_def closed_by_def list_ex_iff)
    moreover have "one_terminal (t_ledger db')" using inv' by (simp add: bdb_inv_def keys_ok_def)
    ultimately have "t = e" using c(2) l unfolding one_terminal_def by (metis Un_iff list.set_intros(1) option.discI set_append)
    then show False using \<open>t \<in> set (t_ledger db)\<close> new by blast
  qed
  then show ?thesis using c c' by blast
next
  case False
  then show ?thesis using inv' l by (simp add: bdb_inv_def rows_ok_def entry_ok_def)
qed

lemma entry_type_of_ok: "entry_type_of m \<in> set entry_types"
  by (cases m) (simp_all add: entry_type_of_def entry_types_def)

lemma new_receipt_effect:
  assumes inv: "bdb_inv db" and o: "apply_mutation ps digest x db = (Inr rc, db')" and n: "receipt_by_digest digest db = None"
  obtains e where "t_ledger db' = t_ledger db @ [e]" "t_receipts db' = t_receipts db @ [rc]" "rc_entry rc = e_id e"
    "e_digest e = digest" "e_execution e = x"
    "available_minor (e_budget e) db' = available_minor (e_budget e) db + account_effect (t_ledger db) e"
    "rc_available rc = available_minor (e_budget e) db'"
    "\<And>b. b \<noteq> e_budget e \<Longrightarrow> available_minor b db' = available_minor b db"
proof (rule apply_mutation_cases[OF o])
  fix r key t m ev
  assume k: "receipt_by_digest digest db = None" "receipt_by_key key db = None"
    "validate_mutation ps (Some digest) db = Inr ev" "me_mutation ev = mutation_value m"
    "apply_validated m ps ev key digest (bw_sha db t) t x db = Inr (r, db')" and j: "Inr rc = (Inr r :: berror + receipt)"
  have r: "r = rc" using j by simp
  obtain e db2 db4 where d: "mutation_done m ps ev digest db db2 e db4 r" "db' = with_receipt db4 r"
      "rc_available r = me_after ev" "rc_execution r = x"
    by (rule apply_validated_done[OF inv k(3,4,1,2,5)])
  note a = done_appends(1)[OF d(1), unfolded appends_def]
  have l: "t_ledger db' = t_ledger db @ [e]" using a d(2) by simp
  have inv': "bdb_inv db'" using done_inv(1)[OF d(1)] d(2) by simp
  have new: "e_id e \<notin> e_id ` set (t_ledger db)" using a by simp
  have known: "e_type e \<in> set entry_types" using d(1) entry_type_of_ok by (simp add: mutation_done_def mutation_entry_def)
  have refs: "refs_ok (t_ledger db)" "one_terminal (t_ledger db)" using inv by (simp_all add: bdb_inv_def keys_ok_def)
  have "t_receipts db' = t_receipts db @ [rc]" using a d(2) r by simp
  moreover have "rc_entry rc = e_id e" "e_execution e = x" "e_digest e = digest"
    using d r by (simp_all add: mutation_done_def mutation_entry_def)
  moreover have "available_minor (e_budget e) db' = available_minor (e_budget e) db + account_effect (t_ledger db) e"
    using balance_effect[OF inv' l refs related_open[OF inv inv' l new] new known] l by (simp add: available_minor_def)
  moreover have "rc_available rc = available_minor (e_budget e) db'"
    using done_inv(2)[OF d(1)] d(3) r l by (simp add: available_minor_def)
  moreover have "available_minor b db' = available_minor b db" if "b \<noteq> e_budget e" for b
    using done_inv(3)[OF d(1) that] l by (simp add: available_minor_def)
  ultimately show thesis using that l by blast
qed (use n in simp_all)

end
