(* ===== verification/Budget_Errors.thy ===== *)
theory Budget_Errors
  imports Budget_History
begin

text \<open>
  Which errors the operations of the repository raise: only the comparison of balances at the end
  of \<open>apply_mutation\<close> can raise \<open>invariant_failure\<close>, and under the invariant it never does; a
  failed operation on a request leaves the database as it was.
\<close>

text \<open>No validation or insertion raises \<open>invariant_failure\<close> itself.\<close>

named_theorems other_errors "steps that never raise invariant_failure"

abbreviation never_invariant :: "berror + 'a \<Rightarrow> bool" where
  "never_invariant r \<equiv> r \<noteq> Inl (Domain ''invariant_failure'')"

lemma never_then [other_errors]:
  "never_invariant r \<Longrightarrow> (\<And>x. r = Inr x \<Longrightarrow> never_invariant (f x)) \<Longrightarrow> never_invariant (and_then r f)"
  by (cases r) auto

lemma never_basic [other_errors]:
  "never_invariant (Inr x)" "e \<noteq> Domain ''invariant_failure'' \<Longrightarrow> never_invariant (Inl e)"
  "e \<noteq> Domain ''invariant_failure'' \<Longrightarrow> never_invariant (ensure b e)"
  "e \<noteq> Domain ''invariant_failure'' \<Longrightarrow> never_invariant (require_some y e)"
  "never_invariant (check w b)" "never_invariant (fits i)"
  "never_invariant z \<Longrightarrow> never_invariant (map_sum id h z)"
  by (auto simp: ensure_def require_some_def check_def fits_def split: option.splits) (cases z, auto)

lemma never_control [other_errors]:
  "(b \<Longrightarrow> never_invariant r) \<Longrightarrow> (\<not> b \<Longrightarrow> never_invariant s) \<Longrightarrow> never_invariant (if b then r else s)"
  "never_invariant r \<Longrightarrow> (\<And>x. y = Some x \<Longrightarrow> never_invariant (f x)) \<Longrightarrow> never_invariant (case y of None \<Rightarrow> r | Some x \<Rightarrow> f x)"
  "(\<And>a b. p = (a, b) \<Longrightarrow> never_invariant (g a b)) \<Longrightarrow> never_invariant (case p of (a, b) \<Rightarrow> g a b)"
  "never_invariant (h z) \<Longrightarrow> never_invariant (Let z h)"
  by (auto split: option.split prod.split)

lemma never_params [other_errors]:
  "never_invariant (text_param ps k)" "never_invariant (positive_param ps k)" "never_invariant (int_param ps k)"
  "never_invariant (currency_param ps)" "never_invariant (mutation_param ps)" "never_invariant (content_json ps)"
  "never_invariant (content_digest sha ps)" "never_invariant (bind_text v)" "never_invariant (bind_cell v)" "never_invariant (py_int v)"
  "never_invariant (the_amount v)"
  subgoal by (auto simp: text_param_def split: pyval.splits)
  subgoal by (auto simp: positive_param_def int_param_def split: pyval.splits)
  subgoal by (auto simp: int_param_def split: pyval.splits)
  subgoal by (auto simp: currency_param_def split: pyval.splits)
  subgoal by (auto simp: mutation_param_def result_simps)
  subgoal by (auto simp: content_json_def result_simps)
  subgoal by (auto simp: content_digest_def content_json_def result_simps)
  subgoal by (cases v) auto
  subgoal by (cases v) auto
  subgoal by (cases v) (auto simp: int_of_text_def Let_def)
  subgoal by (cases v) (auto simp: the_amount_def)
  done

lemma never_lookup [other_errors]:
  "never_invariant (the_request k db)" "never_invariant (the_version k n db)" "never_invariant (the_budget k db)"
  "never_invariant (open_commitment k n db)" "never_invariant (require_role w r b db)" "never_invariant (require_open_period bb db)"
  "never_invariant (transition k s t db)"
  by (auto simp: the_request_def the_version_def the_budget_def open_commitment_def require_role_def require_open_period_def
    transition_def result_simps)

lemma never_insert [other_errors]:
  "never_invariant (insert_organization g db)" "never_invariant (insert_budget b db)" "never_invariant (insert_role r db)"
  "never_invariant (insert_entry e db)" "never_invariant (insert_receipt rc db)"
  unfolding insert_defs by (intro other_errors; simp)+

lemma never_evidence [other_errors]:
  "never_invariant (bootstrap_evidence ps actor cur db)" "never_invariant (replay_evidence ps r db)"
  unfolding bootstrap_evidence_def replay_evidence_def by (intro other_errors; simp)+

lemma never_amounts [other_errors]:
  "never_invariant (change_amounts m ps b n db)" "never_invariant (request_amounts m ps actor digest b n db)"
  unfolding change_amounts_def correction_target_def request_amounts_def commit_amounts_def settle_amounts_def cancel_amounts_def
  by (intro other_errors; simp)+

lemma never_validate [other_errors]:
  "never_invariant (budget_evidence m ps actor cur digest db)" "never_invariant (validate_mutation ps digest db)"
  unfolding budget_evidence_def validate_mutation_def by (intro other_errors; simp)+

lemma never_rows [other_errors]:
  "never_invariant (bootstrap_rows ps cur db)"
  unfolding bootstrap_rows_def bootstrap_roles_def by (intro other_errors)

lemma never_text:
  "(\<And>b. never_invariant (f b)) \<Longrightarrow> never_invariant (case x of PStr b \<Rightarrow> f b | _ \<Rightarrow> Inl (PyError ''InterfaceError''))"
  by (auto split: pyval.split)

lemma never_mutation_rows [other_errors]: "never_invariant (mutation_rows m ps ev db)"
  unfolding mutation_rows_def by (intro other_errors never_text) (auto split: prod.split)

lemma never_mutation_transition [other_errors]: "never_invariant (mutation_transition m ps db)"
  unfolding mutation_transition_def by (intro other_errors)


text \<open>The one place that raises it is the comparison of balances, which never fails.\<close>

lemma apply_validated_error:
  assumes "apply_validated m ps ev key digest cdigest t x db = Inl (Domain ''invariant_failure'')"
  obtains e db2 db4 where "mutation_entry m ps ev digest db db2 e" "insert_entry e db2 = Inr (db2\<lparr>t_ledger := t_ledger db2 @ [e]\<rparr>)"
    "mutation_transition m ps (db2\<lparr>t_ledger := t_ledger db2 @ [e]\<rparr>) = Inr db4" "available_minor (e_budget e) db4 \<noteq> me_after ev"
proof -
  obtain g b actor related corr db2 amount rid rver db3 db4 where
    rows: "mutation_rows m ps ev (snd (new_id db)) = Inr ((g, b, actor, related, corr), db2)"
    and amount: "the_amount (me_amount ev) = Inr amount" and rid: "bind_text (param ps ''request_id'') = Inr rid"
    and rver: "bind_cell (param ps ''request_version'') = Inr rver"
    and ins: "insert_entry \<lparr>e_id = fst (new_id db), e_org = g, e_budget = b, e_type = entry_type_of m,
           e_amount = amount, e_currency = me_currency ev, e_request = rid,
           e_version = rver, e_related = related, e_correction = corr, e_digest = digest,
           e_execution = x, e_actor = actor, e_created = bw_now db\<rparr> db2 = Inr db3"
    and tr: "mutation_transition m ps db3 = Inr db4" and obs: "available_minor b db4 \<noteq> me_after ev"
    using assms unfolding apply_validated_def
    by (auto simp: and_then_eq_Inl ensure_eq_Inl ensure_eq_Inr and_then_eq_Inr Let_def case_prod_beta map_sum_Inl
        never_params never_insert never_mutation_rows never_mutation_transition simp del: new_id_simps split: if_splits)
  have am: "me_amount ev = PInt amount" using amount by (auto simp: the_amount_def split: pyval.splits)
  note i = insert_entry_facts[OF ins]
  let ?e = "\<lparr>e_id = fst (new_id db), e_org = g, e_budget = b, e_type = entry_type_of m,
           e_amount = amount, e_currency = me_currency ev, e_request = rid,
           e_version = rver, e_related = related, e_correction = corr, e_digest = digest,
           e_execution = x, e_actor = actor, e_created = bw_now db\<rparr>"
  show thesis
    by (rule that[of db2 ?e db4]) (use rows am rid rver ins tr obs i in \<open>simp_all add: mutation_entry_def\<close>)
qed

lemma no_invariant_error:
  assumes inv: "bdb_inv db"
  shows "never_invariant (fst (apply_mutation ps digest x db))"
proof
  assume bad: "fst (apply_mutation ps digest x db) = Inl (Domain ''invariant_failure'')"
  obtain key t m ev where k: "receipt_by_digest digest db = None" "receipt_by_key key db = None"
    "validate_mutation ps (Some digest) db = Inr ev" "mutation_param [(''mutation_type'', PStr (me_mutation ev))] = Inr m"
    and e: "apply_validated m ps ev key digest (bw_sha db t) t x db = Inl (Domain ''invariant_failure'')"
    using bad unfolding apply_mutation_def transaction_def
    by (auto simp: and_then_eq_Inr and_then_eq_Inl ensure_eq_Inr ensure_eq_Inl Let_def never_params never_validate
        split: sum.splits prod.splits option.splits if_splits)
  have m: "me_mutation ev = mutation_value m"
    using k(4) unfolding mutation_param_def require_some_eq_Inr by - (drule find_SomeD, simp add: param_def)
  obtain en db2 db4 where s: "mutation_entry m ps ev digest db db2 en" "insert_entry en db2 = Inr (db2\<lparr>t_ledger := t_ledger db2 @ [en]\<rparr>)"
    "mutation_transition m ps (db2\<lparr>t_ledger := t_ledger db2 @ [en]\<rparr>) = Inr db4" "available_minor (e_budget en) db4 \<noteq> me_after ev"
    by (rule apply_validated_error[OF e])
  define rc where "rc = \<lparr>rc_digest = digest, rc_key = key, rc_content = [], rc_parameters = [],
           rc_execution = e_execution en, rc_entry = e_id en, rc_mutation = [],
           rc_request = None, rc_version = None, rc_available = 0, rc_currency = e_currency en, rc_created = []\<rparr>"
  have d: "mutation_done m ps ev digest db db2 en db4 rc"
    using inv k m s by (simp add: mutation_done_def receipt_none rc_def)
  show False using done_inv(2)[OF d] done_appends(2)[OF d] s(4) by (simp add: available_minor_def)
qed

section \<open>Failed operations on requests\<close>

lemma failed_transaction: "fst (transaction f db) = Inl e \<Longrightarrow> snd (transaction f db) = db"
  by (auto simp: transaction_def split: sum.splits prod.splits)

lemma failed_mutation: "fst (apply_mutation ps digest x db) = Inl e \<Longrightarrow> snd (apply_mutation ps digest x db) = db"
  by (rule apply_mutation_cases[OF prod.collapse[symmetric, of "apply_mutation ps digest x db"]]) auto

text \<open>The view that follows a successful transaction always succeeds.\<close>

lemma failed_view:
  assumes "fst (then_view actor (transaction f db)) = Inl e"
    and "\<And>k db'. f db = Inr (k, db') \<Longrightarrow> \<exists>v. request_detail actor k db' = Inr v"
  shows "snd (then_view actor (transaction f db)) = db"
  using assms by (auto simp: then_view_def transaction_def split: sum.splits prod.splits)

lemma detail_ok:
  assumes "the_request k db = Inr r" and "pr_requester r = actor \<or> has_role actor ''budget_owner'' (Some (pr_budget r)) db"
  shows "\<exists>v. request_detail actor k db = Inr v"
  using assms by (auto simp: request_detail_def ensure_def)

lemma the_request_update:
  assumes "the_request k db = Inr r" and "t_requests db1 = t_requests db" and "\<And>x. pr_id (f x) = pr_id x"
  shows "the_request k (update_request k f db1) = Inr (f r)"
proof -
  have "find (\<lambda>r. pr_id r = k) (List.map (\<lambda>r. if pr_id r = k then f r else r) rs) = map_option f (find (\<lambda>r. pr_id r = k) rs)" for rs
    by (induction rs) (auto simp: assms(3))
  then show ?thesis using assms(1,2) by (auto simp: the_request_def result_simps)
qed

lemma roles_update [simp]: "t_roles (update_request k f db) = t_roles db"
  by (simp add: update_request_def)

lemma detail_update:
  assumes "the_request k db = Inr r" and "pr_requester r = actor \<or> has_role actor ''budget_owner'' (Some (pr_budget r)) db"
    and "t_requests db1 = t_requests db" and "t_roles db1 = t_roles db"
    and "\<And>x. pr_id (f x) = pr_id x" "\<And>x. pr_requester (f x) = pr_requester x" "\<And>x. pr_budget (f x) = pr_budget x"
  shows "\<exists>v. request_detail actor k (update_request k f db1) = Inr v"
  by (rule detail_ok[OF the_request_update[OF assms(1,3,5)]]) (use assms in \<open>auto simp: has_role_def\<close>)

lemma failed_submit: "fst (submit_request actor k db) = Inl e \<Longrightarrow> snd (submit_request actor k db) = db"
  unfolding submit_request_def by (erule failed_view) (auto simp: result_simps intro!: detail_update)

lemma failed_version:
  assumes "fst (add_request_version actor k amount cur purpose reference db) = Inl e"
  shows "snd (add_request_version actor k amount cur purpose reference db) = db"
proof (cases "amount \<le> 0 \<or> strip purpose = []")
  case False
  show ?thesis using assms unfolding add_request_version_def if_not_P[OF False]
    by (elim failed_view) (auto simp: result_simps Let_def dest!: insert_version_facts intro!: detail_update)
qed (simp add: add_request_version_def)

lemma failed_decision:
  "fst (save_decision i actor k dec why digest action evidence db) = Inl e \<Longrightarrow>
   snd (save_decision i actor k dec why digest action evidence db) = db"
  unfolding save_decision_def
  by (erule failed_view) (auto simp: result_simps require_role_def dest!: insert_decision_facts intro!: detail_update)

lemma failed_create:
  assumes "fst (create_request actor b amount cur purpose reference db) = Inl e"
  shows "snd (create_request actor b amount cur purpose reference db) = db"
proof (cases "amount \<le> 0 \<or> strip purpose = []")
  case False
  have "\<exists>v. request_detail actor k db' = Inr v"
    if r: "insert_request r (snd (new_id db)) = Inr db1" "pr_requester r = actor" "pr_id r = k" and v: "insert_version v db1 = Inr db'"
    for k r v db1 db'
  proof (rule detail_ok[of _ _ r])
    have "t_requests db' = t_requests db @ [r]" and "k \<notin> pr_id ` set (t_requests db)"
      using r insert_version_facts[OF v] by (auto simp: insert_request_def result_simps)
    moreover then have "find (\<lambda>x. pr_id x = k) (t_requests db) = None" by (auto simp: find_None)
    ultimately show "the_request k db' = Inr r" using r(3) by (simp add: the_request_def)
  qed (use r in simp)
  then show ?thesis using assms unfolding create_request_def if_not_P[OF False]
    by (elim failed_view) (auto simp: result_simps Let_def case_prod_beta)
qed (simp add: create_request_def)

lemma failed_verification:
  "fst (record_verification x digest status why expected observed entry_id db) = Inl e \<Longrightarrow>
   snd (record_verification x digest status why expected observed entry_id db) = db"
  unfolding record_verification_def by (rule failed_transaction)

end
