(* ===== verification/Budget_Sample.thy ===== *)
theory Budget_Sample
  imports Budget_History
begin

text \<open>
  A history of one purchase: bootstrap, request, submission, decision, commitment, settlement.
  Each state is written out, and a lemma shows that the operation leads to it. The witnesses of
  the budget properties use these states.
\<close>

definition sample_params :: "mutation \<Rightarrow> params" where
  "sample_params m = (case m of
     Bootstrap \<Rightarrow>
      [(''mutation_type'', PStr ''bootstrap''), (''actor'', PStr ''admin''), (''currency'', PStr ''usd''),
       (''allocation_minor'', PInt 1000), (''owner_principal'', PStr ''olga''), (''requester_principal'', PStr ''rob''),
       (''organization_id'', PStr ''org''), (''organization_name'', PStr ''Org''), (''budget_id'', PStr ''b1''),
       (''budget_name'', PStr ''Lab''), (''owner_type'', PStr ''department''), (''owner_name'', PStr ''IT''),
       (''period_start'', PStr ''2026-01-01''), (''period_end'', PStr ''2026-12-31''), (''idempotency_key'', PStr ''k1'')]
   | Commitment \<Rightarrow>
      [(''mutation_type'', PStr ''commitment''), (''actor'', PStr ''olga''), (''currency'', PStr ''USD''),
       (''budget_id'', PStr ''b1''), (''request_id'', PStr ''rrr''), (''request_version'', PInt 1),
       (''amount_minor'', PInt 300), (''domain_approval_id'', PStr ''dec''), (''idempotency_key'', PStr ''k2'')]
   | Settlement \<Rightarrow>
      [(''mutation_type'', PStr ''settlement''), (''actor'', PStr ''olga''), (''currency'', PStr ''USD''),
       (''budget_id'', PStr ''b1''), (''request_id'', PStr ''rrr''), (''request_version'', PInt 1),
       (''amount_minor'', PInt 250), (''idempotency_key'', PStr ''k3'')]
   | _ \<Rightarrow> [])"

definition sample_ids :: "nat \<Rightarrow> ident" where
  "sample_ids n = replicate (if n = 4 then 3 else 10 + n) (CHR ''r'')"

definition sample_empty :: bdb where
  "sample_empty = \<lparr>t_orgs = [], t_budgets = [], t_roles = [], t_requests = [], t_versions = [], t_decisions = [],
     t_ledger = [], t_receipts = [], t_verifs = [], bw_uuid = sample_ids, bw_next = 0,
     bw_now = ''2026-02-01T00:00:00+00:00'', bw_today = ''2026-02-01'', bw_principal = ''admin'', bw_sha = (\<lambda>s. ''h'')\<rparr>"

text \<open>The serialised parameters, kept as a name: no proof needs their characters.\<close>

definition sample_text :: "mutation \<Rightarrow> string" where
  "sample_text m = the (dump (PDict (sample_params m)))"

definition sample_now :: string where
  "sample_now = ''2026-02-01T00:00:00+00:00''"

definition sample_receipt :: "mutation \<Rightarrow> receipt" where
  "sample_receipt m =
     (let (d, k, x, e, r, n, a) = (case m of
          Bootstrap \<Rightarrow> (''d1'', ''k1'', ''x1'', sample_ids 0, None, None, 1000)
        | Commitment \<Rightarrow> (''d2'', ''k2'', ''x2'', sample_ids 5, Some ''rrr'', Some 1, 700)
        | _ \<Rightarrow> (''d3'', ''k3'', ''x3'', sample_ids 6, Some ''rrr'', Some 1, 750)) in
      \<lparr>rc_digest = d, rc_key = k, rc_content = ''h'', rc_parameters = sample_text m, rc_execution = x, rc_entry = e,
       rc_mutation = mutation_value m, rc_request = r, rc_version = n, rc_available = a, rc_currency = ''USD'',
       rc_created = sample_now\<rparr>)"

definition sample_entry :: "mutation \<Rightarrow> entry" where
  "sample_entry m =
     (let (k, x, d, c, r, w, n, a) = (case m of
          Bootstrap \<Rightarrow> (0, ''x1'', ''d1'', None, None, ''admin'', PNone, 1000)
        | Commitment \<Rightarrow> (5, ''x2'', ''d2'', None, Some ''rrr'', ''olga'', PInt 1, 300)
        | _ \<Rightarrow> (6, ''x3'', ''d3'', Some (sample_ids 5), Some ''rrr'', ''olga'', PInt 1, 250)) in
      \<lparr>e_id = sample_ids k, e_org = ''org'', e_budget = ''b1'', e_type = entry_type_of m, e_amount = a, e_currency = ''USD'',
       e_request = r, e_version = n, e_related = c, e_correction = None, e_digest = d, e_execution = x, e_actor = w,
       e_created = sample_now\<rparr>)"

definition sample_purchase :: "string \<Rightarrow> purchase" where
  "sample_purchase s = \<lparr>pr_id = ''rrr'', pr_org = ''org'', pr_budget = ''b1'', pr_requester = ''rob'', pr_status = s,
     pr_version = 1, pr_created = sample_now, pr_updated = sample_now\<rparr>"

definition sample_open :: bdb where
  "sample_open = sample_empty\<lparr>
     t_orgs := [\<lparr>org_id = ''org'', org_name = ''Org'', org_currency = ''USD'', org_principal = ''admin'', org_created = sample_now\<rparr>],
     t_budgets := [\<lparr>b_id = ''b1'', b_org = ''org'', b_name = ''Lab'', b_owner_type = ''department'', b_owner_name = ''IT'',
       b_start = ''2026-01-01'', b_end = ''2026-12-31'', b_currency = ''USD'', b_status = ''open'', b_created = sample_now\<rparr>],
     t_roles := List.map (\<lambda>(i, b, p, r). \<lparr>ro_id = sample_ids i, ro_org = ''org'', ro_budget = b, ro_principal = p,
         ro_role = r, ro_created = sample_now\<rparr>)
       [(1, None, ''admin'', ''bootstrap_admin''), (2, Some ''b1'', ''olga'', ''budget_owner''), (3, Some ''b1'', ''rob'', ''requester'')],
     t_ledger := [sample_entry Bootstrap], t_receipts := [sample_receipt Bootstrap], bw_next := 4\<rparr>"

definition sample_requested :: bdb where
  "sample_requested = sample_open\<lparr>t_requests := [sample_purchase ''draft''],
     t_versions := [\<lparr>v_request = ''rrr'', v_version = 1, v_amount = 300, v_currency = ''USD'', v_purpose = ''laptop'',
       v_reference = ''q-1'', v_by = ''rob'', v_created = sample_now\<rparr>], bw_next := 5\<rparr>"

definition sample_submitted :: bdb where
  "sample_submitted = sample_requested\<lparr>t_requests := [sample_purchase ''submitted'']\<rparr>"

definition sample_decided :: bdb where
  "sample_decided = sample_submitted\<lparr>t_requests := [sample_purchase ''approved''],
     t_decisions := [\<lparr>d_id = ''dec'', d_request = ''rrr'', d_version = 1, d_decision = ''approved'', d_by = ''olga'',
       d_reason = ''needed'', d_digest = Some ''d2'', d_action = Some ''{}'', d_balance = Some 1000, d_created = sample_now\<rparr>]\<rparr>"

definition sample_committed :: bdb where
  "sample_committed = sample_decided\<lparr>t_requests := [sample_purchase ''committed''],
     t_ledger := [sample_entry Bootstrap, sample_entry Commitment],
     t_receipts := [sample_receipt Bootstrap, sample_receipt Commitment], bw_next := 6\<rparr>"

definition sample_settled :: bdb where
  "sample_settled = sample_committed\<lparr>t_requests := [sample_purchase ''settled''],
     t_ledger := [sample_entry Bootstrap, sample_entry Commitment, sample_entry Settlement],
     t_receipts := [sample_receipt Bootstrap, sample_receipt Commitment, sample_receipt Settlement], bw_next := 7\<rparr>"

lemmas sample_defs = sample_settled_def sample_committed_def sample_decided_def sample_submitted_def sample_requested_def
  sample_open_def sample_empty_def sample_purchase_def sample_entry_def sample_receipt_def sample_now_def entry_type_of_def

section \<open>The operations lead from state to state\<close>

lemma sample_json: "m \<in> {Bootstrap, Commitment, Settlement} \<Longrightarrow> content_json (sample_params m) = Inr (sample_text m)"
  by (auto simp: content_json_def sample_text_def sample_params_def tag_key_def)

lemma sample_ids_simps [simp]: "sample_ids i = sample_ids j \<longleftrightarrow> i = j" if "i \<le> 10" "j \<le> 10" for i j
  using that by (auto simp: sample_ids_def)



definition sample_evidence :: "mutation \<Rightarrow> mutation_evidence" where
  "sample_evidence m =
     (let (b, a, x, y, refs) = (case m of
          Bootstrap \<Rightarrow> (None, 1000, 0, 1000, [''budget:bootstrap:uninitialized''])
        | Commitment \<Rightarrow> (Some (PStr ''b1''), 300, 1000, 700, [''budget:b1'', ''balance:1000'', ''mutation:commitment''])
        | _ \<Rightarrow> (Some (PStr ''b1''), 250, 700, 750, [''budget:b1'', ''balance:700'', ''mutation:settlement''])) in
      \<lparr>me_mutation = mutation_value m, me_budget = b, me_currency = ''USD'', me_amount = PInt a, me_before = x, me_after = y,
       me_refs = refs\<rparr>)"

lemma sample_validates:
  "validate_mutation (sample_params Bootstrap) (Some ''d1'') sample_empty = Inr (sample_evidence Bootstrap)"
  "validate_mutation (sample_params Commitment) (Some ''d2'') sample_decided = Inr (sample_evidence Commitment)"
  "validate_mutation (sample_params Settlement) (Some ''d3'') sample_committed = Inr (sample_evidence Settlement)"
  by code_simp+

lemma sample_texts [simp]:
  "text_param (sample_params Bootstrap) ''idempotency_key'' = Inr ''k1''" "text_param (sample_params Bootstrap) ''organization_id'' = Inr ''org''"
  "text_param (sample_params Bootstrap) ''organization_name'' = Inr ''Org''" "text_param (sample_params Bootstrap) ''budget_id'' = Inr ''b1''"
  "text_param (sample_params Bootstrap) ''budget_name'' = Inr ''Lab''" "text_param (sample_params Bootstrap) ''owner_type'' = Inr ''department''"
  "text_param (sample_params Bootstrap) ''owner_name'' = Inr ''IT''" "text_param (sample_params Bootstrap) ''period_start'' = Inr ''2026-01-01''"
  "text_param (sample_params Bootstrap) ''period_end'' = Inr ''2026-12-31''" "text_param (sample_params Bootstrap) ''actor'' = Inr ''admin''"
  "text_param (sample_params Bootstrap) ''owner_principal'' = Inr ''olga''" "text_param (sample_params Bootstrap) ''requester_principal'' = Inr ''rob''"
  "text_param (sample_params Commitment) ''idempotency_key'' = Inr ''k2''" "text_param (sample_params Commitment) ''actor'' = Inr ''olga''"
  "text_param (sample_params Settlement) ''idempotency_key'' = Inr ''k3''" "text_param (sample_params Settlement) ''actor'' = Inr ''olga''"
  by code_simp+

lemma sample_raw [simp]:
  "param (sample_params Bootstrap) ''request_id'' = PNone" "param (sample_params Bootstrap) ''request_version'' = PNone"
  "param (sample_params Commitment) ''request_id'' = PStr ''rrr''" "param (sample_params Commitment) ''request_version'' = PInt 1"
  "param (sample_params Settlement) ''request_id'' = PStr ''rrr''" "param (sample_params Settlement) ''request_version'' = PInt 1"
  by code_simp+

lemma apply_mutation_new:
  assumes "text_param ps ''idempotency_key'' = Inr key" "content_json ps = Inr t" "receipt_by_digest d db = None"
    "receipt_by_key key db = None" "validate_mutation ps (Some d) db = Inr ev" "me_mutation ev = mutation_value m"
    "apply_validated m ps ev key d (bw_sha db t) t x db = Inr (rc, db')"
  shows "apply_mutation ps d x db = (Inr rc, db')"
  using assms by (simp add: apply_mutation_def transaction_def mutation_param_value)

lemma sample_fresh:
  "receipt_by_digest ''d1'' sample_empty = None" "receipt_by_key ''k1'' sample_empty = None"
  "receipt_by_digest ''d2'' sample_decided = None" "receipt_by_key ''k2'' sample_decided = None"
  "receipt_by_digest ''d3'' sample_committed = None" "receipt_by_key ''k3'' sample_committed = None"
  by (simp_all add: receipt_by_digest_def receipt_by_key_def sample_defs)

lemmas run_simps = sample_evidence_def apply_validated_def new_id_def mutation_rows_def bootstrap_rows_def
  bootstrap_roles_def insert_defs same_role_def check_def fits_def int64_def references_def the_amount_def the_budget_def
  open_commitment_def mutation_transition_def transition_def available_minor_def balance_def is_closed_def closed_by_def
  terminal_types_def entry_types_def py_truthy_cell_def

lemma period: "''2026-01-01'' \<le> ''2026-12-31''" by code_simp

lemma run_bootstrap: "apply_mutation (sample_params Bootstrap) ''d1'' ''x1'' sample_empty = (Inr (sample_receipt Bootstrap), sample_open)"
  by (rule apply_mutation_new[OF sample_texts(1) sample_json sample_fresh(1,2) sample_validates(1), where m = Bootstrap])
    (simp_all add: run_simps sample_defs period Let_def)

lemma run_commitment: "apply_mutation (sample_params Commitment) ''d2'' ''x2'' sample_decided = (Inr (sample_receipt Commitment), sample_committed)"
  by (rule apply_mutation_new[OF sample_texts(13) sample_json sample_fresh(3,4) sample_validates(2), where m = Commitment])
    (simp_all add: run_simps sample_defs Let_def)

lemma run_settlement: "apply_mutation (sample_params Settlement) ''d3'' ''x3'' sample_committed = (Inr (sample_receipt Settlement), sample_settled)"
  by (rule apply_mutation_new[OF sample_texts(15) sample_json sample_fresh(5,6) sample_validates(3), where m = Settlement])
    (simp_all add: run_simps sample_defs Let_def)

lemma strip_all: assumes "list_all (\<lambda>c. \<not> is_space c) s" shows "strip s = s"
proof -
  have d: "list_all (\<lambda>c. \<not> is_space c) t \<Longrightarrow> dropWhile is_space t = t" for t by (cases t) simp_all
  show ?thesis using d[of s] d[of "rev s"] assms by (simp add: strip_def)
qed

lemma sample_words [simp]: "upper ''usd'' = ''USD''" "strip ''laptop'' = ''laptop''" "strip ''q-1'' = ''q-1''" "strip ''needed'' = ''needed''"
  "''2026-01-01'' \<le> ''2026-02-01''" "''2026-02-01'' \<le> ''2026-12-31''" "sample_ids 4 = ''rrr''"
  by code_simp+

lemma run_request: "snd (create_request ''rob'' ''b1'' 300 ''usd'' ''laptop'' ''q-1'' sample_open) = sample_requested"
  by (simp add: create_request_def transaction_def require_role_def has_role_def the_budget_def require_open_period_def run_simps sample_defs request_statuses_def Let_def)

lemma run_submit: "snd (submit_request ''rob'' ''rrr'' sample_requested) = sample_submitted"
  by (simp add: submit_request_def transaction_def the_request_def update_request_def sample_defs)

lemma run_decision: "snd (save_decision ''dec'' ''olga'' ''rrr'' ''approved'' ''needed'' (Some ''d2'') (Some ''{}'') (Some 1000) sample_submitted) = sample_decided"
  by (simp add: save_decision_def transaction_def the_request_def require_role_def has_role_def update_request_def run_simps sample_defs Let_def)

lemma sample_empty_ok: "empty_bdb sample_empty"
proof -
  have "list_all (\<lambda>c. \<not> is_space c) (sample_ids n)" for n
    unfolding sample_ids_def by (simp add: list_all_iff is_space_def)
  then show ?thesis by (simp add: empty_bdb_def sample_empty_def supply_text_def strip_all)
qed

lemma mutate_to: "apply_mutation ps d x db = (r, db') \<Longrightarrow> bdb_step db db'"
  using bdb_step.mutate[of db ps d x] by simp

lemma purchase_steps:
  "bdb_step sample_empty sample_open" "bdb_step sample_open sample_requested" "bdb_step sample_requested sample_submitted"
  "bdb_step sample_submitted sample_decided" "bdb_step sample_decided sample_committed" "bdb_step sample_committed sample_settled"
  subgoal by (rule mutate_to[OF run_bootstrap])
  subgoal unfolding run_request[symmetric] by (rule bdb_step.create)
  subgoal unfolding run_submit[symmetric] by (rule bdb_step.submit)
  subgoal unfolding run_decision[symmetric] by (rule bdb_step.decide)
  subgoal by (rule mutate_to[OF run_commitment])
  subgoal by (rule mutate_to[OF run_settlement])
  done

lemma purchase_reachable:
  "bdb_reachable sample_empty" "bdb_reachable sample_open" "bdb_reachable sample_requested" "bdb_reachable sample_submitted"
  "bdb_reachable sample_decided" "bdb_reachable sample_committed" "bdb_reachable sample_settled"
proof -
  note s = bdb_reachable.start[OF sample_empty_ok]
  show "bdb_reachable sample_empty" by (rule s)
  show o: "bdb_reachable sample_open" by (rule bdb_reachable.step[OF s purchase_steps(1)])
  show r: "bdb_reachable sample_requested" by (rule bdb_reachable.step[OF o purchase_steps(2)])
  show u: "bdb_reachable sample_submitted" by (rule bdb_reachable.step[OF r purchase_steps(3)])
  show d: "bdb_reachable sample_decided" by (rule bdb_reachable.step[OF u purchase_steps(4)])
  show c: "bdb_reachable sample_committed" by (rule bdb_reachable.step[OF d purchase_steps(5)])
  show "bdb_reachable sample_settled" by (rule bdb_reachable.step[OF c purchase_steps(6)])
qed

end
