(* ===== verification/Budget_Properties.thy ===== *)
theory Budget_Properties
  imports Budget_Errors Budget_Sample
begin

text \<open>
  The properties of the Budget Control repository, each with a witness on the purchase of
  \<open>Budget_Sample\<close>.
\<close>

text \<open>C11: In every state the budget database can reach, no budget is overdrawn.\<close>

theorem budget_never_overdrawn:
  assumes "bdb_reachable db"
  shows "0 \<le> available_minor b db"
  using reachable_bdb_inv[OF assms] by (simp add: bdb_inv_def funded_def available_minor_def)

theorem budget_never_overdrawn_witness:
  "0 \<le> available_minor ''b1'' sample_settled \<and> available_minor ''b1'' sample_settled = 750"
  using budget_never_overdrawn[OF purchase_reachable(7), of "''b1''"]
  by (simp add: available_minor_def balance_def is_closed_def closed_by_def terminal_types_def sample_defs)

text \<open>The balance that the transaction recomputes after writing its ledger row is always the one
  the validation promised: in a reachable state \<open>invariant_failure\<close> is never raised.\<close>

theorem balance_check_never_fails:
  assumes "bdb_reachable db"
  shows "fst (apply_mutation ps digest x db) \<noteq> Inl (Domain ''invariant_failure'')"
  using no_invariant_error[OF reachable_bdb_inv[OF assms]] .

theorem balance_check_never_fails_witness:
  "fst (apply_mutation (sample_params Settlement) ''d3'' ''x3'' sample_committed) \<noteq> Inl (Domain ''invariant_failure'')"
  by (rule balance_check_never_fails[OF purchase_reachable(6)])

text \<open>C12: A successful mutation of a new instruction appends exactly one ledger row and its receipt. The
  available balance of the row's budget changes by the effect of the row on an account (an
  allocation or change adds its amount, a commitment reserves it, a settlement releases the
  reservation and spends its amount, a cancellation releases it), the receipt states the balance
  after it, and no other budget changes.\<close>

theorem mutation_effect:
  assumes "bdb_reachable db" and "apply_mutation ps digest x db = (Inr rc, db')" and "receipt_by_digest digest db = None"
  shows "\<exists>e. t_ledger db' = t_ledger db @ [e] \<and> rc_entry rc = e_id e \<and> e_digest e = digest \<and> e_execution e = x \<and>
    available_minor (e_budget e) db' = available_minor (e_budget e) db + account_effect (t_ledger db) e \<and>
    rc_available rc = available_minor (e_budget e) db' \<and>
    (\<forall>b. b \<noteq> e_budget e \<longrightarrow> available_minor b db' = available_minor b db)"
  by (rule new_receipt_effect[OF reachable_bdb_inv[OF assms(1)] assms(2,3)]) blast

theorem mutation_effect_witness:
  "t_ledger sample_committed = t_ledger sample_decided @ [sample_entry Commitment] \<and>
   available_minor ''b1'' sample_committed = available_minor ''b1'' sample_decided + account_effect (t_ledger sample_decided) (sample_entry Commitment) \<and>
   account_effect (t_ledger sample_decided) (sample_entry Commitment) = - 300"
proof -
  obtain e where e: "t_ledger sample_committed = t_ledger sample_decided @ [e]"
    "available_minor (e_budget e) sample_committed = available_minor (e_budget e) sample_decided + account_effect (t_ledger sample_decided) e"
    using mutation_effect[OF purchase_reachable(5) run_commitment sample_fresh(3)] by blast
  have l: "t_ledger sample_committed = t_ledger sample_decided @ [sample_entry Commitment]"
    "e_budget (sample_entry Commitment) = ''b1''" "account_effect (t_ledger sample_decided) (sample_entry Commitment) = - 300"
    by (simp_all add: sample_defs account_effect_def)
  then show ?thesis using e by simp
qed

text \<open>Replay is idempotent for ever: after an instruction was applied, applying it again, after any
  further operations and under any execution id, returns the same receipt and changes nothing.\<close>

theorem mutation_replay:
  assumes "bdb_reachable db" and "apply_mutation ps digest x db = (Inr rc, db')" and "bdb_step\<^sup>*\<^sup>* db' later"
  shows "apply_mutation ps digest y later = (Inr rc, later)"
proof -
  have reach: "bdb_reachable db'" using bdb_reachable.step[OF assms(1) bdb_step.mutate, of ps digest x] assms(2) by simp
  have g: "bdb_inv later" "grows db' later"
    using steps_grow[OF assms(3) reach] reachable_bdb_inv by simp_all
  obtain t where t: "rc \<in> set (t_receipts db')" "rc_digest rc = digest" "content_json ps = Inr t" "rc_content rc = bw_sha db' t"
    "text_param ps ''idempotency_key'' = Inr (rc_key rc)"
    by (rule mutation_success[OF reachable_bdb_inv[OF assms(1)] assms(2)])
  have "rc \<in> set (t_receipts later)" "bw_sha later = bw_sha db'" using g(2) t(1) by (auto simp: grows_def dest: set_mono_prefix)
  then show ?thesis using replay_receipt[OF g(1) _ t(3) _ t(5)] t(2,4) by simp
qed

theorem mutation_replay_witness:
  "apply_mutation (sample_params Commitment) ''d2'' ''other'' sample_settled = (Inr (sample_receipt Commitment), sample_settled)"
  by (rule mutation_replay[OF purchase_reachable(5) run_commitment r_into_rtranclp[of bdb_step, OF purchase_steps(6)]])

text \<open>An idempotency key belongs to one instruction: any other instruction that carries the key of a
  receipt is refused with \<open>idempotency_conflict\<close> and changes nothing.\<close>

theorem idempotency_key_is_bound:
  assumes "bdb_reachable db" and "rc \<in> set (t_receipts db)" and "text_param ps ''idempotency_key'' = Inr (rc_key rc)"
    and "digest \<noteq> rc_digest rc" and "content_json ps = Inr t"
  shows "apply_mutation ps digest x db = (Inl (Domain ''idempotency_conflict''), db)"
proof -
  have inv: "bdb_inv db" by (rule reachable_bdb_inv[OF assms(1)])
  have keys: "distinct (List.map rc_key (t_receipts db))" using inv by (simp add: bdb_defs)
  have k: "receipt_by_key (rc_key rc) db \<noteq> None" using assms(2) by (auto simp: receipt_none)
  show ?thesis
  proof (cases "receipt_by_digest digest db")
    case None
    then show ?thesis using assms(3,5) k by (auto simp: apply_mutation_def transaction_def ensure_def)
  next
    case (Some r)
    then have "r \<in> set (t_receipts db)" "rc_digest r = digest" by (auto simp: receipt_by_digest_def dest: find_SomeD)
    then have "rc_key r \<noteq> rc_key rc" using assms(2,4) keys by (auto simp: distinct_map inj_on_def)
    then show ?thesis using assms(3,5) Some by (simp add: apply_mutation_def transaction_def)
  qed
qed

theorem idempotency_key_is_bound_witness:
  "apply_mutation (sample_params Commitment) ''d9'' ''x9'' sample_settled = (Inl (Domain ''idempotency_conflict''), sample_settled)"
  by (rule idempotency_key_is_bound[OF purchase_reachable(7), of "sample_receipt Commitment", OF _ _ _ sample_json])
    (simp_all add: sample_settled_def sample_receipt_def)

text \<open>An operation of the repository that raises leaves the database exactly as it was, also when the
  error comes from building the view it returns.\<close>

theorem failed_operation_rolls_back:
  "(fst (create_request actor b amount cur purpose reference db) = Inl e1 \<longrightarrow> snd (create_request actor b amount cur purpose reference db) = db) \<and>
   (fst (add_request_version actor k amount cur purpose reference db) = Inl e2 \<longrightarrow> snd (add_request_version actor k amount cur purpose reference db) = db) \<and>
   (fst (submit_request actor k db) = Inl e3 \<longrightarrow> snd (submit_request actor k db) = db) \<and>
   (fst (save_decision i actor k dec why digest action evidence db) = Inl e4 \<longrightarrow> snd (save_decision i actor k dec why digest action evidence db) = db) \<and>
   (fst (apply_mutation ps d x db) = Inl e5 \<longrightarrow> snd (apply_mutation ps d x db) = db)"
  by (intro conjI impI) (erule failed_create failed_version failed_submit failed_decision failed_mutation)+

theorem failed_operation_rolls_back_witness:
  "fst (submit_request ''olga'' ''rrr'' sample_requested) = Inl (Domain ''forbidden'') \<and>
   snd (submit_request ''olga'' ''rrr'' sample_requested) = sample_requested"
proof -
  have f: "fst (submit_request ''olga'' ''rrr'' sample_requested) = Inl (Domain ''forbidden'')"
    by (simp add: submit_request_def then_view_def transaction_def the_request_def sample_defs)
  then show ?thesis
    using failed_operation_rolls_back[of "''olga''" "[]" 0 "[]" "[]" "[]" sample_requested "Domain ''forbidden''" "''rrr''" _ _] by blast
qed

text \<open>C14: Every commitment in the ledger was approved: there is a request on the commitment's budget, a
  version of it with the committed amount, and an approved decision on that version for this very
  instruction, made by the committing actor, who is not the requester.\<close>

theorem commitment_was_approved:
  assumes "bdb_reachable db" and "c \<in> set (t_ledger db)" and "e_type c = ''commitment''"
  shows "\<exists>r\<in>set (t_requests db). \<exists>v\<in>set (t_versions db). \<exists>d\<in>set (t_decisions db).
    e_request c = Some (pr_id r) \<and> pr_budget r = e_budget c \<and>
    v_request v = pr_id r \<and> e_version c = PInt (v_version v) \<and> v_amount v = e_amount c \<and>
    d_request d = pr_id r \<and> d_version d = v_version v \<and> d_decision d = ''approved'' \<and>
    d_digest d = Some (e_digest c) \<and> d_by d = e_actor c \<and> d_by d \<noteq> pr_requester r"
proof -
  have inv: "bdb_inv db" by (rule reachable_bdb_inv[OF assms(1)])
  have "commitment_ok db c" using inv assms(2,3) by (simp add: bdb_inv_def rows_ok_def entry_ok_def)
  then obtain r v d where x: "r \<in> set (t_requests db)" "v \<in> set (t_versions db)" "d \<in> set (t_decisions db)"
    "e_request c = Some (pr_id r)" "e_version c = PInt (v_version v)" "pr_budget r = e_budget c"
    "v_request v = pr_id r" "v_amount v = e_amount c" "d_decision d = ''approved''" "d_request d = pr_id r"
    "d_version d = v_version v" "d_by d = e_actor c" "d_digest d = Some (e_digest c)"
    unfolding commitment_ok_def by blast
  have "decision_ok db d" using inv x(3) by (simp add: bdb_inv_def rows_ok_def)
  then obtain r' where "r' \<in> set (t_requests db)" "pr_id r' = pr_id r" "pr_requester r' \<noteq> d_by d"
    using x(10) by (auto simp: decision_ok_def)
  then have "d_by d \<noteq> pr_requester r" using request_unique[OF inv _ x(1)] by metis
  then show ?thesis using x by blast
qed

theorem commitment_was_approved_witness:
  "\<exists>r\<in>set (t_requests sample_settled). pr_requester r \<noteq> ''olga'' \<and> pr_id r = ''rrr''"
proof -
  let ?c = "t_ledger sample_settled ! 1"
  have c: "1 < length (t_ledger sample_settled) \<and> e_type ?c = ''commitment'' \<and> e_actor ?c = ''olga'' \<and> e_request ?c = Some ''rrr''" by (simp add: sample_defs)
  then show ?thesis using commitment_was_approved[OF purchase_reachable(7), of ?c] by force
qed

text \<open>A settlement or cancellation closes exactly one commitment of the same budget for at most the
  committed amount (a cancellation for all of it), and nothing else closes that commitment.\<close>

theorem commitment_closes_once:
  assumes "bdb_reachable db" and "t \<in> set (t_ledger db)" and "e_type t = ''settlement'' \<or> e_type t = ''cancellation''"
  shows "\<exists>c\<in>set (t_ledger db). e_type c = ''commitment'' \<and> e_related t = Some (e_id c) \<and> e_budget c = e_budget t \<and>
    e_amount t \<le> e_amount c \<and> (e_type t = ''cancellation'' \<longrightarrow> e_amount t = e_amount c) \<and>
    (\<forall>t'\<in>set (t_ledger db). e_related t' = Some (e_id c) \<longrightarrow> t' = t)"
proof -
  have inv: "bdb_inv db" by (rule reachable_bdb_inv[OF assms(1)])
  have "entry_ok db t" using inv assms(2) by (simp add: bdb_inv_def rows_ok_def)
  then have "terminal_ok (t_ledger db) t" using assms(3) by (auto simp: entry_ok_def terminal_types_def)
  then obtain c where c: "c \<in> set (t_ledger db)" "e_related t = Some (e_id c)" "e_type c = ''commitment''"
    "e_budget c = e_budget t" "e_amount t \<le> e_amount c" "e_type t = ''cancellation'' \<longrightarrow> e_amount t = e_amount c"
    unfolding terminal_ok_def by blast
  have "one_terminal (t_ledger db)" using inv by (simp add: bdb_defs)
  then have "t' = t" if "t' \<in> set (t_ledger db)" "e_related t' = Some (e_id c)" for t'
    using that c(2) assms(2) by (simp add: one_terminal_def)
  then show ?thesis using c by blast
qed

theorem commitment_closes_once_witness:
  "\<exists>c\<in>set (t_ledger sample_settled). e_type c = ''commitment'' \<and> 250 \<le> e_amount c"
proof -
  let ?t = "t_ledger sample_settled ! 2"
  have c: "2 < length (t_ledger sample_settled) \<and> e_type ?t = ''settlement'' \<and> e_amount ?t = 250" by (simp add: sample_defs)
  then show ?thesis using commitment_closes_once[OF purchase_reachable(7), of ?t] by force
qed

text \<open>A purchase request is committed exactly while it has an open commitment; there is then only
  one, for the current version of the request.\<close>

theorem committed_iff_open_commitment:
  assumes "bdb_reachable db" and "r \<in> set (t_requests db)"
  shows "if pr_status r = ''committed'' then \<exists>c. opens db (pr_id r) = {c} \<and> e_version c = PInt (pr_version r)
     else opens db (pr_id r) = {}"
  using reachable_bdb_inv[OF assms(1)] assms(2) by (simp add: bdb_inv_def rows_ok_def request_ok_def)

theorem committed_iff_open_commitment_witness:
  "(\<exists>c. opens sample_committed ''rrr'' = {c}) \<and> opens sample_settled ''rrr'' = {}"
proof -
  have a: "t_requests sample_committed \<noteq> [] \<and> pr_status (hd (t_requests sample_committed)) = ''committed'' \<and> pr_id (hd (t_requests sample_committed)) = ''rrr''" by (simp add: sample_defs)
  have b: "t_requests sample_settled \<noteq> [] \<and> pr_status (hd (t_requests sample_settled)) = ''settled'' \<and> pr_id (hd (t_requests sample_settled)) = ''rrr''" by (simp add: sample_defs)
  show ?thesis using committed_iff_open_commitment[OF purchase_reachable(6), of "hd (t_requests sample_committed)"]
      committed_iff_open_commitment[OF purchase_reachable(7), of "hd (t_requests sample_settled)"] a b by auto
qed

text \<open>Receipts and ledger rows correspond one to one, and agree on instruction, row, execution and
  currency.\<close>

theorem receipts_match_ledger:
  assumes "bdb_reachable db"
  shows "(\<forall>rc\<in>set (t_receipts db). \<exists>!e. e \<in> set (t_ledger db) \<and> e_digest e = rc_digest rc \<and> e_id e = rc_entry rc \<and>
            e_execution e = rc_execution rc \<and> e_currency e = rc_currency rc) \<and>
         (\<forall>e\<in>set (t_ledger db). \<exists>!rc. rc \<in> set (t_receipts db) \<and> rc_digest rc = e_digest e)"
proof (intro conjI ballI)
  have inv: "bdb_inv db" by (rule reachable_bdb_inv[OF assms])
  then have d: "distinct (List.map e_digest (t_ledger db))" "distinct (List.map rc_digest (t_receipts db))" by (simp_all add: bdb_defs)
  show "\<exists>!e. e \<in> set (t_ledger db) \<and> e_digest e = rc_digest rc \<and> e_id e = rc_entry rc \<and> e_execution e = rc_execution rc \<and> e_currency e = rc_currency rc"
    if rc: "rc \<in> set (t_receipts db)" for rc
  proof -
    have "receipt_ok db rc" using inv rc by (simp add: bdb_inv_def rows_ok_def)
    then show ?thesis using d(1) unfolding receipt_ok_def distinct_map inj_on_def by metis
  qed
  show "\<exists>!rc. rc \<in> set (t_receipts db) \<and> rc_digest rc = e_digest e" if e: "e \<in> set (t_ledger db)" for e
  proof -
    have "e_digest e \<in> rc_digest ` set (t_receipts db)" using inv e by (simp add: bdb_inv_def rows_ok_def)
    then show ?thesis using d(2) unfolding distinct_map inj_on_def by (metis imageE)
  qed
qed

theorem receipts_match_ledger_witness:
  "sample_entry Commitment \<in> set (t_ledger sample_settled) \<and>
   (\<exists>!rc. rc \<in> set (t_receipts sample_settled) \<and> rc_digest rc = e_digest (sample_entry Commitment))"
proof -
  have "sample_entry Commitment \<in> set (t_ledger sample_settled)" by (simp add: sample_settled_def)
  then show ?thesis using receipts_match_ledger[OF purchase_reachable(7)] by blast
qed

text \<open>Each operation only appends to ledger, receipts, decisions and versions. A purchase request
  keeps its id, budget and requester and moves along the edges of its status machine; a new version
  resets it to draft; new requests start as drafts.\<close>

theorem history_only_grows:
  assumes "bdb_reachable db" and "bdb_step db db'"
  shows "prefix (t_ledger db) (t_ledger db') \<and> prefix (t_receipts db) (t_receipts db') \<and>
    prefix (t_decisions db) (t_decisions db') \<and> prefix (t_versions db) (t_versions db') \<and>
    (\<exists>f new. t_requests db' = List.map f (t_requests db) @ new \<and>
       (\<forall>r\<in>set (t_requests db). purchase_next r (f r)) \<and> (\<forall>r\<in>set new. pr_status r = ''draft''))"
  using step_moves[OF assms(2) reachable_bdb_inv[OF assms(1)] reachable_statuses[OF assms(1)]] by (simp add: moves_def)

theorem history_only_grows_witness:
  "prefix (t_ledger sample_decided) (t_ledger sample_committed) \<and> pr_status (hd (t_requests sample_decided)) = ''approved'' \<and>
   pr_status (hd (t_requests sample_committed)) = ''committed''"
proof -
  have "pr_status (hd (t_requests sample_decided)) = ''approved'' \<and> pr_status (hd (t_requests sample_committed)) = ''committed''" by (simp add: sample_defs)
  then show ?thesis using history_only_grows[OF purchase_reachable(5) purchase_steps(5)] by blast
qed

end
