(* ===== verification/Json_Text.thy ===== *)
theory Json_Text
  imports Py_Json "HOL-Library.AList" "HOL-Library.Monad_Syntax"
begin

text \<open>
  JSON text the program exchanges with others. The writer is \<open>json.dumps\<close> with \<open>ensure_ascii\<close>, given
  separators and \<open>default=str\<close>; an object carries its \<open>str\<close>. The reader is
  \<open>json.JSONDecoder().raw_decode\<close> as CPython's scanner does it, on text the program did not write
  itself: white space, escapes with surrogate pairs, number literals, the constants \<open>NaN\<close> and
  \<open>Infinity\<close>, and objects in which the last of equal keys wins. The characters of the model are the
  256 lowest code points; \<open>rt_char\<close> stands for the others, and \<open>rt_float\<close> for \<open>repr(float(...))\<close> of a
  literal. What the writer writes with the standard separators is read back unchanged. The limits on recursion depth and on the digits of an integer are not modelled.
\<close>

record py_runtime =
  rt_char :: "nat \<Rightarrow> char"
  rt_float :: "string \<Rightarrow> string"
  rt_json_error :: "string \<Rightarrow> string"  \<comment> \<open>the message of the \<open>JSONDecodeError\<close> of a text\<close>
  rt_type_error :: "pyval \<Rightarrow> string"  \<comment> \<open>the message for an unhashable value\<close>

section \<open>The writer\<close>

fun join_with :: "string \<Rightarrow> string list \<Rightarrow> string" where
  "join_with sep [] = []"
| "join_with sep [t] = t"
| "join_with sep (t # u # ts) = t @ sep @ join_with sep (u # ts)"

text \<open>\<open>ensure_ascii\<close>: characters from DEL on are written as escapes.\<close>

definition ascii_char :: "char \<Rightarrow> string" where
  "ascii_char c = (if (of_char c :: nat) < 127 then [c]
     else [CHR 0x5C, CHR ''u'', CHR ''0'', CHR ''0'', hex_char (of_char c div 16), hex_char (of_char c mod 16)])"

definition ascii_text :: "string \<Rightarrow> string" where
  "ascii_text t = concat (List.map ascii_char t)"

definition write_float :: "string \<Rightarrow> string" where
  "write_float t = (if t = ''nan'' then ''NaN'' else if t = ''inf'' then ''Infinity'' else if t = ''-inf'' then ''-Infinity'' else t)"

definition write_field :: "string \<Rightarrow> string \<times> string \<Rightarrow> string" where
  "write_field colon kt = ascii_text (quote (fst kt)) @ colon @ snd kt"

text \<open>Separators of items and of key and value, and \<open>sort_keys\<close>.\<close>

fun dumps :: "string \<Rightarrow> string \<Rightarrow> bool \<Rightarrow> pyval \<Rightarrow> string" where
  "dumps sep colon by_key PNone = ''null''"
| "dumps sep colon by_key (PBool b) = (if b then ''true'' else ''false'')"
| "dumps sep colon by_key (PInt i) = show_int i"
| "dumps sep colon by_key (PFloat t) = write_float t"
| "dumps sep colon by_key (PStr s) = ascii_text (quote s)"
| "dumps sep colon by_key (PList vs) = ''['' @ join_with sep (List.map (dumps sep colon by_key) vs) @ '']''"
| "dumps sep colon by_key (PTuple vs) = ''['' @ join_with sep (List.map (dumps sep colon by_key) vs) @ '']''"
| "dumps sep colon by_key (PDict kvs) =
     ''{'' @ join_with sep (List.map (write_field colon)
       ((if by_key then sort_key fst else (\<lambda>ps. ps)) (List.map (\<lambda>(k, v). (k, dumps sep colon by_key v)) kvs))) @ ''}''"
| "dumps sep colon by_key (PObj c) = ascii_text (quote c)"

section \<open>Tokens\<close>

definition json_space :: "char \<Rightarrow> bool" where
  "json_space c \<longleftrightarrow> (of_char c :: nat) \<in> {9, 10, 13, 32}"

definition skip :: "string \<Rightarrow> string" where
  "skip s = dropWhile json_space s"

definition eat :: "char \<Rightarrow> string \<Rightarrow> string option" where
  "eat c s = (if take 1 s = [c] then Some (drop 1 s) else None)"

definition hex_digit :: "char \<Rightarrow> nat option" where
  "hex_digit c = (let n = of_char c in
     if 48 \<le> n \<and> n \<le> 57 then Some (n - 48) else if 97 \<le> n \<and> n \<le> 102 then Some (n - 87)
     else if 65 \<le> n \<and> n \<le> 70 then Some (n - 55) else None)"

definition hex_four :: "char \<Rightarrow> char \<Rightarrow> char \<Rightarrow> char \<Rightarrow> nat option" where
  "hex_four a b c d =
     do { w \<leftarrow> hex_digit a; x \<leftarrow> hex_digit b; y \<leftarrow> hex_digit c; z \<leftarrow> hex_digit d; Some (((w * 16 + x) * 16 + y) * 16 + z) }"

text \<open>The character an escape letter stands for.\<close>

definition escaped :: "char \<Rightarrow> char option" where
  "escaped d =
     (if d = CHR 0x22 \<or> d = CHR 0x5C \<or> d = CHR ''/'' then Some d else if d = CHR ''b'' then Some (CHR 0x08)
      else if d = CHR ''f'' then Some (CHR 0x0C) else if d = CHR ''n'' then Some (CHR 0x0A)
      else if d = CHR ''r'' then Some (CHR 0x0D) else if d = CHR ''t'' then Some (CHR 0x09) else None)"

text \<open>The code points of a string up to its closing quote; control characters are refused.\<close>

fun scan_points :: "string \<Rightarrow> (nat list \<times> string) option" where
  "scan_points [] = None"
| "scan_points (c # r) =
    (if c = CHR 0x22 then Some ([], r)
     else if c = CHR 0x5C then
       (case r of [] \<Rightarrow> None
        | d # r1 \<Rightarrow>
            if d = CHR ''u'' then
              (case r1 of h1 # h2 # h3 # h4 # r2 \<Rightarrow>
                  (case hex_four h1 h2 h3 h4 of None \<Rightarrow> None | Some u \<Rightarrow> cons_fst u (scan_points r2))
               | _ \<Rightarrow> None)
            else (case escaped d of None \<Rightarrow> None | Some e \<Rightarrow> cons_fst (of_char e) (scan_points r1)))
     else if (of_char c :: nat) < 32 then None
     else cons_fst (of_char c) (scan_points r))"

fun join_surrogates :: "nat list \<Rightarrow> nat list" where
  "join_surrogates (u # v # r) =
     (if 0xD800 \<le> u \<and> u \<le> 0xDBFF \<and> 0xDC00 \<le> v \<and> v \<le> 0xDFFF
      then (0x10000 + (u - 0xD800) * 0x400 + (v - 0xDC00)) # join_surrogates r else u # join_surrogates (v # r))"
| "join_surrogates us = us"

definition point_char :: "py_runtime \<Rightarrow> nat \<Rightarrow> char" where
  "point_char rt u = (if u < 256 then char_of u else rt_char rt u)"

definition scan_string :: "py_runtime \<Rightarrow> string \<Rightarrow> (string \<times> string) option" where
  "scan_string rt s = map_option (map_prod (\<lambda>us. List.map (point_char rt) (join_surrogates us)) id) (scan_points s)"

text \<open>\<open>-?(0|[1-9][0-9]*)(\.[0-9]+)?([eE][-+]?[0-9]+)?\<close>, each part and what follows it.\<close>

definition digits :: "string \<Rightarrow> string" where
  "digits s = takeWhile is_digit s"

definition integer_part :: "string \<Rightarrow> string" where
  "integer_part s = (if take 1 s = ''0'' then ''0'' else digits s)"

definition fraction_part :: "string \<Rightarrow> string" where
  "fraction_part s = (if take 1 s = ''.'' \<and> digits (drop 1 s) \<noteq> [] then CHR ''.'' # digits (drop 1 s) else [])"

definition exponent_part :: "string \<Rightarrow> string" where
  "exponent_part s =
     (if take 1 s \<in> {''e'', ''E''} then
        (let sign = (if take 1 (drop 1 s) \<in> {''+'', ''-''} then take 1 (drop 1 s) else []);
             d = digits (drop (1 + length sign) s)
         in if d = [] then [] else take 1 s @ sign @ d)
      else [])"

definition scan_number :: "py_runtime \<Rightarrow> string \<Rightarrow> (pyval \<times> string) option" where
  "scan_number rt s =
     (let sign = (if take 1 s = ''-'' then ''-'' else []); s1 = drop (length sign) s; i = integer_part s1;
          s2 = drop (length i) s1; f = fraction_part s2; s3 = drop (length f) s2; e = exponent_part s3; s4 = drop (length e) s3
      in if i = [] then None
         else if f = [] \<and> e = [] then Some (PInt (read_int (sign @ i)), s4)
         else Some (PFloat (rt_float rt (sign @ i @ f @ e)), s4))"

definition scan_word :: "py_runtime \<Rightarrow> string \<Rightarrow> (pyval \<times> string) option" where
  "scan_word rt s =
     (if take 1 s = ''n'' then expect ''null'' PNone s
      else if take 1 s = ''t'' then expect ''true'' (PBool True) s
      else if take 1 s = ''f'' then expect ''false'' (PBool False) s
      else if take 1 s = ''N'' then expect ''NaN'' (PFloat ''nan'') s
      else if take 1 s = ''I'' then expect ''Infinity'' (PFloat ''inf'') s
      else if take 2 s = ''-I'' then expect ''-Infinity'' (PFloat ''-inf'') s
      else scan_number rt s)"

section \<open>Values\<close>

text \<open>\<open>decode_items\<close> and \<open>decode_fields\<close> start at the first value or key after white space.\<close>

fun decode :: "py_runtime \<Rightarrow> nat \<Rightarrow> string \<Rightarrow> (pyval \<times> string) option"
and decode_items :: "py_runtime \<Rightarrow> nat \<Rightarrow> string \<Rightarrow> (pyval list \<times> string) option"
and decode_fields :: "py_runtime \<Rightarrow> nat \<Rightarrow> params \<Rightarrow> string \<Rightarrow> (params \<times> string) option" where
  "decode rt 0 s = None"
| "decode rt (Suc n) s =
    (case s of [] \<Rightarrow> None
     | c # r \<Rightarrow>
       if c = CHR 0x22 then map_option (map_prod PStr id) (scan_string rt r)
       else if c = CHR ''{'' then
         (case eat CHR ''}'' (skip r) of Some r1 \<Rightarrow> Some (PDict [], r1)
          | None \<Rightarrow> map_option (map_prod PDict id) (decode_fields rt n [] (skip r)))
       else if c = CHR ''['' then
         (case eat CHR '']'' (skip r) of Some r1 \<Rightarrow> Some (PList [], r1)
          | None \<Rightarrow> map_option (map_prod PList id) (decode_items rt n (skip r)))
       else scan_word rt s)"
| "decode_items rt 0 s = None"
| "decode_items rt (Suc n) s =
    (case decode rt n s of None \<Rightarrow> None
     | Some (v, r) \<Rightarrow>
        (case eat CHR '']'' (skip r) of Some r1 \<Rightarrow> Some ([v], r1)
         | None \<Rightarrow>
            (case eat CHR '','' (skip r) of None \<Rightarrow> None
             | Some r1 \<Rightarrow> cons_fst v (decode_items rt n (skip r1)))))"
| "decode_fields rt 0 kvs s = None"
| "decode_fields rt (Suc n) kvs s =
    (case eat CHR 0x22 s of None \<Rightarrow> None
     | Some s1 \<Rightarrow>
        (case scan_string rt s1 of None \<Rightarrow> None
         | Some (k, s2) \<Rightarrow>
            (case eat CHR '':'' (skip s2) of None \<Rightarrow> None
             | Some s3 \<Rightarrow>
                (case decode rt n (skip s3) of None \<Rightarrow> None
                 | Some (v, r) \<Rightarrow>
                    (case eat CHR ''}'' (skip r) of Some r1 \<Rightarrow> Some (AList.update k v kvs, r1)
                     | None \<Rightarrow>
                        (case eat CHR '','' (skip r) of None \<Rightarrow> None
                         | Some r1 \<Rightarrow> decode_fields rt n (AList.update k v kvs) (skip r1)))))))"

text \<open>From the first character on, with fuel for the length of the text.\<close>

definition raw_decode :: "py_runtime \<Rightarrow> string \<Rightarrow> (pyval \<times> string) option" where
  "raw_decode rt s = decode rt (2 * length s + 1) s"

section \<open>What is read is consumed, and the fuel is enough\<close>

lemma length_skip: "length (skip s) \<le> length s"
  by (simp add: skip_def length_dropWhile_le)

lemma eat_shorter: "eat c s = Some r \<Longrightarrow> length r < length s"
  by (cases s) (auto simp: eat_def split: if_splits)

lemma expect_shorter: "expect (c # w) v s = Some (x, r) \<Longrightarrow> length r < length s"
  by (cases s) (auto simp: expect_def split: if_splits)

lemma scan_points_shorter: "scan_points s = Some (us, r) \<Longrightarrow> length r < length s"
  by (induction s arbitrary: us r rule: scan_points.induct)
    (fastforce simp: cons_fst_def split: if_splits list.splits option.splits)+

lemma scan_string_shorter: "scan_string rt s = Some (t, r) \<Longrightarrow> length r < length s"
  by (auto simp: scan_string_def dest: scan_points_shorter)

lemma scan_number_shorter: "scan_number rt s = Some (v, r) \<Longrightarrow> length r < length s"
  by (cases s) (auto simp: scan_number_def Let_def integer_part_def digits_def split: if_splits)

lemma scan_word_shorter: "scan_word rt s = Some (v, r) \<Longrightarrow> length r < length s"
  unfolding scan_word_def
  by (auto dest: expect_shorter scan_number_shorter split: if_splits)

lemma decode_shorter:
  "decode rt n s = Some (v, r) \<Longrightarrow> length r < length s"
  "decode_items rt n s = Some (vs, r) \<Longrightarrow> length r < length s"
  "decode_fields rt n kvs s = Some (fs, r) \<Longrightarrow> length r < length s"
proof (induction rt n s and rt n s and rt n kvs s arbitrary: v r and vs r and fs r rule: decode_decode_items_decode_fields.induct)
  case (2 rt n s)
  obtain c t where s: "s = c # t" using 2(3) by (cases s) auto
  have "length (skip t) < length s" using length_skip[of t] by (simp add: s)
  then show ?case using 2(3) 2(1)[of c t] 2(2)[of c t]
    by (auto simp: s dest!: eat_shorter scan_string_shorter scan_word_shorter split: if_splits option.splits)
next
  case (4 rt n s)
  obtain w r0 where d: "decode rt n s = Some (w, r0)" using 4(3) by (auto split: option.splits)
  have r0: "length (skip r0) < length s" using 4(1)[OF d] length_skip[of r0] by simp
  show ?case
  proof (cases "eat CHR '']'' (skip r0)")
    case (Some r1)
    then show ?thesis using 4(3) d r0 eat_shorter[OF Some] by simp
  next
    case None
    then obtain r1 where r1: "eat CHR '','' (skip r0) = Some r1" using 4(3) d by (auto split: option.splits)
    have "length (skip r1) < length s" using eat_shorter[OF r1] r0 length_skip[of r1] by simp
    moreover have "cons_fst w (decode_items rt n (skip r1)) = Some (vs, r)" using 4(3) d None r1 by simp
    ultimately show ?thesis using 4(2)[OF d _ None r1] by (fastforce simp: cons_fst_def split: option.splits)
  qed
next
  case (6 rt n kvs s)
  obtain s1 k s2 s3 where e: "eat CHR 0x22 s = Some s1" "scan_string rt s1 = Some (k, s2)" "eat CHR '':'' (skip s2) = Some s3"
    using 6(3) by (auto split: option.splits)
  obtain w r0 where d: "decode rt n (skip s3) = Some (w, r0)" using 6(3) e by (auto split: option.splits)
  have "length (skip s3) < length s"
    using eat_shorter[OF e(1)] scan_string_shorter[OF e(2)] eat_shorter[OF e(3)] length_skip[of s2] length_skip[of s3] by linarith
  then have r0: "length (skip r0) < length s" using 6(1)[OF e(1,2) refl e(3) d] length_skip[of r0] by simp
  show ?case
  proof (cases "eat CHR ''}'' (skip r0)")
    case (Some r1)
    then show ?thesis using 6(3) e d r0 eat_shorter[OF Some] by simp
  next
    case None
    then obtain r1 where r1: "eat CHR '','' (skip r0) = Some r1" using 6(3) e d by (auto split: option.splits)
    have "length (skip r1) < length s" using eat_shorter[OF r1] r0 length_skip[of r1] by simp
    then show ?thesis using 6(3) 6(2)[OF e(1,2) refl e(3) d refl None r1] e d None r1 by simp
  qed
qed auto

text \<open>More fuel than \<open>2 * length s + 1\<close> changes nothing.\<close>

lemma more_fuel:
  "(2 * length s < n \<longrightarrow> decode rt n s = decode rt (Suc n) s) \<and>
   (2 * length s + 1 < n \<longrightarrow> decode_items rt n s = decode_items rt (Suc n) s) \<and>
   (2 * length s + 1 < n \<longrightarrow> decode_fields rt n kvs s = decode_fields rt (Suc n) kvs s)"
proof (induction n arbitrary: s kvs)
  case (Suc n)
  have A: "decode rt n t = decode rt (Suc n) t" if "2 * length t < n" for t using Suc.IH[of t] that by blast
  have B: "decode_items rt n t = decode_items rt (Suc n) t" if "2 * length t + 1 < n" for t using Suc.IH[of t] that by blast
  have C: "decode_fields rt n m t = decode_fields rt (Suc n) m t" if "2 * length t + 1 < n" for t m using Suc.IH[of t m] that by blast
  show ?case
  proof (intro conjI impI)
    assume l: "2 * length s < Suc n"
    show "decode rt (Suc n) s = decode rt (Suc (Suc n)) s"
    proof (cases s)
      case (Cons c r)
      have "2 * length (skip r) + 1 < n" using l length_skip[of r] by (simp add: Cons)
      then show ?thesis by (simp only: decode.simps(2) Cons list.case B[of "skip r"] C[of "skip r"])
    qed simp
  next
    assume l: "2 * length s + 1 < Suc n"
    have d: "decode rt (Suc n) s = decode rt n s" using A[of s] l by simp
    have "decode_items rt n (skip r1) = decode_items rt (Suc n) (skip r1)"
      if "decode rt n s = Some (v, r)" "eat CHR '','' (skip r) = Some r1" for v r r1
      by (rule B) (use that decode_shorter(1)[OF that(1)] eat_shorter[OF that(2)] length_skip[of r] length_skip[of r1] l in linarith)
    then show "decode_items rt (Suc n) s = decode_items rt (Suc (Suc n)) s"
      unfolding decode_items.simps d by (auto split: option.split prod.split)
  next
    assume l: "2 * length s + 1 < Suc n"
    have d: "decode rt (Suc n) (skip s3) = decode rt n (skip s3)" and
      f: "decode rt n (skip s3) = Some (v, r) \<Longrightarrow> eat CHR '','' (skip r) = Some r1 \<Longrightarrow>
        decode_fields rt (Suc n) m (skip r1) = decode_fields rt n m (skip r1)"
      if h: "eat CHR 0x22 s = Some s1" "scan_string rt s1 = Some (k, s2)" "eat CHR '':'' (skip s2) = Some s3"
      for s1 k s2 s3 v r r1 m
    proof -
      have s: "length (skip s3) < length s"
        using eat_shorter[OF h(1)] scan_string_shorter[OF h(2)] eat_shorter[OF h(3)] length_skip[of s2] length_skip[of s3] by linarith
      then show "decode rt (Suc n) (skip s3) = decode rt n (skip s3)" using A[of "skip s3"] l by simp
      assume g: "decode rt n (skip s3) = Some (v, r)" "eat CHR '','' (skip r) = Some r1"
      have "2 * length (skip r1) + 1 < n"
        using s decode_shorter(1)[OF g(1)] eat_shorter[OF g(2)] length_skip[of r] length_skip[of r1] l by linarith
      then show "decode_fields rt (Suc n) m (skip r1) = decode_fields rt n m (skip r1)" by (rule C[symmetric])
    qed
    show "decode_fields rt (Suc n) kvs s = decode_fields rt (Suc (Suc n)) kvs s"
      by (subst decode_fields.simps(2)[of rt n], subst decode_fields.simps(2)[of rt "Suc n"])
        (auto simp: d f simp del: decode.simps decode_fields.simps split: option.split prod.split)
  qed
qed simp

lemma raw_decode_fuel: "2 * length s < n \<Longrightarrow> decode rt n s = raw_decode rt s"
proof (induction n)
  case (Suc n)
  show ?case
  proof (cases "2 * length s < n")
    case True
    then show ?thesis using Suc.IH more_fuel[of s n rt] by simp
  next
    case False
    then have "Suc n = 2 * length s + 1" using Suc.prems by simp
    then show ?thesis by (simp only: raw_decode_def)
  qed
qed simp

section \<open>What is written is read back\<close>

text \<open>Values that JSON keeps apart, with distinct keys.\<close>

fun plain_json :: "pyval \<Rightarrow> bool" where
  "plain_json (PFloat t) = False"
| "plain_json (PTuple vs) = False"
| "plain_json (PObj c) = False"
| "plain_json (PList vs) = list_all plain_json vs"
| "plain_json (PDict kvs) = (distinct (List.map fst kvs) \<and> list_all (\<lambda>(k, v). plain_json v) kvs)"
| "plain_json PNone = True"
| "plain_json (PBool b) = True"
| "plain_json (PInt i) = True"
| "plain_json (PStr s) = True"

lemma hex_digit_char: "k < 16 \<Longrightarrow> hex_digit (hex_char k) = Some k"
  by (simp add: hex_digit_def hex_char_def)

lemma hex_four_char:
  assumes "n < 256"
  shows "hex_four CHR ''0'' CHR ''0'' (hex_char (n div 16)) (hex_char (n mod 16)) = Some n"
proof -
  have "hex_digit CHR ''0'' = Some 0" by (simp add: hex_digit_def)
  moreover have "n div 16 * 16 + n mod 16 = n" by simp
  ultimately show ?thesis using assms by (simp add: hex_four_def hex_digit_char)
qed

lemma scan_escape: "scan_points (CHR 0x5C # CHR ''u'' # CHR ''0'' # CHR ''0'' # hex_char (n div 16) # hex_char (n mod 16) # r) =
    cons_fst n (scan_points r)" if "n < 256"
  by (simp add: hex_four_char[OF that])

lemma hex_char_small: "k < 16 \<Longrightarrow> (of_char (hex_char k) :: nat) < 127"
  by (simp add: hex_char_def)

lemma ascii_id: "list_all (\<lambda>c. (of_char c :: nat) < 127) t \<Longrightarrow> ascii_text t = t"
  by (induction t) (simp_all add: ascii_text_def ascii_char_def)

lemma scan_written_char: "scan_points (ascii_text (escape_char c) @ r) = cons_fst (of_char c) (scan_points r)"
proof -
  let ?n = "of_char c :: nat"
  let ?special = "{CHR 0x22, CHR 0x5C, CHR 0x0A, CHR 0x0D, CHR 0x09, CHR 0x08, CHR 0x0C}"
  have s: "?n div 16 < 16" "?n mod 16 < 16" "?n < 256" by (simp_all add: div_less_iff_less_mult)
  consider "c \<in> ?special" | "c \<notin> ?special" "?n < 32" | "c \<notin> ?special" "32 \<le> ?n" "?n < 127" | "127 \<le> ?n" by linarith
  then show ?thesis
  proof cases
    case 1
    then show ?thesis by (elim insertE emptyE) (simp_all add: escape_char_def ascii_text_def ascii_char_def escaped_def)
  next
    case 2
    then have e: "escape_char c = [CHR 0x5C, CHR ''u'', CHR ''0'', CHR ''0'', hex_char (?n div 16), hex_char (?n mod 16)]"
      by (simp add: escape_char_def)
    have "ascii_text (escape_char c) = escape_char c"
      by (rule ascii_id) (simp add: e hex_char_small[OF s(1)] hex_char_small[OF s(2)])
    then show ?thesis using scan_escape[OF s(3), of r] by (simp only: e append_Cons append_Nil)
  next
    case 3
    then have e: "escape_char c = [c]" by (simp add: escape_char_def)
    show ?thesis using 3 by (simp add: e ascii_text_def ascii_char_def)
  next
    case 4
    have ne: "c \<noteq> d" if "(of_char d :: nat) < 127" for d using that 4 by (metis leD)
    have "c \<notin> ?special" by (simp add: ne)
    then have e: "escape_char c = [c]" using 4 by (simp add: escape_char_def)
    have "ascii_text (escape_char c) = [CHR 0x5C, CHR ''u'', CHR ''0'', CHR ''0'', hex_char (?n div 16), hex_char (?n mod 16)]"
      using 4 by (simp add: e ascii_text_def ascii_char_def)
    then show ?thesis using scan_escape[OF s(3), of r] by (simp only: append_Cons append_Nil)
  qed
qed

lemma ascii_text_append: "ascii_text (s @ t) = ascii_text s @ ascii_text t"
  by (simp add: ascii_text_def)

lemma written_quote: "ascii_text (quote s) = CHR 0x22 # ascii_text (concat (List.map escape_char s)) @ [CHR 0x22]"
proof -
  have q: "ascii_text (CHR 0x22 # t) = CHR 0x22 # ascii_text t" for t by (simp add: ascii_text_def ascii_char_def)
  have e: "ascii_text [] = []" by (simp add: ascii_text_def)
  show ?thesis by (simp add: quote_def ascii_text_append q e)
qed

lemma scan_points_body:
  "scan_points (ascii_text (concat (List.map escape_char s)) @ CHR 0x22 # r) = Some (List.map of_char s, r)"
proof (induction s)
  case Nil
  show ?case by (simp add: ascii_text_def)
next
  case (Cons c s)
  then show ?case by (simp add: ascii_text_append scan_written_char del: scan_points.simps)
qed

lemma join_small: "\<forall>u\<in>set us. u < 0xD800 \<Longrightarrow> join_surrogates us = us"
  by (induction us rule: join_surrogates.induct) auto

lemma scan_written: "scan_string rt (ascii_text (concat (List.map escape_char s)) @ CHR 0x22 # r) = Some (s, r)"
proof -
  have "\<forall>u\<in>set (List.map of_char s). u < (0xD800 :: nat)" by (auto intro: order.strict_trans[OF nat_of_char_less_256])
  moreover have "List.map (point_char rt \<circ> of_char) s = s" by (induction s) (simp_all add: point_char_def)
  ultimately show ?thesis by (simp add: scan_string_def scan_points_body join_small)
qed

text \<open>A number ends where no character of a number follows.\<close>

lemma digits_append:
  "list_all is_digit t \<Longrightarrow> stopper r \<Longrightarrow> digits (t @ r) = t"
  by (induction t) (auto simp: digits_def stopper_def num_char_def split: list.splits)

lemma hd_show_nat_zero: "hd (show_nat k) = CHR ''0'' \<Longrightarrow> k = 0"
proof (induction k rule: show_nat.induct)
  case (1 k)
  show ?case
  proof (cases "k < 10")
    case True
    then have "digit_char k = CHR ''0''" using "1.prems" by (subst (asm) show_nat.simps) simp
    then show ?thesis using digit_val_char[OF True] by (simp add: digit_val_def)
  next
    case False
    then have "hd (show_nat (k div 10)) = CHR ''0''" using "1.prems" by (subst (asm) show_nat.simps) simp
    then show ?thesis using "1.IH"[OF False] False by simp
  qed
qed

lemma integer_written: "stopper r \<Longrightarrow> integer_part (show_nat k @ r) = show_nat k"
proof -
  assume r: "stopper r"
  obtain c t where s: "show_nat k = c # t" by (cases "show_nat k") auto
  have d: "digits (show_nat k @ r) = show_nat k"
    by (rule digits_append[OF _ r]) (simp add: list_all_iff show_nat_digits)
  have z: "show_nat 0 = ''0''" by code_simp
  show ?thesis
  proof (cases "c = CHR ''0''")
    case True
    then have "k = 0" using hd_show_nat_zero[of k] s by simp
    then show ?thesis by (simp add: integer_part_def z)
  next
    case False
    then show ?thesis using d s by (simp add: integer_part_def)
  qed
qed

lemma number_stops: "stopper r \<Longrightarrow> fraction_part r = [] \<and> exponent_part r = []"
  by (cases r) (auto simp: stopper_def num_char_def fraction_part_def exponent_part_def)

lemma scan_written_int: "stopper r \<Longrightarrow> scan_word rt (show_int i @ r) = Some (PInt i, r)"
proof -
  assume r: "stopper r"
  obtain c t where s: "show_nat (nat \<bar>i\<bar>) = c # t" "is_digit c"
    using hd_show_nat[of "nat \<bar>i\<bar>"] by (cases "show_nat (nat \<bar>i\<bar>)") auto
  have c: "c \<noteq> CHR ''-''" "c \<notin> {CHR ''n'', CHR ''t'', CHR ''f'', CHR ''N'', CHR ''I''}" using s(2) by (auto simp: is_digit_def)
  have i: "show_int i = (if i < 0 then CHR ''-'' # c # t else c # t)" using s(1) by (auto simp: show_int_def)
  have p: "integer_part (c # t @ r) = c # t" using integer_written[OF r, of "nat \<bar>i\<bar>"] s(1) by simp
  have "scan_number rt (show_int i @ r) = Some (PInt (read_int (show_int i)), r)"
    unfolding scan_number_def Let_def using number_stops[OF r] c(1) by (simp add: i p)
  then show ?thesis using c read_int_show[of i] unfolding scan_word_def by (auto simp: i)
qed

section \<open>Lists and objects\<close>

definition decodes :: "py_runtime \<Rightarrow> string \<Rightarrow> pyval \<Rightarrow> bool" where
  "decodes rt t u \<longleftrightarrow> t \<noteq> [] \<and> \<not> json_space (hd t) \<and> hd t \<noteq> CHR '']'' \<and>
     (\<forall>n rest. 2 * length t < n \<longrightarrow> stopper rest \<longrightarrow> decode rt n (t @ rest) = Some (u, rest))"

lemma decodesD: "decodes rt t u \<Longrightarrow> 2 * length t < n \<Longrightarrow> stopper rest \<Longrightarrow> decode rt n (t @ rest) = Some (u, rest)"
  by (simp add: decodes_def)

lemma decodesI:
  assumes "t = c # r" and "\<not> json_space c" and "c \<noteq> CHR '']''"
    and "\<And>n rest. 2 * length r \<le> n \<Longrightarrow> stopper rest \<Longrightarrow> decode rt (Suc n) (c # r @ rest) = Some (u, rest)"
  shows "decodes rt t u"
proof -
  have "decode rt n (t @ rest) = Some (u, rest)" if "2 * length t < n" "stopper rest" for n rest
    using assms(4)[of "n - 1" rest] that assms(1) by (cases n) auto
  then show ?thesis using assms(1-3) by (simp add: decodes_def)
qed

lemma skip_start: "t \<noteq> [] \<Longrightarrow> \<not> json_space (hd t) \<Longrightarrow> skip (t @ r) = t @ r"
  by (cases t) (simp_all add: skip_def)

lemma skip_punct [simp]:
  "skip (CHR '','' # r) = CHR '','' # r" "skip (CHR '']'' # r) = CHR '']'' # r" "skip (CHR ''}'' # r) = CHR ''}'' # r"
  "skip (CHR '':'' # r) = CHR '':'' # r" "skip (CHR 0x22 # r) = CHR 0x22 # r" "skip (CHR '' '' # r) = skip r"
  by (simp_all add: skip_def json_space_def)

lemma eat_simps [simp]: "eat c (d # r) = (if d = c then Some r else None)"
  by (simp add: eat_def)

lemma decode_items_join:
  "list_all2 (decodes rt) ts us \<Longrightarrow> ts \<noteq> [] \<Longrightarrow> 2 * length (join_with '', '' ts) + 1 < n \<Longrightarrow>
     decode_items rt n (join_with '', '' ts @ CHR '']'' # rest) = Some (us, rest)"
proof (induction "'', ''" ts arbitrary: us n rule: join_with.induct)
  case (2 t)
  then obtain u where u: "us = [u]" "decodes rt t u" by (auto simp: list_all2_Cons1)
  obtain m where m: "n = Suc m" "2 * length t < m" using 2 by (cases n) auto
  show ?case using decodesD[OF u(2) m(2), of "CHR '']'' # rest"] u(1) m(1) by simp
next
  case (3 t v ts)
  then obtain u us' where u: "us = u # us'" "decodes rt t u" "list_all2 (decodes rt) (v # ts) us'"
    by (auto simp: list_all2_Cons1)
  define tail where "tail = join_with '', '' (v # ts)"
  obtain m where m: "n = Suc m" "2 * length t < m" "2 * length tail + 1 < m"
    using 3(4) by (cases n) (auto simp: tail_def)
  have "decode_items rt m (tail @ CHR '']'' # rest) = Some (us', rest)"
    unfolding tail_def by (rule 3(1)[OF u(3)]) (use m in \<open>simp_all add: tail_def\<close>)
  moreover have "decodes rt v (hd us')" using u(3) by (auto simp: list_all2_Cons1)
  then have "skip (tail @ CHR '']'' # rest) = tail @ CHR '']'' # rest"
    by (intro skip_start) (cases ts; auto simp: decodes_def tail_def)+
  ultimately show ?case
    using decodesD[OF u(2) m(2), of "CHR '','' # CHR '' '' # tail @ CHR '']'' # rest"] u(1) m(1)
    by (simp add: tail_def)
qed simp

lemma update_new: "k \<notin> fst ` set kvs \<Longrightarrow> AList.update k v kvs = kvs @ [(k, v)]"
  by (induction kvs) auto

lemma decode_fields_join:
  "list_all2 (\<lambda>p q. fst p = fst q \<and> decodes rt (snd p) (snd q)) ps qs \<Longrightarrow> ps \<noteq> [] \<Longrightarrow>
     distinct (List.map fst (kvs @ qs)) \<Longrightarrow> 2 * length (join_with '', '' (List.map (write_field '': '') ps)) + 1 < n \<Longrightarrow>
     decode_fields rt n kvs (join_with '', '' (List.map (write_field '': '') ps) @ CHR ''}'' # rest) = Some (kvs @ qs, rest)"
proof (induction ps arbitrary: qs kvs n rule: induct_list012)
  case (2 p)
  then obtain k t u where u: "p = (k, t)" "qs = [(k, u)]" "decodes rt t u"
    by (cases p) (auto simp: list_all2_Cons1)
  obtain m where m: "n = Suc m" "2 * length t < m" using 2 u by (cases n) (auto simp: write_field_def written_quote)
  have s: "skip (t @ CHR ''}'' # rest) = t @ CHR ''}'' # rest" using u(3) by (intro skip_start) (auto simp: decodes_def)
  have k: "AList.update k u kvs = kvs @ [(k, u)]" by (rule update_new) (use 2 u in auto)
  show ?case using decodesD[OF u(3) m(2), of "CHR ''}'' # rest"] u m(1) s k
    by (simp add: write_field_def written_quote scan_written)
next
  case (3 p p2 ps)
  then obtain k t u qs' where u: "p = (k, t)" "qs = (k, u) # qs'" "decodes rt t u"
    "list_all2 (\<lambda>p q. fst p = fst q \<and> decodes rt (snd p) (snd q)) (p2 # ps) qs'"
    by (cases p) (auto simp: list_all2_Cons1)
  define tail where "tail = join_with '', '' (List.map (write_field '': '') (p2 # ps))"
  have j: "join_with '', '' (List.map (write_field '': '') (p # p2 # ps)) = write_field '': '' p @ '', '' @ tail"
    by (simp add: tail_def)
  obtain m where m: "n = Suc m" "2 * length t < m" "2 * length tail + 1 < m"
    using "3.prems"(4) u(1) unfolding j by (cases n) (auto simp: write_field_def written_quote)
  have k: "AList.update k u kvs = kvs @ [(k, u)]" by (rule update_new) (use 3(5) u in auto)
  have r: "decode_fields rt m (kvs @ [(k, u)]) (tail @ CHR ''}'' # rest) = Some ((kvs @ [(k, u)]) @ qs', rest)"
    unfolding tail_def by (rule "3.IH"(2)[OF u(4)]) (use m(3) 3(5) u in \<open>simp_all add: tail_def\<close>)
  have s: "skip (t @ x) = t @ x" for x using u(3) by (intro skip_start) (auto simp: decodes_def)
  have "skip (tail @ CHR ''}'' # rest) = tail @ CHR ''}'' # rest"
    by (rule skip_start) (cases ps; simp add: tail_def write_field_def written_quote json_space_def)+
  then show ?case
    unfolding j
    using decodesD[OF u(3) m(2), of "CHR '','' # CHR '' '' # tail @ CHR ''}'' # rest"] u m(1) s k r
    by (simp add: write_field_def written_quote scan_written)
qed simp

text \<open>Every plain value is read back, for the standard separators and unsorted keys.\<close>

lemma decodes_written: "plain_json v \<Longrightarrow> decodes rt (dumps '', '' '': '' False v) v"
proof (induction v rule: plain_json.induct)
  case (4 vs)
  let ?ts = "List.map (dumps '', '' '': '' False) vs"
  have l: "list_all2 (decodes rt) ?ts vs" using 4 by (induction vs) auto
  show ?case
  proof (rule decodesI)
    show "dumps '', '' '': '' False (PList vs) = CHR ''['' # join_with '', '' ?ts @ '']''" by simp
    fix n rest assume n: "2 * length (join_with '', '' ?ts @ '']'') \<le> n"
    show "decode rt (Suc n) (CHR ''['' # (join_with '', '' ?ts @ '']'') @ rest) = Some (PList vs, rest)"
    proof (cases vs)
      case (Cons u us)
      have "decodes rt (dumps '', '' '': '' False u) u" using l Cons by simp
      then obtain c r where c: "join_with '', '' ?ts = c # r" "\<not> json_space c" "c \<noteq> CHR '']''"
        using Cons by (cases us; cases "dumps '', '' '': '' False u") (auto simp: decodes_def)
      have "skip (join_with '', '' ?ts @ CHR '']'' # rest) = join_with '', '' ?ts @ CHR '']'' # rest"
        by (rule skip_start) (use c in simp_all)
      then show ?thesis using decode_items_join[OF l, of n rest] n c Cons by simp
    qed simp
  qed (simp_all add: json_space_def)
next
  case (5 kvs)
  let ?ps = "List.map (\<lambda>(k, v). (k, dumps '', '' '': '' False v)) kvs"
  let ?t = "join_with '', '' (List.map (write_field '': '') ?ps)"
  have l: "list_all2 (\<lambda>p q. fst p = fst q \<and> decodes rt (snd p) (snd q)) ?ps kvs"
  proof -
    have "decodes rt (dumps '', '' '': '' False (snd p)) (snd p)" if "p \<in> set kvs" for p
      using 5 that by (cases p) (fastforce simp: list_all_iff)
    then show ?thesis by (simp add: list_all2_map1 list_all2_same case_prod_unfold)
  qed
  show ?case
  proof (rule decodesI)
    show "dumps '', '' '': '' False (PDict kvs) = CHR ''{'' # ?t @ ''}''" by (simp add: case_prod_unfold)
    fix n rest assume n: "2 * length (?t @ ''}'') \<le> n"
    show "decode rt (Suc n) (CHR ''{'' # (?t @ ''}'') @ rest) = Some (PDict kvs, rest)"
    proof (cases kvs)
      case (Cons p ps)
      obtain r where c: "?t = CHR 0x22 # r"
        using Cons by (cases ps) (auto simp: write_field_def written_quote split: prod.splits)
      have "decode_fields rt n [] (?t @ CHR ''}'' # rest) = Some ([] @ kvs, rest)"
        by (rule decode_fields_join[OF l]) (use 5 n Cons in auto)
      then show ?thesis using c by simp
    qed simp
  qed (simp_all add: json_space_def)
next
  case (9 s)
  show ?case
    by (rule decodesI) (auto simp: written_quote scan_written json_space_def)
next
  case (8 i)
  then show ?case
  proof -
    obtain c r where i: "show_int i = c # r" "is_digit c \<or> c = CHR ''-''" using hd_show_int[of i] by (cases "show_int i") auto
    show ?thesis
    proof (rule decodesI)
      show "dumps '', '' '': '' False (PInt i) = c # r" using i by simp
      have c: "c \<noteq> CHR 0x22" "c \<noteq> CHR ''{''" "c \<noteq> CHR ''[''" using i(2) by (auto simp: is_digit_def)
      show "decode rt (Suc n) (c # r @ rest) = Some (PInt i, rest)" if "stopper rest" for n rest
        using scan_written_int[OF that, of rt i] i c by simp
    qed (use i(2) in \<open>auto simp: json_space_def is_digit_def\<close>)
  qed
qed (auto intro!: decodesI simp: scan_word_def expect_def json_space_def)

lemma raw_decode_written: "plain_json v \<Longrightarrow> raw_decode rt (dumps '', '' '': '' False v) = Some (v, [])"
  using decodesD[OF decodes_written, of v "2 * length (dumps '', '' '': '' False v) + 1" "[]" rt] by (simp add: raw_decode_def)

end
