(* ===== verification/Action_Json.thy ===== *)
theory Action_Json
  imports Json_Text Action_Assessment
begin

text \<open>
  One JSON form of an action, written with the standard separators and read back with the reader of
  \<open>Json_Text\<close>. The budget domain stores an approved action as the JSON that pydantic writes for it;
  its own theorems take the pair of functions as a parameter, and this is an instance of it.
\<close>

fun status_value :: "action_status \<Rightarrow> string" where
  "status_value APending = ''pending''"
| "status_value AValidating = ''validating''"
| "status_value AApproved = ''approved''"
| "status_value ARejected = ''rejected''"
| "status_value ACompleted = ''completed''"
| "status_value AFailed = ''failed''"

definition action_value :: "action \<Rightarrow> pyval" where
  "action_value a = PDict
     [(''id'', PStr (act_id a)), (''created_at'', PInt (act_created_at a)), (''decision_id'', PStr (act_decision_id a)),
      (''governance_domain'', PStr (act_domain a)), (''component'', PStr (act_component a)),
      (''action_type'', PStr (type_value (act_type a))), (''status'', PStr (status_value (act_status a))),
      (''reason'', PStr (act_reason a)), (''confidence'', PInt (act_confidence a)),
      (''requires_approval'', PBool (act_requires_approval a)), (''rollback_required'', PBool (act_rollback_required a)),
      (''parameters'', PDict (act_parameters a)), (''expected_outcome'', outcome_json (act_expected a))]"

definition write_action :: "action \<Rightarrow> string" where
  "write_action a = dumps '', '' '': '' False (action_value a)"

section \<open>Reading\<close>

definition text_at :: "params \<Rightarrow> string \<Rightarrow> string" where
  "text_at ps k = (case map_of ps k of Some (PStr s) \<Rightarrow> s | _ \<Rightarrow> [])"

definition int_at :: "params \<Rightarrow> string \<Rightarrow> int" where
  "int_at ps k = (case map_of ps k of Some (PInt i) \<Rightarrow> i | _ \<Rightarrow> 0)"

definition bool_at :: "params \<Rightarrow> string \<Rightarrow> bool" where
  "bool_at ps k = (case map_of ps k of Some (PBool b) \<Rightarrow> b | _ \<Rightarrow> False)"

definition dict_at :: "params \<Rightarrow> string \<Rightarrow> params option" where
  "dict_at ps k = (case map_of ps k of Some (PDict d) \<Rightarrow> Some d | _ \<Rightarrow> None)"

definition value_type :: "string \<Rightarrow> action_type option" where
  "value_type s = find (\<lambda>t. type_value t = s)
     [RestartComponent, CreateCheckpoint, ScaleDown, IsolateComponent, Start, Stop, Restart, Create, Remove]"

definition value_status :: "string \<Rightarrow> action_status option" where
  "value_status s = find (\<lambda>t. status_value t = s) [APending, AValidating, AApproved, ARejected, ACompleted, AFailed]"

definition value_outcome :: "params \<Rightarrow> expected_outcome option" where
  "value_outcome ps = map_option (\<lambda>d. \<lparr>exp_target = text_at d ''target'', exp_operation = text_at d ''operation'',
     exp_state = text_at d ''expected_state''\<rparr>) (dict_at ps ''expected_outcome'')"

definition value_action :: "pyval \<Rightarrow> action option" where
  "value_action v =
     (case v of PDict ps \<Rightarrow>
        (case (value_type (text_at ps ''action_type''), value_status (text_at ps ''status''), dict_at ps ''parameters'') of
           (Some t, Some s, Some d) \<Rightarrow> Some \<lparr>act_id = text_at ps ''id'', act_created_at = int_at ps ''created_at'',
             act_decision_id = text_at ps ''decision_id'', act_domain = text_at ps ''governance_domain'',
             act_component = text_at ps ''component'', act_type = t, act_status = s, act_reason = text_at ps ''reason'',
             act_confidence = int_at ps ''confidence'', act_requires_approval = bool_at ps ''requires_approval'',
             act_rollback_required = bool_at ps ''rollback_required'', act_parameters = d, act_expected = value_outcome ps\<rparr>
         | _ \<Rightarrow> None)
      | _ \<Rightarrow> None)"

definition low_points :: py_runtime where
  "low_points = \<lparr>rt_char = (\<lambda>_. CHR ''?''), rt_float = (\<lambda>t. t), rt_json_error = (\<lambda>t. []), rt_type_error = (\<lambda>v. [])\<rparr>"

definition read_action :: "string \<Rightarrow> action option" where
  "read_action t = (case raw_decode low_points t of Some (v, []) \<Rightarrow> value_action v | _ \<Rightarrow> None)"

section \<open>What is written is read back\<close>

lemma value_type_inverse [simp]: "value_type (type_value t) = Some t"
  by (cases t) (simp_all add: value_type_def)

lemma value_status_inverse [simp]: "value_status (status_value s) = Some s"
  by (cases s) (simp_all add: value_status_def)

lemma value_action_inverse: "value_action (action_value a) = Some a"
  by (cases "act_expected a")
    (simp_all add: value_action_def action_value_def text_at_def int_at_def bool_at_def dict_at_def value_outcome_def outcome_json_def)

lemma action_value_plain: "plain_json (PDict (act_parameters a)) \<Longrightarrow> plain_json (action_value a)"
  by (cases "act_expected a") (simp_all add: action_value_def outcome_json_def)

lemma read_written: "plain_json (PDict (act_parameters a)) \<Longrightarrow> read_action (write_action a) = Some a"
  using raw_decode_written[OF action_value_plain, of a low_points]
  by (simp add: read_action_def write_action_def value_action_inverse)

lemma write_action_text: "write_action a \<noteq> []"
  by (simp add: write_action_def action_value_def)

end
