(* ===== verification/Budget_Domain.thy ===== *)
theory Budget_Domain
  imports Budget_Repository Governed_Lifecycle
begin

text \<open>
  The budget domain as the governed lifecycle sees it: the two evaluators
  (\<open>app/budget/evaluators.py\<close>), the ledger adapter (\<open>app/budget/adapter.py\<close>), the registration at
  startup (\<open>app/budget/bootstrap.py\<close>) and the financial observer (\<open>app/budget/observer.py\<close>). The
  world of the governance state is the budget database.
  The human text of a \<open>BudgetError\<close> is not modelled, only its code; a database that cannot be read
  while a receipt is looked up is not modelled either.
\<close>

definition governance_domain :: string where
  "governance_domain = ''rmt.budget.v1''"

definition adapter_name :: string where
  "adapter_name = ''budget-ledger''"

section \<open>Evaluators\<close>

fun error_class :: "berror \<Rightarrow> string" where
  "error_class (Domain c) = ''BudgetError''"
| "error_class (Integrity w) = ''IntegrityError''"
| "error_class (PyError c) = c"

definition assess_action :: "bdb \<Rightarrow> action \<Rightarrow> berror + mutation_evidence" where
  "assess_action w a =
     (case bind_action (bw_sha w) a adapter_name of
        Inl e \<Rightarrow> Inl (PyError ''InvalidInstruction'')
      | Inr (digest, payload) \<Rightarrow> validate_mutation (act_parameters a) (Some digest) w)"

definition budget_policy :: "bdb \<Rightarrow> action \<Rightarrow> raw_policy answer" where
  "budget_policy w a =
     (case assess_action w a of
        Inl (Domain c) \<Rightarrow> Answer (py_policy \<lparr>pol_allowed = False,
          pol_reason = ''Budget policy denied ['' @ c @ '']'', pol_requires_approval = False,
          pol_refs = [''budget:denial:'' @ c]\<rparr>)
      | Inl e \<Rightarrow> Raises (error_class e)
      | Inr ev \<Rightarrow> Answer (py_policy \<lparr>pol_allowed = True,
          pol_reason = ''Budget domain policy and permission checks passed'', pol_requires_approval = False,
          pol_refs = me_refs ev\<rparr>))"

definition budget_policy_evaluator :: "bdb policy_evaluator" where
  "budget_policy_evaluator = \<lparr>pe_id = ''rmt.budget.v1.policy'', pe_version = ''1'', pe_evaluate = budget_policy\<rparr>"

definition impact_text :: "mutation_evidence \<Rightarrow> string" where
  "impact_text ev = ''Apply '' @ me_mutation ev @ '' for '' @ py_str (me_amount ev) @ '' '' @ me_currency ev @
     '' minor units; available changes from '' @ show_int (me_before ev) @ '' to '' @ show_int (me_after ev)"

definition budget_risk :: "bdb \<Rightarrow> action \<Rightarrow> raw_risk answer" where
  "budget_risk w a =
     (case assess_action w a of
        Inl (Domain c) \<Rightarrow> Answer (py_risk \<lparr>rk_action_id = act_id a, rk_component = act_component a,
          rk_type = type_value (act_type a), rk_impact = ''Budget mutation cannot be safely assessed'',
          rk_level = ''unknown'', rk_rollback = False, rk_uncertainty = ''denied:'' @ c,
          rk_recovery = ''stop without adapter invocation'', rk_refs = [''budget:denial:'' @ c]\<rparr>)
      | Inl e \<Rightarrow> Raises (error_class e)
      | Inr ev \<Rightarrow> Answer (py_risk \<lparr>rk_action_id = act_id a, rk_component = act_component a,
          rk_type = type_value (act_type a), rk_impact = impact_text ev, rk_level = ''medium'', rk_rollback = True,
          rk_uncertainty = ''low: serialized transaction revalidates all evidence'',
          rk_recovery = ''query durable receipt by immutable instruction digest; never replay an unresolved outcome'',
          rk_refs = me_refs ev\<rparr>))"

definition budget_risk_evaluator :: "bdb risk_evaluator" where
  "budget_risk_evaluator = \<lparr>re_id = ''rmt.budget.v1.risk'', re_version = ''1'', re_evaluate = budget_risk\<rparr>"

section \<open>The ledger adapter\<close>

definition budget_supports :: "request \<Rightarrow> bool" where
  "budget_supports r \<longleftrightarrow>
     (case mutation_param (req_parameters r) of Inl e \<Rightarrow> False | Inr m \<Rightarrow>
        pv_domain (req_prov r) = governance_domain \<and> req_operation r = ''create'' \<and> truthy_str (pv_digest (req_prov r)))"

definition receipt_dict :: "receipt \<Rightarrow> pyval" where
  "receipt_dict rc = PDict [(''instruction_digest'', PStr (rc_digest rc)), (''idempotency_key'', PStr (rc_key rc)),
     (''content_digest'', PStr (rc_content rc)), (''parameters_json'', PStr (rc_parameters rc)),
     (''execution_id'', PStr (rc_execution rc)), (''ledger_entry_id'', PStr (rc_entry rc)),
     (''mutation_type'', PStr (rc_mutation rc)),
     (''request_id'', case rc_request rc of None \<Rightarrow> PNone | Some k \<Rightarrow> PStr k),
     (''request_version'', case rc_version rc of None \<Rightarrow> PNone | Some n \<Rightarrow> PInt n),
     (''available_minor'', PInt (rc_available rc)), (''currency'', PStr (rc_currency rc)),
     (''created_at'', PStr (rc_created rc))]"

text \<open>\<open>str(request.instruction_digest)\<close>.\<close>

definition digest_text :: "request \<Rightarrow> string" where
  "digest_text r = (case pv_digest (req_prov r) of None \<Rightarrow> ''None'' | Some d \<Rightarrow> d)"

definition completed :: "request \<Rightarrow> string \<Rightarrow> params \<Rightarrow> exec_result" where
  "completed r why out = \<lparr>res_execution_id = req_execution_id r, res_status = ''completed'', res_success = True,
     res_message = why, res_output = out\<rparr>"

definition not_completed :: "request \<Rightarrow> string \<Rightarrow> params \<Rightarrow> exec_result" where
  "not_completed r why out = \<lparr>res_execution_id = req_execution_id r, res_status = ''failed'', res_success = False,
     res_message = why, res_output = out\<rparr>"

definition recovery :: "request \<Rightarrow> berror \<Rightarrow> bdb \<Rightarrow> exec_result" where
  "recovery r e w =
     (case (receipt_by_digest (digest_text r) w, e) of
        (Some rc, Domain c) \<Rightarrow> completed r ''Recovered existing durable Budget mutation receipt''
          [(''receipt'', receipt_dict rc), (''recovered'', PBool True)]
      | (Some rc, _) \<Rightarrow> completed r ''Recovered committed Budget mutation after ambiguous response''
          [(''receipt'', receipt_dict rc), (''recovered'', PBool True)]
      | (None, Domain c) \<Rightarrow> not_completed r (''Budget adapter rejected ['' @ c @ '']'')
          [(''financial_outcome'', PStr ''adapter_failed_no_effect''), (''error_code'', PStr c)]
      | (None, e) \<Rightarrow> not_completed r (''Budget mutation outcome is unknown: '' @ error_class e)
          [(''financial_outcome'', PStr ''outcome_unknown'')])"

definition budget_execute :: "request \<Rightarrow> bdb \<Rightarrow> exec_result option \<times> bdb" where
  "budget_execute r w =
     (case apply_mutation (req_parameters r) (digest_text r) (req_execution_id r) w of
        (Inr rc, w') \<Rightarrow> (Some (completed r ''Budget mutation committed atomically'' [(''receipt'', receipt_dict rc)]), w')
      | (Inl e, w') \<Rightarrow> (Some (recovery r e w'), w'))"

definition budget_adapter :: "bdb adapter" where
  "budget_adapter = \<lparr>ad_supports = budget_supports, ad_execute = budget_execute\<rparr>"

definition budget_registration :: "bdb registration" where
  "budget_registration = \<lparr>rg_domain = governance_domain, rg_policy = budget_policy_evaluator,
     rg_risk = budget_risk_evaluator, rg_operations = [''create''], rg_adapters = [adapter_name]\<rparr>"

definition register_budget_domain :: "bdb gov \<Rightarrow> assess_error + bdb gov" where
  "register_budget_domain st =
     (if g_registry st governance_domain \<noteq> None then Inr (register_adapter adapter_name budget_adapter st)
      else and_then (register_domain budget_registration st) (\<lambda>st1.
           Inr (register_adapter adapter_name budget_adapter st1)))"

section \<open>The financial observer\<close>

text \<open>
  Python \<open>==\<close> on the scalars of a parameter dict: numbers compare by value, whether \<open>bool\<close>,
  \<open>int\<close> or a \<open>float\<close> written without exponent.
\<close>

definition num_value :: "pyval \<Rightarrow> int option" where
  "num_value v = (case v of PBool b \<Rightarrow> Some (if b then 1 else 0) | PInt i \<Rightarrow> Some i
     | PFloat t \<Rightarrow> (if length t > 2 \<and> drop (length t - 2) t = ''.0'' then Some (read_int (take (length t - 2) t)) else None)
     | _ \<Rightarrow> None)"

definition py_equal :: "pyval \<Rightarrow> pyval \<Rightarrow> bool" where
  "py_equal a b = (case (num_value a, num_value b) of (Some i, Some j) \<Rightarrow> i = j | _ \<Rightarrow> a = b)"

lemma py_equal_simps [simp]:
  "py_equal (PStr s) (PStr t) \<longleftrightarrow> s = t" "py_equal (PInt i) (PInt j) \<longleftrightarrow> i = j"
  "py_equal PNone PNone" "\<not> py_equal PNone (PStr s)" "\<not> py_equal (PStr s) PNone" "\<not> py_equal PNone (PInt i)" "\<not> py_equal (PInt i) PNone"
  by (simp_all add: py_equal_def num_value_def)

definition opt_text :: "string option \<Rightarrow> pyval" where
  "opt_text x = (case x of None \<Rightarrow> PNone | Some s \<Rightarrow> PStr s)"

definition opt_int :: "int option \<Rightarrow> pyval" where
  "opt_int x = (case x of None \<Rightarrow> PNone | Some i \<Rightarrow> PInt i)"

text \<open>\<open>expected[key]\<close>.\<close>

definition item :: "params \<Rightarrow> string \<Rightarrow> berror + pyval" where
  "item ps k = require_some (map_of ps k) (PyError ''KeyError'')"

definition balance_at :: "pyval \<Rightarrow> string \<Rightarrow> bdb \<Rightarrow> berror + int" where
  "balance_at b at db =
     and_then (bind_text b) (\<lambda>k. Inr (case k of None \<Rightarrow> 0 | Some i \<Rightarrow> available_minor_at i at db))"

definition mismatches :: "receipt \<Rightarrow> ident \<Rightarrow> params \<Rightarrow> int \<Rightarrow> berror + string list" where
  "mismatches rc execution_id ex observed =
     and_then (item ex ''currency'') (\<lambda>cur.
     and_then (item ex ''mutation_type'') (\<lambda>mut.
     and_then (item ex ''expected_available_minor'') (\<lambda>avail.
     Inr ((if rc_execution rc \<noteq> execution_id then [''execution identity''] else []) @
          (if \<not> py_equal (PStr (rc_currency rc)) cur then [''currency''] else []) @
          (if \<not> py_equal (PStr (rc_mutation rc)) mut then [''mutation type''] else []) @
          (if \<not> py_equal (opt_text (rc_request rc)) (param ex ''request_id'') then [''request identity''] else []) @
          (if \<not> py_equal (opt_int (rc_version rc)) (param ex ''request_version'') then [''request version''] else []) @
          (if \<not> py_equal (PInt (rc_available rc)) avail then [''receipt balance''] else []) @
          (if \<not> py_equal (PInt observed) avail then [''recomputed balance''] else [])))))"

fun join_with :: "string \<Rightarrow> string list \<Rightarrow> string" where
  "join_with sep [] = []"
| "join_with sep [x] = x"
| "join_with sep (x # y # zs) = x @ sep @ join_with sep (y # zs)"

record observation =
  ob_id :: "ident option"
  ob_execution :: ident
  ob_digest :: string
  ob_status :: string
  ob_reason :: string
  ob_expected :: pyval
  ob_observed :: "int option"
  ob_entry :: "ident option"

definition record_observation ::
  "ident \<Rightarrow> string \<Rightarrow> string \<Rightarrow> string \<Rightarrow> params \<Rightarrow> int option \<Rightarrow> ident option \<Rightarrow> bdb \<Rightarrow> observation \<times> bdb" where
  "record_observation execution_id digest status why ex observed entry_id db =
     (let ob = \<lparr>ob_id = None, ob_execution = execution_id, ob_digest = digest, ob_status = status, ob_reason = why,
           ob_expected = param ex ''expected_available_minor'', ob_observed = observed, ob_entry = entry_id\<rparr> in
      case record_verification execution_id digest status why (param ex ''expected_available_minor'') observed entry_id db of
        (Inr k, db') \<Rightarrow> (ob\<lparr>ob_id := Some k\<rparr>, db')
      | (Inl e, db') \<Rightarrow> (ob\<lparr>ob_status := ''outcome_unknown'',
          ob_reason := why @ ''; verification evidence could not be persisted: '' @ error_class e\<rparr>, db'))"

text \<open>What is observed about the receipt of an instruction, or the exception on the way.\<close>

definition observe ::
  "receipt \<Rightarrow> ident \<Rightarrow> params \<Rightarrow> bdb \<Rightarrow> berror + (int \<times> string list)" where
  "observe rc execution_id ex db =
     and_then (item ex ''budget_id'') (\<lambda>b.
     and_then (balance_at b (rc_created rc) db) (\<lambda>observed.
     and_then (mismatches rc execution_id ex observed) (\<lambda>ms. Inr (observed, ms))))"

definition observer_verify :: "ident \<Rightarrow> string \<Rightarrow> params \<Rightarrow> bdb \<Rightarrow> observation \<times> bdb" where
  "observer_verify execution_id digest ex db =
     (case receipt_by_digest digest db of
        None \<Rightarrow> record_observation execution_id digest ''outcome_unknown'' ''Durable receipt is unavailable'' ex None None db
      | Some rc \<Rightarrow>
         (case observe rc execution_id ex db of
            Inl e \<Rightarrow> record_observation execution_id digest ''outcome_unknown''
              (''Financial observation unavailable: '' @ error_class e) ex None None db
          | Inr (observed, ms) \<Rightarrow>
             if ms \<noteq> [] then record_observation execution_id digest ''verification_mismatch''
               (''Financial evidence mismatch: '' @ join_with '', '' ms) ex (Some observed) (Some (rc_entry rc)) db
             else record_observation execution_id digest ''verified_success''
               ''Receipt, ledger linkage, and recomputed balance match'' ex (Some observed) (Some (rc_entry rc)) db))"

end
