(* ===== verification/Budget_Service.thy ===== *)
theory Budget_Service
  imports Budget_Domain
begin

text \<open>
  \<open>app/budget/service.py\<close>: each financial operation builds its parameters, validates them once to
  learn the expected balance, wraps them in an action of the budget domain and runs the action
  through the governed lifecycle; the outcome is read from the durable receipt and the observer,
  never from the adapter alone. Retries with the same idempotency key replay the receipt.
  The serialisation of an action by pydantic (\<open>model_dump_json\<close>, \<open>model_validate_json\<close>) is the pair
  of parameters \<open>enc\<close>, \<open>dec\<close>. Also here: the request schemas (\<open>app/budget/schemas.py\<close>) and
  the mapping of errors to HTTP statuses (\<open>app/budget/api.py\<close>).
\<close>

section \<open>Schemas and HTTP statuses\<close>

definition normalize_currency :: "string \<Rightarrow> string option" where
  "normalize_currency v = (let w = upper (strip v) in
     if length w \<noteq> 3 \<or> \<not> list_all is_alpha w then None else Some w)"

definition sized :: "nat \<Rightarrow> nat \<Rightarrow> string \<Rightarrow> bool" where
  "sized lo hi s \<longleftrightarrow> lo \<le> length s \<and> length s \<le> hi"

record bootstrap_input =
  bi_organization :: string
  bi_budget :: string
  bi_owner_type :: string
  bi_owner_name :: string
  bi_start :: string
  bi_end :: string
  bi_currency :: string
  bi_allocation :: int
  bi_owner :: string
  bi_requester :: string
  bi_key :: string

definition check_bootstrap :: "bootstrap_input \<Rightarrow> bootstrap_input option" where
  "check_bootstrap d =
     (case normalize_currency (bi_currency d) of
        None \<Rightarrow> None
      | Some cur \<Rightarrow>
         if sized 1 120 (bi_organization d) \<and> sized 1 120 (bi_budget d) \<and> 0 < bi_allocation d \<and>
            sized 1 120 (bi_owner d) \<and> sized 1 120 (bi_requester d) \<and> sized 8 200 (bi_key d) \<and>
            \<not> bi_end d < bi_start d \<and> bi_owner_type d \<in> {''department'', ''project''}
         then Some (d\<lparr>bi_currency := cur\<rparr>) else None)"

definition check_decision :: "string \<Rightarrow> string option" where
  "check_decision v = (let w = lower (strip v) in if w \<in> {''approved'', ''rejected''} then Some w else None)"

record adjustment_input =
  ai_currency :: string
  ai_amount :: int
  ai_reason :: string
  ai_key :: string

definition check_adjustment :: "adjustment_input \<Rightarrow> adjustment_input option" where
  "check_adjustment d =
     (case normalize_currency (ai_currency d) of
        None \<Rightarrow> None
      | Some cur \<Rightarrow> if sized 8 200 (ai_key d) \<and> sized 1 1000 (ai_reason d) \<and> ai_amount d \<noteq> 0
                   then Some (d\<lparr>ai_currency := cur\<rparr>) else None)"

definition http_status :: "berror \<Rightarrow> nat" where
  "http_status e = (case e of
     Domain c \<Rightarrow> (if c = ''not_found'' then 404
       else if c \<in> {''forbidden'', ''self_approval'', ''separation_required''} then 403
       else if c \<in> {''validation'', ''wrong_currency''} then 422
       else if c \<in> {''database_busy'', ''database_error''} then 503
       else 409)
   | _ \<Rightarrow> 500)"

section \<open>Building an action\<close>

type_synonym 'a served = "(berror + 'a) \<times> bdb gov"

definition on_db :: "(bdb \<Rightarrow> (berror + 'a) \<times> bdb) \<Rightarrow> bdb gov \<Rightarrow> 'a served" where
  "on_db f st = (case f (g_world st) of (x, w) \<Rightarrow> (x, st\<lparr>g_world := w\<rparr>))"

definition expected_state :: "params \<Rightarrow> berror + string" where
  "expected_state ps =
     and_then (item ps ''mutation_type'') (\<lambda>mut. and_then (item ps ''budget_id'') (\<lambda>b.
     and_then (item ps ''currency'') (\<lambda>cur. and_then (item ps ''expected_available_minor'') (\<lambda>avail.
     require_some (dump (PDict [(''mutation_type'', mut), (''budget_id'', b), (''request_id'', param ps ''request_id''),
        (''request_version'', param ps ''request_version''), (''currency'', cur), (''available_minor'', avail)]))
       (PyError ''TypeError'')))))"

definition make_action :: "params \<Rightarrow> ident \<Rightarrow> string \<Rightarrow> string \<Rightarrow> ident \<Rightarrow> instant \<Rightarrow> berror + action" where
  "make_action ps decision_id component why k now =
     and_then (expected_state ps) (\<lambda>state.
     Inr \<lparr>act_id = k, act_created_at = now, act_decision_id = decision_id, act_domain = governance_domain,
          act_component = component, act_type = Create, act_status = APending, act_reason = why, act_confidence = 100,
          act_requires_approval = False, act_rollback_required = True, act_parameters = ps,
          act_expected = Some \<lparr>exp_target = component, exp_operation = ''create'', exp_state = state\<rparr>\<rparr>)"

section \<open>Executing an action\<close>

fun outcome_status :: "outcome \<Rightarrow> string" where
  "outcome_status (AssessmentFailed e) = ''assessment_failed''"
| "outcome_status (PolicyDenied why req) = ''policy_denied''"
| "outcome_status (RejectedByPolicy why) = ''rejected''"
| "outcome_status (ManualRequired why k) = ''manual_approval_required''"
| "outcome_status AuthorizationNotCreated = ''authorization_not_created''"
| "outcome_status (Executed res v) = ''executed''"
| "outcome_status Raised = []"

record response =
  rs_action :: "ident option"
  rs_decision :: "ident option"
  rs_digest :: string
  rs_governed :: string
  rs_core :: "outcome option"
  rs_financial :: string
  rs_execution :: "ident option"
  rs_receipt :: "receipt option"
  rs_observation :: "observation option"
  rs_approval :: "ident option"
  rs_authorization :: "ident option"
  rs_core_verification :: "ident option"
  rs_replayed :: bool

definition with_correlations :: "response \<Rightarrow> ident \<Rightarrow> ident option \<Rightarrow> bdb gov \<Rightarrow> response" where
  "with_correlations rs action_id execution_id st =
     rs\<lparr>rs_approval := map_option ar_id (find_last (\<lambda>r. ar_action_id r = action_id) (mem (g_records st))),
        rs_authorization := map_option auth_id (find_last (\<lambda>a. auth_action_id a = action_id) (mem (g_auths st))),
        rs_core_verification := (case execution_id of None \<Rightarrow> None
          | Some x \<Rightarrow> if x = [] then None else map_option ver_id (get_verification x st))\<rparr>"

fun occurs_in :: "string \<Rightarrow> string \<Rightarrow> bool" where
  "occurs_in w [] = (w = [])"
| "occurs_in w (c # s) = (take (length w) (c # s) = w \<or> occurs_in w s)"

definition financial_status :: "exec_result \<Rightarrow> receipt option \<Rightarrow> string" where
  "financial_status res rc =
     (if \<not> res_success res then
        (if occurs_in ''unknown'' (lower (res_message res)) then ''outcome_unknown''
         else if rc \<noteq> None then ''applied_unverified'' else ''adapter_failed_no_effect'')
      else if rc = None then ''outcome_unknown'' else [])"

definition run_action :: "action \<Rightarrow> bdb gov \<Rightarrow> response served" where
  "run_action a st =
     (case bind_action (g_sha st) a adapter_name of
        Inl e \<Rightarrow> (Inl (PyError ''InvalidInstruction''), st)
      | Inr (digest, payload) \<Rightarrow>
         (let (out, st1) = execute_governed_action a adapter_name st;
              rs = \<lparr>rs_action = Some (act_id a), rs_decision = Some (act_decision_id a), rs_digest = digest,
                rs_governed = outcome_status out, rs_core = Some out, rs_financial = ''blocked_before_execution'',
                rs_execution = None, rs_receipt = None, rs_observation = None, rs_approval = None,
                rs_authorization = None, rs_core_verification = None, rs_replayed = False\<rparr> in
          case out of
            Raised \<Rightarrow> (Inl (PyError ''Exception''), st1)
          | Executed res v \<Rightarrow>
             (let rc = receipt_by_digest digest (g_world st1);
                  rs1 = rs\<lparr>rs_execution := Some (res_execution_id res), rs_financial := financial_status res rc\<rparr> in
              case (res_success res, rc) of
                (True, Some receipt) \<Rightarrow>
                  (let (ob, w) = observer_verify (rc_execution receipt) digest (act_parameters a) (g_world st1);
                       st2 = st1\<lparr>g_world := w\<rparr> in
                   (Inr (with_correlations (rs1\<lparr>rs_financial := ob_status ob, rs_receipt := Some receipt,
                       rs_observation := Some ob\<rparr>) (act_id a) (Some (res_execution_id res)) st2), st2))
              | _ \<Rightarrow> (Inr (with_correlations rs1 (act_id a) (Some (res_execution_id res)) st1), st1))
          | _ \<Rightarrow> (Inr (with_correlations rs (act_id a) None st1), st1)))"

text \<open>Build the action with fresh ids and run it.\<close>

definition submit_action :: "params \<Rightarrow> string \<Rightarrow> string \<Rightarrow> string \<Rightarrow> bdb gov \<Rightarrow> response served" where
  "submit_action ps prefix_text component why st =
     (let (d, st1) = fresh_id st; (k, st2) = fresh_id st1 in
      case make_action ps (prefix_text @ d) component why k (g_now st) of
        Inl e \<Rightarrow> (Inl e, st2)
      | Inr a \<Rightarrow> run_action a st2)"

section \<open>Replay\<close>

definition parse_dict :: "string \<Rightarrow> berror + params" where
  "parse_dict t = (case loads t of None \<Rightarrow> Inl (PyError ''JSONDecodeError'')
     | Some (PDict ps) \<Rightarrow> Inr ps | Some v \<Rightarrow> Inl (PyError ''AttributeError''))"

definition replay :: "string \<Rightarrow> mutation \<Rightarrow> params \<Rightarrow> bdb gov \<Rightarrow> response option served" where
  "replay key m wanted st =
     (case receipt_by_key key (g_world st) of
        None \<Rightarrow> (Inr None, st)
      | Some rc \<Rightarrow>
         (case and_then (ensure (rc_mutation rc = mutation_value m) (Domain ''idempotency_conflict'')) (\<lambda>_.
               and_then (parse_dict (rc_parameters rc)) (\<lambda>ps.
               and_then (ensure (list_all (\<lambda>(n, v). py_equal (param ps n) v) wanted) (Domain ''idempotency_conflict'')) (\<lambda>_.
               Inr ps))) of
            Inl e \<Rightarrow> (Inl e, st)
          | Inr ps \<Rightarrow>
             (let (ob, w) = observer_verify (rc_execution rc) (rc_digest rc) ps (g_world st) in
              (Inr (Some \<lparr>rs_action = None, rs_decision = None, rs_digest = rc_digest rc, rs_governed = ''executed'',
                 rs_core = None, rs_financial = ob_status ob, rs_execution = Some (rc_execution rc),
                 rs_receipt = Some rc, rs_observation = Some ob, rs_approval = None, rs_authorization = None,
                 rs_core_verification = None, rs_replayed = True\<rparr>), st\<lparr>g_world := w\<rparr>))))"

definition or_else :: "response option served \<Rightarrow> (bdb gov \<Rightarrow> response served) \<Rightarrow> response served" where
  "or_else out f = (case out of (Inl e, st) \<Rightarrow> (Inl e, st) | (Inr (Some rs), st) \<Rightarrow> (Inr rs, st) | (Inr None, st) \<Rightarrow> f st)"

text \<open>Validate once for the expected balance, then submit.\<close>

definition validated_submit :: "params \<Rightarrow> string \<Rightarrow> string \<Rightarrow> string \<Rightarrow> bdb gov \<Rightarrow> response served" where
  "validated_submit ps prefix_text component why st =
     (case validate_mutation ps None (g_world st) of
        Inl e \<Rightarrow> (Inl e, st)
      | Inr ev \<Rightarrow> submit_action (ps @ [(''expected_available_minor'', PInt (me_after ev))]) prefix_text component why st)"

section \<open>The operations\<close>

definition bootstrap_fields :: "string \<Rightarrow> bootstrap_input \<Rightarrow> params" where
  "bootstrap_fields actor d =
     [(''organization_name'', PStr (strip (bi_organization d))), (''budget_name'', PStr (strip (bi_budget d))),
      (''owner_type'', PStr (bi_owner_type d)),
      (''owner_name'', PStr (if strip (bi_owner_name d) = [] then strip (bi_budget d) else strip (bi_owner_name d))),
      (''period_start'', PStr (bi_start d)), (''period_end'', PStr (bi_end d)), (''currency'', PStr (bi_currency d)),
      (''allocation_minor'', PInt (bi_allocation d)), (''owner_principal'', PStr (strip (bi_owner d))),
      (''requester_principal'', PStr (strip (bi_requester d))), (''actor'', PStr actor)]"

definition service_bootstrap :: "string \<Rightarrow> bootstrap_input \<Rightarrow> bdb gov \<Rightarrow> response served" where
  "service_bootstrap actor d st0 =
     or_else (replay (bi_key d) Bootstrap (bootstrap_fields actor d) st0) (\<lambda>st.
       (let (g, st1) = fresh_id st; (b, st2) = fresh_id st1;
            ps = [(''mutation_type'', PStr (mutation_value Bootstrap)), (''organization_id'', PStr g), (''budget_id'', PStr b)] @
              bootstrap_fields actor d @
              [(''idempotency_key'', PStr (bi_key d)), (''expected_available_minor'', PInt (bi_allocation d))] in
        submit_action ps ''budget-bootstrap-'' b (''Initialize Budget Control for '' @ bi_organization d) st2))"

definition current_version :: "request_view \<Rightarrow> berror + version" where
  "current_version v = require_some (find (\<lambda>x. v_version x = pr_version (rv_request v)) (rv_versions v)) (Domain ''stale_version'')"

definition approved_decision_id :: "request_view \<Rightarrow> berror + ident" where
  "approved_decision_id v =
     map_sum id d_id (require_some (find_last (\<lambda>d. d_decision d = ''approved'' \<and> d_version d = pr_version (rv_request v)) (rv_decisions v))
       (Domain ''approval_required''))"

definition purchase_params :: "mutation \<Rightarrow> string \<Rightarrow> purchase \<Rightarrow> string \<Rightarrow> int \<Rightarrow> ident \<Rightarrow> string \<Rightarrow> params" where
  "purchase_params m actor r cur amount approval key =
     [(''mutation_type'', PStr (mutation_value m)), (''organization_id'', PStr (pr_org r)), (''budget_id'', PStr (pr_budget r)),
      (''request_id'', PStr (pr_id r)), (''request_version'', PInt (pr_version r)), (''currency'', PStr cur),
      (''amount_minor'', PInt amount), (''actor'', PStr actor), (''domain_approval_id'', PStr approval),
      (''idempotency_key'', PStr key)]"

text \<open>The commitment that an approval authorizes: its parameters, its action and the digest of both.\<close>

definition approval_params :: "string \<Rightarrow> purchase \<Rightarrow> version \<Rightarrow> ident \<Rightarrow> int \<Rightarrow> params" where
  "approval_params actor r cur i available =
     purchase_params Commitment actor r (v_currency cur) (v_amount cur) i (''commit:'' @ i) @
       [(''balance_evidence_minor'', PInt available), (''expected_available_minor'', PInt (available - v_amount cur))]"

definition approval_action ::
  "string \<Rightarrow> ident \<Rightarrow> purchase \<Rightarrow> version \<Rightarrow> ident \<Rightarrow> ident \<Rightarrow> int \<Rightarrow> bdb gov \<Rightarrow> berror + (action \<times> string)" where
  "approval_action actor k r cur i action_id available st =
     and_then (make_action (approval_params actor r cur i available) i (pr_budget r)
       (''Commit approved purchase request '' @ k) action_id (g_now st)) (\<lambda>a.
     and_then (map_sum (\<lambda>e. PyError ''InvalidInstruction'') id (bind_action (g_sha st) a adapter_name)) (\<lambda>(digest, payload).
     Inr (a, digest)))"

definition service_decide ::
  "(action \<Rightarrow> string) \<Rightarrow> string \<Rightarrow> ident \<Rightarrow> string \<Rightarrow> string \<Rightarrow> bdb gov \<Rightarrow> request_view served" where
  "service_decide enc actor k dec why st =
     (case request_detail actor k (g_world st) of
        Inl e \<Rightarrow> (Inl e, st)
      | Inr v \<Rightarrow>
         (let (decision_id, st1) = fresh_id st in
          if dec = ''rejected'' then on_db (save_decision decision_id actor k ''rejected'' why None None None) st1
          else
           (case current_version v of
              Inl e \<Rightarrow> (Inl e, st1)
            | Inr cur \<Rightarrow>
               (let available = available_minor (pr_budget (rv_request v)) (g_world st1); (action_id, st2) = fresh_id st1 in
                case approval_action actor k (rv_request v) cur decision_id action_id available st2 of
                  Inl e \<Rightarrow> (Inl e, st2)
                | Inr (a, digest) \<Rightarrow>
                    on_db (save_decision decision_id actor k ''approved'' why (Some digest) (Some (enc a)) (Some available)) st2))))"

definition service_commit :: "(string \<Rightarrow> action option) \<Rightarrow> string \<Rightarrow> ident \<Rightarrow> bdb gov \<Rightarrow> response served" where
  "service_commit dec actor k st =
     (case approved_action actor k (g_world st) of
        Inl e \<Rightarrow> (Inl e, st)
      | Inr t \<Rightarrow> (case dec t of None \<Rightarrow> (Inl (PyError ''ValidationError''), st) | Some a \<Rightarrow> run_action a st))"

definition service_settle :: "string \<Rightarrow> ident \<Rightarrow> int \<Rightarrow> string \<Rightarrow> bdb gov \<Rightarrow> response served" where
  "service_settle actor k amount key st0 =
     or_else (replay key Settlement [(''request_id'', PStr k), (''amount_minor'', PInt amount), (''actor'', PStr actor)] st0) (\<lambda>st.
       case and_then (request_detail actor k (g_world st)) (\<lambda>v.
            and_then (current_version v) (\<lambda>cur.
            and_then (approved_decision_id v) (\<lambda>i.
            Inr (purchase_params Settlement actor (rv_request v) (v_currency cur) amount i key, pr_budget (rv_request v))))) of
         Inl e \<Rightarrow> (Inl e, st)
       | Inr (ps, b) \<Rightarrow> validated_submit ps ''budget-settle-'' b (''Settle purchase request '' @ k) st)"

definition service_cancel :: "string \<Rightarrow> ident \<Rightarrow> string \<Rightarrow> bdb gov \<Rightarrow> response served" where
  "service_cancel actor k key st0 =
     or_else (replay key Cancellation [(''request_id'', PStr k), (''actor'', PStr actor)] st0) (\<lambda>st.
       case and_then (request_detail actor k (g_world st)) (\<lambda>v.
            and_then (current_version v) (\<lambda>cur.
            and_then (approved_decision_id v) (\<lambda>i.
            Inr (purchase_params Cancellation actor (rv_request v) (v_currency cur) (v_amount cur) i key, pr_budget (rv_request v))))) of
         Inl e \<Rightarrow> (Inl e, st)
       | Inr (ps, b) \<Rightarrow> validated_submit ps ''budget-cancel-'' b (''Cancel purchase request '' @ k) st)"

definition change_fields :: "string \<Rightarrow> ident \<Rightarrow> adjustment_input \<Rightarrow> params" where
  "change_fields actor b d = [(''budget_id'', PStr b), (''currency'', PStr (ai_currency d)), (''amount_minor'', PInt (ai_amount d)),
     (''reason'', PStr (ai_reason d))]"

definition service_change ::
  "mutation \<Rightarrow> params \<Rightarrow> string \<Rightarrow> string \<Rightarrow> string \<Rightarrow> ident \<Rightarrow> adjustment_input \<Rightarrow> bdb gov \<Rightarrow> response served" where
  "service_change m extra prefix_text why actor b d st0 =
     or_else (replay (ai_key d) m (change_fields actor b d @ extra @ [(''actor'', PStr actor)]) st0) (\<lambda>st.
       case the_organization (g_world st) of
         None \<Rightarrow> (Inl (Domain ''not_initialized''), st)
       | Some g \<Rightarrow>
          validated_submit ([(''mutation_type'', PStr (mutation_value m)), (''organization_id'', PStr (org_id g))] @
              change_fields actor b d @ extra @ [(''actor'', PStr actor), (''idempotency_key'', PStr (ai_key d))])
            prefix_text b why st)"

definition service_adjust :: "string \<Rightarrow> ident \<Rightarrow> adjustment_input \<Rightarrow> bdb gov \<Rightarrow> response served" where
  "service_adjust actor b d = service_change Adjustment [] ''budget-adjust-'' (''Adjust budget '' @ b @ '': '' @ ai_reason d) actor b d"

definition service_correct :: "string \<Rightarrow> ident \<Rightarrow> adjustment_input \<Rightarrow> ident \<Rightarrow> bdb gov \<Rightarrow> response served" where
  "service_correct actor b d target = service_change Correction [(''correction_of'', PStr target)] ''budget-correct-''
     (''Correct ledger entry '' @ target @ '': '' @ ai_reason d) actor b d"

record reconciliation =
  rn_status :: string
  rn_receipt :: "receipt option"
  rn_observation :: "observation option"

definition service_reconcile :: "string \<Rightarrow> string \<Rightarrow> bdb gov \<Rightarrow> reconciliation served" where
  "service_reconcile actor digest st =
     (case receipt_by_digest digest (g_world st) of
        None \<Rightarrow> (Inr \<lparr>rn_status = ''adapter_failed_no_effect'', rn_receipt = None, rn_observation = None\<rparr>, st)
      | Some rc \<Rightarrow>
         (case and_then (parse_dict (rc_parameters rc)) (\<lambda>ps.
               and_then (item ps ''budget_id'') (\<lambda>b.
               and_then (bind_text b) (\<lambda>k.
               and_then (ensure (case k of None \<Rightarrow> has_role actor ''budget_owner'' None (g_world st)
                                 | Some i \<Rightarrow> has_role actor ''budget_owner'' (Some i) (g_world st)) (Domain ''forbidden'')) (\<lambda>_.
               Inr ps)))) of
            Inl e \<Rightarrow> (Inl e, st)
          | Inr ps \<Rightarrow>
             (let (ob, w) = observer_verify (rc_execution rc) (rc_digest rc) ps (g_world st) in
              (Inr \<lparr>rn_status = ob_status ob, rn_receipt = Some rc, rn_observation = Some ob\<rparr>, st\<lparr>g_world := w\<rparr>))))"

end
