(* ===== verification/Budget_Decisions.thy ===== *)
theory Budget_Decisions
  imports Budget_History
begin

text \<open>
  Decisions on purchase requests: each version of a request is decided at most once, so the
  approved instruction of a version is the one its decision carries.
\<close>

definition subject :: "decision \<Rightarrow> ident \<times> int" where
  "subject d = (d_request d, d_version d)"

definition judged :: "bdb \<Rightarrow> decision \<Rightarrow> bool" where
  "judged db d \<longleftrightarrow> (\<exists>r\<in>set (t_requests db). pr_id r = d_request d \<and> d_version d \<le> pr_version r \<and>
     (d_version d = pr_version r \<longrightarrow> pr_status r \<notin> {''draft'', ''submitted''}))"

definition decided_ok :: "bdb \<Rightarrow> bool" where
  "decided_ok db \<longleftrightarrow> distinct (List.map subject (t_decisions db)) \<and> (\<forall>d\<in>set (t_decisions db). judged db d)"

lemma purchase_next_decided:
  assumes n: "purchase_next r r'" and v: "i \<le> pr_version r" "i = pr_version r \<longrightarrow> pr_status r \<notin> {''draft'', ''submitted''}"
  shows "i \<le> pr_version r' \<and> (i = pr_version r' \<longrightarrow> pr_status r' \<notin> {''draft'', ''submitted''})"
proof -
  have m: "request_move (pr_status r) (pr_status r')" using n by (simp add: purchase_next_def)
  have "pr_status r' \<noteq> ''submitted''" if "pr_status r \<notin> {''draft'', ''submitted''}"
    using m that by (cases rule: request_move.cases) auto
  then show ?thesis using n v by (auto simp: purchase_next_def)
qed

lemma moves_judged:
  assumes "moves db db'" and "judged db d"
  shows "judged db' d"
proof -
  obtain r where r: "r \<in> set (t_requests db)" "pr_id r = d_request d" "d_version d \<le> pr_version r"
    "d_version d = pr_version r \<longrightarrow> pr_status r \<notin> {''draft'', ''submitted''}" using assms(2) unfolding judged_def by blast
  obtain f new where f: "t_requests db' = List.map f (t_requests db) @ new" "purchase_next r (f r)"
    using assms(1) r(1) by (auto simp: moves_def)
  have "f r \<in> set (t_requests db')" "pr_id (f r) = d_request d" using f r by (simp_all add: purchase_next_def)
  then show ?thesis unfolding judged_def using purchase_next_decided[OF f(2) r(3,4)] by blast
qed

text \<open>Only a decision adds a decision.\<close>

lemma transaction_shape: "P db \<Longrightarrow> (\<And>x db'. f db = Inr (x, db') \<Longrightarrow> P db') \<Longrightarrow> P (snd (transaction f db))"
  by (simp add: transaction_def split: sum.split prod.split)

lemma view_world [simp]: "snd (then_view actor out) = snd out"
  by (simp add: then_view_def split: prod.split)

definition new_decision ::
  "ident \<Rightarrow> string \<Rightarrow> ident \<Rightarrow> string \<Rightarrow> string \<Rightarrow> string option \<Rightarrow> string option \<Rightarrow> int option \<Rightarrow> purchase \<Rightarrow> bdb \<Rightarrow> decision" where
  "new_decision i actor k dec why digest action evidence r db =
     \<lparr>d_id = i, d_request = k, d_version = pr_version r, d_decision = dec, d_by = actor, d_reason = strip why,
       d_digest = digest, d_action = action, d_balance = evidence, d_created = bw_now db\<rparr>"

lemma insert_decision_is: "insert_decision d db = Inr db' \<Longrightarrow> db' = db\<lparr>t_decisions := t_decisions db @ [d]\<rparr>"
  by (auto simp: insert_decision_def result_simps)

definition decides ::
  "ident \<Rightarrow> string \<Rightarrow> ident \<Rightarrow> string \<Rightarrow> string \<Rightarrow> string option \<Rightarrow> string option \<Rightarrow> int option \<Rightarrow> bdb \<Rightarrow> bdb \<Rightarrow> bool" where
  "decides i actor k dec why digest action evidence db db' \<longleftrightarrow> db' = db \<or>
     (\<exists>r. the_request k db = Inr r \<and> pr_status r = ''submitted'' \<and> dec \<in> {''approved'', ''rejected''} \<and>
      db' = update_request k (\<lambda>x. x\<lparr>pr_status := dec, pr_updated := bw_now db\<rparr>)
       (db\<lparr>t_decisions := t_decisions db @ [new_decision i actor k dec why digest action evidence r db]\<rparr>))"

lemma decide_effect:
  "decides i actor k dec why digest action evidence db (snd (save_decision i actor k dec why digest action evidence db))"
  unfolding save_decision_def view_world
proof (rule transaction_shape[where P = "decides i actor k dec why digest action evidence db"], goal_cases)
  case 1
  then show ?case by (simp add: decides_def)
next
  case (2 x db')
  then obtain r db1 where "the_request k db = Inr r" "pr_status r = ''submitted''" "dec \<in> {''approved'', ''rejected''}"
    "insert_decision (new_decision i actor k dec why digest action evidence r db) db = Inr db1"
    "db' = update_request k (\<lambda>x. x\<lparr>pr_status := dec, pr_updated := bw_now db\<rparr>) db1"
    unfolding new_decision_def by (simp only: result_simps) blast
  then show ?case by (auto simp: decides_def dest: insert_decision_is)
qed

lemma mutate_decisions: "t_decisions (snd (apply_mutation ps digest x db)) = t_decisions db" if inv: "bdb_inv db"
proof -
  obtain res db' where o: "apply_mutation ps digest x db = (res, db')" by fastforce
  show ?thesis
  proof (rule apply_mutation_cases[OF o])
    fix r key t m ev
    assume n: "receipt_by_digest digest db = None" "receipt_by_key key db = None"
      "validate_mutation ps (Some digest) db = Inr ev" "me_mutation ev = mutation_value m"
      "apply_validated m ps ev key digest (bw_sha db t) t x db = Inr (r, db')"
    obtain e db2 db4 where d: "mutation_done m ps ev digest db db2 e db4 r" "db' = with_receipt db4 r"
      by (rule apply_validated_done[OF inv n(3,4,1,2,5)])
    then show ?thesis using done_appends(1)[OF d(1)] o by (simp add: appends_def)
  qed (use o in simp_all)
qed

lemma quiet_decisions:
  "t_decisions (snd (create_request actor b amount cur purpose reference db)) = t_decisions db"
  "t_decisions (snd (add_request_version actor k amount cur purpose reference db)) = t_decisions db"
  "t_decisions (snd (submit_request actor k db)) = t_decisions db"
  "t_decisions (snd (record_verification x digest status why expected observed e db)) = t_decisions db"
proof -
  note t = transaction_shape[where P = "\<lambda>db'. t_decisions db' = t_decisions db"]
  show "t_decisions (snd (create_request actor b amount cur purpose reference db)) = t_decisions db"
    by (simp add: create_request_def, intro impI, rule t)
      (auto simp: result_simps Let_def case_prod_beta insert_request_def insert_version_def new_id_def)
  show "t_decisions (snd (add_request_version actor k amount cur purpose reference db)) = t_decisions db"
    by (simp add: add_request_version_def, intro impI, rule t)
      (auto simp: result_simps Let_def insert_version_def update_request_def)
  show "t_decisions (snd (submit_request actor k db)) = t_decisions db"
    unfolding submit_request_def view_world by (rule t) (auto simp: result_simps update_request_def)
  show "t_decisions (snd (record_verification x digest status why expected observed e db)) = t_decisions db"
    unfolding record_verification_def
    by (rule t) (auto simp: result_simps Let_def case_prod_beta insert_verification_def new_id_def)
qed

lemma step_decisions:
  assumes "bdb_step db db'" and "bdb_inv db"
  shows "t_decisions db' = t_decisions db \<or>
    (\<exists>i actor k dec why digest action evidence. decides i actor k dec why digest action evidence db db')"
  using assms(1)
proof cases
  case (decide i actor k dec why digest action evidence)
  then show ?thesis using decide_effect by blast
qed (use mutate_decisions[OF assms(2)] in \<open>simp_all add: quiet_decisions\<close>)

lemma decides_decided:
  assumes inv: "bdb_inv db" and ok: "decided_ok db" and mv: "moves db db'"
    and d: "decides i actor k dec why digest action evidence db db'"
  shows "decided_ok db'"
proof (cases "db' = db")
  case False
  then obtain r where r: "the_request k db = Inr r" "pr_status r = ''submitted''" "dec \<in> {''approved'', ''rejected''}"
    and db': "db' = update_request k (\<lambda>x. x\<lparr>pr_status := dec, pr_updated := bw_now db\<rparr>)
       (db\<lparr>t_decisions := t_decisions db @ [new_decision i actor k dec why digest action evidence r db]\<rparr>)"
    using d unfolding decides_def by blast
  let ?d = "new_decision i actor k dec why digest action evidence r db"
  have l: "t_decisions db' = t_decisions db @ [?d]" by (simp add: db' update_request_def)
  have k: "r \<in> set (t_requests db)" "pr_id r = k" using the_request_in[OF r(1)] by auto
  have sub: "d_request ?d = k" "d_version ?d = pr_version r" by (simp_all add: new_decision_def)
  have new: "subject ?d \<notin> subject ` set (t_decisions db)"
  proof
    assume "subject ?d \<in> subject ` set (t_decisions db)"
    then obtain x where x: "x \<in> set (t_decisions db)" "d_request x = k" "d_version x = pr_version r"
      by (auto simp: subject_def sub)
    then have "judged db x" using ok by (simp add: decided_ok_def)
    then obtain r' where r': "r' \<in> set (t_requests db)" "pr_id r' = k" "pr_version r = pr_version r' \<longrightarrow> pr_status r' \<notin> {''draft'', ''submitted''}"
      unfolding judged_def x(2,3) by blast
    have "r' = r" by (rule request_unique[OF inv r'(1) k(1)]) (simp add: r' k)
    then show False using r'(3) r(2) by simp
  qed
  have "judged db' x" if "x \<in> set (t_decisions db)" for x
    by (rule moves_judged[OF mv]) (use ok that in \<open>simp add: decided_ok_def\<close>)
  moreover have "judged db' ?d"
    unfolding judged_def
  proof (rule bexI)
    show "r\<lparr>pr_status := dec, pr_updated := bw_now db\<rparr> \<in> set (t_requests db')" using k by (force simp: db' update_request_def)
  qed (use k r(3) in \<open>auto simp: sub\<close>)
  ultimately show ?thesis using ok new by (simp add: decided_ok_def l)
qed (use ok in simp)

lemma reachable_decided: "bdb_reachable db \<Longrightarrow> decided_ok db"
proof (induction rule: bdb_reachable.induct)
  case (start db)
  then show ?case by (simp add: empty_bdb_def decided_ok_def)
next
  case (step db db')
  have inv: "bdb_inv db" and mv: "moves db db'"
    using step reachable_bdb_inv reachable_statuses step_moves by blast+
  show ?case
  proof (cases "t_decisions db' = t_decisions db")
    case True
    then show ?thesis using step.IH moves_judged[OF mv] by (simp add: decided_ok_def)
  next
    case False
    then show ?thesis using step_decisions[OF step.hyps(2) inv] decides_decided[OF inv step.IH mv] by blast
  qed
qed

text \<open>The approved decision of a version is the one that \<open>approved_action\<close> finds.\<close>

lemma filter_unique:
  assumes "distinct (List.map f ds)" and "d \<in> set ds" and "P d" and same: "\<And>x. P x \<Longrightarrow> f x = f d"
  shows "filter P ds = [d]"
  using assms(1-3)
proof (induction ds)
  case (Cons x ds)
  show ?case
  proof (cases "P x")
    case True
    have x: "f x = f d" by (rule same[OF True])
    have none: "\<not> P y" if "y \<in> set ds" for y
    proof
      assume "P y"
      then have "f y = f d" by (rule same)
      then have "f x \<in> set (List.map f ds)" using that x by (simp add: image_iff) metis
      then show False using Cons.prems(1) by simp
    qed
    then have "d = x" using Cons.prems(2,3) by auto
    moreover have "filter P ds = []" using none by (simp add: filter_empty_conv)
    ultimately show ?thesis using True by simp
  next
    case False
    then show ?thesis using Cons by auto
  qed
qed simp

lemma approved_action_found:
  assumes reach: "bdb_reachable db" and r: "the_request k db = Inr r"
    and role: "has_role actor ''budget_owner'' (Some (pr_budget r)) db"
    and d: "d \<in> set (t_decisions db)" "d_request d = k" "d_version d = pr_version r" "d_decision d = ''approved''"
      "d_by d = actor" "d_action d = Some t" "t \<noteq> []"
  shows "approved_action actor k db = Inr t"
proof -
  have dist: "distinct (List.map subject (t_decisions db))" using reachable_decided[OF reach] by (simp add: decided_ok_def)
  have "filter (\<lambda>d. d_request d = k \<and> d_version d = pr_version r \<and> d_decision d = ''approved'') (t_decisions db) = [d]"
    by (rule filter_unique[OF dist d(1)]) (simp_all only: d(2-4) subject_def simp_thms)
  then show ?thesis using r role d(5-7) by (simp add: approved_action_def require_role_def)
qed

end
