(* ===== verification/Budget_Runs.thy ===== *)
theory Budget_Runs
  imports Budget_Service Budget_Errors Budget_Decisions Governed_Runs
begin

text \<open>
  The budget domain inside the governed lifecycle: what its evaluators answer for an instruction,
  that a valid instruction clears every gate and is applied once, what the observer establishes,
  and that every operation of the service moves the ledger only along the steps of its history.
\<close>

section \<open>Evaluators\<close>

lemma validate_refs: "validate_mutation ps d db = Inr ev \<Longrightarrow> me_refs ev \<noteq> [] \<and> [] \<notin> set (me_refs ev)"
  by (auto simp: validate_mutation_def replay_evidence_def bootstrap_evidence_def budget_evidence_def result_simps Let_def
      split: option.splits if_splits)

lemma text_refs_tuple: "[] \<notin> set xs \<Longrightarrow> text_refs (PTuple (List.map PStr xs)) = Some xs"
  by (induction xs) (auto simp: text_refs_def)

lemma check_policy_py: "[] \<notin> set (pol_refs p) \<Longrightarrow> check_policy (Answer (py_policy p)) = Inr p"
  by (simp add: check_policy_def py_policy_def text_refs_tuple)

lemma check_risk_py:
  "[] \<notin> set (rk_refs r) \<Longrightarrow> rk_level r \<in> set risk_levels \<Longrightarrow> rk_action_id r = act_id a \<Longrightarrow> rk_component r = act_component a \<Longrightarrow>
   rk_type r = type_value (act_type a) \<Longrightarrow> check_risk a (Answer (py_risk r)) = Inr r"
  by (simp add: check_risk_def py_risk_def text_refs_tuple)

definition budget_ready :: "bdb gov \<Rightarrow> bool" where
  "budget_ready st \<longleftrightarrow> g_registry st governance_domain = Some budget_registration \<and>
     g_adapters st adapter_name = Some budget_adapter \<and> bw_sha (g_world st) = g_sha st"

definition budget_action :: "action \<Rightarrow> bool" where
  "budget_action a \<longleftrightarrow> act_domain a = governance_domain \<and> act_type a = Create"

lemmas budget_setup = budget_ready_def budget_action_def budget_registration_def budget_policy_evaluator_def
  budget_risk_evaluator_def

lemma budget_registration_fields [simp]:
  "rg_operations budget_registration = [''create'']" "rg_adapters budget_registration = [adapter_name]"
  "pe_evaluate (rg_policy budget_registration) = budget_policy" "re_evaluate (rg_risk budget_registration) = budget_risk"
  by (simp_all add: budget_setup)

text \<open>The answer of \<open>resolve_assessment\<close> follows the validation of the instruction.\<close>

lemma assess_bound: "assess_action w a = Inr ev \<Longrightarrow> \<exists>d payload. bind_action (bw_sha w) a adapter_name = Inr (d, payload) \<and>
    validate_mutation (act_parameters a) (Some d) w = Inr ev"
  by (auto simp: assess_action_def split: sum.splits)

lemma budget_evaluators:
  assumes "budget_ready st" and "budget_action a"
    and b: "bind_action (g_sha st) a adapter_name = Inr (d, payload)"
    and p: "raised (budget_policy (g_world st) a) = None" and r: "raised (budget_risk (g_world st) a) = None"
  shows "run_evaluators st budget_registration a adapter_name = Inr (d, budget_policy (g_world st) a, budget_risk (g_world st) a)"
  using assms by (simp add: run_evaluators_def budget_setup)

lemma budget_resolve:
  assumes rdy: "budget_ready st" and ba: "budget_action a"
    and ev: "assess_action (g_world st) a = Inr ev"
  shows "\<exists>asmt st1. resolve_assessment st a adapter_name = Inr (asmt, st1) \<and> pol_allowed (asm_policy asmt) \<and>
     rk_level (asm_risk asmt) = ''medium'' \<and> rk_rollback (asm_risk asmt)"
proof -
  obtain d payload where b: "bind_action (g_sha st) a adapter_name = Inr (d, payload)"
    "validate_mutation (act_parameters a) (Some d) (g_world st) = Inr ev"
    using assess_bound[OF ev] rdy by (auto simp: budget_ready_def)
  note refs = validate_refs[OF b(2)]
  have run: "run_evaluators st budget_registration a adapter_name = Inr (d, budget_policy (g_world st) a, budget_risk (g_world st) a)"
    by (rule budget_evaluators[OF rdy ba b(1)]) (simp_all add: budget_policy_def budget_risk_def ev raised_def)
  have reg: "g_registry st governance_domain = Some budget_registration" using rdy by (simp add: budget_ready_def)
  show ?thesis
    using refs ba by (simp add: resolve_assessment_def reg budget_action_def run budget_policy_def budget_risk_def ev
        check_policy_py check_risk_py risk_levels_def fresh_id_def)
qed

lemma budget_refused:
  assumes rdy: "budget_ready st" and ba: "budget_action a"
    and ev: "assess_action (g_world st) a = Inl (Domain c)"
  shows "execute_governed_action a adapter_name st =
     (PolicyDenied (''Budget policy denied ['' @ c @ '']'') False, st\<lparr>g_next := Suc (g_next st)\<rparr>)"
proof -
  obtain d payload where b: "bind_action (g_sha st) a adapter_name = Inr (d, payload)"
    using ev rdy by (auto simp: assess_action_def budget_ready_def split: sum.splits)
  have run: "run_evaluators st budget_registration a adapter_name = Inr (d, budget_policy (g_world st) a, budget_risk (g_world st) a)"
    by (rule budget_evaluators[OF rdy ba b(1)]) (simp_all add: budget_policy_def budget_risk_def ev raised_def)
  have reg: "g_registry st governance_domain = Some budget_registration" using rdy by (simp add: budget_ready_def)
  show ?thesis
    using ba by (simp add: execute_governed_action_def resolve_assessment_def reg budget_action_def run budget_policy_def
        budget_risk_def ev check_policy_py check_risk_py risk_levels_def fresh_id_def)
qed

section \<open>A valid instruction is applied once\<close>

lemma budget_supported:
  assumes ev: "assess_action w a = Inr ev"
    and "req_operation r = ''create''" "req_parameters r = act_parameters a" "pv_domain (req_prov r) = governance_domain"
    and "pv_digest (req_prov r) = Some d" "d \<noteq> []"
  shows "budget_supports r"
proof -
  obtain d' where "validate_mutation (act_parameters a) (Some d') w = Inr ev" using assess_bound[OF ev] by blast
  then obtain m where "mutation_param (act_parameters a) = Inr m" by (auto simp: validate_mutation_def result_simps)
  then show ?thesis using assms(2-) by (simp add: budget_supports_def)
qed

lemma budget_execute_total:
  obtains res w' where "budget_execute r w = (Some res, w')"
proof -
  obtain x w' where "apply_mutation (req_parameters r) (digest_text r) (req_execution_id r) w = (x, w')" by fastforce
  then show thesis using that by (cases x) (simp_all add: budget_execute_def)
qed

lemma valid_action_runs:
  assumes reach: "gov_reachable st" and sha: "\<And>t. g_sha st t \<noteq> []"
    and rdy: "budget_ready st" and ba: "budget_action a" and ev: "assess_action (g_world st) a = Inr ev"
    and auto_run: "90 \<le> act_confidence a" "\<not> act_requires_approval a"
  obtains r d payload res v where "bind_action (g_sha st) a adapter_name = Inr (d, payload)" "req_parameters r = act_parameters a"
    "digest_text r = d" "budget_execute r (g_world st) = (Some res, g_world (snd (execute_governed_action a adapter_name st)))"
    "fst (execute_governed_action a adapter_name st) = Executed res v"
proof -
  obtain asmt st1 where x: "resolve_assessment st a adapter_name = Inr (asmt, st1)" "pol_allowed (asm_policy asmt)"
    "rk_level (asm_risk asmt) = ''medium''" "rk_rollback (asm_risk asmt)"
    using budget_resolve[OF rdy ba ev] by blast
  obtain d payload where b: "bind_action (g_sha st) a adapter_name = Inr (d, payload)" "d \<noteq> []"
    "pv_digest (asm_prov asmt) = Some d"
    using resolve_prov[OF x(1) reachable_inv[OF reach] sha] by blast
  have lev: "rk_level (asm_risk asmt) \<in> {''low'', ''medium''}" using x(3) by simp
  have ad: "g_adapters st adapter_name = Some budget_adapter" using rdy by (simp add: budget_ready_def)
  have sup: "ad_supports budget_adapter r"
    if "req_operation r = type_value (act_type a)" "req_parameters r = act_parameters a"
      "pv_domain (req_prov r) = act_domain a" "pv_digest (req_prov r) = pv_digest (asm_prov asmt)" for r
    using budget_supported[OF ev, of r d] that ba b by (simp add: budget_adapter_def budget_action_def)
  obtain r st5 where r: "cleared st5 r adapter_name budget_adapter" "g_world st5 = g_world st"
    "req_parameters r = act_parameters a" "pv_digest (req_prov r) = pv_digest (asm_prov asmt)"
    and ex: "execute_governed_action a adapter_name st = (case run_request r adapter_name st5 of
       (None, s) \<Rightarrow> (Raised, s) | (Some (res, v), s) \<Rightarrow> (Executed res v, s))"
    using eligible_runs[OF reach sha x(1,2) lev auto_run x(4) ad sup] by blast
  obtain res w where w: "budget_execute r (g_world st) = (Some res, w)" by (rule budget_execute_total)
  have rc: "(\<exists>v. fst (run_request r adapter_name st5) = Some (res, v)) \<and> g_world (snd (run_request r adapter_name st5)) = w"
    using run_request_cleared[OF r(1)] r(2) w by (simp add: budget_adapter_def)
  then obtain v st6 where "run_request r adapter_name st5 = (Some (res, v), st6)" "g_world st6 = w"
    by (cases "run_request r adapter_name st5") auto
  then show thesis using that[of d payload r res v] b r(3,4) w ex by (simp add: digest_text_def)
qed

section \<open>The observer\<close>

lemma record_observation_status:
  "record_observation x d s why ex n e db = (ob, db') \<Longrightarrow> ob_status ob = ''outcome_unknown'' \<or>
     ob_status ob = s \<and> ob_observed ob = n \<and> ob_entry ob = e \<and>
     (\<exists>k v. ob_id ob = Some k \<and> t_verifs db' = t_verifs db @ [v] \<and> fv_status v = s \<and> fv_digest v = d \<and> fv_execution v = x)"
  by (auto simp: record_observation_def record_verification_def transaction_def insert_verification_def new_id_def
      result_simps Let_def split: sum.splits prod.splits)

lemma py_equal_int: "py_equal (PInt i) v \<Longrightarrow> py_equal (PInt j) v \<Longrightarrow> i = j"
  by (cases v) (auto simp: py_equal_def num_value_def split: if_splits)

definition confirms :: "receipt \<Rightarrow> ident \<Rightarrow> params \<Rightarrow> bdb \<Rightarrow> bool" where
  "confirms rc x ex db \<longleftrightarrow> rc_execution rc = x \<and> py_equal (PStr (rc_currency rc)) (param ex ''currency'') \<and>
     py_equal (PStr (rc_mutation rc)) (param ex ''mutation_type'') \<and>
     py_equal (opt_text (rc_request rc)) (param ex ''request_id'') \<and>
     py_equal (opt_int (rc_version rc)) (param ex ''request_version'') \<and>
     py_equal (PInt (rc_available rc)) (param ex ''expected_available_minor'') \<and>
     (\<exists>b. map_of ex ''budget_id'' = Some b \<and> balance_at b (rc_created rc) db = Inr (rc_available rc))"

lemma item_Inr: "item ex k = Inr v \<longleftrightarrow> map_of ex k = Some v"
  by (simp add: item_def result_simps)

lemma if_Nil: "(if b then xs else []) = [] \<longleftrightarrow> \<not> b \<or> xs = []"
  by simp

lemma observe_confirms: "observe rc x ex db = Inr (n, []) \<Longrightarrow> confirms rc x ex db \<and> n = rc_available rc"
  by (auto simp: observe_def mismatches_def result_simps confirms_def item_Inr if_Nil param_def dest: py_equal_int)

lemma observer_verified:
  assumes "observer_verify x d ex db = (ob, db')" and "ob_status ob = ''verified_success''"
  shows "\<exists>rc k v. receipt_by_digest d db = Some rc \<and> confirms rc x ex db \<and> ob_observed ob = Some (rc_available rc) \<and>
     ob_entry ob = Some (rc_entry rc) \<and> ob_id ob = Some k \<and>
     t_verifs db' = t_verifs db @ [v] \<and> fv_status v = ''verified_success'' \<and> fv_digest v = d \<and> fv_execution v = x"
proof -
  obtain rc where rc: "receipt_by_digest d db = Some rc"
    using assms record_observation_status[of x d "''outcome_unknown''"]
    by (cases "receipt_by_digest d db") (force simp: observer_verify_def)+
  obtain n ms where o: "observe rc x ex db = Inr (n, ms)"
    using assms rc record_observation_status[of x d "''outcome_unknown''"]
    by (cases "observe rc x ex db") (force simp: observer_verify_def)+
  have ms: "ms = []"
    using assms rc o record_observation_status[of x d "''verification_mismatch''"]
    by (cases ms) (force simp: observer_verify_def)+
  have "record_observation x d ''verified_success'' ''Receipt, ledger linkage, and recomputed balance match'' ex
      (Some n) (Some (rc_entry rc)) db = (ob, db')" using assms(1) rc o ms by (simp add: observer_verify_def)
  from record_observation_status[OF this] show ?thesis using assms(2) observe_confirms[OF o[unfolded ms]] rc by auto
qed

lemma record_observation_step: "bdb_step db (snd (record_observation x d s why ex n e db))"
  using bdb_step.verify[of db x d s why "param ex ''expected_available_minor''" n e]
  by (auto simp: record_observation_def Let_def split: prod.splits sum.splits)

lemma observer_step: "bdb_step db (snd (observer_verify x d ex db))"
  by (simp add: observer_verify_def record_observation_step split: option.split sum.split prod.split)

lemma observer_frame:
  "t_ledger (snd (observer_verify x d ex db)) = t_ledger db" "t_receipts (snd (observer_verify x d ex db)) = t_receipts db"
proof -
  have v: "t_ledger (snd (record_verification x d s why n m e db)) = t_ledger db \<and>
      t_receipts (snd (record_verification x d s why n m e db)) = t_receipts db" for s why n m e
    unfolding record_verification_def
    by (rule transaction_shape[where P = "\<lambda>w. t_ledger w = t_ledger db \<and> t_receipts w = t_receipts db"])
      (auto simp: result_simps Let_def case_prod_beta insert_verification_def new_id_def)
  have r: "t_ledger (snd (record_observation x d s why ex n e db)) = t_ledger db \<and>
      t_receipts (snd (record_observation x d s why ex n e db)) = t_receipts db" for s why n e
    using v[of s why "param ex ''expected_available_minor''" n e]
    by (auto simp: record_observation_def Let_def split: prod.splits sum.splits)
  then show "t_ledger (snd (observer_verify x d ex db)) = t_ledger db" "t_receipts (snd (observer_verify x d ex db)) = t_receipts db"
    by (simp_all add: observer_verify_def split: option.split sum.split prod.split)
qed

lemma confirms_frame:
  assumes "t_ledger db' = t_ledger db"
  shows "confirms rc x ex db' = confirms rc x ex db"
  unfolding confirms_def balance_at_def available_minor_at_def assms ..

lemma observer_status:
  "ob_status (fst (observer_verify x d ex db)) \<in> {''verified_success'', ''verification_mismatch'', ''outcome_unknown''}"
proof -
  have "ob_status (fst (record_observation x d s why ex n e db)) \<in> {s, ''outcome_unknown''}" for s why n e
    using record_observation_status[of x d s why ex n e db] by (cases "record_observation x d s why ex n e db") auto
  then show ?thesis by (force simp: observer_verify_def split: option.split sum.split prod.split)
qed

section \<open>Every operation follows the history of the ledger\<close>

abbreviation follows :: "bdb \<Rightarrow> bdb \<Rightarrow> bool" where
  "follows \<equiv> bdb_step\<^sup>*\<^sup>*"

definition budget_served :: "bdb gov \<Rightarrow> bool" where
  "budget_served st \<longleftrightarrow> g_adapters st adapter_name = Some budget_adapter"

lemma budget_execute_world: "snd (budget_execute r w) = snd (apply_mutation (req_parameters r) (digest_text r) (req_execution_id r) w)"
  by (simp add: budget_execute_def split: prod.split sum.split)

lemma execute_follows:
  assumes "budget_served st"
  shows "follows (g_world st) (g_world (snd (execute_governed_action a adapter_name st)))"
proof -
  obtain out st' where x: "execute_governed_action a adapter_name st = (out, st')" by fastforce
  from execute_shape[OF x] consider "g_world st' = g_world st" | r where "g_world st' = snd (budget_execute r (g_world st))"
  proof (elim disjE exE conjE)
    fix r ad
    assume "g_adapters st adapter_name = Some ad" and o: "case ad_execute ad r (g_world st) of
        (Some res, w) \<Rightarrow> (\<exists>v. out = Executed res v) \<and> g_world st' = w | (None, w) \<Rightarrow> out = Raised \<and> g_world st' = w"
    then have "g_world st' = snd (budget_execute r (g_world st))"
      using assms by (cases "budget_execute r (g_world st)") (simp add: budget_served_def budget_adapter_def split: option.splits)
    then show thesis by (rule that(2))
  qed (rule that(1), simp)+
  then show ?thesis
  proof cases
    case 2
    then show ?thesis using bdb_step.mutate[of "g_world st"] by (auto simp: x budget_execute_world)
  qed (simp add: x)
qed

lemma with_correlations_fields [simp]:
  "rs_financial (with_correlations rs k e st) = rs_financial rs" "rs_receipt (with_correlations rs k e st) = rs_receipt rs"
  "rs_observation (with_correlations rs k e st) = rs_observation rs" "rs_digest (with_correlations rs k e st) = rs_digest rs"
  "rs_governed (with_correlations rs k e st) = rs_governed rs" "rs_core (with_correlations rs k e st) = rs_core rs"
  "rs_execution (with_correlations rs k e st) = rs_execution rs" "rs_action (with_correlations rs k e st) = rs_action rs"
  by (simp_all add: with_correlations_def)

lemma run_action_follows:
  assumes "budget_served st"
  shows "follows (g_world st) (g_world (snd (run_action a st)))"
proof -
  obtain out st1 where x: "execute_governed_action a adapter_name st = (out, st1)" by fastforce
  have f: "follows (g_world st) (g_world st1)" using execute_follows[OF assms, of a] x by simp
  have g: "follows (g_world st) (snd (observer_verify e d ps (g_world st1)))" for e d ps
    using rtranclp.rtrancl_into_rtrancl[OF f observer_step] .
  then have o: "follows (g_world st) w" if "observer_verify e d ps (g_world st1) = (ob, w)" for e d ps ob w
    using that by (metis snd_conv)
  show ?thesis
    using f o by (auto simp: run_action_def x Let_def split: sum.split prod.split outcome.split option.split bool.split)
qed

lemma fresh_id_world: "fresh_id st = (k, st') \<Longrightarrow> g_world st' = g_world st \<and> g_adapters st' = g_adapters st"
  by (auto simp: fresh_id_def)

lemma submit_follows:
  assumes "budget_served st"
  shows "follows (g_world st) (g_world (snd (submit_action ps p c why st)))"
proof -
  obtain d st1 where d: "fresh_id st = (d, st1)" by fastforce
  obtain k st2 where k: "fresh_id st1 = (k, st2)" by fastforce
  have s: "g_world st2 = g_world st" "budget_served st2" using assms d k by (auto simp: budget_served_def dest!: fresh_id_world)
  show ?thesis using run_action_follows[OF s(2)] s(1) by (auto simp: submit_action_def d k split: sum.split)
qed

lemma validated_follows:
  "budget_served st \<Longrightarrow> follows (g_world st) (g_world (snd (validated_submit ps p c why st)))"
  by (simp add: validated_submit_def submit_follows split: sum.split)

lemma replay_follows: "follows (g_world st) (g_world (snd (replay key m wanted st)))"
  using observer_step by (auto simp: replay_def Let_def split: option.split sum.split prod.split) (metis r_into_rtranclp snd_conv)

lemma replay_adapters: "g_adapters (snd (replay key m wanted st)) = g_adapters st"
  by (auto simp: replay_def Let_def split: option.split sum.split prod.split)

lemma or_else_follows:
  assumes "budget_served st" and f: "\<And>st1. budget_served st1 \<Longrightarrow> follows (g_world st1) (g_world (snd (f st1)))"
  shows "follows (g_world st) (g_world (snd (or_else (replay key m wanted st) f)))"
proof -
  obtain x st1 where r: "replay key m wanted st = (x, st1)" by fastforce
  have "budget_served st1" using assms(1) replay_adapters[of key m wanted st] r by (simp add: budget_served_def)
  then have "follows (g_world st) (g_world st1)" "follows (g_world st1) (g_world (snd (f st1)))"
    using replay_follows[of st key m wanted] f r by simp_all
  then show ?thesis by (auto simp: r or_else_def split: sum.split option.split)
qed

lemma service_follows:
  assumes "budget_served st"
  shows "follows (g_world st) (g_world (snd (service_bootstrap actor bi st)))"
    "follows (g_world st) (g_world (snd (service_commit dec actor k st)))"
    "follows (g_world st) (g_world (snd (service_settle actor k n key st)))"
    "follows (g_world st) (g_world (snd (service_cancel actor k key st)))"
    "follows (g_world st) (g_world (snd (service_adjust actor b ai st)))"
    "follows (g_world st) (g_world (snd (service_correct actor b ai target st)))"
proof -
  note f = or_else_follows[OF assms] and v = validated_follows
  have sub: "follows (g_world s) (g_world (snd (submit_action ps p c why s2)))"
    if "budget_served s" "fresh_id s = (g, s1)" "fresh_id s1 = (b, s2)" for ps p c why s s1 s2 g b
    using submit_follows[of s2 ps p c why] that by (auto simp: budget_served_def dest!: fresh_id_world)
  show "follows (g_world st) (g_world (snd (service_bootstrap actor bi st)))"
    unfolding service_bootstrap_def by (rule f) (auto simp: Let_def sub split: prod.split)
  show "follows (g_world st) (g_world (snd (service_commit dec actor k st)))"
    using run_action_follows[OF assms] by (simp add: service_commit_def split: sum.split option.split)
  show "follows (g_world st) (g_world (snd (service_settle actor k n key st)))"
    unfolding service_settle_def by (rule f) (auto simp: v split: sum.split)
  show "follows (g_world st) (g_world (snd (service_cancel actor k key st)))"
    unfolding service_cancel_def by (rule f) (auto simp: v split: sum.split)
  have change: "follows (g_world st) (g_world (snd (service_change m extra p why actor b ai st)))" for m extra p why
    unfolding service_change_def by (rule f) (simp add: v split: option.split)
  show "follows (g_world st) (g_world (snd (service_adjust actor b ai st)))"
    "follows (g_world st) (g_world (snd (service_correct actor b ai target st)))"
    by (simp_all add: service_adjust_def service_correct_def change)
qed

section \<open>What a response says\<close>

lemma budget_execute_result:
  assumes x: "budget_execute r w = (Some res, w')"
  shows "if res_success res then receipt_by_digest (digest_text r) w' \<noteq> None \<or> (\<exists>rc. apply_mutation (req_parameters r) (digest_text r) (req_execution_id r) w = (Inr rc, w'))
     else w' = w \<and> receipt_by_digest (digest_text r) w' = None"
proof -
  obtain y w1 where a: "apply_mutation (req_parameters r) (digest_text r) (req_execution_id r) w = (y, w1)" by fastforce
  show ?thesis
  proof (cases y)
    case (Inl e)
    then have "w1 = w" using failed_mutation[of "req_parameters r" "digest_text r" "req_execution_id r" w] a by simp
    moreover have "w' = w1" "res = recovery r e w1" using x a Inl by (auto simp: budget_execute_def)
    ultimately show ?thesis
      by (cases "receipt_by_digest (digest_text r) w"; cases e) (simp_all add: recovery_def completed_def not_completed_def)
  next
    case (Inr rc)
    then show ?thesis using x a by (auto simp: budget_execute_def completed_def)
  qed
qed

text \<open>The cases of a run: blocked, refused by the ledger, or a receipt and its observation.\<close>

lemma run_action_cases:
  assumes served: "budget_served st" and run: "run_action a st = (Inr rs, st')"
  obtains (blocked) out st1 where "execute_governed_action a adapter_name st = (out, st1)" "\<And>res v. out \<noteq> Executed res v"
      "g_world st1 = g_world st" "st' = st1" "rs_financial rs = ''blocked_before_execution''" "rs_receipt rs = None"
  | (failed) res v where "fst (execute_governed_action a adapter_name st) = Executed res v"
      "g_world st' = g_world st" "\<not> res_success res" "rs_receipt rs = None"
      "rs_financial rs = financial_status res (receipt_by_digest (rs_digest rs) (g_world st))"
  | (lost) res v st1 payload where "execute_governed_action a adapter_name st = (Executed res v, st1)" "res_success res"
      "bind_action (g_sha st) a adapter_name = Inr (rs_digest rs, payload)" "receipt_by_digest (rs_digest rs) (g_world st1) = None"
  | (observed) res v rc ob st1 where "execute_governed_action a adapter_name st = (Executed res v, st1)" "res_success res"
      "receipt_by_digest (rs_digest rs) (g_world st1) = Some rc" "rs_receipt rs = Some rc"
      "observer_verify (rc_execution rc) (rs_digest rs) (act_parameters a) (g_world st1) = (ob, g_world st')"
      "rs_observation rs = Some ob" "rs_financial rs = ob_status ob"
proof -
  obtain d payload where b: "bind_action (g_sha st) a adapter_name = Inr (d, payload)"
    using run by (auto simp: run_action_def split: sum.splits)
  obtain out st1 where x: "execute_governed_action a adapter_name st = (out, st1)" by fastforce
  show thesis
  proof (cases "\<exists>res v. out = Executed res v")
    case False
    have w: "g_world st1 = g_world st"
      using execute_shape[OF x] False run x b by (auto simp: run_action_def split: option.splits prod.splits)
    show thesis
      by (rule blocked[OF x _ w]) (use False run x b in \<open>auto simp: run_action_def Let_def split: outcome.splits\<close>)
  next
    case True
    then obtain res v where o: "out = Executed res v" by blast
    show thesis
    proof (cases "res_success res")
      case f: False
      have w: "g_world st1 = g_world st"
        using execute_shape[OF x]
      proof (elim disjE exE conjE)
        fix r ad assume "g_adapters st adapter_name = Some ad" and c: "case ad_execute ad r (g_world st) of
            (Some res, w) \<Rightarrow> (\<exists>v. out = Executed res v) \<and> g_world st1 = w | (None, w) \<Rightarrow> out = Raised \<and> g_world st1 = w"
        then have "budget_execute r (g_world st) = (Some res, g_world st1)"
          using served o by (cases "budget_execute r (g_world st)") (simp add: budget_served_def budget_adapter_def split: option.splits)
        then show ?thesis using budget_execute_result f by fastforce
      qed simp_all
      show thesis
        by (rule failed[of res v]) (use run x b o f w in \<open>auto simp: run_action_def Let_def\<close>)
    next
      case t: True
      show thesis
      proof (cases "receipt_by_digest d (g_world st1)")
        case None
        show thesis
          by (rule lost[of res v st1 payload]) (use run x b o t None in \<open>auto simp: run_action_def Let_def financial_status_def\<close>)
      next
        case (Some rc)
        obtain ob w where ob: "observer_verify (rc_execution rc) d (act_parameters a) (g_world st1) = (ob, w)" by fastforce
        show thesis
          by (rule observed[of res v st1 rc ob]) (use run x b o t Some ob in \<open>auto simp: run_action_def Let_def\<close>)
      qed
    qed
  qed
qed

section \<open>Decide, then commit\<close>

definition flat_params :: "params \<Rightarrow> bool" where
  "flat_params ps \<longleftrightarrow> (\<forall>(k, v)\<in>set ps. (\<exists>s. v = PStr s) \<or> (\<exists>i. v = PInt i))"

lemma approval_params_flat: "flat_params (approval_params actor r cur i n)"
  by (simp add: flat_params_def approval_params_def purchase_params_def)

lemma make_action_fields: "make_action ps d c why k now = Inr a \<Longrightarrow> act_parameters a = ps \<and> budget_action a \<and>
    act_confidence a = 100 \<and> \<not> act_requires_approval a \<and> act_component a = c \<and> act_id a = k \<and> act_decision_id a = d"
  by (auto simp: make_action_def result_simps budget_action_def)

lemma approval_action_facts:
  "approval_action actor k r cur i j n st = Inr (a, d) \<Longrightarrow> act_parameters a = approval_params actor r cur i n \<and>
     (\<exists>payload. bind_action (g_sha st) a adapter_name = Inr (d, payload))"
  by (auto simp: approval_action_def result_simps dest: make_action_fields
      split: sum.splits)

lemma service_decide_shape:
  assumes o: "service_decide enc actor k ''approved'' why st = (Inr v, st')"
  obtains rv cur i a d where "request_detail actor k (g_world st) = Inr rv" "current_version rv = Inr cur"
    "act_parameters a = approval_params actor (rv_request rv) cur i (available_minor (pr_budget (rv_request rv)) (g_world st))"
    "\<exists>payload. bind_action (g_sha st) a adapter_name = Inr (d, payload)"
    "save_decision i actor k ''approved'' why (Some d) (Some (enc a)) (Some (available_minor (pr_budget (rv_request rv)) (g_world st)))
       (g_world st) = (Inr v, g_world st')" "g_sha st' = g_sha st" "g_adapters st' = g_adapters st"
proof -
  obtain i st1 where i: "fresh_id st = (i, st1)" by fastforce
  obtain j st2 where j: "fresh_id st1 = (j, st2)" by fastforce
  have f: "g_world st1 = g_world st" "g_world st2 = g_world st" "g_sha st2 = g_sha st" "g_adapters st2 = g_adapters st"
    using i j by (auto simp: fresh_id_def)
  obtain rv where rv: "request_detail actor k (g_world st) = Inr rv"
    using o by (cases "request_detail actor k (g_world st)") (simp_all add: service_decide_def)
  note o = o[unfolded service_decide_def rv i j sum.case Let_def prod.case]
  obtain cur where cur: "current_version rv = Inr cur"
    using o by (cases "current_version rv") simp_all
  note o = o[unfolded cur sum.case j prod.case f]
  let ?n = "available_minor (pr_budget (rv_request rv)) (g_world st)"
  obtain a d where a: "approval_action actor k (rv_request rv) cur i j ?n st2 = Inr (a, d)"
    using o by (cases "approval_action actor k (rv_request rv) cur i j ?n st2") auto
  have "on_db (save_decision i actor k ''approved'' why (Some d) (Some (enc a)) (Some ?n)) st2 = (Inr v, st')"
    using o by (simp add: a)
  then show thesis
    using that[OF rv cur] approval_action_facts[OF a] f by (auto simp: on_db_def split: prod.splits)
qed

lemma detail_request: "request_detail actor k db = Inr rv \<Longrightarrow> the_request k db = Inr (rv_request rv) \<and> rv = view_request db (rv_request rv)"
  by (auto simp: request_detail_def result_simps view_request_def)

lemma then_view_success: "then_view actor (transaction f db) = (Inr v, db') \<Longrightarrow> \<exists>x. f db = Inr (x, db')"
  by (auto simp: then_view_def transaction_def result_simps split: prod.splits sum.splits)

lemma saved_decision:
  assumes "save_decision i actor k dec why digest action evidence db = (Inr v, db')"
  obtains r where "the_request k db = Inr r" "new_decision i actor k dec why digest action evidence r db \<in> set (t_decisions db')"
proof -
  obtain x where "(\<lambda>db0.
      and_then (the_request k db0) (\<lambda>r.
      and_then (require_role actor ''budget_owner'' (Some (pr_budget r)) db0) (\<lambda>_.
      and_then (ensure (pr_requester r \<noteq> actor) (Domain ''self_approval'')) (\<lambda>_.
      and_then (ensure (pr_status r = ''submitted'') (Domain ''stale_version'')) (\<lambda>_.
      and_then (ensure (dec \<in> {''approved'', ''rejected''}) (Domain ''validation'')) (\<lambda>_.
      and_then (insert_decision \<lparr>d_id = i, d_request = k, d_version = pr_version r, d_decision = dec,
           d_by = actor, d_reason = strip why, d_digest = digest, d_action = action,
           d_balance = evidence, d_created = bw_now db0\<rparr> db0) (\<lambda>db1.
      Inr (k, update_request k (\<lambda>x. x\<lparr>pr_status := dec, pr_updated := bw_now db0\<rparr>) db1))))))))
      db = Inr (x, db')"
    using assms unfolding save_decision_def by (blast dest: then_view_success)
  then obtain r db1 where r: "the_request k db = Inr r"
    "insert_decision (new_decision i actor k dec why digest action evidence r db) db = Inr db1"
    "db' = update_request k (\<lambda>x. x\<lparr>pr_status := dec, pr_updated := bw_now db\<rparr>) db1"
    unfolding new_decision_def by (simp only: result_simps) blast
  then show thesis using that[OF r(1)] insert_decision_is[OF r(2)] by (simp add: update_request_def)
qed

text \<open>A reported success has its receipt in the ledger.\<close>

lemma success_durable:
  assumes inv: "bdb_inv (g_world st)" and served: "budget_served st"
    and x: "execute_governed_action a adapter_name st = (Executed res v, st1)" "res_success res"
    and b: "bind_action (g_sha st) a adapter_name = Inr (d, payload)"
  shows "receipt_by_digest d (g_world st1) \<noteq> None"
  using execute_shape[OF x(1)]
proof (elim disjE exE conjE)
  fix r ad d' payload'
  assume ad: "g_adapters st adapter_name = Some ad" and d: "bind_action (g_sha st) a adapter_name = Inr (d', payload')"
      "pv_digest (req_prov r) = Some d'" "req_parameters r = act_parameters a"
    and c: "case ad_execute ad r (g_world st) of (Some res', w) \<Rightarrow> (\<exists>v'. Executed res v = Executed res' v') \<and> g_world st1 = w
      | (None, w) \<Rightarrow> Executed res v = Raised \<and> g_world st1 = w"
  have e: "budget_execute r (g_world st) = (Some res, g_world st1)"
    using served ad c by (cases "budget_execute r (g_world st)") (simp add: budget_served_def budget_adapter_def split: option.splits)
  have dt: "digest_text r = d" using d b by (simp add: digest_text_def)
  show ?thesis
  proof (cases "receipt_by_digest d (g_world st1)")
    case None
    then obtain rc where "apply_mutation (act_parameters a) d (req_execution_id r) (g_world st) = (Inr rc, g_world st1)"
      using budget_execute_result[OF e] x(2) dt d(3) by auto
    then have "rc \<in> set (t_receipts (g_world st1)) \<and> rc_digest rc = d" by (rule mutation_success[OF inv]) blast
    then show ?thesis by (auto simp: receipt_none)
  qed simp
qed (use x(2) in auto)

section \<open>Sequences of service operations\<close>

lemma execute_adapters: "g_adapters (snd (execute_governed_action a adapter st)) = g_adapters st"
proof (cases "resolve_assessment st a adapter")
  case (Inl e)
  then show ?thesis by (cases e) (simp_all add: execute_governed_action_def)
next
  case (Inr x)
  obtain asmt st1 where x: "resolve_assessment st a adapter = Inr (asmt, st1)" using Inr by (cases x) simp
  obtain d st2 where d: "process_approval a (asm_policy asmt) (asm_risk asmt) st1 = (d, st2)" by fastforce
  have st1: "g_adapters st1 = g_adapters st" using resolve_state[OF x] by simp
  then have st2: "g_adapters st2 = g_adapters st" using d by (auto simp: process_approval_def fresh_id_def Let_def)
  obtain h st3 where h: "hold_for_manual_approval a d adapter (Some (rk_level (asm_risk asmt)))
      (Some (asm_prov asmt)) st2 = (h, st3)" by fastforce
  then have st3: "g_adapters st3 = g_adapters st" using st2 by (auto simp: hold_for_manual_approval_def fresh_id_def Let_def)
  let ?st3 = "record_approval_decision a d ''approved'' ''approval_policy'' None (Some (asm_prov asmt)) st2"
  obtain au st4 where au: "create_execution_authorization a d (Some (asm_prov asmt)) ?st3 = (au, st4)" by fastforce
  then have st4: "g_adapters st4 = g_adapters st" using st2
    by (auto simp: create_execution_authorization_def record_approval_decision_def fresh_id_def Let_def split: if_splits)
  have run: "g_adapters (snd (execute_authorized a adapter asmt y st4)) = g_adapters st" for y
  proof -
    obtain r st5 where tr: "translate_action_to_execution a (auth_id y) (Some (rk_level (asm_risk asmt)))
        (Some adapter) (Some (asm_prov asmt)) None (save_authorization y st4) = (r, st5)" by fastforce
    obtain o6 st6 where rr: "run_request r adapter st5 = (o6, st6)" by fastforce
    have "snd (execute_authorized a adapter asmt y st4) = st6"
      using tr rr by (cases o6) (simp_all add: execute_authorized_def Let_def split: prod.split)
    then show ?thesis using run_request_same_base[of st5 r adapter] rr translate_fields(13)[OF tr] st4
      by (simp add: same_base_def save_authorization_def)
  qed
  show ?thesis using st1 st2 st3 st4 run
    by (auto simp: execute_governed_action_def x d h au Let_def split: option.split)
qed

lemma run_action_adapters: "g_adapters (snd (run_action a st)) = g_adapters st"
proof -
  obtain out st1 where x: "execute_governed_action a adapter_name st = (out, st1)" by fastforce
  then have "g_adapters st1 = g_adapters st" using execute_adapters[of a adapter_name st] by simp
  then show ?thesis
    by (auto simp: run_action_def x Let_def split: sum.split prod.split outcome.split option.split bool.split)
qed

lemma submit_adapters: "g_adapters (snd (submit_action ps p c why st)) = g_adapters st"
  using run_action_adapters by (auto simp: submit_action_def fresh_id_def split: sum.split)

lemma service_adapters:
  "g_adapters (snd (service_bootstrap actor bi st)) = g_adapters st"
  "g_adapters (snd (service_commit dec actor k st)) = g_adapters st"
  "g_adapters (snd (service_settle actor k n key st)) = g_adapters st"
  "g_adapters (snd (service_cancel actor k key st)) = g_adapters st"
  "g_adapters (snd (service_adjust actor b ai st)) = g_adapters st"
  "g_adapters (snd (service_correct actor b ai target st)) = g_adapters st"
proof -
  have r: "g_adapters (snd (or_else (replay key m wanted st) f)) = g_adapters st"
    if "\<And>s. g_adapters (snd (f s)) = g_adapters s" for key m wanted f
  proof -
    obtain x s where "replay key m wanted st = (x, s)" by fastforce
    then show ?thesis using that[of s] replay_adapters[of key m wanted st]
      by (auto simp: or_else_def split: sum.split option.split)
  qed
  have v: "g_adapters (snd (validated_submit ps p c why s)) = g_adapters s" for ps p c why s
    by (simp add: validated_submit_def submit_adapters split: sum.split)
  show "g_adapters (snd (service_bootstrap actor bi st)) = g_adapters st"
    unfolding service_bootstrap_def by (rule r) (simp add: submit_adapters fresh_id_def Let_def)
  show "g_adapters (snd (service_commit dec actor k st)) = g_adapters st"
    by (simp add: service_commit_def run_action_adapters split: sum.split option.split)
  show "g_adapters (snd (service_settle actor k n key st)) = g_adapters st"
    unfolding service_settle_def by (rule r) (auto simp: v split: sum.split)
  show "g_adapters (snd (service_cancel actor k key st)) = g_adapters st"
    unfolding service_cancel_def by (rule r) (auto simp: v split: sum.split)
  have "g_adapters (snd (service_change m extra p why actor b ai st)) = g_adapters st" for m extra p why
    unfolding service_change_def by (rule r) (simp add: v split: option.split)
  then show "g_adapters (snd (service_adjust actor b ai st)) = g_adapters st"
    "g_adapters (snd (service_correct actor b ai target st)) = g_adapters st"
    by (simp_all add: service_adjust_def service_correct_def)
qed

lemma on_db_world: "g_world (snd (on_db f st)) = snd (f (g_world st)) \<and> g_adapters (snd (on_db f st)) = g_adapters st"
  by (simp add: on_db_def split: prod.split)

lemma decide_follows:
  "follows (g_world st) (g_world (snd (service_decide enc actor k dec why st))) \<and>
   g_adapters (snd (service_decide enc actor k dec why st)) = g_adapters st"
proof -
  have d: "follows w (snd (save_decision i actor k x why u v n w))" for i x u v n w
    using bdb_step.decide by (rule r_into_rtranclp)
  have f: "g_world (snd (fresh_id s)) = g_world s" "g_adapters (snd (fresh_id s)) = g_adapters s" for s :: "bdb gov"
    by (simp_all add: fresh_id_def)
  show ?thesis
    by (simp add: service_decide_def case_prod_beta Let_def f d on_db_world split: sum.split)
qed

lemma reconcile_follows:
  "follows (g_world st) (g_world (snd (service_reconcile actor digest st))) \<and>
   g_adapters (snd (service_reconcile actor digest st)) = g_adapters st"
  using observer_step by (auto simp: service_reconcile_def Let_def split: option.split sum.split prod.split)
    (metis r_into_rtranclp snd_conv)+

text \<open>What the HTTP interface of the budget can do to a deployment.\<close>

inductive service_step :: "bdb gov \<Rightarrow> bdb gov \<Rightarrow> bool" where
  bootstrapped: "service_step st (snd (service_bootstrap actor bi st))"
| requested: "service_step st (snd (on_db (create_request actor b n cur purpose reference) st))"
| revised: "service_step st (snd (on_db (add_request_version actor k n cur purpose reference) st))"
| submitted: "service_step st (snd (on_db (submit_request actor k) st))"
| decided: "service_step st (snd (service_decide enc actor k dec why st))"
| committed: "service_step st (snd (service_commit read actor k st))"
| settled: "service_step st (snd (service_settle actor k n key st))"
| cancelled: "service_step st (snd (service_cancel actor k key st))"
| adjusted: "service_step st (snd (service_adjust actor b ai st))"
| corrected: "service_step st (snd (service_correct actor b ai target st))"
| reconciled: "service_step st (snd (service_reconcile actor digest st))"
| passed: "service_step st (st\<lparr>g_now := n, g_world := (g_world st)\<lparr>bw_now := t, bw_today := d\<rparr>\<rparr>)"

lemma service_step_follows:
  "service_step st st' \<Longrightarrow> budget_served st \<Longrightarrow> follows (g_world st) (g_world st') \<and> budget_served st'"
proof (induction rule: service_step.induct)
  case passed
  then show ?case using bdb_step.tick by (simp add: budget_served_def r_into_rtranclp)
qed (simp_all add: service_follows decide_follows reconcile_follows service_adapters budget_served_def on_db_world
    r_into_rtranclp bdb_step.create bdb_step.version bdb_step.submit)

lemma service_steps_follow:
  "service_step\<^sup>*\<^sup>* st st' \<Longrightarrow> budget_served st \<Longrightarrow> follows (g_world st) (g_world st') \<and> budget_served st'"
proof (induction rule: rtranclp_induct)
  case (step y z)
  then show ?case using service_step_follows[of y z] by (meson rtranclp_trans)
qed simp

section \<open>Replay\<close>

lemma replay_known:
  assumes "receipt_by_key key (g_world st) = Some rc"
  obtains (conflict) e where "replay key m wanted st = (Inl e, st)"
  | (again) rs ob w where "replay key m wanted st = (Inr (Some rs), st\<lparr>g_world := w\<rparr>)" "rs_receipt rs = Some rc" "rs_replayed rs"
      "rc_mutation rc = mutation_value m" "t_ledger w = t_ledger (g_world st)" "t_receipts w = t_receipts (g_world st)"
proof -
  let ?c = "and_then (ensure (rc_mutation rc = mutation_value m) (Domain ''idempotency_conflict'')) (\<lambda>_.
     and_then (parse_dict (rc_parameters rc)) (\<lambda>ps.
     and_then (ensure (list_all (\<lambda>(n, v). py_equal (param ps n) v) wanted) (Domain ''idempotency_conflict'')) (\<lambda>_. Inr ps)))"
  show thesis
  proof (cases ?c)
    case (Inl e)
    then show thesis using assms by (intro conflict[of e]) (simp add: replay_def)
  next
    case (Inr ps)
    obtain ob w where ob: "observer_verify (rc_execution rc) (rc_digest rc) ps (g_world st) = (ob, w)" by fastforce
    have m: "rc_mutation rc = mutation_value m" using Inr by (simp add: result_simps)
    have w: "t_ledger w = t_ledger (g_world st)" "t_receipts w = t_receipts (g_world st)"
      using observer_frame[of "rc_execution rc" "rc_digest rc" ps "g_world st"] by (simp_all add: ob)
    show thesis
      by (rule again[OF _ _ _ m w], use assms Inr ob in \<open>simp add: replay_def\<close>) simp_all
  qed
qed

text \<open>Neither the ledger nor the receipts.\<close>

definition same_accounts :: "bdb gov \<Rightarrow> bdb gov \<Rightarrow> bool" where
  "same_accounts st st' \<longleftrightarrow> t_ledger (g_world st') = t_ledger (g_world st) \<and> t_receipts (g_world st') = t_receipts (g_world st)"

lemma known_key_same:
  assumes "receipt_by_key key (g_world st) = Some rc"
  shows "same_accounts st (snd (or_else (replay key m wanted st) f))"
  by (rule replay_known[OF assms, of m wanted]) (auto simp: or_else_def same_accounts_def)

end
