(* ===== verification/Budget_Status.thy ===== *)
theory Budget_Status
  imports Budget_Runs
begin

text \<open>
  What a financial status claims about the ledger: for each of the six statuses the receipt, the
  ledger row and the effect it stands for. Fresh runs, replays and reconciliations report only
  statuses whose claim holds.
\<close>

definition financial_statuses :: "string list" where
  "financial_statuses = [''blocked_before_execution'', ''adapter_failed_no_effect'', ''applied_unverified'',
     ''outcome_unknown'', ''verified_success'', ''verification_mismatch'']"

text \<open>The receipt is in the ledger under the digest, with its ledger row.\<close>

definition durable :: "string \<Rightarrow> receipt \<Rightarrow> bdb \<Rightarrow> bool" where
  "durable d rc db \<longleftrightarrow> receipt_by_digest d db = Some rc \<and> (\<exists>e\<in>set (t_ledger db). e_id e = rc_entry rc \<and> e_digest e = d)"

definition status_true :: "string \<Rightarrow> string \<Rightarrow> receipt option \<Rightarrow> params \<Rightarrow> bdb \<Rightarrow> bdb \<Rightarrow> bool" where
  "status_true s d rc ex w w' \<longleftrightarrow> s \<in> set financial_statuses \<and>
     (case rc of
        Some x \<Rightarrow> durable d x w' \<and> s \<in> {''verified_success'', ''verification_mismatch'', ''outcome_unknown''} \<and>
          (s = ''verified_success'' \<longrightarrow> confirms x (rc_execution x) ex w') \<and>
          (s = ''verification_mismatch'' \<longrightarrow> \<not> confirms x (rc_execution x) ex w')
      | None \<Rightarrow> w' = w \<and> s \<notin> {''verified_success'', ''verification_mismatch''} \<and>
          (s = ''adapter_failed_no_effect'' \<longrightarrow> receipt_by_digest d w' = None) \<and>
          (s = ''applied_unverified'' \<longrightarrow> (\<exists>x. durable d x w')))"

section \<open>What the observer concludes\<close>

lemma observe_mismatch: "observe rc x ex db = Inr (n, ms) \<Longrightarrow> ms \<noteq> [] \<Longrightarrow> \<not> confirms rc x ex db"
  by (auto simp: observe_def mismatches_def result_simps confirms_def item_Inr param_def split: if_splits)

lemma observer_mismatch:
  assumes "observer_verify x d ex db = (ob, db')" and "ob_status ob = ''verification_mismatch''"
    and "receipt_by_digest d db = Some rc"
  shows "\<not> confirms rc x ex db"
proof -
  obtain n ms where o: "observe rc x ex db = Inr (n, ms)"
    using assms record_observation_status[of x d "''outcome_unknown''"]
    by (cases "observe rc x ex db") (force simp: observer_verify_def)+
  have "ms \<noteq> []"
    using assms o record_observation_status[of x d "''verified_success''"] by (force simp: observer_verify_def)
  then show ?thesis using observe_mismatch[OF o] by blast
qed

lemma receipt_durable:
  assumes "bdb_inv db" and "receipt_by_digest d db = Some rc"
  shows "durable d rc db"
proof -
  have "rc \<in> set (t_receipts db)" "rc_digest rc = d" using assms(2) by (auto simp: receipt_by_digest_def dest: find_SomeD)
  moreover then have "receipt_ok db rc" using assms(1) by (simp add: bdb_inv_def rows_ok_def)
  ultimately show ?thesis using assms(2) by (auto simp: durable_def receipt_ok_def)
qed

lemma observed_status_true:
  assumes inv: "bdb_inv w1" and rc: "receipt_by_digest d w1 = Some rc"
    and ob: "observer_verify (rc_execution rc) d ex w1 = (ob, w')"
  shows "status_true (ob_status ob) d (Some rc) ex w w'"
proof -
  have fr: "t_ledger w' = t_ledger w1" "t_receipts w' = t_receipts w1"
    using observer_frame[of "rc_execution rc" d ex w1] by (simp_all add: ob)
  have dur: "durable d rc w'"
    using receipt_durable[OF inv rc] fr by (simp add: durable_def receipt_by_digest_def)
  have s: "ob_status ob \<in> {''verified_success'', ''verification_mismatch'', ''outcome_unknown''}"
    using observer_status[of "rc_execution rc" d ex w1] by (simp add: ob)
  have ok: "ob_status ob = ''verified_success'' \<Longrightarrow> confirms rc (rc_execution rc) ex w'"
    using observer_verified[OF ob] rc confirms_frame[OF fr(1)] by auto
  have bad: "ob_status ob = ''verification_mismatch'' \<Longrightarrow> \<not> confirms rc (rc_execution rc) ex w'"
    using observer_mismatch[OF ob _ rc] confirms_frame[OF fr(1)] by auto
  show ?thesis using dur s ok bad by (auto simp: status_true_def financial_statuses_def)
qed

section \<open>Runs, replays, reconciliations\<close>

lemma run_status_true:
  assumes reach: "bdb_reachable (g_world st)" and served: "budget_served st" and run: "run_action a st = (Inr rs, st')"
  shows "status_true (rs_financial rs) (rs_digest rs) (rs_receipt rs) (act_parameters a) (g_world st) (g_world st')"
proof (rule run_action_cases[OF served run])
  fix out st1
  assume "g_world st1 = g_world st" "st' = st1" "rs_financial rs = ''blocked_before_execution''" "rs_receipt rs = None"
  then show ?thesis by (simp add: status_true_def financial_statuses_def)
next
  fix res v
  assume f: "g_world st' = g_world st" "\<not> res_success res" "rs_receipt rs = None"
    "rs_financial rs = financial_status res (receipt_by_digest (rs_digest rs) (g_world st))"
  have "durable (rs_digest rs) x (g_world st)" if "receipt_by_digest (rs_digest rs) (g_world st) = Some x" for x
    by (rule receipt_durable[OF reachable_bdb_inv[OF reach] that])
  then show ?thesis using f by (auto simp: status_true_def financial_statuses_def financial_status_def)
next
  fix res v st1 payload
  assume l: "execute_governed_action a adapter_name st = (Executed res v, st1)" "res_success res"
      "bind_action (g_sha st) a adapter_name = Inr (rs_digest rs, payload)" "receipt_by_digest (rs_digest rs) (g_world st1) = None"
  show ?thesis using success_durable[OF reachable_bdb_inv[OF reach] served l(1-3)] l(4) by simp
next
  fix res v rc ob st1
  assume o: "execute_governed_action a adapter_name st = (Executed res v, st1)"
    "receipt_by_digest (rs_digest rs) (g_world st1) = Some rc" "rs_receipt rs = Some rc"
    "observer_verify (rc_execution rc) (rs_digest rs) (act_parameters a) (g_world st1) = (ob, g_world st')"
    "rs_financial rs = ob_status ob"
  have "follows (g_world st) (g_world st1)" using execute_follows[OF served, of a] o(1) by simp
  then have "bdb_inv (g_world st1)" using steps_grow reach reachable_bdb_inv by blast
  from observed_status_true[OF this o(2,4)] show ?thesis by (simp add: o(3,5))
qed

lemma replay_status_true:
  assumes reach: "bdb_reachable (g_world st)" and run: "replay key m wanted st = (Inr (Some rs), st')"
  shows "\<exists>rc ex. rs_receipt rs = Some rc \<and> parse_dict (rc_parameters rc) = Inr ex \<and>
     status_true (rs_financial rs) (rs_digest rs) (rs_receipt rs) ex (g_world st) (g_world st')"
proof -
  have inv: "bdb_inv (g_world st)" by (rule reachable_bdb_inv[OF reach])
  obtain rc where rc: "receipt_by_key key (g_world st) = Some rc"
    using run by (cases "receipt_by_key key (g_world st)") (simp_all add: replay_def)
  let ?c = "and_then (ensure (rc_mutation rc = mutation_value m) (Domain ''idempotency_conflict'')) (\<lambda>_.
     and_then (parse_dict (rc_parameters rc)) (\<lambda>ps.
     and_then (ensure (list_all (\<lambda>(n, v). py_equal (param ps n) v) wanted) (Domain ''idempotency_conflict'')) (\<lambda>_. Inr ps)))"
  obtain ex where ex: "?c = Inr ex" using run rc by (cases ?c) (simp_all add: replay_def)
  obtain ob w where ob: "observer_verify (rc_execution rc) (rc_digest rc) ex (g_world st) = (ob, w)" by fastforce
  have rs: "rs_receipt rs = Some rc" "rs_digest rs = rc_digest rc" "rs_financial rs = ob_status ob" "g_world st' = w"
    using run by (auto simp: replay_def rc ex ob)
  have p: "parse_dict (rc_parameters rc) = Inr ex" using ex by (auto simp: result_simps)
  have "rc \<in> set (t_receipts (g_world st))" using rc by (auto simp: receipt_by_key_def dest: find_SomeD)
  moreover have "distinct (List.map rc_digest (t_receipts (g_world st)))" using inv by (simp add: bdb_defs)
  ultimately have "receipt_by_digest (rc_digest rc) (g_world st) = Some rc"
    using find_unique[of rc_digest "t_receipts (g_world st)" rc] by (simp add: receipt_by_digest_def)
  from observed_status_true[OF inv this ob, of "g_world st"] show ?thesis using rs p by auto
qed

lemma reconcile_status_true:
  assumes reach: "bdb_reachable (g_world st)" and run: "service_reconcile actor d st = (Inr rn, st')"
  shows "\<exists>ex. (case rn_receipt rn of None \<Rightarrow> True | Some rc \<Rightarrow> parse_dict (rc_parameters rc) = Inr ex) \<and>
     status_true (rn_status rn) d (rn_receipt rn) ex (g_world st) (g_world st')"
proof (cases "receipt_by_digest d (g_world st)")
  case None
  then show ?thesis using run by (auto simp: service_reconcile_def status_true_def financial_statuses_def)
next
  case (Some rc)
  let ?c = "and_then (parse_dict (rc_parameters rc)) (\<lambda>ps. and_then (item ps ''budget_id'') (\<lambda>b. and_then (bind_text b) (\<lambda>k.
     and_then (ensure (case k of None \<Rightarrow> has_role actor ''budget_owner'' None (g_world st)
        | Some i \<Rightarrow> has_role actor ''budget_owner'' (Some i) (g_world st)) (Domain ''forbidden'')) (\<lambda>_. Inr ps))))"
  obtain ex where ex: "?c = Inr ex" using run Some by (cases ?c) (simp_all add: service_reconcile_def)
  obtain ob w where ob: "observer_verify (rc_execution rc) (rc_digest rc) ex (g_world st) = (ob, w)" by fastforce
  have d: "rc_digest rc = d" using Some by (auto simp: receipt_by_digest_def dest: find_SomeD)
  have rn: "rn_receipt rn = Some rc" "rn_status rn = ob_status ob" "g_world st' = w"
    using run by (auto simp: service_reconcile_def Some ex ob)
  have p: "parse_dict (rc_parameters rc) = Inr ex" using ex by (auto simp: result_simps)
  show ?thesis using observed_status_true[OF reachable_bdb_inv[OF reach] Some ob[unfolded d], of "g_world st"] rn p by auto
qed

end
