(* ===== verification/Budget_Governance.thy ===== *)
theory Budget_Governance
  imports Action_Json Budget_Status Budget_Sample
begin

text \<open>
  The properties of the budget domain under governance: refused instructions change nothing, valid
  ones are applied once, the financial status that is reported holds in the ledger, retries
  replay, and the instruction that was approved is the one that is committed.
\<close>

section \<open>A deployment for the witnesses\<close>

definition bare_deployment :: "bdb \<Rightarrow> bdb gov" where
  "bare_deployment w = \<lparr>g_holds = empty_store Sqlite, g_records = empty_store Sqlite, g_auths = empty_store Sqlite,
     g_audits = empty_store Sqlite, g_traces = empty_store Sqlite, g_verifs = empty_store Sqlite,
     g_registry = (\<lambda>d. None), g_adapters = (\<lambda>a. None), g_modules = (\<lambda>w. Some []),
     g_uuid = (\<lambda>n. CHR ''u'' # replicate n CHR ''x''), g_next = 0, g_now = 0, g_sha = (\<lambda>t. ''h''), g_world = w\<rparr>"

definition deployment :: "bdb \<Rightarrow> bdb gov" where
  "deployment w = register_adapter adapter_name budget_adapter
     ((bare_deployment w)\<lparr>g_registry := [governance_domain \<mapsto> budget_registration]\<rparr>)"

lemma deployment_reachable: "gov_reachable (deployment w)"
proof -
  let ?st = "(bare_deployment w)\<lparr>g_registry := [governance_domain \<mapsto> budget_registration]\<rparr>"
  have "gov_reachable (bare_deployment w)"
    by (rule reach_start) (auto simp: fresh_start_def bare_deployment_def inj_def intro!: exI[of _ Sqlite])
  moreover have "gov_step (bare_deployment w) ?st"
    by (rule step_domain[of budget_registration]) (simp add: register_domain_def bare_deployment_def budget_setup governance_domain_def)
  ultimately have "gov_reachable ?st" by (rule reach_step)
  then show ?thesis unfolding deployment_def by (rule reach_step) (rule step_adapter)
qed

lemma deployment_fields [simp]:
  "g_world (deployment w) = w" "g_sha (deployment w) = (\<lambda>t. ''h'')" "budget_served (deployment w)"
  "budget_ready (deployment w) \<longleftrightarrow> bw_sha w = (\<lambda>t. ''h'')"
  by (auto simp: deployment_def bare_deployment_def register_adapter_def budget_served_def budget_ready_def)

definition sample_change :: "int \<Rightarrow> action" where
  "sample_change n = \<lparr>act_id = ''a'', act_created_at = 0, act_decision_id = ''d'', act_domain = governance_domain,
     act_component = ''b1'', act_type = Create, act_status = APending, act_reason = ''r'', act_confidence = 100,
     act_requires_approval = False, act_rollback_required = True,
     act_parameters = [(''mutation_type'', PStr ''adjustment''), (''actor'', PStr ''olga''), (''currency'', PStr ''USD''),
       (''budget_id'', PStr ''b1''), (''amount_minor'', PInt n), (''idempotency_key'', PStr ''k9''),
       (''expected_available_minor'', PInt (1000 + n))], act_expected = None\<rparr>"

lemma sample_change_binds: "\<exists>payload. bind_action (\<lambda>t. ''h'') (sample_change n) adapter_name = Inr (''h'', payload)"
  by (simp add: binding_defs sample_change_def governance_domain_def adapter_name_def outcome_json_def require_some_def tag_key_def)

lemma sample_change_fields [simp]:
  "act_domain (sample_change n) = governance_domain" "act_type (sample_change n) = Create"
  "90 \<le> act_confidence (sample_change n)" "\<not> act_requires_approval (sample_change n)" "budget_action (sample_change n)"
  by (simp_all add: sample_change_def budget_action_def)

lemma sample_ready: "budget_ready (deployment sample_open)"
  by (simp add: sample_open_def sample_empty_def)

lemma sample_valid: "assess_action sample_open (sample_change 100) = Inr \<lparr>me_mutation = ''adjustment'', me_budget = Some (PStr ''b1''),
     me_currency = ''USD'', me_amount = PInt 100, me_before = 1000, me_after = 1100,
     me_refs = [''budget:b1'', ''balance:1000'', ''mutation:adjustment'']\<rparr>"
proof -
  have sha: "bw_sha sample_open = (\<lambda>t. ''h'')" by (simp add: sample_open_def sample_empty_def)
  have "validate_mutation (act_parameters (sample_change 100)) (Some ''h'') sample_open = Inr \<lparr>me_mutation = ''adjustment'', me_budget = Some (PStr ''b1''),
     me_currency = ''USD'', me_amount = PInt 100, me_before = 1000, me_after = 1100,
     me_refs = [''budget:b1'', ''balance:1000'', ''mutation:adjustment'']\<rparr>" by code_simp
  then show ?thesis using sample_change_binds[of 100] by (auto simp: assess_action_def sha)
qed

lemma sample_overdraft: "assess_action sample_open (sample_change (- 2000)) = Inl (Domain ''insufficient_funds'')"
proof -
  have sha: "bw_sha sample_open = (\<lambda>t. ''h'')" by (simp add: sample_open_def sample_empty_def)
  have "validate_mutation (act_parameters (sample_change (- 2000))) (Some ''h'') sample_open = Inl (Domain ''insufficient_funds'')" by code_simp
  then show ?thesis using sample_change_binds[of "- 2000"] by (auto simp: assess_action_def sha)
qed

section \<open>Properties\<close>

text \<open>A budget instruction that validation refuses with a code is denied by policy with that code: no
  approval, no authorization, no execution, and the ledger keeps its contents.\<close>

theorem refused_instruction_changes_nothing:
  assumes "budget_ready st" and "act_domain a = governance_domain" and "act_type a = Create"
    and "assess_action (g_world st) a = Inl (Domain c)"
  shows "execute_governed_action a adapter_name st =
     (PolicyDenied (''Budget policy denied ['' @ c @ '']'') False, st\<lparr>g_next := Suc (g_next st)\<rparr>)"
  by (rule budget_refused[OF assms(1) _ assms(4)]) (simp add: budget_action_def assms(2,3))

theorem refused_instruction_changes_nothing_witness:
  "fst (execute_governed_action (sample_change (- 2000)) adapter_name (deployment sample_open)) =
     PolicyDenied ''Budget policy denied [insufficient_funds]'' False"
  using refused_instruction_changes_nothing[OF sample_ready, of "sample_change (- 2000)" "''insufficient_funds''"] sample_overdraft
  by simp

text \<open>What the ledger's answer means for an instruction with a digest, in the world after it: a mutation
  that goes through has its receipt under the digest, and one new row and receipt unless the receipt was
  there before; a mutation the ledger refuses changes nothing.\<close>

definition settled_in :: "string \<Rightarrow> ident \<Rightarrow> (berror + receipt) \<Rightarrow> bdb \<Rightarrow> bdb \<Rightarrow> bool" where
  "settled_in d x answer w w' =
     (case answer of
        Inl e \<Rightarrow> w' = w
      | Inr rc \<Rightarrow> receipt_by_digest d w' = Some rc \<and>
          (if receipt_by_digest d w = None
           then \<exists>e. t_ledger w' = t_ledger w @ [e] \<and> t_receipts w' = t_receipts w @ [rc] \<and>
             e_id e = rc_entry rc \<and> e_digest e = d \<and> e_execution e = x \<and>
             available_minor (e_budget e) w' = available_minor (e_budget e) w + account_effect (t_ledger w) e
           else w' = w))"

lemma mutation_settles:
  assumes inv: "bdb_inv w" and o: "apply_mutation ps d x w = (y, w')"
  shows "settled_in d x y w w'"
proof (cases y)
  case (Inl e)
  then show ?thesis using failed_mutation[of ps d x w] o by (simp add: settled_in_def)
next
  case (Inr rc)
  have inv': "bdb_inv w'" using apply_mutation_inv[OF inv, of ps d x] o by simp
  have "rc \<in> set (t_receipts w')" "rc_digest rc = d"
    by (rule mutation_success[OF inv o[unfolded Inr]], simp)+
  then have found: "receipt_by_digest d w' = Some rc"
    using find_unique[of rc_digest "t_receipts w'" rc] inv' by (simp add: receipt_by_digest_def bdb_defs)
  show ?thesis
  proof (cases "receipt_by_digest d w")
    case None
    show ?thesis
      by (rule new_receipt_effect[OF inv o[unfolded Inr] None]) (use found None Inr in \<open>auto simp: settled_in_def\<close>)
  next
    case (Some rc')
    have "w' = w" by (rule apply_mutation_cases[OF o]) (use Inr Some in auto)
    then show ?thesis using found Some Inr by (simp add: settled_in_def)
  qed
qed

text \<open>A budget instruction that validation accepts, with the confidence and the approval flag that
  the service gives every action, passes every gate in every reachable deployment, and the ledger decides
  it once, under the parameters and the digest of the instruction. If the ledger applies it, the
  execution is reported successful, the receipt is found under the digest, and the ledger has exactly
  one new row with its effect on the available balance - or is unchanged, when the receipt was there
  before. If the ledger refuses it (validation does not foresee every refusal: an idempotency key that is
  taken, an amount the database cannot hold), nothing changes, and the execution is reported successful
  exactly when the receipt of an earlier run is there.\<close>

theorem ledger_decides_valid_instruction:
  assumes "gov_reachable st" and "\<And>t. g_sha st t \<noteq> []" and "budget_ready st" and "bdb_reachable (g_world st)"
    and "act_domain a = governance_domain" and "act_type a = Create" and "assess_action (g_world st) a = Inr ev"
    and "90 \<le> act_confidence a" and "\<not> act_requires_approval a"
    and "execute_governed_action a adapter_name st = (out, st')"
  shows "\<exists>d payload x res v answer. bind_action (g_sha st) a adapter_name = Inr (d, payload) \<and> out = Executed res v \<and>
     apply_mutation (act_parameters a) d x (g_world st) = (answer, g_world st') \<and>
     settled_in d x answer (g_world st) (g_world st') \<and>
     res_success res = (case answer of Inr rc \<Rightarrow> True | Inl e \<Rightarrow> receipt_by_digest d (g_world st) \<noteq> None)"
proof -
  have ba: "budget_action a" using assms(5,6) by (simp add: budget_action_def)
  obtain r d payload res v where r: "bind_action (g_sha st) a adapter_name = Inr (d, payload)" "req_parameters r = act_parameters a"
    "digest_text r = d" "budget_execute r (g_world st) = (Some res, g_world st')" "out = Executed res v"
    using valid_action_runs[OF assms(1,2,3) ba assms(7-9)] assms(10) by (metis fst_conv snd_conv)
  obtain y w where o: "apply_mutation (act_parameters a) d (req_execution_id r) (g_world st) = (y, w)" by fastforce
  have s: "settled_in d (req_execution_id r) y (g_world st) w" by (rule mutation_settles[OF reachable_bdb_inv[OF assms(4)] o])
  have "w = g_world st'" using r(2-4) o by (auto simp: budget_execute_def split: sum.splits)
  moreover have "res_success res = (case y of Inr rc \<Rightarrow> True | Inl e \<Rightarrow> receipt_by_digest d (g_world st) \<noteq> None)"
  proof (cases y)
    case (Inl e)
    then have "w = g_world st" using s by (simp add: settled_in_def)
    then show ?thesis using r(2-4) o Inl
      by (cases e; cases "receipt_by_digest d (g_world st)")
        (auto simp: budget_execute_def recovery_def completed_def not_completed_def)
  next
    case (Inr rc)
    then show ?thesis using r(2-4) o by (auto simp: budget_execute_def completed_def)
  qed
  ultimately show ?thesis using r(1,5) o s by blast
qed

theorem ledger_decides_valid_instruction_witness:
  "\<exists>res v. fst (execute_governed_action (sample_change 100) adapter_name (deployment sample_open)) = Executed res v"
proof -
  have ev: "assess_action (g_world (deployment sample_open)) (sample_change 100) = Inr \<lparr>me_mutation = ''adjustment'',
      me_budget = Some (PStr ''b1''), me_currency = ''USD'', me_amount = PInt 100, me_before = 1000, me_after = 1100,
      me_refs = [''budget:b1'', ''balance:1000'', ''mutation:adjustment'']\<rparr>" by (simp add: sample_valid)
  have sha: "g_sha (deployment sample_open) t \<noteq> []" for t by simp
  have reach: "bdb_reachable (g_world (deployment sample_open))" using purchase_reachable(2) by simp
  note a = sample_change_fields[of 100]
  show ?thesis
    using ledger_decides_valid_instruction[OF deployment_reachable sha sample_ready reach a(1,2) ev a(3,4) surjective_pairing] by blast
qed

text \<open>C16: An observation is \<open>verified_success\<close> only for an instruction with a durable receipt of the same
  execution, whose currency, mutation and request are the expected ones, and whose balance is at once
  the expected one and the one recomputed from the ledger; the verdict is on record.\<close>

theorem observer_confirms:
  assumes "observer_verify x d ex db = (ob, db')" and "ob_status ob = ''verified_success''"
  shows "\<exists>rc k v. receipt_by_digest d db = Some rc \<and> rc_execution rc = x \<and>
     py_equal (PStr (rc_currency rc)) (param ex ''currency'') \<and> py_equal (PStr (rc_mutation rc)) (param ex ''mutation_type'') \<and>
     py_equal (opt_text (rc_request rc)) (param ex ''request_id'') \<and> py_equal (opt_int (rc_version rc)) (param ex ''request_version'') \<and>
     py_equal (PInt (rc_available rc)) (param ex ''expected_available_minor'') \<and>
     (\<exists>b. map_of ex ''budget_id'' = Some b \<and> balance_at b (rc_created rc) db = Inr (rc_available rc)) \<and>
     ob_observed ob = Some (rc_available rc) \<and> ob_entry ob = Some (rc_entry rc) \<and> ob_id ob = Some k \<and>
     t_verifs db' = t_verifs db @ [v] \<and> fv_status v = ''verified_success'' \<and> fv_digest v = d \<and> fv_execution v = x"
  using observer_verified[OF assms] unfolding confirms_def by blast

text \<open>What the observer is told to expect of the committed purchase.\<close>

definition sample_expected :: params where
  "sample_expected = [(''budget_id'', PStr ''b1''), (''currency'', PStr ''USD''), (''mutation_type'', PStr ''commitment''),
     (''request_id'', PStr ''rrr''), (''request_version'', PInt 1), (''expected_available_minor'', PInt 700)]"

theorem observer_confirms_witness:
  "ob_status (fst (observer_verify ''x2'' ''d2'' sample_expected sample_committed)) = ''verified_success'' \<and>
   (\<exists>rc. receipt_by_digest ''d2'' sample_committed = Some rc \<and> rc_available rc = 700)"
proof -
  have s: "ob_status (fst (observer_verify ''x2'' ''d2'' sample_expected sample_committed)) = ''verified_success''"
    by code_simp
  obtain ob db' where o: "observer_verify ''x2'' ''d2'' sample_expected sample_committed = (ob, db')" by fastforce
  then show ?thesis using observer_confirms[OF o] s by (auto simp: sample_expected_def param_def)
qed

text \<open>C15: The financial status of a response is true of the ledger, whichever response it is: of a fresh
  run, of the replay of a known key, of a reconciliation. It is one of the six statuses.
  \<open>blocked_before_execution\<close>, \<open>adapter_failed_no_effect\<close>, \<open>applied_unverified\<close> and an
  \<open>outcome_unknown\<close> without receipt mean that the run wrote nothing; \<open>adapter_failed_no_effect\<close> also
  that the instruction has no receipt, \<open>applied_unverified\<close> that it has one, with its ledger row. A
  receipt that is shown is in the ledger with its row, and \<open>verified_success\<close> means that it agrees with
  the expected effect and the recomputed balance, \<open>verification_mismatch\<close> that it does not. What is
  expected are the parameters of the action that ran; for a replay and a reconciliation, those that
  were stored with the receipt.\<close>

theorem reported_status_holds:
  assumes "bdb_reachable (g_world st)" and "budget_served st"
  shows "(run_action a st = (Inr rs, st') \<longrightarrow>
       status_true (rs_financial rs) (rs_digest rs) (rs_receipt rs) (act_parameters a) (g_world st) (g_world st')) \<and>
     (replay key m wanted st = (Inr (Some rs), st') \<longrightarrow>
       (\<exists>rc ex. rs_receipt rs = Some rc \<and> parse_dict (rc_parameters rc) = Inr ex \<and>
          status_true (rs_financial rs) (rs_digest rs) (rs_receipt rs) ex (g_world st) (g_world st'))) \<and>
     (service_reconcile actor d st = (Inr rn, st') \<longrightarrow>
       (\<exists>ex. (case rn_receipt rn of None \<Rightarrow> True | Some rc \<Rightarrow> parse_dict (rc_parameters rc) = Inr ex) \<and>
          status_true (rn_status rn) d (rn_receipt rn) ex (g_world st) (g_world st')))"
  using run_status_true[OF assms] replay_status_true[OF assms(1)] reconcile_status_true[OF assms(1)] by blast

theorem reported_status_holds_witness:
  "\<exists>rs. fst (run_action (sample_change (- 2000)) (deployment sample_open)) = Inr rs \<and>
     rs_financial rs = ''blocked_before_execution'' \<and> rs_receipt rs = None \<and>
     g_world (snd (run_action (sample_change (- 2000)) (deployment sample_open))) = sample_open"
proof -
  have x: "execute_governed_action (sample_change (- 2000)) adapter_name (deployment sample_open) =
     (PolicyDenied (''Budget policy denied ['' @ ''insufficient_funds'' @ '']'') False, (deployment sample_open)\<lparr>g_next := Suc (g_next (deployment sample_open))\<rparr>)"
    by (rule budget_refused[OF sample_ready]) (simp_all add: sample_overdraft)
  obtain payload where b: "bind_action (\<lambda>t. ''h'') (sample_change (- 2000)) adapter_name = Inr (''h'', payload)"
    using sample_change_binds by blast
  have "\<exists>rs st'. run_action (sample_change (- 2000)) (deployment sample_open) = (Inr rs, st') \<and> rs_financial rs = ''blocked_before_execution'' \<and>
     rs_receipt rs = None"
    by (simp add: run_action_def b x)
  then obtain rs st' where r: "run_action (sample_change (- 2000)) (deployment sample_open) = (Inr rs, st')"
    "rs_financial rs = ''blocked_before_execution''" "rs_receipt rs = None" by blast
  have reach: "bdb_reachable (g_world (deployment sample_open))" and served: "budget_served (deployment sample_open)"
    using purchase_reachable(2) by simp_all
  have "status_true (rs_financial rs) (rs_digest rs) (rs_receipt rs) (act_parameters (sample_change (- 2000)))
      (g_world (deployment sample_open)) (g_world st')"
    using reported_status_holds[OF reach served, of "sample_change (- 2000)" rs st'] r(1) by blast
  then show ?thesis using r by (auto simp: status_true_def)
qed

text \<open>C13: Refinement: whatever sequence of requests the budget interface serves, the database moves only
  along the steps of the ledger's history. So it stays reachable, no budget is ever overdrawn, and
  receipts and ledger only grow.\<close>

theorem service_refines_ledger:
  assumes "bdb_reachable (g_world st)" and "budget_served st" and "service_step\<^sup>*\<^sup>* st st'"
  shows "bdb_step\<^sup>*\<^sup>* (g_world st) (g_world st') \<and> bdb_reachable (g_world st') \<and> (\<forall>b. 0 \<le> available_minor b (g_world st')) \<and>
     prefix (t_ledger (g_world st)) (t_ledger (g_world st')) \<and> prefix (t_receipts (g_world st)) (t_receipts (g_world st'))"
proof -
  have f: "follows (g_world st) (g_world st')" using service_steps_follow[OF assms(3,2)] by simp
  then have "bdb_reachable (g_world st')" "grows (g_world st) (g_world st')" using steps_grow assms(1) by blast+
  then show ?thesis using f reachable_bdb_inv[of "g_world st'"]
    by (simp add: grows_def bdb_inv_def funded_def available_minor_def)
qed

theorem service_refines_ledger_witness:
  "0 \<le> available_minor ''b1'' (g_world (snd (service_settle ''olga'' ''rrr'' 250 ''k3-settle'' (deployment sample_committed))))"
  using service_refines_ledger[OF _ _ r_into_rtranclp[of service_step, OF service_step.settled], of "deployment sample_committed"]
    purchase_reachable(6) by simp

text \<open>A retry with an idempotency key that already has a receipt changes neither the ledger nor the
  receipts, whichever operation it is for and whatever it asks.\<close>

theorem retry_changes_no_account:
  assumes "receipt_by_key key (g_world st) = Some rc"
  shows "same_accounts st (snd (service_settle actor k n key st)) \<and> same_accounts st (snd (service_cancel actor k key st)) \<and>
     same_accounts st (snd (service_adjust actor b (ai\<lparr>ai_key := key\<rparr>) st)) \<and>
     same_accounts st (snd (service_correct actor b (ai\<lparr>ai_key := key\<rparr>) target st)) \<and>
     same_accounts st (snd (service_bootstrap actor (bi\<lparr>bi_key := key\<rparr>) st))"
  using known_key_same[OF assms]
  by (simp add: service_settle_def service_cancel_def service_adjust_def service_correct_def service_change_def service_bootstrap_def)

theorem retry_changes_no_account_witness:
  "same_accounts (deployment sample_committed) (snd (service_settle ''olga'' ''rrr'' 300 ''k2'' (deployment sample_committed)))"
proof -
  have "receipt_by_key ''k2'' (g_world (deployment sample_committed)) = Some (sample_receipt Commitment)"
    by (simp add: receipt_by_key_def sample_committed_def sample_decided_def sample_submitted_def sample_requested_def sample_open_def sample_receipt_def)
  then show ?thesis using retry_changes_no_account by blast
qed

text \<open>The instruction that an approver approves is the one that is committed. The decision stores
  the text and the digest of one action, for the request, its current version and the amount of that
  version; while that version is current, whatever happened to the ledger since, \<open>commit\<close> by the approver
  runs this very action. (\<open>enc\<close>, \<open>read\<close>: the JSON serialisation of an action, never empty text, which is
  read back as the action when the parameters are a plain JSON object.)\<close>

lemma approval_params_plain: "plain_json (PDict (approval_params actor r cur i n))"
  by (simp add: approval_params_def purchase_params_def)

theorem commit_runs_what_was_approved:
  assumes reach: "bdb_reachable (g_world st)" and dec: "service_decide enc actor k ''approved'' why st = (Inr v, st')"
    and text_ne: "\<And>a. enc a \<noteq> []"
    and reads: "\<And>a. plain_json (PDict (act_parameters a)) \<Longrightarrow> read (enc a) = Some a"
    and later: "bdb_step\<^sup>*\<^sup>* (g_world st') (g_world st2)"
    and r: "the_request k (g_world st) = Inr r" and r2: "the_request k (g_world st2) = Inr r2" "pr_version r2 = pr_version r"
    and role: "has_role actor ''budget_owner'' (Some (pr_budget r2)) (g_world st2)"
  shows "\<exists>a d payload cur x. bind_action (g_sha st) a adapter_name = Inr (d, payload) \<and>
     cur \<in> set (t_versions (g_world st)) \<and> v_request cur = k \<and> v_version cur = pr_version r \<and>
     param (act_parameters a) ''request_id'' = PStr k \<and> param (act_parameters a) ''request_version'' = PInt (pr_version r) \<and>
     param (act_parameters a) ''amount_minor'' = PInt (v_amount cur) \<and>
     x \<in> set (t_decisions (g_world st2)) \<and> d_request x = k \<and> d_by x = actor \<and> d_decision x = ''approved'' \<and>
     d_digest x = Some d \<and> d_action x = Some (enc a) \<and>
     service_commit read actor k st2 = run_action a st2"
proof -
  obtain rv cur i a d where s: "request_detail actor k (g_world st) = Inr rv" "current_version rv = Inr cur"
    "act_parameters a = approval_params actor (rv_request rv) cur i (available_minor (pr_budget (rv_request rv)) (g_world st))"
    "\<exists>payload. bind_action (g_sha st) a adapter_name = Inr (d, payload)"
    "save_decision i actor k ''approved'' why (Some d) (Some (enc a)) (Some (available_minor (pr_budget (rv_request rv)) (g_world st)))
       (g_world st) = (Inr v, g_world st')"
    by (rule service_decide_shape[OF dec]) blast
  have rv: "rv_request rv = r" "rv = view_request (g_world st) r" using detail_request[OF s(1)] r by auto
  have k: "pr_id r = k" using the_request_in[OF r] by simp
  have cur: "cur \<in> set (t_versions (g_world st))" "v_request cur = k" "v_version cur = pr_version r"
    using s(2) rv(2) k by (auto simp: current_version_def view_request_def result_simps dest!: find_SomeD)
  let ?x = "new_decision i actor k ''approved'' why (Some d) (Some (enc a)) (Some (available_minor (pr_budget (rv_request rv)) (g_world st))) r (g_world st)"
  have x: "?x \<in> set (t_decisions (g_world st'))" by (rule saved_decision[OF s(5)]) (use r in simp)
  have reach': "bdb_reachable (g_world st')"
    using bdb_reachable.step[OF reach bdb_step.decide] s(5) by (metis snd_conv)
  then have g: "bdb_reachable (g_world st2)" "grows (g_world st') (g_world st2)" using steps_grow[OF later] by blast+
  then have x2: "?x \<in> set (t_decisions (g_world st2))" using x by (auto simp: grows_def dest: set_mono_prefix)
  have "approved_action actor k (g_world st2) = Inr (enc a)"
    by (rule approved_action_found[OF g(1) r2(1) role x2]) (simp_all add: new_decision_def r2(2) text_ne)
  moreover have "read (enc a) = Some a" by (rule reads) (simp only: s(3) approval_params_plain)
  ultimately have c: "service_commit read actor k st2 = run_action a st2" by (simp add: service_commit_def)
  have p: "param (act_parameters a) ''request_id'' = PStr k" "param (act_parameters a) ''request_version'' = PInt (pr_version r)"
    "param (act_parameters a) ''amount_minor'' = PInt (v_amount cur)"
    by (simp_all add: s(3) approval_params_def purchase_params_def param_def rv(1) k)
  have dx: "d_request ?x = k \<and> d_by ?x = actor \<and> d_decision ?x = ''approved'' \<and> d_digest ?x = Some d \<and> d_action ?x = Some (enc a)"
    by (simp add: new_decision_def)
  show ?thesis using s(4) cur p x2 dx c by blast
qed

lemma sample_detail: "request_detail ''olga'' ''rrr'' sample_submitted = Inr (view_request sample_submitted (sample_purchase ''submitted''))"
  by code_simp

definition sample_version :: version where
  "sample_version = \<lparr>v_request = ''rrr'', v_version = 1, v_amount = 300, v_currency = ''USD'', v_purpose = ''laptop'',
     v_reference = ''q-1'', v_by = ''rob'', v_created = sample_now\<rparr>"

lemma sample_current: "current_version (view_request sample_submitted (sample_purchase ''submitted'')) = Inr sample_version"
  by code_simp

lemma sample_approval:
  "\<exists>a d. approval_action ''olga'' ''rrr'' (sample_purchase ''submitted'') sample_version i j n st = Inr (a, d)"
  by (simp add: approval_action_def make_action_def expected_state_def item_def param_def approval_params_def purchase_params_def
      sample_purchase_def sample_version_def binding_defs outcome_json_def tag_key_def governance_domain_def adapter_name_def require_some_def)

definition sample_approved :: "bdb gov" where
  "sample_approved = snd (service_decide write_action ''olga'' ''rrr'' ''approved'' ''needed'' (deployment sample_submitted))"

lemma sample_saves: "\<exists>v w. save_decision i ''olga'' ''rrr'' ''approved'' ''needed'' d a (Some 1000) sample_submitted = (Inr v, w) \<and>
    the_request ''rrr'' w = Inr (sample_purchase ''approved'') \<and> has_role ''olga'' ''budget_owner'' (Some ''b1'') w"
  by (simp add: save_decision_def then_view_def transaction_def the_request_def require_role_def has_role_def update_request_def
      insert_decision_def request_detail_def run_simps sample_defs Let_def)

lemma sample_approves:
  "\<exists>v. service_decide write_action ''olga'' ''rrr'' ''approved'' ''needed'' (deployment sample_submitted) = (Inr v, sample_approved) \<and>
     the_request ''rrr'' (g_world sample_approved) = Inr (sample_purchase ''approved'') \<and>
     has_role ''olga'' ''budget_owner'' (Some ''b1'') (g_world sample_approved)"
proof -
  let ?st = "deployment sample_submitted"
  obtain i st1 where i: "fresh_id ?st = (i, st1)" by fastforce
  obtain j st2 where j: "fresh_id st1 = (j, st2)" by fastforce
  have w: "g_world st1 = sample_submitted" "g_world st2 = sample_submitted"
    using fresh_id_world[OF i] fresh_id_world[OF j] by simp_all
  obtain a d where a: "approval_action ''olga'' ''rrr'' (sample_purchase ''submitted'') sample_version i j 1000 st2 = Inr (a, d)"
    using sample_approval by blast
  obtain v w' where s: "save_decision i ''olga'' ''rrr'' ''approved'' ''needed'' (Some d) (Some (write_action a)) (Some 1000) sample_submitted = (Inr v, w')"
    "the_request ''rrr'' w' = Inr (sample_purchase ''approved'')" "has_role ''olga'' ''budget_owner'' (Some ''b1'') w'"
    using sample_saves by blast
  have n: "available_minor ''b1'' sample_submitted = 1000" by code_simp
  have p: "rv_request (view_request sample_submitted (sample_purchase ''submitted'')) = sample_purchase ''submitted''"
    "pr_budget (sample_purchase ''submitted'') = ''b1''" by (simp_all add: view_request_def sample_purchase_def)
  have "service_decide write_action ''olga'' ''rrr'' ''approved'' ''needed'' ?st = (Inr v, st2\<lparr>g_world := w'\<rparr>)"
    by (simp add: service_decide_def sample_detail sample_current i j w n p a s(1) on_db_def)
  then show ?thesis using s by (simp add: sample_approved_def)
qed

theorem commit_runs_what_was_approved_witness:
  "\<exists>a. \<exists>x\<in>set (t_decisions (g_world sample_approved)). d_decision x = ''approved'' \<and> d_action x = Some (write_action a) \<and>
     param (act_parameters a) ''amount_minor'' = PInt 300 \<and>
     service_commit read_action ''olga'' ''rrr'' sample_approved = run_action a sample_approved"
proof -
  obtain v where s: "service_decide write_action ''olga'' ''rrr'' ''approved'' ''needed'' (deployment sample_submitted) = (Inr v, sample_approved)"
    "the_request ''rrr'' (g_world sample_approved) = Inr (sample_purchase ''approved'')"
    "has_role ''olga'' ''budget_owner'' (Some ''b1'') (g_world sample_approved)"
    using sample_approves by blast
  have reach: "bdb_reachable (g_world (deployment sample_submitted))" using purchase_reachable(4) by simp
  have r: "the_request ''rrr'' (g_world (deployment sample_submitted)) = Inr (sample_purchase ''submitted'')" by (simp add: the_request_def sample_defs)
  have p: "pr_version (sample_purchase ''approved'') = pr_version (sample_purchase ''submitted'')" by (simp add: sample_purchase_def)
  have ro: "has_role ''olga'' ''budget_owner'' (Some (pr_budget (sample_purchase ''approved''))) (g_world sample_approved)"
    using s(3) by (simp add: sample_purchase_def)
  have n: "v_amount cur = 300" if "cur \<in> set (t_versions (g_world (deployment sample_submitted)))" for cur
    using that by (simp add: sample_defs)
  show ?thesis
    using commit_runs_what_was_approved[where read = read_action, OF reach s(1) write_action_text read_written rtranclp.rtrancl_refl r s(2) p ro] n
    by fastforce
qed

end
