(* ===== verification/Health_Rules.thy ===== *)
theory Health_Rules
  imports Py_Json Complex_Main
begin

text \<open>
  Health evaluation and advisory decisions: the observation model and its adapters
  (\<open>core/intelligence/observation\<close>), the component contexts (\<open>context/registry.py\<close>), the health
  rules (\<open>rules.py\<close>) and the decision engine (\<open>decision/engine.py\<close>).
  Numbers that Python holds as floats are rationals here, without the infinities and not-a-number;
  ages are in microseconds. Evidence lines that print an age keep the age itself, so the rounding
  to one decimal is left out. One clock reading per evaluation.
\<close>

section \<open>Schemas\<close>

datatype health_status = Healthy | Warned | Critical | Unresolved

fun health_value :: "health_status \<Rightarrow> string" where
  "health_value Healthy = ''healthy''"
| "health_value Warned = ''warning''"
| "health_value Critical = ''critical''"
| "health_value Unresolved = ''unknown''"

datatype health_reason =
    ReasonHealthy | NewComponent | NoMetrics | StaleData | BaselineNotReady | CollectorFailure
  | ConfigurationMissing | MalformedObservation | MissingObservation | InsufficientEvidence | UnknownState

datatype health_impact = LowImpact | MediumImpact | HighImpact

datatype evidence_line = Line string | Aged string int

record evaluation =
  ev_component :: string
  ev_status :: health_status
  ev_reason :: health_reason
  ev_evidence :: "evidence_line list"
  ev_confidence :: int
  ev_impact :: health_impact
  ev_recommendation :: "string option"
  ev_message :: string
  ev_age :: "int option"
  ev_freshness :: string
  ev_basis :: string

record health_issue =
  hi_component :: string
  hi_message :: string
  hi_severity :: health_status
  hi_role :: "string option"
  hi_criticality :: "string option"

section \<open>Observations and contexts\<close>

record component_observation =
  co_component :: string
  co_source :: string
  co_state :: string
  co_timestamp :: instant
  co_signals :: "(string \<times> rat) list"
  co_metadata :: "(string \<times> string) list"

record container_metric =
  cm_name :: string
  cm_status :: string
  cm_cpu :: "rat option"
  cm_memory :: "int option"
  cm_health :: "string option"
  cm_timestamp :: instant

text \<open>What an evaluation may be given: nothing, an observation, a metric, or anything else.\<close>

datatype raw_observation = NoData | Observed component_observation | Measured container_metric | Malformed

text \<open>\<open>None\<close> is the validation error of a signal that is \<open>None\<close>.\<close>

definition container_metric_to_observation :: "container_metric \<Rightarrow> component_observation option" where
  "container_metric_to_observation m =
     (case (cm_cpu m, cm_memory m) of
        (Some cpu, Some mem) \<Rightarrow> Some \<lparr>co_component = cm_name m, co_source = ''docker'', co_state = cm_status m,
          co_timestamp = cm_timestamp m, co_signals = [(''cpu_usage'', cpu), (''memory_usage'', of_int mem)],
          co_metadata = [(''health'', case cm_health m of None \<Rightarrow> ''unknown'' | Some h \<Rightarrow> if h = [] then ''unknown'' else h)]\<rparr>
      | _ \<Rightarrow> None)"

definition normalize_observation :: "raw_observation \<Rightarrow> component_observation option" where
  "normalize_observation d = (case d of Observed ob \<Rightarrow> Some ob | Measured m \<Rightarrow> container_metric_to_observation m | _ \<Rightarrow> None)"

record component_context =
  cx_name :: string
  cx_role :: string
  cx_criticality :: string
  cx_dependencies :: "string list"

definition get_component_context :: "string \<Rightarrow> component_context option" where
  "get_component_context n =
     (if n = ''portainer'' then Some \<lparr>cx_name = n, cx_role = ''management'', cx_criticality = ''medium'', cx_dependencies = []\<rparr>
      else if n = ''uptime-kuma'' then Some \<lparr>cx_name = n, cx_role = ''monitoring'', cx_criticality = ''high'', cx_dependencies = []\<rparr>
      else if n = ''dozzle'' then Some \<lparr>cx_name = n, cx_role = ''logging'', cx_criticality = ''medium'', cx_dependencies = []\<rparr>
      else None)"

section \<open>Freshness and confidence\<close>

definition fresh_max :: int where "fresh_max = seconds 60"
definition stale_threshold :: int where "stale_threshold = seconds 600"

definition observation_age :: "instant \<Rightarrow> component_observation \<Rightarrow> int" where
  "observation_age now ob = now - co_timestamp ob"

definition freshness_for_age :: "int \<Rightarrow> string" where
  "freshness_for_age age = (if age \<le> fresh_max then ''current'' else if age \<le> stale_threshold then ''fresh'' else ''stale'')"

definition is_metric_stale :: "instant \<Rightarrow> component_observation \<Rightarrow> bool" where
  "is_metric_stale now ob \<longleftrightarrow> stale_threshold < observation_age now ob"

fun join_commas :: "string list \<Rightarrow> string" where
  "join_commas [] = []"
| "join_commas [x] = x"
| "join_commas (x # y # zs) = x @ '', '' @ join_commas (y # zs)"

definition plain_state :: "component_observation \<Rightarrow> string" where
  "plain_state ob = lower (strip (co_state ob))"

definition derive_confidence :: "component_observation \<Rightarrow> int \<Rightarrow> int \<times> string" where
  "derive_confidence ob age =
     (let state = plain_state ob; signal_count = length (co_signals ob);
          (c1, b1) = (if state = ''running'' \<or> state = ''stopped'' then (40, ''state:'' @ state)
             else if state \<noteq> [] then (10, ''state:(unresolved)'') else (0, ''state:(none)''));
          c2 = c1 + int (min signal_count 2) * 20;
          (c3, b3) = (if age \<le> fresh_max then (c2 + 30, ''fresh:current'')
             else if age \<le> stale_threshold then (c2 + 20, ''fresh:fresh'') else (c2 + 10, ''fresh:stale''))
      in (min c3 100, join_commas [b1, ''signals:'' @ show_nat signal_count, b3]))"

section \<open>The health score\<close>

definition signal :: "component_observation \<Rightarrow> string \<Rightarrow> rat" where
  "signal ob k = (case map_of (co_signals ob) k of None \<Rightarrow> 0 | Some v \<Rightarrow> v)"

definition issue :: "component_observation \<Rightarrow> string \<Rightarrow> health_status \<Rightarrow> health_issue" where
  "issue ob msg sev = \<lparr>hi_component = co_component ob, hi_message = msg, hi_severity = sev, hi_role = None, hi_criticality = None\<rparr>"

definition context_issue :: "component_observation \<Rightarrow> component_context option \<Rightarrow> string \<Rightarrow> health_status \<Rightarrow> health_issue" where
  "context_issue ob cx msg sev = \<lparr>hi_component = co_component ob, hi_message = msg, hi_severity = sev,
     hi_role = map_option cx_role cx, hi_criticality = map_option cx_criticality cx\<rparr>"

text \<open>The rules in order, each with its penalty and its issue.\<close>

definition health_rules ::
  "instant \<Rightarrow> component_observation \<Rightarrow> component_context option \<Rightarrow> (int \<times> health_issue) list" where
  "health_rules now ob cx =
     (if co_state ob \<noteq> ''running'' then [(40, context_issue ob cx ''Component is not running'' Critical)] else []) @
     (if 90 < signal ob ''cpu_usage'' then [(20, issue ob ''High CPU usage'' Warned)]
      else if 70 < signal ob ''cpu_usage'' then [(10, issue ob ''Elevated CPU usage'' Warned)] else []) @
     (if 1024 * 1024 * 1024 < signal ob ''memory_usage'' then [(20, issue ob ''High memory usage'' Warned)] else []) @
     (if map_of (co_metadata ob) ''health'' = Some ''unhealthy'' then [(30, issue ob ''Component health check failed'' Critical)] else []) @
     (if is_metric_stale now ob then [(10, context_issue ob cx ''Observation data is old'' Warned)] else [])"

record health_score =
  hs_score :: int
  hs_status :: health_status
  hs_issues :: "health_issue list"
  hs_recommendations :: "string list"

definition evaluate_observation_health ::
  "instant \<Rightarrow> component_observation \<Rightarrow> component_context option \<Rightarrow> health_score" where
  "evaluate_observation_health now ob cx =
     (let rules = health_rules now ob cx; score = 100 - sum_list (List.map fst rules) in
      \<lparr>hs_score = max score 0,
       hs_status = (if 85 \<le> score then Healthy else if 60 \<le> score then Warned else Critical),
       hs_issues = List.map snd rules,
       hs_recommendations = (if co_state ob \<noteq> ''running'' then [''Restart '' @ co_component ob] else [])\<rparr>)"

section \<open>Health evaluations\<close>

definition missing_observation_evaluation :: evaluation where
  "missing_observation_evaluation = \<lparr>ev_component = ''unknown'', ev_status = Unresolved, ev_reason = MissingObservation,
     ev_evidence = [Line ''No observation data received''], ev_confidence = 0, ev_impact = MediumImpact,
     ev_recommendation = Some ''Verify the observation source is producing data'', ev_message = ''Observation missing'',
     ev_age = None, ev_freshness = ''unknown'', ev_basis = ''no observation''\<rparr>"

definition malformed_observation_evaluation :: evaluation where
  "malformed_observation_evaluation = \<lparr>ev_component = ''unknown'', ev_status = Unresolved, ev_reason = MalformedObservation,
     ev_evidence = [Line ''Observation could not be normalized''], ev_confidence = 0, ev_impact = MediumImpact,
     ev_recommendation = Some ''Check the observation payload/source contract'', ev_message = ''Observation malformed'',
     ev_age = None, ev_freshness = ''unknown'', ev_basis = ''malformed/unnormalizable observation''\<rparr>"

definition context_evidence :: "component_context option \<Rightarrow> evidence_line list" where
  "context_evidence cx = (case cx of None \<Rightarrow> [] | Some x \<Rightarrow> [Line (''Role: '' @ cx_role x), Line (''Criticality: '' @ cx_criticality x)])"

definition quoted_state :: "component_observation \<Rightarrow> string" where
  "quoted_state ob = ''State '' @ [CHR 0x27] @ co_state ob @ [CHR 0x27] @ '' is not resolvable''"

definition unknown_state_evaluation :: "instant \<Rightarrow> component_observation \<Rightarrow> component_context option \<Rightarrow> evaluation" where
  "unknown_state_evaluation now ob cx = (let age = observation_age now ob in
     \<lparr>ev_component = co_component ob, ev_status = Unresolved, ev_reason = UnknownState,
      ev_evidence = [Line (quoted_state ob), Aged ''Observation age: '' age] @ context_evidence cx,
      ev_confidence = 10, ev_impact = MediumImpact, ev_recommendation = Some ''Determine the component state before acting'',
      ev_message = ''Component state unknown'', ev_age = Some age, ev_freshness = freshness_for_age age,
      ev_basis = ''unresolved state; low evidence''\<rparr>)"

definition insufficient_evidence_evaluation :: "instant \<Rightarrow> component_observation \<Rightarrow> component_context option \<Rightarrow> evaluation" where
  "insufficient_evidence_evaluation now ob cx = (let age = observation_age now ob in
     \<lparr>ev_component = co_component ob, ev_status = Unresolved, ev_reason = InsufficientEvidence,
      ev_evidence = [Line ''Component reports running but no signals were provided'', Aged ''Observation age: '' age] @ context_evidence cx,
      ev_confidence = 20, ev_impact = MediumImpact,
      ev_recommendation = Some ''Collect signals for the component before judging health'',
      ev_message = ''Insufficient evidence to judge component health'', ev_age = Some age,
      ev_freshness = freshness_for_age age, ev_basis = ''state only; no signals''\<rparr>)"

definition healthy_evaluation :: "instant \<Rightarrow> component_observation \<Rightarrow> component_context option \<Rightarrow> evaluation" where
  "healthy_evaluation now ob cx = (let age = observation_age now ob; (c, basis) = derive_confidence ob age in
     \<lparr>ev_component = co_component ob, ev_status = Healthy, ev_reason = ReasonHealthy,
      ev_evidence = [Line ''Component is running'', Aged ''Observation age: '' age,
         Line (''Signals: '' @ join_commas (sort (List.map fst (co_signals ob))))] @ context_evidence cx,
      ev_confidence = c, ev_impact = LowImpact, ev_recommendation = None, ev_message = ''Component is healthy'',
      ev_age = Some age, ev_freshness = freshness_for_age age, ev_basis = basis\<rparr>)"

definition container_failure_evaluation :: "instant \<Rightarrow> component_observation \<Rightarrow> component_context option \<Rightarrow> evaluation" where
  "container_failure_evaluation now ob cx = (let age = observation_age now ob; (c, basis) = derive_confidence ob age in
     \<lparr>ev_component = co_component ob, ev_status = Critical, ev_reason = CollectorFailure,
      ev_evidence = [Line ''Component is not running''] @ context_evidence cx,
      ev_confidence = c, ev_impact = MediumImpact, ev_recommendation = Some (''Restart '' @ co_component ob),
      ev_message = ''Component unavailable'', ev_age = Some age, ev_freshness = freshness_for_age age, ev_basis = basis\<rparr>)"

definition stale_data_evaluation :: "instant \<Rightarrow> component_observation \<Rightarrow> component_context option \<Rightarrow> evaluation" where
  "stale_data_evaluation now ob cx = (let age = observation_age now ob; (c, basis) = derive_confidence ob age in
     \<lparr>ev_component = co_component ob, ev_status = Warned, ev_reason = StaleData,
      ev_evidence = [Aged ''Metric age: '' age] @ context_evidence cx,
      ev_confidence = c, ev_impact = MediumImpact, ev_recommendation = Some ''Check metric collector freshness'',
      ev_message = ''Metric data is old'', ev_age = Some age, ev_freshness = freshness_for_age age, ev_basis = basis\<rparr>)"

definition create_health_evaluation :: "instant \<Rightarrow> raw_observation \<Rightarrow> component_context option \<Rightarrow> evaluation" where
  "create_health_evaluation now data cx =
     (if data = NoData then missing_observation_evaluation
      else (case normalize_observation data of
          None \<Rightarrow> malformed_observation_evaluation
        | Some ob \<Rightarrow>
           if co_component ob = [] then malformed_observation_evaluation
           else (let state = plain_state ob in
             if state = [] \<or> state = ''unknown'' then unknown_state_evaluation now ob cx
             else if state \<noteq> ''running'' then container_failure_evaluation now ob cx
             else if is_metric_stale now ob then stale_data_evaluation now ob cx
             else if co_signals ob = [] then insufficient_evidence_evaluation now ob cx
             else healthy_evaluation now ob cx)))"

section \<open>Decisions\<close>

record advice =
  dc_component :: string
  dc_priority :: string
  dc_action :: string
  dc_reason :: string
  dc_confidence :: int
  dc_evidence :: "evidence_line list"

definition advise :: "evaluation \<Rightarrow> string \<Rightarrow> string \<Rightarrow> string \<Rightarrow> advice" where
  "advise ev priority act why = \<lparr>dc_component = ev_component ev, dc_priority = priority, dc_action = act, dc_reason = why,
     dc_confidence = ev_confidence ev, dc_evidence = ev_evidence ev\<rparr>"

text \<open>The analysis enters through one value: the dominant reason of a recurring issue.\<close>

definition make_decision :: "evaluation \<Rightarrow> string option \<Rightarrow> advice" where
  "make_decision ev recurring =
     (case ev_status ev of
        Critical \<Rightarrow> advise ev ''high'' ''investigate_immediately'' (ev_message ev)
      | Warned \<Rightarrow> (case recurring of
            Some why \<Rightarrow> advise ev ''high'' ''investigate_recurring_issue'' (''Recurring issue: '' @ why)
          | None \<Rightarrow> advise ev ''medium'' ''monitor'' (ev_message ev))
      | Unresolved \<Rightarrow> advise ev ''medium'' ''uncertain'' (if ev_message ev = [] then ''State is unresolved'' else ev_message ev)
      | Healthy \<Rightarrow> advise ev ''low'' ''continue_monitoring'' ''Component is healthy'')"

section \<open>What an evaluation establishes\<close>

lemmas evaluation_defs = missing_observation_evaluation_def malformed_observation_evaluation_def unknown_state_evaluation_def
  insufficient_evidence_evaluation_def healthy_evaluation_def container_failure_evaluation_def stale_data_evaluation_def

lemma confidence_value:
  "fst (derive_confidence ob age) =
     min ((if plain_state ob \<in> {''running'', ''stopped''} then 40 else if plain_state ob \<noteq> [] then 10 else 0)
       + int (min (length (co_signals ob)) 2) * 20
       + (if age \<le> fresh_max then 30 else if age \<le> stale_threshold then 20 else 10)) 100"
  by (simp add: derive_confidence_def Let_def)

lemma confidence_bounds: "10 \<le> fst (derive_confidence ob age) \<and> fst (derive_confidence ob age) \<le> 100"
  by (simp add: confidence_value)

text \<open>The four verdicts as conditions on what was observed.\<close>

definition usable :: "raw_observation \<Rightarrow> component_observation option" where
  "usable data = (case normalize_observation data of
     Some ob \<Rightarrow> if co_component ob = [] then None else Some ob | None \<Rightarrow> None)"

lemma usable_no_data [simp]: "usable NoData = None" "usable Malformed = None"
  by (simp_all add: usable_def normalize_observation_def)

lemma evaluation_cases:
  "create_health_evaluation now data cx =
     (case usable data of
        None \<Rightarrow> if data = NoData then missing_observation_evaluation else malformed_observation_evaluation
      | Some ob \<Rightarrow>
          if plain_state ob \<in> {[], ''unknown''} then unknown_state_evaluation now ob cx
          else if plain_state ob \<noteq> ''running'' then container_failure_evaluation now ob cx
          else if is_metric_stale now ob then stale_data_evaluation now ob cx
          else if co_signals ob = [] then insufficient_evidence_evaluation now ob cx
          else healthy_evaluation now ob cx)"
proof (cases "normalize_observation data")
  case None
  then show ?thesis by (simp add: create_health_evaluation_def usable_def)
next
  case (Some ob)
  then have "data \<noteq> NoData" by (auto simp: normalize_observation_def)
  with Some show ?thesis by (simp add: create_health_evaluation_def usable_def Let_def)
qed

lemma evaluation_status:
  "ev_status (create_health_evaluation now data cx) =
     (case usable data of
        None \<Rightarrow> Unresolved
      | Some ob \<Rightarrow>
          if plain_state ob \<in> {[], ''unknown''} then Unresolved
          else if plain_state ob \<noteq> ''running'' then Critical
          else if is_metric_stale now ob then Warned
          else if co_signals ob = [] then Unresolved else Healthy)"
  by (simp add: evaluation_cases evaluation_defs Let_def split_beta split: option.splits)

lemma evaluation_confidence:
  "0 \<le> ev_confidence (create_health_evaluation now data cx) \<and> ev_confidence (create_health_evaluation now data cx) \<le> 100
   \<and> (ev_confidence (create_health_evaluation now data cx) = 0 \<longleftrightarrow> usable data = None)"
  using confidence_bounds [of "the (usable data)" "observation_age now (the (usable data))"]
  by (auto simp: evaluation_cases evaluation_defs Let_def split_beta split: option.splits)

lemma decision_action:
  "dc_action (make_decision ev recurring) =
     (case ev_status ev of Critical \<Rightarrow> ''investigate_immediately''
      | Warned \<Rightarrow> if recurring = None then ''monitor'' else ''investigate_recurring_issue''
      | Unresolved \<Rightarrow> ''uncertain'' | Healthy \<Rightarrow> ''continue_monitoring'')"
  "dc_confidence (make_decision ev recurring) = ev_confidence ev"
  by (simp_all add: make_decision_def advise_def split: health_status.split option.split)

lemma score_bounds: "0 \<le> hs_score (evaluate_observation_health now ob cx) \<and> hs_score (evaluate_observation_health now ob cx) \<le> 100"
  by (simp add: evaluate_observation_health_def health_rules_def Let_def)

section \<open>Properties\<close>

text \<open>The advice follows what was observed: a component is left alone exactly when an
  observation names it, reports it running, is fresh and carries signals; it is investigated at once
  exactly when its resolved state is not running; a payload that is missing, malformed, unresolved or
  without signals is advised as uncertain, never as healthy, and only an unusable payload has
  confidence zero. Confidence and score stay within 0 and 100.\<close>

theorem advice_follows_observation:
  "(dc_action (make_decision (create_health_evaluation now data cx) recurring) = ''continue_monitoring'') =
     (\<exists>ob. usable data = Some ob \<and> plain_state ob = ''running'' \<and> \<not> is_metric_stale now ob \<and> co_signals ob \<noteq> [])
   \<and> (dc_action (make_decision (create_health_evaluation now data cx) recurring) = ''investigate_immediately'') =
     (\<exists>ob. usable data = Some ob \<and> plain_state ob \<notin> {[], ''unknown'', ''running''})
   \<and> (dc_action (make_decision (create_health_evaluation now data cx) recurring) = ''uncertain'') =
     (usable data = None \<or> (\<exists>ob. usable data = Some ob \<and> (plain_state ob \<in> {[], ''unknown''}
        \<or> plain_state ob = ''running'' \<and> \<not> is_metric_stale now ob \<and> co_signals ob = [])))
   \<and> (dc_confidence (make_decision (create_health_evaluation now data cx) recurring) = 0) = (usable data = None)
   \<and> dc_confidence (make_decision (create_health_evaluation now data cx) recurring) \<in> {0..100}
   \<and> hs_score (evaluate_observation_health now ob' cx') \<in> {0..100}"
  (is "?alone \<and> ?urgent \<and> ?uncertain \<and> ?zero \<and> ?range \<and> ?score")
proof -
  have "?alone" "?urgent" "?uncertain"
    by (cases "usable data"; auto simp: decision_action evaluation_status)+
  moreover have "?zero" "?range" using evaluation_confidence [of now data cx] by (simp_all add: decision_action)
  moreover have "?score" using score_bounds by simp
  ultimately show ?thesis by blast
qed

end
