(* ===== verification/Keyed_Table.thy ===== *)
theory Keyed_Table
  imports Rmt_Prelude
begin

text \<open>
  A Python dict from a field of a record to the record, in insertion order: assignment replaces the
  entry of an existing key in place and appends a new one. The verification index and the state of
  the operational loop are such dicts; the locale \<open>keyed_table\<close> is what they rely on.
\<close>

definition table_get :: "('r \<Rightarrow> 'k) \<Rightarrow> 'k \<Rightarrow> 'r list \<Rightarrow> 'r option" where
  "table_get key k rows = find (\<lambda>r. key r = k) rows"

definition table_put :: "('r \<Rightarrow> 'k) \<Rightarrow> 'r \<Rightarrow> 'r list \<Rightarrow> 'r list" where
  "table_put key row rows =
     (case first_index (\<lambda>r. key r = key row) rows of None \<Rightarrow> rows @ [row] | Some i \<Rightarrow> rows[i := row])"

lemma table_put_Nil [simp]: "table_put key row [] = [row]"
  by (simp add: table_put_def)

lemma table_put_Cons [simp]:
  "table_put key row (r # rows) = (if key r = key row then row # rows else r # table_put key row rows)"
  by (simp add: table_put_def split: option.splits)

lemma table_get_Nil [simp]: "table_get key k [] = None"
  by (simp add: table_get_def)

lemma table_get_Cons [simp]: "table_get key k (r # rows) = (if key r = k then Some r else table_get key k rows)"
  by (simp add: table_get_def)

lemma table_get_put: "table_get key k (table_put key row rows) = (if k = key row then Some row else table_get key k rows)"
  by (induction rows) auto

lemma table_get_key: "table_get key k rows = Some r \<Longrightarrow> key r = k"
  by (auto simp: table_get_def dest: find_SomeD)

lemma set_table_put: "set (table_put key row rows) \<subseteq> insert row (set rows)"
  by (induction rows) auto

lemma table_get_set: "table_get key k rows = Some r \<Longrightarrow> r \<in> set rows"
  by (auto simp: table_get_def dest: find_SomeD)

lemma table_get_map:
  assumes "\<And>r. key (f r) = key r"
  shows "table_get key k (List.map f rows) = map_option f (table_get key k rows)"
  using assms by (induction rows) auto

locale keyed_table =
  fixes key :: "'r \<Rightarrow> 'k"
    and get :: "'k \<Rightarrow> 't \<Rightarrow> 'r option"
    and put :: "'r \<Rightarrow> 't \<Rightarrow> 't"
  assumes get_key: "get k t = Some r \<Longrightarrow> key r = k"
    and get_put: "get k (put r t) = (if k = key r then Some r else get k t)"
begin

lemma get_put_same [simp]: "get (key r) (put r t) = Some r"
  by (simp add: get_put)

lemma get_put_other: "k \<noteq> key r \<Longrightarrow> get k (put r t) = get k t"
  by (simp add: get_put)

text \<open>What holds of every entry, with its key, holds after a put whose entry has it.\<close>

lemma entries_put:
  assumes "\<And>k x. get k t = Some x \<Longrightarrow> P k x" and "P (key r) r" and "get k (put r t) = Some x"
  shows "P k x"
  using assms by (auto simp: get_put split: if_splits)

end

lemma keyed_table_list: "keyed_table key (table_get key) (table_put key)"
  by unfold_locales (auto simp: table_get_put dest: table_get_key)

end
