(* ===== verification/Ops_Verification.thy ===== *)
theory Ops_Verification
  imports Governed_Runs Keyed_Table
begin

text \<open>
  The layer above the core that observes what an execution did: the operator notifications
  (\<open>ops/notifications.py\<close>), the effective-status index (\<open>ops/verification/index.py\<close>), the
  expected-state table, the observer registry and its Docker and git observers, the settling loop
  and \<open>verify_executed_action\<close> (\<open>ops/verification/service.py\<close>), and the evidence for an adapter
  that was invoked and failed (\<open>ops/execution_evidence.py\<close>).
  The index is a Python dict keyed by execution id: here a list of rows with distinct ids, in
  insertion order. What an observer reads at its n-th call, and what the monotonic clock shows at
  the n-th check, are parameters. The shape of a webhook body and its transport are left out: a
  sent alert is an entry of \<open>op_alerts\<close>.
\<close>

section \<open>State\<close>

record index_row =
  ir_execution_id :: ident
  ir_action_id :: "ident option"
  ir_adapter :: "string option"
  ir_operation :: "string option"
  ir_target :: "string option"
  ir_core :: "string option"
  ir_above :: "string option"
  ir_effective :: string
  ir_verified :: bool
  ir_notified :: bool
  ir_updated :: instant

datatype alert =
    HeldAlert string string "ident option" string string  \<comment> \<open>kind, component, approval id, detail, source\<close>
  | OpsAlert string string string string  \<comment> \<open>kind, key, detail, source\<close>

record 'w ops =
  op_gov :: "'w gov"
  op_rows :: "index_row list"
  op_last_sent :: "string \<Rightarrow> instant option"
  op_alerts :: "alert list"
  op_mono :: instant
  op_interval :: int

section \<open>Notifications\<close>

definition sending :: "string \<Rightarrow> alert \<Rightarrow> 'w ops \<Rightarrow> 'w ops" where
  "sending key al s =
     (if (case op_last_sent s key of None \<Rightarrow> False | Some prev \<Rightarrow> op_mono s - prev < op_interval s) then s
      else s\<lparr>op_last_sent := (op_last_sent s)(key \<mapsto> op_mono s), op_alerts := op_alerts s @ [al]\<rparr>)"

definition id_text :: "ident option \<Rightarrow> string" where
  "id_text k = (case k of None \<Rightarrow> ''None'' | Some x \<Rightarrow> x)"

definition notify_held ::
  "string \<Rightarrow> string \<Rightarrow> ident option \<Rightarrow> string \<Rightarrow> string \<Rightarrow> 'w ops \<Rightarrow> 'w ops" where
  "notify_held kind component approval_id detail source s =
     sending (kind @ '':'' @ component @ '':'' @ id_text approval_id)
       (HeldAlert kind component approval_id detail source) s"

definition notify_ops :: "string \<Rightarrow> string \<Rightarrow> string \<Rightarrow> string \<Rightarrow> 'w ops \<Rightarrow> 'w ops" where
  "notify_ops kind detail key source s =
     sending (''ops:'' @ kind @ '':'' @ key) (OpsAlert kind key detail source) s"

section \<open>The index\<close>

definition unverified :: string where "unverified = ''unverified''"
definition module_change_adapter :: string where "module_change_adapter = ''module_change''"
definition adapter_execution_failed :: string where "adapter_execution_failed = ''adapter_execution_failed''"
definition above_core_prefix :: string where "above_core_prefix = ''[layer=above_core''"

definition core_statuses :: "string list" where
  "core_statuses = [verified_success, state_mismatch, observation_unavailable, verification_failure]"

definition classify :: "string option \<Rightarrow> string option \<Rightarrow> string option \<Rightarrow> bool \<Rightarrow> string \<times> bool" where
  "classify core asserted adapter failure =
     (if failure then (adapter_execution_failed, False)
      else case asserted of Some x \<Rightarrow> (x, x = verified_success)
      | None \<Rightarrow> (case core of
           Some c \<Rightarrow> if adapter = Some module_change_adapter then (c, c = verified_success) else (unverified, False)
         | None \<Rightarrow> (unverified, False)))"

definition new_row :: "ident \<Rightarrow> instant \<Rightarrow> index_row" where
  "new_row k now = \<lparr>ir_execution_id = k, ir_action_id = None, ir_adapter = None, ir_operation = None, ir_target = None,
     ir_core = None, ir_above = None, ir_effective = unverified, ir_verified = False, ir_notified = False, ir_updated = now\<rparr>"

definition index_get :: "ident \<Rightarrow> index_row list \<Rightarrow> index_row option" where
  "index_get = table_get ir_execution_id"

definition index_put :: "index_row \<Rightarrow> index_row list \<Rightarrow> index_row list" where
  "index_put = table_put ir_execution_id"

interpretation index: keyed_table ir_execution_id index_get index_put
  unfolding index_get_def index_put_def by (rule keyed_table_list)

definition updated_row ::
  "index_row \<Rightarrow> ident option \<Rightarrow> string option \<Rightarrow> string option \<Rightarrow> string option \<Rightarrow> string option \<Rightarrow> string option \<Rightarrow> bool
     \<Rightarrow> instant \<Rightarrow> index_row" where
  "updated_row row action_id adapter operation target core asserted failure now =
     (let ad = or_str adapter (ir_adapter row);
          c = (if core = None then ir_core row else core);
          a = (if asserted = None then ir_above row else asserted);
          (eff, ok) = classify c a ad failure
      in row\<lparr>ir_action_id := or_str action_id (ir_action_id row), ir_adapter := ad,
            ir_operation := or_str operation (ir_operation row), ir_target := or_str target (ir_target row),
            ir_core := c, ir_above := a, ir_effective := eff, ir_verified := ok, ir_updated := now\<rparr>)"

definition record_index ::
  "ident \<Rightarrow> ident option \<Rightarrow> string option \<Rightarrow> string option \<Rightarrow> string option \<Rightarrow> string option \<Rightarrow> string option \<Rightarrow> bool
     \<Rightarrow> 'w ops \<Rightarrow> index_row \<times> 'w ops" where
  "record_index k action_id adapter operation target core asserted failure s =
     (let now = g_now (op_gov s);
          row = (case index_get k (op_rows s) of Some r \<Rightarrow> r | None \<Rightarrow> new_row k now);
          row' = updated_row row action_id adapter operation target core asserted failure now
      in (row', s\<lparr>op_rows := index_put row' (op_rows s)\<rparr>))"

definition mark_notified :: "ident \<Rightarrow> 'w ops \<Rightarrow> 'w ops" where
  "mark_notified k s = s\<lparr>op_rows := modify_first ir_execution_id k (\<lambda>r. r\<lparr>ir_notified := True\<rparr>) (op_rows s)\<rparr>"

definition index_view :: "int \<Rightarrow> string option \<Rightarrow> 'w ops \<Rightarrow> index_row list" where
  "index_view limit status s =
     (let rows = sort_key (\<lambda>r. - ir_updated r) (op_rows s);
          kept = (case or_str status None of None \<Rightarrow> rows | Some x \<Rightarrow> filter (\<lambda>r. ir_effective r = x) rows)
      in if 0 < limit then take (nat limit) kept else kept)"

section \<open>Rebuilding the index from the evidence\<close>

text \<open>The regular expression: the token, then one or more characters up to white space or \<open>]\<close>.\<close>

definition above_core_adapter :: "string \<Rightarrow> string option" where
  "above_core_adapter why =
     (let token = above_core_prefix @ '' adapter=''; name = takeWhile (\<lambda>c. \<not> is_space c \<and> c \<noteq> CHR '']'') (drop (length token) why)
      in if prefix token why \<and> name \<noteq> [] then Some name else None)"

record rebuilt =
  rb_core :: "string option"
  rb_above :: "string option"
  rb_adapter :: "string option"
  rb_operation :: "string option"
  rb_target :: "string option"
  rb_failure :: bool

definition rebuild_names :: "verification_result \<Rightarrow> rebuilt \<Rightarrow> rebuilt" where
  "rebuild_names v b = (case ver_expected v of None \<Rightarrow> b
     | Some e \<Rightarrow> b\<lparr>rb_operation := or_str (rb_operation b) (or_str (Some (exp_operation e)) None),
                  rb_target := or_str (rb_target b) (or_str (Some (exp_target e)) None)\<rparr>)"

definition rebuild_step :: "verification_result \<Rightarrow> rebuilt \<Rightarrow> rebuilt" where
  "rebuild_step v b =
     (case above_core_adapter (ver_reason v) of
        Some name \<Rightarrow> rebuild_names v (b\<lparr>rb_above := Some (ver_status v), rb_adapter := or_str (rb_adapter b) (Some name)\<rparr>)
      | None \<Rightarrow>
         if ver_status v = adapter_execution_failed then b\<lparr>rb_failure := True\<rparr>
         else if ver_status v \<in> set core_statuses then rebuild_names v (b\<lparr>rb_core := Some (ver_status v)\<rparr>)
         else b)"

definition rebuild_group :: "verification_result list \<Rightarrow> rebuilt" where
  "rebuild_group vs = fold rebuild_step vs \<lparr>rb_core = None, rb_above = None, rb_adapter = None,
     rb_operation = None, rb_target = None, rb_failure = False\<rparr>"

definition rebuilt_row :: "'w gov \<Rightarrow> ident \<Rightarrow> index_row" where
  "rebuilt_row st k =
     (let b = rebuild_group (filter (\<lambda>v. ver_execution_id v = k) (mem (g_verifs st)));
          au = find (\<lambda>a. au_execution_id a = k) (mem (g_audits st));
          ad = or_str (rb_adapter b) (map_option au_adapter au);
          (eff, ok) = classify (rb_core b) (rb_above b) ad (rb_failure b)
      in \<lparr>ir_execution_id = k, ir_action_id = map_option au_action_id au, ir_adapter = ad, ir_operation = rb_operation b,
          ir_target = rb_target b, ir_core = rb_core b, ir_above = rb_above b, ir_effective = eff, ir_verified = ok,
          ir_notified = True, ir_updated = g_now st\<rparr>)"

text \<open>Execution ids in the order of their first record.\<close>

definition first_seen :: "'a list \<Rightarrow> 'a list" where
  "first_seen xs = rev (remdups (rev xs))"

definition rebuild_index :: "'w ops \<Rightarrow> 'w ops" where
  "rebuild_index s =
     s\<lparr>op_rows := List.map (rebuilt_row (op_gov s)) (first_seen (List.map ver_execution_id (mem (g_verifs (op_gov s)))))\<rparr>"

section \<open>Observers\<close>

datatype reading = Unreadable | Reading "observed_state option"

text \<open>\<open>expected.py\<close>\<close>

definition expected_states :: "((string \<times> string) \<times> string) list" where
  "expected_states =
     [((''docker'', ''start''), ''running''), ((''docker'', ''restart''), ''running''), ((''docker'', ''create''), ''running''),
      ((''docker'', ''stop''), ''exited''), ((''docker'', ''remove''), ''absent''),
      ((''git'', ''create''), ''present''), ((''git'', ''remove''), ''absent'')]"

definition expected_state_for :: "string \<Rightarrow> string \<Rightarrow> string option" where
  "expected_state_for adapter operation = map_of expected_states (lower adapter, lower operation)"

type_synonym observer_registry = "string \<times> string \<Rightarrow> (string \<Rightarrow> nat \<Rightarrow> reading) option"

definition register_observer ::
  "string \<Rightarrow> string \<Rightarrow> (string \<Rightarrow> nat \<Rightarrow> reading) \<Rightarrow> observer_registry \<Rightarrow> observer_registry" where
  "register_observer adapter operation factory reg = reg((lower adapter, lower operation) \<mapsto> factory)"

definition resolve_observer :: "observer_registry \<Rightarrow> string \<Rightarrow> string \<Rightarrow> string \<Rightarrow> (nat \<Rightarrow> reading) option" where
  "resolve_observer reg adapter operation target =
     (case reg (lower adapter, lower operation) of None \<Rightarrow> None | Some factory \<Rightarrow> Some (factory target))"

text \<open>
  What Docker answers: not available, a listing that raises, or the containers with their name and
  status, each possibly missing from the entry.
\<close>

datatype docker_answer = NoDocker | ListingRaised | Containers "(string option \<times> string option) list"

definition observe_container_state :: "docker_answer \<Rightarrow> string \<Rightarrow> observed_state option" where
  "observe_container_state d target =
     (case d of NoDocker \<Rightarrow> None | ListingRaised \<Rightarrow> None
      | Containers cs \<Rightarrow>
         (case find (\<lambda>c. fst c = Some target) cs of
            Some c \<Rightarrow> Some \<lparr>obs_target = target, obs_state = (case snd c of None \<Rightarrow> ''unknown'' | Some x \<Rightarrow> x), obs_source = ''docker''\<rparr>
          | None \<Rightarrow> Some \<lparr>obs_target = target, obs_state = ''absent'', obs_source = ''docker''\<rparr>))"

definition docker_observer :: "(nat \<Rightarrow> docker_answer) \<Rightarrow> string \<Rightarrow> nat \<Rightarrow> reading" where
  "docker_observer docker target n = Reading (observe_container_state (docker n) target)"

text \<open>What git answers for a tag: no repository, a command that raises, or whether the tag exists.\<close>

datatype git_answer = NoRepository | CommandRaised | TagKnown bool

definition git_observer :: "(string \<Rightarrow> nat \<Rightarrow> git_answer) \<Rightarrow> string \<Rightarrow> nat \<Rightarrow> reading" where
  "git_observer git target n =
     (case git target n of NoRepository \<Rightarrow> Reading None | CommandRaised \<Rightarrow> Unreadable
      | TagKnown b \<Rightarrow> Reading (Some \<lparr>obs_target = target, obs_state = (if b then ''present'' else ''absent''), obs_source = ''git''\<rparr>))"

definition register_docker_observers :: "(nat \<Rightarrow> docker_answer) \<Rightarrow> observer_registry \<Rightarrow> observer_registry" where
  "register_docker_observers docker reg =
     fold (\<lambda>oper. register_observer ''docker'' oper (docker_observer docker))
       [''start'', ''stop'', ''restart'', ''create'', ''remove''] reg"

definition register_git_observers :: "(string \<Rightarrow> nat \<Rightarrow> git_answer) \<Rightarrow> observer_registry \<Rightarrow> observer_registry" where
  "register_git_observers git reg =
     fold (\<lambda>oper. register_observer ''git'' oper (git_observer git)) [''create'', ''remove''] reg"

definition observers :: "(nat \<Rightarrow> docker_answer) \<Rightarrow> (string \<Rightarrow> nat \<Rightarrow> git_answer) \<Rightarrow> observer_registry" where
  "observers docker git = register_git_observers git (register_docker_observers docker (\<lambda>_. None))"

section \<open>Settling\<close>

definition poll_interval :: int where "poll_interval = 500000"

definition matches :: "string \<Rightarrow> observed_state option \<Rightarrow> bool" where
  "matches want seen = (case seen of None \<Rightarrow> False | Some ob \<Rightarrow> obs_state ob = want)"

text \<open>
  \<open>clock 0\<close> sets the deadline and \<open>clock (Suc n)\<close> is read by the n-th check of the loop. A loop
  whose clock never reaches the deadline does not return: \<open>None\<close>.
\<close>

partial_function (option) settle_loop ::
  "(nat \<Rightarrow> reading) \<Rightarrow> (nat \<Rightarrow> instant) \<Rightarrow> instant \<Rightarrow> string \<Rightarrow> nat \<Rightarrow> observed_state option \<Rightarrow> reading option" where
  "settle_loop observer clock deadline want n seen =
     (if clock (Suc n) < deadline then
        (if matches want seen then Some (Reading seen)
         else (case observer (Suc n) of
                 Unreadable \<Rightarrow> Some Unreadable
               | Reading seen' \<Rightarrow> settle_loop observer clock deadline want (Suc n) seen'))
      else Some (Reading seen))"

definition settle :: "(nat \<Rightarrow> reading) \<Rightarrow> (nat \<Rightarrow> instant) \<Rightarrow> int \<Rightarrow> string option \<Rightarrow> reading option" where
  "settle observer clock timeout want =
     (case observer 0 of
        Unreadable \<Rightarrow> Some Unreadable
      | Reading seen \<Rightarrow>
         (case want of None \<Rightarrow> Some (Reading seen)
          | Some w \<Rightarrow> if timeout \<le> 0 then Some (Reading seen)
                     else settle_loop observer clock (clock 0 + timeout) w 0 seen))"

section \<open>\<open>verify_executed_action\<close>\<close>

record probes =
  pr_observers :: observer_registry
  pr_clock :: "nat \<Rightarrow> instant"
  pr_timeout :: int

definition rstrip :: "string \<Rightarrow> string" where
  "rstrip s = rev (dropWhile is_space (rev s))"

definition core_record_status :: "ident \<Rightarrow> 'w gov \<Rightarrow> string option" where
  "core_record_status k st =
     map_option ver_status (find_last (\<lambda>v. ver_execution_id v = k \<and> \<not> prefix above_core_prefix (ver_reason v)
       \<and> ver_status v \<noteq> adapter_execution_failed) (mem (g_verifs st)))"

definition update_index_and_notify ::
  "ident \<Rightarrow> ident option \<Rightarrow> string \<Rightarrow> string \<Rightarrow> string \<Rightarrow> string option \<Rightarrow> 'w ops \<Rightarrow> 'w ops" where
  "update_index_and_notify k action_id adapter operation target asserted s =
     (let (row, s1) = record_index k action_id (Some adapter) (Some operation) (Some target)
            (core_record_status k (op_gov s)) asserted False s
      in if ir_effective row = unverified \<and> \<not> ir_notified row then
           mark_notified k (notify_ops ''verification_inconclusive''
             (''action_id='' @ id_text action_id @ '' adapter='' @ adapter @ '' operation='' @ operation @ '' target='' @ target)
             k ''verify_executed_action'' s1)
         else s1)"

definition settle_expected ::
  "string \<Rightarrow> string \<Rightarrow> string \<Rightarrow> expected_outcome option \<Rightarrow> expected_outcome option" where
  "settle_expected adapter operation target expected =
     (case expected of Some e \<Rightarrow> Some e
      | None \<Rightarrow> map_option (\<lambda>x. \<lparr>exp_target = target, exp_operation = operation, exp_state = x\<rparr>)
                  (expected_state_for adapter operation))"

definition above_core_token :: "string \<Rightarrow> string" where
  "above_core_token adapter = above_core_prefix @ '' adapter='' @ adapter"

definition tag_reason :: "ident \<Rightarrow> string \<Rightarrow> 'w gov \<Rightarrow> string \<Rightarrow> string" where
  "tag_reason k adapter st why =
     rstrip (above_core_token adapter @
       (if core_record_status k st = Some observation_unavailable then '' supersedes=observation_unavailable'' else []) @
       ''] '' @ why)"

definition save_above_core ::
  "ident \<Rightarrow> string \<Rightarrow> expected_outcome option \<Rightarrow> observed_state option \<Rightarrow> 'w gov \<Rightarrow> verification_result \<times> 'w gov" where
  "save_above_core k adapter expected seen st =
     (let (i, st1) = fresh_id st;
          v = verifier k expected seen i (g_now st);
          v' = v\<lparr>ver_reason := tag_reason k adapter st1 (ver_reason v)\<rparr>
      in (v', st1\<lparr>g_verifs := save verification_key v' (g_verifs st1)\<rparr>))"

text \<open>\<open>None\<close>: the settling loop does not return.\<close>

definition verify_executed_action ::
  "probes \<Rightarrow> ident \<Rightarrow> string \<Rightarrow> string \<Rightarrow> string \<Rightarrow> expected_outcome option \<Rightarrow> ident option \<Rightarrow> 'w ops
     \<Rightarrow> (verification_result \<times> 'w ops) option" where
  "verify_executed_action P k adapter operation target expected action_id s =
     (let want = settle_expected adapter operation target expected in
      case resolve_observer (pr_observers P) adapter operation target of
        None \<Rightarrow>
         (let (i, st1) = fresh_id (op_gov s);
              v = \<lparr>ver_id = i, ver_execution_id = k, ver_status = observation_unavailable, ver_expected = want,
                   ver_observed = None, ver_reason = above_core_token adapter @ ''] no above-Core observer registered for this operation'',
                   ver_created_at = g_now st1\<rparr>
          in Some (v, update_index_and_notify k action_id adapter operation target None (s\<lparr>op_gov := st1\<rparr>)))
      | Some observer \<Rightarrow>
         (case settle observer (pr_clock P) (pr_timeout P) (map_option exp_state want) of
            None \<Rightarrow> None
          | Some r \<Rightarrow>
             (let seen = (case r of Unreadable \<Rightarrow> None | Reading x \<Rightarrow> x);
                  (v, st1) = save_above_core k adapter want seen (op_gov s)
              in Some (v, update_index_and_notify k action_id adapter operation target (Some (ver_status v)) (s\<lparr>op_gov := st1\<rparr>)))))"

section \<open>The settling loop returns\<close>

text \<open>Every sleep lasts at least the poll interval.\<close>

definition sleeping_clock :: "(nat \<Rightarrow> instant) \<Rightarrow> bool" where
  "sleeping_clock clock \<longleftrightarrow> clock 0 \<le> clock 1 \<and> (\<forall>n. clock (Suc n) + poll_interval \<le> clock (Suc (Suc n)))"

lemma sleeping_clock_after: "sleeping_clock clock \<Longrightarrow> clock 0 + int n * poll_interval \<le> clock (Suc n)"
proof (induction n)
  case (Suc n)
  then have "clock (Suc n) + poll_interval \<le> clock (Suc (Suc n))" by (simp add: sleeping_clock_def)
  with Suc show ?case by (simp add: algebra_simps)
qed (simp add: sleeping_clock_def)

text \<open>The reading a settling loop may stop at.\<close>

definition settled :: "(nat \<Rightarrow> reading) \<Rightarrow> (nat \<Rightarrow> instant) \<Rightarrow> instant \<Rightarrow> string \<Rightarrow> nat \<Rightarrow> bool" where
  "settled observer clock deadline want m \<longleftrightarrow>
     (case observer m of Unreadable \<Rightarrow> True | Reading seen \<Rightarrow> matches want seen \<or> deadline \<le> clock (Suc m))"

lemma settle_loop_returns:
  assumes "observer n = Reading seen" and "\<And>k. n \<le> k \<Longrightarrow> clock (Suc k) + poll_interval \<le> clock (Suc (Suc k))"
  shows "\<exists>m\<ge>n. settle_loop observer clock deadline want n seen = Some (observer m) \<and> settled observer clock deadline want m
           \<and> (\<forall>k. n \<le> k \<and> k < m \<longrightarrow> clock (Suc k) < deadline \<and> \<not> settled observer clock deadline want k)"
  using assms
proof (induction "nat (deadline - clock (Suc n))" arbitrary: n seen rule: less_induct)
  case less
  show ?case
  proof (cases "clock (Suc n) < deadline \<and> \<not> matches want seen")
    case False
    then have "settle_loop observer clock deadline want n seen = Some (observer n)"
      using less.prems(1) by (subst settle_loop.simps) auto
    moreover have "settled observer clock deadline want n" using False less.prems(1) by (auto simp: settled_def)
    ultimately show ?thesis by (intro exI[of _ n]) auto
  next
    case True
    then have open_n: "\<not> settled observer clock deadline want n" using less.prems(1) by (auto simp: settled_def)
    show ?thesis
    proof (cases "observer (Suc n)")
      case Unreadable
      then have "settle_loop observer clock deadline want n seen = Some (observer (Suc n))"
        using True by (subst settle_loop.simps) auto
      moreover have "settled observer clock deadline want (Suc n)" using Unreadable by (simp add: settled_def)
      ultimately show ?thesis using True open_n by (intro exI[of _ "Suc n"]) (auto simp: less_Suc_eq_le dest: le_antisym)
    next
      case (Reading seen')
      have step: "settle_loop observer clock deadline want n seen = settle_loop observer clock deadline want (Suc n) seen'"
        using True Reading by (subst settle_loop.simps) auto
      have "clock (Suc n) < clock (Suc (Suc n))" using less.prems(2)[of n] by (simp add: poll_interval_def)
      then have "nat (deadline - clock (Suc (Suc n))) < nat (deadline - clock (Suc n))" using True by linarith
      from less.hyps[OF this Reading] less.prems(2) obtain m where m: "m \<ge> Suc n"
        "settle_loop observer clock deadline want (Suc n) seen' = Some (observer m)" "settled observer clock deadline want m"
        "\<And>k. Suc n \<le> k \<and> k < m \<Longrightarrow> clock (Suc k) < deadline \<and> \<not> settled observer clock deadline want k"
        by (metis Suc_leD)
      have "clock (Suc k) < deadline \<and> \<not> settled observer clock deadline want k" if "n \<le> k \<and> k < m" for k
        using that m(4)[of k] True open_n by (cases "k = n") auto
      with m step show ?thesis by (intro exI[of _ m]) auto
    qed
  qed
qed

lemma settle_returns:
  assumes "sleeping_clock clock"
  shows "\<exists>m. settle observer clock timeout want = Some (observer m) \<and>
     (m = 0 \<or> int (m - 1) * poll_interval < timeout) \<and>
     (\<forall>w. want = Some w \<longrightarrow> 0 < timeout \<longrightarrow> settled observer clock (clock 0 + timeout) w m \<and>
        (\<forall>k<m. \<not> settled observer clock (clock 0 + timeout) w k))"
proof (cases "observer 0")
  case Unreadable
  then show ?thesis by (intro exI[of _ 0]) (auto simp: settle_def settled_def)
next
  case (Reading seen)
  show ?thesis
  proof (cases "want = None \<or> timeout \<le> 0")
    case True
    then show ?thesis using Reading by (intro exI[of _ 0]) (auto simp: settle_def split: option.split)
  next
    case False
    then obtain w where w: "want = Some w" "0 < timeout" by auto
    have steps: "\<And>k. 0 \<le> k \<Longrightarrow> clock (Suc k) + poll_interval \<le> clock (Suc (Suc k))" using assms by (simp add: sleeping_clock_def)
    obtain m where
      m: "settle_loop observer clock (clock 0 + timeout) w 0 seen = Some (observer m)" "settled observer clock (clock 0 + timeout) w m"
      "\<And>k. k < m \<Longrightarrow> clock (Suc k) < clock 0 + timeout \<and> \<not> settled observer clock (clock 0 + timeout) w k"
      using settle_loop_returns[where observer = observer and clock = clock, OF Reading steps, where deadline = "clock 0 + timeout" and want = w]
      by auto
    have "m = 0 \<or> int (m - 1) * poll_interval < timeout"
      using m(3)[of "m - 1"] sleeping_clock_after[OF assms, of "m - 1"] by (cases m) auto
    then show ?thesis using m w Reading by (intro exI[of _ m]) (auto simp: settle_def)
  qed
qed

end
