(* ===== verification/Ops_Evidence.thy ===== *)
theory Ops_Evidence
  imports Ops_Verification Governance_Sample
begin

text \<open>
  What the layer above the core makes of an outcome: the result dicts of the two governed entry
  points as their callers read them, the record of an adapter that was invoked and failed
  (\<open>ops/execution_evidence.py\<close>), and the properties of the observation layer.
  \<open>Raised\<close> has no dict: the exception leaves the call. The action id of a dict is left out, nothing
  above the core reads it.
\<close>

section \<open>Outcome dicts\<close>

record outcome_view =
  ov_status :: string
  ov_reason :: "string option"
  ov_approval_id :: "ident option"
  ov_execution_id :: "ident option"
  ov_success :: "bool option"
  ov_message :: "string option"
  ov_detail :: "string option"
  ov_docker_status :: "string option"
  ov_docker_reason :: "string option"

definition plain_view :: "string \<Rightarrow> string option \<Rightarrow> ident option \<Rightarrow> outcome_view" where
  "plain_view status why approval_id = \<lparr>ov_status = status, ov_reason = why, ov_approval_id = approval_id,
     ov_execution_id = None, ov_success = None, ov_message = None, ov_detail = None,
     ov_docker_status = None, ov_docker_reason = None\<rparr>"

definition executed_view :: "exec_result \<Rightarrow> ident option \<Rightarrow> outcome_view" where
  "executed_view res approval_id = \<lparr>ov_status = ''executed'', ov_reason = None, ov_approval_id = approval_id,
     ov_execution_id = Some (res_execution_id res), ov_success = Some (res_success res),
     ov_message = Some (res_message res), ov_detail = Some (res_status res),
     ov_docker_status = None, ov_docker_reason = None\<rparr>"

text \<open>The text of an assessment error; the names it prints are those of the action.\<close>

fun assess_text :: "action \<Rightarrow> string \<Rightarrow> assess_error \<Rightarrow> string" where
  "assess_text a adapter UnknownDomain = ''Unknown governance domain: '' @ quoted (act_domain a)"
| "assess_text a adapter OperationNotRegistered =
     ''Operation '' @ quoted (type_value (act_type a)) @ '' is not registered for the domain''"
| "assess_text a adapter AdapterNotRegistered = ''Adapter '' @ quoted adapter @ '' is not registered for the domain''"
| "assess_text a adapter (AssessmentUnavailable e) = ''Domain assessment unavailable: '' @ e"
| "assess_text a adapter MalformedPolicy = ''Malformed policy assessment''"
| "assess_text a adapter MalformedPolicyFields = ''Malformed policy assessment fields''"
| "assess_text a adapter MalformedPolicyEvidence = ''Malformed policy evidence references''"
| "assess_text a adapter MalformedRisk = ''Malformed risk assessment''"
| "assess_text a adapter MalformedRiskLevel = ''Malformed risk level''"
| "assess_text a adapter RiskActionMismatch = ''Risk assessment action mismatch''"
| "assess_text a adapter MalformedRiskFields = ''Malformed risk assessment fields''"
| "assess_text a adapter MalformedRiskEvidence = ''Malformed risk evidence references''"
| "assess_text a adapter DomainEvidenceRequired = ''Domain assessment evidence and recovery semantics required''"
| "assess_text a adapter e = []"

definition outcome_dict :: "action \<Rightarrow> string \<Rightarrow> outcome \<Rightarrow> outcome_view option" where
  "outcome_dict a adapter out =
     (case out of
        AssessmentFailed e \<Rightarrow> Some (plain_view ''assessment_failed'' (Some (assess_text a adapter e)) None)
      | PolicyDenied why req \<Rightarrow> Some (plain_view ''policy_denied'' (Some why) None)
      | RejectedByPolicy why \<Rightarrow> Some (plain_view ''rejected'' (Some why) None)
      | ManualRequired why k \<Rightarrow> Some (plain_view ''manual_approval_required'' (Some why) (Some k))
      | AuthorizationNotCreated \<Rightarrow> Some (plain_view ''authorization_not_created'' (Some ''Approval was not auto-approved'') None)
      | Executed res v \<Rightarrow> Some (executed_view res None)
      | Raised \<Rightarrow> None)"

fun approval_status_value :: "approval_status \<Rightarrow> string" where
  "approval_status_value Pending = ''pending''"
| "approval_status_value Approved = ''approved''"
| "approval_status_value Rejected = ''rejected''"

definition approval_dict :: "ident \<Rightarrow> approval_outcome \<Rightarrow> outcome_view option" where
  "approval_dict k out =
     (case out of
        ApprovalNotFound \<Rightarrow> Some (plain_view ''approval_not_found'' (Some (''No held approval with id '' @ quoted k)) None)
      | AlreadyResolved x \<Rightarrow> Some (plain_view ''approval_already_resolved'' (Some (''Approval already '' @ approval_status_value x)) (Some k))
      | ApprovalExpired \<Rightarrow> Some (plain_view ''approval_expired'' (Some ''Approval hold has expired'') (Some k))
      | ApprovalRejected \<Rightarrow> Some (plain_view ''rejected'' (Some ''Approval rejected by approver'') (Some k))
      | AssessmentInvalid \<Rightarrow> Some (plain_view ''assessment_invalid'' (Some ''Held assessment or instruction binding mismatch'') (Some k))
      | ApprovalExecuted res v \<Rightarrow> Some (executed_view res (Some k))
      | ApprovalRaised \<Rightarrow> None)"

section \<open>An adapter that was invoked and failed\<close>

definition is_failed_attempt :: "outcome_view \<Rightarrow> bool" where
  "is_failed_attempt ov \<longleftrightarrow> ov_status ov = ''executed'' \<and> ov_success ov = Some False \<and> truthy_str (ov_execution_id ov)"

definition failed_evidence :: "outcome_view \<Rightarrow> expected_outcome option \<Rightarrow> ident \<Rightarrow> instant \<Rightarrow> verification_result" where
  "failed_evidence ov expected i now =
     \<lparr>ver_id = i, ver_execution_id = the (ov_execution_id ov), ver_status = adapter_execution_failed, ver_expected = expected,
      ver_observed = None,
      ver_reason = the (or_str (ov_message ov) (or_str (ov_detail ov) (Some ''Adapter invoked and returned failure''))),
      ver_created_at = now\<rparr>"

definition record_failed_execution_evidence ::
  "outcome_view \<Rightarrow> expected_outcome option \<Rightarrow> 'w gov \<Rightarrow> verification_result option \<times> 'w gov" where
  "record_failed_execution_evidence ov expected st =
     (if \<not> is_failed_attempt ov then (None, st)
      else if get_verification (the (ov_execution_id ov)) st \<noteq> None then (None, st)
      else (let (i, st1) = fresh_id st; v = failed_evidence ov expected i (g_now st)
            in (Some v, st1\<lparr>g_verifs := save verification_key v (g_verifs st1)\<rparr>)))"

section \<open>Lookups\<close>

lemma get_verification_save:
  "get_verification k (st\<lparr>g_verifs := save verification_key v (g_verifs st)\<rparr>) =
     (case get_verification k st of Some x \<Rightarrow> Some x | None \<Rightarrow> if ver_execution_id v = k then Some v else None)"
  by (simp add: get_verification_def get_by_save)

lemma verifier_id [simp]: "ver_execution_id (verifier e x ob i now) = e"
  by (simp add: verifier_def split: option.split)

lemma verifier_status: "ver_status (verifier e x ob i now) \<in> set core_statuses"
  by (simp add: verifier_def core_statuses_def split: option.split)

lemma verify_execution_evidence:
  assumes "verify_execution e x r st = (v, st')"
  shows "get_verification e st' \<noteq> None"
  using assms
  by (auto simp: verify_execution_def fresh_id_def Let_def get_verification_def get_by_save split: option.split)

lemma run_request_evidence:
  assumes "run_request r adapter st = (Some (res, v), st')" and "res_success res"
  shows "get_verification (res_execution_id res) st' \<noteq> None"
  using assms by (auto simp: run_request_def Let_def dest: verify_execution_evidence split: option.splits prod.splits if_splits)

lemma executed_ran:
  assumes "execute_governed_action a adapter st = (Executed res v, st')"
  shows "\<exists>r st2. run_request r adapter st2 = (Some (res, v), st')"
  using assms
  by (auto simp: execute_governed_action_def execute_authorized_def Let_def
      split: sum.splits assess_error.splits if_splits prod.splits option.splits)

lemma approved_ran:
  assumes "approve_held_action k who ok st = (ApprovalExecuted res v, st')"
  shows "\<exists>h r st2. get_hold k st = Some h \<and> run_request r (hold_adapter h) st2 = (Some (res, v), st')"
  using assms
  by (auto simp: approve_held_action_def resume_hold_def Let_def split: if_splits prod.splits option.splits)

lemma failed_evidence_recorded:
  assumes "is_failed_attempt ov"
  shows "get_verification (the (ov_execution_id ov)) (snd (record_failed_execution_evidence ov x st)) \<noteq> None"
  using assms
  by (auto simp: record_failed_execution_evidence_def fresh_id_def Let_def get_verification_def get_by_save failed_evidence_def
      split: option.split)

lemma failed_evidence_keeps:
  "get_verification k st \<noteq> None \<Longrightarrow> get_verification k (snd (record_failed_execution_evidence ov x st)) = get_verification k st"
  by (auto simp: record_failed_execution_evidence_def fresh_id_def Let_def get_verification_def get_by_save split: option.split)

lemma failed_evidence_status:
  assumes "is_failed_attempt ov" and "get_verification (the (ov_execution_id ov)) st = None"
  shows "map_option ver_status (get_verification (the (ov_execution_id ov)) (snd (record_failed_execution_evidence ov x st))) =
     Some adapter_execution_failed"
  using assms
  by (simp add: record_failed_execution_evidence_def fresh_id_def Let_def get_verification_def get_by_save failed_evidence_def)

lemma executed_request:
  assumes "execute_governed_action a adapter st = (Executed res v, st')"
  shows "\<exists>r st2 n. run_request r adapter st2 = (Some (res, v), st') \<and> req_execution_id r = g_uuid st n \<and>
     g_adapters st2 = g_adapters st"
proof -
  obtain asmt st1 where x: "resolve_assessment st a adapter = Inr (asmt, st1)" using assms
    by (auto simp: execute_governed_action_def split: sum.splits assess_error.splits)
  show ?thesis using assms x resolve_state[OF x]
    by (auto simp: execute_governed_action_def execute_authorized_def Let_def process_approval_def record_approval_decision_def
      create_execution_authorization_def save_authorization_def translate_action_to_execution_def fresh_id_def
      split: if_splits prod.splits option.splits intro!: exI)
qed

text \<open>The result carries the request's execution id when the adapter copies it.\<close>

lemma run_request_id:
  assumes "run_request r adapter st = (Some (res, v), st')"
    and "\<And>ad w res' w'. g_adapters st adapter = Some ad \<Longrightarrow> ad_execute ad r w = (Some res', w') \<Longrightarrow>
           res_execution_id res' = req_execution_id r"
  shows "res_execution_id res = req_execution_id r"
proof -
  obtain st1 where e: "engine_execute r adapter st = (Some res, st1)"
    using assms(1) by (auto simp: run_request_def Let_def split: prod.splits option.splits if_splits)
  then show ?thesis using assms(2)
    by (auto simp: engine_execute_def block_def failed_def run_adapter_def Let_def split: option.splits if_splits prod.splits)
qed

section \<open>A small observed deployment\<close>

definition sample_ops :: "nat ops" where
  "sample_ops = \<lparr>op_gov = sample_start, op_rows = [], op_last_sent = (\<lambda>_. None), op_alerts = [], op_mono = 0, op_interval = 0\<rparr>"

definition sample_probes :: probes where
  "sample_probes = \<lparr>pr_observers = observers (\<lambda>n. Containers [(Some ''web'', Some (if n = 0 then ''restarting'' else ''running''))]) (\<lambda>t n. NoRepository),
     pr_clock = (\<lambda>n. int n * poll_interval), pr_timeout = seconds 5\<rparr>"

lemma sample_clock: "sleeping_clock (pr_clock sample_probes)"
  by (simp add: sleeping_clock_def sample_probes_def poll_interval_def)

lemma sample_observer:
  "resolve_observer (pr_observers sample_probes) ''docker'' ''restart'' ''web'' =
     Some (\<lambda>n. Reading (Some \<lparr>obs_target = ''web'', obs_state = (if n = 0 then ''restarting'' else ''running''), obs_source = ''docker''\<rparr>))"
proof -
  have "lower ''docker'' = ''docker''" "lower ''restart'' = ''restart''" "lower ''git'' = ''git''"
    "lower ''start'' = ''start''" "lower ''stop'' = ''stop''" "lower ''create'' = ''create''" "lower ''remove'' = ''remove''"
    by code_simp+
  then show ?thesis
    by (simp add: resolve_observer_def sample_probes_def observers_def register_git_observers_def register_docker_observers_def
        register_observer_def docker_observer_def observe_container_state_def fun_eq_iff)
qed

lemma sample_expected: "settle_expected ''docker'' ''restart'' ''web'' None =
    Some \<lparr>exp_target = ''web'', exp_operation = ''restart'', exp_state = ''running''\<rparr>"
proof -
  have "expected_state_for ''docker'' ''restart'' = Some ''running''" by code_simp
  then show ?thesis by (simp add: settle_expected_def)
qed

lemma sample_settle:
  "settle (\<lambda>n. Reading (Some \<lparr>obs_target = ''web'', obs_state = (if n = 0 then ''restarting'' else ''running''), obs_source = ''docker''\<rparr>))
     (pr_clock sample_probes) (pr_timeout sample_probes) (Some ''running'') =
   Some (Reading (Some \<lparr>obs_target = ''web'', obs_state = ''running'', obs_source = ''docker''\<rparr>))"
  by (simp add: settle_def sample_probes_def poll_interval_def)
    (subst settle_loop.simps, simp add: poll_interval_def matches_def, subst settle_loop.simps, simp add: poll_interval_def matches_def)

definition sample_observed :: "verification_result \<times> nat ops" where
  "sample_observed = the (verify_executed_action sample_probes ''e'' ''docker'' ''restart'' ''web'' None None sample_ops)"

lemma sample_observed:
  "verify_executed_action sample_probes ''e'' ''docker'' ''restart'' ''web'' None None sample_ops =
     Some (fst sample_observed, snd sample_observed)"
  by (simp add: sample_observed_def verify_executed_action_def Let_def sample_observer sample_expected sample_settle split: prod.split)

definition sample_unseen :: "nat ops \<Rightarrow> nat ops" where
  "sample_unseen s = snd (the (verify_executed_action sample_probes ''e'' ''simulation'' ''restart'' ''web'' None None s))"

lemma sample_unseen:
  "verify_executed_action sample_probes ''e'' ''simulation'' ''restart'' ''web'' None None s =
     Some (fst (the (verify_executed_action sample_probes ''e'' ''simulation'' ''restart'' ''web'' None None s)), sample_unseen s)"
proof -
  have "lower ''simulation'' = ''simulation''" "lower ''docker'' = ''docker''" "lower ''git'' = ''git''" by code_simp+
  then have "resolve_observer (pr_observers sample_probes) ''simulation'' ''restart'' ''web'' = None"
    by (simp add: resolve_observer_def sample_probes_def observers_def register_git_observers_def register_docker_observers_def
        register_observer_def)
  then show ?thesis by (simp add: sample_unseen_def verify_executed_action_def Let_def split: prod.split)
qed

lemma sample_executed_id:
  "\<exists>res v st'. execute_governed_action (sample_action False) ''simulation'' sample_gov = (Executed res v, st') \<and> res_execution_id res \<noteq> []"
proof -
  obtain res v st' where e: "execute_governed_action (sample_action False) ''simulation'' sample_gov = (Executed res v, st')"
    using sample_run(1) by (metis prod.collapse)
  obtain r st2 n where r: "run_request r ''simulation'' st2 = (Some (res, v), st')" "req_execution_id r = g_uuid sample_gov n"
    "g_adapters st2 = g_adapters sample_gov" using executed_request[OF e] by blast
  have "res_execution_id res = req_execution_id r"
    by (rule run_request_id[OF r(1)]) (auto simp: r(3) sample_adapter counter_adapter_def)
  then show ?thesis using e r(2) by (auto simp: sample_defs)
qed

end
