(* ===== verification/Homelab_Remediation.thy ===== *)
theory Homelab_Remediation
  imports Health_Rules Ops_Evidence
begin

text \<open>
  Homelab remediation: the metrics table and the memory table (\<open>core/observability\<close>,
  \<open>core/intelligence/memory\<close>), the remediation policy and its route through the governed boundary
  (\<open>homelab/remediation.py\<close>), and the continuation of a held remediation
  (\<open>homelab/continuation.py\<close>). A result is \<open>None\<close> when the settling observation does not return;
  inside it, \<open>Inl\<close> is an exception that leaves the call, with its text.
\<close>

section \<open>State\<close>

record memory_record =
  mr_component :: string
  mr_event :: string
  mr_at :: instant
  mr_data :: params

record 'w home =
  hm_ops :: "'w ops"
  hm_metrics :: "container_metric list"  \<comment> \<open>the rows in the order of their ids\<close>
  hm_memory :: "memory_record list"
  hm_engine :: string  \<comment> \<open>\<open>settings.runtime.engine\<close>\<close>

abbreviation hm_gov :: "'w home \<Rightarrow> 'w gov" where
  "hm_gov h \<equiv> op_gov (hm_ops h)"

definition with_gov :: "'w gov \<Rightarrow> 'w home \<Rightarrow> 'w home" where
  "with_gov g h = h\<lparr>hm_ops := (hm_ops h)\<lparr>op_gov := g\<rparr>\<rparr>"

lemma with_gov_simps [simp]:
  "hm_gov (with_gov g h) = g" "hm_metrics (with_gov g h) = hm_metrics h" "hm_memory (with_gov g h) = hm_memory h"
  "hm_engine (with_gov g h) = hm_engine h" "op_rows (hm_ops (with_gov g h)) = op_rows (hm_ops h)"
  by (simp_all add: with_gov_def)

section \<open>Metrics\<close>

definition save_container_metric :: "container_metric \<Rightarrow> 'w home \<Rightarrow> 'w home" where
  "save_container_metric m h = h\<lparr>hm_metrics := hm_metrics h @ [m]\<rparr>"

definition get_container_metrics :: "nat \<Rightarrow> 'w home \<Rightarrow> container_metric list" where
  "get_container_metrics limit h = take limit (rev (hm_metrics h))"

text \<open>The newest row of each name, ordered by name.\<close>

definition get_current_container_metrics :: "'w home \<Rightarrow> container_metric list" where
  "get_current_container_metrics h =
     List.map (\<lambda>n. the (find_last (\<lambda>m. cm_name m = n) (hm_metrics h))) (sort (remdups (List.map cm_name (hm_metrics h))))"

section \<open>Memory\<close>

definition remember :: "memory_record \<Rightarrow> 'w home \<Rightarrow> 'w home" where
  "remember r h = h\<lparr>hm_memory := hm_memory h @ [r]\<rparr>"

definition get_history :: "string \<Rightarrow> 'w home \<Rightarrow> memory_record list" where
  "get_history component h = filter (\<lambda>r. mr_component r = component) (hm_memory h)"

definition get_recent_events :: "string \<Rightarrow> string option \<Rightarrow> nat \<Rightarrow> 'w home \<Rightarrow> memory_record list" where
  "get_recent_events component event limit h =
     (let history = get_history component h;
          kept = (case or_str event None of None \<Rightarrow> history | Some e \<Rightarrow> filter (\<lambda>r. mr_event r = e) history)
      in take limit (sort_key (\<lambda>r. - mr_at r) kept))"

definition get_health_history :: "string \<Rightarrow> 'w home \<Rightarrow> memory_record list" where
  "get_health_history component h = get_recent_events component (Some ''health_evaluation'') 10 h"

definition get_previous_failures :: "string \<Rightarrow> 'w home \<Rightarrow> memory_record list" where
  "get_previous_failures component h =
     filter (\<lambda>r. map_of (mr_data r) ''status'' \<in> {Some (PStr ''warning''), Some (PStr ''critical'')}) (get_health_history component h)"

section \<open>Remediation\<close>

record remediation_rule =
  rem_type :: action_type
  rem_on :: "health_status list"
  rem_expected :: string
  rem_requires_approval :: bool

definition remediation_policy :: "(string \<times> remediation_rule) list" where
  "remediation_policy =
     [(''uptime-kuma'', \<lparr>rem_type = Restart, rem_on = [Critical], rem_expected = ''running'', rem_requires_approval = True\<rparr>),
      (''portainer'', \<lparr>rem_type = Restart, rem_on = [Critical], rem_expected = ''running'', rem_requires_approval = True\<rparr>)]"

definition resolve_adapter_name :: "'w home \<Rightarrow> string" where
  "resolve_adapter_name h = (if g_adapters (hm_gov h) (hm_engine h) \<noteq> None then hm_engine h else ''simulation'')"

definition remediation_reason :: "evaluation \<Rightarrow> advice option \<Rightarrow> string" where
  "remediation_reason ev dec = (case dec of None \<Rightarrow> ev_message ev | Some d \<Rightarrow> if dc_reason d = [] then ev_message ev else dc_reason d)"

text \<open>Two ids are drawn: for the decision, of which eight characters are kept, and for the action.\<close>

definition build_remediation_action :: "evaluation \<Rightarrow> advice option \<Rightarrow> 'w gov \<Rightarrow> action option \<times> 'w gov" where
  "build_remediation_action ev dec st =
     (case map_of remediation_policy (ev_component ev) of
        None \<Rightarrow> (None, st)
      | Some p \<Rightarrow>
         if ev_status ev \<notin> set (rem_on p) then (None, st)
         else (let (u, st1) = fresh_id st; (i, st2) = fresh_id st1 in
           (Some \<lparr>act_id = i, act_created_at = g_now st, act_decision_id = ''homelab-'' @ ev_component ev @ ''-'' @ take 8 u,
                  act_domain = default_domain, act_component = ev_component ev, act_type = rem_type p, act_status = APending,
                  act_reason = remediation_reason ev dec, act_confidence = ev_confidence ev,
                  act_requires_approval = rem_requires_approval p, act_rollback_required = True, act_parameters = [],
                  act_expected = Some \<lparr>exp_target = ev_component ev, exp_operation = type_value (rem_type p), exp_state = rem_expected p\<rparr>\<rparr>,
            st2)))"

definition no_remediation :: outcome_view where
  "no_remediation = plain_view ''no_remediation'' None None"

definition exception_text :: string where
  "exception_text = ''exception''"

definition adapter_or_default :: "string option \<Rightarrow> 'w home \<Rightarrow> string" where
  "adapter_or_default adapter h = (case or_str adapter None of Some x \<Rightarrow> x | None \<Rightarrow> resolve_adapter_name h)"

definition governed :: "action \<Rightarrow> string \<Rightarrow> 'w home \<Rightarrow> (string + outcome_view) \<times> 'w home" where
  "governed a adapter h =
     (let (out, g) = execute_governed_action a adapter (hm_gov h) in
      (case outcome_dict a adapter out of None \<Rightarrow> Inl exception_text | Some ov \<Rightarrow> Inr ov, with_gov g h))"

definition remediate :: "evaluation \<Rightarrow> advice option \<Rightarrow> string option \<Rightarrow> 'w home \<Rightarrow> (string + outcome_view) \<times> 'w home" where
  "remediate ev dec adapter h =
     (case build_remediation_action ev dec (hm_gov h) of
        (None, g) \<Rightarrow> (Inr no_remediation, h)
      | (Some a, g) \<Rightarrow> (let h1 = with_gov g h in governed a (adapter_or_default adapter h1) h1))"

definition opt_text :: "string option \<Rightarrow> pyval" where
  "opt_text x = (case x of None \<Rightarrow> PNone | Some s \<Rightarrow> PStr s)"

definition record_learning :: "string \<Rightarrow> outcome_view \<Rightarrow> int option \<Rightarrow> pyval option \<Rightarrow> 'w home \<Rightarrow> 'w home" where
  "record_learning component ov confidence rationale h =
     remember \<lparr>mr_component = component, mr_event = ''remediation'', mr_at = g_now (hm_gov h),
       mr_data = [(''status'', PStr (ov_status ov)), (''execution_id'', opt_text (ov_execution_id ov)),
         (''approval_id'', opt_text (ov_approval_id ov)), (''docker_verification_status'', opt_text (ov_docker_status ov)),
         (''docker_verification_reason'', opt_text (ov_docker_reason ov)),
         (''confidence'', case confidence of None \<Rightarrow> PNone | Some c \<Rightarrow> PInt c)] @
         (case rationale of None \<Rightarrow> [] | Some r \<Rightarrow> [(''rationale'', r)])\<rparr> h"

definition ran :: "outcome_view \<Rightarrow> action \<Rightarrow> bool" where
  "ran ov a \<longleftrightarrow> ov_status ov = ''executed'' \<and> truthy_str (ov_execution_id ov) \<and> act_expected a \<noteq> None"

text \<open>Verification of a run above the core, and its result in the dict.\<close>

definition verify_run ::
  "probes \<Rightarrow> outcome_view \<Rightarrow> string \<Rightarrow> action \<Rightarrow> 'w home \<Rightarrow> (outcome_view \<times> 'w home) option" where
  "verify_run P ov adapter a h =
     (case verify_executed_action P (the (ov_execution_id ov)) adapter (type_value (act_type a)) (act_component a)
             (act_expected a) (Some (act_id a)) (hm_ops h) of
        None \<Rightarrow> None
      | Some (v, o') \<Rightarrow> Some (ov\<lparr>ov_docker_status := Some (ver_status v), ov_docker_reason := Some (ver_reason v)\<rparr>, h\<lparr>hm_ops := o'\<rparr>))"

definition remediate_and_verify ::
  "probes \<Rightarrow> evaluation \<Rightarrow> advice option \<Rightarrow> string option \<Rightarrow> 'w home \<Rightarrow> ((string + outcome_view) \<times> 'w home) option" where
  "remediate_and_verify P ev dec adapter h =
     (case build_remediation_action ev dec (hm_gov h) of
        (None, g) \<Rightarrow> Some (Inr no_remediation, h)
      | (Some a, g) \<Rightarrow>
         (let h1 = with_gov g h in
          case governed a (adapter_or_default adapter h1) h1 of
            (Inl e, h2) \<Rightarrow> Some (Inl e, h2)
          | (Inr ov, h2) \<Rightarrow>
             if ran ov a then
               (case verify_run P ov ''docker'' a h2 of
                  None \<Rightarrow> None
                | Some (ov', h3) \<Rightarrow> Some (Inr ov', record_learning (act_component a) ov' (Some (ev_confidence ev)) None h3))
             else Some (Inr ov, record_learning (act_component a) ov (Some (ev_confidence ev)) None h2)))"

definition no_observation :: outcome_view where
  "no_observation = plain_view ''no_observation'' None None"

text \<open>A metric without one of its signals makes the observation raise.\<close>

definition remediate_component ::
  "probes \<Rightarrow> string \<Rightarrow> string option \<Rightarrow> 'w home \<Rightarrow> ((string + outcome_view) \<times> 'w home) option" where
  "remediate_component P component adapter h =
     (case find (\<lambda>m. cm_name m = component) (get_current_container_metrics h) of
        None \<Rightarrow> Some (Inr no_observation, h)
      | Some m \<Rightarrow>
         (case normalize_observation (Measured m) of
            None \<Rightarrow> Some (Inl exception_text, h)
          | Some ob \<Rightarrow>
             (let cx = get_component_context (co_component ob);
                  ev = create_health_evaluation (g_now (hm_gov h)) (Observed ob) cx
              in remediate_and_verify P ev (Some (make_decision ev None)) adapter h)))"

section \<open>Continuation\<close>

definition agent_originated :: "action \<Rightarrow> bool" where
  "agent_originated a \<longleftrightarrow> prefix ''agent-'' (act_decision_id a)"

definition continue_remediation ::
  "probes \<Rightarrow> ident \<Rightarrow> string \<Rightarrow> bool \<Rightarrow> 'w home \<Rightarrow> ((string + outcome_view) \<times> 'w home) option" where
  "continue_remediation P k who ok h =
     (let hold = get_hold k (hm_gov h); (out, g) = approve_held_action k who ok (hm_gov h); h1 = with_gov g h in
      case approval_dict k out of
        None \<Rightarrow> Some (Inl exception_text, h1)
      | Some ov \<Rightarrow>
         (case hold of
            None \<Rightarrow> Some (Inr ov, h1)
          | Some x \<Rightarrow>
             (let a = hold_action x in
              if get_component_context (act_component a) = None \<and> \<not> agent_originated a then Some (Inr ov, h1)
              else if ran ov a then
                (case verify_run P ov (hold_adapter x) a h1 of
                   None \<Rightarrow> None
                 | Some (ov', h2) \<Rightarrow> Some (Inr ov', record_learning (act_component a) ov' (Some (act_confidence a)) None h2))
              else Some (Inr ov, h1))))"

section \<open>What a remediation may do\<close>

lemma build_action_facts:
  assumes "build_remediation_action ev dec st = (Some a, g)"
  shows "act_requires_approval a" "act_component a = ev_component ev" "ev_component ev \<in> {''uptime-kuma'', ''portainer''}"
    "ev_status ev = Critical" "act_type a = Restart" "act_domain a = default_domain" "act_parameters a = []"
    "act_confidence a = ev_confidence ev" "g = st\<lparr>g_next := Suc (Suc (g_next st))\<rparr>"
  using assms
  by (auto simp: build_remediation_action_def remediation_policy_def fresh_id_def Let_def split: if_splits option.splits)

lemma build_action_exists:
  assumes "ev_component ev \<in> {''uptime-kuma'', ''portainer''}" and "ev_status ev = Critical"
  shows "\<exists>a g. build_remediation_action ev dec st = (Some a, g)"
  using assms by (auto simp: build_remediation_action_def remediation_policy_def fresh_id_def Let_def)

text \<open>The stores and the world that only an execution changes.\<close>

definition untouched :: "'w home \<Rightarrow> 'w home \<Rightarrow> bool" where
  "untouched h h' \<longleftrightarrow> g_world (hm_gov h') = g_world (hm_gov h) \<and> g_auths (hm_gov h') = g_auths (hm_gov h) \<and>
     g_audits (hm_gov h') = g_audits (hm_gov h)"

lemma untouched_refl [simp, intro]: "untouched h h"
  by (simp add: untouched_def)

lemma untouched_trans [trans]: "untouched a b \<Longrightarrow> untouched b c \<Longrightarrow> untouched a c"
  by (simp add: untouched_def)

lemma untouched_remember [simp]: "untouched h (remember r h') = untouched h h'"
  by (simp add: untouched_def remember_def)

lemma untouched_learning [simp]: "untouched h (record_learning c ov k r h') = untouched h h'"
  by (simp add: record_learning_def)

lemma approval_required_governed:
  assumes "act_requires_approval a" and "execute_governed_action a adapter st = (out, st')"
  shows "g_world st' = g_world st \<and> g_auths st' = g_auths st \<and> g_audits st' = g_audits st \<and> (\<forall>res v. out \<noteq> Executed res v)"
proof (cases "resolve_assessment st a adapter")
  case (Inl e)
  then show ?thesis using assms(2) by (cases e) (auto simp: execute_governed_action_def)
next
  case (Inr x)
  obtain asmt st1 where x: "resolve_assessment st a adapter = Inr (asmt, st1)" using Inr by (cases x) simp
  have "\<not> auto_eligible a asmt" using assms(1) by (simp add: auto_eligible_def)
  from execute_not_auto[OF x this assms(2)] show ?thesis by blast
qed

lemma outcome_not_executed: "(\<And>res v. out \<noteq> Executed res v) \<Longrightarrow> outcome_dict a adapter out = Some ov \<Longrightarrow> ov_status ov \<noteq> ''executed''"
  by (cases out) (auto simp: outcome_dict_def plain_view_def)

lemma governed_untouched:
  assumes "act_requires_approval a" and "governed a adapter h = (r, h')"
  shows "untouched h h' \<and> (case r of Inl e \<Rightarrow> True | Inr ov \<Rightarrow> ov_status ov \<noteq> ''executed'')"
proof -
  obtain out g where g: "execute_governed_action a adapter (hm_gov h) = (out, g)" by fastforce
  note un = approval_required_governed[OF assms(1) g]
  have "h' = with_gov g h" and r: "r = (case outcome_dict a adapter out of None \<Rightarrow> Inl exception_text | Some ov \<Rightarrow> Inr ov)"
    using assms(2) g by (simp_all add: governed_def)
  then show ?thesis using un outcome_not_executed[of out a adapter]
    by (auto simp: untouched_def split: option.splits)
qed

lemma remediate_and_verify_untouched:
  "\<exists>r h'. remediate_and_verify P ev dec adapter h = Some (r, h') \<and> untouched h h' \<and>
     (case r of Inl e \<Rightarrow> True | Inr ov \<Rightarrow> ov_status ov \<noteq> ''executed'')"
proof (cases "build_remediation_action ev dec (hm_gov h)")
  case (Pair b g)
  show ?thesis
  proof (cases b)
    case None
    then show ?thesis using Pair by (simp add: remediate_and_verify_def no_remediation_def plain_view_def)
  next
    case (Some a)
    note facts = build_action_facts[OF Pair[unfolded Some]]
    let ?h1 = "with_gov g h"
    obtain r h2 where r: "governed a (adapter_or_default adapter ?h1) ?h1 = (r, h2)" by fastforce
    have "untouched h ?h1" by (simp add: untouched_def facts(9))
    with governed_untouched[OF facts(1) r] have un: "untouched h h2" "case r of Inl e \<Rightarrow> True | Inr ov \<Rightarrow> ov_status ov \<noteq> ''executed''"
      by (auto intro: untouched_trans)
    then show ?thesis using Pair Some r
      by (cases r) (simp_all add: remediate_and_verify_def Let_def ran_def)
  qed
qed

lemma remediate_component_untouched:
  "\<exists>r h'. remediate_component P c adapter h = Some (r, h') \<and> untouched h h' \<and>
     (case r of Inl e \<Rightarrow> True | Inr ov \<Rightarrow> ov_status ov \<noteq> ''executed'')"
  using remediate_and_verify_untouched
  by (auto simp: remediate_component_def Let_def no_observation_def plain_view_def split: option.split)

section \<open>A failed component is held for a human\<close>

lemma payload_binds:
  assumes "act_domain a \<noteq> []" and "adapter \<noteq> []" and "act_parameters a = []"
  shows "\<exists>d p. bind_action sha a adapter = Inr (d, p) \<and> map_of p ''canonicalization_version'' = Some (PStr canonicalization_version)"
  using assms by (simp add: binding_defs outcome_json_def tag_key_def split: option.split)

lemma resolve_default:
  fixes st :: "'a gov"
  assumes "g_registry st default_domain = Some default_registration" and "act_domain a = default_domain"
    and "adapter \<in> {''simulation'', ''docker'', ''git'', ''module_change''}" and "act_parameters a = []" and "act_type a = Restart"
    and "70 \<le> act_confidence a"
  shows "\<exists>asmt st1. resolve_assessment st a adapter = Inr (asmt, st1) \<and> pol_allowed (asm_policy asmt) \<and>
     rk_level (asm_risk asmt) = ''medium''"
proof -
  obtain d p where b: "bind_action (g_sha st) a adapter = Inr (d, p)"
    using payload_binds[of a adapter "g_sha st"] assms(2-4) by (auto simp: default_domain_def)
  define pol where "pol = evaluate_action_policy a None"
  have pol: "pol_allowed pol" "pol_refs pol = []" using assms(5,6)
    by (simp_all add: pol_def evaluate_action_policy_def allowed_action_types_def)
  have run: "run_evaluators st default_registration a adapter = Inr (d, Answer (py_policy pol), Answer (py_risk (simulate_action a)))"
    using b by (simp add: run_evaluators_def default_registration_def default_policy_evaluator_def default_risk_evaluator_def raised_def pol_def)
  have cp: "check_policy (Answer (py_policy pol)) = Inr pol"
    using pol(2) by (simp add: check_policy_def py_policy_def text_refs_def)
  have sim: "simulate_action a = simulated a ''Restart container'' ''medium'' True" using assms(5) by (simp add: simulate_action_def Let_def)
  have cr: "check_risk a (Answer (py_risk (simulate_action a))) = Inr (simulate_action a)"
    by (simp add: sim check_risk_def py_risk_def simulated_def risk_levels_def text_refs_def)
  have reg: "type_value (act_type a) \<in> set (rg_operations (default_registration :: 'a registration))"
    "adapter \<in> set (rg_adapters (default_registration :: 'a registration))"
    using assms(3,5) by (auto simp: default_registration_def)
  have med: "rk_level (simulate_action a) = ''medium''" by (simp add: sim simulated_def)
  show ?thesis
    by (simp add: resolve_assessment_def assms(1,2) reg run cp cr pol(1) med Let_def fresh_id_def)
qed

lemma manual_outcome:
  assumes x: "resolve_assessment st a adapter = Inr (asmt, st1)" and "pol_allowed (asm_policy asmt)"
    and "rk_level (asm_risk asmt) = ''medium''" and "act_requires_approval a"
  shows "\<exists>why k st'. execute_governed_action a adapter st = (ManualRequired why k, st') \<and>
     (\<exists>x\<in>set (mem (g_holds st')). hold_id x = k \<and> hold_status x = Pending \<and> hold_action x = a \<and> hold_adapter x = adapter \<and>
        hold_expires_at x = Some (g_now st + approval_ttl))"
proof -
  have "ad_mode (evaluate_approval k a (asm_policy asmt) (asm_risk asmt)) = Manual" for k
    using assms(2-4) by (auto simp: approval_defs)
  then show ?thesis using assms(2) resolve_state[OF x]
    by (simp add: execute_governed_action_def x process_approval_def fresh_id_def hold_for_manual_approval_def Let_def
        record_approval_decision_def)
qed

end
