(* ===== verification/Homelab_Loop.thy ===== *)
theory Homelab_Loop
  imports Homelab_Remediation
begin

text \<open>
  The supervised loop over the remediation policy (\<open>homelab/operational_loop.py\<close>): per-component
  state with cooldown, flap window and quarantine, one cycle, the operator's commands and the
  status view. The configuration (\<open>loop_config.py\<close>) is read as a record, durations in seconds.
  One clock reading per cycle. Log lines are left out; the asyncio task is a flag.
  A cycle is \<open>None\<close> when a settling observation does not return.
\<close>

section \<open>State\<close>

record component_state =
  cl_component :: string
  cl_outcome :: "string option"
  cl_detail :: "string option"
  cl_last_attempt :: "instant option"
  cl_cooldown :: "instant option"
  cl_attempts :: "instant list"
  cl_failures :: nat
  cl_streak :: nat
  cl_quarantined :: bool
  cl_quarantined_at :: "instant option"
  cl_reason :: "string option"

record loop_config =
  lc_interval :: int
  lc_window :: int
  lc_max :: int
  lc_cooldown :: int
  lc_recovery :: int
  lc_history :: nat

record cycle_result =
  cy_component :: string
  cy_outcome :: string
  cy_detail :: string
  cy_quarantined :: "bool option"

record cycle_record =
  cyc_number :: nat
  cyc_at :: instant
  cyc_results :: "cycle_result list"

record 'w hloop =
  lp_home :: "'w home"
  lp_components :: "component_state list"
  lp_history :: "cycle_record list"
  lp_cycles :: nat
  lp_last_at :: "instant option"
  lp_error :: "string option"
  lp_enabled :: bool
  lp_busy :: bool
  lp_task :: bool

definition new_component :: "string \<Rightarrow> component_state" where
  "new_component c = \<lparr>cl_component = c, cl_outcome = None, cl_detail = None, cl_last_attempt = None, cl_cooldown = None,
     cl_attempts = [], cl_failures = 0, cl_streak = 0, cl_quarantined = False, cl_quarantined_at = None, cl_reason = None\<rparr>"

definition component_get :: "string \<Rightarrow> component_state list \<Rightarrow> component_state option" where
  "component_get = table_get cl_component"

definition component_put :: "component_state \<Rightarrow> component_state list \<Rightarrow> component_state list" where
  "component_put = table_put cl_component"

interpretation components: keyed_table cl_component component_get component_put
  unfolding component_get_def component_put_def by (rule keyed_table_list)

definition loop_now :: "'w hloop \<Rightarrow> instant" where
  "loop_now lp = g_now (hm_gov (lp_home lp))"

text \<open>\<open>_get_state\<close>; a state that is new is stored as soon as it is asked for.\<close>

definition get_state :: "string \<Rightarrow> 'w hloop \<Rightarrow> component_state" where
  "get_state c lp = (case component_get c (lp_components lp) of Some s \<Rightarrow> s | None \<Rightarrow> new_component c)"

definition put_state :: "component_state \<Rightarrow> 'w hloop \<Rightarrow> 'w hloop" where
  "put_state s lp = lp\<lparr>lp_components := component_put s (lp_components lp)\<rparr>"

section \<open>Classification of governed outcomes\<close>

definition counts_toward_flap :: "string list" where
  "counts_toward_flap = [''manual_approval_required'', ''policy_denied'', ''rejected'', ''authorization_not_created'', ''error'']"

definition sets_cooldown :: "string list" where
  "sets_cooldown = counts_toward_flap @ [''executed'']"

section \<open>Pending holds\<close>

definition hold_is_still_actionable :: "approval_hold \<Rightarrow> 'w gov \<Rightarrow> bool" where
  "hold_is_still_actionable x st \<longleftrightarrow>
     hold_status x = Pending \<and>
     (case hold_expires_at x of None \<Rightarrow> True | Some t \<Rightarrow> g_now st < t) \<and>
     (case get_record (hold_id x) st of None \<Rightarrow> True | Some r \<Rightarrow> ar_decision r \<notin> {''approved'', ''rejected''})"

definition pending_hold_for :: "string \<Rightarrow> 'w gov \<Rightarrow> approval_hold option" where
  "pending_hold_for c st = find (\<lambda>x. act_component (hold_action x) = c \<and> hold_is_still_actionable x st) (mem (g_holds st))"

section \<open>State transitions\<close>

definition prune_window :: "int \<Rightarrow> instant \<Rightarrow> component_state \<Rightarrow> component_state" where
  "prune_window window now s = s\<lparr>cl_attempts := filter (\<lambda>t. now - t \<le> seconds window) (cl_attempts s)\<rparr>"

definition register_failure :: "loop_config \<Rightarrow> string \<Rightarrow> string \<Rightarrow> instant \<Rightarrow> component_state \<Rightarrow> component_state" where
  "register_failure cfg status detail now s =
     (let s1 = s\<lparr>cl_outcome := Some status, cl_detail := Some detail, cl_last_attempt := Some now, cl_failures := Suc (cl_failures s)\<rparr>;
          s2 = (if status \<in> set counts_toward_flap then s1\<lparr>cl_attempts := cl_attempts s1 @ [now]\<rparr> else s1)
      in if status \<in> set sets_cooldown then s2\<lparr>cl_cooldown := Some (now + seconds (lc_cooldown cfg))\<rparr> else s2)"

definition record_transition :: "string \<Rightarrow> string \<Rightarrow> params \<Rightarrow> 'w hloop \<Rightarrow> 'w hloop" where
  "record_transition c event data lp =
     lp\<lparr>lp_home := remember \<lparr>mr_component = c, mr_event = event, mr_at = loop_now lp, mr_data = data\<rparr> (lp_home lp)\<rparr>"

definition on_ops :: "('w ops \<Rightarrow> 'w ops) \<Rightarrow> 'w hloop \<Rightarrow> 'w hloop" where
  "on_ops f lp = lp\<lparr>lp_home := (lp_home lp)\<lparr>hm_ops := f (hm_ops (lp_home lp))\<rparr>\<rparr>"

definition quarantine_text :: "loop_config \<Rightarrow> component_state \<Rightarrow> string" where
  "quarantine_text cfg s = show_nat (length (cl_attempts s)) @ '' held/failed remediation attempts within '' @
     show_int (lc_window cfg) @ ''s (last: '' @ id_text (cl_outcome s) @ '')''"

definition maybe_quarantine :: "loop_config \<Rightarrow> instant \<Rightarrow> component_state \<Rightarrow> 'w hloop \<Rightarrow> 'w hloop" where
  "maybe_quarantine cfg now s lp =
     (if cl_quarantined s then put_state s lp
      else (let s1 = prune_window (lc_window cfg) now s in
        if lc_max cfg \<le> int (length (cl_attempts s1)) then
          (let why = quarantine_text cfg s1;
               s2 = s1\<lparr>cl_quarantined := True, cl_quarantined_at := Some now, cl_reason := Some why, cl_streak := 0\<rparr>
           in on_ops (notify_ops ''loop_quarantine'' why (cl_component s) ''cap04_loop'')
                (record_transition (cl_component s) ''homelab_loop_quarantine''
                  [(''reason'', PStr why), (''last_outcome'', opt_text (cl_outcome s2)),
                   (''attempts_in_window'', PInt (int (length (cl_attempts s2))))] (put_state s2 lp)))
        else put_state s1 lp))"

definition do_clear_quarantine :: "string \<Rightarrow> string \<Rightarrow> component_state \<Rightarrow> 'w hloop \<Rightarrow> 'w hloop" where
  "do_clear_quarantine event trigger s lp =
     record_transition (cl_component s) event [(''trigger'', PStr trigger), (''prior_reason'', opt_text (cl_reason s))]
       (put_state (s\<lparr>cl_quarantined := False, cl_quarantined_at := None, cl_reason := None, cl_attempts := [], cl_failures := 0,
          cl_cooldown := None\<rparr>) lp)"

definition check_recovery :: "loop_config \<Rightarrow> docker_answer \<Rightarrow> component_state \<Rightarrow> 'w hloop \<Rightarrow> cycle_result \<times> 'w hloop" where
  "check_recovery cfg docker s lp =
     (let seen = map_option obs_state (observe_container_state docker (cl_component s));
          healthy = (seen = Some ''running'');
          s1 = s\<lparr>cl_streak := if healthy then Suc (cl_streak s) else 0\<rparr>;
          cleared = (healthy \<and> lc_recovery cfg \<le> int (cl_streak s1));
          lp1 = (if cleared then do_clear_quarantine ''homelab_loop_recovery'' (id_text seen) s1 lp else put_state s1 lp)
      in (\<lparr>cy_component = cl_component s, cy_outcome = ''quarantined'',
           cy_detail = ''observed='' @ id_text seen @ '' healthy_streak='' @ show_nat (cl_streak s1) @ (if cleared then '' -> cleared'' else []),
           cy_quarantined = Some (\<not> cleared)\<rparr>, lp1))"

definition clear_quarantine :: "string \<Rightarrow> 'w hloop \<Rightarrow> string \<times> 'w hloop" where
  "clear_quarantine c lp =
     (case component_get c (lp_components lp) of
        None \<Rightarrow> (''not_quarantined'', lp)
      | Some s \<Rightarrow> if \<not> cl_quarantined s then (''not_quarantined'', lp)
          else (''quarantine_cleared'', do_clear_quarantine ''homelab_loop_quarantine_cleared'' ''manual'' s lp))"

section \<open>One component in one cycle\<close>

definition outcome_detail :: "outcome_view \<Rightarrow> string" where
  "outcome_detail ov = the (or_str (or_str (ov_reason ov) (ov_approval_id ov)) (Some (ov_status ov)))"

text \<open>What an outcome does to the component's state, before the quarantine check.\<close>

definition after_outcome :: "loop_config \<Rightarrow> outcome_view \<Rightarrow> instant \<Rightarrow> component_state \<Rightarrow> component_state" where
  "after_outcome cfg ov now s =
     (let status = ov_status ov;
          s1 = s\<lparr>cl_outcome := Some status, cl_detail := Some (outcome_detail ov), cl_last_attempt := Some now\<rparr>
      in if status = ''no_remediation'' then s1\<lparr>cl_attempts := [], cl_failures := 0, cl_streak := Suc (cl_streak s1)\<rparr>
         else if status = ''executed'' then
           s1\<lparr>cl_attempts := [], cl_failures := 0, cl_streak := 0, cl_cooldown := Some (now + seconds (lc_cooldown cfg))\<rparr>
         else if status = ''no_observation'' then s1
         else register_failure cfg status (outcome_detail ov) now s1)"

definition process_component ::
  "loop_config \<Rightarrow> probes \<Rightarrow> docker_answer \<Rightarrow> string \<Rightarrow> 'w hloop \<Rightarrow> ((string + cycle_result) \<times> 'w hloop) option" where
  "process_component cfg P docker c lp =
     (let now = loop_now lp; s = get_state c lp; lp0 = put_state s lp in
      if cl_quarantined s then (let (r, lp1) = check_recovery cfg docker s lp0 in Some (Inr r, lp1))
      else (case pending_hold_for c (hm_gov (lp_home lp)) of
        Some x \<Rightarrow>
          (let detail = ''pending hold '' @ hold_id x in
           Some (Inr \<lparr>cy_component = c, cy_outcome = ''awaiting_approval'', cy_detail = detail, cy_quarantined = Some False\<rparr>,
                 put_state (s\<lparr>cl_outcome := Some ''awaiting_approval'', cl_detail := Some detail\<rparr>) lp0))
      | None \<Rightarrow>
          if (case cl_cooldown s of None \<Rightarrow> False | Some t \<Rightarrow> now < t) then
            Some (Inr \<lparr>cy_component = c, cy_outcome = ''skipped_cooldown'',
                       cy_detail = ''cooldown until '' @ show_int (the (cl_cooldown s)), cy_quarantined = None\<rparr>, lp0)
          else
            (case remediate_component P c None (lp_home lp0) of
               None \<Rightarrow> None
             | Some (Inl e, h) \<Rightarrow> Some (Inl e, lp0\<lparr>lp_home := h\<rparr>)
             | Some (Inr ov, h) \<Rightarrow>
                (let lp1 = lp0\<lparr>lp_home := h\<rparr>;
                     lp2 = (if ov_status ov = ''manual_approval_required''
                            then on_ops (notify_held ''remediation'' c (ov_approval_id ov) (outcome_detail ov) ''operational_loop'') lp1
                            else lp1);
                     lp3 = maybe_quarantine cfg now (after_outcome cfg ov now s) lp2
                 in Some (Inr \<lparr>cy_component = c, cy_outcome = ov_status ov, cy_detail = outcome_detail ov,
                               cy_quarantined = Some (cl_quarantined (get_state c lp3))\<rparr>, lp3)))))"

text \<open>A fault of one component is contained and counted.\<close>

definition contained_component ::
  "loop_config \<Rightarrow> probes \<Rightarrow> docker_answer \<Rightarrow> string \<Rightarrow> 'w hloop \<Rightarrow> (cycle_result \<times> 'w hloop) option" where
  "contained_component cfg P docker c lp =
     (case process_component cfg P docker c lp of
        None \<Rightarrow> None
      | Some (Inr r, lp1) \<Rightarrow> Some (r, lp1)
      | Some (Inl e, lp1) \<Rightarrow>
          (let now = loop_now lp in
           Some (\<lparr>cy_component = c, cy_outcome = ''error'', cy_detail = e, cy_quarantined = None\<rparr>,
                 maybe_quarantine cfg now (register_failure cfg ''error'' e now (get_state c lp1)) lp1)))"

fun run_components ::
  "loop_config \<Rightarrow> probes \<Rightarrow> (string \<Rightarrow> docker_answer) \<Rightarrow> string list \<Rightarrow> 'w hloop \<Rightarrow> (cycle_result list \<times> 'w hloop) option" where
  "run_components cfg P docker [] lp = Some ([], lp)"
| "run_components cfg P docker (c # cs) lp =
     (case contained_component cfg P (docker c) c lp of
        None \<Rightarrow> None
      | Some (r, lp1) \<Rightarrow> map_option (\<lambda>(rs, lp2). (r # rs, lp2)) (run_components cfg P docker cs lp1))"

section \<open>One cycle, and the operator's commands\<close>

definition append_bounded :: "nat \<Rightarrow> 'a \<Rightarrow> 'a list \<Rightarrow> 'a list" where
  "append_bounded n x xs = (let ys = xs @ [x] in drop (length ys - n) ys)"

definition run_cycle_once ::
  "loop_config \<Rightarrow> probes \<Rightarrow> (string \<Rightarrow> docker_answer) \<Rightarrow> 'w hloop \<Rightarrow> (cycle_record option \<times> 'w hloop) option" where
  "run_cycle_once cfg P docker lp =
     (if lp_busy lp then Some (None, lp)
      else
       (let now = loop_now lp;
            lp1 = lp\<lparr>lp_busy := True, lp_cycles := Suc (lp_cycles lp), lp_last_at := Some now\<rparr>
        in case run_components cfg P docker (List.map fst remediation_policy) lp1 of
             None \<Rightarrow> None
           | Some (rs, lp2) \<Rightarrow>
              (let r = \<lparr>cyc_number = lp_cycles lp2, cyc_at = now, cyc_results = rs\<rparr>
               in Some (Some r, lp2\<lparr>lp_history := append_bounded (lc_history cfg) r (lp_history lp2), lp_busy := False\<rparr>))))"

definition reset_loop :: "'w hloop \<Rightarrow> 'w hloop" where
  "reset_loop lp = lp\<lparr>lp_components := [], lp_history := [], lp_cycles := 0, lp_last_at := None, lp_error := None,
     lp_enabled := False, lp_busy := False\<rparr>"

text \<open>A task is only created where an event loop runs.\<close>

definition start_loop :: "bool \<Rightarrow> 'w hloop \<Rightarrow> 'w hloop" where
  "start_loop running lp = lp\<lparr>lp_enabled := True, lp_task := lp_task lp \<or> running\<rparr>"

definition stop_loop :: "'w hloop \<Rightarrow> 'w hloop" where
  "stop_loop lp = lp\<lparr>lp_enabled := False, lp_task := False\<rparr>"

record loop_status =
  st_enabled :: bool
  st_running :: bool
  st_cycles :: nat
  st_last_at :: "instant option"
  st_error :: "string option"
  st_policy :: "string list"
  st_components :: "(string \<times> component_state) list"
  st_history :: "cycle_record list"

definition get_status :: "'w hloop \<Rightarrow> loop_status" where
  "get_status lp = \<lparr>st_enabled = lp_enabled lp, st_running = lp_task lp, st_cycles = lp_cycles lp, st_last_at = lp_last_at lp,
     st_error = lp_error lp, st_policy = List.map fst remediation_policy,
     st_components = List.map (\<lambda>s. (cl_component s, s)) (lp_components lp), st_history = lp_history lp\<rparr>"

end
