(* ===== verification/Homelab_Properties.thy ===== *)
theory Homelab_Properties
  imports Homelab_Loop
begin

text \<open>
  What the homelab layer guarantees: a failed component ends up held for a human, no cycle of the
  loop executes anything, the flap guard bounds and spaces the attempts of every component, and a
  quarantined component that is seen running is released.
\<close>

section \<open>Frames of the loop's steps\<close>

lemma get_put_state [simp]:
  "component_get c (lp_components (put_state s lp)) = (if c = cl_component s then Some s else component_get c (lp_components lp))"
  by (simp add: put_state_def components.get_put)

lemma put_state_frame [simp]:
  "lp_home (put_state s lp) = lp_home lp" "lp_busy (put_state s lp) = lp_busy lp" "lp_history (put_state s lp) = lp_history lp"
  by (simp_all add: put_state_def)

lemma loop_frame [simp]:
  "lp_components (record_transition c ev d lp) = lp_components lp" "lp_busy (record_transition c ev d lp) = lp_busy lp"
  "lp_history (record_transition c ev d lp) = lp_history lp" "hm_gov (lp_home (record_transition c ev d lp)) = hm_gov (lp_home lp)"
  "lp_components (on_ops f lp) = lp_components lp" "lp_busy (on_ops f lp) = lp_busy lp" "lp_history (on_ops f lp) = lp_history lp"
  "lp_components (lp\<lparr>lp_home := h\<rparr>) = lp_components lp"
  by (simp_all add: record_transition_def on_ops_def remember_def)

lemma on_ops_gov [simp]:
  "hm_gov (lp_home (on_ops (notify_ops k d key src) lp)) = hm_gov (lp_home lp)"
  "hm_gov (lp_home (on_ops (notify_held kind c ap d src) lp)) = hm_gov (lp_home lp)"
  by (simp_all add: on_ops_def notify_ops_def notify_held_def sending_def)

lemma get_state_component [simp]: "cl_component (get_state c lp) = c"
  by (auto simp: get_state_def new_component_def dest: components.get_key split: option.split)

lemma get_state_put [simp]: "get_state c (put_state s lp) = (if c = cl_component s then s else get_state c lp)"
  by (simp add: get_state_def)

lemma get_state_frame [simp]:
  "get_state c (record_transition d ev x lp) = get_state c lp" "get_state c (on_ops f lp) = get_state c lp"
  "get_state c (lp\<lparr>lp_home := h\<rparr>) = get_state c lp"
  by (simp_all add: get_state_def)

lemma register_component [simp]: "cl_component (register_failure cfg st d now s) = cl_component s"
  by (simp add: register_failure_def Let_def)

lemma after_component [simp]: "cl_component (after_outcome cfg ov now s) = cl_component s"
  by (simp add: after_outcome_def Let_def)

lemma prune_component [simp]: "cl_component (prune_window w now s) = cl_component s" "cl_quarantined (prune_window w now s) = cl_quarantined s"
  by (simp_all add: prune_window_def)

text \<open>One entry changes, and nothing the governed stores hold.\<close>

definition one_entry :: "string \<Rightarrow> (component_state \<Rightarrow> bool) \<Rightarrow> 'w hloop \<Rightarrow> 'w hloop \<Rightarrow> bool" where
  "one_entry c P lp lp' \<longleftrightarrow> (\<exists>s. cl_component s = c \<and> P s \<and>
     (\<forall>d. component_get d (lp_components lp') = (if d = c then Some s else component_get d (lp_components lp)))) \<and>
     lp_busy lp' = lp_busy lp \<and> lp_history lp' = lp_history lp"

lemma one_entry_put [simp]: "one_entry (cl_component s) P lp (put_state s lp) = P s"
  by (auto simp: one_entry_def)

definition quarantine_state :: "loop_config \<Rightarrow> instant \<Rightarrow> component_state \<Rightarrow> component_state" where
  "quarantine_state cfg now s =
     (if cl_quarantined s then s
      else (let s1 = prune_window (lc_window cfg) now s in
        if lc_max cfg \<le> int (length (cl_attempts s1)) then
          s1\<lparr>cl_quarantined := True, cl_quarantined_at := Some now, cl_reason := Some (quarantine_text cfg s1), cl_streak := 0\<rparr>
        else s1))"

lemma quarantine_component [simp]: "cl_component (quarantine_state cfg now s) = cl_component s"
  by (simp add: quarantine_state_def Let_def)

lemma maybe_quarantine_facts:
  "component_get d (lp_components (maybe_quarantine cfg now s lp)) =
     (if d = cl_component s then Some (quarantine_state cfg now s) else component_get d (lp_components lp))"
  "lp_busy (maybe_quarantine cfg now s lp) = lp_busy lp" "lp_history (maybe_quarantine cfg now s lp) = lp_history lp"
  "hm_gov (lp_home (maybe_quarantine cfg now s lp)) = hm_gov (lp_home lp)"
  by (simp_all add: maybe_quarantine_def quarantine_state_def Let_def)

definition recovered_state :: "loop_config \<Rightarrow> bool \<Rightarrow> component_state \<Rightarrow> component_state" where
  "recovered_state cfg healthy s =
     (let s1 = s\<lparr>cl_streak := if healthy then Suc (cl_streak s) else 0\<rparr> in
      if healthy \<and> lc_recovery cfg \<le> int (cl_streak s1)
      then s1\<lparr>cl_quarantined := False, cl_quarantined_at := None, cl_reason := None, cl_attempts := [], cl_failures := 0, cl_cooldown := None\<rparr>
      else s1)"

definition seen_running :: "docker_answer \<Rightarrow> string \<Rightarrow> bool" where
  "seen_running docker c \<longleftrightarrow> map_option obs_state (observe_container_state docker c) = Some ''running''"

lemma check_recovery_facts:
  assumes "check_recovery cfg docker s lp = (r, lp')"
  shows "component_get d (lp_components lp') =
     (if d = cl_component s then Some (recovered_state cfg (seen_running docker (cl_component s)) s) else component_get d (lp_components lp))"
    "lp_busy lp' = lp_busy lp" "lp_history lp' = lp_history lp" "hm_gov (lp_home lp') = hm_gov (lp_home lp)"
    "cy_outcome r = ''quarantined''"
  using assms unfolding check_recovery_def Let_def seen_running_def [symmetric] recovered_state_def
  by (cases "seen_running docker (cl_component s)"; cases "lc_recovery cfg \<le> int (Suc (cl_streak s))";
      auto simp: do_clear_quarantine_def)+

section \<open>One component\<close>

definition cooling :: "component_state \<Rightarrow> instant \<Rightarrow> bool" where
  "cooling s now \<longleftrightarrow> (case cl_cooldown s of None \<Rightarrow> False | Some t \<Rightarrow> now < t)"

text \<open>The state a component is left in, by the branch that was taken.\<close>

definition next_state :: "loop_config \<Rightarrow> docker_answer \<Rightarrow> instant \<Rightarrow> component_state \<Rightarrow> component_state \<Rightarrow> bool" where
  "next_state cfg docker now s s' \<longleftrightarrow>
     (if cl_quarantined s then s' = recovered_state cfg (seen_running docker (cl_component s)) s
      else (\<exists>x. s' = s\<lparr>cl_outcome := Some ''awaiting_approval'', cl_detail := x\<rparr>)
        \<or> (cooling s now \<and> s' = s)
        \<or> (\<not> cooling s now \<and> (\<exists>ov. s' = quarantine_state cfg now (after_outcome cfg ov now s)))
        \<or> (\<not> cooling s now \<and> (\<exists>e. s' = quarantine_state cfg now (register_failure cfg ''error'' e now s))))"

lemma untouched_gov: "hm_gov h = hm_gov h1 \<Longrightarrow> hm_gov h' = hm_gov h2 \<Longrightarrow> untouched h h' = untouched h1 h2"
  by (simp add: untouched_def)

lemma contained_step:
  "\<exists>r lp'. contained_component cfg P docker c lp = Some (r, lp') \<and> cy_outcome r \<noteq> ''executed'' \<and>
     one_entry c (next_state cfg docker (loop_now lp) (get_state c lp)) lp lp' \<and> untouched (lp_home lp) (lp_home lp') \<and>
     (cl_quarantined (get_state c lp) \<longrightarrow> hm_gov (lp_home lp') = hm_gov (lp_home lp))"
proof -
  let ?s = "get_state c lp" and ?now = "loop_now lp"
  let ?lp0 = "put_state ?s lp"
  consider (quarantined) "cl_quarantined ?s"
    | (pending) x where "\<not> cl_quarantined ?s" "pending_hold_for c (hm_gov (lp_home lp)) = Some x"
    | (cooling) "\<not> cl_quarantined ?s" "pending_hold_for c (hm_gov (lp_home lp)) = None" "cooling ?s ?now"
    | (attempt) "\<not> cl_quarantined ?s" "pending_hold_for c (hm_gov (lp_home lp)) = None" "\<not> cooling ?s ?now"
    by blast
  then show ?thesis
  proof cases
    case quarantined
    obtain r lp' where r: "check_recovery cfg docker ?s ?lp0 = (r, lp')" by fastforce
    note f = check_recovery_facts[OF r]
    have "one_entry c (next_state cfg docker ?now ?s) lp lp'"
      unfolding one_entry_def next_state_def using quarantined f(1-3)
      by (intro conjI exI[of _ "recovered_state cfg (seen_running docker c) ?s"]) (simp_all add: recovered_state_def Let_def)
    moreover have "untouched (lp_home lp) (lp_home lp')" using f(4) by (simp add: untouched_def)
    ultimately show ?thesis using quarantined r f(4,5)
      by (simp add: contained_component_def process_component_def Let_def)
  next
    case (pending x)
    then show ?thesis
      by (simp add: contained_component_def process_component_def Let_def one_entry_def next_state_def) blast
  next
    case cooling
    then show ?thesis
      by (simp add: contained_component_def process_component_def Let_def one_entry_def next_state_def cooling_def)
  next
    case attempt
    obtain r h where r: "remediate_component P c None (lp_home lp) = Some (r, h)" and un: "untouched (lp_home lp) h"
      and ex: "case r of Inl e \<Rightarrow> True | Inr ov \<Rightarrow> ov_status ov \<noteq> ''executed''"
      using remediate_component_untouched[of P c None "lp_home lp"] by blast
    show ?thesis
    proof (cases r)
      case (Inl e)
      then show ?thesis using attempt r un
        by (auto simp: contained_component_def process_component_def Let_def one_entry_def next_state_def cooling_def
            maybe_quarantine_facts untouched_def intro!: exI)
    next
      case (Inr ov)
      then show ?thesis using attempt r un ex
        by (auto simp: contained_component_def process_component_def Let_def one_entry_def next_state_def cooling_def
            maybe_quarantine_facts untouched_def intro!: exI)
    qed
  qed
qed

section \<open>The flap guard\<close>

definition component_ok :: "loop_config \<Rightarrow> component_state \<Rightarrow> bool" where
  "component_ok cfg s \<longleftrightarrow>
     (cl_quarantined s \<longleftrightarrow> cl_reason s \<noteq> None) \<and> (cl_quarantined s \<longleftrightarrow> cl_quarantined_at s \<noteq> None) \<and>
     (cl_quarantined s \<or> int (length (cl_attempts s)) < lc_max cfg) \<and>
     sorted_wrt (\<lambda>x y. x + seconds (lc_cooldown cfg) \<le> y) (cl_attempts s) \<and>
     (cl_attempts s = [] \<or> (\<exists>k. cl_cooldown s = Some k \<and> (\<forall>t\<in>set (cl_attempts s). t + seconds (lc_cooldown cfg) \<le> k)))"

lemma component_ok_new: "0 < lc_max cfg \<Longrightarrow> component_ok cfg (new_component c)"
  by (simp add: component_ok_def new_component_def)

text \<open>Before the quarantine check the number of attempts is not yet bounded.\<close>

definition spaced :: "loop_config \<Rightarrow> component_state \<Rightarrow> bool" where
  "spaced cfg s \<longleftrightarrow> sorted_wrt (\<lambda>x y. x + seconds (lc_cooldown cfg) \<le> y) (cl_attempts s) \<and>
     (cl_attempts s = [] \<or> (\<exists>k. cl_cooldown s = Some k \<and> (\<forall>t\<in>set (cl_attempts s). t + seconds (lc_cooldown cfg) \<le> k)))"

lemma quarantine_ok:
  assumes "spaced cfg s" and "\<not> cl_quarantined s" and "cl_reason s = None" and "cl_quarantined_at s = None"
  shows "component_ok cfg (quarantine_state cfg now s)"
proof -
  have "sorted_wrt (\<lambda>x y. x + seconds (lc_cooldown cfg) \<le> y) (filter (\<lambda>t. now - t \<le> seconds (lc_window cfg)) (cl_attempts s))"
    using assms(1) by (auto simp: spaced_def intro: sorted_wrt_filter)
  then show ?thesis using assms by (auto simp: component_ok_def spaced_def quarantine_state_def prune_window_def Let_def)
qed

lemma failure_spaced:
  assumes "spaced cfg s" and "\<not> cooling s now" and "0 \<le> lc_cooldown cfg"
  shows "spaced cfg (register_failure cfg st d now s)"
proof -
  have before_now: "t + seconds (lc_cooldown cfg) \<le> now" if "t \<in> set (cl_attempts s)" for t
    using assms(1,2) that by (fastforce simp: spaced_def cooling_def)
  show ?thesis
  proof (cases "st \<in> set counts_toward_flap")
    case True
    then have "st \<in> set sets_cooldown" by (simp add: sets_cooldown_def)
    with True show ?thesis using assms(1,3) before_now
      by (force simp: spaced_def register_failure_def Let_def sorted_wrt_append)
  next
    case False
    then show ?thesis using assms(1,3) before_now
      by (fastforce simp: spaced_def register_failure_def Let_def)
  qed
qed

lemma failure_quarantine [simp]:
  "cl_quarantined (register_failure cfg st d now s) = cl_quarantined s" "cl_reason (register_failure cfg st d now s) = cl_reason s"
  "cl_quarantined_at (register_failure cfg st d now s) = cl_quarantined_at s"
  "cl_quarantined (after_outcome cfg ov now s) = cl_quarantined s" "cl_reason (after_outcome cfg ov now s) = cl_reason s"
  "cl_quarantined_at (after_outcome cfg ov now s) = cl_quarantined_at s"
  by (simp_all add: register_failure_def after_outcome_def Let_def)

lemma outcome_spaced:
  assumes "spaced cfg s" and "\<not> cooling s now" and "0 \<le> lc_cooldown cfg"
  shows "spaced cfg (after_outcome cfg ov now s)"
proof -
  let ?s1 = "s\<lparr>cl_outcome := Some (ov_status ov), cl_detail := Some (outcome_detail ov), cl_last_attempt := Some now\<rparr>"
  have "spaced cfg ?s1" "\<not> cooling ?s1 now" using assms(1,2) by (simp_all add: spaced_def cooling_def)
  then show ?thesis using failure_spaced[OF _ _ assms(3), of ?s1 now "ov_status ov" "outcome_detail ov"]
    by (auto simp: after_outcome_def Let_def spaced_def)
qed

lemma component_ok_spaced: "component_ok cfg s \<Longrightarrow> spaced cfg s"
  by (simp add: component_ok_def spaced_def)

lemma component_ok_free: "component_ok cfg s \<Longrightarrow> \<not> cl_quarantined s \<Longrightarrow> cl_reason s = None \<and> cl_quarantined_at s = None"
  by (simp add: component_ok_def)

lemma recovered_ok: "component_ok cfg s \<Longrightarrow> 0 < lc_max cfg \<Longrightarrow> cl_quarantined s \<Longrightarrow> component_ok cfg (recovered_state cfg b s)"
  by (auto simp: component_ok_def recovered_state_def Let_def)

lemma next_ok:
  assumes "component_ok cfg s" and "next_state cfg docker now s s'" and "0 < lc_max cfg" and "0 \<le> lc_cooldown cfg"
  shows "component_ok cfg s'"
proof (cases "cl_quarantined s")
  case True
  then show ?thesis using assms by (simp add: next_state_def recovered_ok)
next
  case False
  note free = component_ok_free[OF assms(1) False] and sp = component_ok_spaced[OF assms(1)]
  from assms(2) False consider x where "s' = s\<lparr>cl_outcome := Some ''awaiting_approval'', cl_detail := x\<rparr>"
    | "s' = s" | ov where "\<not> cooling s now" "s' = quarantine_state cfg now (after_outcome cfg ov now s)"
    | e where "\<not> cooling s now" "s' = quarantine_state cfg now (register_failure cfg ''error'' e now s)"
    by (auto simp: next_state_def)
  then show ?thesis
  proof cases
    case (1 x)
    then show ?thesis using assms(1) by (auto simp: component_ok_def)
  next
    case 2
    then show ?thesis using assms(1) by simp
  next
    case (3 ov)
    then show ?thesis using outcome_spaced[OF sp 3(1) assms(4)] free False by (simp add: quarantine_ok)
  next
    case (4 e)
    then show ?thesis using failure_spaced[OF sp 4(1) assms(4)] free False by (simp add: quarantine_ok)
  qed
qed

section \<open>One cycle\<close>

text \<open>What every contained step keeps, a whole run of them keeps.\<close>

locale contained_run =
  fixes step :: "'c \<Rightarrow> 's \<Rightarrow> ('r \<times> 's) option"
    and run :: "'c list \<Rightarrow> 's \<Rightarrow> ('r list \<times> 's) option"
    and keeps :: "'s \<Rightarrow> 's \<Rightarrow> bool"
    and good :: "'r \<Rightarrow> bool"
  assumes run_Nil: "run [] s = Some ([], s)"
    and run_Cons: "run (c # cs) s = (case step c s of None \<Rightarrow> None
      | Some (r, s1) \<Rightarrow> map_option (\<lambda>(rs, s2). (r # rs, s2)) (run cs s1))"
    and step_total: "\<exists>r s'. step c s = Some (r, s') \<and> good r \<and> keeps s s'"
    and keeps_refl: "keeps s s"
    and keeps_trans: "keeps s s' \<Longrightarrow> keeps s' s'' \<Longrightarrow> keeps s s''"
begin

lemma run_total: "\<exists>rs s'. run cs s = Some (rs, s') \<and> list_all good rs \<and> length rs = length cs \<and> keeps s s'"
proof (induction cs arbitrary: s)
  case Nil
  then show ?case by (simp add: run_Nil keeps_refl)
next
  case (Cons c cs)
  obtain r s1 where r: "step c s = Some (r, s1)" "good r" "keeps s s1" using step_total by blast
  obtain rs s2 where "run cs s1 = Some (rs, s2)" "list_all good rs" "length rs = length cs" "keeps s1 s2"
    using Cons.IH by blast
  then show ?case using r keeps_trans by (auto simp: run_Cons)
qed

end

definition entries_ok :: "loop_config \<Rightarrow> 'w hloop \<Rightarrow> bool" where
  "entries_ok cfg lp \<longleftrightarrow> (\<forall>c s. component_get c (lp_components lp) = Some s \<longrightarrow> component_ok cfg s)"

definition sane :: "loop_config \<Rightarrow> bool" where
  "sane cfg \<longleftrightarrow> 0 < lc_max cfg \<and> 0 \<le> lc_cooldown cfg"

definition loop_keeps :: "loop_config \<Rightarrow> 'w hloop \<Rightarrow> 'w hloop \<Rightarrow> bool" where
  "loop_keeps cfg lp lp' \<longleftrightarrow> untouched (lp_home lp) (lp_home lp') \<and> lp_busy lp' = lp_busy lp \<and> lp_history lp' = lp_history lp \<and>
     (sane cfg \<longrightarrow> entries_ok cfg lp \<longrightarrow> entries_ok cfg lp')"

lemma one_entry_keeps:
  assumes "one_entry c (next_state cfg docker now (get_state c lp)) lp lp'" and "untouched (lp_home lp) (lp_home lp')"
  shows "loop_keeps cfg lp lp'"
proof -
  obtain s where s: "next_state cfg docker now (get_state c lp) s" "lp_busy lp' = lp_busy lp" "lp_history lp' = lp_history lp"
    and get: "\<And>d. component_get d (lp_components lp') = (if d = c then Some s else component_get d (lp_components lp))"
    using assms(1) by (auto simp: one_entry_def)
  have "component_ok cfg s" if "sane cfg" "entries_ok cfg lp"
  proof -
    have "component_ok cfg (get_state c lp)"
      using that component_ok_new[of cfg c] by (auto simp: entries_ok_def sane_def get_state_def split: option.split)
    then show ?thesis using next_ok[OF _ s(1)] that(1) by (simp add: sane_def)
  qed
  then show ?thesis using s(2,3) assms(2) get by (auto simp: loop_keeps_def entries_ok_def)
qed

interpretation cycle: contained_run
  "\<lambda>c. contained_component cfg P (docker c) c" "run_components cfg P docker" "loop_keeps cfg" "\<lambda>r. cy_outcome r \<noteq> ''executed''"
  for cfg P docker
proof
  show "\<exists>r s'. contained_component cfg P (docker c) c lp = Some (r, s') \<and> cy_outcome r \<noteq> ''executed'' \<and> loop_keeps cfg lp s'" for c lp
    using contained_step[of cfg P "docker c" c lp] one_entry_keeps[of c cfg "docker c" "loop_now lp" lp] by blast
  show "loop_keeps cfg s s' \<Longrightarrow> loop_keeps cfg s' s'' \<Longrightarrow> loop_keeps cfg s s''" for s s' s''
    by (auto simp: loop_keeps_def intro: untouched_trans)
qed (auto simp: loop_keeps_def)

lemma append_bounded_length: "length (append_bounded n x xs) \<le> n"
  by (simp add: append_bounded_def Let_def)

lemma cycle_total:
  "\<exists>r lp'. run_cycle_once cfg P docker lp = Some (r, lp') \<and> untouched (lp_home lp) (lp_home lp') \<and> lp_busy lp' = lp_busy lp \<and>
     (r = None \<and> lp_busy lp \<and> lp' = lp \<or>
      (\<exists>x. r = Some x \<and> list_all (\<lambda>y. cy_outcome y \<noteq> ''executed'') (cyc_results x) \<and>
         length (cyc_results x) = length remediation_policy \<and> length (lp_history lp') \<le> lc_history cfg)) \<and>
     (sane cfg \<longrightarrow> entries_ok cfg lp \<longrightarrow> entries_ok cfg lp')"
proof (cases "lp_busy lp")
  case True
  then show ?thesis by (simp add: run_cycle_once_def)
next
  case False
  let ?lp1 = "lp\<lparr>lp_busy := True, lp_cycles := Suc (lp_cycles lp), lp_last_at := Some (loop_now lp)\<rparr>"
  obtain rs lp2 where "run_components cfg P docker (List.map fst remediation_policy) ?lp1 = Some (rs, lp2)"
    "list_all (\<lambda>y. cy_outcome y \<noteq> ''executed'') rs" "length rs = length (List.map fst remediation_policy)" "loop_keeps cfg ?lp1 lp2"
    using cycle.run_total[of cfg P docker "List.map fst remediation_policy" ?lp1] by blast
  then show ?thesis using False by (simp add: run_cycle_once_def Let_def loop_keeps_def append_bounded_length entries_ok_def)
qed

section \<open>Many cycles\<close>

text \<open>Between two cycles anything may happen to the platform.\<close>

fun cycles ::
  "loop_config \<Rightarrow> (probes \<times> (string \<Rightarrow> docker_answer) \<times> 'w home) list \<Rightarrow> 'w hloop \<Rightarrow> 'w hloop option" where
  "cycles cfg [] lp = Some lp"
| "cycles cfg ((P, docker, h) # es) lp =
     (case run_cycle_once cfg P docker (lp\<lparr>lp_home := h\<rparr>) of None \<Rightarrow> None | Some (r, lp1) \<Rightarrow> cycles cfg es lp1)"

inductive loop_step :: "loop_config \<Rightarrow> 'w hloop \<Rightarrow> 'w hloop \<Rightarrow> bool" for cfg where
  step_cycle: "run_cycle_once cfg P docker lp = Some (r, lp') \<Longrightarrow> loop_step cfg lp lp'"
| step_clear: "clear_quarantine c lp = (r, lp') \<Longrightarrow> loop_step cfg lp lp'"
| step_platform: "loop_step cfg lp (lp\<lparr>lp_home := h\<rparr>)"
| step_start: "loop_step cfg lp (start_loop b lp)"
| step_stop: "loop_step cfg lp (stop_loop lp)"
| step_reset: "loop_step cfg lp (reset_loop lp)"

inductive loop_run :: "loop_config \<Rightarrow> 'w hloop \<Rightarrow> 'w hloop \<Rightarrow> bool" for cfg where
  loop_refl: "loop_run cfg lp lp"
| loop_next: "loop_run cfg lp lp' \<Longrightarrow> loop_step cfg lp' lp'' \<Longrightarrow> loop_run cfg lp lp''"

lemma clear_ok:
  assumes "clear_quarantine c lp = (r, lp')" and "sane cfg" and "entries_ok cfg lp"
  shows "entries_ok cfg lp' \<and> lp_history lp' = lp_history lp"
proof (cases "component_get c (lp_components lp)")
  case None
  then show ?thesis using assms by (simp add: clear_quarantine_def)
next
  case (Some s)
  let ?s = "s\<lparr>cl_quarantined := False, cl_quarantined_at := None, cl_reason := None, cl_attempts := [], cl_failures := 0, cl_cooldown := None\<rparr>"
  have "component_ok cfg ?s" using assms(2) by (simp add: component_ok_def sane_def)
  moreover have "lp' = lp \<or> (\<forall>d. component_get d (lp_components lp') = (if d = c then Some ?s else component_get d (lp_components lp)))"
    "lp_history lp' = lp_history lp"
    using assms(1) Some components.get_key[OF Some]
    by (auto simp: clear_quarantine_def do_clear_quarantine_def split: if_splits)
  ultimately show ?thesis using assms(3) unfolding entries_ok_def by (metis option.inject)
qed

lemma step_entries:
  "loop_step cfg lp lp' \<Longrightarrow> sane cfg \<Longrightarrow> entries_ok cfg lp \<and> length (lp_history lp) \<le> lc_history cfg \<Longrightarrow>
     entries_ok cfg lp' \<and> length (lp_history lp') \<le> lc_history cfg"
proof (induction rule: loop_step.induct)
  case (step_cycle P docker lp r lp')
  then show ?case using cycle_total[of cfg P docker lp] by auto
next
  case (step_clear c lp r lp')
  then show ?case using clear_ok[of c lp r lp' cfg] by simp
qed (simp_all add: entries_ok_def start_loop_def stop_loop_def reset_loop_def component_get_def)

lemma run_entries:
  "loop_run cfg lp lp' \<Longrightarrow> sane cfg \<Longrightarrow> entries_ok cfg lp \<and> length (lp_history lp) \<le> lc_history cfg \<Longrightarrow>
     entries_ok cfg lp' \<and> length (lp_history lp') \<le> lc_history cfg"
  by (induction rule: loop_run.induct) (auto dest: step_entries)

section \<open>Recovery\<close>

lemma run_components_state:
  assumes "run_components cfg P docker cs lp = Some (rs, lp')" and "distinct cs"
  shows "lp_busy lp' = lp_busy lp \<and>
     (\<forall>d\<in>set cs. \<exists>s' now. component_get d (lp_components lp') = Some s' \<and> next_state cfg (docker d) now (get_state d lp) s') \<and>
     (\<forall>d. d \<notin> set cs \<longrightarrow> component_get d (lp_components lp') = component_get d (lp_components lp))"
  using assms
proof (induction cs arbitrary: lp rs)
  case (Cons c cs)
  obtain r lp1 where s1: "contained_component cfg P (docker c) c lp = Some (r, lp1)"
    "one_entry c (next_state cfg (docker c) (loop_now lp) (get_state c lp)) lp lp1"
    using contained_step[of cfg P "docker c" c lp] by blast
  then obtain s where s: "next_state cfg (docker c) (loop_now lp) (get_state c lp) s" "lp_busy lp1 = lp_busy lp"
    "\<And>d. component_get d (lp_components lp1) = (if d = c then Some s else component_get d (lp_components lp))"
    by (auto simp: one_entry_def)
  obtain rs' where rest: "run_components cfg P docker cs lp1 = Some (rs', lp')" using Cons.prems s1(1) by auto
  have same: "get_state d lp1 = get_state d lp" if "d \<noteq> c" for d using that s(3) by (simp add: get_state_def)
  have IH: "lp_busy lp' = lp_busy lp1"
    "d \<in> set cs \<Longrightarrow> \<exists>s' now. component_get d (lp_components lp') = Some s' \<and> next_state cfg (docker d) now (get_state d lp1) s'"
    "d \<notin> set cs \<Longrightarrow> component_get d (lp_components lp') = component_get d (lp_components lp1)" for d
    using Cons.IH[OF rest] Cons.prems(2) by auto
  have c: "component_get c (lp_components lp') = Some s" using IH(3)[of c] s(3) Cons.prems(2) by simp
  show ?case
  proof (intro conjI ballI allI impI)
    show "lp_busy lp' = lp_busy lp" using IH(1) s(2) by simp
    show "\<exists>s' now. component_get d (lp_components lp') = Some s' \<and> next_state cfg (docker d) now (get_state d lp) s'"
      if "d \<in> set (c # cs)" for d
      using that IH(2)[of d] same[of d] c s(1) by (cases "d = c") auto
    show "component_get d (lp_components lp') = component_get d (lp_components lp)" if "d \<notin> set (c # cs)" for d
      using that IH(3)[of d] s(3) by auto
  qed
qed simp

lemma policy_distinct: "distinct (List.map fst remediation_policy)"
  by (simp add: remediation_policy_def)

lemma cycle_state:
  assumes "\<not> lp_busy lp" and "c \<in> fst ` set remediation_policy"
  shows "\<exists>r lp' now. run_cycle_once cfg P docker lp = Some (r, lp') \<and> \<not> lp_busy lp' \<and>
     next_state cfg (docker c) now (get_state c lp) (get_state c lp')"
proof -
  let ?lp1 = "lp\<lparr>lp_busy := True, lp_cycles := Suc (lp_cycles lp), lp_last_at := Some (loop_now lp)\<rparr>"
  obtain rs lp2 where run: "run_components cfg P docker (List.map fst remediation_policy) ?lp1 = Some (rs, lp2)"
    using cycle.run_total[of cfg P docker "List.map fst remediation_policy" ?lp1] by blast
  have "get_state c ?lp1 = get_state c lp" by (simp add: get_state_def)
  then obtain s' now where "component_get c (lp_components lp2) = Some s'" "next_state cfg (docker c) now (get_state c lp) s'"
    using bspec[OF run_components_state[OF run policy_distinct, THEN conjunct2, THEN conjunct1], of c] assms(2) by auto
  moreover have "get_state c (lp2\<lparr>lp_history := hh, lp_busy := False\<rparr>) = s'" for hh
    using calculation(1) by (simp add: get_state_def)
  ultimately show ?thesis using run assms(1) by (auto simp: run_cycle_once_def Let_def)
qed

lemma cycle_entry:
  assumes "\<not> lp_busy lp" and "c \<in> fst ` set remediation_policy" and "run_cycle_once cfg P docker lp = Some (r, lp')"
  shows "\<exists>s. component_get c (lp_components lp') = Some s"
proof -
  let ?lp1 = "lp\<lparr>lp_busy := True, lp_cycles := Suc (lp_cycles lp), lp_last_at := Some (loop_now lp)\<rparr>"
  obtain rs lp2 where run: "run_components cfg P docker (List.map fst remediation_policy) ?lp1 = Some (rs, lp2)"
    using cycle.run_total[of cfg P docker "List.map fst remediation_policy" ?lp1] by blast
  then have "lp_components lp' = lp_components lp2" using assms(1,3) by (auto simp: run_cycle_once_def Let_def)
  then show ?thesis using bspec[OF run_components_state[OF run policy_distinct, THEN conjunct2, THEN conjunct1], of c] assms(2) by auto
qed

lemma recovery_step:
  assumes "next_state cfg docker now s s'" and "cl_quarantined s" and "seen_running docker (cl_component s)"
  shows "(\<not> cl_quarantined s' \<and> cl_attempts s' = [] \<and> cl_cooldown s' = None) \<or>
     (cl_quarantined s' \<and> cl_streak s' = Suc (cl_streak s) \<and> int (cl_streak s') < lc_recovery cfg)"
  using assms by (auto simp: next_state_def recovered_state_def Let_def)

lemma cycles_recover:
  assumes "\<not> lp_busy lp" and "c \<in> fst ` set remediation_policy" and "cl_quarantined (get_state c lp)"
    and "\<And>P docker h. (P, docker, h) \<in> set es \<Longrightarrow> seen_running (docker c) c"
    and "lc_recovery cfg \<le> int (cl_streak (get_state c lp) + length es)" and "es \<noteq> []"
  shows "\<exists>es1 es2 lp1. es = es1 @ es2 \<and> es1 \<noteq> [] \<and> cycles cfg es1 lp = Some lp1 \<and> \<not> cl_quarantined (get_state c lp1) \<and>
     cl_attempts (get_state c lp1) = [] \<and> cl_cooldown (get_state c lp1) = None"
  using assms
proof (induction es arbitrary: lp)
  case (Cons e es)
  obtain P docker h where e: "e = (P, docker, h)" by (cases e)
  let ?lp0 = "lp\<lparr>lp_home := h\<rparr>"
  obtain r lp' now where cyc: "run_cycle_once cfg P docker ?lp0 = Some (r, lp')" "\<not> lp_busy lp'"
    and n: "next_state cfg (docker c) now (get_state c lp) (get_state c lp')"
    using cycle_state[of ?lp0 c cfg P docker] Cons.prems(1,2) by auto
  have "seen_running (docker c) c" using Cons.prems(4) e by auto
  with recovery_step[OF n Cons.prems(3)]
  consider "\<not> cl_quarantined (get_state c lp')" "cl_attempts (get_state c lp') = []" "cl_cooldown (get_state c lp') = None"
    | "cl_quarantined (get_state c lp')" "cl_streak (get_state c lp') = Suc (cl_streak (get_state c lp))"
      "int (cl_streak (get_state c lp')) < lc_recovery cfg" by auto
  then show ?case
  proof cases
    case 1
    then show ?thesis using cyc(1) e by (intro exI[of _ "[e]"] exI[of _ es] exI[of _ lp']) simp
  next
    case 2
    then have "es \<noteq> []" "lc_recovery cfg \<le> int (cl_streak (get_state c lp') + length es)" using Cons.prems(5) by auto
    moreover have "\<And>P docker h. (P, docker, h) \<in> set es \<Longrightarrow> seen_running (docker c) c" using Cons.prems(4) by auto
    ultimately obtain es1 es2 lp1 where
      "es = es1 @ es2" "es1 \<noteq> []" "cycles cfg es1 lp' = Some lp1" "\<not> cl_quarantined (get_state c lp1)"
      "cl_attempts (get_state c lp1) = []" "cl_cooldown (get_state c lp1) = None"
      using Cons.IH[OF cyc(2) Cons.prems(2) 2(1)] by blast
    then show ?thesis using cyc(1) e by (intro exI[of _ "e # es1"] exI[of _ es2] exI[of _ lp1]) simp
  qed
qed simp

section \<open>A failed component\<close>

lemma failed_confidence:
  assumes "plain_state ob \<notin> {[], ''unknown'', ''running''}" and "length (co_signals ob) = 2" and "age \<le> stale_threshold"
  shows "70 \<le> fst (derive_confidence ob age)"
  using assms by (auto simp: confidence_value)

lemma failed_evaluation:
  assumes "co_component ob \<noteq> []" and "plain_state ob \<notin> {[], ''unknown'', ''running''}" and "length (co_signals ob) = 2"
    and "now - co_timestamp ob \<le> stale_threshold"
  shows "ev_component (create_health_evaluation now (Observed ob) cx) = co_component ob"
    "ev_status (create_health_evaluation now (Observed ob) cx) = Critical"
    "70 \<le> ev_confidence (create_health_evaluation now (Observed ob) cx)"
proof -
  have "usable (Observed ob) = Some ob" using assms(1) by (simp add: usable_def normalize_observation_def)
  then have "create_health_evaluation now (Observed ob) cx = container_failure_evaluation now ob cx"
    using assms(2) by (auto simp: evaluation_cases)
  then show "ev_component (create_health_evaluation now (Observed ob) cx) = co_component ob"
    "ev_status (create_health_evaluation now (Observed ob) cx) = Critical"
    "70 \<le> ev_confidence (create_health_evaluation now (Observed ob) cx)"
    using failed_confidence[OF assms(2,3)] assms(4)
    by (simp_all add: container_failure_evaluation_def Let_def split_beta observation_age_def)
qed

lemma critical_is_held:
  assumes "ev_component ev \<in> {''uptime-kuma'', ''portainer''}" and "ev_status ev = Critical" and "70 \<le> ev_confidence ev"
    and "g_registry (hm_gov h) default_domain = Some default_registration"
    and "adapter_or_default adapter h \<in> {''simulation'', ''docker'', ''git'', ''module_change''}"
  shows "\<exists>ov h' k. remediate_and_verify P ev dec adapter h = Some (Inr ov, h') \<and> ov_status ov = ''manual_approval_required'' \<and>
     ov_approval_id ov = Some k \<and>
     (\<exists>x\<in>set (mem (g_holds (hm_gov h'))). hold_id x = k \<and> hold_status x = Pending \<and> act_component (hold_action x) = ev_component ev \<and>
        act_type (hold_action x) = Restart \<and> hold_expires_at x = Some (g_now (hm_gov h) + approval_ttl))"
proof -
  obtain a g where a: "build_remediation_action ev dec (hm_gov h) = (Some a, g)"
    using build_action_exists[OF assms(1,2)] by blast
  note f = build_action_facts[OF a]
  let ?h1 = "with_gov g h" and ?ad = "adapter_or_default adapter h"
  have ad: "adapter_or_default adapter ?h1 = ?ad" by (simp add: adapter_or_default_def resolve_adapter_name_def f(9) split: option.split)
  have reg: "g_registry g default_domain = Some default_registration" using assms(4) f(9) by simp
  have "70 \<le> act_confidence a" using assms(3) f(8) by simp
  from resolve_default[OF reg f(6) assms(5) f(7,5) this] obtain asmt st1 where
    x: "resolve_assessment g a ?ad = Inr (asmt, st1)" "pol_allowed (asm_policy asmt)" "rk_level (asm_risk asmt) = ''medium''" by blast
  obtain why k st' hold where m: "execute_governed_action a ?ad g = (ManualRequired why k, st')"
    "hold \<in> set (mem (g_holds st'))" "hold_id hold = k" "hold_status hold = Pending" "hold_action hold = a"
    "hold_expires_at hold = Some (g_now g + approval_ttl)"
    using manual_outcome[OF x f(1)] by blast
  let ?ov = "plain_view ''manual_approval_required'' (Some why) (Some k)"
  have "governed a ?ad ?h1 = (Inr ?ov, with_gov st' ?h1)" using m(1) by (simp add: governed_def outcome_dict_def)
  then have r: "remediate_and_verify P ev dec adapter h =
      Some (Inr ?ov, record_learning (act_component a) ?ov (Some (ev_confidence ev)) None (with_gov st' ?h1))"
    by (simp add: remediate_and_verify_def a Let_def ad ran_def plain_view_def)
  show ?thesis unfolding r using m(2-6) f(2,5,9)
    by (auto simp: plain_view_def record_learning_def remember_def intro!: bexI[of _ hold])
qed

section \<open>Properties\<close>

text \<open>C17: No cycle of the loop executes anything. Whatever state the platform and the loop are in,
  a cycle returns, leaves the world, the authorizations and the execution audits as they were, and
  reports no component as executed; a cycle inside another is refused and changes nothing.\<close>

theorem loop_never_executes:
  "\<exists>r lp'. run_cycle_once cfg P docker lp = Some (r, lp') \<and>
     g_world (hm_gov (lp_home lp')) = g_world (hm_gov (lp_home lp)) \<and>
     g_auths (hm_gov (lp_home lp')) = g_auths (hm_gov (lp_home lp)) \<and>
     g_audits (hm_gov (lp_home lp')) = g_audits (hm_gov (lp_home lp)) \<and>
     (case r of None \<Rightarrow> lp_busy lp \<and> lp' = lp
      | Some x \<Rightarrow> list_all (\<lambda>y. cy_outcome y \<noteq> ''executed'') (cyc_results x) \<and>
                 length (cyc_results x) = length remediation_policy)"
  using cycle_total[of cfg P docker lp] by (auto simp: untouched_def)

text \<open>C18: The flap guard holds over any history of cycles, manual clears, starts, stops and resets,
  whatever happens to the platform in between: a component that is not quarantined has fewer
  held or failed attempts on record than the limit, any two attempts on record are at least the
  cooldown apart, a component is quarantined exactly while a reason is recorded, and the cycle
  history stays within its bound.\<close>

theorem flap_guard_bounds_attempts:
  assumes "loop_run cfg lp lp'" and "lp_components lp = []" and "lp_history lp = []"
    and "0 < lc_max cfg" and "0 \<le> lc_cooldown cfg" and "component_get c (lp_components lp') = Some s"
  shows "(cl_quarantined s \<or> int (length (cl_attempts s)) < lc_max cfg) \<and>
     sorted_wrt (\<lambda>x y. x + seconds (lc_cooldown cfg) \<le> y) (cl_attempts s) \<and>
     (cl_quarantined s \<longleftrightarrow> cl_reason s \<noteq> None) \<and> length (lp_history lp') \<le> lc_history cfg"
proof -
  have "entries_ok cfg lp" using assms(2) by (simp add: entries_ok_def component_get_def)
  then have "entries_ok cfg lp' \<and> length (lp_history lp') \<le> lc_history cfg"
    using run_entries[OF assms(1)] assms(3-5) by (simp add: sane_def)
  then show ?thesis using assms(6) by (auto simp: entries_ok_def component_ok_def)
qed

text \<open>A quarantined component that is seen running in every cycle is released: after enough
  consecutive cycles for the required streak, whatever else happens to the platform in between,
  there is a cycle after which it is no longer quarantined, with its attempts and cooldown cleared.\<close>

theorem quarantine_is_released:
  assumes "c \<in> fst ` set remediation_policy" and "\<not> lp_busy lp" and "cl_quarantined (get_state c lp)"
    and "\<forall>(P, docker, h)\<in>set es. seen_running (docker c) c" and "es \<noteq> []" and "lc_recovery cfg \<le> int (length es)"
  shows "\<exists>es1 es2 lp1. es = es1 @ es2 \<and> es1 \<noteq> [] \<and> cycles cfg es1 lp = Some lp1 \<and>
     \<not> cl_quarantined (get_state c lp1) \<and> cl_attempts (get_state c lp1) = [] \<and> cl_cooldown (get_state c lp1) = None"
proof (rule cycles_recover[OF assms(2,1,3) _ _ assms(5)])
  show "seen_running (docker c) c" if "(P, docker, h) \<in> set es" for P docker h using that assms(4) by auto
qed (use assms(6) in simp)

text \<open>A failed component of the policy is put before a human. When its newest metric carries both
  signals, is at most ten minutes old and shows a resolved state other than running, remediation ends
  with a pending hold for a restart of exactly that component, which expires after the approval
  lifetime: the evaluation's confidence always clears the policy threshold, the risk is known, and
  the approval policy never approves it by itself.\<close>

theorem failed_component_is_held:
  assumes "find (\<lambda>x. cm_name x = c) (get_current_container_metrics h) = Some m"
    and "c \<in> fst ` set remediation_policy" and "cm_cpu m = Some cpu" and "cm_memory m = Some mem_used"
    and "lower (strip (cm_status m)) \<notin> {[], ''unknown'', ''running''}"
    and "g_now (hm_gov h) - cm_timestamp m \<le> stale_threshold"
    and "g_registry (hm_gov h) default_domain = Some default_registration"
    and "resolve_adapter_name h \<in> {''simulation'', ''docker'', ''git'', ''module_change''}"
  shows "\<exists>ov h' k. remediate_component P c None h = Some (Inr ov, h') \<and> ov_status ov = ''manual_approval_required'' \<and>
     ov_approval_id ov = Some k \<and>
     (\<exists>x\<in>set (mem (g_holds (hm_gov h'))). hold_id x = k \<and> hold_status x = Pending \<and> act_component (hold_action x) = c \<and>
        act_type (hold_action x) = Restart \<and> hold_expires_at x = Some (g_now (hm_gov h) + approval_ttl))"
proof -
  obtain ob where ob: "normalize_observation (Measured m) = Some ob" "co_component ob = cm_name m" "co_state ob = cm_status m"
    "length (co_signals ob) = 2" "co_timestamp ob = cm_timestamp m"
    using assms(3,4) by (simp add: normalize_observation_def container_metric_to_observation_def)
  have c: "cm_name m = c" "c \<in> {''uptime-kuma'', ''portainer''}" using assms(1,2) find_SomeD by (fastforce simp: remediation_policy_def)+
  have state: "co_component ob \<noteq> []" "plain_state ob \<notin> {[], ''unknown'', ''running''}"
    "g_now (hm_gov h) - co_timestamp ob \<le> stale_threshold"
    using c ob assms(5,6) by (auto simp: plain_state_def)
  let ?ev = "create_health_evaluation (g_now (hm_gov h)) (Observed ob) (get_component_context (co_component ob))"
  note ev = failed_evaluation[OF state(1,2) ob(4) state(3), of "get_component_context (co_component ob)"]
  have "ev_component ?ev \<in> {''uptime-kuma'', ''portainer''}" "adapter_or_default None h \<in> {''simulation'', ''docker'', ''git'', ''module_change''}"
    using ev(1) ob(2) c assms(8) by (auto simp: adapter_or_default_def)
  from critical_is_held[OF this(1) ev(2,3) assms(7) this(2), of P "Some (make_decision ?ev None)"]
  show ?thesis using assms(1) ob(1,2) c(1) ev(1) by (simp add: remediate_component_def Let_def)
qed

section \<open>Witnesses\<close>

definition sample_metric :: container_metric where
  "sample_metric = \<lparr>cm_name = ''portainer'', cm_status = ''exited'', cm_cpu = Some 0, cm_memory = Some 0, cm_health = None, cm_timestamp = 0\<rparr>"

definition sample_home :: "nat home" where
  "sample_home = \<lparr>hm_ops = sample_ops\<lparr>op_gov := sample_gov\<rparr>, hm_metrics = [sample_metric], hm_memory = [], hm_engine = ''simulation''\<rparr>"

definition sample_config :: loop_config where
  "sample_config = \<lparr>lc_interval = 120, lc_window = 900, lc_max = 3, lc_cooldown = 300, lc_recovery = 2, lc_history = 50\<rparr>"

definition sample_loop :: "nat hloop" where
  "sample_loop = \<lparr>lp_home = sample_home, lp_components = [], lp_history = [], lp_cycles = 0, lp_last_at = None, lp_error = None,
     lp_enabled = False, lp_busy = False, lp_task = False\<rparr>"

definition sample_quarantined :: "nat hloop" where
  "sample_quarantined = sample_loop\<lparr>lp_components := [(new_component ''portainer'')\<lparr>cl_quarantined := True, cl_quarantined_at := Some 0,
     cl_reason := Some ''flapping''\<rparr>]\<rparr>"

definition sample_running :: "string \<Rightarrow> docker_answer" where
  "sample_running c = Containers [(Some c, Some ''running'')]"

lemma failed_component_is_held_witness:
  "\<exists>ov h' k. remediate_component sample_probes ''portainer'' None sample_home = Some (Inr ov, h') \<and>
     ov_status ov = ''manual_approval_required'' \<and> ov_approval_id ov = Some k \<and>
     (\<exists>x\<in>set (mem (g_holds (hm_gov h'))). hold_id x = k \<and> hold_status x = Pending \<and> act_component (hold_action x) = ''portainer'' \<and>
        act_type (hold_action x) = Restart \<and> hold_expires_at x = Some (g_now (hm_gov sample_home) + approval_ttl))"
proof (rule failed_component_is_held)
  show "find (\<lambda>x. cm_name x = ''portainer'') (get_current_container_metrics sample_home) = Some sample_metric"
    by (simp add: get_current_container_metrics_def sample_home_def sample_metric_def find_last_def)
  show "lower (strip (cm_status sample_metric)) \<notin> {[], ''unknown'', ''running''}" by code_simp
qed (simp_all add: sample_metric_def sample_home_def sample_defs stale_threshold_def remediation_policy_def resolve_adapter_name_def)

lemma flap_guard_bounds_attempts_witness:
  "\<exists>r lp' s. run_cycle_once sample_config sample_probes sample_running sample_loop = Some (r, lp') \<and>
     component_get ''portainer'' (lp_components lp') = Some s \<and> (cl_quarantined s \<or> length (cl_attempts s) < 3)"
proof -
  obtain r lp' now where cyc: "run_cycle_once sample_config sample_probes sample_running sample_loop = Some (r, lp')"
    using cycle_total by blast
  have "\<exists>s. component_get ''portainer'' (lp_components lp') = Some s"
    using cycle_entry[OF _ _ cyc, of "''portainer''"] by (simp add: sample_loop_def remediation_policy_def)
  then obtain s where s: "component_get ''portainer'' (lp_components lp') = Some s" by blast
  have "cl_quarantined s \<or> length (cl_attempts s) < 3"
    using flap_guard_bounds_attempts[OF loop_next[OF loop_refl step_cycle[OF cyc]] _ _ _ _ s]
    by (auto simp: sample_loop_def sample_config_def)
  with s cyc show ?thesis by blast
qed

lemma quarantine_is_released_witness:
  "\<exists>es1 lp1. prefix es1 [(sample_probes, sample_running, sample_home), (sample_probes, sample_running, sample_home)] \<and>
     cycles sample_config es1 sample_quarantined = Some lp1 \<and> \<not> cl_quarantined (get_state ''portainer'' lp1)"
proof -
  let ?es = "[(sample_probes, sample_running, sample_home), (sample_probes, sample_running, sample_home)]"
  have "\<exists>es1 es2 lp1. ?es = es1 @ es2 \<and> es1 \<noteq> [] \<and> cycles sample_config es1 sample_quarantined = Some lp1 \<and>
     \<not> cl_quarantined (get_state ''portainer'' lp1) \<and> cl_attempts (get_state ''portainer'' lp1) = [] \<and>
     cl_cooldown (get_state ''portainer'' lp1) = None"
    by (rule quarantine_is_released)
      (simp_all add: remediation_policy_def sample_quarantined_def sample_loop_def sample_running_def sample_config_def seen_running_def
        observe_container_state_def get_state_def component_get_def new_component_def)
  then show ?thesis by (metis prefixI)
qed

end
