(* ===== verification/Ops_Properties.thy ===== *)
theory Ops_Properties
  imports Ops_Evidence
begin

text \<open>
  The observation layer after an execution: settling returns within its deadline, the live index
  agrees with the one a restart rebuilds, every execution leaves a verification record, and an
  execution that stays unverified is alerted once.
\<close>

section \<open>The live row and the rebuilt row\<close>

lemma rebuilt_row_id [simp]: "ir_execution_id (rebuilt_row st k) = k"
  by (simp add: rebuilt_row_def Let_def split_beta)

lemma updated_row_id [simp]: "ir_execution_id (updated_row row a ad oper tg c x f now) = ir_execution_id row"
  by (simp add: updated_row_def Let_def split_beta)

lemma get_rebuilt_rows:
  "table_get ir_execution_id k (List.map (rebuilt_row st) ks) = (if k \<in> set ks then Some (rebuilt_row st k) else None)"
  by (induction ks) auto

lemma index_get_rebuild:
  "index_get k (op_rows (rebuild_index s)) =
     (if k \<in> ver_execution_id ` set (mem (g_verifs (op_gov s))) then Some (rebuilt_row (op_gov s) k) else None)"
  by (simp add: rebuild_index_def index_get_def get_rebuilt_rows first_seen_def)

lemma rstrip_keeps: "\<not> is_space c \<Longrightarrow> rstrip (xs @ c # ys) = xs @ c # rstrip ys"
  by (simp add: rstrip_def dropWhile_append3)

definition adapter_name_ok :: "string \<Rightarrow> bool" where
  "adapter_name_ok name \<longleftrightarrow> name \<noteq> [] \<and> (\<forall>c\<in>set name. \<not> is_space c \<and> c \<noteq> CHR '']'')"

lemma takeWhile_stop: "(\<And>x. x \<in> set xs \<Longrightarrow> P x) \<Longrightarrow> \<not> P y \<Longrightarrow> takeWhile P (xs @ y # ys) = xs"
  by (induction xs) auto

lemma token_parsed:
  assumes "adapter_name_ok name" and "c = CHR '']'' \<or> is_space c"
  shows "above_core_adapter (above_core_token name @ c # rest) = Some name"
proof -
  have "takeWhile (\<lambda>c. \<not> is_space c \<and> c \<noteq> CHR '']'') (name @ c # rest) = name"
    using assms by (intro takeWhile_stop) (auto simp: adapter_name_ok_def)
  then show ?thesis using assms by (simp add: above_core_adapter_def above_core_token_def adapter_name_ok_def Let_def)
qed

lemma not_space [simp]: "\<not> is_space CHR '']''" "is_space CHR '' ''"
  by (simp_all add: is_space_def Let_def)

lemma tagged_reason_shape:
  "\<exists>c rest. tag_reason k name st why = above_core_token name @ c # rest \<and> (c = CHR '']'' \<or> is_space c)"
proof -
  let ?sup = "if core_record_status k st = Some observation_unavailable then '' supersedes=observation_unavailable'' else []"
  have "tag_reason k name st why = above_core_token name @ ?sup @ CHR '']'' # rstrip ('' '' @ why)"
    unfolding tag_reason_def using rstrip_keeps[of "CHR '']''" "above_core_token name @ ?sup" "'' '' @ why"] not_space(1)
    by (simp only: append_assoc append_Cons append_Nil simp_thms)
  then show ?thesis by (cases "core_record_status k st = Some observation_unavailable") auto
qed

lemma tagged_reason_parsed: "adapter_name_ok name \<Longrightarrow> above_core_adapter (tag_reason k name st why) = Some name"
  using tagged_reason_shape[of k name st why] token_parsed by fastforce

lemma tagged_reason_prefix: "prefix above_core_prefix (tag_reason k name st why)"
  using tagged_reason_shape[of k name st why] by (auto simp: above_core_token_def)

text \<open>An execution that only the core has looked at: all its records are the core's.\<close>

definition core_only :: "ident \<Rightarrow> 'w gov \<Rightarrow> bool" where
  "core_only k st \<longleftrightarrow> (\<forall>v\<in>set (mem (g_verifs st)). ver_execution_id v \<noteq> k \<or>
     (ver_status v \<in> set core_statuses \<and> \<not> prefix above_core_prefix (ver_reason v)))"

lemma not_above_core: "\<not> prefix above_core_prefix why \<Longrightarrow> above_core_adapter why = None"
  by (auto simp: above_core_adapter_def Let_def dest: append_prefixD)

lemma core_not_failed: "s \<in> set core_statuses \<Longrightarrow> s \<noteq> adapter_execution_failed"
  by (auto simp: core_statuses_def status_defs adapter_execution_failed_def)

lemma rebuild_names_fields [simp]:
  "rb_core (rebuild_names v b) = rb_core b" "rb_above (rebuild_names v b) = rb_above b"
  "rb_adapter (rebuild_names v b) = rb_adapter b" "rb_failure (rebuild_names v b) = rb_failure b"
  by (simp_all add: rebuild_names_def split: option.split)

lemma rebuild_core_step:
  assumes "ver_status v \<in> set core_statuses" and "\<not> prefix above_core_prefix (ver_reason v)"
  shows "rb_core (rebuild_step v b) = Some (ver_status v)" "rb_above (rebuild_step v b) = rb_above b"
    "rb_adapter (rebuild_step v b) = rb_adapter b" "rb_failure (rebuild_step v b) = rb_failure b"
  using assms by (simp_all add: rebuild_step_def not_above_core core_not_failed)

lemma rebuild_core_fold:
  assumes "\<And>v. v \<in> set vs \<Longrightarrow> ver_status v \<in> set core_statuses \<and> \<not> prefix above_core_prefix (ver_reason v)"
  shows "rb_core (fold rebuild_step vs b) = (if vs = [] then rb_core b else Some (ver_status (last vs))) \<and>
     rb_above (fold rebuild_step vs b) = rb_above b \<and> rb_adapter (fold rebuild_step vs b) = rb_adapter b \<and>
     rb_failure (fold rebuild_step vs b) = rb_failure b"
  using assms by (induction vs arbitrary: b) (auto simp: rebuild_core_step)

lemma find_rev_filter: "find P (rev xs) = (if filter P xs = [] then None else Some (last (filter P xs)))"
  by (induction xs) (auto simp: find_None split: option.splits dest: find_SomeD)

lemma core_only_status:
  assumes "core_only k st"
  shows "core_record_status k st =
    (let vs = filter (\<lambda>v. ver_execution_id v = k) (mem (g_verifs st)) in if vs = [] then None else Some (ver_status (last vs)))"
proof -
  have "filter (\<lambda>v. ver_execution_id v = k \<and> \<not> prefix above_core_prefix (ver_reason v) \<and> ver_status v \<noteq> adapter_execution_failed)
      (mem (g_verifs st)) = filter (\<lambda>v. ver_execution_id v = k) (mem (g_verifs st))"
    using assms by (intro filter_cong) (auto simp: core_only_def core_not_failed)
  then show ?thesis by (simp add: core_record_status_def find_last_def find_rev_filter)
qed

lemma index_get_mark:
  "index_get j (op_rows (mark_notified k s)) =
     (if j = k then map_option (\<lambda>r. r\<lparr>ir_notified := True\<rparr>) (index_get j (op_rows s)) else index_get j (op_rows s))"
  by (simp add: mark_notified_def index_get_def table_get_def find_modify_first)

lemma sending_frame [simp]:
  "op_gov (sending key al s) = op_gov s" "op_rows (sending key al s) = op_rows s"
  "op_gov (notify_ops kind d key' src s) = op_gov s" "op_rows (notify_ops kind d key' src s) = op_rows s"
  "op_gov (notify_held kind c ap d src s) = op_gov s" "op_rows (notify_held kind c ap d src s) = op_rows s"
  by (simp_all add: sending_def notify_ops_def notify_held_def)

lemma record_index_facts:
  assumes "record_index k aid ad oper tg c x f s = (row, s')"
  shows "op_gov s' = op_gov s" "ir_execution_id row = k"
    "index_get j (op_rows s') = (if j = k then Some row else index_get j (op_rows s))"
    "op_alerts s' = op_alerts s" "op_last_sent s' = op_last_sent s"
proof -
  have key: "ir_execution_id (case index_get k (op_rows s) of Some r \<Rightarrow> r | None \<Rightarrow> new_row k now) = k" for now
    by (auto simp: new_row_def dest: index.get_key split: option.split)
  show "op_gov s' = op_gov s" "ir_execution_id row = k" "op_alerts s' = op_alerts s" "op_last_sent s' = op_last_sent s"
    using assms key by (auto simp: record_index_def Let_def)
  show "index_get j (op_rows s') = (if j = k then Some row else index_get j (op_rows s))"
    using assms key by (auto simp: record_index_def Let_def index.get_put)
qed

lemma update_index_frame [simp]: "op_gov (update_index_and_notify k aid ad oper tg x s) = op_gov s"
  by (auto simp: update_index_and_notify_def mark_notified_def split: prod.split dest: record_index_facts)

lemma live_row:
  assumes "index_get k (op_rows s) = None"
  shows "\<exists>row. index_get k (op_rows (update_index_and_notify k aid ad oper tg x s)) = Some row \<and>
     ir_core row = core_record_status k (op_gov s) \<and> ir_above row = x \<and>
     (ir_effective row, ir_verified row) = classify (core_record_status k (op_gov s)) x (or_str (Some ad) None) False"
proof -
  obtain row s1 where r: "record_index k aid (Some ad) (Some oper) (Some tg) (core_record_status k (op_gov s)) x False s = (row, s1)"
    by fastforce
  have row: "row = updated_row (new_row k (g_now (op_gov s))) aid (Some ad) (Some oper) (Some tg)
      (core_record_status k (op_gov s)) x False (g_now (op_gov s))"
    using r assms by (simp add: record_index_def Let_def)
  have fields: "ir_core row = core_record_status k (op_gov s)" "ir_above row = x"
    "(ir_effective row, ir_verified row) = classify (core_record_status k (op_gov s)) x (or_str (Some ad) None) False"
    by (simp_all add: row updated_row_def new_row_def Let_def split_beta)
  have "index_get k (op_rows s1) = Some row" using record_index_facts(3)[OF r, of k] by simp
  then show ?thesis using r fields by (auto simp: update_index_and_notify_def index_get_mark)
qed

lemma rebuilt_matches:
  assumes "(ir_effective live, ir_verified live) = classify (ir_core live) (ir_above live) ad False"
    and "b = rebuild_group (filter (\<lambda>v. ver_execution_id v = k) (mem (g_verifs st)))"
    and "au = map_option au_adapter (find (\<lambda>a. au_execution_id a = k) (mem (g_audits st)))"
    and "rb_core b = ir_core live" "rb_above b = ir_above live" "\<not> rb_failure b"
    and "ir_above live \<noteq> None \<or> or_str (rb_adapter b) au = ad"
  shows "ir_effective (rebuilt_row st k) = ir_effective live \<and> ir_verified (rebuilt_row st k) = ir_verified live \<and>
     ir_core (rebuilt_row st k) = ir_core live \<and> ir_above (rebuilt_row st k) = ir_above live \<and> ir_notified (rebuilt_row st k)"
proof -
  have "classify (rb_core b) (rb_above b) (or_str (rb_adapter b) au) (rb_failure b) = (ir_effective live, ir_verified live)"
    using assms(1,4-7) by (auto simp: classify_def split: option.splits)
  then show ?thesis using assms(2-5) by (simp add: rebuilt_row_def Let_def)
qed

lemma save_above_core_facts:
  assumes "save_above_core k adapter want seen st = (v, st')"
  shows "mem (g_verifs st') = mem (g_verifs st) @ [v]" "ver_execution_id v = k" "ver_status v \<in> set core_statuses"
    "prefix above_core_prefix (ver_reason v)" "adapter_name_ok adapter \<Longrightarrow> above_core_adapter (ver_reason v) = Some adapter"
    "g_audits st' = g_audits st" "core_record_status k st' = core_record_status k st"
proof -
  show m: "mem (g_verifs st') = mem (g_verifs st) @ [v]" "g_audits st' = g_audits st" and "ver_execution_id v = k"
    and "ver_status v \<in> set core_statuses" and p: "prefix above_core_prefix (ver_reason v)"
    and "adapter_name_ok adapter \<Longrightarrow> above_core_adapter (ver_reason v) = Some adapter"
    using assms verifier_status[of k want seen "fst (fresh_id st)" "g_now st"]
    by (auto simp: save_above_core_def fresh_id_def Let_def tagged_reason_prefix tagged_reason_parsed)
  show "core_record_status k st' = core_record_status k st" by (simp add: core_record_status_def find_last_def m p)
qed

lemma rebuild_core_group:
  assumes "core_only k st"
  shows "rb_core (rebuild_group (filter (\<lambda>v. ver_execution_id v = k) (mem (g_verifs st)))) = core_record_status k st \<and>
     rb_above (rebuild_group (filter (\<lambda>v. ver_execution_id v = k) (mem (g_verifs st)))) = None \<and>
     rb_adapter (rebuild_group (filter (\<lambda>v. ver_execution_id v = k) (mem (g_verifs st)))) = None \<and>
     \<not> rb_failure (rebuild_group (filter (\<lambda>v. ver_execution_id v = k) (mem (g_verifs st))))"
  unfolding rebuild_group_def core_only_status[OF assms] Let_def
  by (subst rebuild_core_fold, use assms in \<open>force simp: core_only_def\<close>)+ simp

lemma settle_at_once: "want = None \<or> timeout \<le> 0 \<Longrightarrow> settle observer clock timeout want = Some (observer 0)"
  by (cases "observer 0") (auto simp: settle_def split: option.split)

lemma settle_stops:
  assumes "sleeping_clock clock"
  shows "\<exists>m. settle observer clock timeout (map_option exp_state want) = Some (observer m) \<and>
     (case want of
        Some e \<Rightarrow>
          if 0 < timeout then
            settled observer clock (clock 0 + timeout) (exp_state e) m \<and>
            (\<forall>j<m. \<not> settled observer clock (clock 0 + timeout) (exp_state e) j) \<and>
            (m = 0 \<or> clock m < clock 0 + timeout \<and> int (m - 1) * poll_interval < timeout)
          else m = 0
      | None \<Rightarrow> m = 0)"
proof (cases "want = None \<or> timeout \<le> 0")
  case True
  then show ?thesis using settle_at_once[of "map_option exp_state want" timeout observer clock]
    by (intro exI[of _ 0]) (auto split: option.split)
next
  case False
  then obtain e where e: "want = Some e" "0 < timeout" by auto
  obtain m where m: "settle observer clock timeout (map_option exp_state want) = Some (observer m)"
    "m = 0 \<or> int (m - 1) * poll_interval < timeout"
    "settled observer clock (clock 0 + timeout) (exp_state e) m"
    "\<forall>j<m. \<not> settled observer clock (clock 0 + timeout) (exp_state e) j"
    using settle_returns[OF assms, of observer timeout "map_option exp_state want"] e by auto
  have "clock m < clock 0 + timeout" if "m \<noteq> 0"
  proof -
    have "\<not> settled observer clock (clock 0 + timeout) (exp_state e) (m - 1)" using m(4) that by simp
    then show ?thesis using that by (auto simp: settled_def split: reading.splits)
  qed
  then show ?thesis using m e by (intro exI[of _ m]) auto
qed

lemma verifier_verified:
  "(ver_status (verifier k want seen i now) = verified_success) =
     (\<exists>ob e. seen = Some ob \<and> want = Some e \<and> obs_state ob = exp_state e)"
  by (simp add: verifier_def status_defs split: option.split)

section \<open>Alerts over a run of the process\<close>

inductive ops_step :: "'w ops \<Rightarrow> 'w ops \<Rightarrow> bool" where
  verify_step: "verify_executed_action P k adapter operation target expected action_id s = Some (v, s') \<Longrightarrow> ops_step s s'"
| core_step: "ops_step s (s\<lparr>op_gov := g\<rparr>)"
| clock_step: "ops_step s (s\<lparr>op_mono := t\<rparr>)"
| held_step: "ops_step s (notify_held kind component approval_id detail source s)"
| alert_step: "kind \<noteq> ''verification_inconclusive'' \<Longrightarrow> ops_step s (notify_ops kind detail key source s)"

inductive ops_run :: "'w ops \<Rightarrow> 'w ops \<Rightarrow> bool" where
  run_refl: "ops_run s s"
| run_step: "ops_run s s' \<Longrightarrow> ops_step s' s'' \<Longrightarrow> ops_run s s''"

fun inconclusive :: "ident \<Rightarrow> alert \<Rightarrow> bool" where
  "inconclusive k (OpsAlert kind key detail source) = (kind = ''verification_inconclusive'' \<and> key = k)"
| "inconclusive k (HeldAlert kind component approval_id detail source) = False"

definition alerted :: "ident \<Rightarrow> 'w ops \<Rightarrow> nat" where
  "alerted k s = length (filter (inconclusive k) (op_alerts s))"

definition flagged :: "ident \<Rightarrow> 'w ops \<Rightarrow> bool" where
  "flagged k s = (case index_get k (op_rows s) of None \<Rightarrow> False | Some r \<Rightarrow> ir_notified r)"

definition alert_inv :: "'w ops \<Rightarrow> bool" where
  "alert_inv s \<longleftrightarrow> (\<forall>k. alerted k s \<le> (if flagged k s then 1 else 0))"

lemma alert_inv_mono:
  assumes "alert_inv s" and "\<And>k. alerted k s' \<le> alerted k s" and "\<And>k. flagged k s' = flagged k s"
  shows "alert_inv s'"
  unfolding alert_inv_def
proof
  fix k
  have "alerted k s \<le> (if flagged k s then 1 else 0)" using assms(1) by (simp add: alert_inv_def)
  then show "alerted k s' \<le> (if flagged k s' then 1 else 0)" unfolding assms(3) using assms(2)[of k] by (rule le_trans[rotated])
qed

lemma alerted_sending:
  "alerted k (sending key al s) \<le> alerted k s + (if inconclusive k al then 1 else 0)"
  by (simp add: alerted_def sending_def)

lemma alerted_mark [simp]: "alerted k (mark_notified j s) = alerted k s"
  by (simp add: alerted_def mark_notified_def)

lemma flagged_mark: "flagged j (mark_notified k s) = (if j = k then index_get k (op_rows s) \<noteq> None else flagged j s)"
  by (simp add: flagged_def index_get_mark split: option.split)

lemma flagged_frame [simp]:
  "flagged k (notify_ops kind d key src s) = flagged k s" "flagged k (notify_held kind c ap d src s) = flagged k s"
  "flagged k (s\<lparr>op_gov := g\<rparr>) = flagged k s" "flagged k (s\<lparr>op_mono := u\<rparr>) = flagged k s"
  by (simp_all add: flagged_def)

lemma record_index_flag:
  assumes "record_index k aid ad oper tg c x f s = (row, s')"
  shows "ir_notified row = flagged k s" "flagged j s' = flagged j s" "alerted j s' = alerted j s"
proof -
  show n: "ir_notified row = flagged k s"
    using assms by (auto simp: record_index_def Let_def updated_row_def split_beta flagged_def new_row_def split: option.splits)
  show "flagged j s' = flagged j s" using record_index_facts(3)[OF assms, of j] n by (simp add: flagged_def)
  show "alerted j s' = alerted j s" using record_index_facts(4)[OF assms] by (simp add: alerted_def)
qed

lemma update_index_alerts:
  assumes "alert_inv s"
  shows "alert_inv (update_index_and_notify k aid ad oper tg x s)"
proof -
  obtain row s1 where r: "record_index k aid (Some ad) (Some oper) (Some tg) (core_record_status k (op_gov s)) x False s = (row, s1)"
    by fastforce
  note flags = record_index_flag[OF r]
  show ?thesis
  proof (cases "ir_effective row = unverified \<and> \<not> ir_notified row")
    case False
    then show ?thesis using r flags assms by (auto simp: update_index_and_notify_def alert_inv_def)
  next
    case True
    define d where "d = ''action_id='' @ id_text aid @ '' adapter='' @ ad @ '' operation='' @ oper @ '' target='' @ tg"
    let ?s2 = "notify_ops ''verification_inconclusive'' d k ''verify_executed_action'' s1"
    have s': "update_index_and_notify k aid ad oper tg x s = mark_notified k ?s2"
      using True r by (simp add: update_index_and_notify_def d_def)
    have "alerted j (mark_notified k ?s2) \<le> (if flagged j (mark_notified k ?s2) then 1 else 0)" for j
    proof (cases "j = k")
      case True
      have "alerted k s = 0" using assms flags(1) \<open>ir_effective row = unverified \<and> \<not> ir_notified row\<close>
        by (simp add: alert_inv_def) (metis le_zero_eq)
      then have "alerted k ?s2 \<le> 1"
        using alerted_sending[of k "''ops:verification_inconclusive:'' @ k" "OpsAlert ''verification_inconclusive'' k d ''verify_executed_action''" s1]
        by (simp add: notify_ops_def flags)
      then show ?thesis using True record_index_facts(3)[OF r, of k] by (simp add: flagged_mark)
    next
      case False
      have "alerted j ?s2 \<le> alerted j s1"
        using alerted_sending[of j "''ops:verification_inconclusive:'' @ k" "OpsAlert ''verification_inconclusive'' k d ''verify_executed_action''" s1] False
        by (simp add: notify_ops_def)
      moreover have "alerted j s \<le> (if flagged j s then 1 else 0)" using assms by (simp add: alert_inv_def)
      ultimately show ?thesis using False flags(2,3)[of j] by (simp add: flagged_mark split: if_splits)
    qed
    then show ?thesis by (simp add: s' alert_inv_def)
  qed
qed

lemma alert_inv_gov: "alert_inv s \<Longrightarrow> alert_inv (s\<lparr>op_gov := g\<rparr>)"
  by (simp add: alert_inv_def alerted_def flagged_def)

lemma verify_alerts:
  "verify_executed_action P k ad oper tg x aid s = Some (v, s') \<Longrightarrow> alert_inv s \<Longrightarrow> alert_inv s'"
  by (auto simp: verify_executed_action_def Let_def intro!: update_index_alerts alert_inv_gov split: option.splits prod.splits)

lemma step_alerts: "ops_step s s' \<Longrightarrow> alert_inv s \<Longrightarrow> alert_inv s'"
proof (induction rule: ops_step.induct)
  case (verify_step P k adapter operation target expected action_id s v s')
  then show ?case by (rule verify_alerts)
next
  case (core_step s g)
  then show ?case by (rule alert_inv_gov)
next
  case (clock_step s t)
  then show ?case by (simp add: alert_inv_def alerted_def flagged_def)
next
  case (held_step s kind component approval_id detail source)
  have "alerted k (notify_held kind component approval_id detail source s) \<le> alerted k s" for k
    unfolding notify_held_def by (rule order_trans[OF alerted_sending]) simp
  with held_step show ?case by (auto intro: alert_inv_mono)
next
  case (alert_step kind s detail key source)
  then have "alerted k (notify_ops kind detail key source s) \<le> alerted k s" for k
    unfolding notify_ops_def by (intro order_trans[OF alerted_sending]) simp
  with alert_step show ?case by (auto intro: alert_inv_mono)
qed

lemma run_alerts: "ops_run s s' \<Longrightarrow> alert_inv s \<Longrightarrow> alert_inv s'"
  by (induction rule: ops_run.induct) (auto intro: step_alerts)

section \<open>Properties\<close>

text \<open>C28: The index a running process keeps agrees with the one a restart rebuilds. Where only the
  core has recorded evidence for an execution and the index has no row for it, verifying the
  execution leaves a row, and rebuilding the index from the stores afterwards gives a row with the
  same effective status, the same verdict and the same core and above-core statuses, already
  flagged as notified so that a restart alerts nobody. An operation without an observer needs what
  the core saved, and its audit, to name the same adapter.\<close>

theorem rebuilt_index_agrees:
  assumes "verify_executed_action P k adapter operation target expected action_id s = Some (v, s')"
    and "adapter_name_ok adapter" and "core_only k (op_gov s)" and "index_get k (op_rows s) = None"
    and "resolve_observer (pr_observers P) adapter operation target \<noteq> None \<or>
      (core_record_status k (op_gov s) \<noteq> None \<and>
       map_option au_adapter (find (\<lambda>a. au_execution_id a = k) (mem (g_audits (op_gov s)))) = Some adapter)"
  shows "\<exists>live built. index_get k (op_rows s') = Some live \<and> index_get k (op_rows (rebuild_index s')) = Some built \<and>
     ir_effective built = ir_effective live \<and> ir_verified built = ir_verified live \<and>
     ir_core built = ir_core live \<and> ir_above built = ir_above live \<and> ir_notified built"
proof (cases "resolve_observer (pr_observers P) adapter operation target")
  case None
  obtain i st1 where i: "fresh_id (op_gov s) = (i, st1)" by fastforce
  then have g: "g_verifs st1 = g_verifs (op_gov s)" "g_audits st1 = g_audits (op_gov s)" by (auto simp: fresh_id_def)
  have s': "s' = update_index_and_notify k action_id adapter operation target None (s\<lparr>op_gov := st1\<rparr>)"
    using assms(1) None i by (simp add: verify_executed_action_def Let_def)
  have only: "core_only k st1" using assms(3) by (simp add: core_only_def g)
  obtain live where live: "index_get k (op_rows s') = Some live" "ir_core live = core_record_status k st1" "ir_above live = None"
    "(ir_effective live, ir_verified live) = classify (core_record_status k st1) None (or_str (Some adapter) None) False"
    using live_row[of k "s\<lparr>op_gov := st1\<rparr>" action_id adapter operation target None] assms(4) s' by auto
  have "core_record_status k st1 \<noteq> None" using assms(5) None by (simp add: core_record_status_def g)
  then have "k \<in> ver_execution_id ` set (mem (g_verifs st1))"
    by (auto simp: core_record_status_def find_last_def dest: find_SomeD)
  then have "index_get k (op_rows (rebuild_index s')) = Some (rebuilt_row st1 k)" by (simp add: index_get_rebuild s')
  moreover have "or_str None (map_option au_adapter (find (\<lambda>a. au_execution_id a = k) (mem (g_audits st1)))) = or_str (Some adapter) None"
    using assms(2,5) None by (simp add: g adapter_name_ok_def)
  ultimately show ?thesis using live rebuild_core_group[OF only]
      rebuilt_matches[of live "or_str (Some adapter) None", OF _ refl refl, of k st1] by simp
next
  case (Some observer)
  let ?want = "settle_expected adapter operation target expected"
  obtain seen st1 where st1: "save_above_core k adapter ?want seen (op_gov s) = (v, st1)"
    and s': "s' = update_index_and_notify k action_id adapter operation target (Some (ver_status v)) (s\<lparr>op_gov := st1\<rparr>)"
    using assms(1) Some by (auto simp: verify_executed_action_def Let_def split: option.splits prod.splits)
  note facts = save_above_core_facts[OF st1]
  obtain live where live: "index_get k (op_rows s') = Some live" "ir_core live = core_record_status k (op_gov s)"
    "ir_above live = Some (ver_status v)"
    "(ir_effective live, ir_verified live) = classify (core_record_status k (op_gov s)) (Some (ver_status v)) (or_str (Some adapter) None) False"
    using live_row[of k "s\<lparr>op_gov := st1\<rparr>" action_id adapter operation target "Some (ver_status v)"] assms(4) s' facts(7) by auto
  let ?b = "rebuild_group (filter (\<lambda>v. ver_execution_id v = k) (mem (g_verifs st1)))"
  have b: "?b = rebuild_step v (rebuild_group (filter (\<lambda>v. ver_execution_id v = k) (mem (g_verifs (op_gov s)))))"
    by (simp add: facts(1,2) rebuild_group_def)
  have "rb_core ?b = ir_core live" "rb_above ?b = ir_above live" "\<not> rb_failure ?b"
    unfolding b using rebuild_core_group[OF assms(3)] facts(5)[OF assms(2)] live(2,3) by (simp_all add: rebuild_step_def)
  moreover have "index_get k (op_rows (rebuild_index s')) = Some (rebuilt_row st1 k)"
    by (simp add: index_get_rebuild s' facts(1,2))
  ultimately show ?thesis using live rebuilt_matches[of live "or_str (Some adapter) None", OF _ refl refl, of k st1] by simp
qed

text \<open>Within one run of the process an execution that stays unverified is alerted at most once,
  however often it is verified, whatever other alerts are sent in between and however the clock and
  the minimum interval stand; and the alert is only sent by a verification that leaves the row
  flagged.\<close>

theorem inconclusive_alerted_once:
  assumes "ops_run s s'" and "op_rows s = []" and "op_alerts s = []"
  shows "alerted k s' \<le> 1 \<and> (alerted k s' = 0 \<or> flagged k s')"
proof -
  have "alert_inv s" using assms(2,3) by (simp add: alert_inv_def alerted_def)
  with assms(1) have "alert_inv s'" by (rule run_alerts)
  then have "alerted k s' \<le> (if flagged k s' then 1 else 0)" by (simp add: alert_inv_def)
  then show ?thesis by (cases "flagged k s'") auto
qed

text \<open>C27: Every verification returns. When each sleep lasts at least the poll interval, the loop polls until
  a reading matches or raises or a check finds the deadline passed, and no longer: the reading it ends
  with is the first that matches, that raises, or whose check comes at or after the deadline, so every
  reading after the first follows a check before the deadline, and there are at most one more of them
  than intervals in the timeout. Without an expected state, or with no time to wait, it is the first
  reading. The execution is reported verified exactly when the last reading shows the expected state;
  without an observer the status is that nothing could be observed.\<close>

theorem verification_settles:
  assumes "sleeping_clock (pr_clock P)"
  shows "\<exists>v s'. verify_executed_action P k adapter operation target expected action_id s = Some (v, s') \<and>
     (case resolve_observer (pr_observers P) adapter operation target of
        None \<Rightarrow> ver_status v = observation_unavailable
      | Some observer \<Rightarrow> (\<exists>m.
          (case settle_expected adapter operation target expected of
             Some e \<Rightarrow>
               if 0 < pr_timeout P then
                 settled observer (pr_clock P) (pr_clock P 0 + pr_timeout P) (exp_state e) m \<and>
                 (\<forall>j<m. \<not> settled observer (pr_clock P) (pr_clock P 0 + pr_timeout P) (exp_state e) j) \<and>
                 (m = 0 \<or> pr_clock P m < pr_clock P 0 + pr_timeout P \<and> int (m - 1) * poll_interval < pr_timeout P)
               else m = 0
           | None \<Rightarrow> m = 0) \<and>
          (ver_status v = verified_success) = (\<exists>ob e. observer m = Reading (Some ob) \<and>
             settle_expected adapter operation target expected = Some e \<and> obs_state ob = exp_state e)))"
proof (cases "resolve_observer (pr_observers P) adapter operation target")
  case None
  then show ?thesis by (simp add: verify_executed_action_def Let_def split: prod.split)
next
  case (Some observer)
  let ?want = "settle_expected adapter operation target expected"
  obtain m where m: "settle observer (pr_clock P) (pr_timeout P) (map_option exp_state ?want) = Some (observer m)"
    and polls: "case ?want of Some e \<Rightarrow>
        if 0 < pr_timeout P then
          settled observer (pr_clock P) (pr_clock P 0 + pr_timeout P) (exp_state e) m \<and>
          (\<forall>j<m. \<not> settled observer (pr_clock P) (pr_clock P 0 + pr_timeout P) (exp_state e) j) \<and>
          (m = 0 \<or> pr_clock P m < pr_clock P 0 + pr_timeout P \<and> int (m - 1) * poll_interval < pr_timeout P)
        else m = 0
      | None \<Rightarrow> m = 0"
    using settle_stops[OF assms, of observer "pr_timeout P" ?want] by blast
  obtain v st1 where v: "save_above_core k adapter ?want (case observer m of Unreadable \<Rightarrow> None | Reading x \<Rightarrow> x) (op_gov s) = (v, st1)"
    by fastforce
  have status: "(ver_status v = verified_success) = (\<exists>ob e. observer m = Reading (Some ob) \<and> ?want = Some e \<and> obs_state ob = exp_state e)"
    using v by (cases "observer m") (auto simp: save_above_core_def fresh_id_def Let_def verifier_verified)
  obtain s' where "verify_executed_action P k adapter operation target expected action_id s = Some (v, s')"
    using Some m v by (simp add: verify_executed_action_def Let_def)
  then show ?thesis unfolding Some option.case
    by (intro exI[of _ v] exI[of _ s'] conjI exI[of _ m] polls status)
qed

text \<open>After a governed execution, automatic or approved, the verification store always has a
  record for its execution id once the failure evidence has been offered: the core's own when the
  adapter succeeded, and one with the distinct status of a failed adapter when it did not; a second
  offer changes nothing.\<close>

theorem every_execution_has_evidence:
  assumes "execute_governed_action a adapter st = (Executed res v, st') \<or>
      approve_held_action h who ok st = (ApprovalExecuted res v, st')"
    and "res_execution_id res \<noteq> []"
  shows "get_verification (res_execution_id res) (snd (record_failed_execution_evidence (executed_view res k) x st')) \<noteq> None \<and>
     (res_success res \<or> get_verification (res_execution_id res) st' \<noteq> None \<or>
        map_option ver_status (get_verification (res_execution_id res)
          (snd (record_failed_execution_evidence (executed_view res k) x st'))) = Some adapter_execution_failed) \<and>
     (let st2 = snd (record_failed_execution_evidence (executed_view res k) x st')
      in record_failed_execution_evidence (executed_view res k) y st2 = (None, st2))"
proof -
  let ?st2 = "snd (record_failed_execution_evidence (executed_view res k) x st')"
  obtain r ad st1 where ran: "run_request r ad st1 = (Some (res, v), st')"
    using assms(1) executed_ran[of a adapter st res v st'] approved_ran[of h who ok st res v st'] by blast
  have saved: "get_verification (res_execution_id res) st' \<noteq> None" if "res_success res"
    using run_request_evidence[OF ran that] .
  have failed: "is_failed_attempt (executed_view res k)" if "\<not> res_success res"
    using that assms(2) by (simp add: is_failed_attempt_def executed_view_def)
  have there: "get_verification (res_execution_id res) ?st2 \<noteq> None"
  proof (cases "res_success res")
    case True
    then show ?thesis using failed_evidence_keeps[OF saved[OF True]] saved by metis
  next
    case False
    then show ?thesis using failed_evidence_recorded[OF failed[OF False]] by (simp add: executed_view_def)
  qed
  moreover have "map_option ver_status (get_verification (res_execution_id res) ?st2) = Some adapter_execution_failed"
    if "\<not> res_success res" "get_verification (res_execution_id res) st' = None"
    using failed_evidence_status[OF failed[OF that(1)]] that(2) by (simp add: executed_view_def)
  moreover have "record_failed_execution_evidence (executed_view res k) y ?st2 = (None, ?st2)"
    using there by (auto simp: record_failed_execution_evidence_def executed_view_def)
  ultimately show ?thesis by (auto simp: Let_def)
qed

section \<open>Witnesses\<close>

lemma rebuilt_index_agrees_witness:
  "\<exists>live built. index_get ''e'' (op_rows (snd sample_observed)) = Some live \<and>
     index_get ''e'' (op_rows (rebuild_index (snd sample_observed))) = Some built \<and>
     ir_effective built = ir_effective live \<and> ir_verified built = ir_verified live \<and>
     ir_core built = ir_core live \<and> ir_above built = ir_above live \<and> ir_notified built"
proof (rule rebuilt_index_agrees[OF sample_observed])
  show "adapter_name_ok ''docker''" by code_simp
  show "core_only ''e'' (op_gov sample_ops)" by (simp add: core_only_def sample_ops_def sample_start_def empty_store_def)
  show "index_get ''e'' (op_rows sample_ops) = None" by (simp add: index_get_def sample_ops_def)
qed (simp add: sample_observer)

lemma inconclusive_alerted_once_witness:
  "alerted ''e'' (sample_unseen (sample_unseen sample_ops)) \<le> 1 \<and>
   (alerted ''e'' (sample_unseen (sample_unseen sample_ops)) = 0 \<or> flagged ''e'' (sample_unseen (sample_unseen sample_ops)))"
proof (rule inconclusive_alerted_once)
  show "ops_run sample_ops (sample_unseen (sample_unseen sample_ops))"
    by (rule run_step[OF run_step[OF run_refl]]) (rule verify_step, rule sample_unseen)+
qed (simp_all add: sample_ops_def)

lemma verification_settles_witness:
  "\<exists>v s'. verify_executed_action sample_probes ''e'' ''docker'' ''restart'' ''web'' None None sample_ops = Some (v, s') \<and>
     ver_status v = verified_success"
  using verification_settles[OF sample_clock, of "''e''" "''docker''" "''restart''" "''web''" None None sample_ops] sample_settle
  by (auto simp: sample_observer sample_expected verify_executed_action_def save_above_core_def fresh_id_def Let_def verifier_verified
      split: prod.splits)

lemma every_execution_has_evidence_witness:
  "\<exists>res v st'. execute_governed_action (sample_action False) ''simulation'' sample_gov = (Executed res v, st') \<and>
     get_verification (res_execution_id res) (snd (record_failed_execution_evidence (executed_view res None) None st')) \<noteq> None"
  using sample_executed_id every_execution_has_evidence[where h = "[]" and who = "[]" and ok = False and k = None and x = None and y = None]
  by metis

end
