(* ===== verification/Ops_Config.thy ===== *)
theory Ops_Config
  imports Py_Json Keyed_Table
begin

text \<open>
  The operational configuration and the guards in front of the HTTP surface: the environment
  parsers of \<open>ops/ops_config.py\<close>, operator authentication (\<open>ops/auth.py\<close>) and the rate limiter
  (\<open>ops/ratelimit.py\<close>). The environment is a map; a credential file is the text it holds, if it
  can be read. The constant-time comparison of tokens is equality. \<open>int()\<close> accepts an optional
  sign and digits here; its underscores are left out.
\<close>

section \<open>Text\<close>

fun split_on :: "char \<Rightarrow> string \<Rightarrow> string list" where
  "split_on c [] = [[]]"
| "split_on c (x # xs) = (case split_on c xs of
     [] \<Rightarrow> []
   | y # ys \<Rightarrow> if x = c then [] # y # ys else (x # y) # ys)"

text \<open>The parts before and after the first separator; without one, everything and nothing.\<close>

definition partition_on :: "char \<Rightarrow> string \<Rightarrow> string \<times> string" where
  "partition_on c s = (takeWhile (\<lambda>x. x \<noteq> c) s, drop 1 (dropWhile (\<lambda>x. x \<noteq> c) s))"

section \<open>Environment\<close>

type_synonym env = "string \<Rightarrow> string option"

datatype flag = Flag bool | NotExplicit

definition env_bool :: "env \<Rightarrow> string \<Rightarrow> bool \<Rightarrow> bool \<Rightarrow> flag" where
  "env_bool env name dflt strict =
     (case env name of
        None \<Rightarrow> Flag dflt
      | Some raw \<Rightarrow>
         (let value = lower (strip raw) in
          if value \<in> {''1'', ''true'', ''yes'', ''on''} then Flag True
          else if strict \<and> value \<notin> {''0'', ''false'', ''no'', ''off''} then NotExplicit
          else Flag False))"

definition is_on :: "flag \<Rightarrow> bool" where
  "is_on f = (f = Flag True)"

definition parse_int :: "string \<Rightarrow> int option" where
  "parse_int raw =
     (let s = strip raw; digits = (case s of [] \<Rightarrow> [] | c # r \<Rightarrow> if c \<in> {CHR ''-'', CHR ''+''} then r else s) in
      if digits \<noteq> [] \<and> list_all is_digit digits
      then Some (if hd s = CHR ''-'' then - int (read_nat digits) else int (read_nat digits)) else None)"

definition env_int :: "env \<Rightarrow> string \<Rightarrow> int \<Rightarrow> int" where
  "env_int env name dflt =
     (case env name of None \<Rightarrow> dflt | Some raw \<Rightarrow> (case parse_int raw of None \<Rightarrow> dflt | Some i \<Rightarrow> i))"

definition auth_enabled :: "env \<Rightarrow> flag" where
  "auth_enabled env = env_bool env ''RMT_AUTH_ENABLED'' True True"

definition separation_enabled :: "env \<Rightarrow> bool" where
  "separation_enabled env = is_on (env_bool env ''RMT_AUTH_SEPARATION'' False False)"

definition evidence_retention_days :: "env \<Rightarrow> int" where
  "evidence_retention_days env = env_int env ''RMT_EVIDENCE_RETENTION_DAYS'' 90"

definition notify_min_interval_seconds :: "env \<Rightarrow> int" where
  "notify_min_interval_seconds env = env_int env ''RMT_NOTIFY_MIN_INTERVAL_SECONDS'' 60"

definition ratelimit_enabled :: "env \<Rightarrow> bool" where
  "ratelimit_enabled env = is_on (env_bool env ''RMT_RATELIMIT_ENABLED'' True False)"

definition ratelimit_execute_per_min :: "env \<Rightarrow> int" where
  "ratelimit_execute_per_min env = env_int env ''RMT_RATELIMIT_EXECUTE_PER_MINUTE'' 30"

definition ratelimit_agent_per_min :: "env \<Rightarrow> int" where
  "ratelimit_agent_per_min env = env_int env ''RMT_RATELIMIT_AGENT_PER_MINUTE'' 20"

definition env_or_empty :: "env \<Rightarrow> string \<Rightarrow> string" where
  "env_or_empty env name = (case env name of None \<Rightarrow> [] | Some s \<Rightarrow> s)"

text \<open>\<open>credential\<close>: the contents of the credential file, where the directory is set and it can be read.\<close>

definition operator_tokens_raw :: "string option \<Rightarrow> env \<Rightarrow> string" where
  "operator_tokens_raw credential env = (case credential of Some s \<Rightarrow> s | None \<Rightarrow> env_or_empty env ''RMT_OPERATOR_TOKENS'')"

definition token_entry :: "string \<Rightarrow> (string \<times> string) option" where
  "token_entry raw =
     (let entry = strip raw; (n, t) = partition_on CHR '':'' entry; name = strip n; token = strip t in
      if CHR '':'' \<notin> set entry \<or> name = [] \<or> token = [] then None else Some (token, name))"

text \<open>Token and name; a token that is listed twice names the operator of its last entry.\<close>

definition operator_tokens :: "string option \<Rightarrow> env \<Rightarrow> (string \<times> string) list" where
  "operator_tokens credential env =
     fold (\<lambda>e out. case token_entry e of None \<Rightarrow> out | Some p \<Rightarrow> table_put fst p out)
       (split_on CHR '','' (operator_tokens_raw credential env)) []"

definition attestation_signing_key :: "string option \<Rightarrow> env \<Rightarrow> string option" where
  "attestation_signing_key credential env =
     or_str (map_option strip credential) (or_str (Some (strip (env_or_empty env ''RMT_ATTESTATION_SIGNING_KEY''))) None)"

definition add_new :: "'a list \<Rightarrow> 'a list \<Rightarrow> 'a list" where
  "add_new xs bucket = fold (\<lambda>x b. if x \<in> set b then b else b @ [x]) xs bucket"

definition dependency_group :: "string \<Rightarrow> (string \<times> string list) option" where
  "dependency_group raw =
     (let g = strip raw; (c, d) = partition_on CHR '':'' g; comp = strip c;
          deps = filter (\<lambda>x. x \<noteq> []) (List.map strip (split_on CHR '','' d)) in
      if CHR '':'' \<notin> set g \<or> comp = [] \<or> deps = [] then None else Some (comp, deps))"

definition add_edges :: "string \<times> string list \<Rightarrow> (string \<times> string list) list \<Rightarrow> (string \<times> string list) list" where
  "add_edges g m = (let bucket = (case table_get fst (fst g) m of None \<Rightarrow> [] | Some p \<Rightarrow> snd p)
     in table_put fst (fst g, add_new (snd g) bucket) m)"

definition homelab_dependency_edges :: "env \<Rightarrow> (string \<times> string list) list" where
  "homelab_dependency_edges env =
     (let raw = strip (env_or_empty env ''RMT_HOMELAB_DEPENDENCIES'') in
      if raw = [] then []
      else fold (\<lambda>g m. case dependency_group g of None \<Rightarrow> m | Some p \<Rightarrow> add_edges p m) (split_on CHR '';'' raw) [])"

definition cors_origins :: "env \<Rightarrow> string list" where
  "cors_origins env =
     (let raw = strip (env_or_empty env ''RMT_CORS_ORIGINS'') in
      if raw = [] then [''http://localhost:5173'']
      else filter (\<lambda>x. x \<noteq> []) (List.map strip (split_on CHR '','' raw)))"

section \<open>Operator authentication\<close>

datatype auth_result = Misconfigured | Unauthenticated | InvalidToken | Operator string

definition match_token :: "string \<Rightarrow> (string \<times> string) list \<Rightarrow> string option" where
  "match_token presented tokens = fold (\<lambda>(t, n) m. if presented = t then Some n else m) tokens None"

definition extract_token :: "string option \<Rightarrow> string option \<Rightarrow> string option" where
  "extract_token authorization x_api_key =
     (let key = or_str (map_option strip x_api_key) None in
      case or_str authorization None of
        None \<Rightarrow> key
      | Some a \<Rightarrow> (let (scheme, value) = partition_on CHR '' '' a in
          if lower scheme = ''bearer'' \<and> strip value \<noteq> [] then Some (strip value) else key))"

definition resolve_operator :: "string option \<Rightarrow> env \<Rightarrow> string option \<Rightarrow> string option \<Rightarrow> auth_result" where
  "resolve_operator credential env authorization x_api_key =
     (case auth_enabled env of
        NotExplicit \<Rightarrow> Misconfigured
      | Flag False \<Rightarrow> Operator ''local-dev''
      | Flag True \<Rightarrow>
         (let tokens = operator_tokens credential env in
          if tokens = [] then Misconfigured
          else (case extract_token authorization x_api_key of
              None \<Rightarrow> Unauthenticated
            | Some presented \<Rightarrow> (case match_token presented tokens of None \<Rightarrow> InvalidToken | Some n \<Rightarrow> Operator n))))"

text \<open>The application refuses to start with authentication on and no token.\<close>

definition startup_allowed :: "string option \<Rightarrow> env \<Rightarrow> bool" where
  "startup_allowed credential env =
     (case auth_enabled env of NotExplicit \<Rightarrow> False | Flag False \<Rightarrow> True | Flag True \<Rightarrow> operator_tokens credential env \<noteq> [])"

section \<open>Rate limiting\<close>

type_synonym hits = "string \<times> string \<Rightarrow> (instant \<times> int) option"

definition rate_window :: int where "rate_window = seconds 60"

text \<open>Whether the request is over the limit, and the counters after it.\<close>

definition rate_check :: "string \<times> string \<Rightarrow> int \<Rightarrow> instant \<Rightarrow> hits \<Rightarrow> bool \<times> hits" where
  "rate_check key limit now hits =
     (let (start, count) = (case hits key of None \<Rightarrow> (now, 0) | Some p \<Rightarrow> p);
          (start', count') = (if rate_window \<le> now - start then (now, 1) else (start, count + 1))
      in (limit < count', hits(key \<mapsto> (start', count'))))"

definition rate_limit :: "env \<Rightarrow> string \<Rightarrow> string \<Rightarrow> int \<Rightarrow> instant \<Rightarrow> hits \<Rightarrow> bool \<times> hits" where
  "rate_limit env who bucket limit now hits =
     (if \<not> ratelimit_enabled env then (False, hits) else rate_check (who, bucket) limit now hits)"

section \<open>What the guards establish\<close>

lemma match_fold:
  "fold (\<lambda>(t, n) m. if p = t then Some n else m) ts m = Some n \<Longrightarrow> (p, n) \<in> set ts \<or> m = Some n"
proof (induction ts arbitrary: m)
  case (Cons e ts)
  obtain t b where e: "e = (t, b)" by (cases e)
  show ?case using Cons.IH[of "if p = t then Some b else m"] Cons.prems e by (auto split: if_splits)
qed simp

lemma match_token_member: "match_token p tokens = Some n \<Longrightarrow> (p, n) \<in> set tokens"
  using match_fold[of p tokens None n] by (simp add: match_token_def)

lemma tokens_from_entries:
  assumes "(t, n) \<in> set (operator_tokens credential env)"
  shows "\<exists>e\<in>set (split_on CHR '','' (operator_tokens_raw credential env)). token_entry e = Some (t, n)"
proof -
  have "set (fold (\<lambda>e out. case token_entry e of None \<Rightarrow> out | Some p \<Rightarrow> table_put fst p out) es out) \<subseteq>
      set out \<union> {p. \<exists>e\<in>set es. token_entry e = Some p}" for es and out :: "(string \<times> string) list"
  proof (induction es arbitrary: out)
    case (Cons e es)
    then show ?case using set_table_put[of fst _ out] by (fastforce split: option.splits)
  qed simp
  from this[of "split_on CHR '','' (operator_tokens_raw credential env)" "[]"] show ?thesis
    using assms by (auto simp: operator_tokens_def)
qed

lemma strip_not_empty_token: "token_entry e = Some (t, n) \<Longrightarrow> t \<noteq> [] \<and> n \<noteq> []"
  by (auto simp: token_entry_def Let_def split: prod.splits if_splits)

text \<open>Who is taken for an operator presented a token the configuration lists for that name.\<close>

lemma operator_is_listed:
  assumes "resolve_operator credential env authorization x_api_key = Operator n" and "auth_enabled env \<noteq> Flag False"
  shows "\<exists>t e. extract_token authorization x_api_key = Some t \<and>
     e \<in> set (split_on CHR '','' (operator_tokens_raw credential env)) \<and> token_entry e = Some (t, n)"
proof -
  obtain t where t: "extract_token authorization x_api_key = Some t" "match_token t (operator_tokens credential env) = Some n"
    using assms by (auto simp: resolve_operator_def Let_def split: flag.splits bool.splits option.splits if_splits)
  then show ?thesis using tokens_from_entries[OF match_token_member[OF t(2)]] by blast
qed

end
