(* ===== verification/Agent_Surface.thy ===== *)
theory Agent_Surface
  imports Homelab_Remediation Ops_Config
begin

text \<open>
  The agent surface (\<open>agent/authority.py\<close>, \<open>contract.py\<close>, \<open>dependency_guard.py\<close>, \<open>adapter.py\<close>,
  \<open>preview.py\<close>) with the homelab dependency map (\<open>homelab/dependencies.py\<close>), separation of duties
  (\<open>ops/separation.py\<close>) and the view of open holds (\<open>ops/held_holds.py\<close>).
  Grants live in a durable store; provenance is a dict in memory. Log lines are left out. One clock
  serves \<open>datetime.now\<close> and \<open>time.time\<close>.
\<close>

section \<open>State\<close>

record grant =
  gr_id :: ident
  gr_operation :: string
  gr_target :: string
  gr_by :: string
  gr_expires :: instant
  gr_consumed :: bool
  gr_consumed_at :: "instant option"
  gr_created_at :: instant

record hold_provenance =
  hp_approval :: ident
  hp_grant :: "ident option"
  hp_granted_by :: "string option"
  hp_agent :: "string option"
  hp_recorded :: instant

record 'w agent =
  ag_home :: "'w home"
  ag_grants :: "grant store"
  ag_provenance :: "hold_provenance list"

record agent_config =
  ac_enabled :: bool
  ac_ttl :: int
  ac_default_approval :: bool
  ac_escalation :: bool
  ac_edges :: "(string \<times> string list) list"
  ac_separation :: bool

abbreviation ag_gov :: "'w agent \<Rightarrow> 'w gov" where
  "ag_gov s \<equiv> hm_gov (ag_home s)"

abbreviation ag_now :: "'w agent \<Rightarrow> instant" where
  "ag_now s \<equiv> g_now (ag_gov s)"

definition agent_with_gov :: "'w gov \<Rightarrow> 'w agent \<Rightarrow> 'w agent" where
  "agent_with_gov g s = s\<lparr>ag_home := with_gov g (ag_home s)\<rparr>"

lemma agent_with_gov_simps [simp]:
  "ag_gov (agent_with_gov g s) = g" "ag_grants (agent_with_gov g s) = ag_grants s"
  "ag_provenance (agent_with_gov g s) = ag_provenance s"
  by (simp_all add: agent_with_gov_def)

section \<open>Authority grants\<close>

definition grant_key :: "grant \<Rightarrow> ident option" where
  "grant_key g = Some (gr_id g)"

interpretation grants: keyed_store gr_id "get_by gr_id" "save grant_key" "update_by gr_id grant_key"
  by (rule keyed_store_durable)

definition get_grant :: "ident \<Rightarrow> 'w agent \<Rightarrow> grant option" where
  "get_grant k s = get_by gr_id k (ag_grants s)"

definition without_dashes :: "ident \<Rightarrow> string" where
  "without_dashes u = filter (\<lambda>c. c \<noteq> CHR ''-'') u"

definition grant_authority ::
  "agent_config \<Rightarrow> string \<Rightarrow> string \<Rightarrow> string \<Rightarrow> int option \<Rightarrow> 'w agent \<Rightarrow> grant \<times> 'w agent" where
  "grant_authority cfg operation target by_whom ttl s =
     (let (u, g) = fresh_id (ag_gov s); now = ag_now s; life = (case ttl of None \<Rightarrow> ac_ttl cfg | Some t \<Rightarrow> t);
          gr = \<lparr>gr_id = take 12 (without_dashes u), gr_operation = operation, gr_target = target, gr_by = by_whom,
                gr_expires = now + seconds life, gr_consumed = False, gr_consumed_at = None, gr_created_at = now\<rparr>;
          s1 = agent_with_gov g s
      in (gr, s1\<lparr>ag_grants := save grant_key gr (ag_grants s1)\<rparr>))"

definition check_authority :: "ident option \<Rightarrow> string \<Rightarrow> string \<Rightarrow> 'w agent \<Rightarrow> bool \<times> string" where
  "check_authority k operation target s =
     (case (case or_str k None of None \<Rightarrow> None | Some x \<Rightarrow> get_grant x s) of
        None \<Rightarrow> (False, ''no_grant'')
      | Some g \<Rightarrow>
          if gr_consumed g then (False, ''grant_consumed'')
          else if gr_expires g \<le> ag_now s then (False, ''grant_expired'')
          else if gr_operation g \<noteq> operation \<or> gr_target g \<noteq> target then (False, ''grant_scope_mismatch'')
          else (True, ''ok''))"

definition consume_grant :: "ident \<Rightarrow> 'w agent \<Rightarrow> bool \<times> 'w agent" where
  "consume_grant k s =
     (case get_grant k s of
        None \<Rightarrow> (False, s)
      | Some g \<Rightarrow>
          if gr_consumed g then (False, s)
          else (True, s\<lparr>ag_grants := update_by gr_id grant_key k
                  (\<lambda>x. x\<lparr>gr_consumed := True, gr_consumed_at := Some (ag_now s)\<rparr>) (ag_grants s)\<rparr>))"

definition list_active :: "'w agent \<Rightarrow> grant list" where
  "list_active s = filter (\<lambda>g. \<not> gr_consumed g \<and> ag_now s < gr_expires g) (mem (ag_grants s))"

definition reset_authority :: "'w agent \<Rightarrow> 'w agent" where
  "reset_authority s = s\<lparr>ag_grants := replace_records grant_key [] (ag_grants s)\<rparr>"

section \<open>Dependencies\<close>

definition homelab_dependencies :: "(string \<times> string list) list" where
  "homelab_dependencies = [(''portainer'', []), (''dozzle'', []), (''uptime-kuma'', [])]"

definition merged_map :: "(string \<times> string list) list \<Rightarrow> (string \<times> string list) list" where
  "merged_map edges = fold add_edges edges homelab_dependencies"

definition dependencies_of :: "(string \<times> string list) list \<Rightarrow> string \<Rightarrow> string list" where
  "dependencies_of edges c = (case table_get fst c (merged_map edges) of None \<Rightarrow> [] | Some p \<Rightarrow> snd p)"

definition homelab_dependents_of :: "(string \<times> string list) list \<Rightarrow> string \<Rightarrow> string list" where
  "homelab_dependents_of edges c = List.map fst (filter (\<lambda>p. c \<in> set (snd p)) (merged_map edges))"

definition context_names :: "string list" where
  "context_names = [''portainer'', ''uptime-kuma'', ''dozzle'']"

definition dependents_of :: "(string \<times> string list) list \<Rightarrow> string \<Rightarrow> string list" where
  "dependents_of edges c =
     sort (remdups (homelab_dependents_of edges c @
       filter (\<lambda>n. case get_component_context n of None \<Rightarrow> False | Some x \<Rightarrow> c \<in> set (cx_dependencies x)) context_names))"

definition list_text :: "string list \<Rightarrow> string" where
  "list_text xs = ''['' @ join_commas (List.map quoted xs) @ '']''"

definition allowed_effect_operations :: "string list" where
  "allowed_effect_operations = [''start'', ''create'']"

definition escalate_for_dependency_cascade :: "agent_config \<Rightarrow> string \<Rightarrow> string \<Rightarrow> bool \<times> string" where
  "escalate_for_dependency_cascade cfg target operation =
     (if \<not> ac_escalation cfg then (False, [])
      else if operation \<notin> set allowed_effect_operations then (False, [])
      else (let deps = dependents_of (ac_edges cfg) target in
        if deps = [] then (False, [])
        else (True, ''T13: allowed op '' @ quoted operation @ '' on '' @ quoted target @ '' would propagate to dependent(s) '' @
               list_text deps @ '' -- a restricted effect via dependency cascade; escalated to human approval'')))"

section \<open>Proposals\<close>

record proposal =
  ap_agent :: string
  ap_context :: string
  ap_goal :: string
  ap_target :: string
  ap_mechanism :: action_type
  ap_reason :: string
  ap_confidence :: int
  ap_expected :: string
  ap_grant :: "ident option"

definition to_expected_outcome :: "proposal \<Rightarrow> expected_outcome" where
  "to_expected_outcome p = \<lparr>exp_target = ap_target p, exp_operation = type_value (ap_mechanism p), exp_state = ap_expected p\<rparr>"

record agent_outcome =
  ao_decision :: string
  ao_status :: "string option"
  ao_execution_id :: "ident option"
  ao_approval_id :: "ident option"
  ao_verification :: "string option"
  ao_escalated :: bool
  ao_learned :: bool
  ao_detail :: string

definition agent_verdict :: "string \<Rightarrow> string option \<Rightarrow> bool \<Rightarrow> string \<Rightarrow> agent_outcome" where
  "agent_verdict d status escalated detail = \<lparr>ao_decision = d, ao_status = status, ao_execution_id = None, ao_approval_id = None,
     ao_verification = None, ao_escalated = escalated, ao_learned = False, ao_detail = detail\<rparr>"

record resolution =
  rs_auth_ok :: bool
  rs_auth_reason :: string
  rs_escalate :: bool
  rs_esc_reason :: string
  rs_action :: action

definition resolve_proposal :: "agent_config \<Rightarrow> proposal \<Rightarrow> 'w agent \<Rightarrow> resolution \<times> 'w agent" where
  "resolve_proposal cfg p s =
     (let operation = type_value (ap_mechanism p);
          (ok, why) = check_authority (ap_grant p) operation (ap_target p) s;
          (esc, esc_why) = escalate_for_dependency_cascade cfg (ap_target p) operation;
          (u, g1) = fresh_id (ag_gov s); (i, g2) = fresh_id g1
      in (\<lparr>rs_auth_ok = ok, rs_auth_reason = why, rs_escalate = esc, rs_esc_reason = esc_why,
           rs_action = \<lparr>act_id = i, act_created_at = ag_now s, act_decision_id = ''agent-'' @ ap_agent p @ ''-'' @ take 8 u,
             act_domain = default_domain, act_component = ap_target p, act_type = ap_mechanism p, act_status = APending,
             act_reason = (if ap_reason p = [] then ap_goal p else ap_reason p), act_confidence = ap_confidence p,
             act_requires_approval = (esc \<or> ac_default_approval cfg), act_rollback_required = True, act_parameters = [],
             act_expected = Some (to_expected_outcome p)\<rparr>\<rparr>,
          agent_with_gov g2 s))"

definition context_adapter :: "string \<Rightarrow> 'w home \<Rightarrow> string" where
  "context_adapter context h =
     (if context = ''homelab'' then resolve_adapter_name h
      else if g_adapters (hm_gov h) context \<noteq> None then context else ''simulation'')"

definition rationale :: "proposal \<Rightarrow> pyval" where
  "rationale p = PDict [(''goal'', PStr (ap_goal p)), (''reason'', PStr (ap_reason p)),
     (''mechanism'', PStr (type_value (ap_mechanism p))), (''operational_context'', PStr (ap_context p))]"

section \<open>Separation of duties\<close>

interpretation provenance_table: keyed_table hp_approval "table_get hp_approval" "table_put hp_approval"
  by (rule keyed_table_list)

definition provenance_max_age :: int where "provenance_max_age = seconds 3600"

definition record_hold_provenance ::
  "ident option \<Rightarrow> ident option \<Rightarrow> string option \<Rightarrow> string option \<Rightarrow> 'w agent \<Rightarrow> 'w agent" where
  "record_hold_provenance approval_id grant_id by_whom agent_id s =
     (case or_str approval_id None of
        None \<Rightarrow> s
      | Some k \<Rightarrow>
         s\<lparr>ag_provenance := table_put hp_approval
             \<lparr>hp_approval = k, hp_grant = grant_id, hp_granted_by = by_whom, hp_agent = agent_id, hp_recorded = ag_now s\<rparr>
             (filter (\<lambda>v. \<not> provenance_max_age < ag_now s - hp_recorded v) (ag_provenance s))\<rparr>)"

definition get_hold_provenance :: "ident \<Rightarrow> 'w agent \<Rightarrow> hold_provenance option \<times> 'w agent" where
  "get_hold_provenance k s =
     (if k = [] then (None, s)
      else (case table_get hp_approval k (ag_provenance s) of
        None \<Rightarrow> (None, s)
      | Some v \<Rightarrow> if provenance_max_age < ag_now s - hp_recorded v
                 then (None, s\<lparr>ag_provenance := filter (\<lambda>x. hp_approval x \<noteq> k) (ag_provenance s)\<rparr>)
                 else (Some v, s)))"

definition check_separation :: "agent_config \<Rightarrow> ident \<Rightarrow> string \<Rightarrow> 'w agent \<Rightarrow> (bool \<times> string) \<times> 'w agent" where
  "check_separation cfg k who s =
     (if \<not> ac_separation cfg then ((True, ''separation_disabled''), s)
      else (case get_hold_provenance k s of
        (None, s1) \<Rightarrow> ((True, ''not_agent_originated''), s1)
      | (Some v, s1) \<Rightarrow>
          if who \<noteq> [] \<and> truthy_str (hp_granted_by v) \<and> hp_granted_by v = Some who then ((False, ''approver_is_grantor''), s1)
          else if who \<noteq> [] \<and> truthy_str (hp_agent v) \<and> hp_agent v = Some who then ((False, ''approver_is_proposer''), s1)
          else ((True, ''ok''), s1)))"

section \<open>\<open>propose_and_govern\<close>\<close>

definition on_home :: "('w home \<Rightarrow> 'w home) \<Rightarrow> 'w agent \<Rightarrow> 'w agent" where
  "on_home f s = s\<lparr>ag_home := f (ag_home s)\<rparr>"

definition notify_agent_hold :: "proposal \<Rightarrow> ident option \<Rightarrow> string \<Rightarrow> 'w home \<Rightarrow> 'w home" where
  "notify_agent_hold p k detail h = h\<lparr>hm_ops := notify_held ''agent_proposal'' (ap_target p) k detail ''agent_adapter'' (hm_ops h)\<rparr>"

definition agent_held :: "proposal \<Rightarrow> agent_outcome \<Rightarrow> outcome_view \<Rightarrow> 'w agent \<Rightarrow> agent_outcome \<times> 'w agent" where
  "agent_held p ao ov s =
     (let s1 = record_hold_provenance (ov_approval_id ov) (ap_grant p)
            (case ap_grant p of None \<Rightarrow> None | Some k \<Rightarrow> map_option gr_by (get_grant k s)) (Some (ap_agent p)) s;
          s2 = on_home (record_learning (ap_target p) ov (Some (ap_confidence p)) (Some (rationale p))) s1
      in (ao\<lparr>ao_decision := if ao_escalated ao then ''escalated_hold'' else ''hold'', ao_approval_id := ov_approval_id ov, ao_learned := True\<rparr>,
          on_home (notify_agent_hold p (ov_approval_id ov) (ao_detail ao)) s2))"

definition agent_learn :: "proposal \<Rightarrow> agent_outcome \<Rightarrow> outcome_view \<Rightarrow> 'w agent \<Rightarrow> agent_outcome \<times> 'w agent" where
  "agent_learn p ao ov s =
     (ao\<lparr>ao_decision := ''allow'', ao_execution_id := ov_execution_id ov, ao_verification := ov_docker_status ov, ao_learned := True\<rparr>,
      on_home (record_learning (ap_target p) ov (Some (ap_confidence p)) (Some (rationale p))) s)"

definition agent_executed ::
  "probes \<Rightarrow> proposal \<Rightarrow> string \<Rightarrow> action \<Rightarrow> agent_outcome \<Rightarrow> outcome_view \<Rightarrow> 'w agent \<Rightarrow> (agent_outcome \<times> 'w agent) option" where
  "agent_executed P p adapter a ao ov s =
     (if ov_success ov = Some True then
        (case verify_run P ov adapter a (ag_home s) of
           None \<Rightarrow> None
         | Some (ov', h) \<Rightarrow> Some (agent_learn p ao ov' (s\<lparr>ag_home := h\<rparr>)))
      else (let (f, g) = record_failed_execution_evidence ov (act_expected a) (ag_gov s)
            in Some (agent_learn p ao (ov\<lparr>ov_docker_status := map_option ver_status f\<rparr>) (agent_with_gov g s))))"

definition governed_verdict ::
  "probes \<Rightarrow> proposal \<Rightarrow> resolution \<Rightarrow> string \<Rightarrow> outcome_view \<Rightarrow> 'w agent \<Rightarrow> (agent_outcome \<times> 'w agent) option" where
  "governed_verdict P p r adapter ov s =
     (let status = ov_status ov;
          detail = the (or_str (Some (rs_esc_reason r)) (or_str (ov_reason ov) (Some [])));
          ao = agent_verdict [] (Some status) (rs_escalate r) detail;
          s1 = (if status \<in> {''executed'', ''manual_approval_required''} \<and> ap_grant p \<noteq> None
                then snd (consume_grant (the (ap_grant p)) s) else s)
      in if status = ''manual_approval_required'' then Some (agent_held p ao ov s1)
         else if status = ''executed'' then agent_executed P p adapter (rs_action r) ao ov s1
         else Some (ao\<lparr>ao_decision := if status \<in> {''policy_denied'', ''authorization_not_created''} then ''deny'' else ''rejected''\<rparr>, s1))"

definition propose_and_govern ::
  "probes \<Rightarrow> agent_config \<Rightarrow> proposal \<Rightarrow> 'w agent \<Rightarrow> (agent_outcome \<times> 'w agent) option" where
  "propose_and_govern P cfg p s =
     (if \<not> ac_enabled cfg then Some (agent_verdict ''disabled'' None False ''agent surface disabled (RMT_AGENT_ENABLED)'', s)
      else
       (let (r, s1) = resolve_proposal cfg p s in
        if \<not> rs_auth_ok r then Some (agent_verdict ''no_authority'' None False (rs_auth_reason r), s1)
        else
         (let adapter = context_adapter (ap_context p) (ag_home s1);
              (out, g) = execute_governed_action (rs_action r) adapter (ag_gov s1);
              s2 = agent_with_gov g s1
          in case outcome_dict (rs_action r) adapter out of
               None \<Rightarrow> Some (agent_verdict ''error'' None (rs_escalate r) exception_text, s2)
             | Some ov \<Rightarrow> governed_verdict P p r adapter ov s2)))"

section \<open>Preview\<close>

datatype agent_preview =
    PreviewDisabled
  | NothingToPreview
  | PreviewFailed string
  | PreviewRaised
  | Predicted action bool string bool policy_result risk_result approval_decision

definition preview_proposal :: "agent_config \<Rightarrow> proposal \<Rightarrow> 'w agent \<Rightarrow> agent_preview \<times> 'w agent" where
  "preview_proposal cfg p s =
     (if \<not> ac_enabled cfg then (PreviewDisabled, s)
      else if ap_goal p = [] \<or> ap_target p = [] then (NothingToPreview, s)
      else
       (let (r, s1) = resolve_proposal cfg p s; adapter = context_adapter (ap_context p) (ag_home s1) in
        case resolve_assessment (ag_gov s1) (rs_action r) adapter of
          Inl UnhashableRiskLevel \<Rightarrow> (PreviewRaised, s1)
        | Inl e \<Rightarrow> (PreviewFailed (assess_text (rs_action r) adapter e), s1)
        | Inr (asmt, g) \<Rightarrow>
           (let (d, g') = process_approval (rs_action r) (asm_policy asmt) (asm_risk asmt) g
            in (Predicted (rs_action r) (rs_auth_ok r) (rs_auth_reason r) (rs_escalate r) (asm_policy asmt) (asm_risk asmt) d,
                agent_with_gov g' s1))))"

section \<open>Open holds\<close>

record open_hold =
  oh_approval :: ident
  oh_component :: string
  oh_type :: string
  oh_created :: instant
  oh_expires :: "instant option"
  oh_age :: int
  oh_expired :: bool
  oh_decision :: "string option"
  oh_terminal :: bool
  oh_actionable :: bool
  oh_kind :: string
  oh_granted_by :: "string option"
  oh_agent :: "string option"

definition open_hold_view :: "approval_hold \<Rightarrow> 'w agent \<Rightarrow> open_hold \<times> 'w agent" where
  "open_hold_view x s =
     (let now = ag_now s; d = map_option ar_decision (get_record (hold_id x) (ag_gov s));
          terminal = (d \<in> {Some ''approved'', Some ''rejected''});
          past = (case hold_expires_at x of None \<Rightarrow> False | Some t \<Rightarrow> t < now);
          (v, s1) = get_hold_provenance (hold_id x) s
      in (\<lparr>oh_approval = hold_id x, oh_component = act_component (hold_action x), oh_type = type_value (act_type (hold_action x)),
           oh_created = hold_created_at x, oh_expires = hold_expires_at x, oh_age = now - hold_created_at x, oh_expired = past,
           oh_decision = d, oh_terminal = terminal, oh_actionable = (\<not> past \<and> \<not> terminal),
           oh_kind = (if v = None then ''held_action'' else ''agent_proposal''),
           oh_granted_by = (case v of None \<Rightarrow> None | Some w \<Rightarrow> hp_granted_by w),
           oh_agent = (case v of None \<Rightarrow> None | Some w \<Rightarrow> hp_agent w)\<rparr>, s1))"

fun open_holds :: "approval_hold list \<Rightarrow> 'w agent \<Rightarrow> open_hold list \<times> 'w agent" where
  "open_holds [] s = ([], s)"
| "open_holds (x # xs) s =
     (if hold_status x \<noteq> Pending then open_holds xs s
      else (let (v, s1) = open_hold_view x s; (vs, s2) = open_holds xs s1 in (v # vs, s2)))"

definition open_holds_view :: "'w agent \<Rightarrow> open_hold list \<times> 'w agent" where
  "open_holds_view s = open_holds (mem (g_holds (ag_gov s))) s"

end
