(* ===== verification/Evidence_View.thy ===== *)
theory Evidence_View
  imports Agent_Surface Json_Text
begin

text \<open>
  The read-only view of the evidence of one governed action (\<open>ops/evidence_chain.py\<close>), the signed
  bundle it is exported in (\<open>ops/attestation.py\<close>) and the offline verifier
  (\<open>scripts/rmt-attestation-verify.py\<close>).
  The JSON form of a record is pydantic's \<open>model_dump\<close> and enters as one function per record type;
  HMAC-SHA256 in hexadecimal is a function of key and text. A character of a string is its code
  point. A store read does not fail here, floats are finite, and no object of a bundle file repeats a key.
\<close>

section \<open>The chain of one action\<close>

record chain =
  ch_action :: "ident option"
  ch_approval :: "ident option"
  ch_execution :: "ident option"
  ch_auths :: "authorization list"
  ch_records :: "approval_record list"
  ch_holds :: "approval_hold list"
  ch_audits :: "audit list"
  ch_traces :: "trace list"
  ch_verifs :: "verification_result list"
  ch_provenance :: "hold_provenance list"

definition empty_chain :: "ident option \<Rightarrow> ident option \<Rightarrow> ident option \<Rightarrow> chain" where
  "empty_chain action approval execution = \<lparr>ch_action = action, ch_approval = approval, ch_execution = execution,
     ch_auths = [], ch_records = [], ch_holds = [], ch_audits = [], ch_traces = [], ch_verifs = [], ch_provenance = []\<rparr>"

text \<open>A record has an identifier of each kind or none.\<close>

definition matches_ids ::
  "ident option \<Rightarrow> ident option \<Rightarrow> ident option \<Rightarrow> ident option \<Rightarrow> ident option \<Rightarrow> ident option \<Rightarrow> bool" where
  "matches_ids action approval execution rec_action rec_approval rec_execution \<longleftrightarrow>
     truthy_str action \<and> rec_action = action \<or> truthy_str approval \<and> rec_approval = approval \<or>
     truthy_str execution \<and> rec_execution = execution"

text \<open>The first action id, if one is not empty, among the records that carry the wanted identifier.\<close>

definition first_action :: "ident option \<Rightarrow> (ident option \<times> ident option) list \<Rightarrow> ident option \<Rightarrow> ident option" where
  "first_action wanted ps current =
     (case find (\<lambda>(k, a). k = wanted \<and> truthy_str a) ps of None \<Rightarrow> current | Some (k, a) \<Rightarrow> a)"

definition resolve_action :: "ident option \<Rightarrow> ident option \<Rightarrow> ident option \<Rightarrow> 'w gov \<Rightarrow> ident option" where
  "resolve_action action approval execution st =
     (let a1 = (if \<not> truthy_str action \<and> truthy_str approval then first_action approval
            (List.map (\<lambda>r. (Some (ar_id r), Some (ar_action_id r))) (mem (g_records st)) @
             List.map (\<lambda>h. (Some (hold_id h), Some (hold_action_id h))) (mem (g_holds st)) @
             List.map (\<lambda>a. (auth_approval_id a, Some (auth_action_id a))) (mem (g_auths st))) action else action)
      in if \<not> truthy_str a1 \<and> truthy_str execution then first_action execution
            (List.map (\<lambda>u. (Some (au_execution_id u), Some (au_action_id u))) (mem (g_audits st)) @
             List.map (\<lambda>t. (Some (tr_execution_id t), Some (tr_action_id t))) (mem (g_traces st))) a1 else a1)"

definition chain_verifications :: "ident option \<Rightarrow> audit list \<Rightarrow> verification_result list \<Rightarrow> verification_result list" where
  "chain_verifications execution audits verifs =
     (let of_audits = filter (\<lambda>k. k \<noteq> []) (List.map au_execution_id audits);
          ids = of_audits @ (case or_str execution None of None \<Rightarrow> [] | Some k \<Rightarrow> [k]);
          exact = filter (\<lambda>v. Some (ver_execution_id v) = execution) verifs
      in if truthy_str execution \<and> exact \<noteq> [] then exact else filter (\<lambda>v. ver_execution_id v \<in> set ids) verifs)"

text \<open>A dict by approval id; reading an expired entry drops it.\<close>

fun chain_provenance :: "approval_hold list \<Rightarrow> 'w agent \<Rightarrow> hold_provenance list \<times> 'w agent" where
  "chain_provenance [] s = ([], s)"
| "chain_provenance (h # hs) s =
     (let (v, s1) = get_hold_provenance (hold_id h) s; (vs, s2) = chain_provenance hs s1
      in (case v of None \<Rightarrow> vs | Some x \<Rightarrow> x # filter (\<lambda>y. hp_approval y \<noteq> hp_approval x) vs, s2))"

definition assemble :: "ident option \<Rightarrow> ident option \<Rightarrow> ident option \<Rightarrow> 'w agent \<Rightarrow> chain \<times> 'w agent" where
  "assemble action approval execution s =
     (let st = ag_gov s; a = resolve_action action approval execution st; mat = matches_ids a approval execution;
          holds = filter (\<lambda>h. mat (Some (hold_action_id h)) (Some (hold_id h)) None) (mem (g_holds st));
          audits = filter (\<lambda>u. mat (Some (au_action_id u)) None (Some (au_execution_id u))) (mem (g_audits st));
          (prov, s1) = chain_provenance holds s
      in (\<lparr>ch_action = a, ch_approval = approval, ch_execution = execution,
           ch_auths = filter (\<lambda>x. mat (Some (auth_action_id x)) (auth_approval_id x) None) (mem (g_auths st)),
           ch_records = filter (\<lambda>r. mat (Some (ar_action_id r)) (Some (ar_id r)) None) (mem (g_records st)),
           ch_holds = holds, ch_audits = audits,
           ch_traces = filter (\<lambda>t. mat (Some (tr_action_id t)) None (Some (tr_execution_id t))) (mem (g_traces st)),
           ch_verifs = chain_verifications execution audits (mem (g_verifs st)), ch_provenance = prov\<rparr>, s1))"

definition evidence_chain :: "ident option \<Rightarrow> ident option \<Rightarrow> ident option \<Rightarrow> 'w agent \<Rightarrow> chain \<times> 'w agent" where
  "evidence_chain action approval execution s =
     (if \<not> truthy_str action \<and> \<not> truthy_str approval \<and> \<not> truthy_str execution
      then (empty_chain action approval execution, s) else assemble action approval execution s)"

section \<open>Signed bundles\<close>

definition canonicalize :: "params \<Rightarrow> string option" where
  "canonicalize payload = map_option ascii_text (dump (PDict payload))"

type_synonym hmac = "string \<Rightarrow> string \<Rightarrow> string"

definition sign :: "hmac \<Rightarrow> string \<Rightarrow> string \<Rightarrow> string" where
  "sign hmac text key = hmac key text"

text \<open>\<open>compare_digest\<close> raises unless both arguments are ASCII strings: \<open>None\<close>.\<close>

definition compare_digest :: "string \<Rightarrow> pyval \<Rightarrow> bool option" where
  "compare_digest expected v =
     (case v of PStr signature \<Rightarrow>
        if list_all (\<lambda>c. (of_char c :: nat) < 128) (expected @ signature) then Some (expected = signature) else None
      | _ \<Rightarrow> None)"

definition verify_signature :: "hmac \<Rightarrow> string \<Rightarrow> string \<Rightarrow> pyval \<Rightarrow> bool option" where
  "verify_signature hmac text key signature = compare_digest (sign hmac text key) signature"

record dumper =
  dm_auth :: "authorization \<Rightarrow> pyval"
  dm_record :: "approval_record \<Rightarrow> pyval"
  dm_hold :: "approval_hold \<Rightarrow> pyval"
  dm_audit :: "audit \<Rightarrow> pyval"
  dm_trace :: "trace \<Rightarrow> pyval"
  dm_verif :: "verification_result \<Rightarrow> pyval"
  dm_provenance :: "hold_provenance \<Rightarrow> pyval"
  dm_instant :: "instant \<Rightarrow> string"

definition chain_json :: "dumper \<Rightarrow> chain \<Rightarrow> pyval" where
  "chain_json D c = PDict
     [(''resolved'', PDict [(''action_id'', opt_text (ch_action c)), (''approval_id'', opt_text (ch_approval c)),
        (''execution_id'', opt_text (ch_execution c))]),
      (''authorizations'', PList (List.map (dm_auth D) (ch_auths c))),
      (''approvals'', PList (List.map (dm_record D) (ch_records c))),
      (''holds'', PList (List.map (dm_hold D) (ch_holds c))),
      (''audit'', PList (List.map (dm_audit D) (ch_audits c))),
      (''traces'', PList (List.map (dm_trace D) (ch_traces c))),
      (''verifications'', PList (List.map (dm_verif D) (ch_verifs c))),
      (''provenance'', PDict (List.map (\<lambda>v. (hp_approval v, dm_provenance D v)) (ch_provenance c)))]"

definition build_payload :: "dumper \<Rightarrow> chain \<Rightarrow> instant \<Rightarrow> params" where
  "build_payload D c now = [(''format_version'', PInt 1), (''generated_at'', PStr (dm_instant D now)), (''chain'', chain_json D c)]"

definition signature_block :: "string \<Rightarrow> pyval" where
  "signature_block signature = PDict [(''algorithm'', PStr ''HMAC-SHA256''), (''value'', PStr signature)]"

text \<open>\<open>None\<close>: the payload cannot be serialised and \<open>canonicalize\<close> raises.\<close>

definition export_bundle ::
  "hmac \<Rightarrow> dumper \<Rightarrow> ident option \<Rightarrow> ident option \<Rightarrow> ident option \<Rightarrow> string \<Rightarrow> 'w agent \<Rightarrow> pyval option \<times> 'w agent" where
  "export_bundle hmac D action approval execution key s =
     (let (c, s1) = evidence_chain action approval execution s; payload = build_payload D c (ag_now s1)
      in (map_option (\<lambda>t. PDict (payload @ [(''signature'', signature_block (sign hmac t key))])) (canonicalize payload), s1))"

definition unsigned :: "params \<Rightarrow> params" where
  "unsigned kvs = filter (\<lambda>p. fst p \<noteq> ''signature'') kvs"

definition verify_bundle :: "hmac \<Rightarrow> pyval \<Rightarrow> string \<Rightarrow> bool" where
  "verify_bundle hmac bundle key =
     (case bundle of PDict kvs \<Rightarrow>
        (case map_of kvs ''signature'' of Some (PDict sb) \<Rightarrow>
           (case map_of sb ''value'' of
              None \<Rightarrow> False
            | Some v \<Rightarrow> if \<not> py_truthy v then False
                else (case canonicalize (unsigned kvs) of
                        None \<Rightarrow> False
                      | Some t \<Rightarrow> verify_signature hmac t key v = Some True))
         | _ \<Rightarrow> False)
      | _ \<Rightarrow> False)"

section \<open>The offline verifier\<close>

datatype verdict = Valid | Invalid | Malformed | Traceback

text \<open>\<open>None\<close>: a type error of \<open>compare_digest\<close> leaves the call.\<close>

definition offline_verify :: "hmac \<Rightarrow> params \<Rightarrow> string \<Rightarrow> bool option" where
  "offline_verify hmac kvs key =
     (case map_of kvs ''signature'' of Some (PDict sb) \<Rightarrow>
        (case map_of sb ''value'' of
           None \<Rightarrow> Some False
         | Some v \<Rightarrow> if \<not> py_truthy v then Some False
             else (case canonicalize (unsigned kvs) of
                     None \<Rightarrow> None
                   | Some t \<Rightarrow> compare_digest (hmac key t) v))
      | _ \<Rightarrow> Some False)"

text \<open>The signing key as the arguments give it, and the text of the bundle file if it could be read.\<close>

definition offline_main :: "hmac \<Rightarrow> string option \<Rightarrow> string option \<Rightarrow> verdict" where
  "offline_main hmac key file =
     (case or_str key None of
        None \<Rightarrow> Malformed
      | Some k \<Rightarrow> (case file of None \<Rightarrow> Malformed
          | Some text \<Rightarrow> (case loads text of
               Some (PDict kvs) \<Rightarrow>
                 if map_of kvs ''format_version'' = None then Malformed
                 else (case offline_verify hmac kvs k of None \<Rightarrow> Traceback | Some True \<Rightarrow> Valid | Some False \<Rightarrow> Invalid)
             | _ \<Rightarrow> Malformed)))"

end
