(* ===== verification/Retention.thy ===== *)
theory Retention
  imports Governed_Runs "HOL-Library.Multiset"
begin

text \<open>
  Retention of evidence (\<open>ops/retention.py\<close>): at startup the records that are older than the
  retention window move from the six evidence stores to append-only archive files.
  An archive file is the list of its complete lines and whether text without a newline follows them.
  The buffered write may fail anywhere: the fault of a store says how many whole lines reached the
  file and whether part of the next one did. The next append continues the torn text, so its first
  record ends up in an unreadable line. The rewrite of the store may fail too, after the archive is
  written: it is atomic, so the disk keeps every record while the list in memory is already trimmed.
  Log lines are left out.
\<close>

section \<open>Archive files\<close>

datatype 'a archive_line =
    Whole 'a
  | Broken  \<comment> \<open>torn text with a record glued to it\<close>

record 'a archive_file =
  af_lines :: "'a archive_line list"
  af_torn :: bool  \<comment> \<open>the file does not end in a newline\<close>

definition empty_file :: "'a archive_file" where
  "empty_file = \<lparr>af_lines = [], af_torn = False\<rparr>"

definition append_records :: "'a list \<Rightarrow> 'a archive_file \<Rightarrow> 'a archive_file" where
  "append_records rs file =
     (case rs of [] \<Rightarrow> file
      | r # rest \<Rightarrow> \<lparr>af_lines = af_lines file @ (if af_torn file then Broken else Whole r) # List.map Whole rest,
                     af_torn = False\<rparr>)"

definition file_records :: "'a archive_file \<Rightarrow> 'a list" where
  "file_records file = List.map_filter (\<lambda>l. case l of Whole r \<Rightarrow> Some r | Broken \<Rightarrow> None) (af_lines file)"

datatype archive_fault =
    NoFault
  | WriteFault nat bool  \<comment> \<open>whole lines written, and whether part of the next one was\<close>
  | StoreFault

lemma map_filter_append [simp]: "List.map_filter f (xs @ ys) = List.map_filter f xs @ List.map_filter f ys"
  by (simp add: List.map_filter_def)

lemma map_filter_whole [simp]:
  "List.map_filter (\<lambda>l. case l of Whole r \<Rightarrow> Some r | Broken \<Rightarrow> None) (List.map Whole rs) = rs"
  by (induction rs) simp_all

lemma file_records_append:
  "file_records (append_records rs file) = file_records file @ (if af_torn file then drop 1 rs else rs)"
  by (cases rs) (simp_all add: file_records_def append_records_def)

lemma append_accounts:
  "mset rs + mset (file_records file) =
     mset (file_records (append_records rs file)) + mset (if af_torn file then take 1 rs else [])"
  by (cases rs) (simp_all add: file_records_append ac_simps)

lemma af_torn_append: "af_torn (append_records rs file) \<longleftrightarrow> rs = [] \<and> af_torn file"
  by (cases rs) (simp_all add: append_records_def)

lemma file_records_torn [simp]: "file_records (file\<lparr>af_torn := b\<rparr>) = file_records file"
  by (simp add: file_records_def)

lemma prefix_append_records: "prefix (af_lines file) (af_lines (append_records rs file))"
  by (cases rs) (simp_all add: append_records_def)

section \<open>One store\<close>

definition older_than :: "instant option \<Rightarrow> instant \<Rightarrow> bool" where
  "older_than created cutoff = (case created of None \<Rightarrow> False | Some t \<Rightarrow> t < cutoff)"

lemma older_than_Some [simp]: "older_than (Some t) cutoff \<longleftrightarrow> t < cutoff"
  by (simp add: older_than_def)

datatype archive_report =
    SkippedInMemory
  | Archived nat nat  \<comment> \<open>archived, kept\<close>
  | ArchiveError

definition archive_store ::
  "('a \<Rightarrow> string option) \<Rightarrow> ('a \<Rightarrow> instant option) \<Rightarrow> instant \<Rightarrow> archive_fault \<Rightarrow> 'a store \<times> 'a archive_file
     \<Rightarrow> archive_report \<times> 'a store \<times> 'a archive_file" where
  "archive_store key created cutoff fault sf =
     (let (s, file) = sf in
      if backend s = InMemory then (SkippedInMemory, s, file)
      else
       (let keep = filter (\<lambda>r. \<not> older_than (created r) cutoff) (mem s);
            archive = filter (\<lambda>r. older_than (created r) cutoff) (mem s)
        in if archive = [] then (Archived 0 (length keep), s, file)
           else (case fault of
                   WriteFault n torn \<Rightarrow>
                     (let written = append_records (take n archive) file
                      in (ArchiveError, s, if torn \<and> n < length archive then written\<lparr>af_torn := True\<rparr> else written))
                 | StoreFault \<Rightarrow> (ArchiveError, s\<lparr>mem := keep\<rparr>, append_records archive file)
                 | NoFault \<Rightarrow>
                     (Archived (length archive) (length keep), replace_records key keep s, append_records archive file))))"

section \<open>The six stores\<close>

record archives =
  arc_traces :: "trace archive_file"
  arc_audits :: "audit archive_file"
  arc_verifs :: "verification_result archive_file"
  arc_auths :: "authorization archive_file"
  arc_records :: "approval_record archive_file"
  arc_holds :: "approval_hold archive_file"

definition no_archives :: archives where
  "no_archives = \<lparr>arc_traces = empty_file, arc_audits = empty_file, arc_verifs = empty_file, arc_auths = empty_file,
     arc_records = empty_file, arc_holds = empty_file\<rparr>"

type_synonym faults = "string \<Rightarrow> archive_fault"

definition retention_cutoff :: "int \<Rightarrow> 'w gov \<Rightarrow> instant" where
  "retention_cutoff days st = g_now st - days * seconds 86400"

text \<open>\<open>timedelta\<close> and \<open>datetime\<close> raise outside the years 1 to 9999; instants count microseconds from 1970.\<close>

definition first_instant :: instant where
  "first_instant = seconds (- 62135596800)"

datatype retention_result =
    RetentionDisabled int
  | RetentionError
  | RetentionDone int "(string \<times> archive_report) list"

definition archive_aged_evidence ::
  "int \<Rightarrow> faults \<Rightarrow> 'w gov \<Rightarrow> archives \<Rightarrow> retention_result \<times> 'w gov \<times> archives" where
  "archive_aged_evidence days faults st arc =
     (let cutoff = retention_cutoff days st in
      if days \<le> 0 then (RetentionDisabled days, st, arc)
      else if cutoff < first_instant then (RetentionError, st, arc)
      else
       (let (r1, t, ft) = archive_store no_key (Some \<circ> tr_created_at) cutoff (faults ''traces'') (g_traces st, arc_traces arc);
            (r2, u, fu) = archive_store no_key (Some \<circ> au_created_at) cutoff (faults ''audit'') (g_audits st, arc_audits arc);
            (r3, v, fv) = archive_store verification_key (Some \<circ> ver_created_at) cutoff (faults ''verifications'') (g_verifs st, arc_verifs arc);
            (r4, a, fa) = archive_store auth_key (Some \<circ> auth_created_at) cutoff (faults ''authorizations'') (g_auths st, arc_auths arc);
            (r5, r, fr) = archive_store record_key (Some \<circ> ar_created_at) cutoff (faults ''approval_records'') (g_records st, arc_records arc);
            (r6, h, fh) = archive_store hold_key (Some \<circ> hold_created_at) cutoff (faults ''approval_holds'') (g_holds st, arc_holds arc)
        in (RetentionDone days [(''traces'', r1), (''audit'', r2), (''verifications'', r3), (''authorizations'', r4),
              (''approval_records'', r5), (''approval_holds'', r6)],
            st\<lparr>g_traces := t, g_audits := u, g_verifs := v, g_auths := a, g_records := r, g_holds := h\<rparr>,
            \<lparr>arc_traces = ft, arc_audits = fu, arc_verifs = fv, arc_auths = fa, arc_records = fr, arc_holds = fh\<rparr>)))"

section \<open>What a run keeps\<close>

text \<open>
  The contract of one store: complete lines of the file stay, and it grows only by old records of the
  store; a record leaves memory only when the file holds it, except that the first old record is lost
  when the file was torn; what stays is in its order; the disk follows the memory, or keeps all it had
  when the rewrite of the store failed; and only a torn write leaves a torn file.
\<close>

definition retained ::
  "('a \<Rightarrow> string option) \<Rightarrow> ('a \<Rightarrow> instant) \<Rightarrow> instant \<Rightarrow> archive_fault \<Rightarrow> 'a store \<Rightarrow> 'a archive_file \<Rightarrow>
     'a store \<Rightarrow> 'a archive_file \<Rightarrow> bool" where
  "retained key created cutoff fault s file s' file' \<longleftrightarrow>
     prefix (af_lines file) (af_lines file') \<and>
     mset (mem s) + mset (file_records file) \<subseteq># mset (mem s') + mset (file_records file') +
       mset (if af_torn file then take 1 (filter (\<lambda>r. created r < cutoff) (mem s)) else []) \<and>
     set (file_records file') \<subseteq> set (file_records file) \<union> {r \<in> set (mem s). created r < cutoff} \<and>
     (mem s' = mem s \<or> mem s' = filter (\<lambda>r. cutoff \<le> created r) (mem s)) \<and>
     (if fault = StoreFault then disk s' = disk s else s' = s \<or> mirrored key s') \<and>
     (af_torn file' \<longrightarrow> af_torn file \<or> (\<exists>n. fault = WriteFault n True)) \<and> backend s' = backend s"

lemma archive_store_retained:
  assumes "archive_store key (Some \<circ> created) cutoff fault (s, file) = (rep, s', file')"
  shows "retained key created cutoff fault s file s' file'"
proof -
  let ?old = "filter (\<lambda>r. created r < cutoff) (mem s)" and ?young = "filter (\<lambda>r. cutoff \<le> created r) (mem s)"
  let ?lost = "mset (if af_torn file then take 1 ?old else [])"
  have split: "mset ?young + mset ?old = mset (mem s)"
    by (induction "mem s") (simp_all add: not_le not_less)
  have full: "mset (mem s) + mset (file_records file) = mset ?young + mset (file_records (append_records ?old file)) + ?lost"
    using append_accounts[of ?old "file"] by (simp only: split[symmetric] add.assoc)
  have sub: "set (file_records (append_records rs file)) \<subseteq> set (file_records file) \<union> set rs" for rs
    by (auto simp: file_records_append dest: in_set_dropD)
  consider "s' = s" "file' = file"
    | n torn where "fault = WriteFault n torn" "s' = s"
        "file' = append_records (take n ?old) file \<or> torn \<and> file' = (append_records (take n ?old) file)\<lparr>af_torn := True\<rparr>"
    | "fault = StoreFault" "s' = s\<lparr>mem := ?young\<rparr>" "file' = append_records ?old file"
    | "fault = NoFault" "s' = replace_records key ?young s" "file' = append_records ?old file"
    using assms by (auto simp: archive_store_def Let_def not_less af_torn_append split: if_splits archive_fault.splits)
  then show ?thesis
  proof cases
    case 1
    then show ?thesis by (simp add: retained_def)
  next
    case (2 n torn)
    have "set (file_records (append_records (take n ?old) file)) \<subseteq> set (file_records file) \<union> set ?old"
      using sub[of "take n ?old"] set_take_subset[of n ?old] by blast
    moreover have "mset (file_records file) \<subseteq># mset (file_records (append_records (take n ?old) file)) + ?lost"
      by (simp add: file_records_append)
    moreover have "mset (mem s) + mset (file_records file) \<subseteq>#
        mset (mem s) + mset (file_records (append_records (take n ?old) file)) + ?lost"
      using calculation(2) by (simp add: add.assoc)
    ultimately show ?thesis using 2 prefix_append_records[of "file" "take n ?old"] by (auto simp: retained_def af_torn_append)
  next
    case 3
    then show ?thesis using full sub[of ?old] prefix_append_records[of "file" ?old]
      by (auto simp: retained_def af_torn_append)
  next
    case 4
    then show ?thesis using full sub[of ?old] prefix_append_records[of "file" ?old]
      by (auto simp: retained_def af_torn_append mirrored_replace)
  qed
qed

lemma retained_mirrored:
  "retained key created cutoff NoFault s file s' file' \<Longrightarrow> mirrored key s \<Longrightarrow> mirrored key s'"
  "retained key created cutoff fault s file s' file' \<Longrightarrow> backend s' = backend s"
  by (auto simp: retained_def)

lemma retained_refl: "retained key created cutoff fault s file s file"
  by (simp add: retained_def)

definition evidence_retained :: "instant \<Rightarrow> faults \<Rightarrow> 'w gov \<Rightarrow> archives \<Rightarrow> 'w gov \<Rightarrow> archives \<Rightarrow> bool" where
  "evidence_retained cutoff faults st arc st' arc' \<longleftrightarrow>
     retained no_key tr_created_at cutoff (faults ''traces'') (g_traces st) (arc_traces arc) (g_traces st') (arc_traces arc') \<and>
     retained no_key au_created_at cutoff (faults ''audit'') (g_audits st) (arc_audits arc) (g_audits st') (arc_audits arc') \<and>
     retained verification_key ver_created_at cutoff (faults ''verifications'') (g_verifs st) (arc_verifs arc) (g_verifs st') (arc_verifs arc') \<and>
     retained auth_key auth_created_at cutoff (faults ''authorizations'') (g_auths st) (arc_auths arc) (g_auths st') (arc_auths arc') \<and>
     retained record_key ar_created_at cutoff (faults ''approval_records'') (g_records st) (arc_records arc) (g_records st') (arc_records arc') \<and>
     retained hold_key hold_created_at cutoff (faults ''approval_holds'') (g_holds st) (arc_holds arc) (g_holds st') (arc_holds arc')"

text \<open>Everything outside the six stores is left alone.\<close>

definition outside_stores ::
  "'w gov \<Rightarrow> (string \<Rightarrow> 'w registration option) \<times> (string \<Rightarrow> 'w adapter option) \<times>
     ('w \<Rightarrow> (string \<times> string option) list option) \<times> (nat \<Rightarrow> ident) \<times> nat \<times> instant \<times> (string \<Rightarrow> string) \<times> 'w" where
  "outside_stores st = (g_registry st, g_adapters st, g_modules st, g_uuid st, g_next st, g_now st, g_sha st, g_world st)"

definition same_outside :: "'w gov \<Rightarrow> 'w gov \<Rightarrow> bool" where
  "same_outside st st' \<longleftrightarrow> outside_stores st = outside_stores st'"

lemma same_outside_fields:
  assumes "same_outside st st'"
  shows "issued st' = issued st" "g_uuid st' = g_uuid st" "g_registry st' = g_registry st" "g_adapters st' = g_adapters st"
    "g_now st' = g_now st" "g_world st' = g_world st" "g_next st' = g_next st" "g_sha st' = g_sha st" "g_modules st' = g_modules st"
  using assms by (auto simp: same_outside_def outside_stores_def issued_def)

lemma archive_run:
  assumes "archive_aged_evidence days faults st arc = (res, st', arc')"
  shows "evidence_retained (retention_cutoff days st) faults st arc st' arc'" and "same_outside st st'"
proof -
  note assms' = assms[unfolded archive_aged_evidence_def Let_def]
  show "evidence_retained (retention_cutoff days st) faults st arc st' arc'"
  proof (cases "days \<le> 0 \<or> retention_cutoff days st < first_instant")
    case True
    then show ?thesis using assms' by (auto simp: evidence_retained_def retained_refl split: if_splits)
  next
    case False
    then show ?thesis using assms'
      by (auto simp: evidence_retained_def split: prod.splits dest!: archive_store_retained)
  qed
  show "same_outside st st'" using assms' by (auto simp: same_outside_def outside_stores_def split: if_splits prod.splits)
qed

lemma archive_store_again:
  assumes "archive_store key (Some \<circ> created) cutoff NoFault (s, file) = (rep, s', file')"
  shows "\<exists>rep'. archive_store key (Some \<circ> created) cutoff fault (s', file') = (rep', s', file')"
proof -
  have "filter (\<lambda>r. created r < cutoff) (mem s') = [] \<or> backend s' = InMemory"
    using assms by (auto simp: archive_store_def Let_def filter_empty_conv split: if_splits)
  then show ?thesis by (auto simp: archive_store_def Let_def)
qed

lemma archive_run_again:
  assumes run: "archive_aged_evidence days (\<lambda>_. NoFault) st arc = (res, st', arc')"
  shows "snd (archive_aged_evidence days faults st' arc') = (st', arc')"
proof (cases "days \<le> 0 \<or> retention_cutoff days st < first_instant")
  case True
  then show ?thesis using run by (auto simp: archive_aged_evidence_def Let_def split: if_splits)
next
  case False
  let ?c = "retention_cutoff days st"
  have c: "retention_cutoff days st' = ?c" using same_outside_fields(5)[OF archive_run(2)[OF run]] by (simp add: retention_cutoff_def)
  obtain q1 q2 q3 q4 q5 q6 where p:
    "archive_store no_key (Some \<circ> tr_created_at) ?c NoFault (g_traces st, arc_traces arc) = (q1, g_traces st', arc_traces arc')"
    "archive_store no_key (Some \<circ> au_created_at) ?c NoFault (g_audits st, arc_audits arc) = (q2, g_audits st', arc_audits arc')"
    "archive_store verification_key (Some \<circ> ver_created_at) ?c NoFault (g_verifs st, arc_verifs arc) = (q3, g_verifs st', arc_verifs arc')"
    "archive_store auth_key (Some \<circ> auth_created_at) ?c NoFault (g_auths st, arc_auths arc) = (q4, g_auths st', arc_auths arc')"
    "archive_store record_key (Some \<circ> ar_created_at) ?c NoFault (g_records st, arc_records arc) = (q5, g_records st', arc_records arc')"
    "archive_store hold_key (Some \<circ> hold_created_at) ?c NoFault (g_holds st, arc_holds arc) = (q6, g_holds st', arc_holds arc')"
    using run False by (auto simp: archive_aged_evidence_def Let_def split: prod.splits)
  have again: "snd (archive_store key (Some \<circ> created) ?c f (s', a')) = (s', a')"
    if "archive_store key (Some \<circ> created) ?c NoFault (s, a) = (q, s', a')" for key and created :: "'b \<Rightarrow> instant" and s a q s' a' f
    using archive_store_again[OF that, of f] by auto
  note p' = p[THEN again]
  show ?thesis using False p' by (simp add: archive_aged_evidence_def c Let_def split_beta)
qed

section \<open>The governance invariant\<close>

text \<open>No record that stays refers to one that is old enough to leave.\<close>

definition cutoff_safe :: "instant \<Rightarrow> 'w gov \<Rightarrow> bool" where
  "cutoff_safe cutoff st \<longleftrightarrow>
     (\<forall>r\<in>set (mem (g_records st)). ar_created_at r < cutoff \<longrightarrow>
        (\<forall>h\<in>set (mem (g_holds st)). hold_id h = ar_id r \<longrightarrow> hold_created_at h < cutoff) \<and>
        (\<forall>a\<in>set (mem (g_auths st)). auth_approval_id a = Some (ar_id r) \<longrightarrow> auth_created_at a < cutoff)) \<and>
     (\<forall>a\<in>set (mem (g_auths st)). auth_created_at a < cutoff \<longrightarrow>
        (\<forall>u\<in>set (mem (g_audits st)). au_authorization_id u = auth_id a \<longrightarrow> au_created_at u < cutoff))"

lemma archive_store_cases:
  assumes "archive_store key (Some \<circ> created) cutoff NoFault (s, file) = (rep, s', file')" and "backend s \<noteq> InMemory"
  shows "mem s' = filter (\<lambda>r. cutoff \<le> created r) (mem s) \<and> (s' = s \<or> (\<exists>rs. s' = replace_records key rs s))"
  using assms by (auto simp: archive_store_def Let_def not_less filter_empty_conv filter_id_conv split: if_splits)

lemma links_filtered:
  assumes "links_ok e" and "\<forall>r\<in>set (ev_records e). \<not> pr r \<longrightarrow>
      (\<forall>h\<in>set (ev_holds e). hold_id h = ar_id r \<longrightarrow> \<not> ph h) \<and>
      (\<forall>a\<in>set (ev_auths e). auth_approval_id a = Some (ar_id r) \<longrightarrow> \<not> pa a)"
    and "\<forall>a\<in>set (ev_auths e). \<not> pa a \<longrightarrow> (\<forall>u\<in>set (ev_audits e). au_authorization_id u = auth_id a \<longrightarrow> \<not> pu u)"
  shows "links_ok (e\<lparr>ev_holds := filter ph (ev_holds e), ev_records := filter pr (ev_records e),
     ev_auths := filter pa (ev_auths e), ev_audits := filter pu (ev_audits e)\<rparr>)"
proof -
  have "hold_ok (filter pr (ev_records e)) h" if "h \<in> set (ev_holds e)" "ph h" for h
    using assms(1,2) that by (fastforce simp: links_ok_def hold_ok_def)
  moreover have "auth_ok (filter pr (ev_records e)) a" if "a \<in> set (ev_auths e)" "pa a" for a
    using assms(1,2) that by (fastforce simp: links_ok_def auth_ok_def)
  moreover have "audit_ok (filter pa (ev_auths e)) u" if "u \<in> set (ev_audits e)" "pu u" for u
    using assms(1,3) that by (fastforce simp: links_ok_def audit_ok_def)
  ultimately show ?thesis by (simp add: links_ok_def)
qed

lemma evidence_filtered:
  assumes "evidence_ok e" and "links_ok (e\<lparr>ev_holds := filter ph (ev_holds e), ev_records := filter pr (ev_records e),
     ev_auths := filter pa (ev_auths e), ev_audits := filter pu (ev_audits e)\<rparr>)"
  shows "evidence_ok (e\<lparr>ev_holds := filter ph (ev_holds e), ev_records := filter pr (ev_records e),
     ev_auths := filter pa (ev_auths e), ev_audits := filter pu (ev_audits e)\<rparr>)"
  using assms by (auto simp: evidence_ok_def ids_ok_def used_once_def distinct_map_filter)

lemma retention_inv:
  assumes inv: "gov_inv st" and run: "archive_aged_evidence days (\<lambda>_. NoFault) st arc = (res, st', arc')"
    and safe: "cutoff_safe (retention_cutoff days st) st"
  shows "gov_inv st'"
proof (cases "days \<le> 0 \<or> retention_cutoff days st < first_instant")
  case True
  then show ?thesis using run inv by (auto simp: archive_aged_evidence_def Let_def split: if_splits)
next
  case False
  let ?c = "retention_cutoff days st"
  have st: "stores_ok st" using inv by (simp add: gov_inv_def)
  obtain q1 q2 q3 q4 f1 f2 f3 f4 where p:
    "archive_store no_key (Some \<circ> au_created_at) ?c NoFault (g_audits st, arc_audits arc) = (q1, g_audits st', f1)"
    "archive_store auth_key (Some \<circ> auth_created_at) ?c NoFault (g_auths st, arc_auths arc) = (q2, g_auths st', f2)"
    "archive_store record_key (Some \<circ> ar_created_at) ?c NoFault (g_records st, arc_records arc) = (q3, g_records st', f3)"
    "archive_store hold_key (Some \<circ> hold_created_at) ?c NoFault (g_holds st, arc_holds arc) = (q4, g_holds st', f4)"
    using run False by (auto simp: archive_aged_evidence_def Let_def split: prod.splits)
  note c = p[THEN archive_store_cases] and m = p[THEN archive_store_retained]
  note out = same_outside_fields[OF archive_run(2)[OF run]]
  have ev: "evidence_of st' = (evidence_of st)\<lparr>ev_holds := filter (\<lambda>h. ?c \<le> hold_created_at h) (ev_holds (evidence_of st)),
      ev_records := filter (\<lambda>r. ?c \<le> ar_created_at r) (ev_records (evidence_of st)),
      ev_auths := filter (\<lambda>a. ?c \<le> auth_created_at a) (ev_auths (evidence_of st)),
      ev_audits := filter (\<lambda>u. ?c \<le> au_created_at u) (ev_audits (evidence_of st))\<rparr>"
    using c st by (simp add: evidence_of_def out stores_ok_def)
  have "evidence_ok (evidence_of st)" using inv by (simp add: gov_inv_def)
  then have "evidence_ok (evidence_of st')"
    unfolding ev
    by (intro evidence_filtered links_filtered)
      (use safe in \<open>simp_all add: evidence_ok_def evidence_of_def cutoff_safe_def not_le\<close>)
  moreover have "list_all2 row_rel (disk (g_holds st')) (mem (g_holds st'))"
    using c(4) st by (cases "backend (g_holds st)") (auto simp: stores_ok_def store_defs Let_def list_all2_conv_all_nth)
  moreover have "mirrored no_key (g_audits st')" "mirrored auth_key (g_auths st')" "mirrored record_key (g_records st')"
    using m[THEN retained_mirrored(1)] st by (simp_all add: stores_ok_def)
  moreover have "backend (g_audits st') = backend (g_audits st)" "backend (g_auths st') = backend (g_auths st)"
    "backend (g_records st') = backend (g_records st)" "backend (g_holds st') = backend (g_holds st)"
    by (rule m[THEN retained_mirrored(2)])+
  ultimately show ?thesis using inv out by (simp add: inv_defs)
qed

end
