(* ===== verification/Platform.thy ===== *)
theory Platform
  imports Evidence_View Homelab_Loop Retention Governed_Frame
begin

text \<open>
  The deployed platform: the HTTP routes of \<open>main.py\<close> and \<open>agent/api.py\<close> behind operator
  authentication and the rate limiter, the startup sequence of \<open>main.py\<close> and the background loop,
  over one state. A request is answered by a status and a payload. The routes that only read Docker,
  git or the configuration, the LLM route and the request log are not modelled; the budget routes
  are in the budget theories. \<open>None\<close> as an answer: a settling loop does not return.
\<close>

section \<open>State and configuration\<close>

record 'w server =
  sv_loop :: "'w hloop"
  sv_grants :: "grant store"
  sv_provenance :: "hold_provenance list"
  sv_hits :: hits
  sv_last :: "agent_outcome option"
  sv_archives :: archives

record deployment =
  dp_env :: env
  dp_credential :: "string option"
  dp_signing :: "string option"  \<comment> \<open>the signing key's credential file\<close>
  dp_agent :: agent_config
  dp_loop :: loop_config
  dp_loop_enabled :: bool
  dp_probes :: probes
  dp_docker :: "string \<Rightarrow> docker_answer"
  dp_hmac :: hmac
  dp_dumper :: dumper
  dp_faults :: faults

abbreviation sv_gov :: "'w server \<Rightarrow> 'w gov" where
  "sv_gov s \<equiv> hm_gov (lp_home (sv_loop s))"

definition agent_of :: "'w server \<Rightarrow> 'w agent" where
  "agent_of s = \<lparr>ag_home = lp_home (sv_loop s), ag_grants = sv_grants s, ag_provenance = sv_provenance s\<rparr>"

definition with_agent :: "'w agent \<Rightarrow> 'w server \<Rightarrow> 'w server" where
  "with_agent a s = s\<lparr>sv_loop := (sv_loop s)\<lparr>lp_home := ag_home a\<rparr>, sv_grants := ag_grants a, sv_provenance := ag_provenance a\<rparr>"

section \<open>Requests and answers\<close>

record propose_body =
  pb_agent :: string
  pb_goal :: string
  pb_target :: string
  pb_mechanism :: string
  pb_reason :: string
  pb_confidence :: int
  pb_expected :: string
  pb_grant :: "ident option"
  pb_context :: string

datatype http_request =
    PostExecute string string "string option"
  | PostApprove ident bool
  | PostHomelabApprove ident bool
  | PostRemediate string
  | PostGrant string string "int option"
  | PostAct propose_body
  | PostPreview propose_body
  | PostLoopStart
  | PostLoopStop
  | PostLoopClear string
  | GetHolds
  | GetVerifications int "string option"
  | GetEvidence "ident option" "ident option" "ident option"
  | GetExport "ident option" "ident option" "ident option"
  | GetAuthority
  | GetLoopStatus
  | GetHealth

datatype payload =
    Outcome outcome_view
  | Verified outcome_view string "string option"
  | AgentReply agent_outcome
  | UnknownMechanism string string
  | Previewed agent_preview
  | GrantIssued grant
  | InvalidOperation string
  | LoopStatus loop_status
  | LoopCommand string
  | Holds "open_hold list"
  | Rows "index_row list"
  | Evidence chain
  | Bundle pyval
  | Grants "grant list"
  | Health bool loop_status "string list"

datatype answer_to =
    Ok200 payload
  | Unauthorized401
  | Forbidden403 string
  | Unprocessable422
  | TooMany429
  | Error500
  | Unavailable503

section \<open>\<open>POST /execute\<close>\<close>

definition operation_to_action_type :: "string \<Rightarrow> action_type option" where
  "operation_to_action_type = map_of [(''start'', Start), (''stop'', Stop), (''restart'', Restart), (''create'', Create), (''remove'', Remove)]"

definition operator_action :: "action_type \<Rightarrow> string \<Rightarrow> string \<Rightarrow> string option \<Rightarrow> string \<Rightarrow> ident \<Rightarrow> instant \<Rightarrow> action" where
  "operator_action t operation target img operator i now =
     \<lparr>act_id = i, act_created_at = now, act_decision_id = ''operator-'' @ operator @ ''-'' @ operation,
      act_domain = default_domain, act_component = target, act_type = t, act_status = APending,
      act_reason = ''Operator '' @ operator @ '' requested '' @ operation @ '' on '' @ target, act_confidence = 100,
      act_requires_approval = False, act_rollback_required = True,
      act_parameters = (case or_str img None of None \<Rightarrow> [] | Some x \<Rightarrow> [(''image'', PStr x)]), act_expected = None\<rparr>"

definition execute_verified ::
  "probes \<Rightarrow> string \<Rightarrow> string \<Rightarrow> action \<Rightarrow> outcome_view \<Rightarrow> 'w home \<Rightarrow> (payload \<times> 'w home) option" where
  "execute_verified P operation target a ov h =
     (if ov_status ov = ''executed'' \<and> ov_success ov = Some True \<and> truthy_str (ov_execution_id ov)
      then (let k = the (ov_execution_id ov) in
        case verify_executed_action P k (resolve_adapter_name h) operation target None (Some (act_id a)) (hm_ops h) of
          None \<Rightarrow> None
        | Some (v, ops) \<Rightarrow> Some (Verified ov (ver_status v) (map_option ir_effective (index_get k (op_rows ops))), h\<lparr>hm_ops := ops\<rparr>))
      else Some (Outcome ov, h))"

definition route_execute ::
  "probes \<Rightarrow> string \<Rightarrow> string \<Rightarrow> string option \<Rightarrow> string \<Rightarrow> 'w agent \<Rightarrow> (answer_to \<times> 'w agent) option" where
  "route_execute P operation target img operator s =
     (case operation_to_action_type operation of
        None \<Rightarrow> Some (Ok200 (Outcome (plain_view ''unsupported_operation'' (Some (''Operation '' @ quoted operation @ '' is not supported'')) None)), s)
      | Some t \<Rightarrow>
         (let (i, g) = fresh_id (ag_gov s); a = operator_action t operation target img operator i (ag_now s);
              h = with_gov g (ag_home s); adapter = resolve_adapter_name h;
              (out, g1) = execute_governed_action a adapter (hm_gov h); h1 = with_gov g1 h
          in case outcome_dict a adapter out of
               None \<Rightarrow> Some (Error500, s\<lparr>ag_home := h1\<rparr>)
             | Some ov \<Rightarrow>
                (let h2 = (if ov_status ov = ''manual_approval_required''
                       then h1\<lparr>hm_ops := notify_held ''operator_execute'' target (ov_approval_id ov)
                              (the (or_str (ov_reason ov) (Some []))) ''http_execute'' (hm_ops h1)\<rparr> else h1);
                     h3 = with_gov (snd (record_failed_execution_evidence ov (act_expected a) (hm_gov h2))) h2
                 in map_option (\<lambda>(p, h4). (Ok200 p, s\<lparr>ag_home := h4\<rparr>)) (execute_verified P operation target a ov h3))))"

section \<open>Approvals and remediation\<close>

definition route_approve :: "agent_config \<Rightarrow> ident \<Rightarrow> bool \<Rightarrow> string \<Rightarrow> 'w agent \<Rightarrow> answer_to \<times> 'w agent" where
  "route_approve cfg k ok operator s =
     (case check_separation cfg k operator s of
        ((False, why), s1) \<Rightarrow> (Forbidden403 (''separation of duties: '' @ why), s1)
      | ((True, why), s1) \<Rightarrow>
         (let (out, g) = approve_held_action k operator ok (ag_gov s1) in
          case approval_dict k out of
            None \<Rightarrow> (Error500, agent_with_gov g s1)
          | Some ov \<Rightarrow> (Ok200 (Outcome ov), agent_with_gov (snd (record_failed_execution_evidence ov None g)) s1)))"

definition route_homelab_approve ::
  "probes \<Rightarrow> agent_config \<Rightarrow> ident \<Rightarrow> bool \<Rightarrow> string \<Rightarrow> 'w agent \<Rightarrow> (answer_to \<times> 'w agent) option" where
  "route_homelab_approve P cfg k ok operator s =
     (case check_separation cfg k operator s of
        ((False, why), s1) \<Rightarrow> Some (Forbidden403 (''separation of duties: '' @ why), s1)
      | ((True, why), s1) \<Rightarrow>
         (case continue_remediation P k operator ok (ag_home s1) of
            None \<Rightarrow> None
          | Some (Inl e, h) \<Rightarrow> Some (Error500, s1\<lparr>ag_home := h\<rparr>)
          | Some (Inr ov, h) \<Rightarrow>
             Some (Ok200 (Outcome ov), s1\<lparr>ag_home := with_gov (snd (record_failed_execution_evidence ov None (hm_gov h))) h\<rparr>)))"

definition route_remediate :: "probes \<Rightarrow> string \<Rightarrow> 'w agent \<Rightarrow> (answer_to \<times> 'w agent) option" where
  "route_remediate P component s =
     (case remediate_component P component None (ag_home s) of
        None \<Rightarrow> None
      | Some (Inl e, h) \<Rightarrow> Some (Error500, s\<lparr>ag_home := h\<rparr>)
      | Some (Inr ov, h) \<Rightarrow>
         (let h1 = (if ov_status ov = ''manual_approval_required''
                    then h\<lparr>hm_ops := notify_held ''remediation'' component (ov_approval_id ov)
                           (the (or_str (ov_reason ov) (Some []))) ''http_remediate'' (hm_ops h)\<rparr> else h)
          in Some (Ok200 (Outcome ov), s\<lparr>ag_home := with_gov (snd (record_failed_execution_evidence ov None (hm_gov h1))) h1\<rparr>)))"

section \<open>Agent routes\<close>

definition all_action_types :: "action_type list" where
  "all_action_types = [RestartComponent, CreateCheckpoint, ScaleDown, IsolateComponent, Start, Stop, Restart, Create, Remove]"

text \<open>\<open>ActionType(value)\<close>; \<open>None\<close> is its \<open>ValueError\<close>.\<close>

definition action_type_of :: "string \<Rightarrow> action_type option" where
  "action_type_of v = find (\<lambda>t. type_value t = v) all_action_types"

definition route_grant :: "agent_config \<Rightarrow> string \<Rightarrow> string \<Rightarrow> int option \<Rightarrow> string \<Rightarrow> 'w agent \<Rightarrow> answer_to \<times> 'w agent" where
  "route_grant cfg operation target ttl operator s =
     (if action_type_of operation = None then (Ok200 (InvalidOperation (''unknown operation '' @ quoted operation)), s)
      else (let (g, s1) = grant_authority cfg operation target operator ttl s in (Ok200 (GrantIssued g), s1)))"

definition proposal_from_body :: "propose_body \<Rightarrow> proposal option" where
  "proposal_from_body b =
     map_option (\<lambda>t. \<lparr>ap_agent = pb_agent b, ap_context = pb_context b, ap_goal = pb_goal b, ap_target = pb_target b,
         ap_mechanism = t, ap_reason = pb_reason b, ap_confidence = pb_confidence b, ap_expected = pb_expected b,
         ap_grant = pb_grant b\<rparr>) (action_type_of (pb_mechanism b))"

definition unknown_mechanism :: "propose_body \<Rightarrow> string" where
  "unknown_mechanism b = ''unknown mechanism '' @ quoted (pb_mechanism b)"

definition route_act :: "probes \<Rightarrow> agent_config \<Rightarrow> propose_body \<Rightarrow> 'w server \<Rightarrow> (answer_to \<times> 'w server) option" where
  "route_act P cfg b s =
     (case proposal_from_body b of
        None \<Rightarrow> Some (Ok200 (UnknownMechanism ''invalid'' (unknown_mechanism b)), s)
      | Some p \<Rightarrow>
         (case propose_and_govern P cfg p (agent_of s) of
            None \<Rightarrow> None
          | Some (ao, a) \<Rightarrow> Some (Ok200 (AgentReply ao), (with_agent a s)\<lparr>sv_last := Some ao\<rparr>)))"

definition route_preview :: "agent_config \<Rightarrow> propose_body \<Rightarrow> 'w agent \<Rightarrow> answer_to \<times> 'w agent" where
  "route_preview cfg b s =
     (case proposal_from_body b of
        None \<Rightarrow> (Ok200 (UnknownMechanism ''invalid_proposal'' (unknown_mechanism b)), s)
      | Some p \<Rightarrow> (let (v, s1) = preview_proposal cfg p s in (if v = PreviewRaised then Error500 else Ok200 (Previewed v), s1)))"

section \<open>Views\<close>

definition flag_set :: "string \<Rightarrow> deployment \<Rightarrow> bool" where
  "flag_set name D = is_on (env_bool (dp_env D) name False False)"

definition no_identifier :: "ident option \<Rightarrow> ident option \<Rightarrow> ident option \<Rightarrow> bool" where
  "no_identifier a p e \<longleftrightarrow> \<not> truthy_str a \<and> \<not> truthy_str p \<and> \<not> truthy_str e"

definition route_evidence :: "deployment \<Rightarrow> ident option \<Rightarrow> ident option \<Rightarrow> ident option \<Rightarrow> 'w agent \<Rightarrow> answer_to \<times> 'w agent" where
  "route_evidence D a p e s =
     (if \<not> flag_set ''RMT_OPS_EVIDENCE_ENABLED'' D then (Unavailable503, s)
      else if no_identifier a p e then (Unprocessable422, s)
      else (let (c, s1) = evidence_chain a p e s in (Ok200 (Evidence c), s1)))"

definition route_export :: "deployment \<Rightarrow> ident option \<Rightarrow> ident option \<Rightarrow> ident option \<Rightarrow> 'w agent \<Rightarrow> answer_to \<times> 'w agent" where
  "route_export D a p e s =
     (if \<not> flag_set ''RMT_ATTESTATION_EXPORT_ENABLED'' D then (Unavailable503, s)
      else (case attestation_signing_key (dp_signing D) (dp_env D) of
              None \<Rightarrow> (Unavailable503, s)
            | Some key \<Rightarrow>
               if no_identifier a p e then (Unprocessable422, s)
               else (case export_bundle (dp_hmac D) (dp_dumper D) a p e key s of
                       (None, s1) \<Rightarrow> (Error500, s1)
                     | (Some b, s1) \<Rightarrow> (Ok200 (Bundle b), s1))))"

definition health :: "'w hloop \<Rightarrow> payload" where
  "health lp =
     (let st = get_status lp; quarantined = List.map fst (filter (\<lambda>p. cl_quarantined (snd p)) (st_components st))
      in Health (st_error st \<noteq> None \<or> quarantined \<noteq> []) st quarantined)"

section \<open>Dispatch\<close>

datatype limiter = NoLimit | LimitExecute | LimitAgent

fun limiter_of :: "http_request \<Rightarrow> limiter" where
  "limiter_of (PostExecute _ _ _) = LimitExecute"
| "limiter_of (PostGrant _ _ _) = LimitAgent"
| "limiter_of (PostAct _) = LimitAgent"
| "limiter_of (PostPreview _) = LimitAgent"
| "limiter_of _ = NoLimit"

definition rate_limited :: "deployment \<Rightarrow> limiter \<Rightarrow> string \<Rightarrow> 'w server \<Rightarrow> bool \<times> hits" where
  "rate_limited D l operator s =
     (let now = op_mono (hm_ops (lp_home (sv_loop s))) in
      case l of
        NoLimit \<Rightarrow> (False, sv_hits s)
      | LimitExecute \<Rightarrow> rate_limit (dp_env D) operator ''execute'' (ratelimit_execute_per_min (dp_env D)) now (sv_hits s)
      | LimitAgent \<Rightarrow> rate_limit (dp_env D) operator ''agent'' (ratelimit_agent_per_min (dp_env D)) now (sv_hits s))"

definition on_agent :: "answer_to \<times> 'w agent \<Rightarrow> 'w server \<Rightarrow> (answer_to \<times> 'w server) option" where
  "on_agent r s = Some (fst r, with_agent (snd r) s)"

definition on_agent_opt :: "(answer_to \<times> 'w agent) option \<Rightarrow> 'w server \<Rightarrow> (answer_to \<times> 'w server) option" where
  "on_agent_opt r s = map_option (\<lambda>(x, a). (x, with_agent a s)) r"

definition on_loop :: "payload \<times> 'w hloop \<Rightarrow> 'w server \<Rightarrow> (answer_to \<times> 'w server) option" where
  "on_loop r s = Some (Ok200 (fst r), s\<lparr>sv_loop := snd r\<rparr>)"

text \<open>The routes as an authenticated operator reaches them.\<close>

fun dispatch :: "deployment \<Rightarrow> string \<Rightarrow> http_request \<Rightarrow> 'w server \<Rightarrow> (answer_to \<times> 'w server) option" where
  "dispatch D who (PostExecute operation target img) s =
     on_agent_opt (route_execute (dp_probes D) operation target img who (agent_of s)) s"
| "dispatch D who (PostApprove k ok) s = on_agent (route_approve (dp_agent D) k ok who (agent_of s)) s"
| "dispatch D who (PostHomelabApprove k ok) s =
     on_agent_opt (route_homelab_approve (dp_probes D) (dp_agent D) k ok who (agent_of s)) s"
| "dispatch D who (PostRemediate c) s = on_agent_opt (route_remediate (dp_probes D) c (agent_of s)) s"
| "dispatch D who (PostGrant operation target ttl) s = on_agent (route_grant (dp_agent D) operation target ttl who (agent_of s)) s"
| "dispatch D who (PostAct b) s = route_act (dp_probes D) (dp_agent D) b s"
| "dispatch D who (PostPreview b) s = on_agent (route_preview (dp_agent D) b (agent_of s)) s"
| "dispatch D who PostLoopStart s = on_loop (let lp = start_loop True (sv_loop s) in (LoopStatus (get_status lp), lp)) s"
| "dispatch D who PostLoopStop s = on_loop (let lp = stop_loop (sv_loop s) in (LoopStatus (get_status lp), lp)) s"
| "dispatch D who (PostLoopClear c) s = on_loop (map_prod LoopCommand id (clear_quarantine c (sv_loop s))) s"
| "dispatch D who GetHolds s = on_agent (map_prod (Ok200 \<circ> Holds) id (open_holds_view (agent_of s))) s"
| "dispatch D who (GetVerifications limit status) s =
     Some (Ok200 (Rows (index_view limit status (hm_ops (lp_home (sv_loop s))))), s)"
| "dispatch D who (GetEvidence a p e) s = on_agent (route_evidence D a p e (agent_of s)) s"
| "dispatch D who (GetExport a p e) s = on_agent (route_export D a p e (agent_of s)) s"
| "dispatch D who GetAuthority s = Some (Ok200 (Grants (list_active (agent_of s))), s)"
| "dispatch D who GetLoopStatus s = Some (Ok200 (LoopStatus (get_status (sv_loop s))), s)"
| "dispatch D who GetHealth s = Some (Ok200 (health (sv_loop s)), s)"

definition public_request :: "http_request \<Rightarrow> bool" where
  "public_request r \<longleftrightarrow> r = GetHealth \<or> r = GetLoopStatus"

record credentials =
  cr_authorization :: "string option"
  cr_api_key :: "string option"

definition handle :: "deployment \<Rightarrow> credentials \<Rightarrow> http_request \<Rightarrow> 'w server \<Rightarrow> (answer_to \<times> 'w server) option" where
  "handle D c r s =
     (if public_request r then dispatch D [] r s
      else (case resolve_operator (dp_credential D) (dp_env D) (cr_authorization c) (cr_api_key c) of
              Misconfigured \<Rightarrow> Some (Unavailable503, s)
            | Unauthenticated \<Rightarrow> Some (Unauthorized401, s)
            | InvalidToken \<Rightarrow> Some (Unauthorized401, s)
            | Operator who \<Rightarrow>
               (let (over, hits) = rate_limited D (limiter_of r) who s; s1 = s\<lparr>sv_hits := hits\<rparr> in
                if over then Some (TooMany429, s1) else dispatch D who r s1)))"

section \<open>Startup\<close>

text \<open>
  A process that stops and starts: what is only in memory is gone, the stores are read back, then
  \<open>lifespan\<close> reconciles them, archives old evidence and rebuilds the index. \<open>None\<close>: it refuses to start.
\<close>

definition reload :: "'w server \<Rightarrow> 'w server" where
  "reload s =
     (let h = lp_home (sv_loop s); ops = (hm_ops h)\<lparr>op_gov := reopen_stores (hm_gov h), op_rows := [], op_last_sent := (\<lambda>_. None)\<rparr>;
          lp = reset_loop (sv_loop s)
      in s\<lparr>sv_loop := lp\<lparr>lp_home := h\<lparr>hm_ops := ops\<rparr>, lp_task := False\<rparr>, sv_grants := reopen (sv_grants s),
           sv_provenance := [], sv_hits := (\<lambda>_. None), sv_last := None\<rparr>)"

definition lifespan :: "deployment \<Rightarrow> 'w server \<Rightarrow> 'w server option" where
  "lifespan D s =
     (if \<not> startup_allowed (dp_credential D) (dp_env D) then None
      else
       (let h = lp_home (sv_loop s); g1 = fst (fst (reconcile_governance_stores (hm_gov h)));
            (res, g2, arcs) = archive_aged_evidence (evidence_retention_days (dp_env D)) (dp_faults D) g1 (sv_archives s);
            ops = rebuild_index ((hm_ops h)\<lparr>op_gov := g2\<rparr>);
            lp = (sv_loop s)\<lparr>lp_home := h\<lparr>hm_ops := ops\<rparr>\<rparr>
        in Some (s\<lparr>sv_loop := (if dp_loop_enabled D then start_loop True lp else lp), sv_archives := arcs\<rparr>)))"

definition boot :: "deployment \<Rightarrow> 'w server \<Rightarrow> 'w server option" where
  "boot D s = lifespan D (reload s)"

section \<open>Runs of the platform\<close>

definition advance :: "int \<Rightarrow> 'w server \<Rightarrow> 'w server" where
  "advance dt s =
     (let h = lp_home (sv_loop s); ops = hm_ops h; g = op_gov ops
      in s\<lparr>sv_loop := (sv_loop s)\<lparr>lp_home := h\<lparr>hm_ops := ops\<lparr>op_gov := g\<lparr>g_now := g_now g + dt\<rparr>, op_mono := op_mono ops + dt\<rparr>\<rparr>\<rparr>\<rparr>)"

definition background_cycle :: "deployment \<Rightarrow> 'w server \<Rightarrow> 'w server option" where
  "background_cycle D s =
     (if lp_enabled (sv_loop s) then map_option (\<lambda>(r, lp). s\<lparr>sv_loop := lp\<rparr>) (run_cycle_once (dp_loop D) (dp_probes D) (dp_docker D) (sv_loop s))
      else Some s)"

text \<open>
  One step of a deployment. What Docker, git and the file system answer may differ at every step.
\<close>

inductive platform_step :: "deployment \<Rightarrow> (http_request \<times> answer_to) option \<Rightarrow> 'w server \<Rightarrow> 'w server \<Rightarrow> bool" where
  plat_request: "handle (D\<lparr>dp_probes := P\<rparr>) c r s = Some (x, s') \<Longrightarrow> platform_step D (Some (r, x)) s s'"
| plat_cycle: "background_cycle (D\<lparr>dp_probes := P, dp_docker := docker\<rparr>) s = Some s' \<Longrightarrow> platform_step D None s s'"
| plat_boot: "boot (D\<lparr>dp_faults := f\<rparr>) s = Some s' \<Longrightarrow> platform_step D None s s'"
| plat_advance: "0 \<le> dt \<Longrightarrow> platform_step D None s (advance dt s)"
| plat_metric: "platform_step D None s (s\<lparr>sv_loop := (sv_loop s)\<lparr>lp_home := save_container_metric m (lp_home (sv_loop s))\<rparr>\<rparr>)"

inductive_cases platform_stepE: "platform_step D e s s'"

text \<open>A run with the requests it answered, in their order.\<close>

inductive platform_run :: "deployment \<Rightarrow> 'w server \<Rightarrow> (http_request \<times> answer_to) list \<Rightarrow> 'w server \<Rightarrow> bool" where
  plat_refl: "platform_run D s [] s"
| plat_next: "platform_run D s es s' \<Longrightarrow> platform_step D e s' s'' \<Longrightarrow>
    platform_run D s (es @ (case e of None \<Rightarrow> [] | Some p \<Rightarrow> [p])) s''"

end
