(* ===== verification/Agent_Grants.thy ===== *)
theory Agent_Grants
  imports Platform
begin

text \<open>
  Authority over time: which steps change a grant, and that a grant, once spent, stays spent
  through any sequence of requests, cycles and restarts. Memory and disk of the grant store agree
  on every lookup even where two grants share an id, so a restart changes no answer.
\<close>

section \<open>Lookups survive a restart\<close>

definition grants_ok :: "grant store \<Rightarrow> bool" where
  "grants_ok st \<longleftrightarrow> backend st \<noteq> InMemory \<and> list_all (\<lambda>row. fst row = grant_key (snd row)) (disk st) \<and>
     (\<forall>k. find (\<lambda>g. gr_id g = k) (List.map snd (disk st)) = get_by gr_id k st)"

lemma find_rows: "find (\<lambda>g. gr_id g = k) (List.map snd (List.map (row_of key) xs)) = find (\<lambda>g. gr_id g = k) xs"
  by (simp add: row_of_def o_def)

lemma grants_ok_mirrored:
  "disk st = List.map (row_of grant_key) (mem st) \<Longrightarrow> backend st \<noteq> InMemory \<Longrightarrow> grants_ok st"
  using find_rows[of _ grant_key "mem st"] by (simp add: grants_ok_def get_by_def list_all_iff row_of_def)

lemma grants_ok_save: "grants_ok st \<Longrightarrow> grants_ok (save grant_key g st)"
proof (cases "backend st")
  case JsonFile
  then show ?thesis by (intro grants_ok_mirrored) (simp_all add: store_defs Let_def)
next
  case Sqlite
  moreover assume "grants_ok st"
  ultimately show ?thesis
    by (simp add: grants_ok_def get_by_save) (simp add: store_defs Let_def row_of_def find_append get_by_def split: option.split)
qed (simp add: grants_ok_def)

lemma grants_ok_update:
  assumes ok: "grants_ok st" and f: "\<And>g. gr_id (f g) = gr_id g"
  shows "grants_ok (update_by gr_id grant_key k f st)"
proof (cases "first_index (\<lambda>g. gr_id g = k) (mem st)")
  case None
  then show ?thesis using ok by (simp add: update_by_def)
next
  case (Some i)
  note i = first_index_SomeD[OF Some]
  show ?thesis
  proof (cases "backend st")
    case JsonFile
    then show ?thesis by (intro grants_ok_mirrored) (simp_all add: update_by_def Some store_defs Let_def)
  next
    case Sqlite
    let ?r = "f (mem st ! i)" and ?new = "\<lambda>row. if fst row = Some k then row_of grant_key (f (mem st ! i)) else row"
    have disk: "disk (update_by gr_id grant_key k f st) = List.map ?new (disk st)"
      using i Sqlite by (simp add: update_by_def Some store_defs Let_def grant_key_def)
    have hit: "find (\<lambda>g. gr_id g = k) (mem st) = Some (mem st ! i)"
      using Some i by (auto simp: find_Some_iff)
    have new: "find (\<lambda>g. gr_id g = j) (List.map snd (List.map ?new rows)) =
        (if j = k then map_option (\<lambda>_. ?r) (find (\<lambda>g. gr_id g = j) (List.map snd rows))
         else find (\<lambda>g. gr_id g = j) (List.map snd rows))"
      if "list_all (\<lambda>row. fst row = grant_key (snd row)) rows" for j rows
      using that i f by (induction rows) (auto simp: grant_key_def row_of_def)
    have got: "get_by gr_id j (update_by gr_id grant_key k f st) = (if j = k then Some ?r else get_by gr_id j st)" for j
      by (simp only: find_modify_store[of gr_id f, OF f]) (simp add: get_by_def hit)
    have "find (\<lambda>g. gr_id g = j) (List.map snd (disk (update_by gr_id grant_key k f st))) =
        get_by gr_id j (update_by gr_id grant_key k f st)" for j
      using ok new[of "disk st" j] hit unfolding disk got by (simp add: grants_ok_def get_by_def)
    moreover have "list_all (\<lambda>row. fst row = grant_key (snd row)) (disk (update_by gr_id grant_key k f st))"
      using ok unfolding disk by (auto simp: grants_ok_def list_all_iff row_of_def)
    ultimately show ?thesis using Sqlite by (simp add: grants_ok_def)
  qed (use ok in \<open>simp add: grants_ok_def\<close>)
qed

lemma grants_ok_reopen: "grants_ok st \<Longrightarrow> grants_ok (reopen st)" and
  get_by_reopen: "grants_ok st \<Longrightarrow> get_by gr_id k (reopen st) = get_by gr_id k st"
  by (simp_all add: grants_ok_def get_by_def mem_reopen load_def) (simp add: reopen_def)

section \<open>What a proposal does to the grants\<close>

definition accepted :: "string option \<Rightarrow> bool" where
  "accepted status \<longleftrightarrow> status \<in> {Some ''executed'', Some ''manual_approval_required''}"

definition spend :: "ident \<Rightarrow> instant \<Rightarrow> grant store \<Rightarrow> grant store" where
  "spend k t = update_by gr_id grant_key k (\<lambda>x. x\<lparr>gr_consumed := True, gr_consumed_at := Some t\<rparr>)"

definition live_grant :: "string \<Rightarrow> string \<Rightarrow> instant \<Rightarrow> grant \<Rightarrow> bool" where
  "live_grant operation target now g \<longleftrightarrow>
     \<not> gr_consumed g \<and> now < gr_expires g \<and> gr_operation g = operation \<and> gr_target g = target"

lemma agent_frame [simp]:
  "ag_grants (on_home f s) = ag_grants s" "ag_provenance (on_home f s) = ag_provenance s"
  "ag_grants (record_hold_provenance ko g b i s) = ag_grants s" "ag_home (record_hold_provenance ko g b i s) = ag_home s"
  "ag_grants (snd (get_hold_provenance k s)) = ag_grants s" "ag_home (snd (get_hold_provenance k s)) = ag_home s"
  "ag_grants (snd (check_separation cfg k who s)) = ag_grants s" "ag_home (snd (check_separation cfg k who s)) = ag_home s"
  by (auto simp: on_home_def record_hold_provenance_def get_hold_provenance_def check_separation_def split: option.split prod.split)

lemma check_authority_iff:
  "fst (check_authority k operation target s) \<longleftrightarrow>
     (\<exists>i g. k = Some i \<and> i \<noteq> [] \<and> get_grant i s = Some g \<and> live_grant operation target (ag_now s) g)"
  by (auto simp: check_authority_def or_str_def live_grant_def split: option.split)

lemma consume_live:
  "get_grant k s = Some g \<Longrightarrow> \<not> gr_consumed g \<Longrightarrow> ag_grants (snd (consume_grant k s)) = spend k (ag_now s) (ag_grants s)"
  by (simp add: consume_grant_def spend_def)

lemma resolve_proposal_frame:
  assumes "resolve_proposal cfg p s = (r, s1)"
  shows "ag_grants s1 = ag_grants s" "ag_provenance s1 = ag_provenance s" "ag_now s1 = ag_now s"
    "rs_auth_ok r = fst (check_authority (ap_grant p) (type_value (ap_mechanism p)) (ap_target p) s)"
  using assms by (auto simp: resolve_proposal_def fresh_id_def Let_def split: prod.splits)

lemma governed_verdict_frame:
  assumes "governed_verdict P p r adapter ov s = Some (ao, s')"
  shows "ao_status ao = Some (ov_status ov)" and "ag_grants s' =
     (if accepted (Some (ov_status ov)) \<and> ap_grant p \<noteq> None then ag_grants (snd (consume_grant (the (ap_grant p)) s)) else ag_grants s)"
  using assms
  by (auto simp: governed_verdict_def Let_def agent_held_def agent_executed_def agent_learn_def agent_verdict_def accepted_def
      split: if_splits option.splits prod.splits)

lemma propose_grants:
  assumes "propose_and_govern P cfg p s = Some (ao, s')"
  shows "\<not> accepted (ao_status ao) \<and> ag_grants s' = ag_grants s \<or>
     (\<exists>k g. ap_grant p = Some k \<and> get_grant k s = Some g \<and>
        live_grant (type_value (ap_mechanism p)) (ap_target p) (ag_now s) g \<and>
        accepted (ao_status ao) \<and> ag_grants s' = spend k (ag_now s) (ag_grants s))"
proof -
  obtain r s1 where r: "resolve_proposal cfg p s = (r, s1)" by fastforce
  note f = resolve_proposal_frame[OF r]
  show ?thesis
  proof (cases "ac_enabled cfg \<and> rs_auth_ok r")
    case False
    then have "(ao = agent_verdict ''disabled'' None False ''agent surface disabled (RMT_AGENT_ENABLED)'' \<and> s' = s) \<or>
        (ao = agent_verdict ''no_authority'' None False (rs_auth_reason r) \<and> s' = s1)"
      using assms False by (cases "ac_enabled cfg") (simp_all add: propose_and_govern_def r)
    then show ?thesis using f(1) by (auto simp: agent_verdict_def accepted_def)
  next
    case True
    then obtain k g where k: "ap_grant p = Some k" "get_grant k s = Some g"
      "live_grant (type_value (ap_mechanism p)) (ap_target p) (ag_now s) g"
      using f(4) True by (auto simp: check_authority_iff)
    let ?a = "context_adapter (ap_context p) (ag_home s1)"
    obtain out st where x: "execute_governed_action (rs_action r) ?a (ag_gov s1) = (out, st)" by fastforce
    have now: "g_now st = ag_now s" using execute_config[of "ag_gov s1" "rs_action r" ?a] x f(3) by (simp add: same_config_def)
    show ?thesis
    proof (cases "outcome_dict (rs_action r) ?a out")
      case None
      then have "ao = agent_verdict ''error'' None (rs_escalate r) exception_text" "s' = agent_with_gov st s1"
        using assms True x by (simp_all add: propose_and_govern_def r Let_def)
      then show ?thesis using f(1) by (simp add: agent_verdict_def accepted_def)
    next
      case (Some ov)
      have v: "governed_verdict P p r ?a ov (agent_with_gov st s1) = Some (ao, s')"
        using assms True x Some by (simp add: propose_and_govern_def r Let_def)
      have g: "get_grant k (agent_with_gov st s1) = Some g" using k(2) f(1) by (simp add: get_grant_def)
      have spent: "ag_grants (snd (consume_grant k (agent_with_gov st s1))) = spend k (ag_now s) (ag_grants s)"
        using consume_live[OF g] k(3) now f(1) by (simp add: live_grant_def)
      note fin = governed_verdict_frame[OF v]
      show ?thesis
      proof (cases "accepted (Some (ov_status ov))")
        case True
        then have "ag_grants s' = spend k (ag_now s) (ag_grants s)" using fin(2) k(1) spent by simp
        with k True fin(1) show ?thesis by auto
      next
        case False
        then show ?thesis using fin f(1) by simp
      qed
    qed
  qed
qed

section \<open>What the routes do to the grants\<close>

lemma with_agent_fields [simp]:
  "sv_grants (with_agent a s) = ag_grants a" "sv_provenance (with_agent a s) = ag_provenance a"
  "lp_home (sv_loop (with_agent a s)) = ag_home a" "sv_hits (with_agent a s) = sv_hits s"
  "sv_archives (with_agent a s) = sv_archives s"
  by (simp_all add: with_agent_def)

lemma agent_of_fields [simp]:
  "ag_grants (agent_of s) = sv_grants s" "ag_provenance (agent_of s) = sv_provenance s" "ag_home (agent_of s) = lp_home (sv_loop s)"
  by (simp_all add: agent_of_def)

lemma open_holds_frame [simp]: "ag_grants (snd (open_holds hs s)) = ag_grants s" "ag_home (snd (open_holds hs s)) = ag_home s"
proof (induction hs arbitrary: s)
  case (Cons h hs)
  { case 1 then show ?case using Cons(1)
      by (simp add: open_hold_view_def Let_def split: prod.split) (metis agent_frame(5) snd_conv) }
  { case 2 then show ?case using Cons(2)
      by (simp add: open_hold_view_def Let_def split: prod.split) (metis agent_frame(6) snd_conv) }
qed simp_all

lemma chain_provenance_frame [simp]:
  "ag_grants (snd (chain_provenance hs s)) = ag_grants s" "ag_home (snd (chain_provenance hs s)) = ag_home s"
proof (induction hs arbitrary: s)
  case (Cons h hs)
  { case 1 then show ?case using Cons(1) by (simp split: prod.split) (metis agent_frame(5) snd_conv) }
  { case 2 then show ?case using Cons(2) by (simp split: prod.split) (metis agent_frame(6) snd_conv) }
qed simp_all

lemma evidence_chain_frame [simp]:
  "ag_grants (snd (evidence_chain a p e s)) = ag_grants s" "ag_home (snd (evidence_chain a p e s)) = ag_home s"
  by (simp_all add: evidence_chain_def assemble_def Let_def split_beta)

lemma route_grants:
  "route_execute P oper tg im who s = Some (x, s') \<Longrightarrow> ag_grants s' = ag_grants s"
  "ag_grants (snd (route_approve cfg k ok who s)) = ag_grants s"
  "route_homelab_approve P cfg k ok who s = Some (x, s') \<Longrightarrow> ag_grants s' = ag_grants s"
  "route_remediate P c s = Some (x, s') \<Longrightarrow> ag_grants s' = ag_grants s"
  "ag_grants (snd (route_preview cfg b s)) = ag_grants s"
  "ag_grants (snd (route_evidence D a p e s)) = ag_grants s"
  "ag_grants (snd (route_export D a p e s)) = ag_grants s"
  "ag_grants (snd (open_holds_view s)) = ag_grants s"
proof -
  show "route_execute P oper tg im who s = Some (x, s') \<Longrightarrow> ag_grants s' = ag_grants s"
    by (auto simp: route_execute_def Let_def split: option.splits prod.splits)
  have sep: "ag_grants s1 = ag_grants s" if "check_separation cfg k who s = (q, s1)" for q s1
    using agent_frame(7)[of cfg k who s] that by simp
  show "ag_grants (snd (route_approve cfg k ok who s)) = ag_grants s"
    by (auto simp: route_approve_def Let_def sep split: option.split prod.split bool.split)
  show "route_homelab_approve P cfg k ok who s = Some (x, s') \<Longrightarrow> ag_grants s' = ag_grants s"
    by (auto simp: route_homelab_approve_def sep split: option.splits prod.splits bool.splits sum.splits)
  show "route_remediate P c s = Some (x, s') \<Longrightarrow> ag_grants s' = ag_grants s"
    by (auto simp: route_remediate_def Let_def split: option.splits prod.splits sum.splits)
  have res: "ag_grants s1 = ag_grants s" if "resolve_proposal cfg p s = (r, s1)" for p r s1
    using resolve_proposal_frame(1)[OF that] .
  show "ag_grants (snd (route_preview cfg b s)) = ag_grants s"
    by (auto simp: route_preview_def preview_proposal_def Let_def res split: option.split prod.split sum.split assess_error.split)
  show "ag_grants (snd (route_evidence D a p e s)) = ag_grants s"
    by (simp add: route_evidence_def split_beta)
  show "ag_grants (snd (route_export D a p e s)) = ag_grants s"
    by (auto simp: route_export_def export_bundle_def Let_def split_beta split: option.split)
  show "ag_grants (snd (open_holds_view s)) = ag_grants s"
    by (simp add: open_holds_view_def)
qed

fun uses_grant :: "ident \<Rightarrow> http_request \<times> answer_to \<Rightarrow> bool" where
  "uses_grant k (PostAct b, Ok200 (AgentReply ao)) \<longleftrightarrow> pb_grant b = Some k \<and> accepted (ao_status ao)"
| "uses_grant k _ \<longleftrightarrow> False"

text \<open>How one step moves the grant store, and which grant it uses.\<close>

inductive grant_move :: "ident option \<Rightarrow> grant store \<Rightarrow> grant store \<Rightarrow> bool" where
  move_same: "grant_move None st st"
| move_issue: "grant_move None st (save grant_key g st)"
| move_spend: "get_by gr_id k st = Some g \<Longrightarrow> \<not> gr_consumed g \<Longrightarrow> grant_move (Some k) st (spend k t st)"
| move_reopen: "grant_move None st (reopen st)"

lemma act_grants:
  assumes "route_act P cfg b s = Some (x, s')"
  shows "\<exists>u. grant_move u (sv_grants s) (sv_grants s') \<and> (\<forall>k. uses_grant k (PostAct b, x) \<longleftrightarrow> u = Some k)"
proof (cases "proposal_from_body b")
  case None
  then show ?thesis using assms by (auto simp: route_act_def intro!: exI[of _ None] move_same)
next
  case (Some p)
  obtain ao a where pg: "propose_and_govern P cfg p (agent_of s) = Some (ao, a)" and x: "x = Ok200 (AgentReply ao)"
    and s': "sv_grants s' = ag_grants a"
    using assms Some by (auto simp: route_act_def split: option.splits)
  have pb: "pb_grant b = ap_grant p" using Some by (auto simp: proposal_from_body_def)
  from propose_grants[OF pg] show ?thesis
  proof (elim disjE exE conjE)
    assume "\<not> accepted (ao_status ao)" "ag_grants a = ag_grants (agent_of s)"
    then show ?thesis using x s' by (auto intro!: exI[of _ None] move_same)
  next
    fix k g
    assume "ap_grant p = Some k" "get_grant k (agent_of s) = Some g" "accepted (ao_status ao)"
      "live_grant (type_value (ap_mechanism p)) (ap_target p) (ag_now (agent_of s)) g"
      "ag_grants a = spend k (ag_now (agent_of s)) (ag_grants (agent_of s))"
    then show ?thesis using x s' pb
      by (intro exI[of _ "Some k"]) (auto simp: get_grant_def live_grant_def intro: move_spend)
  qed
qed

lemma grant_route_grants: "\<exists>g. ag_grants (snd (route_grant cfg oper tg ttl who s)) = save grant_key g (ag_grants s) \<or>
    ag_grants (snd (route_grant cfg oper tg ttl who s)) = ag_grants s"
  by (auto simp: route_grant_def grant_authority_def fresh_id_def Let_def)

lemma dispatch_grants:
  assumes "dispatch D who r s = Some (x, s')"
  shows "\<exists>u. grant_move u (sv_grants s) (sv_grants s') \<and> (\<forall>k. uses_grant k (r, x) \<longleftrightarrow> u = Some k)"
proof (cases r)
  case (PostAct b)
  then show ?thesis using assms act_grants by simp
next
  case (PostGrant oper tg ttl)
  then have "sv_grants s' = ag_grants (snd (route_grant (dp_agent D) oper tg ttl who (agent_of s)))"
    using assms by (auto simp: on_agent_def)
  then show ?thesis using grant_route_grants[of "dp_agent D" oper tg ttl who "agent_of s"] PostGrant
    by (auto intro!: exI[of _ None] intro: grant_move.intros)
qed (use assms in \<open>auto simp: on_agent_def on_agent_opt_def on_loop_def route_grants intro!: exI[of _ None] dest!: route_grants(1,3,4)
    intro: grant_move.intros\<close>)

lemma handle_cases:
  assumes "handle D c r s = Some (x, s')"
  obtains (refused) "s' = s" "x \<in> {Unavailable503, Unauthorized401}"
  | (limited) who hits where "s' = s\<lparr>sv_hits := hits\<rparr>" "x = TooMany429" "rate_limited D (limiter_of r) who s = (True, hits)"
      "resolve_operator (dp_credential D) (dp_env D) (cr_authorization c) (cr_api_key c) = Operator who"
  | (served) who hits where "dispatch D who r (s\<lparr>sv_hits := hits\<rparr>) = Some (x, s')"
      "public_request r \<and> hits = sv_hits s \<or> \<not> public_request r \<and> rate_limited D (limiter_of r) who s = (False, hits) \<and>
         resolve_operator (dp_credential D) (dp_env D) (cr_authorization c) (cr_api_key c) = Operator who"
proof (cases "public_request r")
  case True
  then have "dispatch D [] r (s\<lparr>sv_hits := sv_hits s\<rparr>) = Some (x, s')" using assms by (simp add: handle_def)
  then show thesis using True by (intro served[of "[]"]) auto
next
  case False
  show thesis
  proof (cases "resolve_operator (dp_credential D) (dp_env D) (cr_authorization c) (cr_api_key c)")
    case (Operator who)
    obtain over hits where l: "rate_limited D (limiter_of r) who s = (over, hits)" by fastforce
    then show thesis using assms False Operator limited[of hits who] served[of who hits] by (cases over) (auto simp: handle_def)
  qed (use assms False in \<open>auto simp: handle_def intro: refused\<close>)
qed

lemma handle_grants:
  assumes "handle D c r s = Some (x, s')"
  shows "\<exists>u. grant_move u (sv_grants s) (sv_grants s') \<and> (\<forall>k. uses_grant k (r, x) \<longleftrightarrow> u = Some k)"
  using assms
proof (cases rule: handle_cases)
  case (served who hits)
  then show ?thesis using dispatch_grants[OF served(1)] by simp
qed (auto intro!: exI[of _ None] move_same)

lemma step_grants:
  assumes "platform_step D e s s'"
  shows "\<exists>u. grant_move u (sv_grants s) (sv_grants s') \<and> (\<forall>k. (\<exists>p. e = Some p \<and> uses_grant k p) \<longleftrightarrow> u = Some k)"
  using assms
proof (cases rule: platform_step.cases)
  case (plat_request P c r x)
  then show ?thesis using handle_grants[OF plat_request(2)] by simp
next
  case (plat_boot f)
  then have "sv_grants s' = reopen (sv_grants s)"
    by (auto simp: boot_def lifespan_def reload_def Let_def split: if_splits prod.splits)
  then show ?thesis using plat_boot by (auto intro!: exI[of _ None] move_reopen)
qed (auto simp: background_cycle_def advance_def Let_def intro!: exI[of _ None] move_same split: if_splits)

section \<open>A grant is used once\<close>

definition spent :: "ident \<Rightarrow> grant store \<Rightarrow> bool" where
  "spent k st \<longleftrightarrow> (\<exists>g. get_by gr_id k st = Some g \<and> gr_consumed g)"

lemma move_ok: "grant_move u st st' \<Longrightarrow> grants_ok st \<Longrightarrow> grants_ok st'"
  by (induction rule: grant_move.induct) (auto simp: spend_def intro: grants_ok_save grants_ok_update grants_ok_reopen)

lemma move_spent:
  assumes "grant_move u st st'" and "grants_ok st"
  shows "(spent k st \<longrightarrow> spent k st' \<and> u \<noteq> Some k) \<and> (u = Some k \<longrightarrow> spent k st')"
  using assms
proof (induction rule: grant_move.induct)
  case (move_issue st g)
  then show ?case by (auto simp: spent_def grants.get_put_old)
next
  case (move_spend j st g t)
  have keep: "spent k st \<Longrightarrow> spent k (spend j t st)"
    using grants.closed_stays_closed[of "\<lambda>x. x\<lparr>gr_consumed := True, gr_consumed_at := Some t\<rparr>" "\<lambda>x. \<not> gr_consumed x" k st _ j]
    by (auto simp: spent_def spend_def)
  have "spent j (spend j t st)"
    using grants.decide_once[of "\<lambda>x. x\<lparr>gr_consumed := True, gr_consumed_at := Some t\<rparr>" "\<lambda>x. \<not> gr_consumed x" j st g] move_spend
    by (auto simp: spent_def spend_def)
  then show ?case using keep move_spend by (auto simp: spent_def)
next
  case (move_reopen st)
  then show ?case by (simp add: spent_def get_by_reopen)
qed simp

lemma run_uses:
  assumes "platform_run D s es s'" and "grants_ok (sv_grants s)"
  shows "grants_ok (sv_grants s') \<and> length (filter (uses_grant k) es) \<le> (if spent k (sv_grants s') then 1 else 0)"
  using assms
proof (induction rule: platform_run.induct)
  case (plat_next D s es s' e s'')
  obtain u where u: "grant_move u (sv_grants s') (sv_grants s'')" "\<forall>k. (\<exists>p. e = Some p \<and> uses_grant k p) \<longleftrightarrow> u = Some k"
    using step_grants[OF plat_next.hyps(2)] by blast
  then show ?case using plat_next.IH[OF plat_next.prems] move_ok[OF u(1)] move_spent[OF u(1), of k]
    by (cases e) (auto split: if_splits)
qed simp

end
