(* ===== verification/Agent_Sample.thy ===== *)
theory Agent_Sample
  imports Agent_Grants Homelab_Properties
begin

text \<open>
  A small deployment for the witnesses of the agent surface: one operator with a token, one grant,
  one proposal made out for it, which the default domain holds for a human.
\<close>

definition sample_grant :: grant where
  "sample_grant = \<lparr>gr_id = ''g'', gr_operation = ''restart'', gr_target = ''portainer'', gr_by = ''alice'', gr_expires = seconds 60,
     gr_consumed = False, gr_consumed_at = None, gr_created_at = 0\<rparr>"

definition sample_agent :: "nat agent" where
  "sample_agent = \<lparr>ag_home = sample_home, ag_grants = save grant_key sample_grant (empty_store Sqlite), ag_provenance = []\<rparr>"

definition sample_body :: propose_body where
  "sample_body = \<lparr>pb_agent = ''bot'', pb_goal = ''up'', pb_target = ''portainer'', pb_mechanism = ''restart'', pb_reason = [],
     pb_confidence = 80, pb_expected = ''running'', pb_grant = Some ''g'', pb_context = ''homelab''\<rparr>"

definition sample_proposal :: proposal where
  "sample_proposal = \<lparr>ap_agent = ''bot'', ap_context = ''homelab'', ap_goal = ''up'', ap_target = ''portainer'', ap_mechanism = Restart,
     ap_reason = [], ap_confidence = 80, ap_expected = ''running'', ap_grant = Some ''g''\<rparr>"

definition sample_agent_config :: agent_config where
  "sample_agent_config = \<lparr>ac_enabled = True, ac_ttl = 300, ac_default_approval = True, ac_escalation = False, ac_edges = [],
     ac_separation = True\<rparr>"

lemma sample_body: "proposal_from_body sample_body = Some sample_proposal"
  by code_simp

lemma sample_agent_now: "ag_now sample_agent = 0" "get_grant ''g'' sample_agent = Some sample_grant"
  by (simp_all add: sample_agent_def sample_home_def sample_defs sample_ops_def get_grant_def get_by_save sample_grant_def)
    (simp add: get_by_def empty_store_def)

lemma manual_id:
  assumes "execute_governed_action a adapter st = (ManualRequired why k, st')"
  shows "\<exists>n. k = g_uuid st n"
proof (cases "resolve_assessment st a adapter")
  case (Inl e)
  then show ?thesis using assms by (cases e) (auto simp: execute_governed_action_def)
next
  case (Inr x)
  obtain asmt st1 where x: "resolve_assessment st a adapter = Inr (asmt, st1)" using Inr by (cases x) simp
  then show ?thesis using assms resolve_state[OF x]
    by (auto simp: execute_governed_action_def process_approval_def hold_for_manual_approval_def fresh_id_def Let_def
        create_execution_authorization_def execute_authorized_def split: if_splits option.splits prod.splits)
qed

lemma sample_resolution:
  "\<exists>r s1 asmt st1. resolve_proposal sample_agent_config sample_proposal sample_agent = (r, s1) \<and> rs_auth_ok r \<and>
     context_adapter (ap_context sample_proposal) (ag_home s1) = ''simulation'' \<and>
     resolve_assessment (ag_gov s1) (rs_action r) ''simulation'' = Inr (asmt, st1) \<and> pol_allowed (asm_policy asmt) \<and>
     rk_level (asm_risk asmt) = ''medium'' \<and> act_requires_approval (rs_action r) \<and> rs_escalate r = False \<and>
     g_uuid (ag_gov s1) = g_uuid sample_gov"
proof -
  obtain r s1 where r: "resolve_proposal sample_agent_config sample_proposal sample_agent = (r, s1)" by fastforce
  have ok: "rs_auth_ok r"
    unfolding resolve_proposal_frame(4)[OF r] check_authority_iff
    by (simp add: sample_proposal_def sample_agent_now live_grant_def) (simp add: sample_grant_def)
  have a: "act_domain (rs_action r) = default_domain" "act_parameters (rs_action r) = []" "act_type (rs_action r) = Restart"
    "act_confidence (rs_action r) = 80" "act_requires_approval (rs_action r)" "\<not> rs_escalate r"
    using r by (auto simp: resolve_proposal_def fresh_id_def Let_def sample_proposal_def sample_agent_config_def
        escalate_for_dependency_cascade_def split: prod.splits)
  have g: "ag_gov s1 = (hm_gov sample_home)\<lparr>g_next := 2\<rparr>" "hm_engine (ag_home s1) = ''simulation''"
    using r by (auto simp: resolve_proposal_def fresh_id_def Let_def sample_agent_def agent_with_gov_def with_gov_def sample_home_def
        sample_defs split: prod.splits)
  then have reg: "g_registry (ag_gov s1) default_domain = Some default_registration"
    by (simp add: sample_home_def sample_ops_def sample_defs)
  from resolve_default[OF reg a(1) _ a(2,3), of "''simulation''"] a(4) obtain asmt st1 where
    "resolve_assessment (ag_gov s1) (rs_action r) ''simulation'' = Inr (asmt, st1)" "pol_allowed (asm_policy asmt)"
    "rk_level (asm_risk asmt) = ''medium''" by auto
  moreover have "context_adapter (ap_context sample_proposal) (ag_home s1) = ''simulation''"
    using g by (simp add: context_adapter_def sample_proposal_def resolve_adapter_name_def)
  ultimately show ?thesis using r ok a g by (auto simp: sample_home_def sample_ops_def)
qed

lemma sample_held_proposal:
  "\<exists>ao s1 k. propose_and_govern P sample_agent_config sample_proposal sample_agent = Some (ao, s1) \<and>
     ao_status ao = Some ''manual_approval_required'' \<and> ao_approval_id ao = Some k \<and> k \<noteq> []"
proof -
  obtain r s1 asmt st1 where r: "resolve_proposal sample_agent_config sample_proposal sample_agent = (r, s1)" "rs_auth_ok r"
    "context_adapter (ap_context sample_proposal) (ag_home s1) = ''simulation''"
    and x: "resolve_assessment (ag_gov s1) (rs_action r) ''simulation'' = Inr (asmt, st1)" "pol_allowed (asm_policy asmt)"
      "rk_level (asm_risk asmt) = ''medium''" "act_requires_approval (rs_action r)"
    and u: "g_uuid (ag_gov s1) = g_uuid sample_gov"
    using sample_resolution by blast
  obtain why k st' where m: "execute_governed_action (rs_action r) ''simulation'' (ag_gov s1) = (ManualRequired why k, st')"
    using manual_outcome[OF x] by blast
  have "k \<noteq> []" using manual_id[OF m] u by (auto simp: sample_defs)
  moreover have "ac_enabled sample_agent_config" by (simp add: sample_agent_config_def)
  ultimately show ?thesis using r m
    by (auto simp: propose_and_govern_def outcome_dict_def plain_view_def governed_verdict_def agent_held_def agent_verdict_def Let_def)
qed

section \<open>The deployment\<close>

definition sample_deployment :: deployment where
  "sample_deployment = \<lparr>dp_env = [''RMT_OPERATOR_TOKENS'' \<mapsto> ''alice:t1, bob:t2''], dp_credential = None, dp_signing = None,
     dp_agent = sample_agent_config, dp_loop = sample_config, dp_loop_enabled = False, dp_probes = sample_probes,
     dp_docker = sample_running, dp_hmac = (\<lambda>k t. k @ t), dp_dumper = \<lparr>dm_auth = (\<lambda>_. PNone), dm_record = (\<lambda>_. PNone),
       dm_hold = (\<lambda>_. PNone), dm_audit = (\<lambda>_. PNone), dm_trace = (\<lambda>_. PNone), dm_verif = (\<lambda>_. PNone),
       dm_provenance = (\<lambda>_. PNone), dm_instant = (\<lambda>_. ''now'')\<rparr>, dp_faults = (\<lambda>_. NoFault)\<rparr>"

definition sample_server :: "nat server" where
  "sample_server = \<lparr>sv_loop = sample_loop, sv_grants = ag_grants sample_agent, sv_provenance = [], sv_hits = (\<lambda>_. None),
     sv_last = None, sv_archives = no_archives\<rparr>"

definition sample_credentials :: credentials where
  "sample_credentials = \<lparr>cr_authorization = Some ''Bearer t1'', cr_api_key = None\<rparr>"

lemma sample_operator:
  "resolve_operator None [''RMT_OPERATOR_TOKENS'' \<mapsto> ''alice:t1, bob:t2''] (Some ''Bearer t1'') None = Operator ''alice''"
  by code_simp

lemma sample_authenticated:
  "resolve_operator (dp_credential (sample_deployment\<lparr>dp_probes := P\<rparr>)) (dp_env (sample_deployment\<lparr>dp_probes := P\<rparr>))
     (cr_authorization sample_credentials) (cr_api_key sample_credentials) = Operator ''alice''"
  using sample_operator by (simp add: sample_deployment_def sample_credentials_def)

lemma sample_grants_ok: "grants_ok (sv_grants sample_server)"
  by (simp add: sample_server_def sample_agent_def) (intro grants_ok_save, simp add: grants_ok_def empty_store_def get_by_def)

lemma sample_agent_of: "agent_of (sample_server\<lparr>sv_hits := h\<rparr>) = sample_agent"
  by (simp add: agent_of_def sample_server_def sample_loop_def sample_agent_def)

end
