(* ===== verification/Agent_Properties.thy ===== *)
theory Agent_Properties
  imports Agent_Sample
begin

text \<open>
  Authority at the agent surface and in front of the HTTP routes: grants are scoped and used once,
  the people behind a proposal cannot approve it, a preview tells the outcome of the proposal, and
  no protected request has an effect without a configured operator token.
\<close>

section \<open>The outcome of an assessed action\<close>

text \<open>The mode of the approval decision fixes the outcome.\<close>

definition mode_outcome :: "approval_mode \<Rightarrow> outcome \<Rightarrow> bool" where
  "mode_outcome m out \<longleftrightarrow>
     (case m of
        Reject \<Rightarrow> (\<exists>w b. out = PolicyDenied w b) \<or> (\<exists>w. out = RejectedByPolicy w)
      | Manual \<Rightarrow> (\<exists>w k. out = ManualRequired w k)
      | Auto \<Rightarrow> (\<exists>res v. out = Executed res v) \<or> out = Raised)"

lemma assessed_outcome:
  assumes x: "resolve_assessment st a adapter = Inr (asmt, st1)"
    and d: "process_approval a (asm_policy asmt) (asm_risk asmt) st1 = (d, st2)"
    and out: "execute_governed_action a adapter st = (out, st')"
  shows "mode_outcome (ad_mode d) out"
proof (cases "pol_allowed (asm_policy asmt)")
  case False
  then have "ad_mode d = Reject" using d by (auto simp: process_approval_def fresh_id_def reject_iff Let_def)
  then show ?thesis using False out by (auto simp: execute_governed_action_def x mode_outcome_def Let_def)
next
  case True
  show ?thesis
  proof (cases "ad_mode d")
    case Auto
    then have "ad_approved d" using d approved_iff_auto by (auto simp: process_approval_def fresh_id_def Let_def)
    then show ?thesis using out True Auto
      by (auto simp: execute_governed_action_def x d mode_outcome_def Let_def create_execution_authorization_def fresh_id_def
          execute_authorized_def split: prod.splits option.splits)
  qed (use out True in \<open>auto simp: execute_governed_action_def x d mode_outcome_def Let_def split: prod.splits\<close>)
qed

lemma auto_authorization: "mode_outcome m AuthorizationNotCreated \<longleftrightarrow> False" "mode_outcome m (AssessmentFailed e) \<longleftrightarrow> False"
  by (auto simp: mode_outcome_def split: approval_mode.splits)

definition predicted_decision :: "approval_mode \<Rightarrow> bool \<Rightarrow> string set" where
  "predicted_decision m escalated =
     (case m of Reject \<Rightarrow> {''deny'', ''rejected''}
      | Manual \<Rightarrow> {if escalated then ''escalated_hold'' else ''hold''}
      | Auto \<Rightarrow> {''allow'', ''error''})"

definition verdict_of :: "bool \<Rightarrow> outcome_view \<Rightarrow> string" where
  "verdict_of escalated ov =
     (if ov_status ov = ''manual_approval_required'' then if escalated then ''escalated_hold'' else ''hold''
      else if ov_status ov = ''executed'' then ''allow''
      else if ov_status ov \<in> {''policy_denied'', ''authorization_not_created''} then ''deny'' else ''rejected'')"

lemma verdict_decision:
  assumes "governed_verdict P p r adapter ov s = Some (ao, s')"
  shows "ao_decision ao = verdict_of (rs_escalate r) ov"
  using assms
  by (auto simp: governed_verdict_def verdict_of_def Let_def agent_held_def agent_executed_def agent_learn_def agent_verdict_def
      split: if_splits option.splits prod.splits)

lemma predicted_view:
  "mode_outcome m out \<Longrightarrow> outcome_dict a adapter out = Some ov \<Longrightarrow> verdict_of e ov \<in> predicted_decision m e"
  by (cases m) (auto simp: mode_outcome_def outcome_dict_def predicted_decision_def plain_view_def executed_view_def verdict_of_def)

lemma predicted_error: "mode_outcome m out \<Longrightarrow> outcome_dict a adapter out = None \<Longrightarrow> ''error'' \<in> predicted_decision m e"
  by (cases m) (auto simp: mode_outcome_def outcome_dict_def predicted_decision_def)

lemma proposal_decision:
  assumes run: "propose_and_govern P cfg p s = Some (ao, s')" and on: "ac_enabled cfg"
    and r: "resolve_proposal cfg p s = (r, s1)" and ok: "rs_auth_ok r"
    and x: "resolve_assessment (ag_gov s1) (rs_action r) (context_adapter (ap_context p) (ag_home s1)) = Inr (asmt, g)"
    and d: "process_approval (rs_action r) (asm_policy asmt) (asm_risk asmt) g = (d, g')"
  shows "ao_decision ao \<in> predicted_decision (ad_mode d) (rs_escalate r)"
proof -
  let ?ad = "context_adapter (ap_context p) (ag_home s1)"
  obtain out st where e: "execute_governed_action (rs_action r) ?ad (ag_gov s1) = (out, st)" by fastforce
  note m = assessed_outcome[OF x d e]
  show ?thesis
  proof (cases "outcome_dict (rs_action r) ?ad out")
    case None
    then have "ao_decision ao = ''error''" using run on ok e by (auto simp: propose_and_govern_def r agent_verdict_def)
    then show ?thesis using predicted_error[OF m None] by simp
  next
    case (Some ov)
    then have "governed_verdict P p r ?ad ov (agent_with_gov st s1) = Some (ao, s')"
      using run on ok e by (simp add: propose_and_govern_def r)
    then show ?thesis using verdict_decision predicted_view[OF m Some] by metis
  qed
qed

section \<open>Who is behind a hold\<close>

lemma consume_by: "map_option gr_by (get_grant j (snd (consume_grant k s))) = map_option gr_by (get_grant j s)"
  by (auto simp: consume_grant_def get_grant_def grants.get_modify option.map_comp o_def split: option.split)

lemma consume_frame [simp]:
  "ag_home (snd (consume_grant k s)) = ag_home s" "ag_provenance (snd (consume_grant k s)) = ag_provenance s"
  by (auto simp: consume_grant_def split: option.split)

lemma learning_gov [simp]: "hm_gov (record_learning c ov conf why h) = hm_gov h"
  by (simp add: record_learning_def remember_def)

lemma agent_hold_gov [simp]: "hm_gov (notify_agent_hold p k d h) = hm_gov h"
  by (simp add: notify_agent_hold_def notify_held_def sending_def)

lemma recorded_provenance:
  "k \<noteq> [] \<Longrightarrow> table_get hp_approval k (ag_provenance (record_hold_provenance (Some k) g b i s)) =
     Some \<lparr>hp_approval = k, hp_grant = g, hp_granted_by = b, hp_agent = i, hp_recorded = ag_now s\<rparr>"
  by (simp add: record_hold_provenance_def or_str_def provenance_table.get_put)

lemma held_entry:
  assumes "governed_verdict P p r adapter ov s = Some (ao, s')" and "ao_approval_id ao = Some k" and "k \<noteq> []"
  shows "ag_now s' = ag_now s \<and> table_get hp_approval k (ag_provenance s') =
     Some \<lparr>hp_approval = k, hp_grant = ap_grant p,
       hp_granted_by = (case ap_grant p of None \<Rightarrow> None | Some j \<Rightarrow> map_option gr_by (get_grant j s)),
       hp_agent = Some (ap_agent p), hp_recorded = ag_now s\<rparr>"
proof -
  define t where "t = (if ov_status ov \<in> {''executed'', ''manual_approval_required''} \<and> ap_grant p \<noteq> None
      then snd (consume_grant (the (ap_grant p)) s) else s)"
  have by_whom: "map_option gr_by (get_grant j t) = map_option gr_by (get_grant j s)" for j
    by (simp add: t_def consume_by)
  have home: "ag_home t = ag_home s" by (simp add: t_def)
  have held: "ov_status ov = ''manual_approval_required''"
  proof (rule ccontr)
    assume "ov_status ov \<noteq> ''manual_approval_required''"
    then show False using assms(1,2)
      by (cases "ov_status ov = ''executed''")
        (auto simp: governed_verdict_def Let_def agent_executed_def agent_learn_def agent_verdict_def split: if_splits option.splits prod.splits)
  qed
  obtain ao0 where e: "(ao, s') = agent_held p ao0 ov t"
    using assms(1) held by (simp add: governed_verdict_def Let_def t_def) metis
  then have k: "ov_approval_id ov = Some k" using assms(2) by (simp add: agent_held_def Let_def)
  have s': "s' = on_home (notify_agent_hold p (ov_approval_id ov) (ao_detail ao0))
      (on_home (record_learning (ap_target p) ov (Some (ap_confidence p)) (Some (rationale p)))
        (record_hold_provenance (Some k) (ap_grant p)
          (case ap_grant p of None \<Rightarrow> None | Some j \<Rightarrow> map_option gr_by (get_grant j t)) (Some (ap_agent p)) t))"
    using e k by (simp add: agent_held_def Let_def)
  have "ag_now s' = ag_now s" unfolding s' by (simp add: on_home_def home)
  then show ?thesis unfolding s' 
    by (cases "ap_grant p") (simp_all add: by_whom home recorded_provenance[OF assms(3)])
qed

lemma held_proposal_entry:
  assumes "propose_and_govern P cfg p s = Some (ao, s1)" and "ao_approval_id ao = Some k" and "k \<noteq> []"
  shows "ag_now s1 = ag_now s \<and> table_get hp_approval k (ag_provenance s1) =
     Some \<lparr>hp_approval = k, hp_grant = ap_grant p,
       hp_granted_by = (case ap_grant p of None \<Rightarrow> None | Some j \<Rightarrow> map_option gr_by (get_grant j s)),
       hp_agent = Some (ap_agent p), hp_recorded = ag_now s\<rparr>"
proof -
  obtain r t where r: "resolve_proposal cfg p s = (r, t)" by fastforce
  note rf = resolve_proposal_frame[OF r]
  obtain out st where e: "execute_governed_action (rs_action r) (context_adapter (ap_context p) (ag_home t)) (ag_gov t) = (out, st)"
    by fastforce
  have now: "g_now st = ag_now s"
    using execute_config[of "ag_gov t" "rs_action r" "context_adapter (ap_context p) (ag_home t)"] e rf(3) by (simp add: same_config_def)
  obtain ov where v: "governed_verdict P p r (context_adapter (ap_context p) (ag_home t)) ov (agent_with_gov st t) = Some (ao, s1)"
    using assms(1,2) e
    by (cases "ac_enabled cfg"; cases "rs_auth_ok r") (auto simp: propose_and_govern_def r agent_verdict_def Let_def split: option.splits)
  have "get_grant j (agent_with_gov st t) = get_grant j s" for j using rf(1) by (simp add: get_grant_def)
  with held_entry[OF v assms(2,3)] now show ?thesis by (cases "ap_grant p") simp_all
qed

section \<open>Properties\<close>

text \<open>C25: A preview tells what the proposal would do. Submitted in the same state, a proposal whose
  preview reports authority ends in the decision its predicted approval mode stands for: denied or
  rejected, held (escalated when the preview says so), or executed by the adapter, which may fail or
  raise. Without authority it is refused. The preview itself only advances the identifier supply: no
  store, grant, provenance entry or world changes.\<close>

theorem preview_predicts_proposal:
  assumes "preview_proposal cfg p s = (Predicted a ok why esc pol risk d, s1)"
    and "propose_and_govern P cfg p s = Some (ao, s2)"
  shows "ao_decision ao \<in> (if ok then predicted_decision (ad_mode d) esc else {''no_authority''}) \<and>
     (ok \<longleftrightarrow> fst (check_authority (ap_grant p) (type_value (ap_mechanism p)) (ap_target p) s)) \<and>
     (\<exists>n. s1 = agent_with_gov ((ag_gov s)\<lparr>g_next := n\<rparr>) s)"
proof -
  obtain r t where r: "resolve_proposal cfg p s = (r, t)" by fastforce
  let ?ad = "context_adapter (ap_context p) (ag_home t)"
  have on: "ac_enabled cfg" using assms(1) by (auto simp: preview_proposal_def split: if_splits)
  obtain asmt g g' where x: "resolve_assessment (ag_gov t) (rs_action r) ?ad = Inr (asmt, g)"
    and d: "process_approval (rs_action r) (asm_policy asmt) (asm_risk asmt) g = (d, g')"
    and p: "ok = rs_auth_ok r" "esc = rs_escalate r" "s1 = agent_with_gov g' t"
    using assms(1) on by (auto simp: preview_proposal_def r Let_def split: if_splits sum.splits prod.splits assess_error.splits)
  have t: "t = agent_with_gov ((ag_gov s)\<lparr>g_next := Suc (Suc (g_next (ag_gov s)))\<rparr>) s"
    using r by (auto simp: resolve_proposal_def fresh_id_def Let_def split: prod.splits)
  have "g' = (ag_gov s)\<lparr>g_next := g_next g'\<rparr>"
    using d resolve_state[OF x] t by (auto simp: process_approval_def fresh_id_def Let_def)
  then have "s1 = agent_with_gov ((ag_gov s)\<lparr>g_next := g_next g'\<rparr>) s"
    using p(3) t by (simp add: agent_with_gov_def with_gov_def)
  moreover have "ao_decision ao = ''no_authority''" if "\<not> ok"
    using that assms(2) on p(1) by (auto simp: propose_and_govern_def r agent_verdict_def)
  ultimately show ?thesis
    using proposal_decision[OF assms(2) on r _ x d] p resolve_proposal_frame(4)[OF r] by auto
qed

text \<open>C8: An agent's authority is scoped, in time and used once. Over any run of the deployment --
  requests, background cycles, restarts, the clock -- at most one proposal is accepted under a grant,
  and it is accepted only while the stored grant is unexpired, unused and made out for exactly its
  operation and target.\<close>

theorem grant_is_used_once:
  assumes "platform_run D s es s'" and "grants_ok (sv_grants s)"
  shows "length (filter (uses_grant k) es) \<le> 1 \<and>
     (propose_and_govern P cfg p (agent_of s') = Some (ao, a) \<and> accepted (ao_status ao) \<longrightarrow>
       (\<exists>j g. ap_grant p = Some j \<and> get_by gr_id j (sv_grants s') = Some g \<and> \<not> spent j (sv_grants s') \<and>
          ag_now (agent_of s') < gr_expires g \<and> gr_operation g = type_value (ap_mechanism p) \<and> gr_target g = ap_target p))"
  using run_uses[OF assms, of k] propose_grants[of P cfg p "agent_of s'" ao a]
  by (auto simp: get_grant_def live_grant_def spent_def split: if_splits)

text \<open>C9: Nothing behind the operator boundary happens without an operator. Unless authentication is
  switched off in so many words, a request that changes the state, or gets a payload from a protected
  route, presented a token that the configuration lists, and runs under the name listed with it.\<close>

theorem requests_need_an_operator:
  assumes "handle D c r s = Some (x, s')" and "auth_enabled (dp_env D) \<noteq> Flag False"
    and "s' \<noteq> s \<or> \<not> public_request r \<and> (\<exists>p. x = Ok200 p)"
  shows "\<exists>who t e. extract_token (cr_authorization c) (cr_api_key c) = Some t \<and>
     e \<in> set (split_on CHR '','' (operator_tokens_raw (dp_credential D) (dp_env D))) \<and> token_entry e = Some (t, who) \<and>
     (\<exists>hits. s' = s\<lparr>sv_hits := hits\<rparr> \<or> dispatch D who r (s\<lparr>sv_hits := hits\<rparr>) = Some (x, s'))"
  using assms(1)
proof (cases rule: handle_cases)
  case refused
  then show ?thesis using assms(3) by auto
next
  case (limited who hits)
  then show ?thesis using operator_is_listed[OF limited(4) assms(2)] by blast
next
  case (served who hits)
  have "\<not> public_request r" using served(1,2) assms(3) by (auto simp: public_request_def)
  then have "resolve_operator (dp_credential D) (dp_env D) (cr_authorization c) (cr_api_key c) = Operator who"
    using served(2) by simp
  from operator_is_listed[OF this assms(2)] served(1) show ?thesis by blast
qed

section \<open>Witnesses\<close>

lemma preview_predicts_proposal_witness:
  "\<exists>a why pol risk d s1 ao s2. preview_proposal sample_agent_config sample_proposal sample_agent =
       (Predicted a True why False pol risk d, s1) \<and>
     propose_and_govern sample_probes sample_agent_config sample_proposal sample_agent = Some (ao, s2) \<and>
     ao_decision ao \<in> predicted_decision (ad_mode d) False"
proof -
  obtain r t asmt g where r: "resolve_proposal sample_agent_config sample_proposal sample_agent = (r, t)" "rs_auth_ok r"
    "context_adapter (ap_context sample_proposal) (ag_home t) = ''simulation''"
    "resolve_assessment (ag_gov t) (rs_action r) ''simulation'' = Inr (asmt, g)" "rs_escalate r = False"
    using sample_resolution by blast
  obtain d g' where d: "process_approval (rs_action r) (asm_policy asmt) (asm_risk asmt) g = (d, g')" by fastforce
  have "ac_enabled sample_agent_config" "ap_goal sample_proposal \<noteq> []" "ap_target sample_proposal \<noteq> []"
    by (simp_all add: sample_agent_config_def sample_proposal_def)
  then have v: "preview_proposal sample_agent_config sample_proposal sample_agent =
      (Predicted (rs_action r) True (rs_auth_reason r) False (asm_policy asmt) (asm_risk asmt) d, agent_with_gov g' t)"
    using r d by (simp add: preview_proposal_def)
  obtain ao s2 where p: "propose_and_govern sample_probes sample_agent_config sample_proposal sample_agent = Some (ao, s2)"
    using sample_held_proposal by blast
  show ?thesis using v p preview_predicts_proposal[OF v p] by (simp only: if_True) blast
qed

lemma grant_is_used_once_witness:
  "\<exists>es s'. platform_run sample_deployment sample_server es s' \<and> filter (uses_grant ''g'') es \<noteq> [] \<and>
     length (filter (uses_grant ''g'') es) \<le> 1"
proof -
  obtain ao a where p: "propose_and_govern sample_probes sample_agent_config sample_proposal sample_agent = Some (ao, a)"
    "ao_status ao = Some ''manual_approval_required''"
    using sample_held_proposal by blast
  let ?D = "sample_deployment\<lparr>dp_probes := sample_probes\<rparr>" and ?r = "PostAct sample_body" and ?x = "Ok200 (AgentReply ao)"
  have "\<exists>hits. rate_limited ?D LimitAgent ''alice'' sample_server = (False, hits)"
    by (simp add: rate_limited_def rate_limit_def rate_check_def rate_window_def ratelimit_enabled_def env_bool_def is_on_def
        ratelimit_agent_per_min_def env_int_def sample_deployment_def sample_server_def)
  then obtain hits where l: "rate_limited ?D LimitAgent ''alice'' sample_server = (False, hits)" by blast
  have "dp_agent ?D = sample_agent_config" by (simp add: sample_deployment_def)
  then have "\<exists>s'. handle ?D sample_credentials ?r sample_server = Some (?x, s')"
    using sample_authenticated[of sample_probes] p(1) l
    by (auto simp: handle_def public_request_def route_act_def sample_body sample_agent_of)
  then obtain s' where "platform_run sample_deployment sample_server ([] @ [(?r, ?x)]) s'"
    using plat_next[OF plat_refl plat_request] by fastforce
  then have run: "platform_run sample_deployment sample_server [(?r, ?x)] s'" by simp
  have "uses_grant ''g'' (?r, ?x)" using p(2) by (simp add: sample_body_def accepted_def)
  then show ?thesis using run grant_is_used_once[OF run sample_grants_ok, of "''g''"]
    by (intro exI[of _ "[(?r, ?x)]"] exI[of _ s']) simp
qed

lemma requests_need_an_operator_witness:
  "\<exists>x s' who t. handle sample_deployment sample_credentials PostLoopStart sample_server = Some (x, s') \<and> s' \<noteq> sample_server \<and>
     extract_token (cr_authorization sample_credentials) (cr_api_key sample_credentials) = Some t \<and>
     (\<exists>e\<in>set (split_on CHR '','' (operator_tokens_raw None (dp_env sample_deployment))). token_entry e = Some (t, who))"
proof -
  have "\<exists>x s'. handle sample_deployment sample_credentials PostLoopStart sample_server = Some (x, s') \<and> s' \<noteq> sample_server"
    using sample_authenticated[of "dp_probes sample_deployment"]
    by (auto simp: handle_def public_request_def rate_limited_def on_loop_def start_loop_def Let_def sample_server_def sample_loop_def)
  then obtain x s' where h: "handle sample_deployment sample_credentials PostLoopStart sample_server = Some (x, s')" "s' \<noteq> sample_server"
    by blast
  have "auth_enabled (dp_env sample_deployment) \<noteq> Flag False" by (simp add: sample_deployment_def auth_enabled_def env_bool_def)
  from requests_need_an_operator[OF h(1) this] h show ?thesis by (auto simp: sample_deployment_def)
qed

end
