(* ===== verification/Evidence_Properties.thy ===== *)
theory Evidence_Properties
  imports Agent_Sample
begin

text \<open>
  The evidence of an action, taken out of the platform: a bundle survives being written and read
  back, and the chain of an executed action is complete.
\<close>

section \<open>What the JSON writer forgets does not matter for a signature\<close>

lemma map_of_sorted:
  "distinct (List.map fst xs) \<Longrightarrow> map_of (sort_key fst xs) k = map_of xs k"
  by (intro fun_cong[OF map_of_inject_set[THEN iffD2]]) (simp_all add: distinct_map)

lemma map_of_canon:
  assumes "distinct (List.map fst kvs)" and "canon (PDict kvs) = PDict kvs'"
  shows "map_of kvs' k = map_option canon (map_of kvs k)"
proof -
  have "kvs' = sort_key fst (List.map (\<lambda>(k, v). (k, canon v)) kvs)" using assms(2) by simp
  moreover have "distinct (List.map fst (List.map (\<lambda>(k, v). (k, canon v)) kvs))"
    using assms(1) by (simp add: o_def case_prod_beta)
  ultimately have "map_of kvs' k = map_of (List.map (\<lambda>(k, v). (k, canon v)) kvs) k" by (simp only: map_of_sorted)
  then show ?thesis by (simp add: map_of_map)
qed

lemma canonicalize_canon:
  assumes "canon (PDict kvs) = PDict kvs'"
  shows "canonicalize (unsigned kvs') = canonicalize (unsigned kvs)"
proof -
  have "kvs' = sort_key fst (List.map (\<lambda>(k, v). (k, canon v)) kvs)" using assms by simp
  then have "PDict (unsigned kvs') = canon (PDict (unsigned kvs))"
    by (simp add: unsigned_def filter_sort filter_map o_def case_prod_beta)
  then show ?thesis unfolding canonicalize_def using dump_canon[of "PDict (unsigned kvs)"] by simp
qed

definition hex_digest :: "hmac \<Rightarrow> string \<Rightarrow> bool" where
  "hex_digest hmac key \<longleftrightarrow> (\<forall>t. hmac key t \<noteq> [] \<and> list_all (\<lambda>c. (of_char c :: nat) < 128) (hmac key t))"

text \<open>A dict that carries a signature over the rest of it, whatever the order of its keys.\<close>

lemma signed_dict:
  assumes "map_of kvs ''signature'' = Some (PDict sb)" and "map_of sb ''value'' = Some (PStr (hmac key t))"
    and "canonicalize (unsigned kvs) = Some t" and "hex_digest hmac key"
  shows "verify_bundle hmac (PDict kvs) key" and "offline_verify hmac kvs key = Some True"
proof -
  have "hmac key t \<noteq> []" "list_all (\<lambda>c. (of_char c :: nat) < 128) (hmac key t)" using assms(4) by (auto simp: hex_digest_def)
  then show "verify_bundle hmac (PDict kvs) key" and "offline_verify hmac kvs key = Some True"
    using assms(1-3) by (simp_all add: verify_bundle_def offline_verify_def verify_signature_def compare_digest_def sign_def)
qed

lemma export_shape:
  assumes "fst (export_bundle hmac D a p e key s) = Some b"
  obtains payload t where "b = PDict (payload @ [(''signature'', signature_block (hmac key t))])"
    "canonicalize payload = Some t" "List.map fst payload = [''format_version'', ''generated_at'', ''chain'']"
  using assms by (auto simp: export_bundle_def build_payload_def sign_def split: prod.splits)

section \<open>What an execution leaves in the stores\<close>

lemma run_verified:
  assumes "run_request r adapter st = (Some (res, Some v), st')"
  shows "\<exists>u\<in>set (mem (g_audits st')). au_action_id u = req_action_id r \<and> au_authorization_id u = req_authorization_id r \<and>
       au_execution_id u = res_execution_id res"
    and "\<exists>t\<in>set (mem (g_traces st')). tr_action_id t = req_action_id r \<and> tr_authorization_id t = req_authorization_id r \<and>
       tr_execution_id t = res_execution_id res"
    and "v \<in> set (mem (g_verifs st'))" and "ver_execution_id v = res_execution_id res"
proof -
  obtain st1 where e: "engine_execute r adapter st = (Some res, st1)" "res_success res"
    and v: "verify_execution (res_execution_id res) (req_expected r) r st1 = (v, st')"
    using assms by (auto simp: run_request_def split: prod.splits option.splits if_splits)
  obtain ad where "cleared st r adapter ad"
    using e by (auto simp: engine_execute_def cleared_def block_def failed_def Let_def split: option.splits if_splits)
  from engine_cleared[OF this] e obtain w where
    "st1 = save_trace (res_execution_id res) r (gate_value Allow) (engine_risk r) (res_status res) (res_message res)
       (save_audit res r adapter (engine_risk r) (st\<lparr>g_world := w\<rparr>))"
    by (auto simp: run_adapter_def Let_def split: prod.splits option.splits)
  then have "\<exists>u\<in>set (mem (g_audits st1)). au_action_id u = req_action_id r \<and> au_authorization_id u = req_authorization_id r \<and>
       au_execution_id u = res_execution_id res"
    "\<exists>t\<in>set (mem (g_traces st1)). tr_action_id t = req_action_id r \<and> tr_authorization_id t = req_authorization_id r \<and>
       tr_execution_id t = res_execution_id res"
    by (simp_all add: save_trace_def save_audit_def fresh_id_def Let_def)
  then show "\<exists>u\<in>set (mem (g_audits st')). au_action_id u = req_action_id r \<and> au_authorization_id u = req_authorization_id r \<and>
       au_execution_id u = res_execution_id res"
    and "\<exists>t\<in>set (mem (g_traces st')). tr_action_id t = req_action_id r \<and> tr_authorization_id t = req_authorization_id r \<and>
       tr_execution_id t = res_execution_id res"
    and "v \<in> set (mem (g_verifs st'))" and "ver_execution_id v = res_execution_id res"
    using v by (auto simp: verify_execution_def fresh_id_def Let_def)
qed

lemma executed_parts:
  assumes out: "execute_governed_action a adapter st = (Executed res v, st')"
  obtains asmt st1 d st2 au st4 r st5 where "resolve_assessment st a adapter = Inr (asmt, st1)"
    "process_approval a (asm_policy asmt) (asm_risk asmt) st1 = (d, st2)"
    "create_execution_authorization a d (Some (asm_prov asmt))
       (record_approval_decision a d ''approved'' ''approval_policy'' None (Some (asm_prov asmt)) st2) = (Some au, st4)"
    "translate_action_to_execution a (auth_id au) (Some (rk_level (asm_risk asmt))) (Some adapter) (Some (asm_prov asmt)) None
       (save_authorization au st4) = (r, st5)"
    "run_request r adapter st5 = (Some (res, v), st')"
proof -
  obtain asmt st1 where x: "resolve_assessment st a adapter = Inr (asmt, st1)"
    using out by (auto simp: execute_governed_action_def split: sum.splits assess_error.splits)
  obtain d st2 where d: "process_approval a (asm_policy asmt) (asm_risk asmt) st1 = (d, st2)" by fastforce
  let ?st3 = "record_approval_decision a d ''approved'' ''approval_policy'' None (Some (asm_prov asmt)) st2"
  obtain au st4 where au: "create_execution_authorization a d (Some (asm_prov asmt)) ?st3 = (Some au, st4)"
    and run: "execute_authorized a adapter asmt au st4 = (Executed res v, st')"
    using out by (auto simp: execute_governed_action_def x d Let_def split: if_splits option.splits prod.splits)
  obtain r st5 where tr: "translate_action_to_execution a (auth_id au) (Some (rk_level (asm_risk asmt))) (Some adapter)
      (Some (asm_prov asmt)) None (save_authorization au st4) = (r, st5)" by fastforce
  have rr: "run_request r adapter st5 = (Some (res, v), st')"
    using run by (auto simp: execute_authorized_def tr Let_def split: option.splits prod.splits)
  from x d au tr rr show thesis by (rule that)
qed

lemma executed_stores:
  assumes out: "execute_governed_action a adapter st = (Executed res (Some v), st')"
  shows "\<exists>au\<in>set (mem (g_auths st')). \<exists>r\<in>set (mem (g_records st')). \<exists>u\<in>set (mem (g_audits st')). \<exists>t\<in>set (mem (g_traces st')).
     auth_action_id au = act_id a \<and> ar_action_id r = act_id a \<and> auth_approval_id au = Some (ar_id r) \<and> ar_decision r = ''approved'' \<and>
     au_action_id u = act_id a \<and> au_authorization_id u = auth_id au \<and> au_execution_id u = res_execution_id res \<and>
     tr_action_id t = act_id a \<and> tr_authorization_id t = auth_id au \<and> tr_execution_id t = res_execution_id res"
    and "v \<in> set (mem (g_verifs st'))" and "ver_execution_id v = res_execution_id res"
proof -
  obtain asmt st1 d st2 au st4 r st5 where "resolve_assessment st a adapter = Inr (asmt, st1)"
    and d: "process_approval a (asm_policy asmt) (asm_risk asmt) st1 = (d, st2)"
    and au: "create_execution_authorization a d (Some (asm_prov asmt))
      (record_approval_decision a d ''approved'' ''approval_policy'' None (Some (asm_prov asmt)) st2) = (Some au, st4)"
    and tr: "translate_action_to_execution a (auth_id au) (Some (rk_level (asm_risk asmt))) (Some adapter) (Some (asm_prov asmt)) None
      (save_authorization au st4) = (r, st5)"
    and rr: "run_request r adapter st5 = (Some (res, Some v), st')"
    using executed_parts[OF out] .
  let ?st3 = "record_approval_decision a d ''approved'' ''approval_policy'' None (Some (asm_prov asmt)) st2"
  note facts = run_verified[OF rr]
  have base: "g_auths st' = g_auths st5" "g_records st' = g_records st5"
    using run_request_same_base[of st5 r adapter] rr by (simp_all add: same_base_def)
  have st5: "g_auths st5 = save auth_key au (g_auths st4)" "g_records st5 = g_records st4"
    using translate_fields(13)[OF tr] by (simp_all add: save_authorization_def)
  have f: "auth_action_id au = act_id a" "auth_approval_id au = Some (ad_id d)" "g_records st4 = g_records ?st3"
    using au by (auto simp: create_execution_authorization_def fresh_id_def Let_def split: if_splits)
  have "\<exists>q\<in>set (mem (g_records ?st3)). ar_action_id q = act_id a \<and> ar_id q = ad_id d \<and> ar_decision q = ''approved''"
    by (simp add: record_approval_decision_def or_str_def Let_def)
  then have "\<exists>q\<in>set (mem (g_records st')). ar_action_id q = act_id a \<and> auth_approval_id au = Some (ar_id q) \<and> ar_decision q = ''approved''"
    using base st5 f by auto
  moreover have "au \<in> set (mem (g_auths st'))" using base st5 by simp
  ultimately show "\<exists>au\<in>set (mem (g_auths st')). \<exists>r\<in>set (mem (g_records st')). \<exists>u\<in>set (mem (g_audits st')). \<exists>t\<in>set (mem (g_traces st')).
     auth_action_id au = act_id a \<and> ar_action_id r = act_id a \<and> auth_approval_id au = Some (ar_id r) \<and> ar_decision r = ''approved'' \<and>
     au_action_id u = act_id a \<and> au_authorization_id u = auth_id au \<and> au_execution_id u = res_execution_id res \<and>
     tr_action_id t = act_id a \<and> tr_authorization_id t = auth_id au \<and> tr_execution_id t = res_execution_id res"
    using f(1) facts(1,2) translate_fields(1,2)[OF tr] by metis
  show "v \<in> set (mem (g_verifs st'))" "ver_execution_id v = res_execution_id res" by (fact facts)+
qed

section \<open>The chain of an action id\<close>

lemma chain_of_action:
  assumes "k \<noteq> []"
  shows "ch_action (fst (evidence_chain (Some k) None None s)) = Some k"
    "ch_auths (fst (evidence_chain (Some k) None None s)) = filter (\<lambda>x. auth_action_id x = k) (mem (g_auths (ag_gov s)))"
    "ch_records (fst (evidence_chain (Some k) None None s)) = filter (\<lambda>x. ar_action_id x = k) (mem (g_records (ag_gov s)))"
    "ch_holds (fst (evidence_chain (Some k) None None s)) = filter (\<lambda>x. hold_action_id x = k) (mem (g_holds (ag_gov s)))"
    "ch_audits (fst (evidence_chain (Some k) None None s)) = filter (\<lambda>x. au_action_id x = k) (mem (g_audits (ag_gov s)))"
    "ch_traces (fst (evidence_chain (Some k) None None s)) = filter (\<lambda>x. tr_action_id x = k) (mem (g_traces (ag_gov s)))"
    "ch_verifs (fst (evidence_chain (Some k) None None s)) = chain_verifications None
       (filter (\<lambda>x. au_action_id x = k) (mem (g_audits (ag_gov s)))) (mem (g_verifs (ag_gov s)))"
  using assms by (simp_all add: evidence_chain_def assemble_def resolve_action_def matches_ids_def Let_def split_beta truthy_str_ex)

lemma chain_provenance_entries:
  "x \<in> set (fst (chain_provenance hs s)) \<Longrightarrow> x \<in> set (ag_provenance s) \<and> (\<exists>h\<in>set hs. hold_id h = hp_approval x)"
proof (induction hs arbitrary: s)
  case (Cons h hs)
  have sub: "set (ag_provenance (snd (get_hold_provenance (hold_id h) s))) \<subseteq> set (ag_provenance s)"
    by (auto simp: get_hold_provenance_def split: option.split)
  have hit: "y \<in> set (ag_provenance s) \<and> hp_approval y = hold_id h" if "fst (get_hold_provenance (hold_id h) s) = Some y" for y
    using that table_get_key[of hp_approval "hold_id h" "ag_provenance s"] table_get_set[of hp_approval "hold_id h" "ag_provenance s"]
    by (auto simp: get_hold_provenance_def split: option.splits if_splits)
  from Cons.prems have "fst (get_hold_provenance (hold_id h) s) = Some x \<or>
      x \<in> set (fst (chain_provenance hs (snd (get_hold_provenance (hold_id h) s))))"
    by (auto simp: Let_def split: prod.splits option.splits)
  then show ?case using hit[of x] Cons.IH[of "snd (get_hold_provenance (hold_id h) s)"] sub by auto
qed simp

lemma chain_provenance_of_action:
  "k \<noteq> [] \<Longrightarrow> x \<in> set (ch_provenance (fst (evidence_chain (Some k) None None s))) \<Longrightarrow>
     x \<in> set (ag_provenance s) \<and> (\<exists>h\<in>set (mem (g_holds (ag_gov s))). hold_id h = hp_approval x \<and> hold_action_id h = k)"
  using chain_provenance_entries[of x "filter (\<lambda>h. hold_action_id h = k) (mem (g_holds (ag_gov s)))" s]
  by (auto simp: evidence_chain_def assemble_def resolve_action_def matches_ids_def Let_def split_beta truthy_str_ex)

section \<open>Properties\<close>

text \<open>C23: A signed bundle survives transport. Whatever identifiers it was asked for, a bundle that is
  written as JSON and read back verifies with the same key, in the service and in the offline
  verifier, whose verdict is VALID: neither the order of keys nor the shape the reader gives to
  sequences enters the signature.\<close>

theorem exported_bundle_verifies:
  assumes "fst (export_bundle hmac D a p e key s) = Some b" and "dump b = Some text" and "wf_json b"
    and "key \<noteq> []" and "hex_digest hmac key"
  shows "verify_bundle hmac b key \<and> (\<exists>w. loads text = Some w \<and> verify_bundle hmac w key) \<and>
     offline_main hmac (Some key) (Some text) = Valid"
proof -
  obtain payload t where b: "b = PDict (payload @ [(''signature'', signature_block (hmac key t))])"
    and t: "canonicalize payload = Some t" and keys: "List.map fst payload = [''format_version'', ''generated_at'', ''chain'']"
    using export_shape[OF assms(1)] .
  let ?kvs = "payload @ [(''signature'', signature_block (hmac key t))]"
  have distinct: "distinct (List.map fst ?kvs)" using keys by simp
  have u: "unsigned ?kvs = payload" using keys by (auto simp: unsigned_def)
  have "map_of ?kvs ''signature'' = Some (signature_block (hmac key t))"
    using keys distinct by (auto intro!: map_of_is_SomeI)
  then have sig: "map_of ?kvs ''signature'' = Some (PDict [(''algorithm'', PStr ''HMAC-SHA256''), (''value'', PStr (hmac key t))])"
    by (simp add: signature_block_def)
  obtain kvs' where c: "canon (PDict ?kvs) = PDict kvs'" by simp
  have sig': "map_of kvs' ''signature'' = Some (canon (PDict [(''algorithm'', PStr ''HMAC-SHA256''), (''value'', PStr (hmac key t))]))"
    using map_of_canon[OF distinct c, of "''signature''"] sig by simp
  obtain sb where sb: "canon (PDict [(''algorithm'', PStr ''HMAC-SHA256''), (''value'', PStr (hmac key t))]) = PDict sb" by simp
  have "map_of sb ''value'' = Some (PStr (hmac key t))" using map_of_canon[OF _ sb, of "''value''"] by simp
  note w = signed_dict[OF sig'[unfolded sb] this _ assms(5)]
  have t': "canonicalize (unsigned kvs') = Some t" using canonicalize_canon[OF c] u t by simp
  have ver: "map_of kvs' ''format_version'' \<noteq> None"
    using map_of_canon[OF distinct c, of "''format_version''"] keys by (cases payload) auto
  have "loads text = Some (PDict kvs')" using loads_dump[OF assms(3,2)] b c by simp
  moreover have "verify_bundle hmac b key" unfolding b using signed_dict(1)[OF sig, of hmac key t] u t assms(5) by simp
  ultimately show ?thesis using w[OF t'] assms(4) ver by (simp add: offline_main_def or_str_def)
qed

text \<open>C24: The evidence view of a verified execution is complete. Asked for the action of an execution
  that succeeded, it shows an approved record, the authorization created from it, the audit and the
  trace that carry this authorization and the execution, and the verification. And it shows only what
  belongs to the action: the authorizations, records, holds, audits and traces are exactly those of
  the stores that carry its id, the verifications exactly those of an execution one of these audits
  names, and each provenance entry is of one of its holds.\<close>

theorem executed_action_has_complete_chain:
  assumes "execute_governed_action a adapter st = (Executed res (Some v), ag_gov s)"
    and "act_id a \<noteq> []" and "res_execution_id res \<noteq> []"
    and "fst (evidence_chain (Some (act_id a)) None None s) = c"
  shows "(\<exists>au\<in>set (ch_auths c). \<exists>r\<in>set (ch_records c). \<exists>u\<in>set (ch_audits c). \<exists>t\<in>set (ch_traces c).
       auth_approval_id au = Some (ar_id r) \<and> ar_decision r = ''approved'' \<and>
       au_authorization_id u = auth_id au \<and> tr_authorization_id t = auth_id au \<and>
       au_execution_id u = res_execution_id res \<and> tr_execution_id t = res_execution_id res) \<and>
     v \<in> set (ch_verifs c) \<and>
     set (ch_auths c) = {x \<in> set (mem (g_auths (ag_gov s))). auth_action_id x = act_id a} \<and>
     set (ch_records c) = {x \<in> set (mem (g_records (ag_gov s))). ar_action_id x = act_id a} \<and>
     set (ch_audits c) = {x \<in> set (mem (g_audits (ag_gov s))). au_action_id x = act_id a} \<and>
     set (ch_traces c) = {x \<in> set (mem (g_traces (ag_gov s))). tr_action_id x = act_id a} \<and>
     set (ch_holds c) = {x \<in> set (mem (g_holds (ag_gov s))). hold_action_id x = act_id a} \<and>
     set (ch_verifs c) = {x \<in> set (mem (g_verifs (ag_gov s))). ver_execution_id x \<noteq> [] \<and>
       ver_execution_id x \<in> au_execution_id ` set (ch_audits c)} \<and>
     set (ch_provenance c) \<subseteq> {x \<in> set (ag_provenance s). hp_approval x \<in> hold_id ` set (ch_holds c)}"
proof -
  note c = chain_of_action[OF assms(2), of s, unfolded assms(4)]
  note e = executed_stores[OF assms(1)]
  obtain u where "u \<in> set (mem (g_audits (ag_gov s)))" "au_action_id u = act_id a" "au_execution_id u = res_execution_id res"
    using e(1) by blast
  then have "v \<in> set (ch_verifs c)" using e(2,3) assms(3)
    by (auto simp: c(7) chain_verifications_def Let_def truthy_str_ex or_str_def intro: rev_image_eqI)
  moreover have "set (ch_verifs c) = {x \<in> set (mem (g_verifs (ag_gov s))). ver_execution_id x \<noteq> [] \<and>
       ver_execution_id x \<in> au_execution_id ` set (ch_audits c)}"
    unfolding c(5,7) by (auto simp: chain_verifications_def Let_def truthy_str_ex or_str_def)
  moreover have "set (ch_provenance c) \<subseteq> {x \<in> set (ag_provenance s). hp_approval x \<in> hold_id ` set (ch_holds c)}"
  proof
    fix x
    assume "x \<in> set (ch_provenance c)"
    from chain_provenance_of_action[OF assms(2), of x s, unfolded assms(4), OF this]
    show "x \<in> {x \<in> set (ag_provenance s). hp_approval x \<in> hold_id ` set (ch_holds c)}"
      unfolding c(4) by (auto intro: rev_image_eqI)
  qed
  moreover have "\<exists>au\<in>set (ch_auths c). \<exists>r\<in>set (ch_records c). \<exists>u\<in>set (ch_audits c). \<exists>t\<in>set (ch_traces c).
       auth_approval_id au = Some (ar_id r) \<and> ar_decision r = ''approved'' \<and>
       au_authorization_id u = auth_id au \<and> tr_authorization_id t = auth_id au \<and>
       au_execution_id u = res_execution_id res \<and> tr_execution_id t = res_execution_id res"
    using e(1) unfolding c(2,3,5,6) by (simp add: Bex_def) metis
  ultimately show ?thesis unfolding c(2-6) by (simp only: set_filter)
qed

section \<open>Witnesses\<close>

definition sample_hmac :: hmac where
  "sample_hmac key t = ''ab''"

definition sample_chain :: "chain" where
  "sample_chain = (empty_chain (Some ''a'') None None)"

lemma sample_chain: "evidence_chain (Some ''a'') None None sample_agent = (sample_chain, sample_agent)"
  by (simp add: evidence_chain_def assemble_def sample_chain_def empty_chain_def sample_agent_def sample_home_def sample_defs
      empty_store_def resolve_action_def matches_ids_def chain_verifications_def truthy_str_ex)

lemma those_ex: "(\<exists>ys. those xs = Some ys) \<longleftrightarrow> (\<forall>x\<in>set xs. \<exists>y. x = Some y)"
  by (induction xs) (auto split: option.split)

lemma dump_ex:
  "(\<exists>t. dump (PDict kvs) = Some t) \<longleftrightarrow> (\<forall>p\<in>set kvs. \<exists>t. dump (snd p) = Some t)"
  "(\<exists>t. dump (PList vs) = Some t) \<longleftrightarrow> (\<forall>v\<in>set vs. \<exists>t. dump v = Some t)"
  "\<exists>t. dump (PStr x) = Some t" "\<exists>t. dump (PInt i) = Some t" "\<exists>t. dump PNone = Some t"
  using those_ex[of "List.map (\<lambda>(k, v). tag_key k (dump v)) kvs"] those_ex[of "List.map dump vs"]
  by (auto simp: tag_key_def)

lemma sample_bundle_ok:
  "\<exists>b x. fst (export_bundle sample_hmac (dp_dumper sample_deployment) (Some ''a'') None None ''k'' sample_agent) = Some b \<and>
     dump b = Some x \<and> wf_json b"
proof -
  let ?p = "build_payload (dp_dumper sample_deployment) sample_chain (ag_now sample_agent)"
  have p: "\<forall>q\<in>set ?p. (\<exists>t. dump (snd q) = Some t) \<and> wf_json (snd q)"
    by (simp add: build_payload_def chain_json_def sample_chain_def empty_chain_def opt_text_def dump_ex del: dump.simps(6,8))
  then obtain t where t: "canonicalize ?p = Some (ascii_text t)" "dump (PDict ?p) = Some t"
    using dump_ex(1)[of ?p] by (auto simp: canonicalize_def simp del: dump.simps)
  let ?kvs = "?p @ [(''signature'', signature_block (sample_hmac ''k'' (ascii_text t)))]"
  have "\<exists>u. dump (PDict ?kvs) = Some u"
    unfolding dump_ex(1) using p by (auto simp: signature_block_def dump_ex simp del: dump.simps(6,8))
  moreover have "wf_json (PDict ?kvs)" using p by (auto simp: signature_block_def list_all_iff)
  ultimately show ?thesis using t(1) by (auto simp: export_bundle_def sample_chain sign_def simp del: dump.simps)
qed

lemma exported_bundle_verifies_witness:
  "\<exists>b x. fst (export_bundle sample_hmac (dp_dumper sample_deployment) (Some ''a'') None None ''k'' sample_agent) = Some b \<and>
     dump b = Some x \<and> offline_main sample_hmac (Some ''k'') (Some x) = Valid"
proof -
  obtain b x where b: "fst (export_bundle sample_hmac (dp_dumper sample_deployment) (Some ''a'') None None ''k'' sample_agent) = Some b"
    "dump b = Some x" "wf_json b" using sample_bundle_ok by blast
  have "hex_digest sample_hmac ''k''" by (simp add: hex_digest_def sample_hmac_def)
  from exported_bundle_verifies[OF b _ this] b show ?thesis by auto
qed

lemma sample_execution:
  "\<exists>res v st. execute_governed_action (sample_action False) ''simulation'' sample_gov = (Executed res (Some v), st) \<and>
     res_execution_id res \<noteq> []"
proof -
  obtain q st0 where c: "cleared st0 q ''simulation'' counter_adapter"
    and ex: "execute_governed_action (sample_action False) ''simulation'' sample_gov = (case run_request q ''simulation'' st0 of
       (None, s) \<Rightarrow> (Raised, s) | (Some (res, v), s) \<Rightarrow> (Executed res v, s))" using sample_cleared by blast
  have "\<exists>res v st. execute_governed_action (sample_action False) ''simulation'' sample_gov = (Executed res (Some v), st)"
    unfolding ex using c by (simp add: run_request_def engine_cleared run_adapter_def counter_adapter_def Let_def split: prod.split)
  then show ?thesis using sample_executed_id by auto
qed

lemma executed_action_has_complete_chain_witness:
  "\<exists>res v s. execute_governed_action (sample_action False) ''simulation'' sample_gov = (Executed res (Some v), ag_gov (s :: nat agent)) \<and>
     v \<in> set (ch_verifs (fst (evidence_chain (Some ''a'') None None s))) \<and>
     (\<exists>u\<in>set (ch_audits (fst (evidence_chain (Some ''a'') None None s))). au_execution_id u = res_execution_id res)"
proof -
  obtain res v st where e: "execute_governed_action (sample_action False) ''simulation'' sample_gov = (Executed res (Some v), st)"
    "res_execution_id res \<noteq> []"
    using sample_execution by blast
  have a: "act_id (sample_action False) = ''a''" by (simp add: sample_action_def)
  let ?s = "agent_with_gov st sample_agent"
  have "execute_governed_action (sample_action False) ''simulation'' sample_gov = (Executed res (Some v), ag_gov ?s)" using e(1) by simp
  note c = executed_action_has_complete_chain[OF this _ e(2) refl, unfolded a]
  then show ?thesis using e(1) by (intro exI[of _ res] exI[of _ v] exI[of _ ?s]) (simp, blast)
qed

end
