(* ===== verification/Rate_Limits.thy ===== *)
theory Rate_Limits
  imports Ops_Config
begin

text \<open>
  How many requests of one principal the limiter admits. Windows are fixed: a window starts with the
  first request after the last one ended. So a window admits at most the limit, but a rolling minute
  can touch two windows.
\<close>

section \<open>A sequence of requests\<close>

text \<open>The requests that pass, each a counter key and an instant, in their order.\<close>

fun rate_run :: "int \<Rightarrow> ((string \<times> string) \<times> instant) list \<Rightarrow> hits \<Rightarrow> ((string \<times> string) \<times> instant) list" where
  "rate_run limit [] hits = []"
| "rate_run limit (q # qs) hits =
     (let (over, hits') = rate_check (fst q) limit (snd q) hits in (if over then [] else [q]) @ rate_run limit qs hits')"

definition passes :: "string \<times> string \<Rightarrow> instant \<Rightarrow> instant \<Rightarrow> ((string \<times> string) \<times> instant) list \<Rightarrow> int" where
  "passes key a b qs = int (length (filter (\<lambda>q. fst q = key \<and> a \<le> snd q \<and> snd q < b) qs))"

lemma passes_Nil [simp]: "passes key a b [] = 0"
  by (simp add: passes_def)

lemma passes_append [simp]: "passes key a b (xs @ ys) = passes key a b xs + passes key a b ys"
  by (simp add: passes_def)

lemma passes_one [simp]: "passes key a b [q] = (if fst q = key \<and> a \<le> snd q \<and> snd q < b then 1 else 0)"
  by (simp add: passes_def)

lemma passes_le: "a' \<le> a \<Longrightarrow> passes key a b qs \<le> passes key a' b qs"
  unfolding passes_def by (induction qs) auto

lemma rate_run_Cons:
  "rate_run limit ((key, t) # qs) hits =
     (case hits key of
        None \<Rightarrow> (if 1 \<le> limit then [(key, t)] else []) @ rate_run limit qs (hits(key \<mapsto> (t, 1)))
      | Some (start, count) \<Rightarrow>
          if start + rate_window \<le> t then (if 1 \<le> limit then [(key, t)] else []) @ rate_run limit qs (hits(key \<mapsto> (t, 1)))
          else (if count + 1 \<le> limit then [(key, t)] else []) @ rate_run limit qs (hits(key \<mapsto> (start, count + 1))))"
  by (auto simp: rate_check_def Let_def rate_window_def split: option.split)

declare rate_run.simps(2) [simp del]

lemma rate_run_other:
  "\<exists>hits'. hits' key = hits key \<and> (\<exists>xs. rate_run limit ((k, t) # qs) hits = xs @ rate_run limit qs hits' \<and> set xs \<subseteq> {(k, t)})"
  if "k \<noteq> key"
proof -
  obtain over hits' where c: "rate_check k limit t hits = (over, hits')" by fastforce
  then have "hits' key = hits key" using that by (auto simp: rate_check_def Let_def split: prod.splits)
  then show ?thesis using c by (intro exI[of _ hits']) (auto simp: rate_run.simps(2))
qed

lemma passes_other: "k \<noteq> key \<Longrightarrow> set xs \<subseteq> {(k, t)} \<Longrightarrow> passes key a b xs = 0"
  by (auto simp: passes_def filter_empty_conv)

lemma set_rate_run: "set (rate_run limit qs hits) \<subseteq> set qs"
  by (induction qs arbitrary: hits) (fastforce simp: rate_run.simps(2) Let_def split: prod.splits if_splits)+

lemma late_requests: "\<forall>q\<in>set qs. b \<le> snd q \<Longrightarrow> passes key a b (rate_run limit qs hits) = 0"
  using set_rate_run[of limit qs hits] by (fastforce simp: passes_def filter_empty_conv)

section \<open>Bounds\<close>

text \<open>What a request adds: a counter in the current window, a new window, or nothing for this key.\<close>

lemma rate_run_step:
  assumes "hits key = Some (start, count)" and "0 \<le> limit"
  obtains (other) k t hits' where "q = (k, t)" "hits' key = Some (start, count)"
      "passes key a b (rate_run limit (q # qs) hits) = passes key a b (rate_run limit qs hits')"
  | (reset) t where "q = (key, t)" "start + rate_window \<le> t"
      "passes key a b (rate_run limit (q # qs) hits) \<le> min 1 limit * (if a \<le> t \<and> t < b then 1 else 0) +
         passes key a b (rate_run limit qs (hits(key \<mapsto> (t, 1))))"
  | (count) t where "q = (key, t)" "t < start + rate_window"
      "passes key a b (rate_run limit (q # qs) hits) =
         (if count + 1 \<le> limit \<and> a \<le> t \<and> t < b then 1 else 0) + passes key a b (rate_run limit qs (hits(key \<mapsto> (start, count + 1))))"
proof (cases "fst q = key")
  case True
  then obtain t where q: "q = (key, t)" by (cases q) simp
  show thesis
  proof (cases "start + rate_window \<le> t")
    case True
    then show thesis using assms q by (intro reset[of t]) (auto simp: rate_run_Cons)
  next
    case False
    then show thesis using assms(1) q by (intro count[of t]) (auto simp: rate_run_Cons)
  qed
next
  case False
  obtain k t where q: "q = (k, t)" by (cases q)
  then obtain hits' xs where "hits' key = hits key" "rate_run limit (q # qs) hits = xs @ rate_run limit qs hits'" "set xs \<subseteq> {(k, t)}"
    using rate_run_other[of k key hits limit t qs] False by auto
  then show thesis using assms(1) q passes_other[of k key xs t a b] False by (intro other[of k t hits']) simp_all
qed

lemma one_window:
  assumes "hits key = Some (start, count)" and "0 \<le> limit" and "sorted (List.map snd qs)" and "b \<le> start + rate_window"
  shows "passes key a b (rate_run limit qs hits) \<le> max 0 (limit - count)"
  using assms
proof (induction qs arbitrary: hits count)
  case (Cons q qs)
  show ?case
  proof (cases rule: rate_run_step[where hits = hits and key = key and q = q and a = a and b = b and qs = qs, OF Cons.prems(1,2), case_names other reset count])
    case (other k t hits')
    then show ?thesis using Cons.IH[of hits' count] Cons.prems by simp
  next
    case (reset t)
    then have "\<forall>x\<in>set qs. b \<le> snd x" using Cons.prems(3,4) by auto
    from late_requests[OF this] show ?thesis using reset Cons.prems(4) by (simp split: if_splits)
  next
    case (count t)
    have "passes key a b (rate_run limit qs (hits(key \<mapsto> (start, count + 1)))) \<le> max 0 (limit - (count + 1))"
      by (rule Cons.IH) (use Cons.prems in simp_all)
    with count(3) show ?thesis by (auto simp: max_def split: if_splits)
  qed
qed simp

lemma two_windows:
  assumes "hits key = Some (start, count)" and "0 \<le> limit" and "sorted (List.map snd qs)" and "b \<le> start + 2 * rate_window"
  shows "passes key a b (rate_run limit qs hits) \<le> max 0 (limit - count) + limit"
  using assms
proof (induction qs arbitrary: hits count)
  case (Cons q qs)
  show ?case
  proof (cases rule: rate_run_step[where hits = hits and key = key and q = q and a = a and b = b and qs = qs, OF Cons.prems(1,2), case_names other reset count])
    case (other k t hits')
    then show ?thesis using Cons.IH[of hits' count] Cons.prems by simp
  next
    case (reset t)
    then show ?thesis using one_window[of "hits(key \<mapsto> (t, 1))" key t 1 limit qs b a] Cons.prems by (auto split: if_splits)
  next
    case (count t)
    have "passes key a b (rate_run limit qs (hits(key \<mapsto> (start, count + 1)))) \<le> max 0 (limit - (count + 1)) + limit"
      by (rule Cons.IH) (use Cons.prems in simp_all)
    with count(3) show ?thesis by (auto simp: max_def split: if_splits)
  qed
qed simp

lemma any_window:
  assumes "hits key = Some (start, count)" and "1 \<le> count" and "0 \<le> limit" and "sorted (List.map snd qs)"
  shows "passes key a (a + rate_window) (rate_run limit qs hits) \<le> max 0 (limit - 1) + limit"
  using assms
proof (induction qs arbitrary: hits start count)
  case (Cons q qs)
  show ?case
  proof (cases "a \<le> start + rate_window")
    case True
    then show ?thesis using two_windows[of hits key start count limit "q # qs" "a + rate_window" a] Cons.prems by auto
  next
    case False
    show ?thesis
    proof (cases rule: rate_run_step[where hits = hits and key = key and q = q and a = a and b = "a + rate_window" and qs = qs, OF Cons.prems(1,3),
          case_names other reset count])
      case (other k t hits')
      then show ?thesis using Cons.IH[of hits' start count] Cons.prems by simp
    next
      case (reset t)
      show ?thesis
      proof (cases "a \<le> t")
        case True
        have "passes key a (a + rate_window) (rate_run limit qs (hits(key \<mapsto> (t, 1)))) \<le> max 0 (limit - 1)"
          using one_window[of "hits(key \<mapsto> (t, 1))" key t 1 limit qs "a + rate_window" a] Cons.prems True by simp
        then show ?thesis using reset(3) Cons.prems(3) by (auto split: if_splits)
      next
        case False
        moreover have "passes key a (a + rate_window) (rate_run limit qs (hits(key \<mapsto> (t, 1)))) \<le> max 0 (limit - 1) + limit"
          by (rule Cons.IH[of _ t 1]) (use Cons.prems in simp_all)
        ultimately show ?thesis using reset(3) by simp
      qed
    next
      case (count t)
      have "passes key a (a + rate_window) (rate_run limit qs (hits(key \<mapsto> (start, count + 1)))) \<le> max 0 (limit - 1) + limit"
        by (rule Cons.IH[of _ start "count + 1"]) (use Cons.prems in simp_all)
      then show ?thesis using count False by simp
    qed
  qed
qed simp

lemma fresh_window:
  assumes "hits key = None" and "0 \<le> limit" and "sorted (List.map snd qs)"
  shows "passes key a (a + rate_window) (rate_run limit qs hits) \<le> max 0 (limit - 1) + limit"
  using assms
proof (induction qs arbitrary: hits)
  case (Cons q qs)
  obtain k t where q: "q = (k, t)" by (cases q)
  show ?case
  proof (cases "k = key")
    case True
    then have run: "rate_run limit (q # qs) hits = (if 1 \<le> limit then [q] else []) @ rate_run limit qs (hits(key \<mapsto> (t, 1)))"
      using Cons.prems(1) q by (simp add: rate_run_Cons)
    show ?thesis
    proof (cases "a \<le> t")
      case True
      then show ?thesis unfolding run
        using one_window[of "hits(key \<mapsto> (t, 1))" key t 1 limit qs "a + rate_window" a] Cons.prems q by auto
    next
      case False
      then show ?thesis unfolding run using any_window[of "hits(key \<mapsto> (t, 1))" key t 1 limit qs a] Cons.prems q by auto
    qed
  next
    case False
    then obtain hits' xs where "hits' key = hits key" "rate_run limit (q # qs) hits = xs @ rate_run limit qs hits'" "set xs \<subseteq> {(k, t)}"
      using rate_run_other[of k key hits limit t qs] q by blast
    then show ?thesis using Cons.IH[of hits'] Cons.prems passes_other[OF False] by simp
  qed
qed simp

end
