(* ===== verification/Platform_Runs.thy ===== *)
theory Platform_Runs
  imports Agent_Grants Ops_Properties
begin

text \<open>
  The platform refines the governance core: whatever a request, a cycle of the background loop or a
  startup does to the governance state is a sequence of the core's steps. So what holds in every
  reachable state of the core holds throughout a run of the platform, as long as retention is off.
\<close>

abbreviation gov_moves :: "'w gov \<Rightarrow> 'w gov \<Rightarrow> bool" where
  "gov_moves \<equiv> gov_step\<^sup>*\<^sup>*"

lemma moves_reachable: "gov_moves st st' \<Longrightarrow> gov_reachable st \<Longrightarrow> gov_reachable st'"
  by (induction rule: rtranclp_induct) (auto intro: reach_step)

section \<open>The core's entry points\<close>

lemma moves_execute: "execute_governed_action a adapter st = (out, st') \<Longrightarrow> gov_moves st st'"
  by (blast intro: step_execute)

lemma moves_approve: "approve_held_action k who ok st = (out, st') \<Longrightarrow> gov_moves st st'"
  by (blast intro: step_approve)

lemma moves_next: "gov_moves st (st\<lparr>g_next := Suc (g_next st)\<rparr>)"
  using step_id[of st] by (auto simp: fresh_id_def)

lemma moves_next2: "gov_moves st (st\<lparr>g_next := Suc (Suc (g_next st))\<rparr>)"
  using rtranclp_trans[OF moves_next moves_next[of "st\<lparr>g_next := Suc (g_next st)\<rparr>"]] by simp

lemma moves_fresh: "fresh_id st = (k, st') \<Longrightarrow> gov_moves st st'"
  using moves_next by (auto simp: fresh_id_def)

lemma moves_saved: "gov_moves st st' \<Longrightarrow> gov_moves st (st'\<lparr>g_verifs := save verification_key v (g_verifs st')\<rparr>)"
  by (erule rtranclp.rtrancl_into_rtrancl) (rule step_verif)

lemma moves_failed: "gov_moves st (snd (record_failed_execution_evidence ov e st))"
  using moves_saved[OF moves_next, of st]
  by (auto simp: record_failed_execution_evidence_def fresh_id_def Let_def)

lemma moves_assessed: "resolve_assessment st a adapter = Inr (asmt, st1) \<Longrightarrow> gov_moves st st1"
  using resolve_state moves_next by metis

lemma moves_approval: "gov_moves st (snd (process_approval a p r st))"
  using moves_next by (simp add: process_approval_def fresh_id_def Let_def)

lemma moves_verified:
  assumes "verify_executed_action P k adapter oper tg e aid s = Some (v, s')"
  shows "gov_moves (op_gov s) (op_gov s')"
  using assms moves_next moves_saved[OF moves_next]
  by (auto simp: verify_executed_action_def save_above_core_def fresh_id_def Let_def split: option.splits)

section \<open>Remediation and the loop\<close>

lemma remember_gov [simp]: "hm_ops (remember r h) = hm_ops h" "hm_ops (record_learning c ov k q h) = hm_ops h"
  by (simp_all add: remember_def record_learning_def)

lemma moves_governed: "governed a adapter h = (r, h') \<Longrightarrow> gov_moves (hm_gov h) (hm_gov h')"
  using moves_execute by (auto simp: governed_def Let_def split: prod.splits)

lemma moves_run: "verify_run P ov adapter a h = Some (ov', h') \<Longrightarrow> gov_moves (hm_gov h) (hm_gov h')"
  using moves_verified by (auto simp: verify_run_def split: option.splits)

lemma moves_built: "build_remediation_action ev dec st = (Some a, g) \<Longrightarrow> gov_moves st g"
  using build_action_facts(9) moves_next2 by metis

lemma moves_remediate_and_verify:
  assumes "remediate_and_verify P ev dec adapter h = Some (r, h')"
  shows "gov_moves (hm_gov h) (hm_gov h')"
proof (cases "build_remediation_action ev dec (hm_gov h)")
  case (Pair b g)
  show ?thesis
  proof (cases b)
    case None
    then show ?thesis using assms Pair by (simp add: remediate_and_verify_def)
  next
    case (Some a)
    let ?h1 = "with_gov g h"
    obtain q h2 where q: "governed a (adapter_or_default adapter ?h1) ?h1 = (q, h2)" by fastforce
    have "gov_moves (hm_gov h) (hm_gov ?h1)" using moves_built Pair Some by simp
    also have "gov_moves (hm_gov ?h1) (hm_gov h2)" by (rule moves_governed[OF q])
    also have "gov_moves (hm_gov h2) (hm_gov h')"
      using assms Pair Some q moves_run
      by (auto simp: remediate_and_verify_def Let_def split: sum.splits option.splits if_splits)
    finally show ?thesis .
  qed
qed

lemma moves_remediate:
  "remediate_component P c adapter h = Some (r, h') \<Longrightarrow> gov_moves (hm_gov h) (hm_gov h')"
  using moves_remediate_and_verify
  by (auto simp: remediate_component_def Let_def split: option.splits)

lemma moves_continue:
  assumes "continue_remediation P k who ok h = Some (r, h')"
  shows "gov_moves (hm_gov h) (hm_gov h')"
proof -
  obtain out g where g: "approve_held_action k who ok (hm_gov h) = (out, g)" by fastforce
  have "gov_moves (hm_gov h) g" by (rule moves_approve[OF g])
  also have "gov_moves g (hm_gov h')"
    using assms moves_run[of P _ _ _ "with_gov g h"]
    by (auto simp: continue_remediation_def g Let_def split: option.splits if_splits)
  finally show ?thesis .
qed

lemma loop_state_frame [simp]:
  "lp_home (put_state s lp) = lp_home lp" "hm_gov (lp_home (record_transition c e d lp)) = hm_gov (lp_home lp)"
  "hm_ops (lp_home (on_ops f lp)) = f (hm_ops (lp_home lp))"
  "hm_gov (lp_home (maybe_quarantine cfg now s lp)) = hm_gov (lp_home lp)"
  "hm_gov (lp_home (do_clear_quarantine e t s lp)) = hm_gov (lp_home lp)"
  by (simp_all add: put_state_def record_transition_def on_ops_def maybe_quarantine_def do_clear_quarantine_def Let_def)

lemma loop_commands_frame [simp]:
  "hm_gov (lp_home (snd (check_recovery cfg docker s lp))) = hm_gov (lp_home lp)"
  "hm_gov (lp_home (snd (clear_quarantine c lp))) = hm_gov (lp_home lp)"
  "lp_home (start_loop b lp) = lp_home lp" "lp_home (stop_loop lp) = lp_home lp" "lp_home (reset_loop lp) = lp_home lp"
  by (simp_all add: check_recovery_def clear_quarantine_def start_loop_def stop_loop_def reset_loop_def Let_def split: option.split)

lemma moves_process:
  assumes "process_component cfg P docker c lp = Some (r, lp')"
  shows "gov_moves (hm_gov (lp_home lp)) (hm_gov (lp_home lp'))"
proof -
  have rec: "hm_gov (lp_home lp') = hm_gov (lp_home lp)" if "check_recovery cfg docker s (put_state s lp) = (q, lp')" for q s
    using loop_commands_frame(1)[of cfg docker s "put_state s lp"] that by simp
  show ?thesis using assms moves_remediate[of P c None "lp_home lp"] rec
    by (auto simp: process_component_def Let_def split: if_splits option.splits prod.splits sum.splits)
qed

lemma moves_contained:
  "contained_component cfg P docker c lp = Some (r, lp') \<Longrightarrow> gov_moves (hm_gov (lp_home lp)) (hm_gov (lp_home lp'))"
  using moves_process by (fastforce simp: contained_component_def Let_def split: option.splits prod.splits sum.splits)

lemma moves_components:
  "run_components cfg P docker cs lp = Some (rs, lp') \<Longrightarrow> gov_moves (hm_gov (lp_home lp)) (hm_gov (lp_home lp'))"
proof (induction cs arbitrary: lp rs)
  case (Cons c cs)
  then show ?case
    by (auto split: option.splits prod.splits) (blast intro: rtranclp_trans moves_contained)
qed simp

lemma moves_cycle:
  "run_cycle_once cfg P docker lp = Some (r, lp') \<Longrightarrow> gov_moves (hm_gov (lp_home lp)) (hm_gov (lp_home lp'))"
  by (auto simp: run_cycle_once_def Let_def split: if_splits option.splits dest!: moves_components)

section \<open>Proposals\<close>

lemma notify_agent_gov [simp]: "hm_gov (notify_agent_hold p k d h) = hm_gov h"
  by (simp add: notify_agent_hold_def)

lemma consume_home [simp]: "ag_home (snd (consume_grant k s)) = ag_home s"
  by (simp add: consume_grant_def split: option.split)

lemma on_home_home [simp]: "ag_home (on_home f s) = f (ag_home s)"
  by (simp add: on_home_def)

lemma held_gov [simp]: "ag_gov (snd (agent_held p ao ov s)) = ag_gov s" "ag_gov (snd (agent_learn p ao ov s)) = ag_gov s"
  by (simp_all add: agent_held_def agent_learn_def Let_def)

lemma moves_resolve: "resolve_proposal cfg p s = (r, s1) \<Longrightarrow> gov_moves (ag_gov s) (ag_gov s1)"
  using moves_next2 by (auto simp: resolve_proposal_def fresh_id_def Let_def split: prod.splits)

lemma moves_executed:
  assumes "agent_executed P p adapter a ao ov s = Some (q, s')"
  shows "gov_moves (ag_gov s) (ag_gov s')"
proof (cases "ov_success ov = Some True")
  case True
  then obtain ov' h where v: "verify_run P ov adapter a (ag_home s) = Some (ov', h)"
    and s': "s' = snd (agent_learn p ao ov' (s\<lparr>ag_home := h\<rparr>))"
    using assms by (auto simp: agent_executed_def split: option.splits)
  then show ?thesis using moves_run[OF v] by simp
next
  case False
  obtain f g where f: "record_failed_execution_evidence ov (act_expected a) (ag_gov s) = (f, g)" by fastforce
  then have "s' = snd (agent_learn p ao (ov\<lparr>ov_docker_status := map_option ver_status f\<rparr>) (agent_with_gov g s))"
    using assms False by (simp add: agent_executed_def)
  then show ?thesis using moves_failed[of "ag_gov s" ov "act_expected a"] f by simp
qed

lemma moves_verdict:
  assumes "governed_verdict P p r adapter ov s = Some (q, s')"
  shows "gov_moves (ag_gov s) (ag_gov s')"
proof -
  let ?s1 = "if ov_status ov \<in> {''executed'', ''manual_approval_required''} \<and> ap_grant p \<noteq> None
             then snd (consume_grant (the (ap_grant p)) s) else s"
  have s1: "ag_gov ?s1 = ag_gov s" by simp
  consider ao where "agent_held p ao ov ?s1 = (q, s')" | a ao where "agent_executed P p adapter a ao ov ?s1 = Some (q, s')"
    | "s' = ?s1"
    using assms unfolding governed_verdict_def Let_def by (auto split: if_splits)
  then show ?thesis
  proof cases
    case 1
    then show ?thesis using held_gov(1)[of p _ ov ?s1] s1 by (metis rtranclp.rtrancl_refl snd_conv)
  next
    case 2
    then show ?thesis using moves_executed s1 by metis
  next
    case 3
    then show ?thesis using s1 by simp
  qed
qed

lemma moves_propose:
  assumes "propose_and_govern P cfg p s = Some (ao, s')"
  shows "gov_moves (ag_gov s) (ag_gov s')"
proof (cases "ac_enabled cfg")
  case False
  then show ?thesis using assms by (simp add: propose_and_govern_def)
next
  case True
  obtain r s1 where r: "resolve_proposal cfg p s = (r, s1)" by fastforce
  obtain out g where g: "execute_governed_action (rs_action r) (context_adapter (ap_context p) (ag_home s1)) (ag_gov s1) = (out, g)"
    by fastforce
  have "gov_moves (ag_gov s) (ag_gov s1)" by (rule moves_resolve[OF r])
  moreover have "gov_moves (ag_gov s1) g" by (rule moves_execute[OF g])
  ultimately have "gov_moves (ag_gov s) g" by (rule rtranclp_trans)
  moreover have "gov_moves g (ag_gov s') \<or> ag_gov s' = ag_gov s1"
    using assms True r g moves_verdict[of P p r _ _ "agent_with_gov g s1"]
    by (auto simp: propose_and_govern_def Let_def split: if_splits option.splits)
  ultimately show ?thesis using moves_resolve[OF r] by (metis rtranclp_trans)
qed

lemma moves_preview: "gov_moves (ag_gov s) (ag_gov (snd (preview_proposal cfg p s)))"
proof -
  obtain r s1 where r: "resolve_proposal cfg p s = (r, s1)" by fastforce
  have m: "gov_moves (ag_gov s) (ag_gov s1)" by (rule moves_resolve[OF r])
  let ?a = "context_adapter (ap_context p) (ag_home s1)"
  show ?thesis
  proof (cases "resolve_assessment (ag_gov s1) (rs_action r) ?a")
    case (Inl e)
    then show ?thesis using m r by (cases e) (simp_all add: preview_proposal_def)
  next
    case (Inr x)
    obtain asmt g where x: "resolve_assessment (ag_gov s1) (rs_action r) ?a = Inr (asmt, g)" using Inr by (cases x) simp
    have "gov_moves (ag_gov s1) (snd (process_approval (rs_action r) (asm_policy asmt) (asm_risk asmt) g))"
      using rtranclp_trans[OF moves_assessed[OF x] moves_approval] .
    then show ?thesis using m r x rtranclp_trans[OF m]
      by (simp add: preview_proposal_def Let_def split: prod.split) auto
  qed
qed

section \<open>Routes\<close>

lemma separation_home: "check_separation cfg k who s = (q, s1) \<Longrightarrow> ag_home s1 = ag_home s"
  using agent_frame(8)[of cfg k who s] by simp

lemma moves_route_execute:
  assumes "route_execute P oper tg im who s = Some (x, s')"
  shows "gov_moves (ag_gov s) (ag_gov s')"
proof (cases "operation_to_action_type oper")
  case None
  then show ?thesis using assms by (simp add: route_execute_def)
next
  case (Some t)
  obtain i g where i: "fresh_id (ag_gov s) = (i, g)" by fastforce
  let ?a = "operator_action t oper tg im who i (ag_now s)" and ?h = "with_gov g (ag_home s)"
  let ?ad = "resolve_adapter_name ?h"
  obtain out g1 where e: "execute_governed_action ?a ?ad g = (out, g1)" by fastforce
  let ?h1 = "with_gov g1 ?h"
  have m: "gov_moves (ag_gov s) g1" using rtranclp_trans[OF moves_fresh[OF i] moves_execute[OF e]] .
  show ?thesis
  proof (cases "outcome_dict ?a ?ad out")
    case None
    then show ?thesis using assms Some i e m by (auto simp: route_execute_def Let_def)
  next
    case (Some ov)
    define h2 where "h2 = (if ov_status ov = ''manual_approval_required''
      then ?h1\<lparr>hm_ops := notify_held ''operator_execute'' tg (ov_approval_id ov) (the (or_str (ov_reason ov) (Some []))) ''http_execute'' (hm_ops ?h1)\<rparr>
      else ?h1)"
    define h3 where "h3 = with_gov (snd (record_failed_execution_evidence ov (act_expected ?a) (hm_gov h2))) h2"
    have "hm_gov h2 = g1" by (simp add: h2_def)
    then have m3: "gov_moves (ag_gov s) (hm_gov h3)" using rtranclp_trans[OF m moves_failed] by (simp add: h3_def)
    obtain p h4 where h4: "execute_verified P oper tg ?a ov h3 = Some (p, h4)" "s' = s\<lparr>ag_home := h4\<rparr>"
      using assms \<open>operation_to_action_type oper = Some t\<close> Some i e
      by (auto simp: route_execute_def Let_def h3_def h2_def)
    have "gov_moves (hm_gov h3) (hm_gov h4)"
      using h4(1) moves_verified by (auto simp: execute_verified_def Let_def split: if_splits option.splits)
    then show ?thesis using m3 h4(2) by simp
  qed
qed

lemma moves_route_approve: "gov_moves (ag_gov s) (ag_gov (snd (route_approve cfg k ok who s)))"
proof -
  obtain v why s1 where c: "check_separation cfg k who s = ((v, why), s1)" by (metis prod.exhaust)
  obtain out g where g: "approve_held_action k who ok (ag_gov s1) = (out, g)" by fastforce
  note g' = g[unfolded separation_home[OF c]]
  have m: "gov_moves (ag_gov s) g" by (rule moves_approve[OF g'])
  show ?thesis using m rtranclp_trans[OF m moves_failed] separation_home[OF c]
    by (cases v) (simp_all add: route_approve_def c g' split: option.split)
qed

lemma moves_route_homelab_approve:
  assumes "route_homelab_approve P cfg k ok who s = Some (x, s')"
  shows "gov_moves (ag_gov s) (ag_gov s')"
proof -
  obtain v why s1 where c: "check_separation cfg k who s = ((v, why), s1)" by (metis prod.exhaust)
  have m: "gov_moves (ag_gov s) (hm_gov h)" if "continue_remediation P k who ok (ag_home s1) = Some (r, h)" for r h
    using moves_continue[OF that] separation_home[OF c] by simp
  show ?thesis using assms m rtranclp_trans[OF m moves_failed] separation_home[OF c]
    by (cases v) (auto simp: route_homelab_approve_def c split: option.splits sum.splits)
qed

lemma moves_route_remediate:
  assumes "route_remediate P c s = Some (x, s')"
  shows "gov_moves (ag_gov s) (ag_gov s')"
proof -
  have m: "gov_moves (ag_gov s) (hm_gov h)" if "remediate_component P c None (ag_home s) = Some (r, h)" for r h
    by (rule moves_remediate[OF that])
  show ?thesis using assms m rtranclp_trans[OF m moves_failed]
    by (auto simp: route_remediate_def Let_def split: option.splits sum.splits)
qed

lemma moves_route_grant: "gov_moves (ag_gov s) (ag_gov (snd (route_grant cfg oper tg ttl who s)))"
  using moves_next by (auto simp: route_grant_def grant_authority_def fresh_id_def Let_def)

lemma moves_route_preview: "gov_moves (ag_gov s) (ag_gov (snd (route_preview cfg b s)))"
  using moves_preview by (auto simp: route_preview_def Let_def split_beta split: option.split)

lemma views_frame [simp]:
  "ag_home (snd (route_evidence D a p e s)) = ag_home s" "ag_home (snd (route_export D a p e s)) = ag_home s"
  "ag_home (snd (open_holds_view s)) = ag_home s"
  by (simp_all add: route_evidence_def route_export_def export_bundle_def open_holds_view_def Let_def split_beta split: option.split)

lemma moves_route_act:
  assumes "route_act P cfg b s = Some (x, s')"
  shows "gov_moves (sv_gov s) (sv_gov s')"
  using assms moves_propose[of P cfg _ "agent_of s"] by (fastforce simp: route_act_def split: option.splits)

section \<open>Steps of the platform\<close>

lemma moves_dispatch:
  assumes "dispatch D who r s = Some (x, s')"
  shows "gov_moves (sv_gov s) (sv_gov s')"
proof (cases r)
  case (PostLoopClear c)
  then show ?thesis using assms by (auto simp: on_loop_def)
qed (use assms moves_route_execute[of _ _ _ _ _ "agent_of s"] moves_route_approve[of "agent_of s"]
      moves_route_homelab_approve[of _ _ _ _ _ "agent_of s"] moves_route_remediate[of _ _ "agent_of s"]
      moves_route_grant[of "agent_of s"] moves_route_act moves_route_preview[of "agent_of s"]
    in \<open>auto simp: on_agent_def on_agent_opt_def on_loop_def Let_def\<close>)

lemma moves_handle:
  assumes "handle D c r s = Some (x, s')"
  shows "gov_moves (sv_gov s) (sv_gov s')"
  using assms by (cases rule: handle_cases) (auto dest: moves_dispatch)

lemma moves_boot:
  assumes "boot D s = Some s'" and "evidence_retention_days (dp_env D) \<le> 0"
  shows "sv_gov s' = restart (sv_gov s)"
  using assms
  by (auto simp: boot_def lifespan_def reload_def archive_aged_evidence_def restart_def rebuild_index_def reset_loop_def start_loop_def
      Let_def split: if_splits)

lemma moves_platform_step:
  assumes "platform_step D e s s'" and "evidence_retention_days (dp_env D) \<le> 0"
  shows "gov_moves (sv_gov s) (sv_gov s')"
  using assms
proof (cases rule: platform_step.cases)
  case (plat_request P c r x)
  then show ?thesis by (auto intro: moves_handle)
next
  case (plat_cycle P docker)
  then show ?thesis by (auto simp: background_cycle_def split: if_splits dest!: moves_cycle)
next
  case (plat_boot f)
  then have "sv_gov s' = restart (sv_gov s)" using assms(2) moves_boot[of "D\<lparr>dp_faults := f\<rparr>"] by simp
  then show ?thesis by (auto intro: step_restart)
next
  case (plat_advance dt)
  then show ?thesis by (auto simp: advance_def Let_def intro: step_tick)
next
  case (plat_metric m)
  then show ?thesis by (simp add: save_container_metric_def)
qed

lemma moves_platform_run:
  assumes "platform_run D s es s'" and "evidence_retention_days (dp_env D) \<le> 0"
  shows "gov_moves (sv_gov s) (sv_gov s')"
  using assms by (induction rule: platform_run.induct) (auto dest: moves_platform_step)

end
