(* ===== verification/Operations_Properties.thy ===== *)
theory Operations_Properties
  imports Rate_Limits Platform_Runs Agent_Sample
begin

text \<open>
  The properties of the operating layer: the whole platform against the governance core, retention
  of evidence, and the rate limiter.
\<close>

section \<open>The platform\<close>

text \<open>C3: The platform refines the governance core. Whatever an operator, an agent or the background loop
  does over HTTP or by itself, with restarts in between and retention switched off, the governance
  stores stay in a state the core reaches. So each audit record of an adapter call still leads to an
  approved authorization for its action, adapter and digest and to an approval record that says
  approved, and no approval has been used twice.\<close>

theorem platform_refines_core:
  assumes "platform_run D s es s'" and "evidence_retention_days (dp_env D) \<le> 0" and "gov_reachable (sv_gov s)"
  shows "gov_reachable (sv_gov s') \<and>
     distinct (List.map auth_approval_id (mem (g_auths (sv_gov s')))) \<and>
     distinct (List.map au_authorization_id (mem (g_audits (sv_gov s')))) \<and>
     (\<forall>u\<in>set (mem (g_audits (sv_gov s'))). \<exists>a r. get_auth (au_authorization_id u) (sv_gov s') = Some a \<and>
        auth_status a = ''approved'' \<and> auth_action_id a = au_action_id u \<and> pv_adapter (auth_prov a) = Some (au_adapter u) \<and>
        pv_digest (auth_prov a) = pv_digest (au_prov u) \<and> auth_approval_id a = Some (ar_id r) \<and>
        get_record (ar_id r) (sv_gov s') = Some r \<and> ar_decision r = ''approved'' \<and> ar_digest r = pv_digest (au_prov u))"
proof -
  have r: "gov_reachable (sv_gov s')" by (rule moves_reachable[OF moves_platform_run[OF assms(1,2)] assms(3)])
  show ?thesis
    by (intro conjI r used_once_reachable[OF r] ballI) (erule audit_evidence[OF r], blast)
qed

definition sample_busy :: "nat server" where
  "sample_busy = sample_server\<lparr>sv_loop := sample_loop\<lparr>lp_home := with_gov sample_executed sample_home\<rparr>\<rparr>"

definition sample_kept :: deployment where
  "sample_kept = sample_deployment\<lparr>dp_env := [''RMT_EVIDENCE_RETENTION_DAYS'' \<mapsto> ''0'']\<rparr>"

lemma platform_refines_core_witness:
  "\<exists>s' u r. platform_run sample_kept sample_busy [] s' \<and> u \<in> set (mem (g_audits (sv_gov s'))) \<and>
     get_record (ar_id r) (sv_gov s') = Some r \<and> ar_decision r = ''approved'' \<and> ar_digest r = pv_digest (au_prov u)"
proof -
  let ?s = "advance 5 sample_busy"
  have run: "platform_run sample_kept sample_busy [] ?s"
    using plat_next[OF plat_refl plat_advance[of 5]] by fastforce
  have gov: "sv_gov sample_busy = sample_executed" by (simp add: sample_busy_def)
  have days: "evidence_retention_days (dp_env sample_kept) \<le> 0" unfolding sample_kept_def by code_simp
  obtain u where "mem (g_audits sample_executed) = [u]" using sample_run(3) by blast
  then have u: "u \<in> set (mem (g_audits (sv_gov ?s)))" using gov by (simp add: advance_def Let_def)
  show ?thesis
    using platform_refines_core[OF run days] sample_executed_reachable u run gov by (simp only: ball_simps) blast
qed

section \<open>Retention\<close>

text \<open>C26: Retention moves records that are older than the window, and only those, to the end of the
  archive files. Whatever write fails, and wherever, each record is afterwards in its store or on a line of
  its own in its file, with one exception: where an earlier run left a torn file, the first record archived
  next is glued to the torn text and is lost. A torn file comes only from a failed write. When the rewrite of
  a store fails its disk keeps every record; otherwise disk and memory agree or the store is as it was.
  Nothing else of the state changes. A second run after one without failure changes nothing, and when no
  record that stays refers to one that leaves, such a run keeps the invariant of the governance stores.\<close>

theorem retention_loses_nothing:
  assumes "archive_aged_evidence days faults st arc = (res, st', arc')"
  shows "evidence_retained (retention_cutoff days st) faults st arc st' arc' \<and> same_outside st st' \<and>
     (faults = (\<lambda>_. NoFault) \<longrightarrow> snd (archive_aged_evidence days faults' st' arc') = (st', arc') \<and>
        (gov_inv st \<and> cutoff_safe (retention_cutoff days st) st \<longrightarrow> gov_inv st'))"
  using archive_run[OF assms] archive_run_again[of days st arc res st' arc' faults'] retention_inv[of st days arc res st' arc'] assms
  by blast

definition sample_trace :: trace where
  "sample_trace = \<lparr>tr_id = ''t'', tr_execution_id = ''e'', tr_action_id = ''a'', tr_authorization_id = ''u'',
     tr_policy_decision = ''allow'', tr_risk = ''medium'', tr_outcome = ''completed'', tr_reason = ''done'', tr_prov = absent,
     tr_created_at = 0\<rparr>"

definition sample_old :: "nat gov" where
  "sample_old = sample_gov\<lparr>g_traces := save no_key sample_trace (empty_store Sqlite), g_now := 2 * seconds 86400\<rparr>"

text \<open>The loss is real: a write that fails in the middle of the line, and then a run without failure.\<close>

lemma torn_archive_loses_a_record:
  "\<exists>res st1 arc1 res' st2 arc2.
     archive_aged_evidence 1 (\<lambda>_. WriteFault 0 True) sample_old no_archives = (res, st1, arc1) \<and>
     archive_aged_evidence 1 (\<lambda>_. NoFault) st1 arc1 = (res', st2, arc2) \<and>
     mem (g_traces st1) = [sample_trace] \<and> mem (g_traces st2) = [] \<and> file_records (arc_traces arc2) = []"
  by (simp add: archive_aged_evidence_def retention_cutoff_def sample_old_def sample_defs first_instant_def
      archive_store_def no_archives_def empty_file_def sample_trace_def store_defs empty_store_def append_records_def
      file_records_def Let_def)

lemma retention_loses_nothing_witness:
  "\<exists>res st' arc'. archive_aged_evidence 1 (\<lambda>_. NoFault) sample_old no_archives = (res, st', arc') \<and>
     file_records (arc_traces arc') = [sample_trace] \<and> mem (g_traces st') = [] \<and> gov_inv st' \<and>
     snd (archive_aged_evidence 1 (\<lambda>_. StoreFault) st' arc') = (st', arc')"
proof -
  obtain res st' arc' where run: "archive_aged_evidence 1 (\<lambda>_. NoFault) sample_old no_archives = (res, st', arc')"
    by (metis prod.exhaust)
  have inv: "gov_inv sample_old"
    using reachable_inv[OF sample_reachable] by (simp add: sample_old_def inv_defs evidence_of_def issued_def)
  have safe: "cutoff_safe (retention_cutoff 1 sample_old) sample_old"
    by (simp add: cutoff_safe_def sample_old_def sample_defs empty_store_def)
  have "file_records (arc_traces arc') = [sample_trace] \<and> mem (g_traces st') = []"
    using run by (auto simp: archive_aged_evidence_def retention_cutoff_def sample_old_def first_instant_def
        archive_store_def no_archives_def empty_file_def append_records_def file_records_def sample_trace_def
        store_defs empty_store_def Let_def split: prod.splits)
  then show ?thesis using run inv safe retention_loses_nothing[OF run, of "\<lambda>_. StoreFault"] by blast
qed

section \<open>Rate limits\<close>

text \<open>What the limiter promises. In any minute an operator gets at most twice the limit less one of its
  requests through (the limit itself when it is zero), however the requests of all operators interleave, as
  long as the clock does not go back. Windows are fixed, so the bound of one rolling minute is not the limit.\<close>

theorem rate_limit_bounds_a_minute:
  assumes "hits key = None" and "0 \<le> limit" and "sorted (List.map snd qs)"
  shows "passes key t (t + rate_window) (rate_run limit qs hits) \<le> max 0 (limit - 1) + limit"
  by (rule fresh_window) (use assms in simp_all)

lemma rate_limit_bounds_a_minute_witness:
  "\<exists>qs. passes (''bob'', ''agent'') (seconds 59) (seconds 59 + rate_window) (rate_run 2 qs (\<lambda>_. None)) = 3 \<and> (3::int) \<le> (2 - 1) + 2"
proof -
  let ?k = "(''bob'', ''agent'')"
  let ?qs = "[(?k, 0), (?k, seconds 59), (?k, seconds 60), (?k, seconds 61)]"
  have "passes ?k (seconds 59) (seconds 59 + rate_window) (rate_run 2 ?qs (\<lambda>_. None)) = 3"
    by (simp add: rate_run_Cons rate_window_def passes_def)
  with rate_limit_bounds_a_minute[of "\<lambda>_. None" ?k 2 ?qs "seconds 59"] show ?thesis
    by (intro exI[of _ ?qs]) simp
qed

end
