(* ===== verification/Governed_History.thy ===== *)
theory Governed_History
  imports Governed_Runs Json_Text
begin

text \<open>
  The read model of governed history (\<open>analysis/governed_history.py\<close>): one view per action id that
  occurs in the evidence stores, put together from the records that carry it.
  Execution ids are collected in a Python set; the order in which it is walked is a function
  \<open>order\<close> of its elements. The field \<open>decision_reason\<close> of an audit record is never written and
  reads as the empty string.
\<close>

record governed_outcome =
  gv_action :: ident
  gv_execution :: "ident option"
  gv_component :: string
  gv_operation :: string
  gv_decision :: string
  gv_policy :: string
  gv_risk :: string
  gv_approval :: string
  gv_authorization :: string
  gv_status :: string
  gv_verification :: string
  gv_outcome :: string
  gv_created :: "instant option"
  gv_sources :: "string list"

text \<open>\<open>sorted(set(...))\<close>, and \<open>max\<close> by a key, which keeps the first of equals.\<close>

definition sorted_set :: "string list \<Rightarrow> string list" where
  "sorted_set xs = sort (remdups xs)"

definition latest :: "('a \<Rightarrow> instant) \<Rightarrow> 'a list \<Rightarrow> 'a option" where
  "latest key xs = (case xs of [] \<Rightarrow> None | x # ys \<Rightarrow> Some (foldl (\<lambda>m y. if key m < key y then y else m) x ys))"

definition earliest :: "instant list \<Rightarrow> instant option" where
  "earliest ts = (if ts = [] then None else Some (Min (set ts)))"

definition find_last_by :: "('a \<Rightarrow> 'k) \<Rightarrow> 'k \<Rightarrow> 'a list \<Rightarrow> 'a option" where
  "find_last_by key k xs = find_last (\<lambda>x. key x = k) xs"

definition source_if :: "bool \<Rightarrow> string \<Rightarrow> string list" where
  "source_if b name = (if b then [name] else [])"

definition governed_view :: "(ident list \<Rightarrow> ident list) \<Rightarrow> 'w gov \<Rightarrow> ident \<Rightarrow> governed_outcome" where
  "governed_view order st a =
     (let traces = filter (\<lambda>t. tr_action_id t = a) (mem (g_traces st));
          audits = filter (\<lambda>u. au_action_id u = a) (mem (g_audits st));
          authz = find_last_by auth_action_id a (mem (g_auths st));
          approvals = filter (\<lambda>r. ar_action_id r = a) (mem (g_records st));
          ids = order (remdups (filter (\<lambda>k. k \<noteq> []) (List.map tr_execution_id traces) @ List.map au_execution_id audits));
          verifs = List.map_filter (\<lambda>k. find_last_by ver_execution_id k (mem (g_verifs st))) ids;
          last_audit = latest au_created_at audits; last_trace = latest tr_created_at traces;
          decisions = join_with '';'' (sorted_set (List.map ar_decision approvals))
      in \<lparr>gv_action = a,
          gv_execution = (case ids of [] \<Rightarrow> None | k # _ \<Rightarrow> Some k),
          gv_component = (case authz of None \<Rightarrow> [] | Some x \<Rightarrow> auth_target x),
          gv_operation = (case authz of None \<Rightarrow> [] | Some x \<Rightarrow> auth_operation x),
          gv_decision = (case authz of None \<Rightarrow> [] | Some x \<Rightarrow> the (or_str (auth_decision_id x) (Some []))),
          gv_policy = (case last_trace of Some t \<Rightarrow> tr_policy_decision t | None \<Rightarrow> []),
          gv_risk = (case last_trace of Some t \<Rightarrow> tr_risk t | None \<Rightarrow> (case last_audit of Some u \<Rightarrow> au_risk u | None \<Rightarrow> [])),
          gv_approval = decisions,
          gv_authorization = (case authz of None \<Rightarrow> [] | Some x \<Rightarrow> auth_status x),
          gv_status = (case last_audit of Some u \<Rightarrow> au_status u
            | None \<Rightarrow> (case last_trace of Some t \<Rightarrow> tr_outcome t | None \<Rightarrow> [])),
          gv_verification = (if verifs = [] then [] else ver_status (last verifs)),
          gv_outcome = (case last_audit of Some u \<Rightarrow> ''completed''
            | None \<Rightarrow> (case last_trace of Some t \<Rightarrow> tr_outcome t | None \<Rightarrow> [])),
          gv_created = earliest (List.map au_created_at audits @ List.map tr_created_at traces @
            List.map ver_created_at verifs @ List.map ar_created_at approvals @
            (case authz of None \<Rightarrow> [] | Some x \<Rightarrow> [auth_created_at x])),
          gv_sources = sorted_set (source_if (audits \<noteq> []) ''audit'' @ source_if (traces \<noteq> []) ''trace'' @
            source_if (verifs \<noteq> []) ''verification'' @ source_if (authz \<noteq> None) ''authorization'' @
            source_if (approvals \<noteq> []) ''approval'')\<rparr>)"

definition governed_actions :: "'w gov \<Rightarrow> ident list" where
  "governed_actions st =
     sorted_set (List.map au_action_id (mem (g_audits st)) @ List.map tr_action_id (mem (g_traces st)) @
       List.map auth_action_id (mem (g_auths st)) @ List.map ar_action_id (mem (g_records st)))"

definition get_governed_outcomes ::
  "(ident list \<Rightarrow> ident list) \<Rightarrow> string option \<Rightarrow> 'w gov \<Rightarrow> governed_outcome list" where
  "get_governed_outcomes order component st =
     filter (\<lambda>v. \<not> truthy_str component \<or> Some (gv_component v) = component)
       (List.map (governed_view order st) (governed_actions st))"

section \<open>What a view rests on\<close>

lemma set_sorted_set [simp]: "set (sorted_set xs) = set xs"
  by (simp add: sorted_set_def)

lemma distinct_sorted_set [simp]: "distinct (sorted_set xs)"
  by (simp add: sorted_set_def)

lemma latest_None [simp]: "latest key xs = None \<longleftrightarrow> xs = []"
  by (simp add: latest_def split: list.split)

lemma find_last_by_Some:
  "find_last_by key k xs = Some x \<Longrightarrow> x \<in> set xs \<and> key x = k"
  by (auto simp: find_last_by_def find_last_def dest: find_SomeD)

lemma find_last_by_None: "find_last_by key k xs = None \<longleftrightarrow> (\<forall>x\<in>set xs. key x \<noteq> k)"
  by (auto simp: find_last_by_def find_last_def find_None_iff)

lemma view_action [simp]: "gv_action (governed_view order st a) = a"
  by (simp add: governed_view_def Let_def)

lemma view_audit_source:
  "''audit'' \<in> set (gv_sources (governed_view order st a)) \<longleftrightarrow> (\<exists>u\<in>set (mem (g_audits st)). au_action_id u = a)"
  by (auto simp: governed_view_def Let_def source_if_def filter_empty_conv)

lemma view_authorization:
  "gv_authorization (governed_view order st a) =
     (case find_last_by auth_action_id a (mem (g_auths st)) of None \<Rightarrow> [] | Some x \<Rightarrow> auth_status x)"
  "gv_component (governed_view order st a) =
     (case find_last_by auth_action_id a (mem (g_auths st)) of None \<Rightarrow> [] | Some x \<Rightarrow> auth_target x)"
  by (simp_all add: governed_view_def Let_def)

text \<open>In a reachable state what reached an adapter was authorized, and every authorization was approved.\<close>

lemma audited_action_authorized:
  assumes "gov_reachable st" and "u \<in> set (mem (g_audits st))"
  shows "\<exists>x. find_last_by auth_action_id (au_action_id u) (mem (g_auths st)) = Some x \<and> auth_status x = ''approved'' \<and>
     (\<exists>r\<in>set (mem (g_records st)). auth_approval_id x = Some (ar_id r) \<and> ar_decision r = ''approved'')"
proof -
  have e: "evidence_ok (evidence_of st)" using reachable_inv[OF assms(1)] by (simp add: gov_inv_def)
  obtain a r where a: "get_auth (au_authorization_id u) st = Some a" "auth_action_id a = au_action_id u"
    using audit_evidence[OF assms] by metis
  then have "a \<in> set (mem (g_auths st))" by (auto simp: get_auth_def get_by_def dest: find_SomeD)
  then obtain x where x: "find_last_by auth_action_id (au_action_id u) (mem (g_auths st)) = Some x"
    using a(2) find_last_by_None[of auth_action_id "au_action_id u"] by (cases "find_last_by auth_action_id (au_action_id u) (mem (g_auths st))") auto
  then have "auth_ok (mem (g_records st)) x"
    using e find_last_by_Some[OF x] by (simp add: evidence_defs evidence_of_def)
  then show ?thesis using x by (auto simp: auth_ok_def)
qed

end
