(* ===== verification/Engineering.thy ===== *)
theory Engineering
  imports Governed_History Homelab_Remediation
begin

text \<open>
  The read-only assessment of engineering changes (\<open>engineering/service.py\<close>, \<open>models.py\<close>,
  \<open>repo_index.py\<close>, \<open>api.py\<close>): resolution of the target, affected components, risk by an explicit
  rule, recommendation and evidence. The module registry enters as the list \<open>get_modules\<close> returns;
  prior failures are read from the memory table, governed outcomes from the evidence stores.
\<close>

record platform_module =
  md_id :: string
  md_container :: "string option"
  md_dependencies :: "string list"

datatype resolution_status = Resolved | UnknownComponent | AmbiguousComponent

fun resolution_value :: "resolution_status \<Rightarrow> string" where
  "resolution_value Resolved = ''resolved''"
| "resolution_value UnknownComponent = ''unknown_component''"
| "resolution_value AmbiguousComponent = ''ambiguous_component''"

record affected_component =
  af_component :: string
  af_relationship :: string
  af_source :: string

record risk_factor =
  rf_name :: string
  rf_value :: string
  rf_source :: string

record change_risk =
  cr_classification :: string
  cr_factors :: "risk_factor list"
  cr_explanation :: "string list"

record recommendation =
  rc_text :: string
  rc_source :: string

record evidence_item =
  ei_claim :: string
  ei_source :: string
  ei_detail :: string

record change_assessment =
  ca_target :: string
  ca_change :: string
  ca_resolution :: resolution_status
  ca_entity :: "string option"
  ca_affected :: "affected_component list"
  ca_risk :: "change_risk option"
  ca_recommendation :: "recommendation option"
  ca_evidence :: "evidence_item list"

section \<open>Resolution\<close>

definition module_matches :: "string \<Rightarrow> platform_module \<Rightarrow> bool" where
  "module_matches target md \<longleftrightarrow> md_id md = target \<or> md_container md = Some target"

definition candidate_entities :: "platform_module list \<Rightarrow> string \<Rightarrow> string list" where
  "candidate_entities mods target =
     remdups (List.map md_id (filter (module_matches target) mods) @
       (if get_component_context target \<noteq> None then [target] else []))"

definition resolve_component :: "platform_module list \<Rightarrow> string \<Rightarrow> resolution_status \<times> string option" where
  "resolve_component mods target =
     (case candidate_entities mods target of
        [] \<Rightarrow> (UnknownComponent, None)
      | [e] \<Rightarrow> (Resolved, Some e)
      | _ \<Rightarrow> (AmbiguousComponent, None))"

section \<open>Impact\<close>

definition curated_metadata :: "(string \<times> string list \<times> string list) list" where
  "curated_metadata =
     [(''control-center'', [''app/main.py'', ''app/core/platform_state/service.py''],
         [''app/core/platform_state/testing/test_platform_state_provider.py'']),
      (''uptime-kuma'', [''app/homelab/remediation.py'', ''app/homelab/observer.py'', ''app/ops/verification/service.py''],
         [''app/homelab/testing/test_integrated.py'', ''app/homelab/testing/test_remediation.py'',
          ''app/homelab/testing/test_observer.py'', ''app/ops/verification/testing/test_service.py'']),
      (''portainer'', [], []), (''dozzle'', [], [])]"

definition get_curated_metadata :: "string \<Rightarrow> (string list \<times> string list) option" where
  "get_curated_metadata component = map_of curated_metadata component"

text \<open>The calls of \<open>add\<close>, in their order.\<close>

definition impact_events ::
  "platform_module list \<Rightarrow> governed_outcome list \<Rightarrow> string \<Rightarrow> string \<Rightarrow> (string \<times> string \<times> string) list" where
  "impact_events mods views target entity =
     [(entity, ''target'', ''component_resolution'')] @
     List.map (\<lambda>md. (md_id md, ''dependent'', ''module_registry.dependencies''))
       (filter (\<lambda>md. entity \<in> set (md_dependencies md)) mods) @
     List.map (\<lambda>v. (gv_component v, ''evidence_related'', ''governed_outcomes''))
       (filter (\<lambda>v. gv_component v \<in> {entity, target}) views) @
     (case (case get_curated_metadata entity of Some x \<Rightarrow> Some x | None \<Rightarrow> get_curated_metadata target) of
        None \<Rightarrow> []
      | Some (files, tests) \<Rightarrow>
          (if files \<noteq> [] then [(entity, ''source_related'', ''curated_repo_index'')] else []) @
          (if tests \<noteq> [] then [(entity, ''source_related'', ''curated_repo_index'')] else []))"

definition relations_of :: "string \<Rightarrow> (string \<times> string \<times> string) list \<Rightarrow> string list" where
  "relations_of c es = sorted_set (List.map (fst \<circ> snd) (filter (\<lambda>e. fst e = c) es))"

definition sources_of :: "string \<Rightarrow> (string \<times> string \<times> string) list \<Rightarrow> string list" where
  "sources_of c es = sorted_set (List.map (snd \<circ> snd) (filter (\<lambda>e. fst e = c) es))"

definition compute_impact ::
  "platform_module list \<Rightarrow> governed_outcome list \<Rightarrow> string \<Rightarrow> string \<Rightarrow> affected_component list" where
  "compute_impact mods views target entity =
     (let es = impact_events mods views target entity in
      List.map (\<lambda>c. \<lparr>af_component = c, af_relationship = join (relations_of c es), af_source = join (sources_of c es)\<rparr>)
        (sorted_set (List.map fst es)))"

section \<open>Risk\<close>

definition contains_text :: "string \<Rightarrow> string \<Rightarrow> bool" where
  "contains_text t s \<longleftrightarrow> sublist t s"

definition entity_or :: "string \<Rightarrow> string \<Rightarrow> string" where
  "entity_or entity target = (if entity = [] then target else entity)"

definition module_dependencies :: "platform_module list \<Rightarrow> string \<Rightarrow> string list" where
  "module_dependencies mods entity = (case find (\<lambda>md. md_id md = entity) mods of None \<Rightarrow> [] | Some md \<Rightarrow> md_dependencies md)"

definition py_bool :: "bool \<Rightarrow> string" where
  "py_bool b = (if b then ''True'' else ''False'')"

text \<open>The inputs of the rule, and the rule.\<close>

record risk_inputs =
  ri_fan_out :: nat
  ri_governed :: bool
  ri_failures :: nat
  ri_verified :: bool
  ri_unknown :: bool
  ri_criticality :: string

definition risk_level :: "risk_inputs \<Rightarrow> nat" where
  "risk_level i =
     (let l1 = (if ri_governed i then 1 else 0); l2 = (if 0 < ri_failures i then max l1 1 else l1);
          l3 = (if ri_unknown i then max l2 1 else l2); l4 = (if ri_criticality i = ''high'' then max l3 1 else l3);
          l5 = (if 0 < ri_fan_out i then max l4 1 else l4)
      in if ri_governed i \<and> 0 < ri_failures i \<or> ri_criticality i = ''high'' \<and> 0 < ri_failures i then max l5 2 else l5)"

definition risk_explanation :: "risk_inputs \<Rightarrow> string list" where
  "risk_explanation i =
     source_if (ri_governed i) ''governance_boundary involved'' @
     source_if (0 < ri_failures i) ''historical_failures present'' @
     source_if (ri_unknown i) ''unknown/unregistered dependency information'' @
     source_if (ri_criticality i = ''high'') ''high criticality'' @
     source_if (0 < ri_fan_out i) ''dependency fan-out present'' @
     source_if (ri_governed i \<and> 0 < ri_failures i \<or> ri_criticality i = ''high'' \<and> 0 < ri_failures i)
       ''governance_boundary + historical_failures (or high criticality + failures)''"

definition risk_factors :: "risk_inputs \<Rightarrow> risk_factor list" where
  "risk_factors i =
     [\<lparr>rf_name = ''dependency_fan_out'', rf_value = show_nat (ri_fan_out i), rf_source = ''module_registry.dependencies''\<rparr>,
      \<lparr>rf_name = ''governance_boundary'', rf_value = py_bool (ri_governed i), rf_source = ''governed_outcomes''\<rparr>,
      \<lparr>rf_name = ''historical_failures'', rf_value = show_nat (ri_failures i), rf_source = ''memory.get_previous_failures''\<rparr>,
      \<lparr>rf_name = ''verification_coverage'', rf_value = py_bool (ri_verified i), rf_source = ''verification_storage''\<rparr>,
      \<lparr>rf_name = ''unknown_dependency'', rf_value = py_bool (ri_unknown i), rf_source = ''module_registry.dependencies''\<rparr>,
      \<lparr>rf_name = ''criticality'', rf_value = ri_criticality i, rf_source = ''context_registry''\<rparr>]"

definition gather_inputs ::
  "platform_module list \<Rightarrow> governed_outcome list \<Rightarrow> 'w home \<Rightarrow> string \<Rightarrow> string \<Rightarrow> affected_component list \<Rightarrow> risk_inputs" where
  "gather_inputs mods views h target entity affected =
     (let governed = filter (\<lambda>v. gv_component v \<in> {entity, target}) views; subj = entity_or entity target in
      \<lparr>ri_fan_out = length (filter (\<lambda>a. contains_text ''dependent'' (af_relationship a)) affected),
       ri_governed = (governed \<noteq> []),
       ri_failures = length (get_previous_failures subj h),
       ri_verified = list_ex (\<lambda>v. gv_verification v \<noteq> []) governed,
       ri_unknown = (module_dependencies mods entity = []),
       ri_criticality = (case get_component_context subj of None \<Rightarrow> ''unknown'' | Some cx \<Rightarrow> cx_criticality cx)\<rparr>)"

definition classification_of :: "nat \<Rightarrow> string" where
  "classification_of l = (if l = 0 then ''low'' else if l = 1 then ''medium'' else ''high'')"

definition compute_risk ::
  "platform_module list \<Rightarrow> governed_outcome list \<Rightarrow> 'w home \<Rightarrow> string \<Rightarrow> string \<Rightarrow> affected_component list \<Rightarrow> change_risk" where
  "compute_risk mods views h target entity affected =
     (let i = gather_inputs mods views h target entity affected in
      \<lparr>cr_classification = classification_of (risk_level i), cr_factors = risk_factors i, cr_explanation = risk_explanation i\<rparr>)"

section \<open>Recommendation and evidence\<close>

definition build_recommendation :: "change_risk \<Rightarrow> affected_component list \<Rightarrow> recommendation" where
  "build_recommendation risk affected =
     (let related = list_ex (\<lambda>a. contains_text ''source_related'' (af_relationship a)) affected; c = cr_classification risk;
          recs = source_if related ''Verify dependent tests before applying the change'' @
            source_if (c \<in> {''medium'', ''high''}) ''Review governed outcomes and prior failures before the change'' @
            source_if (c = ''high'') ''Require explicit approval and staged rollout'';
          sources = source_if related ''curated_repo_index'' @ source_if (c \<in> {''medium'', ''high''}) ''engineering_risk_factors'' @
            source_if (c = ''high'') ''engineering_risk_factors''
      in if recs = [] then \<lparr>rc_text = ''No elevated engineering-change risk identified'',
             rc_source = join (sorted_set (sources @ [''engineering_risk_factors'']))\<rparr>
         else \<lparr>rc_text = join_with ''; '' recs, rc_source = join (sorted_set sources)\<rparr>)"

definition build_evidence :: "string \<Rightarrow> affected_component list \<Rightarrow> change_risk \<Rightarrow> recommendation \<Rightarrow> evidence_item list" where
  "build_evidence entity affected risk rec =
     [\<lparr>ei_claim = ''Target resolved to '' @ quoted entity, ei_source = ''component_resolution'',
       ei_detail = ''exact match across module_id/context/container namespaces''\<rparr>] @
     List.map (\<lambda>a. \<lparr>ei_claim = ''Component '' @ quoted (af_component a) @ '' affected ('' @ af_relationship a @ '')'',
        ei_source = af_source a, ei_detail = ''relationship from deterministic impact analysis''\<rparr>) affected @
     List.map (\<lambda>f. \<lparr>ei_claim = ''Risk factor '' @ quoted (rf_name f) @ '' = '' @ rf_value f, ei_source = rf_source f,
        ei_detail = ''deterministic factor from repository/evidence''\<rparr>) (cr_factors risk) @
     [\<lparr>ei_claim = ''Engineering-change risk = '' @ cr_classification risk, ei_source = ''engineering_risk_rule'',
       ei_detail = join_with ''; '' (cr_explanation risk)\<rparr>,
      \<lparr>ei_claim = ''Recommendation: '' @ rc_text rec, ei_source = rc_source rec, ei_detail = ''thin above-Core recommendation layer''\<rparr>]"

definition assess_engineering_change ::
  "platform_module list \<Rightarrow> (ident list \<Rightarrow> ident list) \<Rightarrow> string \<Rightarrow> string \<Rightarrow> 'w home \<Rightarrow> change_assessment" where
  "assess_engineering_change mods order target change h =
     (case resolve_component mods target of
        (Resolved, Some entity) \<Rightarrow>
          (let views = get_governed_outcomes order None (hm_gov h);
               affected = compute_impact mods views target entity; risk = compute_risk mods views h target entity affected;
               rec = build_recommendation risk affected
           in \<lparr>ca_target = target, ca_change = change, ca_resolution = Resolved, ca_entity = Some entity, ca_affected = affected,
               ca_risk = Some risk, ca_recommendation = Some rec, ca_evidence = build_evidence entity affected risk rec\<rparr>)
      | (status, _) \<Rightarrow>
          \<lparr>ca_target = target, ca_change = change, ca_resolution = status, ca_entity = None, ca_affected = [], ca_risk = None,
           ca_recommendation = None,
           ca_evidence = [\<lparr>ei_claim = ''Component resolution = '' @ resolution_value status, ei_source = ''component_resolution'',
             ei_detail = ''exact/unique resolution only; no fuzzy matching''\<rparr>]\<rparr>)"

definition proposed_changes :: "string list" where
  "proposed_changes = [''restart'', ''update'', ''remove'', ''register'', ''config_change'']"

text \<open>\<open>None\<close>: HTTP 422.\<close>

definition change_impact ::
  "platform_module list \<Rightarrow> (ident list \<Rightarrow> ident list) \<Rightarrow> string \<Rightarrow> string \<Rightarrow> 'w home \<Rightarrow> change_assessment option" where
  "change_impact mods order target change h =
     (if change \<notin> set proposed_changes then None else Some (assess_engineering_change mods order target change h))"

end
