(* ===== verification/Engineering_Properties.thy ===== *)
theory Engineering_Properties
  imports Engineering Homelab_Properties
begin

text \<open>
  What the governed history and the engineering assessment show: a view never claims more than the
  evidence stores hold, and the risk class is the documented rule over registry, stores and memory.
\<close>

section \<open>Governed history\<close>

text \<open>The history has one view per action id that occurs in the stores. In every reachable state of the
  core a view that shows an action as having reached an adapter shows an approved authorization for it,
  and the approval record that supports this authorization says approved.\<close>

theorem history_rests_on_approval:
  assumes "gov_reachable st" and "v \<in> set (get_governed_outcomes order component st)" and "''audit'' \<in> set (gv_sources v)"
  shows "gv_outcome v = ''completed'' \<and> gv_authorization v = ''approved'' \<and>
     (\<exists>x r. x \<in> set (mem (g_auths st)) \<and> r \<in> set (mem (g_records st)) \<and> auth_action_id x = gv_action v \<and>
        auth_target x = gv_component v \<and> auth_approval_id x = Some (ar_id r) \<and> ar_decision r = ''approved'') \<and>
     List.map gv_action (get_governed_outcomes order None st) = governed_actions st \<and> distinct (governed_actions st)"
proof -
  obtain a where v: "v = governed_view order st a" using assms(2) by (auto simp: get_governed_outcomes_def)
  then obtain u where u: "u \<in> set (mem (g_audits st))" "au_action_id u = a" using assms(3) view_audit_source by metis
  obtain x where x: "find_last_by auth_action_id a (mem (g_auths st)) = Some x" "auth_status x = ''approved''"
    "\<exists>r\<in>set (mem (g_records st)). auth_approval_id x = Some (ar_id r) \<and> ar_decision r = ''approved''"
    using audited_action_authorized[OF assms(1) u(1)] u(2) by auto
  have "filter (\<lambda>u. au_action_id u = a) (mem (g_audits st)) \<noteq> []" using u by (auto simp: filter_empty_conv)
  then have "gv_outcome v = ''completed''" by (auto simp: v governed_view_def Let_def split: option.split)
  moreover have "List.map gv_action (get_governed_outcomes order None st) = governed_actions st"
    by (simp add: get_governed_outcomes_def o_def)
  ultimately show ?thesis using x find_last_by_Some[OF x(1)]
    by (auto simp: v view_authorization governed_actions_def)
qed

lemma history_rests_on_approval_witness:
  "\<exists>v x. v \<in> set (get_governed_outcomes (\<lambda>ks. ks) None sample_executed) \<and> gv_outcome v = ''completed'' \<and>
     x \<in> set (mem (g_auths sample_executed)) \<and> auth_action_id x = gv_action v \<and> auth_target x = gv_component v"
proof -
  obtain u where u: "mem (g_audits sample_executed) = [u]" using sample_run(3) by blast
  let ?v = "governed_view (\<lambda>ks. ks) sample_executed (au_action_id u)"
  have "?v \<in> set (get_governed_outcomes (\<lambda>ks. ks) None sample_executed)"
    by (simp add: get_governed_outcomes_def governed_actions_def u)
  moreover have "''audit'' \<in> set (gv_sources ?v)" by (simp add: view_audit_source u)
  ultimately show ?thesis using history_rests_on_approval[OF sample_executed_reachable] by blast
qed

section \<open>Relationships\<close>

lemma in_join: "t \<in> set ts \<Longrightarrow> sublist t (join ts)"
proof (induction ts rule: join.induct)
  case (3 t' u ts)
  have "sublist (join (u # ts)) ((t' @ [CHR '','']) @ join (u # ts))" by (rule sublist_append_leftI)
  then have "sublist (join (u # ts)) (join (t' # u # ts))" by simp
  then show ?case using 3 using sublist_order.order_trans by fastforce
qed auto

definition relationships :: "string list" where
  "relationships = [''dependent'', ''evidence_related'', ''source_related'', ''target'']"

lemma sorted_relationships: "sorted relationships" "distinct relationships"
  unfolding relationships_def by code_simp+

lemma sorted_set_relationships:
  assumes "set xs \<subseteq> set relationships"
  shows "sorted_set xs = filter (\<lambda>r. r \<in> set xs) relationships"
  unfolding sorted_set_def
  by (rule sorted_distinct_set_unique) (use assms sorted_relationships in \<open>auto intro: sorted_wrt_filter\<close>)

lemma dependent_iff:
  assumes "set xs \<subseteq> set relationships"
  shows "contains_text ''dependent'' (join (sorted_set xs)) \<longleftrightarrow> ''dependent'' \<in> set xs"
proof
  show "contains_text ''dependent'' (join (sorted_set xs))" if "''dependent'' \<in> set xs"
    unfolding contains_text_def by (rule in_join) (use that in simp)
  show "''dependent'' \<in> set xs" if c: "contains_text ''dependent'' (join (sorted_set xs))"
  proof (rule ccontr)
    assume n: "''dependent'' \<notin> set xs"
    show False using c n unfolding sorted_set_relationships[OF assms] contains_text_def relationships_def
      by (simp add: sublist_code prefix_code split: if_splits)
  qed
qed

lemma event_relationships: "e \<in> set (impact_events mods views target entity) \<Longrightarrow> fst (snd e) \<in> set relationships"
  by (auto simp: impact_events_def relationships_def split: option.splits if_splits)

lemma dependent_event:
  "(c, ''dependent'', s) \<in> set (impact_events mods views target entity) \<longleftrightarrow>
     s = ''module_registry.dependencies'' \<and> (\<exists>md\<in>set mods. md_id md = c \<and> entity \<in> set (md_dependencies md))"
  by (auto simp: impact_events_def split: option.splits if_splits)

lemma impact_components:
  "set (List.map af_component (compute_impact mods views target entity)) =
     {entity} \<union> {md_id md | md. md \<in> set mods \<and> entity \<in> set (md_dependencies md)} \<union>
     {gv_component v | v. v \<in> set views \<and> gv_component v \<in> {entity, target}}"
  by (auto simp: compute_impact_def Let_def impact_events_def split: option.splits if_splits)

lemma fan_out:
  "(\<exists>a\<in>set (compute_impact mods views target entity). contains_text ''dependent'' (af_relationship a)) \<longleftrightarrow>
     (\<exists>md\<in>set mods. entity \<in> set (md_dependencies md))"
proof -
  let ?es = "impact_events mods views target entity"
  have rel: "contains_text ''dependent'' (join (relations_of c ?es)) \<longleftrightarrow> (\<exists>s. (c, ''dependent'', s) \<in> set ?es)" for c
  proof -
    have "set (List.map (fst \<circ> snd) (filter (\<lambda>e. fst e = c) ?es)) \<subseteq> set relationships"
      using event_relationships by auto
    from dependent_iff[OF this] show ?thesis unfolding relations_of_def by (force simp: image_iff)
  qed
  have comps: "(\<exists>a\<in>set (compute_impact mods views target entity). contains_text ''dependent'' (af_relationship a)) \<longleftrightarrow>
      (\<exists>c\<in>fst ` set ?es. contains_text ''dependent'' (join (relations_of c ?es)))"
    by (simp add: compute_impact_def Let_def)
  have "(\<exists>c\<in>fst ` set ?es. \<exists>s. (c, ''dependent'', s) \<in> set ?es) \<longleftrightarrow> (\<exists>c s. (c, ''dependent'', s) \<in> set ?es)"
    by force
  also have "\<dots> \<longleftrightarrow> (\<exists>md\<in>set mods. entity \<in> set (md_dependencies md))"
    unfolding dependent_event by blast
  finally show ?thesis unfolding comps rel .
qed

lemma views_authorizations:
  assumes "c \<noteq> []"
  shows "(\<exists>v\<in>set (get_governed_outcomes order None st). gv_component v = c) \<longleftrightarrow>
     (\<exists>a x. find_last_by auth_action_id a (mem (g_auths st)) = Some x \<and> auth_target x = c)"
proof
  show "\<exists>a x. find_last_by auth_action_id a (mem (g_auths st)) = Some x \<and> auth_target x = c"
    if "\<exists>v\<in>set (get_governed_outcomes order None st). gv_component v = c"
    using that assms by (auto simp: get_governed_outcomes_def view_authorization split: option.splits)
  show "\<exists>v\<in>set (get_governed_outcomes order None st). gv_component v = c"
    if h: "\<exists>a x. find_last_by auth_action_id a (mem (g_auths st)) = Some x \<and> auth_target x = c"
  proof -
    obtain a x where x: "find_last_by auth_action_id a (mem (g_auths st)) = Some x" "auth_target x = c" using h by blast
    have "a \<in> set (governed_actions st)" using find_last_by_Some[OF x(1)] by (auto simp: governed_actions_def)
    then have "governed_view order st a \<in> set (get_governed_outcomes order None st)" by (simp add: get_governed_outcomes_def)
    moreover have "gv_component (governed_view order st a) = c" using x by (simp add: view_authorization)
    ultimately show ?thesis by blast
  qed
qed

section \<open>The risk rule\<close>

text \<open>The facts the rule is about, over registry, stores and memory.\<close>

definition under_governance :: "'w home \<Rightarrow> string set \<Rightarrow> bool" where
  "under_governance h cs \<longleftrightarrow> (\<exists>a x. find_last_by auth_action_id a (mem (g_auths (hm_gov h))) = Some x \<and> auth_target x \<in> cs)"

definition has_failed :: "string \<Rightarrow> 'w home \<Rightarrow> bool" where
  "has_failed c h \<longleftrightarrow> get_previous_failures c h \<noteq> []"

definition is_critical :: "string \<Rightarrow> bool" where
  "is_critical c \<longleftrightarrow> (\<exists>cx. get_component_context c = Some cx \<and> cx_criticality cx = ''high'')"

definition is_needed :: "platform_module list \<Rightarrow> string \<Rightarrow> bool" where
  "is_needed mods c \<longleftrightarrow> (\<exists>md\<in>set mods. c \<in> set (md_dependencies md))"

lemma governed_views:
  assumes "entity \<noteq> []" and "target \<noteq> []"
  shows "(\<exists>v\<in>set (get_governed_outcomes order None (hm_gov h)). gv_component v \<in> {entity, target}) \<longleftrightarrow>
     under_governance h {entity, target}"
  using views_authorizations[OF assms(1), of order "hm_gov h"] views_authorizations[OF assms(2), of order "hm_gov h"]
  unfolding under_governance_def by blast

lemma risk_rule:
  assumes "entity \<noteq> []" and "target \<noteq> []" and "views = get_governed_outcomes order None (hm_gov h)"
  shows "risk_level (gather_inputs mods views h target entity (compute_impact mods views target entity)) =
     (if has_failed entity h \<and> (under_governance h {entity, target} \<or> is_critical entity) then 2
      else if has_failed entity h \<or> under_governance h {entity, target} \<or> is_critical entity \<or>
        module_dependencies mods entity = [] \<or> is_needed mods entity then 1 else 0)"
proof -
  let ?i = "gather_inputs mods views h target entity (compute_impact mods views target entity)"
  have g: "ri_governed ?i \<longleftrightarrow> under_governance h {entity, target}"
    using governed_views[OF assms(1,2), of order h] assms(3) by (auto simp: gather_inputs_def Let_def filter_empty_conv)
  have f: "0 < ri_failures ?i \<longleftrightarrow> has_failed entity h"
    using assms(1) by (simp add: gather_inputs_def Let_def entity_or_def has_failed_def)
  have u: "ri_unknown ?i \<longleftrightarrow> module_dependencies mods entity = []" by (simp add: gather_inputs_def Let_def)
  have c: "ri_criticality ?i = ''high'' \<longleftrightarrow> is_critical entity"
    using assms(1) by (auto simp: gather_inputs_def Let_def entity_or_def is_critical_def split: option.split)
  have n: "0 < ri_fan_out ?i \<longleftrightarrow> is_needed mods entity"
    using fan_out[of mods views target entity]
    by (simp add: gather_inputs_def Let_def is_needed_def filter_empty_conv)
  show ?thesis unfolding risk_level_def Let_def g f u c n by simp
qed

text \<open>C29: An assessment of a known component names everything it affects and nothing else: the component, the
  modules that declare it as a dependency, and a target that has governed history. Its risk is high exactly when
  there are prior failures and the component is governed or critical, and low exactly when nothing speaks
  against it, declared dependencies included. Each affected component and each factor has an evidence item.\<close>

theorem change_risk_follows_rule:
  assumes "resolve_component mods target = (Resolved, Some entity)" and "entity \<noteq> []" and "target \<noteq> []"
    and "assess_engineering_change mods order target change h = A"
  shows "set (List.map af_component (ca_affected A)) =
       {entity} \<union> {md_id md | md. md \<in> set mods \<and> entity \<in> set (md_dependencies md)} \<union>
       {c \<in> {entity, target}. under_governance h {c}} \<and>
     (\<exists>risk. ca_risk A = Some risk \<and> cr_classification risk =
        (if has_failed entity h \<and> (under_governance h {entity, target} \<or> is_critical entity) then ''high''
         else if has_failed entity h \<or> under_governance h {entity, target} \<or> is_critical entity \<or>
           module_dependencies mods entity = [] \<or> is_needed mods entity then ''medium'' else ''low'') \<and>
        length (ca_evidence A) = length (ca_affected A) + length (cr_factors risk) + 3)"
proof -
  define views where "views = get_governed_outcomes order None (hm_gov h)"
  have u: "under_governance h {c} \<longleftrightarrow> (\<exists>v\<in>set views. gv_component v = c)" if "c \<in> {entity, target}" for c
    using that views_authorizations[of c order "hm_gov h"] assms(2,3) by (auto simp: under_governance_def views_def)
  have comps: "{gv_component v | v. v \<in> set views \<and> gv_component v \<in> {entity, target}} = {c \<in> {entity, target}. under_governance h {c}}"
    by (rule set_eqI) (use u in auto)
  have A: "ca_affected A = compute_impact mods views target entity"
    "ca_risk A = Some (compute_risk mods views h target entity (ca_affected A))"
    "ca_evidence A = build_evidence entity (ca_affected A) (the (ca_risk A)) (the (ca_recommendation A))"
    using assms(1,4) by (auto simp: assess_engineering_change_def Let_def views_def)
  have "set (List.map af_component (ca_affected A)) =
       {entity} \<union> {md_id md | md. md \<in> set mods \<and> entity \<in> set (md_dependencies md)} \<union>
       {c \<in> {entity, target}. under_governance h {c}}"
    unfolding A(1) impact_components comps ..
  moreover have "cr_classification (compute_risk mods views h target entity (ca_affected A)) =
        (if has_failed entity h \<and> (under_governance h {entity, target} \<or> is_critical entity) then ''high''
         else if has_failed entity h \<or> under_governance h {entity, target} \<or> is_critical entity \<or>
           module_dependencies mods entity = [] \<or> is_needed mods entity then ''medium'' else ''low'')"
    unfolding A(1) compute_risk_def Let_def by (simp add: risk_rule[OF assms(2,3) views_def] classification_of_def)
  moreover have "length (ca_evidence A) = length (ca_affected A) + length (cr_factors (the (ca_risk A))) + 3"
    unfolding A(3) by (simp add: build_evidence_def)
  ultimately show ?thesis using A(2) by (intro conjI exI[of _ "compute_risk mods views h target entity (ca_affected A)"]) simp_all
qed

definition sample_modules :: "platform_module list" where
  "sample_modules = [\<lparr>md_id = ''web'', md_container = Some ''web-1'', md_dependencies = [''db'']\<rparr>,
     \<lparr>md_id = ''db'', md_container = None, md_dependencies = [''disk'']\<rparr>]"

lemma change_risk_follows_rule_witness:
  "\<exists>A risk. assess_engineering_change sample_modules (\<lambda>ks. ks) ''db'' ''restart'' sample_home = A \<and>
     set (List.map af_component (ca_affected A)) = {''db'', ''web''} \<and> ca_risk A = Some risk \<and> cr_classification risk = ''medium''"
proof -
  have r: "resolve_component sample_modules ''db'' = (Resolved, Some ''db'')"
    by (simp add: resolve_component_def candidate_entities_def sample_modules_def module_matches_def get_component_context_def)
  have g: "\<not> under_governance sample_home {c}" "\<not> under_governance sample_home {c, d}" for c d
    by (simp_all add: under_governance_def find_last_by_def find_last_def sample_home_def sample_defs empty_store_def)
  have n: "is_needed sample_modules ''db''" "\<not> is_critical ''db''" "\<not> has_failed ''db'' sample_home"
    by (simp_all add: is_needed_def sample_modules_def is_critical_def get_component_context_def has_failed_def
        get_previous_failures_def get_health_history_def get_recent_events_def get_history_def sample_home_def or_str_def)
  have m: "{md_id md | md. md \<in> set sample_modules \<and> ''db'' \<in> set (md_dependencies md)} = {''web''}"
    by (auto simp: sample_modules_def intro!: exI[of _ "\<lparr>md_id = ''web'', md_container = Some ''web-1'', md_dependencies = [''db'']\<rparr>"])
  show ?thesis using change_risk_follows_rule[OF r _ _ refl, of "\<lambda>ks. ks" "''restart''" sample_home] g n m by auto
qed

end
