(* ===== verification/Reasoning_Properties.thy ===== *)
theory Reasoning_Properties
  imports Reasoning Platform_Runs Agent_Sample Evidence_Properties
begin

text \<open>
  What the explainer shows: an answer of the model is stored and shown as an explanation only when
  every claim in it cites records of the bundle the model was given; an attempt leaves one row and
  nothing else.
\<close>

section \<open>The gate\<close>

text \<open>What a stored explanation rests on.\<close>

definition grounded_claim :: "string list \<Rightarrow> claim \<Rightarrow> bool" where
  "grounded_claim refs c \<longleftrightarrow> cm_text c \<noteq> [] \<and> length (cm_text c) \<le> 400 \<and> cm_evidence c \<noteq> [] \<and>
     distinct (cm_evidence c) \<and> set (cm_evidence c) \<subseteq> set refs"

definition grounded :: "string list \<Rightarrow> validated \<Rightarrow> bool" where
  "grounded refs v \<longleftrightarrow>
     va_claims v \<noteq> [] \<and> length (va_claims v) \<le> 10 \<and> (\<forall>c\<in>set (va_claims v). grounded_claim refs c) \<and>
     va_summary v \<noteq> [] \<and> length (va_summary v) \<le> 600 \<and> 0 \<le> va_confidence v \<and> va_confidence v \<le> 100 \<and>
     va_pattern v \<in> {''one_off'', ''recurring'', ''unknown''} \<and>
     (va_pattern v = ''recurring'' \<longrightarrow>
        2 \<le> card {r. (\<exists>c\<in>set (va_claims v). r \<in> set (cm_evidence c)) \<and> take 8 r = ''failure#''}) \<and>
     (\<forall>target mechanism reason. va_action v = Some (target, mechanism, reason) \<longrightarrow>
        target \<in> fst ` set homelab_dependencies \<and> (\<exists>t. mechanism = type_value t) \<and> length reason \<le> 300)"

lemma add_new_set: "set (add_new xs ys) = set xs \<union> set ys \<and> (distinct ys \<longrightarrow> distinct (add_new xs ys))"
  unfolding add_new_def by (induction xs arbitrary: ys) auto

lemma strip_text_length: "strip_text t \<noteq> [] \<Longrightarrow> take (Suc n) (strip_text t) \<noteq> []"
  by simp

lemma set_texts: "set (List.map_filter text_of rs) = {x. PStr x \<in> set rs}"
proof (induction rs)
  case (Cons r rs)
  then show ?case by (cases r) (auto simp: List.map_filter_simps text_of_def)
qed (simp add: List.map_filter_simps)

lemma keep_claim_grounded:
  assumes "keep_claim refs v = Some c"
  shows "grounded_claim refs c"
proof -
  obtain kvs where v: "v = PDict kvs" using assms by (cases v) (simp_all add: keep_claim_def)
  obtain t where t: "map_of kvs ''text'' = Some (PStr t)"
    using assms by (auto simp: v keep_claim_def split: option.splits pyval.splits)
  obtain rs where rs: "map_of kvs ''evidence'' = Some (PList rs)"
    using assms by (auto simp: v t keep_claim_def split: option.splits pyval.splits)
  have c: "strip_text t \<noteq> []" "rs \<noteq> []" "list_all (\<lambda>r. r \<in> PStr ` set refs) rs"
    "c = \<lparr>cm_text = take 400 (strip_text t), cm_evidence = add_new (List.map_filter text_of rs) []\<rparr>"
    using assms by (auto simp: v t rs keep_claim_def split: if_splits)
  obtain x where "PStr x \<in> set rs" using c(2,3) by (cases rs) auto
  moreover have "{x. PStr x \<in> set rs} \<subseteq> set refs" using c(3) by (auto simp: list_all_iff)
  ultimately have "set (cm_evidence c) \<subseteq> set refs" "cm_evidence c \<noteq> []" "distinct (cm_evidence c)"
    using add_new_set[of "List.map_filter text_of rs" "[]"] by (auto simp: c(4) set_texts simp flip: set_empty)
  then show ?thesis using c(1) by (simp add: grounded_claim_def c(4))
qed

lemma hashed_in_Inr: "hashed_in rt v xs = Inr b \<Longrightarrow> b \<longleftrightarrow> (\<exists>s\<in>set xs. v = PStr s)"
  by (auto simp: hashed_in_def split: if_splits)

lemma clean_action_grounded:
  assumes "clean_action rt raw = Inr (Some (target, mechanism, reason), why)"
  shows "target \<in> fst ` set homelab_dependencies \<and> (\<exists>t. mechanism = type_value t) \<and> length reason \<le> 300"
proof -
  obtain kvs where v: "raw = PDict kvs" using assms by (cases raw) (simp_all add: clean_action_def)
  let ?target = "hashed_in rt (entry kvs ''target'') (List.map fst homelab_dependencies)"
  let ?mechanism = "hashed_in rt (entry kvs ''mechanism'') (List.map type_value all_action_types)"
  obtain x where x: "?target = Inr x" using assms by (cases ?target) (auto simp: v clean_action_def and_then_def)
  have x1: x using assms by (cases x) (simp_all add: v clean_action_def and_then_def x)
  obtain y where y: "?mechanism = Inr y" using assms x1 by (cases ?mechanism) (auto simp: v clean_action_def and_then_def x)
  have y1: y using assms x1 by (cases y) (simp_all add: v clean_action_def and_then_def x y)
  have k: "?target = Inr True" "?mechanism = Inr True" using x x1 y y1 by simp_all
  have "target = py_str (entry kvs ''target'') \<and> mechanism = py_str (entry kvs ''mechanism'') \<and> length reason \<le> 300"
    using assms by (auto simp: v clean_action_def and_then_def k Let_def)
  then have k3: "target = py_str (entry kvs ''target'')" "mechanism = py_str (entry kvs ''mechanism'')" "length reason \<le> 300" by simp_all
  obtain w where w: "w \<in> set (List.map fst homelab_dependencies)" "entry kvs ''target'' = PStr w" using hashed_in_Inr[OF k(1)] by blast
  obtain m where m: "m \<in> set (List.map type_value all_action_types)" "entry kvs ''mechanism'' = PStr m" using hashed_in_Inr[OF k(2)] by blast
  show ?thesis using w m k3 by auto
qed

lemma cited_failures_card:
  "length (cited_failures cs) = card {r. (\<exists>c\<in>set cs. r \<in> set (cm_evidence c)) \<and> take 8 r = ''failure#''}"
proof -
  have d: "distinct (cited_failures cs)" unfolding cited_failures_def by (rule distinct_remdups)
  have s: "set (cited_failures cs) = {r. (\<exists>c\<in>set cs. r \<in> set (cm_evidence c)) \<and> take 8 r = ''failure#''}"
    unfolding cited_failures_def set_remdups set_filter set_concat set_map by blast
  show ?thesis using distinct_card[OF d] unfolding s by (rule sym)
qed

lemma settle_pattern_grounded:
  assumes "settle_pattern rt kept v = Inr (pattern, ns)"
  shows "pattern \<in> {''one_off'', ''recurring'', ''unknown''} \<and> (pattern = ''recurring'' \<longrightarrow> 2 \<le> length (cited_failures kept))"
  using assms by (auto simp: settle_pattern_def and_then_eq_Inr dest!: hashed_in_Inr split: if_splits)

lemma validate_parts:
  assumes "validate rt refs raw = Inr v"
  obtains kvs claims summary ns note' where "entry kvs ''confidence'' = PInt (va_confidence v)"
    "0 \<le> va_confidence v" "va_confidence v \<le> 100" "strip_text summary \<noteq> []" "va_summary v = take 600 (strip_text summary)"
    "va_claims v = List.map_filter (keep_claim refs) (take 10 claims)" "va_claims v \<noteq> []"
    "settle_pattern rt (va_claims v) (entry kvs ''pattern'') = Inr (va_pattern v, ns)"
    "clean_action rt (entry kvs ''suggested_action'') = Inr (va_action v, note')"
proof -
  obtain kvs where x: "extract_json rt raw = Inr kvs" using assms by (cases "extract_json rt raw") (simp_all add: validate_def and_then_def)
  note v = assms[unfolded validate_def and_then_def x sum.case]
  obtain conf where conf: "entry kvs ''confidence'' = PInt conf" using v by (cases "entry kvs ''confidence''") simp_all
  have range: "0 \<le> conf" "conf \<le> 100" using v by (auto simp: conf split: if_splits)
  obtain claims where claims: "entry kvs ''claims'' = PList claims"
    using v range by (cases "entry kvs ''claims''") (simp_all add: conf)
  let ?kept = "List.map_filter (keep_claim refs) (take 10 claims)"
  have kept: "?kept \<noteq> []" using v range by (auto simp: conf claims Let_def)
  obtain summary where summary: "entry kvs ''summary'' = PStr summary"
    using v range kept by (cases "entry kvs ''summary''") (simp_all add: conf claims)
  have s: "strip_text summary \<noteq> []" using v range kept by (auto simp: conf claims summary Let_def)
  obtain pattern ns where p: "settle_pattern rt ?kept (entry kvs ''pattern'') = Inr (pattern, ns)"
    using v range kept s by (cases "settle_pattern rt ?kept (entry kvs ''pattern'')") (auto simp: conf claims summary Let_def)
  obtain act why where a: "clean_action rt (entry kvs ''suggested_action'') = Inr (act, why)"
    using v range kept s by (cases "clean_action rt (entry kvs ''suggested_action'')") (auto simp: conf claims summary Let_def p)
  have "v = \<lparr>va_summary = take 600 (strip_text summary), va_claims = ?kept, va_pattern = pattern, va_action = act,
      va_confidence = conf, va_dropped = length claims - length ?kept, va_notes = ns @ (if truthy_str why then [the why] else [])\<rparr>"
    using v range kept s by (simp add: conf claims summary Let_def p a)
  then show ?thesis using conf range s kept p a by (intro that[of kvs summary claims ns why]) simp_all
qed

lemma validate_grounded:
  assumes "validate rt refs raw = Inr v"
  shows "grounded refs v"
proof -
  obtain kvs claims summary ns why where p: "entry kvs ''confidence'' = PInt (va_confidence v)"
    "0 \<le> va_confidence v" "va_confidence v \<le> 100" "strip_text summary \<noteq> []" "va_summary v = take 600 (strip_text summary)"
    "va_claims v = List.map_filter (keep_claim refs) (take 10 claims)" "va_claims v \<noteq> []"
    "settle_pattern rt (va_claims v) (entry kvs ''pattern'') = Inr (va_pattern v, ns)"
    "clean_action rt (entry kvs ''suggested_action'') = Inr (va_action v, why)"
    using assms by (rule validate_parts)
  have "length (va_claims v) \<le> length (take 10 claims)" unfolding p(6) List.map_filter_def by (simp only: length_map length_filter_le)
  then have "length (va_claims v) \<le> 10" by simp
  moreover have "\<forall>c\<in>set (va_claims v). grounded_claim refs c"
    unfolding p(6) List.map_filter_def using keep_claim_grounded by fastforce
  moreover have "\<forall>target mechanism reason. va_action v = Some (target, mechanism, reason) \<longrightarrow>
      target \<in> fst ` set homelab_dependencies \<and> (\<exists>t. mechanism = type_value t) \<and> length reason \<le> 300"
    using p(9) clean_action_grounded by metis
  ultimately show ?thesis
    using settle_pattern_grounded[OF p(8)] p(2-5,7) unfolding grounded_def cited_failures_card by simp
qed

text \<open>A refusal is never reported as \<open>ok\<close>.\<close>

lemma hashed_in_crash: "hashed_in rt v xs = Inl e \<Longrightarrow> e = Crashed (rt_type_error rt v)"
  by (simp add: hashed_in_def split: if_splits)

lemma extract_refused: "extract_json rt raw = Inl (Refused status detail) \<Longrightarrow> status = ''llm_parse_error''"
  by (simp add: extract_json_def Let_def split: if_splits option.splits prod.splits pyval.splits)

lemma settle_pattern_crash: "settle_pattern rt kept v = Inl e \<Longrightarrow> e \<noteq> Refused status detail"
  by (cases "hashed_in rt v [''one_off'', ''recurring'', ''unknown'']")
    (auto simp: settle_pattern_def dest: hashed_in_crash split: if_splits)

lemma clean_action_crash: "clean_action rt raw = Inl e \<Longrightarrow> e \<noteq> Refused status detail"
proof -
  assume h: "clean_action rt raw = Inl e"
  then obtain kvs where v: "raw = PDict kvs" by (cases raw) (simp_all add: clean_action_def)
  let ?target = "hashed_in rt (entry kvs ''target'') (List.map fst homelab_dependencies)"
  let ?mechanism = "hashed_in rt (entry kvs ''mechanism'') (List.map type_value all_action_types)"
  show ?thesis
  proof (cases ?target)
    case (Inl e')
    then show ?thesis using h hashed_in_crash[OF Inl] by (auto simp: v clean_action_def and_then_def)
  next
    case target: (Inr x)
    show ?thesis
    proof (cases ?mechanism)
      case (Inl e')
      then show ?thesis using h hashed_in_crash[OF Inl] by (cases x) (auto simp: v clean_action_def and_then_def target)
    next
      case (Inr y)
      then show ?thesis using h by (cases x; cases y) (simp_all add: v clean_action_def and_then_def target Let_def)
    qed
  qed
qed

lemma refused_status:
  assumes "validate rt refs raw = Inl (Refused status detail)"
  shows "status \<in> {''llm_parse_error'', ''invalid'', ''no_grounded_explanation''}"
proof (cases "extract_json rt raw")
  case (Inl e)
  then show ?thesis using assms extract_refused by (auto simp: validate_def and_then_def)
next
  case (Inr kvs)
  show ?thesis
    using assms unfolding validate_def and_then_def Inr sum.case
    by (simp add: Let_def split: pyval.splits if_splits sum.splits prod.splits)
      (use settle_pattern_crash clean_action_crash in blast)+
qed

section \<open>What is stored reads back\<close>

lemma plain_as_dict: "plain_json (as_dict v)"
proof -
  have "plain_json (claim_json c)" for c by (simp add: claim_json_def list_all_iff)
  moreover have "plain_json (action_json a)" for a by (auto simp: action_json_def split: option.splits)
  ultimately show ?thesis by (simp add: as_dict_def list_all_iff)
qed

lemma stored_explanation: "json_loads rt (dumps '', '' '': '' False (as_dict v)) = Some (as_dict v)"
proof -
  have "skip (dumps '', '' '': '' False (as_dict v)) = dumps '', '' '': '' False (as_dict v)"
    by (simp add: as_dict_def skip_def json_space_def)
  then show ?thesis using raw_decode_written[OF plain_as_dict, of rt v] by (simp add: json_loads_def skip_def)
qed

section \<open>One attempt\<close>

lemma attempt_incident [simp]:
  "er_requested (attempt rt sha client who b) = who" "er_bundle (attempt rt sha client who b) = sha (bundle_json b)"
  "er_incident (attempt rt sha client who b) = bn_incident b"
  by (auto simp: attempt_def judged_def blank_row_def Let_def split: sum.split explain_error.split)

lemma attempt_ok:
  "er_status (attempt rt sha client who b) = ''ok'' \<Longrightarrow> bn_refs b \<noteq> [] \<and>
     (\<exists>raw v. lm_generate client (build_prompt b) = Inr raw \<and> validate rt (bundle_keys b) raw = Inr v \<and>
        er_validated (attempt rt sha client who b) = Some (dumps '', '' '': '' False (as_dict v)))"
proof -
  assume ok: "er_status (attempt rt sha client who b) = ''ok''"
  have ne: "bn_refs b \<noteq> []" using ok by (auto simp: attempt_def)
  obtain raw where raw: "lm_generate client (build_prompt b) = Inr raw"
    using ok ne by (cases "lm_generate client (build_prompt b)") (simp_all add: attempt_def Let_def)
  have j: "attempt rt sha client who b = judged rt (bundle_keys b) raw ((blank_row (bn_incident b) who (sha (bundle_json b)))
      \<lparr>er_prompt := Some (sha (build_prompt b)), er_model := Some (lm_model client), er_host := Some (lm_host client),
       er_temperature := Some (lm_temperature client)\<rparr>)"
    using ne raw by (simp add: attempt_def Let_def)
  obtain v where v: "validate rt (bundle_keys b) raw = Inr v"
  proof (cases "validate rt (bundle_keys b) raw")
    case (Inl e)
    then show ?thesis using ok[unfolded j] refused_status[of rt "bundle_keys b" raw]
      by (cases e) (auto simp: judged_def)
  qed
  show ?thesis using ne raw v by (simp add: j judged_def)
qed

lemma attempt_refused:
  "er_status (attempt rt sha client who b) \<noteq> ''ok'' \<Longrightarrow> er_validated (attempt rt sha client who b) = None"
  by (auto simp: attempt_def judged_def blank_row_def Let_def split: sum.splits explain_error.splits if_splits)

lemma dumps_nonempty: "dumps sep colon by_key (as_dict v) \<noteq> []"
  by (simp add: as_dict_def)

lemma bundle_agent:
  "build_bundle env D incident a p e s = (b, s1) \<Longrightarrow> ag_home s1 = ag_home s \<and> ag_grants s1 = ag_grants s \<and> bn_incident b = incident"
  by (auto simp: build_bundle_def Let_def split_beta)

lemma explain_effect:
  assumes "build_bundle (dp_env D) (dp_dumper D) incident a p e (agent_of (rs_server S)) = (b, ag)"
    and "explain rt D client incident a p e who S = ((row, x), S')"
  shows "\<exists>k raw detail. row = (attempt rt (g_sha (sv_gov (rs_server S))) client who b)
      \<lparr>er_id := k, er_created := g_now (sv_gov (rs_server S)), er_raw := raw, er_detail := detail\<rparr>"
    and "(row, x) = row_view rt row" and "rs_rows S' = rs_rows S @ [row]"
    and "lp_home (sv_loop (rs_server S')) = with_gov ((sv_gov (rs_server S))\<lparr>g_next := Suc (g_next (sv_gov (rs_server S)))\<rparr>)
       (lp_home (sv_loop (rs_server S)))" and "sv_grants (rs_server S') = sv_grants (rs_server S)"
proof -
  have h: "ag_home ag = lp_home (sv_loop (rs_server S))" "ag_grants ag = sv_grants (rs_server S)"
    using bundle_agent[OF assms(1)] by (simp_all add: agent_of_def)
  let ?r = "attempt rt (g_sha (ag_gov ag)) client who b"
  let ?S = "S\<lparr>rs_server := with_agent ag (rs_server S)\<rparr>"
  have e: "store_append rt ?r ?S = ((row, x), S')" using assms by (simp add: explain_def)
  have a: "agent_of (rs_server ?S) = ag" by (simp add: agent_of_def with_agent_def)
  have r: "row = ?r\<lparr>er_id := g_uuid (ag_gov ag) (g_next (ag_gov ag)), er_created := ag_now ag,
      er_raw := map_option (take 20000) (er_raw ?r), er_detail := take 500 (er_detail ?r)\<rparr>"
    using e unfolding store_append_def Let_def a fresh_id_def by (auto simp: row_view_def)
  then show "\<exists>k raw detail. row = (attempt rt (g_sha (sv_gov (rs_server S))) client who b)
      \<lparr>er_id := k, er_created := g_now (sv_gov (rs_server S)), er_raw := raw, er_detail := detail\<rparr>"
    unfolding h by blast
  show "(row, x) = row_view rt row" "rs_rows S' = rs_rows S @ [row]"
    using e r unfolding store_append_def Let_def a fresh_id_def by (auto simp: row_view_def)
  show "lp_home (sv_loop (rs_server S')) = with_gov ((sv_gov (rs_server S))\<lparr>g_next := Suc (g_next (sv_gov (rs_server S)))\<rparr>)
       (lp_home (sv_loop (rs_server S)))" "sv_grants (rs_server S') = sv_grants (rs_server S)"
    using e h unfolding store_append_def Let_def a fresh_id_def by (auto simp: with_agent_def agent_with_gov_def)
qed

lemma explain_answer:
  assumes "build_bundle (dp_env D) (dp_dumper D) incident a p e (agent_of (rs_server S)) = (b, ag)"
    and "explain rt D client incident a p e who S = ((row, x), S')"
  shows "er_requested row = who \<and> er_incident row = incident \<and> er_bundle row = g_sha (sv_gov (rs_server S)) (bundle_json b) \<and>
     (x \<noteq> None \<longleftrightarrow> er_status row = ''ok'') \<and>
     (\<forall>j. x = Some j \<longrightarrow> bn_refs b \<noteq> [] \<and> (\<exists>raw v. lm_generate client (build_prompt b) = Inr raw \<and>
        validate rt (bundle_keys b) raw = Inr v \<and> j = as_dict v \<and> grounded (bundle_keys b) v))"
proof -
  let ?r = "attempt rt (g_sha (sv_gov (rs_server S))) client who b"
  obtain k raw detail where row: "row = ?r\<lparr>er_id := k, er_created := g_now (sv_gov (rs_server S)), er_raw := raw, er_detail := detail\<rparr>"
    using explain_effect(1)[OF assms] by blast
  have x: "x = (if truthy_str (er_validated ?r) then json_loads rt (the (er_validated ?r)) else None)"
    using explain_effect(2)[OF assms] by (simp add: row_view_def row)
  show ?thesis
  proof (cases "er_status ?r = ''ok''")
    case True
    then obtain v where v: "bn_refs b \<noteq> []" "\<exists>raw. lm_generate client (build_prompt b) = Inr raw \<and> validate rt (bundle_keys b) raw = Inr v"
      "er_validated ?r = Some (dumps '', '' '': '' False (as_dict v))"
      using attempt_ok by meson
    have "x = Some (as_dict v)" using x v(3) dumps_nonempty by (simp add: stored_explanation)
    then show ?thesis using True v(1,2) validate_grounded bundle_agent[OF assms(1)] by (fastforce simp: row)
  next
    case False
    then show ?thesis using attempt_refused[OF False] bundle_agent[OF assms(1)] by (simp add: row x)
  qed
qed

section \<open>The route\<close>

text \<open>C30: An answered request for an explanation comes from an authenticated operator and adds exactly one
  attempt, made with the bundle of the named incident; of the platform only the identifier supply, the hit
  counters and expired provenance change. The answer holds an explanation exactly when the attempt is
  stored as \<open>ok\<close>; then the bundle was not empty, the model's answer to the prompt of that bundle was
  validated, what is stored reads back as it was validated, and it is grounded: every claim cites records
  of the bundle, \<open>recurring\<close> cites two failures, and an advised action is a known one on a known component.\<close>

theorem explanations_are_grounded:
  assumes "handle_reasoning rt D client c (PostExplain action approval execution) S = (Explained (row, x), S')"
  shows "\<exists>who kind named b ag.
     resolve_operator (dp_credential D) (dp_env D) (cr_authorization c) (cr_api_key c) = Operator who \<and>
     given_ids action approval execution = [(kind, named)] \<and>
     build_bundle (dp_env D) (dp_dumper D) (kind @ '':'' @ named) (or_str action None) (or_str approval None) (or_str execution None)
       (agent_of (rs_server S)) = (b, ag) \<and>
     er_requested row = who \<and> er_incident row = kind @ '':'' @ named \<and>
     er_bundle row = g_sha (sv_gov (rs_server S)) (bundle_json b) \<and> rs_rows S' = rs_rows S @ [row] \<and>
     lp_home (sv_loop (rs_server S')) = with_gov ((sv_gov (rs_server S))\<lparr>g_next := Suc (g_next (sv_gov (rs_server S)))\<rparr>)
       (lp_home (sv_loop (rs_server S))) \<and> sv_grants (rs_server S') = sv_grants (rs_server S) \<and>
     (x \<noteq> None \<longleftrightarrow> er_status row = ''ok'') \<and>
     (\<forall>j. x = Some j \<longrightarrow> bn_refs b \<noteq> [] \<and> (\<exists>raw v. lm_generate client (build_prompt b) = Inr raw \<and>
        validate rt (bundle_keys b) raw = Inr v \<and> j = as_dict v \<and> grounded (bundle_keys b) v))"
proof -
  obtain who where who: "resolve_operator (dp_credential D) (dp_env D) (cr_authorization c) (cr_api_key c) = Operator who"
    and r: "explain_incident rt D client action approval execution who S = (Explained (row, x), S')"
    using assms by (auto simp: handle_reasoning_def split: auth_result.splits)
  obtain kind named where k: "given_ids action approval execution = [(kind, named)]"
    using r by (auto simp: explain_incident_def Let_def split: list.splits prod.splits if_splits)
  obtain hits where e: "explain rt D client (kind @ '':'' @ named) (or_str action None) (or_str approval None) (or_str execution None) who
      (S\<lparr>rs_server := (rs_server S)\<lparr>sv_hits := hits\<rparr>\<rparr>) = ((row, x), S')"
    using r by (auto simp: explain_incident_def k Let_def split: prod.splits if_splits)
  obtain b ag where b: "build_bundle (dp_env D) (dp_dumper D) (kind @ '':'' @ named) (or_str action None) (or_str approval None)
      (or_str execution None) (agent_of (rs_server S)) = (b, ag)" by fastforce
  have b': "build_bundle (dp_env D) (dp_dumper D) (kind @ '':'' @ named) (or_str action None) (or_str approval None)
      (or_str execution None) (agent_of (rs_server (S\<lparr>rs_server := (rs_server S)\<lparr>sv_hits := hits\<rparr>\<rparr>))) = (b, ag)"
    using b by (simp add: agent_of_def)
  show ?thesis
    using who k b explain_answer[OF b' e] explain_effect(3-5)[OF b' e]
    by (intro exI[of _ who] exI[of _ kind] exI[of _ named] exI[of _ b] exI[of _ ag]) simp
qed

text \<open>A server with one audit record, and a model that cites it.\<close>

definition sample_audited :: "nat server" where
  "sample_audited = sample_server\<lparr>sv_loop := sample_loop\<lparr>lp_home := with_gov (sample_gov\<lparr>g_audits := (g_audits sample_gov)\<lparr>mem :=
     [\<lparr>au_execution_id = ''x'', au_action_id = ''a'', au_authorization_id = ''z'', au_adapter = ''simulation'', au_status = ''executed'',
       au_message = [], au_risk = ''low'', au_prov = absent, au_created_at = 0\<rparr>]\<rparr>\<rparr>) sample_home\<rparr>\<rparr>"

definition sample_runtime :: py_runtime where
  "sample_runtime = \<lparr>rt_char = (\<lambda>n. CHR ''?''), rt_float = (\<lambda>t. t), rt_json_error = (\<lambda>t. []), rt_type_error = (\<lambda>v. [])\<rparr>"

definition sample_reply :: params where
  "sample_reply = [(''summary'', PStr ''s''), (''claims'', PList [PDict [(''text'', PStr ''t''), (''evidence'', PList [PStr ''audit#0''])]]),
     (''pattern'', PStr ''unknown''), (''suggested_action'', PNone), (''confidence'', PInt 90)]"

definition sample_llm :: llm where
  "sample_llm = \<lparr>lm_model = ''m'', lm_host = ''h'', lm_temperature = ''0.1'',
     lm_generate = (\<lambda>p. Inr (dumps '', '' '': '' False (PDict sample_reply)))\<rparr>"

lemma sample_reply_validates: "''audit#0'' \<in> set refs \<Longrightarrow> \<exists>v. validate rt refs (dumps '', '' '': '' False (PDict sample_reply)) = Inr v"
proof -
  assume r: "''audit#0'' \<in> set refs"
  have "plain_json (PDict sample_reply)" by (simp add: sample_reply_def)
  from raw_decode_written[OF this] have x: "extract_json rt (dumps '', '' '': '' False (PDict sample_reply)) = Inr sample_reply"
    by (simp add: extract_json_def)
  have s: "strip_text ''t'' = ''t''" "strip_text ''s'' = ''s''" by code_simp+
  have "keep_claim refs (PDict [(''text'', PStr ''t''), (''evidence'', PList [PStr ''audit#0''])]) =
      Some \<lparr>cm_text = ''t'', cm_evidence = [''audit#0'']\<rparr>"
    using r by (simp add: keep_claim_def s List.map_filter_simps text_of_def add_new_def)
  then show ?thesis
    unfolding validate_def x and_then_def sum.case
    by (simp add: sample_reply_def entry_def List.map_filter_simps s settle_pattern_def hashed_in_def and_then_def clean_action_def)
qed

lemma audit_ref:
  assumes "build_bundle env D incident a p e s = (b, s1)" and "ch_audits (fst (evidence_chain a p e s)) \<noteq> []"
  shows "''audit#0'' \<in> set (bundle_keys b)"
proof -
  obtain u us where u: "ch_audits (fst (evidence_chain a p e s)) = u # us" using assms(2) by (meson list.exhaust)
  have n: "''audit#0'' = ''audit'' @ ''#'' @ show_nat 0" by code_simp
  have "fst ` set (numbered m ''audit'' (List.map (dm_audit D) (u # us))) \<subseteq> set (bundle_keys b)" if "m = nat (field_max_chars env)" for m
    using assms(1) that by (auto simp: build_bundle_def bundle_keys_def chain_refs_def Let_def split_beta u)
  then show ?thesis unfolding n by (simp add: numbered_def)
qed

lemma explanations_are_grounded_witness:
  "\<exists>row j S' v b. handle_reasoning sample_runtime (sample_deployment\<lparr>dp_env := (dp_env sample_deployment)(''RMT_REASONING_ENABLED'' \<mapsto> ''1'')\<rparr>)
       sample_llm sample_credentials (PostExplain (Some ''a'') None None) \<lparr>rs_server = sample_audited, rs_rows = []\<rparr> =
     (Explained (row, Some j), S') \<and> er_status row = ''ok'' \<and> rs_rows S' = [row] \<and> j = as_dict v \<and> grounded (bundle_keys b) v"
proof -
  let ?D = "sample_deployment\<lparr>dp_env := (dp_env sample_deployment)(''RMT_REASONING_ENABLED'' \<mapsto> ''1'')\<rparr>"
  let ?S = "\<lparr>rs_server = sample_audited, rs_rows = []\<rparr> :: nat reasoner"
  have op: "resolve_operator (dp_credential ?D) (dp_env ?D) (cr_authorization sample_credentials) (cr_api_key sample_credentials) = Operator ''alice''"
    unfolding sample_deployment_def sample_credentials_def deployment.simps credentials.simps by code_simp
  have en: "reasoning_enabled (dp_env ?D)" unfolding sample_deployment_def deployment.simps by code_simp
  have ids: "given_ids (Some ''a'') None None = [(''action_id'', ''a'')]" by code_simp
  have ag: "ratelimit_agent_per_min (dp_env ?D) = 20" unfolding sample_deployment_def deployment.simps by code_simp
  obtain b a1 where b: "build_bundle (dp_env ?D) (dp_dumper ?D) ''action_id:a'' (Some ''a'') None None (agent_of (rs_server ?S)) = (b, a1)"
    by fastforce
  have au: "ch_audits (fst (evidence_chain (Some ''a'') None None (agent_of (rs_server ?S)))) \<noteq> []"
    by (simp add: chain_of_action(5) agent_of_def sample_audited_def)
  have k: "''audit#0'' \<in> set (bundle_keys b)" by (rule audit_ref[OF b]) (use au in simp)
  then obtain v where v: "validate sample_runtime (bundle_keys b) (dumps '', '' '': '' False (PDict sample_reply)) = Inr v"
    using sample_reply_validates by blast
  have ne: "bn_refs b \<noteq> []" using k by (auto simp: bundle_keys_def)
  have status: "er_status (attempt sample_runtime h sample_llm ''alice'' b) = ''ok''" for h
    using ne by (simp add: attempt_def judged_def sample_llm_def v Let_def del: dumps.simps)
  have rate: "fst (rate_limit (dp_env ?D) ''alice'' ''reasoning'' 20 now (\<lambda>_. None)) = False" for now
    by (simp add: rate_limit_def rate_check_def Let_def)
  let ?r = "rate_limit (dp_env ?D) ''alice'' ''reasoning'' 20 (op_mono (hm_ops (lp_home (sv_loop (sample_audited))))) (\<lambda>_. None)"
  let ?S1 = "?S\<lparr>rs_server := (sample_audited)\<lparr>sv_hits := snd ?r\<rparr>\<rparr>"
  obtain row x S' where e: "explain sample_runtime ?D sample_llm ''action_id:a'' (Some ''a'') None None ''alice'' ?S1 = ((row, x), S')"
    by (metis surj_pair)
  have h: "sv_hits (sample_audited) = (\<lambda>_. None)" by (simp add: sample_audited_def sample_server_def)
  have "explain_incident sample_runtime ?D sample_llm (Some ''a'') None None ''alice'' ?S = (Explained (row, x), S')"
    unfolding explain_incident_def ids list.case prod.case Let_def using en e rate ag
    by (simp add: h split_beta or_str_def)
  then have hr: "handle_reasoning sample_runtime ?D sample_llm sample_credentials (PostExplain (Some ''a'') None None) ?S = (Explained (row, x), S')"
    unfolding handle_reasoning_def op by simp
  have "build_bundle (dp_env ?D) (dp_dumper ?D) ''action_id:a'' (Some ''a'') None None (agent_of (rs_server ?S1)) = (b, a1)"
    using b by (simp add: agent_of_def)
  from explain_effect(1)[OF this e] status have ok: "er_status row = ''ok''" by auto
  from explanations_are_grounded[OF hr] ids obtain b' where g: "rs_rows S' = [row]" "x \<noteq> None \<longleftrightarrow> er_status row = ''ok''"
    "\<And>j. x = Some j \<Longrightarrow> \<exists>v. j = as_dict v \<and> grounded (bundle_keys b') v" by auto
  then obtain j where j: "x = Some j" using ok by auto
  then obtain v where "j = as_dict v" "grounded (bundle_keys b') v" using g(3) by blast
  then show ?thesis using hr ok g(1) j by blast
qed

end
