(* ===== verification/Llm_Properties.thy ===== *)
theory Llm_Properties
  imports Llm_Agent Reasoning_Properties
begin

text \<open>
  The language model only proposes: whatever it writes, the platform does what it would have done
  for the same proposal sent to \<open>POST /agent/act\<close>, or nothing.
\<close>

lemma named_in_Inr: "named_in v xs complaint = Inr s \<Longrightarrow> v = PStr s \<and> s \<in> set xs"
  by (auto simp: named_in_def split: if_splits pyval.splits)

lemma read_confidence_Inr: "read_confidence v = Inr i \<Longrightarrow> v = PInt i \<and> 0 \<le> i \<and> i \<le> 100"
  by (auto simp: read_confidence_def split: pyval.splits if_splits)

lemma action_type_of_value: "action_type_of (type_value t) = Some t"
  by (cases t) (simp_all add: action_type_of_def all_action_types_def)

lemma action_type_of_member: "m \<in> set (List.map type_value all_action_types) \<Longrightarrow> \<exists>t. action_type_of m = Some t \<and> type_value t = m"
  using action_type_of_value by auto

text \<open>What every proposal read from a model's text is limited to.\<close>

definition in_scope :: "string \<Rightarrow> ident option \<Rightarrow> proposal \<Rightarrow> bool" where
  "in_scope goal grant p \<longleftrightarrow> ap_agent p = ''llm-agent'' \<and> ap_context p = ''homelab'' \<and> ap_goal p = strip_text goal \<and>
     ap_target p \<in> fst ` set homelab_dependencies \<and> 0 \<le> ap_confidence p \<and> ap_confidence p \<le> 100 \<and>
     length (ap_reason p) \<le> 300 \<and> ap_expected p = ''running'' \<and> ap_grant p = grant"

lemma parse_proposal_scope:
  assumes "parse_proposal rt txt goal grant = Inr p"
  shows "in_scope goal grant p"
proof -
  obtain kvs target mechanism confidence reason where k: "named_in (entry kvs ''target'') (List.map fst homelab_dependencies) ''unknown target '' = Inr target"
    "read_confidence (entry kvs ''confidence'') = Inr confidence"
    "p = \<lparr>ap_agent = ''llm-agent'', ap_context = ''homelab'', ap_goal = strip_text goal, ap_target = target,
          ap_mechanism = the (action_type_of mechanism), ap_reason = take 300 reason, ap_confidence = confidence,
          ap_expected = ''running'', ap_grant = grant\<rparr>"
    using assms unfolding parse_proposal_def and_then_eq_Inr Let_def by blast
  have "target \<in> set (List.map fst homelab_dependencies)" using named_in_Inr[OF k(1)] by blast
  then show ?thesis using read_confidence_Inr[OF k(2)] by (simp add: k(3) in_scope_def)
qed

text \<open>The body an operator would send for a proposal.\<close>

definition body_of :: "proposal \<Rightarrow> propose_body" where
  "body_of p = \<lparr>pb_agent = ap_agent p, pb_goal = ap_goal p, pb_target = ap_target p, pb_mechanism = type_value (ap_mechanism p),
     pb_reason = ap_reason p, pb_confidence = ap_confidence p, pb_expected = ap_expected p, pb_grant = ap_grant p,
     pb_context = ap_context p\<rparr>"

lemma proposal_of_body: "proposal_from_body (body_of p) = Some p"
  by (simp add: proposal_from_body_def body_of_def action_type_of_value)

text \<open>C31: A request to the language-model route either leaves the platform as it was up to the counters of the
  limiter, or has exactly the answer and the effect that the same operator's request to \<open>/agent/act\<close> would have had
  for a proposal that the model's text was parsed into: by the model agent, for the operator's own goal and grant, on
  a known component with a known operation, with a confidence from 0 to 100. Errors of the model and of its text
  are refusals or the generic server error, never a proposal.\<close>

theorem llm_only_proposes:
  assumes "handle_llm rt enabled client metrics D c goal grant S = Some (x, S')"
  shows "(\<exists>hits. ls_server S' = (ls_server S)\<lparr>sv_hits := hits\<rparr>) \<and> (\<forall>ao. x \<noteq> Governed ao) \<or>
     (\<exists>p ao txt. x = Governed ao \<and> enabled \<and> in_scope goal grant p \<and>
        lm_generate client (llm_prompt goal (case metrics of None \<Rightarrow> [] | Some ms \<Rightarrow> ms)) = Inr txt \<and>
        parse_proposal rt txt goal grant = Inr p \<and>
        handle D c (PostAct (body_of p)) (ls_server S) = Some (Ok200 (AgentReply ao), ls_server S'))"
proof (cases "resolve_operator (dp_credential D) (dp_env D) (cr_authorization c) (cr_api_key c)")
  case (Operator who)
  obtain over hits where l: "rate_limited D LimitAgent who (ls_server S) = (over, hits)" by fastforce
  let ?S = "S\<lparr>ls_server := (ls_server S)\<lparr>sv_hits := hits\<rparr>\<rparr>"
  show ?thesis
  proof (cases over)
    case True
    then show ?thesis using assms by (auto simp: handle_llm_def Operator l)
  next
    case False
    then have a: "act_llm rt enabled client metrics D goal grant ?S = Some (x, S')" using assms by (simp add: handle_llm_def Operator l)
    show ?thesis
    proof (cases "\<exists>p. enabled \<and> llm_propose rt client goal (case metrics of None \<Rightarrow> [] | Some ms \<Rightarrow> ms) grant = Inr p")
      case True
      then obtain p where p: "enabled" "llm_propose rt client goal (case metrics of None \<Rightarrow> [] | Some ms \<Rightarrow> ms) grant = Inr p" by blast
      then obtain ao s where s: "propose_and_govern (dp_probes D) (dp_agent D) p (agent_of (ls_server ?S)) = Some (ao, s)"
        "x = Governed ao" "ls_server S' = (with_agent s (ls_server ?S))\<lparr>sv_last := Some ao\<rparr>"
        using a by (auto simp: act_llm_def split: option.splits)
      obtain answer where t: "lm_generate client (llm_prompt goal (case metrics of None \<Rightarrow> [] | Some ms \<Rightarrow> ms)) = Inr answer"
        "parse_proposal rt answer goal grant = Inr p"
        using p(2) by (auto simp: llm_propose_def split: sum.splits)
      have "handle D c (PostAct (body_of p)) (ls_server S) = Some (Ok200 (AgentReply ao), ls_server S')"
        using s False by (simp add: handle_def public_request_def Operator l route_act_def proposal_of_body)
      then show ?thesis using p(1) s(2) t parse_proposal_scope[OF t(2)] by blast
    next
      case False
      then show ?thesis using a by (auto simp: act_llm_def split: sum.splits llm_error.splits if_splits)
    qed
  qed
qed (use assms in \<open>auto simp: handle_llm_def intro: exI[of _ "sv_hits (ls_server S)"]\<close>)

definition sample_llm_server :: "nat llm_server" where
  "sample_llm_server = \<lparr>ls_server = sample_server, ls_refusal = None\<rparr>"

definition proposing_reply :: params where
  "proposing_reply = [(''propose'', PBool True), (''target'', PStr ''portainer''), (''mechanism'', PStr ''restart''), (''confidence'', PInt 80)]"

definition proposing_llm :: llm where
  "proposing_llm = \<lparr>lm_model = ''m'', lm_host = ''h'', lm_temperature = ''0.1'',
     lm_generate = (\<lambda>p. Inr (dumps '', '' '': '' False (PDict proposing_reply)))\<rparr>"

lemma json_loads_written: "plain_json (PDict kvs) \<Longrightarrow> json_loads rt (dumps '', '' '': '' False (PDict kvs)) = Some (PDict kvs)"
  using raw_decode_written[of "PDict kvs" rt] by (simp add: json_loads_def skip_def json_space_def)

lemma span_written: "braces_span (dumps '', '' '': '' False (PDict kvs)) = dumps '', '' '': '' False (PDict kvs)"
  by (simp add: braces_span_def)

lemma proposing_llm_proposes: "\<exists>p. llm_propose rt proposing_llm goal ms grant = Inr p"
proof -
  let ?t = "dumps '', '' '': '' False (PDict proposing_reply)"
  have "json_loads rt ?t = Some (PDict proposing_reply)" by (rule json_loads_written) (simp add: proposing_reply_def)
  then have j: "llm_json rt ?t = Inr proposing_reply" unfolding llm_json_def span_written Let_def by simp
  have "named_in (entry proposing_reply ''target'') (List.map fst homelab_dependencies) ''unknown target '' = Inr ''portainer''"
    "named_in (entry proposing_reply ''mechanism'') (List.map type_value all_action_types) ''invalid mechanism '' = Inr ''restart''"
    "read_confidence (entry proposing_reply ''confidence'') = Inr 80" "entry proposing_reply ''propose'' = PBool True" by code_simp+
  then have "\<exists>p. parse_proposal rt ?t goal grant = Inr p" unfolding parse_proposal_def j by (simp add: Let_def)
  then show ?thesis by (simp add: llm_propose_def proposing_llm_def del: dumps.simps)
qed

lemma llm_only_proposes_witness:
  "\<exists>ao p S'. handle_llm sample_runtime True proposing_llm None sample_deployment sample_credentials ''up'' None sample_llm_server =
       Some (Governed ao, S') \<and> in_scope ''up'' None p \<and>
     handle sample_deployment sample_credentials (PostAct (body_of p)) sample_server = Some (Ok200 (AgentReply ao), ls_server S')"
proof -
  obtain p where p: "llm_propose sample_runtime proposing_llm ''up'' [] None = Inr p" using proposing_llm_proposes by blast
  have "ap_grant p = None" using p parse_proposal_scope by (auto simp: llm_propose_def in_scope_def split: sum.splits)
  then have g: "\<exists>ao s. propose_and_govern P cfg p a = Some (ao, s)" for P cfg and a :: "nat agent"
  proof -
    obtain r s1 where r: "resolve_proposal cfg p a = (r, s1)" by fastforce
    have "\<not> rs_auth_ok r" unfolding resolve_proposal_frame(4)[OF r] check_authority_iff using \<open>ap_grant p = None\<close> by simp
    then show ?thesis by (simp add: propose_and_govern_def r)
  qed
  have "\<exists>hits. rate_limited sample_deployment LimitAgent ''alice'' sample_server = (False, hits)"
    by (simp add: rate_limited_def rate_limit_def rate_check_def rate_window_def ratelimit_enabled_def env_bool_def is_on_def
        ratelimit_agent_per_min_def env_int_def sample_deployment_def sample_server_def)
  then obtain hits where l: "rate_limited sample_deployment LimitAgent ''alice'' sample_server = (False, hits)" by blast
  have op: "resolve_operator (dp_credential sample_deployment) (dp_env sample_deployment) (cr_authorization sample_credentials)
      (cr_api_key sample_credentials) = Operator ''alice''" using sample_authenticated[of "dp_probes sample_deployment"] by simp
  obtain ao s where "propose_and_govern (dp_probes sample_deployment) (dp_agent sample_deployment) p
      (agent_of (sample_server\<lparr>sv_hits := hits\<rparr>)) = Some (ao, s)" using g by blast
  then have "\<exists>S'. handle_llm sample_runtime True proposing_llm None sample_deployment sample_credentials ''up'' None sample_llm_server =
      Some (Governed ao, S')"
    using p l by (simp add: handle_llm_def op act_llm_def sample_llm_server_def)
  then obtain S' where h: "handle_llm sample_runtime True proposing_llm None sample_deployment sample_credentials ''up'' None sample_llm_server =
      Some (Governed ao, S')" by blast
  from llm_only_proposes[OF h] h show ?thesis by (auto simp: sample_llm_server_def)
qed

end
