(* ===== verification/Evolution.thy ===== *)
theory Evolution
  imports Governed_Runs Ops_Evidence Engineering
begin

text \<open>
  The two bounded entry points that route platform changes into the governed flow: controlled
  evolution (\<open>core/evolution/\<close>) with the adapter that registers modules, and self-management
  (\<open>core/self_management/service.py\<close>) with the translation of decisions
  (\<open>actions/translator.py\<close>). The module registry file is part of the world that adapters act on; the
  random suffix of a module id is drawn from a supply in it. An adapter parameter that is not a text
  ends in an exception here. Values of another type than a proposal or decision are not modelled.
\<close>

section \<open>Module registry\<close>

record module_entry = platform_module +
  md_name :: string
  md_version :: string
  md_type :: string

record module_world =
  mw_modules :: "module_entry list"
  mw_uuid :: "nat \<Rightarrow> string"  \<comment> \<open>\<open>uuid4().hex\<close>\<close>
  mw_next :: nat

definition slug_char :: "char \<Rightarrow> bool" where
  "slug_char c \<longleftrightarrow> is_digit c \<or> (let n = (of_char c :: nat) in 97 \<le> n \<and> n \<le> 122)"

text \<open>Each run of other characters becomes one dash.\<close>

fun dash_runs :: "bool \<Rightarrow> string \<Rightarrow> string" where
  "dash_runs inside [] = []"
| "dash_runs inside (c # cs) =
     (if slug_char c then c # dash_runs False cs else if inside then dash_runs True cs else CHR ''-'' # dash_runs True cs)"

definition strip_dashes :: "string \<Rightarrow> string" where
  "strip_dashes s = rev (dropWhile (\<lambda>c. c = CHR ''-'') (rev (dropWhile (\<lambda>c. c = CHR ''-'') s)))"

definition slugify :: "string \<Rightarrow> string" where
  "slugify name = strip_dashes (dash_runs False (lower name))"

definition generate_module_id :: "string \<Rightarrow> module_world \<Rightarrow> string \<times> module_world" where
  "generate_module_id name w = (slugify name @ ''-'' @ take 6 (mw_uuid w (mw_next w)), w\<lparr>mw_next := Suc (mw_next w)\<rparr>)"

definition create_module :: "string \<Rightarrow> string \<Rightarrow> string \<Rightarrow> string option \<Rightarrow> module_world \<Rightarrow> module_entry \<times> module_world" where
  "create_module name version mtype container w =
     (let (i, w1) = generate_module_id name w
      in (\<lparr>md_id = i, md_container = container, md_dependencies = [], md_name = name, md_version = version, md_type = mtype\<rparr>, w1))"

definition get_module :: "string \<Rightarrow> module_world \<Rightarrow> module_entry option" where
  "get_module k w = find (\<lambda>m. md_id m = k) (mw_modules w)"

text \<open>\<open>Inl\<close>: \<open>ValueError\<close>, the file is not written.\<close>

definition register_module :: "module_entry \<Rightarrow> module_world \<Rightarrow> string + module_world" where
  "register_module m w =
     (if get_module (md_id m) w \<noteq> None then Inl (''Module '' @ md_id m @ '' already exists.'')
      else Inr (w\<lparr>mw_modules := mw_modules w @ [m]\<rparr>))"

section \<open>The adapter that registers modules\<close>

definition string_param :: "params \<Rightarrow> string \<Rightarrow> string \<Rightarrow> string option" where
  "string_param ps k dflt = (case map_of ps k of None \<Rightarrow> Some dflt | Some (PStr s) \<Rightarrow> Some s | Some _ \<Rightarrow> None)"

definition module_result :: "request \<Rightarrow> string \<Rightarrow> bool \<Rightarrow> string \<Rightarrow> params \<Rightarrow> exec_result" where
  "module_result r status success message output = \<lparr>res_execution_id = req_execution_id r, res_status = status, res_success = success,
     res_message = message, res_output = output\<rparr>"

definition apply_module_change :: "request \<Rightarrow> module_world \<Rightarrow> exec_result option \<times> module_world" where
  "apply_module_change r w =
     (case (string_param (req_parameters r) ''module_name'' [], string_param (req_parameters r) ''version'' ''0.1.0'',
            string_param (req_parameters r) ''module_type'' ''platform-service'') of
        (Some name, Some version, Some mtype) \<Rightarrow>
          if name = [] then (Some (module_result r ''failed'' False ''Module name is required'' []), w)
          else (let (m, w1) = create_module name version mtype (Some name) w in
            (case register_module m w1 of
               Inl e \<Rightarrow> (Some (module_result r ''failed'' False (''Module registration failed: '' @ e) []), w1)
             | Inr w2 \<Rightarrow> (Some (module_result r ''completed'' True (''Module '' @ name @ '' registered'')
                 [(''module_id'', PStr (md_id m)), (''name'', PStr name), (''version'', PStr version)]), w2)))
      | _ \<Rightarrow> (None, w))"

definition module_adapter :: "module_world adapter" where
  "module_adapter = \<lparr>ad_supports = (\<lambda>r. lower (req_operation r) = ''create''), ad_execute = apply_module_change\<rparr>"

section \<open>Controlled evolution\<close>

record change_proposal =
  cp_id :: ident
  cp_scope :: string
  cp_target :: string
  cp_operation :: string
  cp_version :: string
  cp_reason :: string
  cp_confidence :: int
  cp_requires :: bool
  cp_expected :: "expected_outcome option"

record change_result =
  cg_change :: ident
  cg_status :: string
  cg_action :: "ident option"
  cg_execution :: "ident option"
  cg_verification :: "string option"
  cg_verification_reason :: string
  cg_message :: string

definition assess_change :: "change_proposal \<Rightarrow> module_world \<Rightarrow> bool \<times> string" where
  "assess_change p w =
     (if cp_operation p \<noteq> ''register_module'' then (False, ''Unsupported evolution operation'')
      else if list_ex (\<lambda>m. md_name m = cp_target p \<or> md_container m = Some (cp_target p)) (mw_modules w)
        then (False, ''Module already registered'')
      else (True, ''In scope and compatible''))"

definition build_action :: "change_proposal \<Rightarrow> 'w gov \<Rightarrow> action \<times> 'w gov" where
  "build_action p st =
     (let (i, st1) = fresh_id st in
      (\<lparr>act_id = i, act_created_at = g_now st, act_decision_id = cp_id p, act_domain = default_domain, act_component = cp_target p,
        act_type = Create, act_status = APending, act_reason = cp_reason p, act_confidence = cp_confidence p,
        act_requires_approval = cp_requires p, act_rollback_required = True,
        act_parameters = [(''module_name'', PStr (cp_target p)), (''version'', PStr (cp_version p)), (''scope'', PStr (cp_scope p))],
        act_expected = cp_expected p\<rparr>, st1))"

text \<open>A rejected approval record by the boundary that refused.\<close>

definition record_blocked :: "action \<Rightarrow> string \<Rightarrow> string \<Rightarrow> 'w gov \<Rightarrow> 'w gov" where
  "record_blocked a why boundary st =
     (let (k, st1) = fresh_id st
      in record_approval_decision a \<lparr>ad_id = k, ad_action_id = act_id a, ad_mode = Reject, ad_approved = False, ad_reason = why\<rparr>
           ''rejected'' boundary None None st1)"

definition blocked_change :: "change_proposal \<Rightarrow> string \<Rightarrow> 'w gov \<Rightarrow> change_result \<times> 'w gov" where
  "blocked_change p why st =
     (let (a, st1) = build_action p st
      in (\<lparr>cg_change = cp_id p, cg_status = ''blocked'', cg_action = Some (act_id a), cg_execution = None, cg_verification = None,
           cg_verification_reason = [], cg_message = why\<rparr>, record_blocked a why ''evolution_boundary'' st1))"

definition verification_of :: "outcome \<Rightarrow> verification_result option" where
  "verification_of out = (case out of Executed res v \<Rightarrow> v | _ \<Rightarrow> None)"

definition governed_change :: "change_proposal \<Rightarrow> action \<Rightarrow> string \<Rightarrow> outcome \<Rightarrow> change_result option" where
  "governed_change p a adapter out =
     map_option (\<lambda>ov. \<lparr>cg_change = cp_id p, cg_status = ov_status ov, cg_action = Some (act_id a), cg_execution = ov_execution_id ov,
         cg_verification = map_option ver_status (verification_of out),
         cg_verification_reason = (case verification_of out of None \<Rightarrow> [] | Some v \<Rightarrow> ver_reason v),
         cg_message = (case ov_message ov of None \<Rightarrow> [] | Some m \<Rightarrow> m)\<rparr>)
       (outcome_dict a adapter out)"

text \<open>\<open>None\<close>: an exception of the governed call reaches the caller.\<close>

definition execute_governed_change ::
  "change_proposal \<Rightarrow> string \<Rightarrow> module_world gov \<Rightarrow> change_result option \<times> module_world gov" where
  "execute_governed_change p adapter st =
     (if adapter \<noteq> ''module_change'' then map_prod Some id (blocked_change p ''Unsupported evolution adapter'' st)
      else if cp_operation p \<noteq> ''register_module'' then map_prod Some id (blocked_change p ''Unsupported evolution operation'' st)
      else (let (ok, why) = assess_change p (g_world st) in
        if \<not> ok then map_prod Some id (blocked_change p why st)
        else (let (a, st1) = build_action p st; (out, st2) = execute_governed_action a adapter st1
              in (governed_change p a adapter out, st2))))"

section \<open>Self-management\<close>

definition action_mapping :: "(string \<times> action_type) list" where
  "action_mapping = [(''restart_component'', RestartComponent), (''create_checkpoint'', CreateCheckpoint),
     (''scale_down'', ScaleDown), (''isolate_component'', IsolateComponent)]"

definition decision_to_action :: "advice \<Rightarrow> expected_outcome option \<Rightarrow> 'w gov \<Rightarrow> action option \<times> 'w gov" where
  "decision_to_action d intended st =
     (case map_of action_mapping (dc_action d) of
        None \<Rightarrow> (None, st)
      | Some t \<Rightarrow> (let (i, st1) = fresh_id st in
          (Some \<lparr>act_id = i, act_created_at = g_now st, act_decision_id = ''decision-'' @ dc_component d, act_domain = default_domain,
             act_component = dc_component d, act_type = t, act_status = APending, act_reason = dc_reason d,
             act_confidence = dc_confidence d, act_requires_approval = True, act_rollback_required = True, act_parameters = [],
             act_expected = intended\<rparr>, st1)))"

definition permitted_targets :: "platform_module list \<Rightarrow> string list" where
  "permitted_targets mods = filter (\<lambda>t. t \<noteq> []) (List.map_filter md_container mods)"

datatype self_outcome = SelfBlocked string "ident option" | SelfGoverned action outcome

definition execute_self_management ::
  "platform_module list \<Rightarrow> advice \<Rightarrow> expected_outcome option \<Rightarrow> string \<Rightarrow> 'w gov \<Rightarrow> self_outcome \<times> 'w gov" where
  "execute_self_management mods d intended adapter st =
     (if dc_action d \<noteq> ''restart_component'' then (SelfBlocked ''Operation not supported for self-management'' None, st)
      else (case decision_to_action d intended st of
          (None, st1) \<Rightarrow> (SelfBlocked ''Decision not translatable to a governed action'' None, st1)
        | (Some a, st1) \<Rightarrow>
            if dc_component d \<notin> set (permitted_targets mods)
            then (SelfBlocked ''Target not a permitted self-management component'' (Some (act_id a)),
                  record_blocked a ''Target not a permitted self-management component'' ''self_management_boundary'' st1)
            else (let a1 = a\<lparr>act_requires_approval := False\<rparr>; (out, st2) = execute_governed_action a1 adapter st1
                  in (SelfGoverned a1 out, st2))))"

end
