(* ===== verification/Evolution_Properties.thy ===== *)
theory Evolution_Properties
  imports Evolution Governance_Sample
begin

text \<open>
  What the bounded entry points show: a platform change reaches an adapter only inside the declared
  bounds and through the governed flow; everything else leaves one rejected approval record.
\<close>

section \<open>The adapter\<close>

lemma register_module_appends:
  "register_module m w = Inr w' \<Longrightarrow> mw_modules w' = mw_modules w @ [m] \<and> md_id m \<notin> md_id ` set (mw_modules w)"
  by (auto simp: register_module_def get_module_def find_None_iff split: if_splits)

text \<open>The file keeps its modules and gains at most one, under an id that was not in it.\<close>

definition registers :: "string \<Rightarrow> string \<Rightarrow> module_world \<Rightarrow> module_world \<Rightarrow> bool" where
  "registers name version w w' \<longleftrightarrow> (\<exists>m. mw_modules w' = mw_modules w @ [m] \<and> md_name m = name \<and> md_version m = version \<and>
     md_container m = Some name \<and> md_id m \<notin> md_id ` set (mw_modules w) \<and> name \<noteq> [])"

lemma apply_module_change_effect:
  assumes "map_of (req_parameters r) ''module_name'' = Some (PStr name)" and "map_of (req_parameters r) ''version'' = Some (PStr version)"
    and "map_of (req_parameters r) ''module_type'' = None" and "apply_module_change r w = (res, w')"
  shows "mw_modules w' = mw_modules w \<and> (\<forall>x. res = Some x \<longrightarrow> \<not> res_success x) \<or>
     registers name version w w' \<and> (\<exists>x. res = Some x \<and> res_success x)"
proof (cases "name = []")
  case True
  then show ?thesis using assms by (auto simp: apply_module_change_def string_param_def module_result_def)
next
  case False
  obtain m w1 where c: "create_module name version ''platform-service'' (Some name) w = (m, w1)" by fastforce
  have m: "md_name m = name" "md_version m = version" "md_container m = Some name" "mw_modules w1 = mw_modules w"
    using c by (auto simp: create_module_def generate_module_id_def)
  show ?thesis
  proof (cases "register_module m w1")
    case (Inl e)
    then show ?thesis using assms False m(4) by (auto simp: apply_module_change_def string_param_def module_result_def c)
  next
    case (Inr w2)
    have "registers name version w w2" using register_module_appends[OF Inr] m False by (auto simp: registers_def)
    then show ?thesis using assms False Inr by (auto simp: apply_module_change_def string_param_def module_result_def c)
  qed
qed

section \<open>A refusal\<close>

definition left_rejection :: "ident option \<Rightarrow> string \<Rightarrow> string \<Rightarrow> 'w gov \<Rightarrow> 'w gov \<Rightarrow> bool" where
  "left_rejection action why boundary st st' \<longleftrightarrow>
     g_world st' = g_world st \<and> g_auths st' = g_auths st \<and> g_audits st' = g_audits st \<and> g_holds st' = g_holds st \<and>
     g_traces st' = g_traces st \<and>
     (\<exists>rec. mem (g_records st') = mem (g_records st) @ [rec] \<and> ar_decision rec = ''rejected'' \<and> ar_approved_by rec = boundary \<and>
        ar_reason rec = why \<and> Some (ar_action_id rec) = action)"

lemma record_blocked_rejects: "left_rejection (Some (act_id a)) why boundary st (record_blocked a why boundary st)"
  by (simp add: left_rejection_def record_blocked_def fresh_id_def record_approval_decision_def Let_def)

lemma left_rejection_fresh:
  "left_rejection k why boundary (st\<lparr>g_next := n\<rparr>) st' \<Longrightarrow> left_rejection k why boundary st st'"
  by (simp add: left_rejection_def)

lemma blocked_change_rejects:
  assumes "blocked_change p why st = (res, st')"
  shows "cg_status res = ''blocked'' \<and> cg_message res = why \<and> left_rejection (cg_action res) why ''evolution_boundary'' st st'"
proof -
  obtain a where a: "build_action p st = (a, st\<lparr>g_next := Suc (g_next st)\<rparr>)" by (simp add: build_action_def fresh_id_def)
  show ?thesis
    using assms left_rejection_fresh[OF record_blocked_rejects] by (auto simp: blocked_change_def a)
qed

section \<open>The governed call\<close>

lemma not_eligible_no_effect:
  assumes "execute_governed_action a adapter st = (out, st')"
    and "g_world st' \<noteq> g_world st \<or> g_auths st' \<noteq> g_auths st \<or> g_audits st' \<noteq> g_audits st"
  shows "90 \<le> act_confidence a \<and> \<not> act_requires_approval a"
proof (cases "resolve_assessment st a adapter")
  case (Inl e)
  then show ?thesis using assms by (cases e) (auto simp: execute_governed_action_def)
next
  case (Inr x)
  obtain asmt st1 where x: "resolve_assessment st a adapter = Inr (asmt, st1)" using Inr by (cases x) simp
  have "auto_eligible a asmt" using execute_not_auto[OF x _ assms(1)] assms(2) by blast
  then show ?thesis by (simp add: auto_eligible_def)
qed

lemma outcome_never_blocked: "outcome_dict a adapter out = Some ov \<Longrightarrow> ov_status ov \<noteq> ''blocked''"
  by (auto simp: outcome_dict_def plain_view_def executed_view_def split: outcome.splits)

lemma governed_change_modules:
  assumes ex: "execute_governed_action a ''module_change'' st = (out, st')" and ad: "g_adapters st ''module_change'' = Some module_adapter"
    and ps: "act_parameters a = [(''module_name'', PStr name), (''version'', PStr version), (''scope'', PStr scope)]"
  shows "mw_modules (g_world st') = mw_modules (g_world st) \<or>
     registers name version (g_world st) (g_world st') \<and> 90 \<le> act_confidence a \<and> \<not> act_requires_approval a \<and>
       (\<exists>res v. out = Executed res v \<and> res_success res)"
proof (cases "mw_modules (g_world st') = mw_modules (g_world st)")
  case False
  then obtain r ad where r: "g_adapters st ''module_change'' = Some ad" "req_parameters r = act_parameters a"
    "case ad_execute ad r (g_world st) of
       (Some res, w) \<Rightarrow> (\<exists>v. out = Executed res v) \<and> g_world st' = w | (None, w) \<Rightarrow> out = Raised \<and> g_world st' = w"
    using execute_shape[OF ex] by auto
  obtain res w where w: "apply_module_change r (g_world st) = (res, w)" by fastforce
  have w': "g_world st' = w" "\<And>x. res = Some x \<Longrightarrow> \<exists>v. out = Executed x v"
    using r(1,3) ad w by (auto simp: module_adapter_def split: option.splits)
  have "registers name version (g_world st) w \<and> (\<exists>x. res = Some x \<and> res_success x)"
    using apply_module_change_effect[of r name version, OF _ _ _ w] False w'(1) by (auto simp: r(2) ps)
  then show ?thesis using w' not_eligible_no_effect[OF ex] False by fastforce
qed simp

section \<open>Evolution\<close>

text \<open>C32: A proposed platform change registers a module only inside its bounds: through the module adapter, for
  the operation \<open>register_module\<close>, with confidence 90 or more and without a demand for approval, and only when no module
  has the proposed name or container; then exactly one module is added, under a new id. A change outside the
  bounds is answered \<open>blocked\<close>, and that answer always means that nothing but one rejected approval record was left.\<close>

theorem evolution_stays_in_bounds:
  assumes "execute_governed_change p adapter st = (r, st')" and "g_adapters st ''module_change'' = Some module_adapter"
  shows "(mw_modules (g_world st') = mw_modules (g_world st) \<or>
       registers (cp_target p) (cp_version p) (g_world st) (g_world st') \<and> adapter = ''module_change'' \<and>
       cp_operation p = ''register_module'' \<and> 90 \<le> cp_confidence p \<and> \<not> cp_requires p \<and>
       (\<forall>m\<in>set (mw_modules (g_world st)). md_name m \<noteq> cp_target p \<and> md_container m \<noteq> Some (cp_target p)) \<and>
       (\<exists>res. r = Some res \<and> cg_status res = ''executed'')) \<and>
     ((adapter \<noteq> ''module_change'' \<or> \<not> fst (assess_change p (g_world st))) = (\<exists>res. r = Some res \<and> cg_status res = ''blocked'')) \<and>
     (\<forall>res. r = Some res \<and> cg_status res = ''blocked'' \<longrightarrow>
        left_rejection (cg_action res) (cg_message res) ''evolution_boundary'' st st')"
proof (cases "adapter = ''module_change'' \<and> fst (assess_change p (g_world st))")
  case True
  obtain a where a: "build_action p st = (a, st\<lparr>g_next := Suc (g_next st)\<rparr>)"
    "act_parameters a = [(''module_name'', PStr (cp_target p)), (''version'', PStr (cp_version p)), (''scope'', PStr (cp_scope p))]"
    "act_confidence a = cp_confidence p" "act_requires_approval a = cp_requires p"
    by (simp add: build_action_def fresh_id_def)
  obtain out st2 where ex: "execute_governed_action a ''module_change'' (st\<lparr>g_next := Suc (g_next st)\<rparr>) = (out, st2)" by fastforce
  have asm: "cp_operation p = ''register_module''"
    "\<forall>m\<in>set (mw_modules (g_world st)). md_name m \<noteq> cp_target p \<and> md_container m \<noteq> Some (cp_target p)"
    using True by (auto simp: assess_change_def list_ex_iff split: if_splits)
  have r: "r = governed_change p a ''module_change'' out" "st' = st2"
    using assms(1) True asm(1) ex by (auto simp: execute_governed_change_def a(1) split_beta)
  have nb: "\<not> (\<exists>res. r = Some res \<and> cg_status res = ''blocked'')"
    using outcome_never_blocked[of a "''module_change''" out] by (auto simp: r(1) governed_change_def)
  have "mw_modules (g_world st') = mw_modules (g_world st) \<or>
      registers (cp_target p) (cp_version p) (g_world st) (g_world st') \<and> 90 \<le> cp_confidence p \<and> \<not> cp_requires p \<and>
      (\<exists>res v. out = Executed res v \<and> res_success res)"
    using governed_change_modules[OF ex _ a(2)] assms(2) a(3,4) by (simp add: r(2))
  then show ?thesis using True asm nb r(1)
    by (fastforce simp: governed_change_def outcome_dict_def executed_view_def)
next
  case False
  have "\<exists>why. map_prod Some id (blocked_change p why st) = (r, st')"
    using assms(1) False by (auto simp: execute_governed_change_def assess_change_def split: if_splits)
  then obtain why where why: "map_prod Some id (blocked_change p why st) = (r, st')" by blast
  obtain res s where s: "blocked_change p why st = (res, s)" by fastforce
  have b: "blocked_change p why st = (res, st')" "r = Some res" using why s by auto
  show ?thesis using blocked_change_rejects[OF b(1)] b(2) False by (auto simp: left_rejection_def)
qed

text \<open>A registry with one module: a proposal under a new name is in bounds, one under the name of that module is refused.\<close>

definition sample_registry :: "module_world gov" where
  "sample_registry = \<lparr>g_holds = empty_store Sqlite, g_records = empty_store Sqlite, g_auths = empty_store Sqlite,
     g_audits = empty_store Sqlite, g_traces = empty_store Sqlite, g_verifs = empty_store Sqlite,
     g_registry = [default_domain \<mapsto> default_registration], g_adapters = [''module_change'' \<mapsto> module_adapter],
     g_modules = (\<lambda>w. None), g_uuid = (\<lambda>n. CHR ''u'' # replicate n CHR ''x''), g_next = 0, g_now = 0, g_sha = (\<lambda>t. ''h''),
     g_world = \<lparr>mw_modules = [\<lparr>md_id = ''mail-1'', md_container = Some ''mail'', md_dependencies = [], md_name = ''Mail'',
        md_version = ''1'', md_type = ''service''\<rparr>], mw_uuid = (\<lambda>n. ''abcdef0123''), mw_next = 0\<rparr>\<rparr>"

definition sample_module_change :: "string \<Rightarrow> change_proposal" where
  "sample_module_change target = \<lparr>cp_id = ''p'', cp_scope = ''platform'', cp_target = target, cp_operation = ''register_module'',
     cp_version = ''1'', cp_reason = ''r'', cp_confidence = 95, cp_requires = False, cp_expected = None\<rparr>"

lemma evolution_stays_in_bounds_witness:
  "fst (assess_change (sample_module_change ''Web'') (g_world sample_registry)) \<and>
   (\<exists>res st'. execute_governed_change (sample_module_change ''mail'') ''module_change'' sample_registry = (Some res, st') \<and>
      cg_status res = ''blocked'' \<and> cg_message res = ''Module already registered'' \<and>
      mw_modules (g_world st') = mw_modules (g_world sample_registry) \<and> length (mem (g_records st')) = 1)"
proof -
  have ad: "g_adapters sample_registry ''module_change'' = Some module_adapter" by (simp add: sample_registry_def)
  have asm: "fst (assess_change (sample_module_change ''Web'') (g_world sample_registry))"
    "assess_change (sample_module_change ''mail'') (g_world sample_registry) = (False, ''Module already registered'')"
    "cp_operation (sample_module_change ''mail'') = ''register_module''"
    by (simp_all add: assess_change_def sample_module_change_def sample_registry_def)
  obtain res st' where b: "blocked_change (sample_module_change ''mail'') ''Module already registered'' sample_registry = (res, st')" by fastforce
  have ex: "execute_governed_change (sample_module_change ''mail'') ''module_change'' sample_registry = (Some res, st')"
    by (simp add: execute_governed_change_def asm(2,3) b)
  have m: "cg_message res = ''Module already registered'' \<and> mem (g_records sample_registry) = []"
    using b by (auto simp: blocked_change_def build_action_def fresh_id_def sample_registry_def empty_store_def)
  show ?thesis using evolution_stays_in_bounds[OF ex ad] asm m ex by (auto simp: left_rejection_def)
qed

section \<open>Self-management\<close>

text \<open>C33: A self-management decision reaches the world, an authorization or an audit record only for the operation
  \<open>restart_component\<close> on a container of a registered module with confidence 90 or more, and then through the governed
  call. A target outside the registry leaves one rejected approval record and nothing else; any other operation, and so
  every decision the decision layer of the platform makes, changes nothing at all.\<close>

theorem self_management_stays_in_bounds:
  assumes "execute_self_management mods d intended adapter st = (r, st')"
  shows "(g_world st' \<noteq> g_world st \<or> g_auths st' \<noteq> g_auths st \<or> g_audits st' \<noteq> g_audits st \<longrightarrow>
       dc_action d = ''restart_component'' \<and> 90 \<le> dc_confidence d \<and> dc_component d \<noteq> [] \<and>
       (\<exists>md\<in>set mods. md_container md = Some (dc_component d)) \<and>
       (\<exists>a out st1. r = SelfGoverned a out \<and> act_type a = RestartComponent \<and> act_component a = dc_component d \<and>
          execute_governed_action a adapter st1 = (out, st'))) \<and>
     (\<forall>why k. r = SelfBlocked why (Some k) \<longrightarrow> left_rejection (Some k) why ''self_management_boundary'' st st') \<and>
     (\<forall>why. r = SelfBlocked why None \<longrightarrow> st' = st) \<and>
     (\<forall>ev recurring. d = make_decision ev recurring \<longrightarrow> r = SelfBlocked ''Operation not supported for self-management'' None)"
proof (cases "dc_action d = ''restart_component''")
  case False
  then show ?thesis using assms by (auto simp: execute_self_management_def)
next
  case True
  obtain a where a: "decision_to_action d intended st = (Some a, st\<lparr>g_next := Suc (g_next st)\<rparr>)"
    "act_type a = RestartComponent" "act_component a = dc_component d" "act_confidence a = dc_confidence d"
    by (simp add: decision_to_action_def action_mapping_def True fresh_id_def)
  have nd: "d \<noteq> make_decision ev recurring" for ev recurring
    using True by (auto simp: decision_action split: health_status.splits if_splits)
  show ?thesis
  proof (cases "dc_component d \<in> set (permitted_targets mods)")
    case False
    then have "r = SelfBlocked ''Target not a permitted self-management component'' (Some (act_id a))"
      "st' = record_blocked a ''Target not a permitted self-management component'' ''self_management_boundary'' (st\<lparr>g_next := Suc (g_next st)\<rparr>)"
      using assms True by (auto simp: execute_self_management_def a(1))
    then show ?thesis
      using left_rejection_fresh[OF record_blocked_rejects, of a "''Target not a permitted self-management component''" "''self_management_boundary''" st "Suc (g_next st)"] nd
      by (auto simp: left_rejection_def)
  next
    case permitted: True
    obtain out st2 where ex: "execute_governed_action (a\<lparr>act_requires_approval := False\<rparr>) adapter (st\<lparr>g_next := Suc (g_next st)\<rparr>) = (out, st2)"
      by fastforce
    then have r: "r = SelfGoverned (a\<lparr>act_requires_approval := False\<rparr>) out" "st' = st2"
      using assms True permitted by (auto simp: execute_self_management_def a(1) Let_def)
    have "dc_component d \<noteq> []" "\<exists>md\<in>set mods. md_container md = Some (dc_component d)"
      using permitted by (auto simp: permitted_targets_def List.map_filter_def)
    moreover have "90 \<le> dc_confidence d" if "g_world st' \<noteq> g_world st \<or> g_auths st' \<noteq> g_auths st \<or> g_audits st' \<noteq> g_audits st"
      using not_eligible_no_effect[OF ex] that a(4) by (simp add: r(2))
    ultimately show ?thesis using True r ex a nd by auto
  qed
qed

lemma self_management_stays_in_bounds_witness:
  "\<exists>st'. execute_self_management [\<lparr>md_id = ''web'', md_container = Some ''web'', md_dependencies = []\<rparr>]
      \<lparr>dc_component = ''other'', dc_priority = ''P1'', dc_action = ''restart_component'', dc_reason = ''r'', dc_confidence = 95, dc_evidence = []\<rparr>
      None ''docker'' sample_gov = (SelfBlocked ''Target not a permitted self-management component'' (Some ''u''), st') \<and>
      g_world st' = g_world sample_gov \<and> g_auths st' = g_auths sample_gov"
proof -
  let ?run = "execute_self_management [\<lparr>md_id = ''web'', md_container = Some ''web'', md_dependencies = []\<rparr>]
      \<lparr>dc_component = ''other'', dc_priority = ''P1'', dc_action = ''restart_component'', dc_reason = ''r'', dc_confidence = 95, dc_evidence = []\<rparr>
      None ''docker'' sample_gov"
  obtain r st' where run: "?run = (r, st')" by fastforce
  have "r = SelfBlocked ''Target not a permitted self-management component'' (Some ''u'')"
    using run by (auto simp: execute_self_management_def decision_to_action_def action_mapping_def permitted_targets_def
        List.map_filter_def fresh_id_def sample_defs)
  then show ?thesis using self_management_stays_in_bounds[OF run] run by (auto simp: left_rejection_def)
qed

end
