(* ===== verification/Coding_Agent.thy ===== *)
theory Coding_Agent
  imports Reasoning
begin

text \<open>
  The review of shell commands a coding agent proposes (\<open>coding_agent/\<close>): the risk rules and the matching of
  their patterns, the three sources of evidence, the verdict, the store of held commands and the routes. Git is a
  function from arguments and directory to the output of a run that ended with status 0. Patterns are matched on
  the 256 lowest code points; which of several ways to match is found does not matter, since only success is used.
  Notifications, the clock and the supply of ids are those of the observation layer.
\<close>

section \<open>Patterns\<close>

definition word_char :: "char \<Rightarrow> bool" where
  "word_char c \<longleftrightarrow> is_digit c \<or> is_alpha c \<or> c = CHR ''_'' \<or>
     (let n = (of_char c :: nat) in n \<in> {170, 178, 179, 181, 185, 186, 188, 189, 190} \<or> 192 \<le> n \<and> n \<noteq> 215 \<and> n \<noteq> 247)"

definition segment_char :: "char \<Rightarrow> bool" where
  "segment_char c \<longleftrightarrow> c \<noteq> CHR 0x0A \<and> c \<noteq> CHR '';'' \<and> c \<noteq> CHR ''&'' \<and> c \<noteq> CHR ''|''"

text \<open>\<open>Many\<close>: any number of characters of a class, greedy or lazy; \<open>Edge\<close>: \<open>\b\<close>; \<open>Beginning\<close>: \<open>^\<close>.\<close>

datatype rx = Nothing | One "char \<Rightarrow> bool" | Many "char \<Rightarrow> bool" | Edge | Beginning | Seq rx rx | Alt rx rx

definition word_edge :: "string \<Rightarrow> string \<Rightarrow> bool" where
  "word_edge before after \<longleftrightarrow> (before \<noteq> [] \<and> word_char (last before)) \<noteq> (after \<noteq> [] \<and> word_char (hd after))"

text \<open>The positions at which a match that starts at a position can end.\<close>

fun ends :: "rx \<Rightarrow> string \<Rightarrow> nat \<Rightarrow> nat list" where
  "ends Nothing s i = [i]"
| "ends (One p) s i = (if i < length s \<and> p (s ! i) then [Suc i] else [])"
| "ends (Many p) s i = [i ..< Suc (i + length (takeWhile p (drop i s)))]"
| "ends Edge s i = (if word_edge (take i s) (drop i s) then [i] else [])"
| "ends Beginning s i = (if i = 0 then [i] else [])"
| "ends (Seq a b) s i = concat (List.map (ends b s) (ends a s i))"
| "ends (Alt a b) s i = ends a s i @ ends b s i"

definition pattern_search :: "rx \<Rightarrow> string \<Rightarrow> bool" where
  "pattern_search r s = list_ex (\<lambda>i. ends r s i \<noteq> []) [0 ..< Suc (length s)]"

definition lit :: "string \<Rightarrow> rx" where
  "lit w = foldr (\<lambda>c r. Seq (One (\<lambda>x. x = c)) r) w Nothing"

definition seqs :: "rx list \<Rightarrow> rx" where
  "seqs rs = foldr Seq rs Nothing"

definition spaces :: rx where
  "spaces = Seq (One wide_space) (Many wide_space)"

section \<open>Risk rules\<close>

record risk_rule =
  rr_name :: string
  rr_pattern :: rx
  rr_level :: string
  rr_description :: string

text \<open>\<open>-[a-zA-Z]*x[a-zA-Z]*\<close> for the letters of a list.\<close>

definition short_option :: "char list \<Rightarrow> rx" where
  "short_option cs = seqs [lit ''-'', Many is_alpha, One (\<lambda>c. c \<in> set cs), Many is_alpha]"

definition force_push_pattern :: rx where
  "force_push_pattern = seqs [Edge, lit ''git'', Edge, Many segment_char, Edge, lit ''push'', Edge, Many segment_char,
     Alt (seqs [lit ''--force'', Alt (lit ''-with-lease'') Nothing, Edge])
         (seqs [One wide_space, short_option ''f'', Edge])]"

definition hard_reset_pattern :: rx where
  "hard_reset_pattern = seqs [Edge, lit ''git'', spaces, lit ''reset'', spaces, lit ''--hard'', Edge]"

definition clean_force_pattern :: rx where
  "clean_force_pattern = seqs [Edge, lit ''git'', spaces, lit ''clean'', spaces, Alt (short_option ''f'') (lit ''--force''), Edge]"

definition recursive_delete_pattern :: rx where
  "recursive_delete_pattern = seqs [Edge, lit ''rm'', Edge, Many segment_char,
     Alt (seqs [One wide_space, short_option ''rR'', Edge]) (seqs [One wide_space, lit ''--recursive'', Edge])]"

definition sudo_pattern :: rx where
  "sudo_pattern = seqs [Alt Beginning (Seq (One (\<lambda>c. c \<in> set '';&|'')) (Many wide_space)), lit ''sudo'', Edge]"

definition service_restart_pattern :: rx where
  "service_restart_pattern = seqs [Edge, lit ''systemctl'', spaces, Alt (lit ''stop'') (lit ''restart''), Edge]"

definition risk_rules :: "risk_rule list" where
  "risk_rules =
    [\<lparr>rr_name = ''git-force-push'', rr_pattern = force_push_pattern, rr_level = ''high'',
       rr_description = ''irreversible remote history rewrite''\<rparr>,
     \<lparr>rr_name = ''git-hard-reset'', rr_pattern = hard_reset_pattern, rr_level = ''high'',
       rr_description = ''discards local work irreversibly''\<rparr>,
     \<lparr>rr_name = ''git-clean-force'', rr_pattern = clean_force_pattern, rr_level = ''medium'',
       rr_description = ''irreversibly deletes untracked files''\<rparr>,
     \<lparr>rr_name = ''recursive-delete'', rr_pattern = recursive_delete_pattern, rr_level = ''high'',
       rr_description = ''unrecoverable recursive deletion''\<rparr>,
     \<lparr>rr_name = ''sudo'', rr_pattern = sudo_pattern, rr_level = ''medium'', rr_description = ''elevated privilege''\<rparr>,
     \<lparr>rr_name = ''service-restart'', rr_pattern = service_restart_pattern, rr_level = ''medium'',
       rr_description = ''affects a running service''\<rparr>]"

definition classify_command :: "string \<Rightarrow> risk_rule option" where
  "classify_command command = find (\<lambda>r. pattern_search (rr_pattern r) command) risk_rules"

section \<open>Held commands\<close>

datatype lean = LeanApprove | LeanReject | LeanNeutral

fun lean_value :: "lean \<Rightarrow> string" where
  "lean_value LeanApprove = ''approve''"
| "lean_value LeanReject = ''reject''"
| "lean_value LeanNeutral = ''neutral''"

record review_item =
  rv_source :: string
  rv_claim :: string
  rv_leans :: lean

datatype command_status = CommandPending | CommandApproved | CommandRejected

fun command_status_value :: "command_status \<Rightarrow> string" where
  "command_status_value CommandPending = ''pending''"
| "command_status_value CommandApproved = ''approved''"
| "command_status_value CommandRejected = ''rejected''"

record command_hold =
  ch_id :: ident
  ch_command :: string
  ch_cwd :: string
  ch_reason :: "string option"
  ch_session :: "string option"
  ch_rule :: string
  ch_level :: string
  ch_evidence :: "review_item list"
  ch_verdict :: lean
  ch_status :: command_status
  ch_created :: instant
  ch_decided_at :: "instant option"
  ch_decided_by :: "string option"

definition command_key :: "command_hold \<Rightarrow> ident option" where
  "command_key h = Some (ch_id h)"

definition holds_by_rule :: "string \<Rightarrow> command_hold store \<Rightarrow> command_hold list" where
  "holds_by_rule rule s = filter (\<lambda>h. ch_rule h = rule) (mem s)"

definition decide_hold :: "ident \<Rightarrow> bool \<Rightarrow> string \<Rightarrow> instant \<Rightarrow> command_hold store \<Rightarrow> command_hold store" where
  "decide_hold k approved who now s =
     update_by ch_id command_key k (\<lambda>h. h\<lparr>ch_status := (if approved then CommandApproved else CommandRejected),
       ch_decided_at := Some now, ch_decided_by := Some who\<rparr>) s"

section \<open>Evidence and verdict\<close>

type_synonym git_run = "string list \<Rightarrow> string \<Rightarrow> string option"

definition history_evidence :: "string \<Rightarrow> command_hold store \<Rightarrow> review_item option" where
  "history_evidence rule s =
     (let decided = filter (\<lambda>h. ch_status h \<in> {CommandApproved, CommandRejected}) (holds_by_rule rule s);
          approved = length (filter (\<lambda>h. ch_status h = CommandApproved) decided);
          rejected = length decided - approved
      in if decided = [] then None
         else Some \<lparr>rv_source = ''history'',
           rv_claim = show_nat approved @ '' approved / '' @ show_nat rejected @ '' rejected prior '' @ quoted rule @ '' decision(s)'',
           rv_leans = (if approved < rejected then LeanReject else if rejected < approved then LeanApprove else LeanNeutral)\<rparr>)"

definition uncommitted_changes :: "git_run \<Rightarrow> string \<Rightarrow> review_item option" where
  "uncommitted_changes git cwd =
     map_option (\<lambda>out. if strip_text out \<noteq> []
         then \<lparr>rv_source = ''situational'', rv_claim = ''uncommitted changes present in the working tree'', rv_leans = LeanReject\<rparr>
         else \<lparr>rv_source = ''situational'', rv_claim = ''working tree is clean (no uncommitted changes)'', rv_leans = LeanNeutral\<rparr>)
       (git [''git'', ''status'', ''--porcelain''] cwd)"

text \<open>The second number of \<open>^\s*(\d+)\s+(\d+)\s*$\<close>.\<close>

definition remote_count :: "string \<Rightarrow> nat option" where
  "remote_count out =
     (let s1 = dropWhile wide_space out; s2 = dropWhile is_digit s1; s3 = dropWhile wide_space s2; ahead = takeWhile is_digit s3
      in if s1 \<noteq> s2 \<and> s2 \<noteq> s3 \<and> ahead \<noteq> [] \<and> dropWhile wide_space (dropWhile is_digit s3) = [] then Some (read_nat ahead) else None)"

definition force_push_would_discard :: "git_run \<Rightarrow> string \<Rightarrow> review_item option" where
  "force_push_would_discard git cwd =
     (case git [''git'', ''rev-parse'', ''--abbrev-ref'', ''--symbolic-full-name'', [CHR 0x40, CHR 0x7B] @ ''u'' @ [CHR 0x7D]] cwd of
        None \<Rightarrow> None
      | Some out \<Rightarrow>
         (let upstream = strip_text out in
          (case Option.bind (git [''git'', ''rev-list'', ''--left-right'', ''--count'', ''HEAD...'' @ upstream] cwd) remote_count of
             None \<Rightarrow> None
           | Some ahead \<Rightarrow> Some
              (if 0 < ahead
               then \<lparr>rv_source = ''situational'', rv_claim = ''remote '' @ quoted upstream @ '' has '' @ show_nat ahead @
                   '' commit(s) this force-push would discard'', rv_leans = LeanReject\<rparr>
               else \<lparr>rv_source = ''situational'', rv_claim = ''remote '' @ quoted upstream @
                   '' has no commits this force-push would discard'', rv_leans = LeanNeutral\<rparr>))))"

definition situational_evidence :: "git_run \<Rightarrow> string \<Rightarrow> string \<Rightarrow> review_item list" where
  "situational_evidence git rule cwd =
     (case uncommitted_changes git cwd of None \<Rightarrow> [] | Some x \<Rightarrow> [x]) @
     (if rule = ''git-force-push'' then (case force_push_would_discard git cwd of None \<Rightarrow> [] | Some x \<Rightarrow> [x]) else [])"

definition rule_evidence :: "risk_rule \<Rightarrow> review_item" where
  "rule_evidence r = \<lparr>rv_source = ''policy_rule'',
     rv_claim = ''matched '' @ quoted (rr_name r) @ '' ('' @ rr_level r @ '' risk): '' @ rr_description r,
     rv_leans = (if rr_level r = ''high'' then LeanReject else LeanNeutral)\<rparr>"

definition review_verdict :: "review_item list \<Rightarrow> lean" where
  "review_verdict es =
     (let leans = List.map rv_leans es
      in if LeanReject \<in> set leans then LeanReject else if LeanApprove \<in> set leans then LeanApprove else LeanReject)"

definition assess_command :: "git_run \<Rightarrow> risk_rule \<Rightarrow> string \<Rightarrow> command_hold store \<Rightarrow> review_item list \<times> lean" where
  "assess_command git r cwd s =
     (let es = [rule_evidence r] @ (case history_evidence (rr_name r) s of None \<Rightarrow> [] | Some x \<Rightarrow> [x]) @ situational_evidence git (rr_name r) cwd
      in (es, review_verdict es))"

section \<open>Routes\<close>

record 'w coding =
  ca_holds :: "command_hold store"
  ca_ops :: "'w ops"

datatype coding_request =
    PostCommand string string "string option" "string option"
  | GetCommands "string option"
  | GetCommand ident
  | PostDecision ident bool

datatype coding_answer =
    CodingUnauthorized
  | CodingUnavailable
  | AutoAllow
  | CommandHeld command_hold
  | Commands "command_hold list"
  | OneCommand command_hold
  | CommandNotFound
  | AlreadyDecided string

definition coding_enabled :: "env \<Rightarrow> bool" where
  "coding_enabled env = is_on (env_bool env ''RMT_CODING_AGENT_ENABLED'' False False)"

definition propose_command ::
  "git_run \<Rightarrow> string \<Rightarrow> string \<Rightarrow> string option \<Rightarrow> string option \<Rightarrow> 'w coding \<Rightarrow> coding_answer \<times> 'w coding" where
  "propose_command git command cwd reason session s =
     (case classify_command command of
        None \<Rightarrow> (AutoAllow, s)
      | Some r \<Rightarrow>
         (let (es, verdict) = assess_command git r cwd (ca_holds s);
              (k, gov) = fresh_id (op_gov (ca_ops s));
              h = \<lparr>ch_id = k, ch_command = command, ch_cwd = cwd, ch_reason = reason, ch_session = session, ch_rule = rr_name r,
                ch_level = rr_level r, ch_evidence = es, ch_verdict = verdict, ch_status = CommandPending, ch_created = g_now gov,
                ch_decided_at = None, ch_decided_by = None\<rparr>
          in (CommandHeld h, s\<lparr>ca_holds := save command_key h (ca_holds s),
                ca_ops := notify_held ''coding_agent_command'' (rr_name r) (Some k)
                  (repr_text command @ '' in '' @ cwd @ '' (verdict: '' @ lean_value verdict @ '')'') ''coding_agent'' ((ca_ops s)\<lparr>op_gov := gov\<rparr>)\<rparr>)))"

definition decide_command :: "ident \<Rightarrow> bool \<Rightarrow> string \<Rightarrow> 'w coding \<Rightarrow> coding_answer \<times> 'w coding" where
  "decide_command k approved who s =
     (case get_by ch_id k (ca_holds s) of
        None \<Rightarrow> (CommandNotFound, s)
      | Some h \<Rightarrow>
          if ch_status h \<noteq> CommandPending then (AlreadyDecided (command_status_value (ch_status h)), s)
          else (let s1 = s\<lparr>ca_holds := decide_hold k approved who (g_now (op_gov (ca_ops s))) (ca_holds s)\<rparr>
                in (case get_by ch_id k (ca_holds s1) of Some h1 \<Rightarrow> (OneCommand h1, s1) | None \<Rightarrow> (CommandNotFound, s1))))"

fun coding_route :: "git_run \<Rightarrow> string \<Rightarrow> coding_request \<Rightarrow> 'w coding \<Rightarrow> coding_answer \<times> 'w coding" where
  "coding_route git who (PostCommand command cwd reason session) s = propose_command git command cwd reason session s"
| "coding_route git who (GetCommands status) s =
     (Commands (case status of None \<Rightarrow> mem (ca_holds s)
        | Some x \<Rightarrow> filter (\<lambda>h. command_status_value (ch_status h) = x) (mem (ca_holds s))), s)"
| "coding_route git who (GetCommand k) s =
     ((case get_by ch_id k (ca_holds s) of None \<Rightarrow> CommandNotFound | Some h \<Rightarrow> OneCommand h), s)"
| "coding_route git who (PostDecision k approved) s = decide_command k approved who s"

definition handle_coding ::
  "deployment \<Rightarrow> git_run \<Rightarrow> credentials \<Rightarrow> coding_request \<Rightarrow> 'w coding \<Rightarrow> coding_answer \<times> 'w coding" where
  "handle_coding D git c q s =
     (case resolve_operator (dp_credential D) (dp_env D) (cr_authorization c) (cr_api_key c) of
        Misconfigured \<Rightarrow> (CodingUnavailable, s)
      | Unauthenticated \<Rightarrow> (CodingUnauthorized, s)
      | InvalidToken \<Rightarrow> (CodingUnauthorized, s)
      | Operator who \<Rightarrow> if coding_enabled (dp_env D) then coding_route git who q s else (CodingUnavailable, s))"

end
