(* ===== verification/Coding_Properties.thy ===== *)
theory Coding_Properties
  imports Coding_Agent Agent_Sample
begin

text \<open>
  What the review of commands shows: the matcher agrees with a declarative reading of the patterns, commands
  of the dangerous shapes are always held, and a held command is decided once, by an authenticated operator.
\<close>

section \<open>What a pattern means\<close>

text \<open>A pattern occurs in \<open>before @ matched @ after\<close>.\<close>

fun occurs :: "rx \<Rightarrow> string \<Rightarrow> string \<Rightarrow> string \<Rightarrow> bool" where
  "occurs Nothing a m b \<longleftrightarrow> m = []"
| "occurs (One p) a m b \<longleftrightarrow> (\<exists>c. m = [c] \<and> p c)"
| "occurs (Many p) a m b \<longleftrightarrow> (\<forall>c\<in>set m. p c)"
| "occurs Edge a m b \<longleftrightarrow> m = [] \<and> word_edge a b"
| "occurs Beginning a m b \<longleftrightarrow> m = [] \<and> a = []"
| "occurs (Seq r t) a m b \<longleftrightarrow> (\<exists>m1 m2. m = m1 @ m2 \<and> occurs r a m1 (m2 @ b) \<and> occurs t (a @ m1) m2 b)"
| "occurs (Alt r t) a m b \<longleftrightarrow> occurs r a m b \<or> occurs t a m b"

definition pattern_occurs :: "rx \<Rightarrow> string \<Rightarrow> bool" where
  "pattern_occurs r s \<longleftrightarrow> (\<exists>a m b. s = a @ m @ b \<and> occurs r a m b)"

lemma neq_Nil_conv_mem: "xs \<noteq> [] \<longleftrightarrow> (\<exists>x. x \<in> set xs)"
  by (cases xs) auto

lemma takeWhile_prefix:
  "n \<le> length (takeWhile p t) \<longleftrightarrow> (\<exists>m b. t = m @ b \<and> n = length m \<and> (\<forall>c\<in>set m. p c))"
proof
  assume n: "n \<le> length (takeWhile p t)"
  have "t = take n (takeWhile p t) @ drop n (takeWhile p t) @ dropWhile p t" by (metis append.assoc append_take_drop_id takeWhile_dropWhile_id)
  moreover have "\<forall>c\<in>set (take n (takeWhile p t)). p c" by (auto dest!: in_set_takeD set_takeWhileD)
  ultimately show "\<exists>m b. t = m @ b \<and> n = length m \<and> (\<forall>c\<in>set m. p c)" using n by (metis append.assoc length_take min.absorb2)
next
  show "n \<le> length (takeWhile p t)" if "\<exists>m b. t = m @ b \<and> n = length m \<and> (\<forall>c\<in>set m. p c)"
    using that by (auto simp: takeWhile_append2)
qed

lemma ends_iff: "j \<in> set (ends r (a @ t) (length a)) \<longleftrightarrow> (\<exists>m b. t = m @ b \<and> j = length a + length m \<and> occurs r a m b)"
proof (induction r arbitrary: a t j)
  case (One p)
  have "(\<exists>m b. t = m @ b \<and> j = length a + length m \<and> (\<exists>c. m = [c] \<and> p c)) \<longleftrightarrow> (\<exists>c b. t = c # b \<and> j = Suc (length a) \<and> p c)"
    by (metis add_Suc_right append_Cons append_Nil add_0_right list.size(3) list.size(4) One_nat_def)
  then show ?case by (cases t) auto
next
  case (Many p)
  have "j \<in> set (ends (Many p) (a @ t) (length a)) \<longleftrightarrow> length a \<le> j \<and> j - length a \<le> length (takeWhile p t)" by auto
  also have "\<dots> \<longleftrightarrow> length a \<le> j \<and> (\<exists>m b. t = m @ b \<and> j - length a = length m \<and> (\<forall>c\<in>set m. p c))" by (simp add: takeWhile_prefix)
  also have "\<dots> \<longleftrightarrow> (\<exists>m b. t = m @ b \<and> j = length a + length m \<and> (\<forall>c\<in>set m. p c))" by auto
  finally show ?case by simp
next
  case (Seq r u)
  have u: "j \<in> set (ends u (a @ t) (length a + length m)) \<longleftrightarrow> (\<exists>m2 b2. b = m2 @ b2 \<and> j = length a + length m + length m2 \<and> occurs u (a @ m) m2 b2)"
    if "t = m @ b" for m b
    using Seq.IH(2)[of j "a @ m" b] that by simp
  have "j \<in> set (ends (Seq r u) (a @ t) (length a)) \<longleftrightarrow> (\<exists>k. k \<in> set (ends r (a @ t) (length a)) \<and> j \<in> set (ends u (a @ t) k))" by auto
  also have "\<dots> \<longleftrightarrow> (\<exists>m b. t = m @ b \<and> occurs r a m b \<and> j \<in> set (ends u (a @ t) (length a + length m)))"
    unfolding Seq.IH(1) by blast
  also have "\<dots> \<longleftrightarrow> (\<exists>m b m2 b2. t = m @ b \<and> occurs r a m b \<and> b = m2 @ b2 \<and> j = length a + length m + length m2 \<and> occurs u (a @ m) m2 b2)"
    using u by blast
  also have "\<dots> \<longleftrightarrow> (\<exists>m b. t = m @ b \<and> j = length a + length m \<and> occurs (Seq r u) a m b)" (is "?l \<longleftrightarrow> ?r")
  proof
    assume ?l
    then obtain m m2 b2 where "t = m @ m2 @ b2" "occurs r a m (m2 @ b2)" "j = length a + length m + length m2" "occurs u (a @ m) m2 b2" by blast
    then show ?r by (intro exI[of _ "m @ m2"] exI[of _ b2]) auto
  next
    assume ?r
    then obtain m1 m2 b where "t = m1 @ m2 @ b" "j = length a + length m1 + length m2" "occurs r a m1 (m2 @ b)" "occurs u (a @ m1) m2 b"
      by auto
    then show ?l by blast
  qed
  finally show ?case .
qed auto

lemma pattern_search_iff: "pattern_search r s \<longleftrightarrow> pattern_occurs r s"
proof -
  have "ends r s i \<noteq> [] \<longleftrightarrow> (\<exists>m b. drop i s = m @ b \<and> occurs r (take i s) m b)" if "i \<le> length s" for i
  proof -
    have "length (take i s) = i" using that by simp
    then have "j \<in> set (ends r s i) \<longleftrightarrow> (\<exists>m b. drop i s = m @ b \<and> j = i + length m \<and> occurs r (take i s) m b)" for j
      using ends_iff[of j r "take i s" "drop i s"] by simp
    then show ?thesis unfolding neq_Nil_conv_mem by blast
  qed
  then have "pattern_search r s \<longleftrightarrow> (\<exists>i\<le>length s. \<exists>m b. drop i s = m @ b \<and> occurs r (take i s) m b)"
    unfolding pattern_search_def list_ex_iff set_upt Bex_def atLeastLessThan_iff less_Suc_eq_le by blast
  also have "\<dots> \<longleftrightarrow> pattern_occurs r s" unfolding pattern_occurs_def
    by (metis append_eq_conv_conj append_take_drop_id le_add1 length_append)
  finally show ?thesis .
qed

lemma classify_command_None: "classify_command s = None \<longleftrightarrow> (\<forall>r\<in>set risk_rules. \<not> pattern_occurs (rr_pattern r) s)"
  by (auto simp: classify_command_def find_None_iff pattern_search_iff)

lemma occurs_lit: "occurs (lit w) a m b \<longleftrightarrow> m = w"
proof (induction w arbitrary: a m)
  case (Cons c w)
  then show ?case by (auto simp: lit_def)
qed (simp add: lit_def)

lemma seqs_simps [simp]: "seqs [] = Nothing" "seqs (r # rs) = Seq r (seqs rs)"
  by (simp_all add: seqs_def)

text \<open>A sequence occurs when each of its patterns occurs on its part.\<close>

fun parts :: "rx list \<Rightarrow> string \<Rightarrow> string list \<Rightarrow> string \<Rightarrow> bool" where
  "parts [] a [] b = True"
| "parts (r # rs) a (m # ms) b = (occurs r a m (concat ms @ b) \<and> parts rs (a @ m) ms b)"
| "parts _ a _ b = False"

lemma parts_occur: "parts rs a ms b \<Longrightarrow> occurs (seqs rs) a (concat ms) b"
  by (induction rs a ms b rule: parts.induct) auto

section \<open>Shapes of commands that are always held\<close>

definition edge_before :: "string \<Rightarrow> bool" where
  "edge_before pre \<longleftrightarrow> pre = [] \<or> \<not> word_char (last pre)"

definition edge_after :: "string \<Rightarrow> bool" where
  "edge_after post \<longleftrightarrow> post = [] \<or> \<not> word_char (hd post)"

text \<open>\<open>rm\<close> with an option that holds the letter \<open>r\<close> or \<open>R\<close>, in one simple command.\<close>

definition recursive_delete_text :: "string \<Rightarrow> bool" where
  "recursive_delete_text s \<longleftrightarrow> (\<exists>pre mid xs c ys post. s = pre @ ''rm'' @ mid @ '' -'' @ xs @ [c] @ ys @ post \<and> edge_before pre \<and>
     edge_after mid \<and> (\<forall>x\<in>set mid. segment_char x) \<and> (\<forall>x\<in>set (xs @ ys). is_alpha x) \<and> c \<in> set ''rR'' \<and> edge_after post)"

text \<open>\<open>git\<close>, later the word \<open>push\<close>, later \<open>--force\<close>, in one simple command.\<close>

definition force_push_text :: "string \<Rightarrow> bool" where
  "force_push_text s \<longleftrightarrow> (\<exists>pre a b post. s = pre @ ''git'' @ a @ ''push'' @ b @ ''--force'' @ post \<and> edge_before pre \<and>
     a \<noteq> [] \<and> edge_after a \<and> edge_before a \<and> edge_after b \<and> (\<forall>x\<in>set (a @ b). segment_char x) \<and> edge_after post)"

text \<open>\<open>sudo\<close> as the first word of a command.\<close>

definition sudo_text :: "string \<Rightarrow> bool" where
  "sudo_text s \<longleftrightarrow> (\<exists>pre post. s = pre @ ''sudo'' @ post \<and> edge_after post \<and>
     (pre = [] \<or> (\<exists>p c sp. pre = p @ [c] @ sp \<and> c \<in> set '';&|'' \<and> (\<forall>x\<in>set sp. wide_space x))))"

lemma is_alpha_word: "is_alpha c \<Longrightarrow> word_char c"
  by (simp add: word_char_def)

lemma word_edge_out: "edge_before a \<Longrightarrow> b \<noteq> [] \<Longrightarrow> word_char (hd b) \<Longrightarrow> word_edge a b"
  by (auto simp: edge_before_def word_edge_def)

lemma word_edge_in: "a \<noteq> [] \<Longrightarrow> word_char (last a) \<Longrightarrow> edge_after b \<Longrightarrow> word_edge a b"
  by (auto simp: edge_after_def word_edge_def)

lemma edge_after_append: "edge_after m \<Longrightarrow> edge_after b \<Longrightarrow> edge_after (m @ b)"
  by (cases m) (auto simp: edge_after_def)

lemma letters: "word_char CHR ''r''" "word_char CHR ''R''" "word_char CHR ''m''" "word_char CHR ''g''" "word_char CHR ''t''" "word_char CHR ''p''" "word_char CHR ''h''"
  "word_char CHR ''e''" "word_char CHR ''o''" "\<not> word_char CHR '' ''" "\<not> word_char CHR ''-''" "wide_space CHR '' ''"
  by code_simp+

lemma recursive_delete_occurs:
  assumes "recursive_delete_text s"
  shows "pattern_occurs recursive_delete_pattern s"
proof -
  obtain pre mid xs c ys post where s: "s = pre @ ''rm'' @ mid @ '' -'' @ xs @ [c] @ ys @ post" and p: "edge_before pre"
    "edge_after mid" "\<forall>x\<in>set mid. segment_char x" "\<forall>x\<in>set (xs @ ys). is_alpha x" "c \<in> set ''rR''" "edge_after post"
    using assms unfolding recursive_delete_text_def by blast
  have last: "word_char (last (c # ys))"
    using p(4,5) by (cases "ys = []") (auto simp: letters dest: is_alpha_word dest!: last_in_set)
  have o: "occurs (short_option ''rR'') a (''-'' @ xs @ [c] @ ys) b" for a b
    using parts_occur[of "[lit ''-'', Many is_alpha, One (\<lambda>c. c \<in> set ''rR''), Many is_alpha]" a "[''-'', xs, [c], ys]" b] p(4,5)
    by (simp add: short_option_def occurs_lit del: seqs_simps)
  have e: "word_edge (a @ '' -'' @ xs @ [c] @ ys) post" for a
    using last p(6) by (intro word_edge_in) auto
  have opt: "occurs (seqs [One wide_space, short_option ''rR'', Edge]) a ('' -'' @ xs @ [c] @ ys) post" for a
    using parts_occur[of "[One wide_space, short_option ''rR'', Edge]" a "['' '', ''-'' @ xs @ [c] @ ys, []]" post] o e[of a]
    by (simp add: letters del: seqs_simps)
  have "word_edge pre (''rm'' @ mid @ '' -'' @ xs @ [c] @ ys @ post)"
    using p(1) by (intro word_edge_out) (auto simp: letters)
  moreover have "word_edge (pre @ ''rm'') (mid @ '' -'' @ xs @ [c] @ ys @ post)"
    using edge_after_append[OF p(2), of "'' -'' @ xs @ [c] @ ys @ post"] by (intro word_edge_in) (auto simp: letters edge_after_def)
  ultimately have "occurs recursive_delete_pattern pre (''rm'' @ mid @ '' -'' @ xs @ [c] @ ys) post"
    unfolding recursive_delete_pattern_def
    using parts_occur[of "[Edge, lit ''rm'', Edge, Many segment_char, Alt (seqs [One wide_space, short_option ''rR'', Edge])
         (seqs [One wide_space, lit ''--recursive'', Edge])]" pre "[[], ''rm'', [], mid, '' -'' @ xs @ [c] @ ys]" post] p(3) opt[of "pre @ ''rm'' @ mid"]
    by (simp add: occurs_lit del: seqs_simps)
  then show ?thesis unfolding pattern_occurs_def s by (intro exI[of _ pre] exI[of _ "''rm'' @ mid @ '' -'' @ xs @ [c] @ ys"] exI[of _ post]) simp
qed

lemma force_push_occurs:
  assumes "force_push_text s"
  shows "pattern_occurs force_push_pattern s"
proof -
  obtain pre a b post where s: "s = pre @ ''git'' @ a @ ''push'' @ b @ ''--force'' @ post" and p: "edge_before pre"
    "a \<noteq> []" "edge_after a" "edge_before a" "edge_after b" "\<forall>x\<in>set (a @ b). segment_char x" "edge_after post"
    using assms unfolding force_push_text_def by blast
  have e: "word_edge (x @ ''--force'') post" for x
    using p(7) by (intro word_edge_in) (auto simp: letters)
  have opt: "occurs (seqs [lit ''--force'', Alt (lit ''-with-lease'') Nothing, Edge]) x ''--force'' post" for x
    using parts_occur[of "[lit ''--force'', Alt (lit ''-with-lease'') Nothing, Edge]" x "[''--force'', [], []]" post] e[of x]
    by (simp add: occurs_lit del: seqs_simps)
  have "word_edge pre (''git'' @ a @ ''push'' @ b @ ''--force'' @ post)" "word_edge (pre @ ''git'' @ a) (''push'' @ b @ ''--force'' @ post)"
    using p(1,2,4) by (auto intro!: word_edge_out simp: letters edge_before_def)
  moreover have "word_edge (pre @ ''git'') (a @ ''push'' @ b @ ''--force'' @ post)" "word_edge (pre @ ''git'' @ a @ ''push'') (b @ ''--force'' @ post)"
    using p(2,3) edge_after_append[OF p(5), of "''--force'' @ post"] by (auto intro!: word_edge_in simp: letters edge_after_def)
  ultimately have "occurs force_push_pattern pre (''git'' @ a @ ''push'' @ b @ ''--force'') post"
    unfolding force_push_pattern_def
    using parts_occur[of "[Edge, lit ''git'', Edge, Many segment_char, Edge, lit ''push'', Edge, Many segment_char,
     Alt (seqs [lit ''--force'', Alt (lit ''-with-lease'') Nothing, Edge]) (seqs [One wide_space, short_option ''f'', Edge])]"
       pre "[[], ''git'', [], a, [], ''push'', [], b, ''--force'']" post] p(6) opt[of "pre @ ''git'' @ a @ ''push'' @ b"]
    by (simp add: occurs_lit del: seqs_simps)
  then show ?thesis unfolding pattern_occurs_def s by (intro exI[of _ pre] exI[of _ "''git'' @ a @ ''push'' @ b @ ''--force''"] exI[of _ post]) simp
qed

lemma sudo_occurs:
  assumes "sudo_text s"
  shows "pattern_occurs sudo_pattern s"
proof -
  obtain pre post where s: "s = pre @ ''sudo'' @ post" "edge_after post"
    "pre = [] \<or> (\<exists>p c sp. pre = p @ [c] @ sp \<and> c \<in> set '';&|'' \<and> (\<forall>x\<in>set sp. wide_space x))"
    using assms unfolding sudo_text_def by blast
  have "\<exists>p m. pre = p @ m \<and> occurs (Alt Beginning (Seq (One (\<lambda>c. c \<in> set '';&|'')) (Many wide_space))) p m (''sudo'' @ post)"
  proof (cases "pre = []")
    case False
    then obtain p c sp where "pre = p @ [c] @ sp" "c \<in> set '';&|''" "\<forall>x\<in>set sp. wide_space x" using s(3) by blast
    moreover then have "occurs (Seq (One (\<lambda>c. c \<in> set '';&|'')) (Many wide_space)) p ([c] @ sp) (''sudo'' @ post)"
      unfolding occurs.simps by blast
    ultimately show ?thesis unfolding occurs.simps(7) by blast
  qed auto
  then obtain p m where m: "pre = p @ m" "occurs (Alt Beginning (Seq (One (\<lambda>c. c \<in> set '';&|'')) (Many wide_space))) p m (''sudo'' @ post)"
    by blast
  have "word_edge (pre @ ''sudo'') post" using s(2) by (intro word_edge_in) (auto simp: letters)
  then have "occurs sudo_pattern p (m @ ''sudo'') post" unfolding sudo_pattern_def
    using parts_occur[of "[Alt Beginning (Seq (One (\<lambda>c. c \<in> set '';&|'')) (Many wide_space)), lit ''sudo'', Edge]" p "[m, ''sudo'', []]" post] m
    by (simp add: occurs_lit del: seqs_simps occurs.simps(6,7))
  then show ?thesis unfolding pattern_occurs_def s(1) m(1) by (intro exI[of _ p] exI[of _ "m @ ''sudo''"] exI[of _ post]) simp
qed

section \<open>What is held\<close>

lemma rules_listed: "rr_pattern ` set risk_rules = {force_push_pattern, hard_reset_pattern, clean_force_pattern, recursive_delete_pattern,
     sudo_pattern, service_restart_pattern}"
  by (simp add: risk_rules_def)

lemma dangerous_classified: "force_push_text s \<or> recursive_delete_text s \<or> sudo_text s \<Longrightarrow> classify_command s \<noteq> None"
  using rules_listed force_push_occurs recursive_delete_occurs sudo_occurs unfolding classify_command_None by (metis (no_types, lifting) imageE insert_iff)

lemma assess_command_high:
  assumes "assess_command git r cwd s = (es, v)" and "rr_level r = ''high''"
  shows "v = LeanReject"
  using assms by (auto simp: assess_command_def review_verdict_def rule_evidence_def Let_def)

lemma verdict_approve: "review_verdict es = LeanApprove \<Longrightarrow> LeanReject \<notin> rv_leans ` set es \<and> LeanApprove \<in> rv_leans ` set es"
  by (auto simp: review_verdict_def Let_def split: if_splits)

lemma propose_command_cases:
  assumes "propose_command git cmd cwd reason session s = (x, s')"
  obtains "classify_command cmd = None" "x = AutoAllow" "s' = s"
  | r h where "classify_command cmd = Some r" "x = CommandHeld h" "ca_holds s' = save command_key h (ca_holds s)" "ch_command h = cmd"
      "ch_rule h = rr_name r" "ch_level h = rr_level r" "ch_status h = CommandPending" "ch_decided_by h = None"
      "(ch_evidence h, ch_verdict h) = assess_command git r cwd (ca_holds s)"
      "ch_id h = fst (fresh_id (op_gov (ca_ops s)))" "op_gov (ca_ops s') = snd (fresh_id (op_gov (ca_ops s)))"
proof (cases "classify_command cmd")
  case None
  then show thesis using that(1) assms by (simp add: propose_command_def)
next
  case (Some r)
  then show thesis using that(2)[OF Some] assms
    by (auto simp: propose_command_def Let_def fresh_id_def notify_held_def sending_def split: prod.splits)
qed

text \<open>C34: A proposed command is let through without a hold only by an authenticated request to an enabled surface, and
  then no pattern of a rule occurs in it and nothing changes. A command that deletes recursively, forces a push or runs
  \<open>sudo\<close> in the shapes spelled out here is never let through: it leaves one pending hold on the disk and in memory, with the
  rule's level and a verdict that is \<open>reject\<close> when the level is high and \<open>approve\<close> only when some evidence approves and none rejects.\<close>

theorem dangerous_command_is_held:
  assumes "handle_coding D git c (PostCommand cmd cwd reason session) s = (x, s')"
  shows "(x = AutoAllow \<longrightarrow> s' = s \<and> coding_enabled (dp_env D) \<and> \<not> (\<exists>r\<in>set risk_rules. pattern_occurs (rr_pattern r) cmd)) \<and>
     (recursive_delete_text cmd \<or> force_push_text cmd \<or> sudo_text cmd \<longrightarrow>
        x \<in> {CodingUnauthorized, CodingUnavailable} \<and> s' = s \<or>
        (\<exists>h. x = CommandHeld h \<and> ca_holds s' = save command_key h (ca_holds s) \<and> ch_command h = cmd \<and> ch_status h = CommandPending \<and>
           (ch_level h = ''high'' \<longrightarrow> ch_verdict h = LeanReject) \<and>
           (ch_verdict h = LeanApprove \<longrightarrow> LeanReject \<notin> rv_leans ` set (ch_evidence h) \<and> LeanApprove \<in> rv_leans ` set (ch_evidence h))))"
proof (cases "x \<in> {CodingUnauthorized, CodingUnavailable}")
  case True
  then show ?thesis using assms
    by (auto simp: handle_coding_def propose_command_def Let_def split: auth_result.splits if_splits option.splits prod.splits)
next
  case False
  then have p: "propose_command git cmd cwd reason session s = (x, s')" "coding_enabled (dp_env D)"
    using assms by (auto simp: handle_coding_def split: auth_result.splits if_splits)
  from p(1) show ?thesis
  proof (cases rule: propose_command_cases)
    case 1
    then show ?thesis using p(2) dangerous_classified[of cmd] classify_command_None[of cmd] by auto
  next
    case (2 r h)
    then show ?thesis using assess_command_high[OF sym[OF 2(9)]] verdict_approve[of "ch_evidence h"]
      by (auto simp: assess_command_def Let_def)
  qed
qed

definition coding_deployment :: deployment where
  "coding_deployment = sample_deployment\<lparr>dp_env := [''RMT_OPERATOR_TOKENS'' \<mapsto> ''alice:t1, bob:t2'', ''RMT_CODING_AGENT_ENABLED'' \<mapsto> ''1'']\<rparr>"

definition coding_start :: "nat coding" where
  "coding_start = \<lparr>ca_holds = empty_store Sqlite, ca_ops = sample_ops\<rparr>"

lemma coding_operator:
  "resolve_operator (dp_credential coding_deployment) (dp_env coding_deployment) (cr_authorization sample_credentials)
     (cr_api_key sample_credentials) = Operator ''alice''" "coding_enabled (dp_env coding_deployment)"
proof -
  have "resolve_operator None [''RMT_OPERATOR_TOKENS'' \<mapsto> ''alice:t1, bob:t2'', ''RMT_CODING_AGENT_ENABLED'' \<mapsto> ''1''] (Some ''Bearer t1'') None
      = Operator ''alice''" "coding_enabled [''RMT_OPERATOR_TOKENS'' \<mapsto> ''alice:t1, bob:t2'', ''RMT_CODING_AGENT_ENABLED'' \<mapsto> ''1'']"
    by code_simp+
  then show "resolve_operator (dp_credential coding_deployment) (dp_env coding_deployment) (cr_authorization sample_credentials)
     (cr_api_key sample_credentials) = Operator ''alice''" "coding_enabled (dp_env coding_deployment)"
    by (simp_all add: coding_deployment_def sample_deployment_def sample_credentials_def)
qed

lemma coding_answered:
  "handle_coding coding_deployment git sample_credentials q s = coding_route git ''alice'' q s"
  by (simp add: handle_coding_def coding_operator)

lemma sample_delete: "recursive_delete_text ''cd x; rm -v -fr y''"
proof -
  have "edge_before ''cd x; '' \<and> edge_after '' -v'' \<and> (\<forall>x\<in>set '' -v''. segment_char x) \<and> is_alpha CHR ''f'' \<and> edge_after '' y''"
    by code_simp
  then show ?thesis unfolding recursive_delete_text_def
    by (intro exI[of _ "''cd x; ''"] exI[of _ "'' -v''"] exI[of _ "''f''"] exI[of _ "CHR ''r''"] exI[of _ "[]"] exI[of _ "'' y''"]) simp
qed

lemma dangerous_command_is_held_witness:
  "\<exists>h s'. handle_coding coding_deployment (\<lambda>args cwd. None) sample_credentials (PostCommand ''cd x; rm -v -fr y'' ''/w'' None None) coding_start
     = (CommandHeld h, s') \<and> ch_status h = CommandPending \<and> mem (ca_holds s') = [h]"
proof -
  obtain x s' where run: "handle_coding coding_deployment (\<lambda>args cwd. None) sample_credentials (PostCommand ''cd x; rm -v -fr y'' ''/w'' None None)
      coding_start = (x, s')" by fastforce
  have "x \<notin> {CodingUnauthorized, CodingUnavailable}"
    using run by (auto simp: coding_answered propose_command_def Let_def split: option.splits prod.splits)
  then obtain h where "x = CommandHeld h" "ca_holds s' = save command_key h (ca_holds coding_start)" "ch_status h = CommandPending"
    using dangerous_command_is_held[OF run] sample_delete by blast
  then show ?thesis using run by (simp add: coding_start_def empty_store_def)
qed

section \<open>Decisions\<close>

text \<open>The record operations the routes rest on, for lists of holds with distinct ids.\<close>

interpretation commands: keyed_store ch_id "get_by ch_id" "save command_key" "update_by ch_id command_key"
  by (rule keyed_store_durable)

lemma modify_distinct:
  "distinct (List.map ident xs) \<Longrightarrow> modify_first ident k f xs = List.map (\<lambda>x. if ident x = k then f x else x) xs"
  by (induction xs) (auto simp: image_iff intro!: map_idI[symmetric])

definition same_proposal :: "command_hold \<Rightarrow> command_hold \<Rightarrow> bool" where
  "same_proposal h h' \<longleftrightarrow> ch_id h' = ch_id h \<and> ch_command h' = ch_command h \<and> ch_cwd h' = ch_cwd h \<and> ch_rule h' = ch_rule h \<and>
     ch_level h' = ch_level h \<and> ch_evidence h' = ch_evidence h \<and> ch_verdict h' = ch_verdict h \<and> ch_created h' = ch_created h"

text \<open>Every hold is still there, with its proposal, and unchanged when it was decided.\<close>

definition keeps_holds :: "command_hold store \<Rightarrow> command_hold store \<Rightarrow> bool" where
  "keeps_holds s s' \<longleftrightarrow> (\<forall>h\<in>set (mem s). \<exists>h'\<in>set (mem s'). same_proposal h h' \<and> (ch_status h \<noteq> CommandPending \<longrightarrow> h' = h))"

text \<open>Who a hold was decided by: an operator that the configuration lists.\<close>

definition decided_by_operator :: "deployment \<Rightarrow> command_hold \<Rightarrow> bool" where
  "decided_by_operator D h \<longleftrightarrow> (\<exists>who (c :: credentials). ch_decided_by h = Some who \<and>
     resolve_operator (dp_credential D) (dp_env D) (cr_authorization c) (cr_api_key c) = Operator who)"

definition hold_sound :: "deployment \<Rightarrow> command_hold \<Rightarrow> bool" where
  "hold_sound D h \<longleftrightarrow> (\<exists>r. classify_command (ch_command h) = Some r \<and> ch_rule h = rr_name r \<and> ch_level h = rr_level r) \<and>
     (if ch_status h = CommandPending then ch_decided_by h = None else decided_by_operator D h)"

text \<open>A run of the process: requests, whatever the rest of the process does with clock, ids and alerts, and restarts.\<close>

inductive coding_step :: "deployment \<Rightarrow> 'w coding \<Rightarrow> 'w coding \<Rightarrow> bool" for D where
  request: "handle_coding D git c q s = (x, s') \<Longrightarrow> coding_step D s s'"
| elsewhere: "g_uuid (op_gov ops) = g_uuid (op_gov (ca_ops s)) \<Longrightarrow> g_next (op_gov (ca_ops s)) \<le> g_next (op_gov ops) \<Longrightarrow>
    coding_step D s (s\<lparr>ca_ops := ops\<rparr>)"
| restart: "coding_step D s (s\<lparr>ca_holds := reopen (ca_holds s)\<rparr>)"

definition coding_ok :: "deployment \<Rightarrow> 'w coding \<Rightarrow> bool" where
  "coding_ok D s \<longleftrightarrow> backend (ca_holds s) = Sqlite \<and> mirrored command_key (ca_holds s) \<and> distinct (List.map ch_id (mem (ca_holds s))) \<and>
     inj (g_uuid (op_gov (ca_ops s))) \<and> ch_id ` set (mem (ca_holds s)) \<subseteq> g_uuid (op_gov (ca_ops s)) ` {..<g_next (op_gov (ca_ops s))} \<and>
     (\<forall>h\<in>set (mem (ca_holds s)). hold_sound D h)"

lemma keeps_refl: "mem s' = mem s \<Longrightarrow> keeps_holds s s'"
  by (auto simp: keeps_holds_def same_proposal_def)

lemma keeps_trans: "keeps_holds s t \<Longrightarrow> keeps_holds t u \<Longrightarrow> keeps_holds s u"
  unfolding keeps_holds_def same_proposal_def by metis

lemma propose_step:
  assumes "propose_command git cmd cwd reason session s = (x, s')" and ok: "coding_ok D s"
  shows "coding_ok D s' \<and> keeps_holds (ca_holds s) (ca_holds s')"
  using assms(1)
proof (cases rule: propose_command_cases)
  case 1
  then show ?thesis using ok by (simp add: keeps_refl)
next
  case (2 r h)
  let ?g = "op_gov (ca_ops s)"
  have g: "ch_id h = g_uuid ?g (g_next ?g)" "op_gov (ca_ops s') = ?g\<lparr>g_next := Suc (g_next ?g)\<rparr>" using 2(10,11) by (simp_all add: fresh_id_def)
  have "ch_id h \<notin> g_uuid ?g ` {..<g_next ?g}" using ok by (auto simp: coding_ok_def g(1) dest!: injD)
  then have "ch_id h \<notin> ch_id ` set (mem (ca_holds s))" using ok unfolding coding_ok_def by blast
  moreover have "hold_sound D h" using 2 by (simp add: hold_sound_def)
  ultimately have "coding_ok D s'" using ok by (auto simp: coding_ok_def g 2(3) lessThan_Suc)
  then show ?thesis by (auto simp: keeps_holds_def same_proposal_def 2(3))
qed

lemma decide_step:
  fixes c :: credentials
  assumes "decide_command k approved who s = (x, s')" and ok: "coding_ok D s"
    and who: "resolve_operator (dp_credential D) (dp_env D) (cr_authorization c) (cr_api_key c) = Operator who"
  shows "coding_ok D s' \<and> keeps_holds (ca_holds s) (ca_holds s')"
proof (cases "ca_holds s' = ca_holds s \<and> ca_ops s' = ca_ops s")
  case True
  then show ?thesis using ok by (simp add: coding_ok_def keeps_refl)
next
  case False
  define f :: "command_hold \<Rightarrow> command_hold" where "f = (\<lambda>h. h\<lparr>ch_status := (if approved then CommandApproved else CommandRejected),
       ch_decided_at := Some (g_now (op_gov (ca_ops s))), ch_decided_by := Some who\<rparr>)"
  obtain h where h: "get_by ch_id k (ca_holds s) = Some h" "ch_status h = CommandPending"
    and s': "s' = s\<lparr>ca_holds := update_by ch_id command_key k f (ca_holds s)\<rparr>"
    using assms(1) False by (auto simp: decide_command_def decide_hold_def Let_def f_def split: option.splits if_splits)
  have d: "distinct (List.map ch_id (mem (ca_holds s)))" using ok by (simp add: coding_ok_def)
  have m: "mem (ca_holds s') = List.map (\<lambda>x. if ch_id x = k then f x else x) (mem (ca_holds s))"
    by (simp add: s' mem_update_by modify_distinct[OF d])
  have only: "x = h" if "x \<in> set (mem (ca_holds s))" "ch_id x = k" for x
    using h(1) that d by (auto simp: get_by_def find_Some_iff distinct_conv_nth in_set_conv_nth)
  have mir: "mirrored command_key (ca_holds s')" unfolding s'
    using ok d by (auto simp: coding_ok_def command_key_def distinct_map inj_on_def intro!: mirrored_update_by)
  have "hold_sound D (f h)" if "hold_sound D h"
    using that who by (auto simp: hold_sound_def f_def decided_by_operator_def)
  then have "\<forall>x\<in>set (mem (ca_holds s')). hold_sound D x" using ok only unfolding m by (auto simp: coding_ok_def)
  moreover have "List.map ch_id (mem (ca_holds s')) = List.map ch_id (mem (ca_holds s))" by (simp add: m f_def)
  ultimately have "coding_ok D s'" using ok mir unfolding coding_ok_def by (simp add: s' flip: set_map)
  moreover have "keeps_holds (ca_holds s) (ca_holds s')"
    unfolding keeps_holds_def m
  proof
    fix x assume x: "x \<in> set (mem (ca_holds s))"
    show "\<exists>h'\<in>set (List.map (\<lambda>x. if ch_id x = k then f x else x) (mem (ca_holds s))).
        same_proposal x h' \<and> (ch_status x \<noteq> CommandPending \<longrightarrow> h' = x)"
      by (rule bexI[of _ "if ch_id x = k then f x else x"]) (use x only[OF x] h(2) in \<open>auto simp: same_proposal_def f_def\<close>)
  qed
  ultimately show ?thesis ..
qed

lemma coding_step_keeps:
  assumes "coding_step D s s'" and ok: "coding_ok D s"
  shows "coding_ok D s' \<and> keeps_holds (ca_holds s) (ca_holds s')"
  using assms(1)
proof cases
  case (request git c q x)
  show ?thesis
  proof (cases "s' = s")
    case False
    then obtain who where "resolve_operator (dp_credential D) (dp_env D) (cr_authorization c) (cr_api_key c) = Operator who"
      "coding_route git who q s = (x, s')"
      using request by (auto simp: handle_coding_def split: auth_result.splits if_splits)
    then show ?thesis using propose_step[OF _ ok] decide_step[OF _ ok] False by (cases q) auto
  qed (use ok in \<open>simp add: keeps_refl\<close>)
next
  case (elsewhere ops)
  then show ?thesis using ok by (force simp: coding_ok_def keeps_refl)
next
  case restart
  then show ?thesis using ok reopen_mirrored[of command_key "ca_holds s"] by (simp add: coding_ok_def keeps_refl)
qed

lemma coding_run_keeps:
  assumes "(coding_step D)\<^sup>*\<^sup>* s s'" and "coding_ok D s"
  shows "coding_ok D s' \<and> keeps_holds (ca_holds s) (ca_holds s')"
  using assms
proof (induction rule: rtranclp_induct)
  case (step t u)
  then show ?case using coding_step_keeps[of D t u] keeps_trans by blast
qed (simp add: keeps_refl)

text \<open>C35: In every run of the review surface from an empty table, restarts included, a held command stays in the store with its
  proposal, evidence and verdict; its command matches the rule it was held for; it is decided at most once, by an operator
  whose token the configuration lists; and once decided it is never changed again.\<close>

theorem held_commands_are_decided_once:
  assumes "inj (g_uuid (op_gov ops))"
    and "(coding_step D)\<^sup>*\<^sup>* \<lparr>ca_holds = empty_store Sqlite, ca_ops = ops\<rparr> s" and "(coding_step D)\<^sup>*\<^sup>* s s'"
  shows "(\<forall>h\<in>set (mem (ca_holds s)). \<exists>h'\<in>set (mem (ca_holds s')). same_proposal h h' \<and> (ch_status h \<noteq> CommandPending \<longrightarrow> h' = h)) \<and>
     (\<forall>h\<in>set (mem (ca_holds s)).
        (\<exists>r. classify_command (ch_command h) = Some r \<and> ch_rule h = rr_name r \<and> ch_level h = rr_level r) \<and>
        (ch_status h \<noteq> CommandPending \<longrightarrow> decided_by_operator D h)) \<and>
     distinct (List.map ch_id (mem (ca_holds s)))"
proof -
  have "coding_ok D \<lparr>ca_holds = empty_store Sqlite, ca_ops = ops\<rparr>" using assms(1) by (simp add: coding_ok_def empty_store_def mirrored_def)
  then have ok: "coding_ok D s" using coding_run_keeps[OF assms(2)] by simp
  then have "keeps_holds (ca_holds s) (ca_holds s')" using coding_run_keeps[OF assms(3)] by simp
  with ok show ?thesis unfolding keeps_holds_def coding_ok_def hold_sound_def by metis
qed

lemma sample_decided_command:
  "\<exists>s. (coding_step coding_deployment)\<^sup>*\<^sup>* coding_start s \<and> (\<exists>h. mem (ca_holds s) = [h] \<and> ch_status h = CommandApproved)"
proof -
  obtain x s1 where run: "handle_coding coding_deployment (\<lambda>args cwd. None) sample_credentials (PostCommand ''cd x; rm -v -fr y'' ''/w'' None None)
      coding_start = (x, s1)" by fastforce
  then have "propose_command (\<lambda>args cwd. None) ''cd x; rm -v -fr y'' ''/w'' None None coding_start = (x, s1)" by (simp add: coding_answered)
  then obtain h where h: "mem (ca_holds s1) = [h]" "ch_status h = CommandPending"
    by (cases rule: propose_command_cases) (use dangerous_classified sample_delete in \<open>auto simp: coding_start_def empty_store_def\<close>)
  obtain y s2 where decide: "handle_coding coding_deployment (\<lambda>args cwd. None) sample_credentials (PostDecision (ch_id h) True) s1 = (y, s2)" by fastforce
  then have "\<exists>h'. mem (ca_holds s2) = [h'] \<and> ch_status h' = CommandApproved"
    by (auto simp: coding_answered decide_command_def decide_hold_def get_by_def h mem_update_by Let_def)
  moreover have "(coding_step coding_deployment)\<^sup>*\<^sup>* coding_start s2"
    using coding_step.request[OF run] coding_step.request[OF decide] by (meson rtranclp.simps)
  ultimately show ?thesis by blast
qed

lemma held_commands_are_decided_once_witness:
  "\<exists>s h. (coding_step coding_deployment)\<^sup>*\<^sup>* coding_start s \<and> h \<in> set (mem (ca_holds s)) \<and> decided_by_operator coding_deployment h"
proof -
  obtain s h where s: "(coding_step coding_deployment)\<^sup>*\<^sup>* coding_start s" "mem (ca_holds s) = [h]" "ch_status h = CommandApproved"
    using sample_decided_command by blast
  have "inj (g_uuid (op_gov sample_ops))" by (simp add: inj_def sample_ops_def sample_gov_def sample_start_def register_adapter_def)
  then show ?thesis using held_commands_are_decided_once[OF _ s(1)[unfolded coding_start_def] rtranclp.rtrancl_refl] s by auto
qed

end
