(* ===== verification/Platform_Health.thy ===== *)
theory Platform_Health
  imports Homelab_Remediation Governed_History
begin

text \<open>
  The platform health report (\<open>core/intelligence/service.py\<close>) with what it calls: the history, baseline, trend and
  deviation of a component (\<open>analysis/\<close>), the recommendations (\<open>recommendations/engine.py\<close>), the record of an
  evaluation (\<open>memory/factory.py\<close>), one round of the collector (\<open>collector.py\<close>) and the summary of governed outcomes.
  Floats are rationals; a report reads the clock once; a column that is NULL where a number is needed ends in an
  exception, \<open>None\<close>. Records of the kind \<open>health_evaluation\<close> hold texts under status and reason, as their only writer stores them.
\<close>

section \<open>Evaluations in memory\<close>

fun health_reason_value :: "health_reason \<Rightarrow> string" where
  "health_reason_value ReasonHealthy = ''healthy''"
| "health_reason_value NewComponent = ''new_component''"
| "health_reason_value NoMetrics = ''no_metrics''"
| "health_reason_value StaleData = ''stale_data''"
| "health_reason_value BaselineNotReady = ''baseline_not_ready''"
| "health_reason_value CollectorFailure = ''collector_failure''"
| "health_reason_value ConfigurationMissing = ''configuration_missing''"
| "health_reason_value MalformedObservation = ''malformed_observation''"
| "health_reason_value MissingObservation = ''missing_observation''"
| "health_reason_value InsufficientEvidence = ''insufficient_evidence''"
| "health_reason_value UnknownState = ''unknown_state''"

fun health_impact_value :: "health_impact \<Rightarrow> string" where
  "health_impact_value LowImpact = ''low''"
| "health_impact_value MediumImpact = ''medium''"
| "health_impact_value HighImpact = ''high''"

text \<open>A line that prints an age is kept as its text and the age.\<close>

fun evidence_value :: "evidence_line \<Rightarrow> pyval" where
  "evidence_value (Line s) = PStr s"
| "evidence_value (Aged s age) = PTuple [PStr s, PInt age]"

definition health_evaluation_to_memory :: "instant \<Rightarrow> evaluation \<Rightarrow> memory_record" where
  "health_evaluation_to_memory now ev =
     \<lparr>mr_component = ev_component ev, mr_event = ''health_evaluation'', mr_at = now,
      mr_data = [(''status'', PStr (health_value (ev_status ev))), (''reason'', PStr (health_reason_value (ev_reason ev))),
        (''confidence'', PInt (ev_confidence ev)), (''impact'', PStr (health_impact_value (ev_impact ev))),
        (''message'', PStr (ev_message ev)), (''evidence'', PList (List.map evidence_value (ev_evidence ev))),
        (''recommendation'', opt_text (ev_recommendation ev))]\<rparr>"

section \<open>History of a component\<close>

record history_counts =
  hy_events :: nat
  hy_warnings :: nat
  hy_critical :: nat
  hy_dominant :: "string option"
  hy_recurring :: bool

definition texts_under :: "string \<Rightarrow> memory_record list \<Rightarrow> string list" where
  "texts_under k rs = List.map_filter (\<lambda>r. case map_of (mr_data r) k of Some (PStr s) \<Rightarrow> if s = [] then None else Some s | _ \<Rightarrow> None) rs"

text \<open>\<open>most_common(1)\<close>: the first of the values that occur most often.\<close>

definition most_common :: "string list \<Rightarrow> string option" where
  "most_common xs = find (\<lambda>x. \<forall>y\<in>set xs. count_list xs y \<le> count_list xs x) xs"

text \<open>Without events the dictionary has only the component, the count and the flag.\<close>

definition analyze_component_history :: "string \<Rightarrow> 'w home \<Rightarrow> history_counts" where
  "analyze_component_history component h =
     (let history = get_health_history component h; statuses = texts_under ''status'' history; reasons = texts_under ''reason'' history
      in if history = [] then \<lparr>hy_events = 0, hy_warnings = 0, hy_critical = 0, hy_dominant = None, hy_recurring = False\<rparr>
         else \<lparr>hy_events = length history, hy_warnings = count_list statuses ''warning'', hy_critical = count_list statuses ''critical'',
           hy_dominant = most_common reasons, hy_recurring = 1 < length history\<rparr>)"

section \<open>Baseline, trend and deviation\<close>

definition rows_of :: "string \<Rightarrow> nat \<Rightarrow> 'w home \<Rightarrow> container_metric list" where
  "rows_of component limit h = filter (\<lambda>m. cm_name m = component) (get_container_metrics limit h)"

record metric_baseline =
  mb_cpu :: rat
  mb_memory :: rat
  mb_samples :: nat

text \<open>The sum of a column, unless some value is NULL.\<close>

fun sum_column :: "rat option list \<Rightarrow> rat option" where
  "sum_column [] = Some 0"
| "sum_column (None # xs) = None"
| "sum_column (Some x # xs) = map_option ((+) x) (sum_column xs)"

definition memory_value :: "container_metric \<Rightarrow> rat option" where
  "memory_value m = map_option of_int (cm_memory m)"

definition calculate_baseline :: "string \<Rightarrow> 'w home \<Rightarrow> metric_baseline option" where
  "calculate_baseline component h =
     (let rows = rows_of component 50 h; n = (of_nat (length rows) :: rat) in
      if rows = [] then Some \<lparr>mb_cpu = 0, mb_memory = 0, mb_samples = 0\<rparr>
      else (case (sum_column (List.map cm_cpu rows), sum_column (List.map memory_value rows)) of
          (Some c, Some m) \<Rightarrow> Some \<lparr>mb_cpu = c / n, mb_memory = m / n, mb_samples = length rows\<rparr>
        | _ \<Rightarrow> None))"

datatype trend = UnknownTrend nat | Trend string rat rat nat

definition analyze_trend :: "string \<Rightarrow> 'w home \<Rightarrow> trend option" where
  "analyze_trend component h =
     (let rows = rows_of component 20 h in
      if length rows < 2 then Some (UnknownTrend (length rows))
      else (case (cm_cpu (hd rows), cm_cpu (last rows), memory_value (hd rows), memory_value (last rows)) of
          (Some c1, Some c0, Some m1, Some m0) \<Rightarrow>
            (let cpu = c1 - c0; mem_used = m1 - m0
             in Some (Trend (if cpu < 0 \<and> mem_used < 0 then ''decreasing'' else if 0 < cpu \<or> 0 < mem_used then ''increasing'' else ''stable'')
                  cpu mem_used (length rows)))
        | _ \<Rightarrow> None))"

record metric_deviation =
  md_cpu :: rat
  md_memory :: rat
  md_risk :: health_status

definition calculate_deviation :: "rat \<Rightarrow> rat \<Rightarrow> rat \<Rightarrow> rat \<Rightarrow> metric_deviation" where
  "calculate_deviation cpu mem_used base_cpu base_mem =
     (let dc = (if base_cpu \<noteq> 0 then (cpu - base_cpu) / base_cpu else 0); dm = (if base_mem \<noteq> 0 then (mem_used - base_mem) / base_mem else 0)
      in \<lparr>md_cpu = dc, md_memory = dm,
          md_risk = (if 1 < dc \<or> 1 < dm then Critical else if 1 / 2 < dc \<or> 1 / 2 < dm then Warned else Healthy)\<rparr>)"

section \<open>Recommendations\<close>

definition generate_recommendations :: "evaluation \<Rightarrow> history_counts \<Rightarrow> component_context option \<Rightarrow> string list" where
  "generate_recommendations ev hy cx =
     (case ev_status ev of Critical \<Rightarrow> [''Investigate '' @ ev_component ev @ '' immediately'']
        | Warned \<Rightarrow> [''Monitor '' @ ev_component ev] | _ \<Rightarrow> []) @
     (case hy_dominant hy of Some why \<Rightarrow> if hy_recurring hy \<and> why \<noteq> [] then [''Recurring issue detected: '' @ why] else [] | None \<Rightarrow> []) @
     (case cx of Some c \<Rightarrow> if cx_criticality c = ''high'' then [''Prioritize because component criticality is high''] else [] | None \<Rightarrow> [])"

section \<open>The report\<close>

record component_report =
  cr_evaluation :: evaluation
  cr_deviation :: "metric_deviation option"
  cr_trend :: trend
  cr_history :: history_counts
  cr_decision :: advice
  cr_recommendations :: "string list"

definition recurring_reason :: "history_counts \<Rightarrow> string option" where
  "recurring_reason hy = (if hy_recurring hy then Some (case hy_dominant hy of None \<Rightarrow> ''None'' | Some why \<Rightarrow> why) else None)"

text \<open>One component: its evaluation is stored before its history is read.\<close>

definition report_component :: "instant \<Rightarrow> container_metric \<Rightarrow> 'w home \<Rightarrow> component_report option \<times> 'w home" where
  "report_component now m h =
     (case normalize_observation (Measured m) of
        None \<Rightarrow> (None, h)
      | Some ob \<Rightarrow>
         (let cx = get_component_context (co_component ob);
              ev = create_health_evaluation now (Observed ob) cx;
              h1 = remember (health_evaluation_to_memory now ev) h;
              hy = analyze_component_history (ev_component ev) h1
          in (case (calculate_baseline (ev_component ev) h1, analyze_trend (ev_component ev) h1) of
                (Some base, Some tr) \<Rightarrow>
                  (Some \<lparr>cr_evaluation = ev,
                     cr_deviation = (if mb_samples base = 0 then None
                        else Some (calculate_deviation (signal ob ''cpu_usage'') (signal ob ''memory_usage'') (mb_cpu base) (mb_memory base))),
                     cr_trend = tr, cr_history = hy, cr_decision = make_decision ev (recurring_reason hy),
                     cr_recommendations = generate_recommendations ev hy cx\<rparr>, h1)
              | _ \<Rightarrow> (None, h1))))"

fun report_components :: "instant \<Rightarrow> container_metric list \<Rightarrow> 'w home \<Rightarrow> component_report list option \<times> 'w home" where
  "report_components now [] h = (Some [], h)"
| "report_components now (m # ms) h =
     (case report_component now m h of
        (None, h1) \<Rightarrow> (None, h1)
      | (Some c, h1) \<Rightarrow> (case report_components now ms h1 of (None, h2) \<Rightarrow> (None, h2) | (Some cs, h2) \<Rightarrow> (Some (c # cs), h2)))"

fun health_credit :: "health_status \<Rightarrow> int" where
  "health_credit Critical = 40"
| "health_credit Warned = 70"
| "health_credit Unresolved = 0"
| "health_credit Healthy = 100"

record health_report =
  rp_score :: int
  rp_status :: health_status
  rp_components :: "component_report list"
  rp_recommendations :: "string list"

definition calculate_platform_health :: "instant \<Rightarrow> 'w home \<Rightarrow> health_report option \<times> 'w home" where
  "calculate_platform_health now h =
     (let metrics = get_current_container_metrics h in
      if metrics = [] then (Some \<lparr>rp_score = 0, rp_status = Unresolved, rp_components = [],
          rp_recommendations = [''No observability metrics available'']\<rparr>, h)
      else (case report_components now metrics h of
          (None, h1) \<Rightarrow> (None, h1)
        | (Some cs, h1) \<Rightarrow>
           (let score = sum_list (List.map (\<lambda>c. health_credit (ev_status (cr_evaluation c))) cs) div int (length metrics)
            in (Some \<lparr>rp_score = score, rp_status = (if 85 \<le> score then Healthy else if 60 \<le> score then Warned else Critical),
                  rp_components = cs, rp_recommendations = concat (List.map cr_recommendations cs)\<rparr>, h1))))"

section \<open>The collector\<close>

definition collected_names :: "string list" where
  "collected_names = [''portainer'', ''dozzle'', ''uptime-kuma'']"

text \<open>One round; \<open>stats\<close> is what reading a container gives, \<open>None\<close> an exception, which is printed.\<close>

definition collect_round :: "(string \<Rightarrow> container_metric option) \<Rightarrow> instant \<Rightarrow> 'w home \<Rightarrow> 'w home" where
  "collect_round stats now h =
     fold (\<lambda>n h. case stats n of None \<Rightarrow> h | Some m \<Rightarrow> save_container_metric (m\<lparr>cm_timestamp := now\<rparr>) h) collected_names h"

section \<open>Governed outcomes in numbers\<close>

record outcome_summary =
  os_total :: nat
  os_blocked :: nat
  os_completed :: nat
  os_verified :: "(string \<times> nat) list"
  os_outcomes :: "governed_outcome list"

definition analyze_governed_outcomes :: "(ident list \<Rightarrow> ident list) \<Rightarrow> string option \<Rightarrow> 'w gov \<Rightarrow> outcome_summary" where
  "analyze_governed_outcomes order component st =
     (let vs = get_governed_outcomes order component st; verified = filter (\<lambda>s. s \<noteq> []) (List.map gv_verification vs)
      in \<lparr>os_total = length vs, os_blocked = length (filter (\<lambda>v. gv_outcome v = ''blocked'') vs),
          os_completed = length (filter (\<lambda>v. gv_outcome v = ''completed'') vs),
          os_verified = List.map (\<lambda>s. (s, count_list verified s)) (rev (remdups (rev verified))), os_outcomes = vs\<rparr>)"

end
