(* ===== verification/Platform_Health_Properties.thy ===== *)
theory Platform_Health_Properties
  imports Platform_Health
begin

text \<open>
  What the platform health report shows: one evaluation per current metric, a score that is the floor of their
  average credit, status thresholds as exact conditions on the counts, no effect but the stored evaluations, and
  how reading the report makes a warning recurring.
\<close>

section \<open>One component\<close>

definition metric_evaluation :: "instant \<Rightarrow> container_metric \<Rightarrow> evaluation" where
  "metric_evaluation now m = create_health_evaluation now (Measured m) (get_component_context (cm_name m))"

definition stored_evaluation :: "instant \<Rightarrow> container_metric \<Rightarrow> memory_record" where
  "stored_evaluation now m = health_evaluation_to_memory now (metric_evaluation now m)"

definition with_memory :: "memory_record list \<Rightarrow> 'w home \<Rightarrow> 'w home" where
  "with_memory rs h = h\<lparr>hm_memory := hm_memory h @ rs\<rparr>"

lemma with_memory_simps [simp]:
  "with_memory [] h = h" "with_memory rs (with_memory qs h) = with_memory (qs @ rs) h" "hm_memory (with_memory rs h) = hm_memory h @ rs"
  "hm_metrics (with_memory rs h) = hm_metrics h"
  by (simp_all add: with_memory_def)

lemma observed_is_measured:
  "normalize_observation (Measured m) = Some ob \<Longrightarrow>
     create_health_evaluation now (Observed ob) cx = create_health_evaluation now (Measured m) cx \<and> co_component ob = cm_name m"
  by (auto simp: create_health_evaluation_def normalize_observation_def container_metric_to_observation_def split: option.splits)

text \<open>What a component's report says, and that its record is the only trace.\<close>

definition reports :: "instant \<Rightarrow> 'w home \<Rightarrow> container_metric \<Rightarrow> component_report \<Rightarrow> bool" where
  "reports now h m c \<longleftrightarrow> cr_evaluation c = metric_evaluation now m \<and>
     cr_history c = analyze_component_history (ev_component (metric_evaluation now m)) (with_memory [stored_evaluation now m] h) \<and>
     cr_decision c = make_decision (metric_evaluation now m) (recurring_reason (cr_history c))"

lemma report_component_reports:
  assumes "report_component now m h = (Some c, h')"
  shows "reports now h m c \<and> h' = with_memory [stored_evaluation now m] h"
proof -
  obtain ob where ob: "normalize_observation (Measured m) = Some ob"
    using assms by (auto simp: report_component_def split: option.splits)
  show ?thesis using assms observed_is_measured[OF ob]
    by (auto simp: report_component_def ob reports_def metric_evaluation_def stored_evaluation_def with_memory_def remember_def Let_def
        split: option.splits)
qed

lemma report_components_report:
  assumes "report_components now ms h = (Some cs, h')"
  shows "list_all2 (\<lambda>m c. \<exists>pre. reports now (with_memory pre h) m c) ms cs \<and> h' = with_memory (List.map (stored_evaluation now) ms) h"
  using assms
proof (induction now ms h arbitrary: cs h' rule: report_components.induct)
  case (2 now m ms h)
  obtain c h1 where c: "report_component now m h = (Some c, h1)" using 2(2) by (auto split: prod.splits option.splits)
  obtain cs' h2 where cs: "report_components now ms h1 = (Some cs', h2)" using 2(2) c by (auto split: prod.splits option.splits)
  have r: "reports now h m c" "h1 = with_memory [stored_evaluation now m] h" using report_component_reports[OF c] by auto
  have i: "list_all2 (\<lambda>m c. \<exists>pre. reports now (with_memory pre h1) m c) ms cs'" "h2 = with_memory (List.map (stored_evaluation now) ms) h1"
    using 2(1)[OF c[symmetric] refl cs] by auto
  have "list_all2 (\<lambda>m c. \<exists>pre. reports now (with_memory pre h) m c) ms cs'"
    by (rule list_all2_mono[OF i(1)]) (auto simp: r(2))
  moreover have "\<exists>pre. reports now (with_memory pre h) m c" using r(1) by (intro exI[of _ "[]"]) simp
  ultimately show ?case using 2(2) c cs i(2) r(2) by auto
qed simp

lemma reports_evaluation: "list_all2 (\<lambda>m c. \<exists>pre. reports now (with_memory pre h) m c) ms cs \<Longrightarrow>
    List.map cr_evaluation cs = List.map (metric_evaluation now) ms"
  by (induction rule: list_all2_induct) (auto simp: reports_def)

section \<open>The score\<close>

definition with_status :: "health_status \<Rightarrow> evaluation list \<Rightarrow> int" where
  "with_status s es = int (length (filter (\<lambda>e. ev_status e = s) es))"

lemma credit_sum:
  "sum_list (List.map (\<lambda>e. health_credit (ev_status e)) es) =
     100 * int (length es) - (60 * with_status Critical es + 30 * with_status Warned es + 100 * with_status Unresolved es)"
proof (induction es)
  case (Cons e es)
  then show ?case by (cases "ev_status e") (simp_all add: with_status_def)
qed (simp add: with_status_def)

lemma credit_bounds: "0 \<le> sum_list (List.map (\<lambda>e. health_credit (ev_status e)) es) \<and>
    sum_list (List.map (\<lambda>e. health_credit (ev_status e)) es) \<le> 100 * int (length es)"
proof (induction es)
  case (Cons e es)
  then show ?case by (cases "ev_status e") simp_all
qed simp

lemma div_at_least: "0 < n \<Longrightarrow> (k \<le> a div n) = (k * n \<le> (a :: int))"
proof
  assume n: "0 < n" and k: "k \<le> a div n"
  have "k * n \<le> (a div n) * n" using n k by (simp add: mult_right_mono)
  also have "\<dots> \<le> a" using n by (simp add: minus_mod_eq_div_mult [symmetric])
  finally show "k * n \<le> a" .
next
  show "k \<le> a div n" if "0 < n" "k * n \<le> a" using zdiv_mono1[OF that(2,1)] that(1) by simp
qed

lemma report_average:
  assumes "calculate_platform_health now h = (Some rep, h')" and "get_current_container_metrics h \<noteq> []"
  shows "List.map cr_evaluation (rp_components rep) = List.map (metric_evaluation now) (get_current_container_metrics h) \<and>
     h' = h\<lparr>hm_memory := hm_memory h @ List.map (stored_evaluation now) (get_current_container_metrics h)\<rparr> \<and>
     0 \<le> rp_score rep \<and> rp_score rep \<le> 100 \<and>
     (let es = List.map cr_evaluation (rp_components rep);
          missing = 60 * with_status Critical es + 30 * with_status Warned es + 100 * with_status Unresolved es
      in rp_status rep = (if missing \<le> 15 * int (length es) then Healthy else if missing \<le> 40 * int (length es) then Warned else Critical))"
proof -
  let ?ms = "get_current_container_metrics h"
  obtain cs where cs: "report_components now ?ms h = (Some cs, h')" "rp_components rep = cs"
    "rp_score rep = sum_list (List.map (\<lambda>c. health_credit (ev_status (cr_evaluation c))) cs) div int (length ?ms)"
    "rp_status rep = (if 85 \<le> rp_score rep then Healthy else if 60 \<le> rp_score rep then Warned else Critical)"
    using assms by (auto simp: calculate_platform_health_def Let_def split: prod.splits option.splits)
  let ?es = "List.map cr_evaluation cs"
  have r: "?es = List.map (metric_evaluation now) ?ms" "h' = with_memory (List.map (stored_evaluation now) ?ms) h"
    using report_components_report[OF cs(1)] reports_evaluation by blast+
  have n: "length ?es = length ?ms" "0 < int (length ?es)" using r(1) assms(2) by (metis length_map) (metis assms(2) r(1) length_greater_0_conv list.map_disc_iff of_nat_0_less_iff)
  let ?a = "sum_list (List.map (\<lambda>e. health_credit (ev_status e)) ?es)"
  have s: "rp_score rep = ?a div int (length ?es)" using cs(3) n(1) by (simp add: o_def)
  have b: "0 \<le> ?a" "?a \<le> 100 * int (length ?es)" using credit_bounds by blast+
  have k: "(k \<le> rp_score rep) = (k * int (length ?es) \<le> ?a)" for k unfolding s by (rule div_at_least[OF n(2)])
  have lo: "0 \<le> rp_score rep" using k[of 0] b(1) by simp
  have "\<not> 101 \<le> rp_score rep" using k[of 101] b(2) n(2) by linarith
  then have hi: "rp_score rep \<le> 100" by linarith
  show ?thesis using r lo hi cs(2,4) unfolding Let_def k credit_sum by (auto simp: with_memory_def)
qed

text \<open>Rows without NULL are enough for a report.\<close>

definition complete_metrics :: "'w home \<Rightarrow> bool" where
  "complete_metrics h \<longleftrightarrow> (\<forall>m\<in>set (hm_metrics h). cm_cpu m \<noteq> None \<and> cm_memory m \<noteq> None)"

lemma sum_column_Some: "None \<notin> set xs \<Longrightarrow> \<exists>v. sum_column xs = Some v"
  by (induction xs rule: sum_column.induct) auto

lemma rows_complete: "complete_metrics h \<Longrightarrow> m \<in> set (rows_of n k h) \<Longrightarrow> cm_cpu m \<noteq> None \<and> memory_value m \<noteq> None"
  by (auto simp: complete_metrics_def rows_of_def get_container_metrics_def memory_value_def dest!: in_set_takeD)

lemma analysis_complete:
  assumes "complete_metrics h"
  shows "calculate_baseline n h \<noteq> None \<and> analyze_trend n h \<noteq> None"
proof
  let ?rows = "rows_of n 50 h"
  obtain c m where "sum_column (List.map cm_cpu ?rows) = Some c" "sum_column (List.map memory_value ?rows) = Some m"
    using sum_column_Some[of "List.map cm_cpu ?rows"] sum_column_Some[of "List.map memory_value ?rows"] rows_complete[OF assms, of _ n 50] by force
  then show "calculate_baseline n h \<noteq> None" by (simp add: calculate_baseline_def Let_def)
  show "analyze_trend n h \<noteq> None"
  proof (cases "length (rows_of n 20 h) < 2")
    case False
    then have "hd (rows_of n 20 h) \<in> set (rows_of n 20 h)" "last (rows_of n 20 h) \<in> set (rows_of n 20 h)" by (cases "rows_of n 20 h"; simp)+
    then obtain c1 c0 m1 m0 where "cm_cpu (hd (rows_of n 20 h)) = Some c1" "memory_value (hd (rows_of n 20 h)) = Some m1"
      "cm_cpu (last (rows_of n 20 h)) = Some c0" "memory_value (last (rows_of n 20 h)) = Some m0"
      using rows_complete[OF assms] by (metis not_None_eq)
    then show ?thesis using False by (simp add: analyze_trend_def Let_def)
  qed (simp add: analyze_trend_def)
qed

lemma report_component_complete:
  assumes "complete_metrics h" and "m \<in> set (hm_metrics h)"
  shows "\<exists>c. report_component now m h = (Some c, with_memory [stored_evaluation now m] h)"
proof -
  obtain ob where ob: "normalize_observation (Measured m) = Some ob"
    using assms by (fastforce simp: complete_metrics_def normalize_observation_def container_metric_to_observation_def)
  let ?ev = "create_health_evaluation now (Observed ob) (get_component_context (co_component ob))"
  have "complete_metrics (remember (health_evaluation_to_memory now ?ev) h)" using assms(1) by (simp add: complete_metrics_def remember_def)
  then obtain b t where "calculate_baseline (ev_component ?ev) (remember (health_evaluation_to_memory now ?ev) h) = Some b"
    "analyze_trend (ev_component ?ev) (remember (health_evaluation_to_memory now ?ev) h) = Some t"
    using analysis_complete by (metis not_None_eq)
  then have "\<exists>c h'. report_component now m h = (Some c, h')" by (simp add: report_component_def ob Let_def)
  then show ?thesis using report_component_reports by blast
qed

lemma report_components_complete:
  "complete_metrics h \<Longrightarrow> set ms \<subseteq> set (hm_metrics h) \<Longrightarrow> \<exists>cs h'. report_components now ms h = (Some cs, h')"
proof (induction ms arbitrary: h)
  case (Cons m ms)
  obtain c where c: "report_component now m h = (Some c, with_memory [stored_evaluation now m] h)"
    using report_component_complete[of h m now] Cons.prems by auto
  have "complete_metrics (with_memory [stored_evaluation now m] h)" using Cons.prems(1) by (simp add: complete_metrics_def)
  then obtain cs h' where "report_components now ms (with_memory [stored_evaluation now m] h) = (Some cs, h')"
    using Cons.IH Cons.prems(2) by fastforce
  then show ?case by (simp add: c)
qed simp

lemma current_subset: "set (get_current_container_metrics h) \<subseteq> set (hm_metrics h)"
proof
  fix m assume "m \<in> set (get_current_container_metrics h)"
  then obtain x where x: "x \<in> set (hm_metrics h)" "m = the (find_last (\<lambda>y. cm_name y = cm_name x) (hm_metrics h))"
    by (auto simp: get_current_container_metrics_def)
  have "find (\<lambda>y. cm_name y = cm_name x) (rev (hm_metrics h)) \<noteq> None" using x(1) by (auto simp: find_None)
  then show "m \<in> set (hm_metrics h)" using x(2) find_SomeD[of _ "rev (hm_metrics h)" m] by (auto simp: find_last_def)
qed

lemma report_complete:
  assumes "complete_metrics h"
  shows "\<exists>rep h'. calculate_platform_health now h = (Some rep, h')"
  using report_components_complete[OF assms current_subset, of now] by (auto simp: calculate_platform_health_def Let_def)

text \<open>C36: When no row has a NULL where a number belongs, a report is made. It gives one evaluation for the newest row of each
  component and stores exactly those evaluations: metrics, evidence, holds and the world stay as they were. The score lies
  between 0 and 100, and the platform is healthy exactly when 60 points for each critical, 30 for each warning and 100 for
  each unresolved component come to at most 15 per component, and critical exactly when they come to more than 40.\<close>

theorem platform_health_is_average:
  assumes "complete_metrics h" and "get_current_container_metrics h \<noteq> []"
  shows "\<exists>rep. calculate_platform_health now h =
       (Some rep, h\<lparr>hm_memory := hm_memory h @ List.map (stored_evaluation now) (get_current_container_metrics h)\<rparr>) \<and>
     List.map cr_evaluation (rp_components rep) = List.map (metric_evaluation now) (get_current_container_metrics h) \<and>
     0 \<le> rp_score rep \<and> rp_score rep \<le> 100 \<and>
     (let es = List.map cr_evaluation (rp_components rep);
          missing = 60 * with_status Critical es + 30 * with_status Warned es + 100 * with_status Unresolved es
      in rp_status rep = (if missing \<le> 15 * int (length es) then Healthy else if missing \<le> 40 * int (length es) then Warned else Critical))"
proof -
  obtain rep h' where r: "calculate_platform_health now h = (Some rep, h')" using report_complete[OF assms(1)] by blast
  show ?thesis using report_average[OF r assms(2)] r by metis
qed

section \<open>Recurrence\<close>

lemma warned_usable: "ev_status (metric_evaluation now m) = Warned \<Longrightarrow> \<exists>ob. usable (Measured m) = Some ob"
  by (auto simp: metric_evaluation_def evaluation_status split: option.splits)

lemma usable_component: "usable (Measured m) = Some ob \<Longrightarrow> ev_component (metric_evaluation now m) = cm_name m"
  by (auto simp: metric_evaluation_def evaluation_cases evaluation_defs Let_def split_beta usable_def normalize_observation_def
      container_metric_to_observation_def split: option.splits if_splits)

lemma length_filter_two:
  "x \<in> set xs \<Longrightarrow> P x \<Longrightarrow> P y \<Longrightarrow> 1 < length (filter P (xs @ [y]))"
  by (auto simp: filter_empty_conv)

lemma two_records_recur:
  assumes "r \<in> set (hm_memory h)" and "mr_component r = n" "mr_event r = ''health_evaluation''"
    and "mr_component q = n" "mr_event q = ''health_evaluation''"
  shows "hy_recurring (analyze_component_history n (with_memory [q] h))"
proof -
  let ?kept = "filter (\<lambda>r. mr_event r = ''health_evaluation'') (filter (\<lambda>r. mr_component r = n) (hm_memory h @ [q]))"
  have "1 < length ?kept" using length_filter_two[of r "hm_memory h" "\<lambda>r. mr_component r = n \<and> mr_event r = ''health_evaluation''" q] assms
    by simp
  then have "1 < length (get_health_history n (with_memory [q] h))"
    by (simp add: get_health_history_def get_recent_events_def get_history_def or_str_def Let_def)
  then show ?thesis by (auto simp: analyze_component_history_def Let_def)
qed

text \<open>C37: Of two reports over the same metrics, the second calls every warning recurring and decides to investigate it with
  high priority, whatever happened before the first: the evaluations that reading the first report stored are counted.\<close>

theorem reading_makes_warnings_recur:
  assumes first: "calculate_platform_health now h = (Some rep, h1)" and second: "calculate_platform_health later h1 = (Some rep2, h2)"
    and c: "c \<in> set (rp_components rep2)" "ev_status (cr_evaluation c) = Warned"
  shows "hm_metrics h1 = hm_metrics h \<and> hy_recurring (cr_history c) \<and> dc_action (cr_decision c) = ''investigate_recurring_issue'' \<and>
     dc_priority (cr_decision c) = ''high''"
proof -
  have ne: "get_current_container_metrics h1 \<noteq> []" using c(1) second by (auto simp: calculate_platform_health_def Let_def)
  obtain cs2 where cs2: "report_components later (get_current_container_metrics h1) h1 = (Some cs2, h2)" "rp_components rep2 = cs2"
    using second ne by (auto simp: calculate_platform_health_def Let_def split: prod.splits option.splits)
  have h1: "h1 = h \<or> (\<exists>cs. report_components now (get_current_container_metrics h) h = (Some cs, h1))"
    using first by (auto simp: calculate_platform_health_def Let_def split: prod.splits option.splits if_splits)
  have met: "hm_metrics h1 = hm_metrics h" using h1 report_components_report by fastforce
  then have cur: "get_current_container_metrics h1 = get_current_container_metrics h" by (simp add: get_current_container_metrics_def)
  obtain cs where cs: "report_components now (get_current_container_metrics h) h = (Some cs, h1)"
    using first ne cur by (auto simp: calculate_platform_health_def Let_def split: prod.splits option.splits if_splits)
  obtain m pre where m: "m \<in> set (get_current_container_metrics h)" "reports later (with_memory pre h1) m c"
    using report_components_report[OF cs2(1)] c(1) cs2(2) cur by (auto simp: list_all2_conv_all_nth in_set_conv_nth) (metis nth_mem)
  have ev: "cr_evaluation c = metric_evaluation later m" using m(2) by (simp add: reports_def)
  obtain ob where ob: "usable (Measured m) = Some ob" using warned_usable c(2) ev by metis
  have "stored_evaluation now m \<in> set (hm_memory (with_memory pre h1))"
    using report_components_report[OF cs] m(1) by auto
  then have "hy_recurring (cr_history c)"
    using m(2) two_records_recur[of "stored_evaluation now m" "with_memory pre h1" "cm_name m" "stored_evaluation later m"] usable_component[OF ob]
    by (simp add: reports_def stored_evaluation_def health_evaluation_to_memory_def)
  then show ?thesis using met m(2) c(2) ev
    by (simp add: reports_def make_decision_def recurring_reason_def advise_def)
qed

section \<open>A small deployment\<close>

text \<open>One container that runs and was last seen a thousand seconds ago.\<close>

definition old_metric :: container_metric where
  "old_metric = \<lparr>cm_name = ''portainer'', cm_status = ''running'', cm_cpu = Some 3, cm_memory = Some 7, cm_health = None, cm_timestamp = 0\<rparr>"

definition old_home :: "nat home" where
  "old_home = \<lparr>hm_ops = sample_ops, hm_metrics = [old_metric], hm_memory = [], hm_engine = ''docker''\<rparr>"

lemma old_warned: "ev_status (metric_evaluation (seconds 1000) old_metric) = Warned"
proof -
  have "lower (strip ''running'') = ''running''" by code_simp
  then show ?thesis
    by (simp add: metric_evaluation_def evaluation_status usable_def normalize_observation_def container_metric_to_observation_def old_metric_def
        plain_state_def is_metric_stale_def observation_age_def stale_threshold_def)
qed

lemma old_current: "hm_metrics h = [old_metric] \<Longrightarrow> get_current_container_metrics h = [old_metric]"
  by (simp add: get_current_container_metrics_def find_last_def)

lemma old_complete: "hm_metrics h = [old_metric] \<Longrightarrow> complete_metrics h"
  by (simp add: complete_metrics_def old_metric_def)

lemma old_reported:
  assumes "hm_metrics h = [old_metric]"
  shows "\<exists>rep c h'. calculate_platform_health (seconds 1000) h = (Some rep, h') \<and> hm_metrics h' = [old_metric] \<and> rp_components rep = [c] \<and>
     ev_status (cr_evaluation c) = Warned"
proof -
  obtain rep h' where r: "calculate_platform_health (seconds 1000) h = (Some rep, h')" using report_complete[OF old_complete[OF assms]] by blast
  then show ?thesis using report_average[OF r] old_current[OF assms] old_warned assms by (cases "rp_components rep") auto
qed

lemma platform_health_is_average_witness:
  "\<exists>rep h'. calculate_platform_health (seconds 1000) old_home = (Some rep, h') \<and> rp_status rep = Warned \<and>
     hm_memory h' = [stored_evaluation (seconds 1000) old_metric]"
proof -
  have m: "hm_metrics old_home = [old_metric]" by (simp add: old_home_def)
  show ?thesis using platform_health_is_average[OF old_complete[OF m], of "seconds 1000"] old_current[OF m] old_warned
    by (fastforce simp: old_home_def with_status_def)
qed

lemma reading_makes_warnings_recur_witness:
  "\<exists>rep h1 rep2 h2 c. calculate_platform_health (seconds 1000) old_home = (Some rep, h1) \<and>
     calculate_platform_health (seconds 1000) h1 = (Some rep2, h2) \<and> rp_components rep2 = [c] \<and>
     dc_action (cr_decision c) = ''investigate_recurring_issue''"
proof -
  obtain rep h1 where r: "calculate_platform_health (seconds 1000) old_home = (Some rep, h1)" "hm_metrics h1 = [old_metric]"
    using old_reported[of old_home] by (fastforce simp: old_home_def)
  obtain rep2 h2 c where r2: "calculate_platform_health (seconds 1000) h1 = (Some rep2, h2)" "rp_components rep2 = [c]"
    "ev_status (cr_evaluation c) = Warned"
    using old_reported[OF r(2)] by fastforce
  show ?thesis using reading_makes_warnings_recur[OF r(1) r2(1)] r r2 by auto
qed

end
