(* ===== verification/Execution_Adapters.thy ===== *)
theory Execution_Adapters
  imports Evolution Reasoning
begin

text \<open>
  The adapters that act on the host: Docker (\<open>execution/adapters/docker.py\<close> over \<open>docker_api.py\<close>), git tags
  (\<open>agent/git_adapter.py\<close>), their registration (\<open>adapters/bootstrap.py\<close>) and the report on the runtime
  (\<open>ops/runtime_info.py\<close>). The Docker client and the git program are functions that answer a call and may change the
  host; what a call does there is theirs.
\<close>

section \<open>The Docker client\<close>

datatype docker_call = DockerStart string | DockerStop string | DockerRestart string | DockerRun pyval string | DockerRemove string

text \<open>A call ends in the text of an exception or in the name of the container.\<close>

type_synonym 'd daemon = "docker_call \<Rightarrow> 'd \<Rightarrow> (string + string) \<times> 'd"

definition container_command :: "string \<Rightarrow> (string \<Rightarrow> docker_call) \<Rightarrow> 'd daemon \<Rightarrow> string \<Rightarrow> 'd \<Rightarrow> (string + params) \<times> 'd" where
  "container_command act call daemon name d =
     map_prod (map_sum id (\<lambda>_. [(''name'', PStr name), (''action'', PStr act), (''status'', PStr ''success'')])) id (daemon (call name) d)"

definition start_container :: "'d daemon \<Rightarrow> string \<Rightarrow> 'd \<Rightarrow> (string + params) \<times> 'd" where
  "start_container = container_command ''start'' DockerStart"

definition stop_container :: "'d daemon \<Rightarrow> string \<Rightarrow> 'd \<Rightarrow> (string + params) \<times> 'd" where
  "stop_container = container_command ''stop'' DockerStop"

definition restart_container :: "'d daemon \<Rightarrow> string \<Rightarrow> 'd \<Rightarrow> (string + params) \<times> 'd" where
  "restart_container = container_command ''restart'' DockerRestart"

definition remove_container :: "'d daemon \<Rightarrow> string \<Rightarrow> 'd \<Rightarrow> (string + params) \<times> 'd" where
  "remove_container = container_command ''remove'' DockerRemove"

definition create_container :: "'d daemon \<Rightarrow> string \<Rightarrow> pyval \<Rightarrow> 'd \<Rightarrow> (string + params) \<times> 'd" where
  "create_container daemon name img d =
     map_prod (map_sum id (\<lambda>n. [(''name'', PStr n), (''image'', img), (''status'', PStr ''created'')])) id (daemon (DockerRun img name) d)"

section \<open>The Docker adapter\<close>

definition docker_operations :: "string list" where
  "docker_operations = [''restart'', ''start'', ''stop'', ''create'', ''remove'']"

text \<open>The message names the keys \<open>action\<close> and \<open>name\<close> of the result; a missing key is a \<open>KeyError\<close>, which the handler catches.\<close>

definition docker_report :: "request \<Rightarrow> string + params \<Rightarrow> exec_result" where
  "docker_report r answer =
     (case answer of
        Inl e \<Rightarrow> module_result r ''failed'' False (''Execution failed: '' @ e) []
      | Inr result \<Rightarrow>
         (case (map_of result ''action'', map_of result ''name'') of
            (Some (PStr act), Some (PStr name)) \<Rightarrow> module_result r ''completed'' True (''Execution completed: '' @ act @ '' on '' @ name) result
          | (Some _, _) \<Rightarrow> module_result r ''failed'' False (''Execution failed: '' @ repr_text ''name'') []
          | (None, _) \<Rightarrow> module_result r ''failed'' False (''Execution failed: '' @ repr_text ''action'') []))"

definition docker_execute :: "'d daemon \<Rightarrow> request \<Rightarrow> 'd \<Rightarrow> exec_result option \<times> 'd" where
  "docker_execute daemon r d =
     (let operation = lower (req_operation r); target = req_target r; report = map_prod (Some \<circ> docker_report r) id in
      if operation = ''restart'' then report (restart_container daemon target d)
      else if operation = ''start'' then report (start_container daemon target d)
      else if operation = ''stop'' then report (stop_container daemon target d)
      else if operation = ''create''
        then report (create_container daemon target (case map_of (req_parameters r) ''image'' of None \<Rightarrow> PStr ''unknown'' | Some v \<Rightarrow> v) d)
      else if operation = ''remove'' then report (remove_container daemon target d)
      else (Some (module_result r ''failed'' False (''Operation '' @ operation @ '' not supported by Docker adapter'') []), d))"

definition docker_adapter :: "'d daemon \<Rightarrow> 'd adapter" where
  "docker_adapter daemon = \<lparr>ad_supports = (\<lambda>r. lower (req_operation r) \<in> set docker_operations), ad_execute = docker_execute daemon\<rparr>"

section \<open>The git adapter\<close>

datatype git_exit = GitRaised string | GitExit int string string  \<comment> \<open>status, standard output, standard error\<close>

type_synonym 'd git_program = "string list \<Rightarrow> string \<Rightarrow> 'd \<Rightarrow> git_exit \<times> 'd"

definition git_report :: "request \<Rightarrow> string \<Rightarrow> git_exit \<Rightarrow> exec_result" where
  "git_report r operation answer =
     (case answer of
        GitRaised e \<Rightarrow> module_result r ''failed'' False (''Execution failed: '' @ e) []
      | GitExit status out err \<Rightarrow>
          if status \<noteq> 0 then module_result r ''failed'' False (''git tag failed: '' @ (if strip_text err \<noteq> [] then strip_text err else strip_text out)) []
          else module_result r ''completed'' True (''Execution completed: '' @ operation @ '' on '' @ req_target r)
            [(''action'', PStr operation), (''name'', PStr (req_target r))])"

definition git_execute :: "'d git_program \<Rightarrow> string \<Rightarrow> request \<Rightarrow> 'd \<Rightarrow> exec_result option \<times> 'd" where
  "git_execute git repo r d =
     (let operation = lower (req_operation r) in
      if operation = ''create'' then map_prod (Some \<circ> git_report r operation) id (git [''git'', ''tag'', req_target r] repo d)
      else if operation = ''remove'' then map_prod (Some \<circ> git_report r operation) id (git [''git'', ''tag'', ''-d'', req_target r] repo d)
      else (Some (module_result r ''failed'' False (''Operation '' @ operation @ '' not supported by git adapter'') []), d))"

definition git_tag_adapter :: "'d git_program \<Rightarrow> string \<Rightarrow> 'd adapter" where
  "git_tag_adapter git repo = \<lparr>ad_supports = (\<lambda>r. lower (req_operation r) \<in> {''create'', ''remove''}), ad_execute = git_execute git repo\<rparr>"

definition resolve_repo_path :: "(string \<Rightarrow> bool) \<Rightarrow> env \<Rightarrow> string option" where
  "resolve_repo_path has_git_dir env =
     (let raw = strip_text (case env ''RMT_AGENT_GIT_REPO_PATH'' of None \<Rightarrow> [] | Some s \<Rightarrow> s)
      in if raw = [] \<or> \<not> has_git_dir raw then None else Some raw)"

section \<open>Registration\<close>

text \<open>The host as the adapters see it: what the Docker client and git act on, and the module registry.\<close>

record 'd host =
  ho_outside :: 'd
  ho_modules :: module_world

definition on_part :: "('h \<Rightarrow> 'w) \<Rightarrow> ('w \<Rightarrow> 'h \<Rightarrow> 'h) \<Rightarrow> 'w adapter \<Rightarrow> 'h adapter" where
  "on_part get put ad = \<lparr>ad_supports = ad_supports ad, ad_execute = (\<lambda>r h. let (res, w) = ad_execute ad r (get h) in (res, put w h))\<rparr>"

definition outside_adapter :: "'d adapter \<Rightarrow> 'd host adapter" where
  "outside_adapter = on_part ho_outside (\<lambda>w h. h\<lparr>ho_outside := w\<rparr>)"

definition register_default_adapters :: "bool \<Rightarrow> 'd daemon \<Rightarrow> 'd host gov \<Rightarrow> 'd host gov" where
  "register_default_adapters reachable daemon st =
     (let st1 = register_adapter ''module_change'' (on_part ho_modules (\<lambda>w h. h\<lparr>ho_modules := w\<rparr>) module_adapter)
            (register_adapter ''simulation'' simulation_adapter st)
      in if reachable then register_adapter ''docker'' (outside_adapter (docker_adapter daemon)) st1 else st1)"

definition register_git_adapter :: "(string \<Rightarrow> bool) \<Rightarrow> env \<Rightarrow> 'd git_program \<Rightarrow> 'd host gov \<Rightarrow> bool \<times> 'd host gov" where
  "register_git_adapter has_git_dir env git st =
     (case resolve_repo_path has_git_dir env of
        None \<Rightarrow> (False, st)
      | Some repo \<Rightarrow> (True, register_adapter ''git'' (outside_adapter (git_tag_adapter git repo)) st))"

section \<open>The runtime report\<close>

record runtime_view =
  ru_configured :: string
  ru_resolved :: string
  ru_docker :: bool
  ru_git :: bool
  ru_degraded :: bool
  ru_notes :: "string list"

definition resolved_adapter :: "string \<Rightarrow> 'w gov \<Rightarrow> string" where
  "resolved_adapter engine st = (if g_adapters st engine \<noteq> None then engine else ''simulation'')"

definition runtime_status :: "string \<Rightarrow> bool \<Rightarrow> bool \<Rightarrow> 'w gov \<Rightarrow> runtime_view" where
  "runtime_status engine docker_ok git_ok st =
     (let resolved = resolved_adapter engine st;
          notes = (if engine \<noteq> resolved then [''configured engine '' @ quoted engine @ '' unavailable -- running '' @ quoted resolved] else []) @
            (if \<not> git_ok then [''git not on PATH -- /platform/state will fail''] else [])
      in \<lparr>ru_configured = engine, ru_resolved = resolved, ru_docker = docker_ok, ru_git = git_ok, ru_degraded = (notes \<noteq> []), ru_notes = notes\<rparr>)"

end
