(* ===== verification/Adapter_Properties.thy ===== *)
theory Adapter_Properties
  imports Execution_Adapters Governance_Sample
begin

text \<open>
  What the outcome of a governed Docker action says about the host, and what git is asked for.
\<close>

text \<open>The call an action stands for.\<close>

definition docker_request :: "action \<Rightarrow> docker_call option" where
  "docker_request a =
     (case act_type a of
        Start \<Rightarrow> Some (DockerStart (act_component a)) | Stop \<Rightarrow> Some (DockerStop (act_component a))
      | Restart \<Rightarrow> Some (DockerRestart (act_component a)) | Remove \<Rightarrow> Some (DockerRemove (act_component a))
      | Create \<Rightarrow> Some (DockerRun (case map_of (act_parameters a) ''image'' of None \<Rightarrow> PStr ''unknown'' | Some v \<Rightarrow> v) (act_component a))
      | _ \<Rightarrow> None)"

lemmas container_commands = start_container_def stop_container_def restart_container_def remove_container_def create_container_def
  container_command_def

lemma lower_type_value: "lower (type_value t) = type_value t"
proof -
  have "lower ''restart_component'' = ''restart_component'' \<and> lower ''create_checkpoint'' = ''create_checkpoint'' \<and>
    lower ''scale_down'' = ''scale_down'' \<and> lower ''isolate_component'' = ''isolate_component'' \<and> lower ''start'' = ''start'' \<and>
    lower ''stop'' = ''stop'' \<and> lower ''restart'' = ''restart'' \<and> lower ''create'' = ''create'' \<and> lower ''remove'' = ''remove''"
    by code_simp
  then show ?thesis by (cases t) simp_all
qed

lemma repr_action: "repr_text ''action'' = quoted ''action''"
  by code_simp

text \<open>What a daemon's answer makes of the result: a creation that worked has no key \<open>action\<close>.\<close>

lemma docker_execute_result:
  assumes "docker_execute daemon r d = (res, d')" and "req_operation r = type_value (act_type a)"
    and "req_target r = act_component a" and "req_parameters r = act_parameters a" and "docker_request a = Some call"
  shows "\<exists>x answer. res = Some x \<and> daemon call d = (answer, d') \<and>
     (res_success x \<longleftrightarrow> (\<exists>n. answer = Inr n) \<and> act_type a \<noteq> Create) \<and>
     (act_type a = Create \<and> (\<exists>n. answer = Inr n) \<longrightarrow> res_message x = ''Execution failed: '' @ quoted ''action'')"
proof -
  obtain answer d1 where c: "daemon call d = (answer, d1)" by fastforce
  show ?thesis using assms c lower_type_value[of "act_type a"] repr_action
    by (cases answer; cases "act_type a")
      (auto simp: docker_execute_def docker_request_def container_commands docker_report_def module_result_def Let_def)
qed

text \<open>C38: A governed action through the Docker adapter either leaves the host as it was and reports no success, or makes the
  one call that the action stands for, and the host is what that call left. For start, stop, restart and remove the outcome
  reports success exactly when the call succeeded. For create it never does: a container that was created is reported as a
  failed execution, with the missing key of the answer as its message.\<close>

theorem docker_outcome_follows_call:
  assumes "execute_governed_action a ''docker'' st = (out, st')"
    and "g_adapters st ''docker'' = Some (outside_adapter (docker_adapter daemon))"
  shows "(g_world st' = g_world st \<and> \<not> (\<exists>res v. out = Executed res v \<and> res_success res)) \<or>
     (\<exists>call answer res v. docker_request a = Some call \<and>
        daemon call (ho_outside (g_world st)) = (answer, ho_outside (g_world st')) \<and> ho_modules (g_world st') = ho_modules (g_world st) \<and>
        out = Executed res v \<and> (res_success res \<longleftrightarrow> (\<exists>n. answer = Inr n) \<and> act_type a \<noteq> Create) \<and>
        (act_type a = Create \<and> (\<exists>n. answer = Inr n) \<longrightarrow> res_message res = ''Execution failed: '' @ quoted ''action''))"
proof (cases "g_world st' = g_world st \<and> \<not> (\<exists>res v. out = Executed res v \<and> res_success res)")
  case False
  obtain r ad where r: "g_adapters st ''docker'' = Some ad" "ad_supports ad r" "req_target r = act_component a"
    "req_operation r = type_value (act_type a)" "req_parameters r = act_parameters a"
    "case ad_execute ad r (g_world st) of (Some res, w) \<Rightarrow> (\<exists>v. out = Executed res v) \<and> g_world st' = w
       | (None, w) \<Rightarrow> out = Raised \<and> g_world st' = w"
    using execute_shape[OF assms(1)] False by auto
  have ad: "ad = outside_adapter (docker_adapter daemon)" using r(1) assms(2) by simp
  obtain call where call: "docker_request a = Some call"
    using r(2,4) lower_type_value[of "act_type a"]
    by (cases "act_type a") (auto simp: ad outside_adapter_def on_part_def docker_adapter_def docker_operations_def docker_request_def)
  obtain res d where d: "docker_execute daemon r (ho_outside (g_world st)) = (res, d)" by fastforce
  obtain x answer where x: "res = Some x" "daemon call (ho_outside (g_world st)) = (answer, d)"
    "res_success x \<longleftrightarrow> (\<exists>n. answer = Inr n) \<and> act_type a \<noteq> Create"
    "act_type a = Create \<and> (\<exists>n. answer = Inr n) \<longrightarrow> res_message x = ''Execution failed: '' @ quoted ''action''"
    using docker_execute_result[OF d r(4,3,5) call] by blast
  have "(\<exists>v. out = Executed x v) \<and> g_world st' = (g_world st)\<lparr>ho_outside := d\<rparr>"
    using r(6) x(1) d by (simp add: ad outside_adapter_def on_part_def docker_adapter_def)
  then show ?thesis using call x by auto
qed simp

text \<open>A daemon that creates every container.\<close>

definition counting_daemon :: "nat daemon" where
  "counting_daemon call n = (Inr ''c'', Suc n)"

definition sample_host :: "nat host gov" where
  "sample_host = \<lparr>g_holds = empty_store Sqlite, g_records = empty_store Sqlite, g_auths = empty_store Sqlite,
     g_audits = empty_store Sqlite, g_traces = empty_store Sqlite, g_verifs = empty_store Sqlite,
     g_registry = [default_domain \<mapsto> default_registration], g_adapters = (\<lambda>a. None),
     g_modules = (\<lambda>w. None), g_uuid = (\<lambda>n. CHR ''u'' # replicate n CHR ''x''), g_next = 0, g_now = 0, g_sha = (\<lambda>t. ''h''),
     g_world = \<lparr>ho_outside = 0, ho_modules = \<lparr>mw_modules = [], mw_uuid = (\<lambda>n. ''abcdef''), mw_next = 0\<rparr>\<rparr>\<rparr>"

lemma docker_outcome_follows_call_witness:
  "\<exists>out st'. execute_governed_action ((sample_action False)\<lparr>act_type := Create\<rparr>) ''docker''
      (register_default_adapters True counting_daemon sample_host) = (out, st') \<and> \<not> (\<exists>res v. out = Executed res v \<and> res_success res)"
proof -
  let ?st = "register_default_adapters True counting_daemon sample_host"
  obtain out st' where ex: "execute_governed_action ((sample_action False)\<lparr>act_type := Create\<rparr>) ''docker'' ?st = (out, st')" by fastforce
  have ad: "g_adapters ?st ''docker'' = Some (outside_adapter (docker_adapter counting_daemon))"
    by (simp add: register_default_adapters_def register_adapter_def)
  show ?thesis using docker_outcome_follows_call[OF ex ad] ex by auto
qed

section \<open>Git\<close>

text \<open>The target is one argument, but it is not told apart from an option: a creation of \<open>-l\<close> asks git to list the
  tags and reports success.\<close>

lemma git_option_target:
  assumes "git [''git'', ''tag'', ''-l''] repo d = (GitExit 0 [] [], d)" and "req_operation r = ''create''" "req_target r = ''-l''"
  shows "\<exists>res. git_execute git repo r d = (Some res, d) \<and> res_success res"
proof -
  have "lower ''create'' = ''create''" by code_simp
  then show ?thesis using assms by (simp add: git_execute_def git_report_def module_result_def)
qed

section \<open>Registration\<close>

lemma default_adapters:
  "g_adapters st ''docker'' = None \<Longrightarrow> resolved_adapter ''docker'' (register_default_adapters reachable daemon st) = (if reachable then ''docker'' else ''simulation'')"
  by (simp add: resolved_adapter_def register_default_adapters_def register_adapter_def)

end
