(* ===== verification/Evidence_Migration.thy ===== *)
theory Evidence_Migration
  imports Durable_Store Py_Json
begin

text \<open>
  The migration of the JSON evidence stores into the shared database and back (\<open>scripts/rmt-migrate-evidence.py\<close>).
  A file is what its text decodes to, its layout is left out. A table is a store with the model of its records: how a
  decoded item is validated, and what a record is dumped to. A run that an exception leaves keeps what it did.
\<close>

datatype json_file = NotJson | NotAList pyval | JsonList "pyval list"

record 'r evidence_table =
  et_name :: string
  et_path :: string
  et_key :: "'r \<Rightarrow> string option"
  et_validate :: "pyval \<Rightarrow> 'r option"
  et_dump :: "'r \<Rightarrow> pyval"

record 'r evidence_set =
  eg_files :: "string \<Rightarrow> json_file option"
  eg_tables :: "string \<Rightarrow> 'r store"

definition migrated_path :: "string \<Rightarrow> string" where
  "migrated_path path = path @ ''.migrated''"

text \<open>What a loop over the decoded file walks: the keys of an object, the characters of a text; \<open>None\<close> is an exception.\<close>

fun file_items :: "json_file \<Rightarrow> pyval list option" where
  "file_items NotJson = None"
| "file_items (JsonList vs) = Some vs"
| "file_items (NotAList (PDict kvs)) = Some (List.map (PStr \<circ> fst) kvs)"
| "file_items (NotAList (PStr s)) = Some (List.map (\<lambda>c. PStr [c]) s)"
| "file_items (NotAList v) = None"

text \<open>Records are saved one by one; \<open>False\<close> is the exception of an item that is not valid.\<close>

fun insert_items :: "'r evidence_table \<Rightarrow> pyval list \<Rightarrow> 'r store \<Rightarrow> bool \<times> 'r store" where
  "insert_items t [] s = (True, s)"
| "insert_items t (v # vs) s =
     (case et_validate t v of None \<Rightarrow> (False, s) | Some r \<Rightarrow> insert_items t vs (save (et_key t) r s))"

definition with_table :: "'r evidence_table \<Rightarrow> 'r store \<Rightarrow> 'r evidence_set \<Rightarrow> 'r evidence_set" where
  "with_table t s e = e\<lparr>eg_tables := (eg_tables e)(et_name t := s)\<rparr>"

datatype table_step = Skipped | Migrated | Aborted

definition forward_table :: "bool \<Rightarrow> 'r evidence_table \<Rightarrow> 'r evidence_set \<Rightarrow> table_step \<times> 'r evidence_set" where
  "forward_table force t e =
     (let s = eg_tables e (et_name t); existing = mem s in
      if existing \<noteq> [] \<and> \<not> force then (Skipped, e)
      else (case eg_files e (et_path t) of
          None \<Rightarrow> (Skipped, e)
        | Some file \<Rightarrow>
           (let s1 = (if existing \<noteq> [] then replace_records (et_key t) [] s else s) in
            (case file_items file of
               Some vs \<Rightarrow>
                 (case insert_items t vs s1 of
                    (False, s2) \<Rightarrow> (Aborted, with_table t s2 e)
                  | (True, s2) \<Rightarrow> (Migrated, (with_table t s2 e)\<lparr>eg_files := (eg_files e)(et_path t := None, migrated_path (et_path t) := Some file)\<rparr>))
             | None \<Rightarrow> (Aborted, with_table t s1 e)))))"

text \<open>The number of migrated stores, or \<open>None\<close> when an exception ends the run.\<close>

fun forward :: "bool \<Rightarrow> 'r evidence_table list \<Rightarrow> 'r evidence_set \<Rightarrow> nat option \<times> 'r evidence_set" where
  "forward force [] e = (Some 0, e)"
| "forward force (t # ts) e =
     (case forward_table force t e of
        (Aborted, e1) \<Rightarrow> (None, e1)
      | (Skipped, e1) \<Rightarrow> forward force ts e1
      | (Migrated, e1) \<Rightarrow> map_prod (map_option Suc) id (forward force ts e1))"

definition reverse_table :: "'r evidence_table \<Rightarrow> 'r evidence_set \<Rightarrow> bool \<times> 'r evidence_set" where
  "reverse_table t e =
     (let records = mem (eg_tables e (et_name t)) in
      if records = [] then (False, e)
      else (True, e\<lparr>eg_files := (eg_files e)(et_path t \<mapsto> JsonList (List.map (et_dump t) records))\<rparr>))"

fun reverse :: "'r evidence_table list \<Rightarrow> 'r evidence_set \<Rightarrow> nat \<times> 'r evidence_set" where
  "reverse [] e = (0, e)"
| "reverse (t # ts) e = (case reverse_table t e of (done, e1) \<Rightarrow> map_prod (\<lambda>n. if done then Suc n else n) id (reverse ts e1))"

section \<open>What a migration keeps\<close>

text \<open>Every item of the file is valid and is what its record dumps to.\<close>

definition faithful_items :: "'r evidence_table \<Rightarrow> pyval list \<Rightarrow> bool" where
  "faithful_items t vs \<longleftrightarrow> (\<forall>v\<in>set vs. \<exists>r. et_validate t v = Some r \<and> et_dump t r = v)"

lemma insert_faithful:
  assumes "faithful_items t vs"
  shows "\<exists>s'. insert_items t vs s = (True, s') \<and> List.map (et_dump t) (mem s') = List.map (et_dump t) (mem s) @ vs"
  using assms
proof (induction vs arbitrary: s)
  case (Cons v vs)
  obtain r where r: "et_validate t v = Some r" "et_dump t r = v" using Cons.prems by (auto simp: faithful_items_def)
  have "faithful_items t vs" using Cons.prems by (simp add: faithful_items_def)
  from Cons.IH[OF this, of "save (et_key t) r s"] show ?case by (simp add: r)
qed simp

lemma insert_mirrored: "insert_items t vs s = (ok, s') \<Longrightarrow> mirrored (et_key t) s \<Longrightarrow> mirrored (et_key t) s'"
  by (induction t vs s rule: insert_items.induct) (auto split: option.splits)

lemma insert_stops:
  assumes "faithful_items t vs" and "et_validate t v = None"
  shows "\<exists>s'. insert_items t (vs @ v # ws) s = (False, s') \<and> List.map (et_dump t) (mem s') = List.map (et_dump t) (mem s) @ vs"
  using assms
proof (induction vs arbitrary: s)
  case (Cons u vs)
  obtain r where r: "et_validate t u = Some r" "et_dump t r = u" using Cons.prems by (auto simp: faithful_items_def)
  have "faithful_items t vs" using Cons.prems by (simp add: faithful_items_def)
  from Cons.IH[OF this assms(2), of "save (et_key t) r s"] show ?case by (simp add: r)
qed simp

text \<open>The items of a table's file; a table that is ready to take its file, which may be missing or hold the empty list;
  and a table that has taken it. A file that was there has its new name, an older \<open>.migrated\<close> file stays otherwise.\<close>

definition items_of :: "'r evidence_table \<Rightarrow> 'r evidence_set \<Rightarrow> pyval list" where
  "items_of t e = (case eg_files e (et_path t) of Some (JsonList vs) \<Rightarrow> vs | _ \<Rightarrow> [])"

definition ready :: "'r evidence_table \<Rightarrow> 'r evidence_set \<Rightarrow> bool" where
  "ready t e \<longleftrightarrow> mem (eg_tables e (et_name t)) = [] \<and> mirrored (et_key t) (eg_tables e (et_name t)) \<and>
     eg_files e (et_path t) \<in> {None, Some (JsonList (items_of t e))} \<and> faithful_items t (items_of t e)"

definition has_file :: "'r evidence_set \<Rightarrow> 'r evidence_table \<Rightarrow> bool" where
  "has_file e t \<longleftrightarrow> eg_files e (et_path t) \<noteq> None"

definition taken :: "'r evidence_table \<Rightarrow> 'r evidence_set \<Rightarrow> 'r evidence_set \<Rightarrow> bool" where
  "taken t e e' \<longleftrightarrow> eg_files e' (et_path t) = None \<and>
     eg_files e' (migrated_path (et_path t)) = (if has_file e t then eg_files e (et_path t) else eg_files e (migrated_path (et_path t))) \<and>
     mirrored (et_key t) (eg_tables e' (et_name t)) \<and> List.map (et_dump t) (mem (eg_tables e' (et_name t))) = items_of t e"

definition paths_of :: "'r evidence_table list \<Rightarrow> string list" where
  "paths_of ts = concat (List.map (\<lambda>t. [et_path t, migrated_path (et_path t)]) ts)"

definition outside_kept :: "'r evidence_table list \<Rightarrow> 'r evidence_set \<Rightarrow> 'r evidence_set \<Rightarrow> bool" where
  "outside_kept ts e e' \<longleftrightarrow> (\<forall>n. n \<notin> et_name ` set ts \<longrightarrow> eg_tables e' n = eg_tables e n) \<and>
     (\<forall>p. p \<notin> set (paths_of ts) \<longrightarrow> eg_files e' p = eg_files e p)"

lemma forward_ready:
  assumes "ready t e" and "distinct [et_path t, migrated_path (et_path t)]"
  shows "\<exists>e1. forward_table force t e = (if has_file e t then Migrated else Skipped, e1) \<and> taken t e e1 \<and> outside_kept [t] e e1"
proof -
  have s: "mem (eg_tables e (et_name t)) = []" "mirrored (et_key t) (eg_tables e (et_name t))" "faithful_items t (items_of t e)"
    using assms(1) by (simp_all add: ready_def)
  obtain s' where i: "insert_items t (items_of t e) (eg_tables e (et_name t)) = (True, s')" "List.map (et_dump t) (mem s') = items_of t e"
    using insert_faithful[OF s(3), of "eg_tables e (et_name t)"] s(1) by auto
  have m: "mirrored (et_key t) s'" by (rule insert_mirrored[OF i(1) s(2)])
  show ?thesis
  proof (cases "eg_files e (et_path t)")
    case None
    then show ?thesis using s
      by (simp add: forward_table_def has_file_def taken_def outside_kept_def items_of_def Let_def)
  next
    case (Some f)
    then have f: "f = JsonList (items_of t e)" using assms(1) by (simp add: ready_def)
    have dis: "et_path t \<noteq> migrated_path (et_path t)" using assms(2) by simp
    have "forward_table force t e = (Migrated, (with_table t s' e)\<lparr>eg_files := (eg_files e)(et_path t := None, migrated_path (et_path t) := Some f)\<rparr>)"
      using s(1) i(1) by (simp add: forward_table_def Some f Let_def)
    then show ?thesis using Some dis i(2) m by (simp add: has_file_def taken_def outside_kept_def with_table_def paths_of_def)
  qed
qed

lemma kept_ready:
  assumes "outside_kept [t] e e1" and "ready u e" and "et_name u \<noteq> et_name t"
    and "et_path u \<notin> set (paths_of [t])" "migrated_path (et_path u) \<notin> set (paths_of [t])"
  shows "ready u e1" "eg_files e1 (et_path u) = eg_files e (et_path u)"
    "eg_files e1 (migrated_path (et_path u)) = eg_files e (migrated_path (et_path u))"
  using assms by (simp_all add: outside_kept_def ready_def items_of_def)

lemma forward_all:
  assumes "distinct (List.map et_name ts)" and "distinct (paths_of ts)" and "\<forall>t\<in>set ts. ready t e"
  shows "\<exists>e'. forward force ts e = (Some (length (filter (has_file e) ts)), e') \<and> (\<forall>t\<in>set ts. taken t e e') \<and> outside_kept ts e e'"
  using assms
proof (induction ts arbitrary: e)
  case (Cons t ts)
  obtain e1 where e1: "forward_table force t e = (if has_file e t then Migrated else Skipped, e1)" "taken t e e1" "outside_kept [t] e e1"
    using forward_ready[of t e force] Cons.prems by (auto simp: paths_of_def)
  have other: "et_name u \<noteq> et_name t" "et_path u \<notin> set (paths_of [t])" "migrated_path (et_path u) \<notin> set (paths_of [t])"
    if "u \<in> set ts" for u
    using Cons.prems(1,2) that by (auto simp: paths_of_def) (metis imageI)+
  have rdy: "ready u e1" and same: "eg_files e1 (et_path u) = eg_files e (et_path u)"
    "eg_files e1 (migrated_path (et_path u)) = eg_files e (migrated_path (et_path u))" if "u \<in> set ts" for u
    using kept_ready[OF e1(3) _ other[OF that]] Cons.prems(3) that by auto
  have d: "distinct (List.map et_name ts)" "distinct (paths_of ts)" using Cons.prems(1,2) by (simp_all add: paths_of_def)
  obtain e2 where e2: "forward force ts e1 = (Some (length (filter (has_file e1) ts)), e2)" "\<forall>u\<in>set ts. taken u e1 e2" "outside_kept ts e1 e2"
    using Cons.IH[OF d] rdy by blast
  have count: "filter (has_file e1) ts = filter (has_file e) ts" by (rule filter_cong) (simp_all add: has_file_def same)
  have t: "et_name t \<notin> et_name ` set ts" "et_path t \<notin> set (paths_of ts)" "migrated_path (et_path t) \<notin> set (paths_of ts)"
    using Cons.prems(1,2) by (auto simp: paths_of_def)
  have "taken t e e2" using e1(2) e2(3) t by (simp add: taken_def outside_kept_def)
  moreover have "taken u e e2" if "u \<in> set ts" for u
    using e2(2) that same[OF that] by (simp add: taken_def has_file_def items_of_def)
  moreover have "outside_kept (t # ts) e e2" using e1(3) e2(3) by (simp add: outside_kept_def paths_of_def)
  ultimately show ?case using e1(1) e2(1) count by (cases "has_file e t") simp_all
qed (simp add: outside_kept_def)

text \<open>The records of a table are written to its file; a table without records leaves its file alone.\<close>

lemma reverse_all:
  assumes "distinct (List.map et_path ts)"
  shows "fst (reverse ts e) = length (filter (\<lambda>t. mem (eg_tables e (et_name t)) \<noteq> []) ts) \<and> eg_tables (snd (reverse ts e)) = eg_tables e \<and>
     (\<forall>t\<in>set ts. eg_files (snd (reverse ts e)) (et_path t) =
        (if mem (eg_tables e (et_name t)) = [] then eg_files e (et_path t)
         else Some (JsonList (List.map (et_dump t) (mem (eg_tables e (et_name t))))))) \<and>
     (\<forall>p. p \<notin> et_path ` set ts \<longrightarrow> eg_files (snd (reverse ts e)) p = eg_files e p)"
  using assms
proof (induction ts arbitrary: e)
  case (Cons t ts)
  define e1 where "e1 = snd (reverse_table t e)"
  have e: "eg_tables e1 = eg_tables e"
    "eg_files e1 (et_path t) = (if mem (eg_tables e (et_name t)) = [] then eg_files e (et_path t)
         else Some (JsonList (List.map (et_dump t) (mem (eg_tables e (et_name t))))))"
    "\<And>p. p \<noteq> et_path t \<Longrightarrow> eg_files e1 p = eg_files e p"
    by (simp_all add: e1_def reverse_table_def Let_def)
  have r: "reverse_table t e = (mem (eg_tables e (et_name t)) \<noteq> [], e1)" by (simp add: e1_def reverse_table_def Let_def)
  have IH: "fst (reverse ts e1) = length (filter (\<lambda>t. mem (eg_tables e1 (et_name t)) \<noteq> []) ts) \<and> eg_tables (snd (reverse ts e1)) = eg_tables e1 \<and>
     (\<forall>t\<in>set ts. eg_files (snd (reverse ts e1)) (et_path t) =
        (if mem (eg_tables e1 (et_name t)) = [] then eg_files e1 (et_path t)
         else Some (JsonList (List.map (et_dump t) (mem (eg_tables e1 (et_name t))))))) \<and>
     (\<forall>p. p \<notin> et_path ` set ts \<longrightarrow> eg_files (snd (reverse ts e1)) p = eg_files e1 p)"
    using Cons.prems by (intro Cons.IH) simp
  have t: "et_path t \<notin> et_path ` set ts" using Cons.prems by simp
  have u: "eg_files e1 (et_path u) = eg_files e (et_path u)" if "u \<in> set ts" for u
    using e(3)[of "et_path u"] t imageI[OF that, of et_path] by metis
  show ?case using IH e t u by (simp add: r)
qed simp

lemma forward_again:
  "\<forall>t\<in>set ts. eg_files e (et_path t) = None \<Longrightarrow> forward force ts e = (Some 0, e)"
  by (induction ts; cases force) (simp_all add: forward_table_def Let_def)

text \<open>C39: The migration moves every store and loses nothing. From empty tables, and files that are missing or hold items
  which are valid and are what their records dump to, it counts the files there were; each table then holds the records of
  its file in order, in memory and on the disk, and the file has its new name. A second run, forced or not, finds no file
  and does nothing. The reverse run counts the tables with records and writes back their files with the items they had; a
  table without records (a missing file, or the empty list) gets no file.\<close>

theorem migration_round_trip:
  assumes "distinct (List.map et_name ts)" and "distinct (paths_of ts)" and "\<forall>t\<in>set ts. ready t e"
  shows "\<exists>e'. forward force ts e = (Some (length (filter (has_file e) ts)), e') \<and> forward again ts e' = (Some 0, e') \<and>
     (\<forall>t\<in>set ts. taken t e e') \<and>
     fst (reverse ts e') = length (filter (\<lambda>t. items_of t e \<noteq> []) ts) \<and>
     (\<forall>t\<in>set ts. eg_files (snd (reverse ts e')) (et_path t) = (if items_of t e = [] then None else eg_files e (et_path t)))"
proof -
  obtain e' where e': "forward force ts e = (Some (length (filter (has_file e) ts)), e')" "\<forall>t\<in>set ts. taken t e e'"
    using forward_all[OF assms] by blast
  have gone: "\<forall>t\<in>set ts. eg_files e' (et_path t) = None" using e'(2) by (simp add: taken_def)
  have dump: "List.map (et_dump t) (mem (eg_tables e' (et_name t))) = items_of t e" if "t \<in> set ts" for t
    using e'(2) that by (simp add: taken_def)
  then have none: "mem (eg_tables e' (et_name t)) = [] \<longleftrightarrow> items_of t e = []" if "t \<in> set ts" for t
    using that by (metis Nil_is_map_conv)
  have restored: "items_of t e \<noteq> [] \<Longrightarrow> eg_files e (et_path t) = Some (JsonList (items_of t e))" if "t \<in> set ts" for t
    using assms(3) that by (auto simp: ready_def items_of_def)
  have count: "filter (\<lambda>t. mem (eg_tables e' (et_name t)) \<noteq> []) ts = filter (\<lambda>t. items_of t e \<noteq> []) ts"
    by (rule filter_cong) (simp_all add: none)
  have d: "distinct (List.map et_path ts)" using assms(2) by (induction ts) (auto simp: paths_of_def)
  have "\<forall>t\<in>set ts. eg_files (snd (reverse ts e')) (et_path t) = (if items_of t e = [] then None else eg_files e (et_path t))"
    using reverse_all[OF d, of e'] gone dump none restored by simp
  then show ?thesis using e' forward_again[OF gone, of again] reverse_all[OF d, of e'] count by auto
qed

text \<open>An item that is not valid ends the run after the items before it were saved; the next run finds rows and skips the
  table, so the rest of the file stays behind although the run reports success.\<close>

lemma interrupted_migration_is_skipped:
  assumes "mem (eg_tables e (et_name t)) = []" and "eg_files e (et_path t) = Some (JsonList (vs @ v # ws))"
    and "faithful_items t vs" "vs \<noteq> []" "et_validate t v = None"
  shows "\<exists>e1. forward False [t] e = (None, e1) \<and> forward False [t] e1 = (Some 0, e1) \<and>
     List.map (et_dump t) (mem (eg_tables e1 (et_name t))) = vs"
proof -
  obtain s' where s': "insert_items t (vs @ v # ws) (eg_tables e (et_name t)) = (False, s')" "List.map (et_dump t) (mem s') = vs"
    using insert_stops[OF assms(3,5), of ws "eg_tables e (et_name t)"] assms(1) by auto
  then have "mem s' \<noteq> []" using assms(4) by auto
  then show ?thesis using assms(1,2) s' by (simp add: forward_table_def with_table_def Let_def)
qed

text \<open>With \<open>--force\<close> the rows of a table are gone before the file is read.\<close>

lemma forced_migration_clears_first:
  assumes "mem (eg_tables e (et_name t)) \<noteq> []" and "eg_files e (et_path t) = Some NotJson"
  shows "\<exists>e1. forward True [t] e = (None, e1) \<and> mem (eg_tables e1 (et_name t)) = []"
  using assms by (simp add: forward_table_def with_table_def Let_def)

definition sample_table :: "string evidence_table" where
  "sample_table = \<lparr>et_name = ''audit'', et_path = ''audit.json'', et_key = Some,
     et_validate = (\<lambda>v. case v of PStr s \<Rightarrow> Some s | _ \<Rightarrow> None), et_dump = PStr\<rparr>"

definition sample_empty_table :: "string evidence_table" where
  "sample_empty_table = sample_table\<lparr>et_name := ''trace'', et_path := ''trace.json''\<rparr>"

definition sample_set :: "string evidence_set" where
  "sample_set = \<lparr>eg_files = [''audit.json'' \<mapsto> JsonList [PStr ''a'', PStr ''b''], ''trace.json'' \<mapsto> JsonList []],
     eg_tables = (\<lambda>n. empty_store Sqlite)\<rparr>"

lemma migration_round_trip_witness:
  "\<exists>e'. forward False [sample_table, sample_empty_table] sample_set = (Some 2, e') \<and> mem (eg_tables e' ''audit'') = [''a'', ''b''] \<and>
     eg_files (snd (reverse [sample_table, sample_empty_table] e')) ''audit.json'' = Some (JsonList [PStr ''a'', PStr ''b'']) \<and>
     eg_files (snd (reverse [sample_table, sample_empty_table] e')) ''trace.json'' = None"
proof -
  let ?ts = "[sample_table, sample_empty_table]"
  have d: "distinct (List.map et_name ?ts)" "distinct (paths_of ?ts)"
    by (simp_all add: paths_of_def sample_table_def sample_empty_table_def migrated_path_def)
  have items: "items_of sample_table sample_set = [PStr ''a'', PStr ''b'']" "items_of sample_empty_table sample_set = []"
    by (simp_all add: items_of_def sample_table_def sample_empty_table_def sample_set_def)
  have r: "\<forall>t\<in>set ?ts. ready t sample_set"
    by (simp add: ready_def items) (simp add: sample_table_def sample_empty_table_def sample_set_def faithful_items_def empty_store_def mirrored_def)
  have inj: "List.map PStr xs = [PStr ''a'', PStr ''b''] \<Longrightarrow> xs = [''a'', ''b'']" for xs by auto
  have count: "filter (has_file sample_set) ?ts = ?ts"
    by (simp add: has_file_def sample_table_def sample_empty_table_def sample_set_def)
  obtain e' where e': "forward False ?ts sample_set = (Some 2, e')" "taken sample_table sample_set e'"
    "eg_files (snd (reverse ?ts e')) (et_path sample_table) = eg_files sample_set (et_path sample_table)"
    "eg_files (snd (reverse ?ts e')) (et_path sample_empty_table) = None"
    using migration_round_trip[OF d r, of False False] items unfolding count by auto
  have "et_dump sample_table = PStr" "et_name sample_table = ''audit''" "et_path sample_table = ''audit.json''"
    "et_path sample_empty_table = ''trace.json''" by (simp_all add: sample_table_def sample_empty_table_def)
  then show ?thesis using e' items inj by (auto simp: taken_def sample_set_def)
qed

end
