(* ===== verification/Separation_Runs.thy ===== *)
theory Separation_Runs
  imports Agent_Properties Platform_Runs Decision_History
begin

text \<open>
  Separation of duties over a run of one process: the provenance entry of a hold that an agent's
  proposal raised stays in the table, whatever requests, cycles and clock steps follow, until it is
  older than an hour; by then the hold has lapsed.
\<close>

section \<open>Runs of one process\<close>

text \<open>The steps of the platform without a restart: the provenance table lives in memory.\<close>

inductive process_step :: "deployment \<Rightarrow> 'w server \<Rightarrow> 'w server \<Rightarrow> bool" where
  proc_request: "handle (D\<lparr>dp_probes := P\<rparr>) c r s = Some (x, s') \<Longrightarrow> process_step D s s'"
| proc_cycle: "background_cycle (D\<lparr>dp_probes := P, dp_docker := docker\<rparr>) s = Some s' \<Longrightarrow> process_step D s s'"
| proc_advance: "0 \<le> dt \<Longrightarrow> process_step D s (advance dt s)"
| proc_metric: "process_step D s (s\<lparr>sv_loop := (sv_loop s)\<lparr>lp_home := save_container_metric m (lp_home (sv_loop s))\<rparr>\<rparr>)"

abbreviation process_run :: "deployment \<Rightarrow> 'w server \<Rightarrow> 'w server \<Rightarrow> bool" where
  "process_run D \<equiv> (process_step D)\<^sup>*\<^sup>*"

lemma process_is_platform: "process_step D s s' \<Longrightarrow> \<exists>e. platform_step D e s s'"
  by (induction rule: process_step.induct) (blast intro: platform_step.intros)+

lemma moves_process_step: "process_step D s s' \<Longrightarrow> gov_moves (sv_gov s) (sv_gov s')"
proof (induction rule: process_step.induct)
  case (proc_request D P c r s x s')
  then show ?case by (rule moves_handle)
next
  case (proc_cycle D P docker s s')
  then show ?case by (auto simp: background_cycle_def split: if_splits dest!: moves_cycle)
next
  case (proc_advance dt D s)
  then show ?case by (auto simp: advance_def Let_def intro: step_tick)
next
  case (proc_metric D s m)
  then show ?case by (simp add: save_container_metric_def)
qed

lemma moves_process_run: "process_run D s s' \<Longrightarrow> gov_moves (sv_gov s) (sv_gov s')"
  by (induction rule: rtranclp_induct) (auto dest: moves_process_step)

section \<open>Clock and identifiers\<close>

definition later :: "'w gov \<Rightarrow> 'w gov \<Rightarrow> bool" where
  "later st st' \<longleftrightarrow> g_uuid st' = g_uuid st \<and> g_next st \<le> g_next st' \<and> g_now st \<le> g_now st'"

lemma later_step: "gov_step st st' \<Longrightarrow> later st st'"
proof (induction rule: gov_step.induct)
  case (step_execute a adapter st out st')
  then show ?case using execute_config[of st a adapter] by (simp add: same_config_def later_def)
next
  case (step_approve k who ok st out st')
  then show ?case using approve_config[of st k who ok] by (simp add: same_config_def later_def)
next
  case (step_domain rg st st')
  then show ?case by (auto simp: register_domain_def later_def split: if_splits)
next
  case (step_restart st)
  then show ?case by (simp add: restart_eq reopen_stores_def later_def)
qed (simp_all add: register_adapter_def fresh_id_def later_def set_hold_def)

lemma later_moves: "gov_moves st st' \<Longrightarrow> later st st'"
  by (induction rule: rtranclp_induct) (auto simp: later_def dest!: later_step)

lemma later_issued: "later st st' \<Longrightarrow> supply_ok st \<Longrightarrow> supply_ok st' \<and> issued st \<subseteq> issued st'"
  by (auto simp: later_def supply_ok_def issued_def)

section \<open>The hold of a manual outcome\<close>

lemma manual_hold:
  assumes x: "execute_governed_action a adapter st = (ManualRequired why k, st')"
  shows "\<exists>n h. g_next st \<le> n \<and> n < g_next st' \<and> k = g_uuid st n \<and> hold_id h = k \<and>
     hold_expires_at h = Some (g_now st + approval_ttl) \<and> g_holds st' = save hold_key h (g_holds st)"
proof (cases "resolve_assessment st a adapter")
  case (Inl e)
  then show ?thesis using x by (cases e) (auto simp: execute_governed_action_def)
next
  case (Inr y)
  obtain asmt st1 where y: "resolve_assessment st a adapter = Inr (asmt, st1)" using Inr by (cases y) simp
  obtain d st2 where d: "process_approval a (asm_policy asmt) (asm_risk asmt) st1 = (d, st2)" by fastforce
  obtain h st3 where h: "hold_for_manual_approval a d adapter (Some (rk_level (asm_risk asmt))) (Some (asm_prov asmt)) st2 = (h, st3)"
    by fastforce
  let ?n = "Suc (Suc (g_next st))"
  have st2: "st2 = st\<lparr>g_next := ?n\<rparr>" using d resolve_state[OF y] by (auto simp: process_approval_def fresh_id_def Let_def)
  have f: "hold_id h = g_uuid st ?n" "hold_expires_at h = Some (g_now st + approval_ttl)"
    "st3 = st\<lparr>g_next := Suc ?n, g_holds := save hold_key h (g_holds st)\<rparr>"
    using h by (auto simp: st2 hold_for_manual_approval_def fresh_id_def Let_def)
  have "ManualRequired why k = ManualRequired (ad_reason d) (hold_id h)"
    "st' = record_approval_decision a d ''manual_required'' [] (Some (hold_id h)) (Some (asm_prov asmt)) st3"
    using x by (auto simp: execute_governed_action_def y d h execute_authorized_def Let_def split: if_splits option.splits prod.splits)
  then have "g_holds st' = save hold_key h (g_holds st)" "g_next st' = Suc ?n" "k = hold_id h"
    using f(3) by (simp_all add: record_approval_decision_def Let_def)
  then show ?thesis using f(1,2) by (intro exI[of _ ?n] exI[of _ h]) auto
qed

lemma manual_fresh:
  assumes x: "execute_governed_action a adapter st = (ManualRequired why k, st')" and "supply_ok st"
  shows "k \<notin> issued st" "k \<noteq> []" "k \<in> issued st'"
proof -
  have u: "g_uuid st' = g_uuid st" using execute_config[of st a adapter] unfolding x by (simp add: same_config_def)
  obtain n where n: "g_next st \<le> n" "n < g_next st'" "k = g_uuid st n" using manual_hold[OF x] by blast
  have i: "inj (g_uuid st)" and ne: "g_uuid st n \<noteq> []" using assms(2) by (simp_all add: supply_ok_def)
  show "k \<noteq> []" using ne n(3) by simp
  show "k \<notin> issued st"
  proof
    assume "k \<in> issued st"
    then obtain m where m: "m < g_next st" "k = g_uuid st m" by (auto simp: issued_def)
    have "n = m" by (rule injD[OF i]) (simp only: n(3)[symmetric] m(2)[symmetric])
    then show False using n(1) m(1) by simp
  qed
  have "g_uuid st n \<in> g_uuid st ` {..<g_next st'}" by (rule imageI) (simp add: n(2))
  then show "k \<in> issued st'" by (simp only: issued_def u n(3))
qed

lemma manual_expiry:
  assumes x: "execute_governed_action a adapter st = (ManualRequired why k, st')" and inv: "gov_inv st"
  shows "\<exists>h. get_hold k st' = Some h \<and> hold_expires_at h = Some (g_now st + approval_ttl)"
proof -
  obtain h where h: "hold_id h = k" "hold_expires_at h = Some (g_now st + approval_ttl)" "g_holds st' = save hold_key h (g_holds st)"
    using manual_hold[OF x] by blast
  have "supply_ok st" using inv by (simp add: gov_inv_def)
  then have "k \<notin> issued st" by (rule manual_fresh(1)[OF x])
  then have "k \<notin> hold_id ` set (mem (g_holds st))" using inv_ids(1)[OF inv] by blast
  then have "get_hold k st = None" by (auto simp: get_hold_def get_by_def find_None)
  then show ?thesis using h(1,2) unfolding get_hold_def h(3) get_by_save by simp
qed

section \<open>The entry of a hold stays while it is fresh\<close>

definition behind :: "ident \<Rightarrow> hold_provenance \<Rightarrow> 'w agent \<Rightarrow> bool" where
  "behind k v s \<longleftrightarrow> table_get hp_approval k (ag_provenance s) = Some v \<and> ag_now s - hp_recorded v \<le> provenance_max_age"

lemma find_filter: "find P xs = Some x \<Longrightarrow> Q x \<Longrightarrow> find P (filter Q xs) = Some x"
  by (induction xs) (auto split: if_splits)

lemma behind_get: "behind k v s \<Longrightarrow> behind k v (snd (get_hold_provenance j s))"
proof -
  assume b: "behind k v s"
  have "table_get hp_approval k (filter (\<lambda>x. hp_approval x \<noteq> j) (ag_provenance s)) = Some v" if "j \<noteq> k"
    using b that table_get_key[of hp_approval k "ag_provenance s" v]
    by (auto simp: behind_def table_get_def intro: find_filter)
  then show ?thesis using b by (cases "j = k") (auto simp: behind_def get_hold_provenance_def split: option.split)
qed

lemma behind_check: "behind k v s \<Longrightarrow> behind k v (snd (check_separation cfg j who s))"
  using behind_get[of k v s j] by (auto simp: check_separation_def split: option.split prod.split)

lemma behind_record: "behind k v s \<Longrightarrow> j \<noteq> k \<Longrightarrow> behind k v (record_hold_provenance (Some j) g b i s)"
  by (auto simp: behind_def record_hold_provenance_def or_str_def provenance_table.get_put)
    (simp add: table_get_def find_filter)

lemma behind_frame: "behind k v s \<Longrightarrow> ag_provenance s' = ag_provenance s \<Longrightarrow> ag_now s' = ag_now s \<Longrightarrow> behind k v s'"
  by (simp add: behind_def)

lemma behind_holds: "behind k v s \<Longrightarrow> behind k v (snd (open_holds hs s))"
proof (induction hs arbitrary: s)
  case (Cons h hs)
  have "behind k v (snd (open_hold_view h s))"
    using behind_get[OF Cons.prems, of "hold_id h"] by (simp add: open_hold_view_def Let_def split: prod.split) (metis snd_conv)
  then show ?case using Cons.IH Cons.prems by (simp add: split_beta)
qed simp

lemma behind_chain: "behind k v s \<Longrightarrow> behind k v (snd (chain_provenance hs s))"
proof (induction hs arbitrary: s)
  case (Cons h hs)
  then show ?case using behind_get[OF Cons.prems, of "hold_id h"] by (simp add: split_beta)
qed simp

lemma behind_evidence: "behind k v s \<Longrightarrow> behind k v (snd (evidence_chain a p e s))"
  by (simp add: evidence_chain_def assemble_def Let_def split_beta behind_chain)

section \<open>Proposals\<close>

lemma behind_verdict:
  assumes v: "governed_verdict P p r adapter ov s = Some (ao, s')" and "behind k v s"
    and other: "ov_status ov = ''manual_approval_required'' \<Longrightarrow> ov_approval_id ov \<noteq> Some k"
  shows "table_get hp_approval k (ag_provenance s') = Some v"
proof -
  define t where "t = (if ov_status ov \<in> {''executed'', ''manual_approval_required''} \<and> ap_grant p \<noteq> None
      then snd (consume_grant (the (ap_grant p)) s) else s)"
  have t: "behind k v t" using assms(2) by (simp add: t_def behind_def)
  show ?thesis
  proof (cases "ov_status ov = ''manual_approval_required''")
    case True
    then obtain ao0 where "agent_held p ao0 ov t = (ao, s')" using v by (simp add: governed_verdict_def Let_def t_def)
    then have "ag_provenance s' = ag_provenance (record_hold_provenance (ov_approval_id ov) (ap_grant p)
        (case ap_grant p of None \<Rightarrow> None | Some j \<Rightarrow> map_option gr_by (get_grant j t)) (Some (ap_agent p)) t)"
      by (auto simp: agent_held_def Let_def)
    moreover have "behind k v (record_hold_provenance (ov_approval_id ov) g b i t)" for g b i
      using t other[OF True] by (cases "ov_approval_id ov") (auto simp: record_hold_provenance_def[of None] or_str_def intro: behind_record)
    ultimately show ?thesis by (simp add: behind_def)
  next
    case False
    then have "ag_provenance s' = ag_provenance t"
      using v by (auto simp: governed_verdict_def Let_def t_def agent_executed_def agent_learn_def
          split: if_splits option.splits prod.splits)
    then show ?thesis using t by (simp add: behind_def)
  qed
qed

lemma held_outcome:
  "outcome_dict a adapter out = Some ov \<Longrightarrow> ov_status ov = ''manual_approval_required'' \<Longrightarrow>
     \<exists>why j. out = ManualRequired why j \<and> ov_approval_id ov = Some j"
  by (cases out) (auto simp: outcome_dict_def plain_view_def executed_view_def)

lemma behind_propose:
  assumes run: "propose_and_govern P cfg p s = Some (ao, s')" and b: "behind k v s"
    and sup: "supply_ok (ag_gov s)" and k: "k \<in> issued (ag_gov s)"
  shows "table_get hp_approval k (ag_provenance s') = Some v"
proof -
  obtain r t where r: "resolve_proposal cfg p s = (r, t)" by fastforce
  note rf = resolve_proposal_frame[OF r]
  have bt: "behind k v t" by (rule behind_frame[OF b]) (simp_all add: rf)
  have kt: "supply_ok (ag_gov t)" "k \<in> issued (ag_gov t)"
    using later_issued[OF later_moves[OF moves_resolve[OF r]] sup] k by auto
  let ?a = "context_adapter (ap_context p) (ag_home t)"
  obtain out g where e: "execute_governed_action (rs_action r) ?a (ag_gov t) = (out, g)" by fastforce
  have "g_now g = ag_now t" using execute_config[of "ag_gov t" "rs_action r" ?a] e by (simp add: same_config_def)
  then have bg: "behind k v (agent_with_gov g t)" using bt by (simp add: behind_def)
  have other: "ov_approval_id ov \<noteq> Some k"
    if ov: "outcome_dict (rs_action r) ?a out = Some ov" "ov_status ov = ''manual_approval_required''" for ov
  proof -
    obtain why j where j: "out = ManualRequired why j" "ov_approval_id ov = Some j" using held_outcome[OF ov] by blast
    have "j \<notin> issued (ag_gov t)" by (rule manual_fresh(1)[OF e[unfolded j(1)] kt(1)])
    then show ?thesis using j(2) kt(2) by auto
  qed
  consider "s' = s" | "s' = t" | "s' = agent_with_gov g t"
    | ov where "outcome_dict (rs_action r) ?a out = Some ov" "governed_verdict P p r ?a ov (agent_with_gov g t) = Some (ao, s')"
    using run by (auto simp: propose_and_govern_def r e Let_def split: if_splits option.splits)
  then show ?thesis
  proof cases
    case 4
    show ?thesis by (rule behind_verdict[OF 4(2) bg other[OF 4(1)]])
  qed (use b bt bg in \<open>simp_all add: behind_def\<close>)
qed

section \<open>Requests and cycles\<close>

lemma route_provenance:
  "route_execute P oper tg im who s = Some (x, s') \<Longrightarrow> ag_provenance s' = ag_provenance s"
  "route_remediate P c s = Some (x, s') \<Longrightarrow> ag_provenance s' = ag_provenance s"
  "ag_provenance (snd (route_grant cfg oper tg ttl who s)) = ag_provenance s"
  "ag_provenance (snd (route_preview cfg b s)) = ag_provenance s"
proof -
  show "route_execute P oper tg im who s = Some (x, s') \<Longrightarrow> ag_provenance s' = ag_provenance s"
    by (auto simp: route_execute_def Let_def split: option.splits prod.splits)
  show "route_remediate P c s = Some (x, s') \<Longrightarrow> ag_provenance s' = ag_provenance s"
    by (auto simp: route_remediate_def Let_def split: option.splits prod.splits sum.splits)
  show "ag_provenance (snd (route_grant cfg oper tg ttl who s)) = ag_provenance s"
    by (simp add: route_grant_def grant_authority_def fresh_id_def Let_def)
  have res: "ag_provenance s1 = ag_provenance s" if "resolve_proposal cfg p s = (r, s1)" for p r s1
    using resolve_proposal_frame(2)[OF that] .
  show "ag_provenance (snd (route_preview cfg b s)) = ag_provenance s"
    by (auto simp: route_preview_def preview_proposal_def Let_def res split: option.split prod.split sum.split assess_error.split)
qed

lemma approve_provenance:
  "ag_provenance (snd (route_approve cfg j ok who s)) = ag_provenance (snd (check_separation cfg j who s))"
  "route_homelab_approve P cfg j ok who s = Some (x, s') \<Longrightarrow> ag_provenance s' = ag_provenance (snd (check_separation cfg j who s))"
proof -
  obtain b why s1 where c: "check_separation cfg j who s = ((b, why), s1)" by (metis prod.exhaust)
  show "ag_provenance (snd (route_approve cfg j ok who s)) = ag_provenance (snd (check_separation cfg j who s))"
    by (cases b) (auto simp: route_approve_def c Let_def split: option.split prod.split)
  show "route_homelab_approve P cfg j ok who s = Some (x, s') \<Longrightarrow> ag_provenance s' = ag_provenance (snd (check_separation cfg j who s))"
    by (cases b) (auto simp: route_homelab_approve_def c split: option.splits prod.splits sum.splits)
qed

lemma view_provenance:
  "ag_provenance (snd (route_evidence D a p e s)) \<in> {ag_provenance s, ag_provenance (snd (evidence_chain a p e s))}"
  "ag_provenance (snd (route_export D a p e s)) \<in> {ag_provenance s, ag_provenance (snd (evidence_chain a p e s))}"
  by (auto simp: route_evidence_def route_export_def export_bundle_def Let_def split_beta split: option.split)

abbreviation entry_kept :: "ident \<Rightarrow> hold_provenance \<Rightarrow> 'w server \<Rightarrow> bool" where
  "entry_kept k v s \<equiv> table_get hp_approval k (sv_provenance s) = Some v"

lemma dispatch_entry:
  assumes d: "dispatch D who r s = Some (x, s')" and b: "behind k v (agent_of s)"
    and sup: "supply_ok (sv_gov s)" and k: "k \<in> issued (sv_gov s)"
  shows "entry_kept k v s'"
proof -
  have e: "table_get hp_approval k (ag_provenance t) = Some v" if "behind k v t" for t :: "'a agent" using that by (simp add: behind_def)
  note e0 = e[OF b, simplified] and ec = e[OF behind_check[OF b]] and ev = e[OF behind_evidence[OF b]]
  show ?thesis
  proof (cases r)
    case (PostExecute oper tg im)
    then show ?thesis using d e0 by (auto simp: on_agent_opt_def dest!: route_provenance(1))
  next
    case (PostApprove j ok)
    then show ?thesis using d ec by (auto simp: on_agent_def approve_provenance)
  next
    case (PostHomelabApprove j ok)
    then show ?thesis using d ec by (auto simp: on_agent_opt_def dest!: approve_provenance(2))
  next
    case (PostRemediate c)
    then show ?thesis using d e0 by (auto simp: on_agent_opt_def dest!: route_provenance(2))
  next
    case (PostGrant oper tg ttl)
    then show ?thesis using d e0 by (auto simp: on_agent_def route_provenance)
  next
    case (PostAct body)
    then show ?thesis using d e0 behind_propose[OF _ b] sup k
      by (auto simp: route_act_def split: option.splits)
  next
    case (PostPreview body)
    then show ?thesis using d e0 by (auto simp: on_agent_def route_provenance)
  next
    case GetHolds
    then show ?thesis using d e[OF behind_holds[OF b]] by (auto simp: on_agent_def open_holds_view_def)
  next
    case (GetEvidence a p i)
    then show ?thesis using d e0 ev view_provenance(1)[of D a p i "agent_of s"] by (auto simp: on_agent_def)
  next
    case (GetExport a p i)
    then show ?thesis using d e0 ev view_provenance(2)[of D a p i "agent_of s"] by (auto simp: on_agent_def)
  qed (use d e0 in \<open>auto simp: on_loop_def\<close>)
qed

lemma process_entry:
  assumes "process_step D s s'" and "behind k v (agent_of s)" and "supply_ok (sv_gov s)" and "k \<in> issued (sv_gov s)"
  shows "entry_kept k v s'"
  using assms
proof (cases rule: process_step.cases)
  case (proc_request P c r x)
  then show ?thesis
  proof (cases rule: handle_cases)
    case (served who hits)
    show ?thesis by (rule dispatch_entry[OF served(1), of k v]) (use assms(2-4) in \<open>simp_all add: agent_of_def\<close>)
  qed (use assms(2) in \<open>auto simp: behind_def\<close>)
qed (use assms(2) in \<open>auto simp: behind_def background_cycle_def advance_def Let_def split: if_splits\<close>)

text \<open>Over a run of the process: the entry is there, or an hour has passed.\<close>

lemma process_keeps:
  assumes "process_run D s s'" and "behind k v (agent_of s)" and "supply_ok (sv_gov s)" and "k \<in> issued (sv_gov s)"
  shows "behind k v (agent_of s') \<or> provenance_max_age < ag_now (agent_of s') - hp_recorded v"
  using assms(1)
proof (induction rule: rtranclp_induct)
  case base
  then show ?case using assms(2) by simp
next
  case (step s1 s2)
  have l: "later (sv_gov s) (sv_gov s1)" "later (sv_gov s1) (sv_gov s2)"
    using later_moves[OF moves_process_run[OF step.hyps(1)]] later_moves[OF moves_process_step[OF step.hyps(2)]] .
  have ok: "supply_ok (sv_gov s1)" "k \<in> issued (sv_gov s1)" using later_issued[OF l(1) assms(3)] assms(4) by auto
  show ?case
  proof (cases "behind k v (agent_of s1)")
    case True
    have "entry_kept k v s2" by (rule process_entry[OF step.hyps(2) True ok])
    then show ?thesis by (auto simp: behind_def)
  next
    case False
    then show ?thesis using step.IH l(2) by (auto simp: later_def)
  qed
qed

section \<open>The hold of a proposal\<close>

lemma hold_moves:
  assumes "gov_moves st st'" and "gov_inv st" and "get_hold k st = Some h"
  shows "gov_inv st' \<and> (\<exists>h'. get_hold k st' = Some h' \<and> hold_expires_at h' = hold_expires_at h)"
  using assms
proof (induction rule: rtranclp_induct)
  case (step st1 st2)
  then obtain h1 where h1: "get_hold k st1 = Some h1" "hold_expires_at h1 = hold_expires_at h" "gov_inv st1" by blast
  show ?case using hold_step[OF step.hyps(2) h1(3,1)] h1(2) step_inv[OF step.hyps(2) h1(3)] by auto
qed blast

lemma held_propose:
  assumes run: "propose_and_govern P cfg p s = Some (ao, s')" and k: "ao_approval_id ao = Some k" and inv: "gov_inv (ag_gov s)"
  shows "k \<noteq> [] \<and> k \<in> issued (ag_gov s') \<and>
     (\<exists>h. get_hold k (ag_gov s') = Some h \<and> hold_expires_at h = Some (ag_now s + approval_ttl))"
proof -
  obtain r t where r: "resolve_proposal cfg p s = (r, t)" by fastforce
  note rf = resolve_proposal_frame[OF r]
  have inv_t: "gov_inv (ag_gov t)" using moves_resolve[OF r] inv by (induction rule: rtranclp_induct) (auto intro: step_inv)
  then have sup: "supply_ok (ag_gov t)" by (simp add: gov_inv_def)
  let ?a = "context_adapter (ap_context p) (ag_home t)"
  obtain out g where e: "execute_governed_action (rs_action r) ?a (ag_gov t) = (out, g)" by fastforce
  obtain ov where ov: "outcome_dict (rs_action r) ?a out = Some ov"
    and v: "governed_verdict P p r ?a ov (agent_with_gov g t) = Some (ao, s')"
    using run k by (auto simp: propose_and_govern_def r e agent_verdict_def Let_def split: if_splits option.splits)
  have held: "ov_status ov = ''manual_approval_required'' \<and> ov_approval_id ov = Some k \<and> ag_gov s' = g"
    using v k by (auto simp: governed_verdict_def Let_def agent_held_def agent_executed_def agent_learn_def agent_verdict_def
        split: if_splits option.splits prod.splits)
  then obtain why where m: "out = ManualRequired why k" using held_outcome[OF ov] by auto
  show ?thesis
    using manual_fresh(2,3)[OF e[unfolded m] sup] manual_expiry[OF e[unfolded m] inv_t] held rf(3) by simp
qed

text \<open>An approval of a hold past its time executes nothing.\<close>

definition nothing_released :: "answer_to \<Rightarrow> 'w server \<Rightarrow> 'w server \<Rightarrow> bool" where
  "nothing_released x s s' \<longleftrightarrow>
     (\<exists>ov. x = Ok200 (Outcome ov) \<and> ov_status ov \<in> {''approval_expired'', ''approval_already_resolved''}) \<and>
     g_world (sv_gov s') = g_world (sv_gov s) \<and> g_auths (sv_gov s') = g_auths (sv_gov s) \<and>
     g_audits (sv_gov s') = g_audits (sv_gov s) \<and> g_records (sv_gov s') = g_records (sv_gov s)"

lemma lapsed_approval:
  assumes "get_hold k st = Some h" and "expired (hold_expires_at h) (g_now st)" and "approve_held_action k who ok st = (out, st')"
  shows "(\<exists>ov. approval_dict k out = Some ov \<and> ov_status ov \<in> {''approval_expired'', ''approval_already_resolved''}) \<and>
     g_world st' = g_world st \<and> g_auths st' = g_auths st \<and> g_audits st' = g_audits st \<and> g_records st' = g_records st"
  using assms by (auto simp: approve_held_action_def approval_dict_def plain_view_def set_hold_def split: if_splits)

lemma lapsed_routes:
  assumes h: "get_hold k (sv_gov s) = Some h" "expired (hold_expires_at h) (g_now (sv_gov s))"
  shows "(\<exists>x s'. dispatch D who (PostApprove k ok) s = Some (x, s') \<and> (nothing_released x s s' \<or> (\<exists>why. x = Forbidden403 why \<and> sv_gov s' = sv_gov s))) \<and>
     (\<exists>x s'. dispatch D who (PostHomelabApprove k ok) s = Some (x, s') \<and> (nothing_released x s s' \<or> (\<exists>why. x = Forbidden403 why \<and> sv_gov s' = sv_gov s)))"
proof -
  obtain b why s1 where c: "check_separation (dp_agent D) k who (agent_of s) = ((b, why), s1)" by (metis prod.exhaust)
  have home: "ag_home s1 = lp_home (sv_loop s)" using separation_home[OF c] by simp
  obtain out g where g: "approve_held_action k who ok (sv_gov s) = (out, g)" by fastforce
  obtain ov where ov: "approval_dict k out = Some ov" "ov_status ov \<in> {''approval_expired'', ''approval_already_resolved''}"
    and same: "g_world g = g_world (sv_gov s)" "g_auths g = g_auths (sv_gov s)" "g_audits g = g_audits (sv_gov s)"
      "g_records g = g_records (sv_gov s)"
    using lapsed_approval[OF h g] by blast
  have quiet: "\<not> is_failed_attempt ov" "\<not> ran ov a" for a using ov(2) by (auto simp: is_failed_attempt_def ran_def)
  have rec: "snd (record_failed_execution_evidence ov e st) = st" for e and st :: "'a gov"
    using quiet(1) by (simp add: record_failed_execution_evidence_def)
  have cont: "continue_remediation (dp_probes D) k who ok (lp_home (sv_loop s)) = Some (Inr ov, with_gov g (lp_home (sv_loop s)))"
    using h(1) quiet(2) by (simp add: continue_remediation_def g ov(1) Let_def)
  show ?thesis
  proof (cases b)
    case True
    have "route_approve (dp_agent D) k ok who (agent_of s) = (Ok200 (Outcome ov), agent_with_gov g s1)"
      using True by (simp add: route_approve_def c home g ov(1) rec)
    moreover have "route_homelab_approve (dp_probes D) (dp_agent D) k ok who (agent_of s) =
        Some (Ok200 (Outcome ov), s1\<lparr>ag_home := with_gov g (lp_home (sv_loop s))\<rparr>)"
      using True by (simp add: route_homelab_approve_def c home cont rec with_gov_def)
    ultimately show ?thesis using ov(2) same by (auto simp: on_agent_def on_agent_opt_def nothing_released_def)
  next
    case False
    then have "route_approve (dp_agent D) k ok who (agent_of s) = (Forbidden403 (''separation of duties: '' @ why), s1)"
      "route_homelab_approve (dp_probes D) (dp_agent D) k ok who (agent_of s) = Some (Forbidden403 (''separation of duties: '' @ why), s1)"
      by (simp_all add: route_approve_def route_homelab_approve_def c)
    then show ?thesis using home by (auto simp: on_agent_def on_agent_opt_def)
  qed
qed

section \<open>Properties\<close>

text \<open>C10: The people behind a proposal cannot release its hold. Once a proposal of the agent route was
  held, then in every later state of the process, whatever requests, cycles of the loop and clock steps
  came between, and with separation of duties on, both approval routes refuse the agent that proposed it
  and the operator who granted its authority with a 403, and nothing changes; once the provenance entry
  is an hour old, the hold (which lives for five minutes) has lapsed, and their approval executes nothing,
  writes no record, authorization or audit. (The table is in memory: a restart forgets it. While the hold
  has not lapsed, the grantor can then approve, which is a finding of its own.)\<close>

theorem people_behind_a_proposal_cannot_approve:
  assumes reach: "gov_reachable (sv_gov s)"
    and act: "dispatch D w (PostAct b) s = Some (Ok200 (AgentReply ao), s1)" and held: "ao_approval_id ao = Some k"
    and run: "process_run D s1 s2" and sep: "ac_separation (dp_agent D)" and who: "who \<noteq> []"
    and people: "who = pb_agent b \<or> (\<exists>j g. pb_grant b = Some j \<and> get_grant j (agent_of s) = Some g \<and> gr_by g = who)"
  shows "if ag_now (agent_of s2) \<le> ag_now (agent_of s) + provenance_max_age
     then \<exists>why. dispatch D who (PostApprove k ok) s2 = Some (Forbidden403 why, s2) \<and>
       dispatch D who (PostHomelabApprove k ok) s2 = Some (Forbidden403 why, s2)
     else (\<exists>x s3. dispatch D who (PostApprove k ok) s2 = Some (x, s3) \<and>
         (nothing_released x s2 s3 \<or> (\<exists>why. x = Forbidden403 why \<and> sv_gov s3 = sv_gov s2))) \<and>
       (\<exists>x s3. dispatch D who (PostHomelabApprove k ok) s2 = Some (x, s3) \<and>
         (nothing_released x s2 s3 \<or> (\<exists>why. x = Forbidden403 why \<and> sv_gov s3 = sv_gov s2)))"
proof -
  obtain p a where pb: "proposal_from_body b = Some p" and pg: "propose_and_govern (dp_probes D) (dp_agent D) p (agent_of s) = Some (ao, a)"
    and s1: "s1 = (with_agent a s)\<lparr>sv_last := Some ao\<rparr>"
    using act by (auto simp: route_act_def split: option.splits)
  have p: "ap_agent p = pb_agent b" "ap_grant p = pb_grant b" using pb by (auto simp: proposal_from_body_def)
  have inv: "gov_inv (ag_gov (agent_of s))" using reachable_inv[OF reach] by simp
  have a: "agent_of s1 = a" "sv_gov s1 = ag_gov a" by (simp_all add: s1 agent_of_def)
  obtain h where k: "k \<noteq> []" "k \<in> issued (sv_gov s1)"
    and h: "get_hold k (sv_gov s1) = Some h" "hold_expires_at h = Some (ag_now (agent_of s) + approval_ttl)"
    using held_propose[OF pg held inv] a by auto
  let ?v = "\<lparr>hp_approval = k, hp_grant = ap_grant p,
       hp_granted_by = (case ap_grant p of None \<Rightarrow> None | Some j \<Rightarrow> map_option gr_by (get_grant j (agent_of s))),
       hp_agent = Some (ap_agent p), hp_recorded = ag_now (agent_of s)\<rparr>"
  have entry: "behind k ?v (agent_of s1)"
    using held_proposal_entry[OF pg held k(1)] by (simp add: behind_def a provenance_max_age_def)
  have inv1: "gov_inv (sv_gov s1)" using reachable_inv[OF moves_reachable[OF moves_propose[OF pg]]] reach a by simp
  then have sup: "supply_ok (sv_gov s1)" by (simp add: gov_inv_def)
  note m = moves_process_run[OF run]
  show ?thesis
  proof (cases "ag_now (agent_of s2) \<le> ag_now (agent_of s) + provenance_max_age")
    case True
    then have "behind k ?v (agent_of s2)" using process_keeps[OF run entry sup k(2)] by simp
    then have "get_hold_provenance k (agent_of s2) = (Some ?v, agent_of s2)"
      using k(1) by (simp add: behind_def get_hold_provenance_def)
    then have "\<exists>why. check_separation (dp_agent D) k who (agent_of s2) = ((False, why), agent_of s2)"
      using sep who people p by (auto simp: check_separation_def)
    then obtain why where "check_separation (dp_agent D) k who (agent_of s2) = ((False, why), agent_of s2)" by blast
    moreover have "with_agent (agent_of s2) s2 = s2" by (simp add: with_agent_def agent_of_def)
    ultimately show ?thesis using True
      by (simp add: route_approve_def route_homelab_approve_def on_agent_def on_agent_opt_def)
  next
    case False
    obtain h2 where h2: "get_hold k (sv_gov s2) = Some h2" "hold_expires_at h2 = hold_expires_at h"
      using hold_moves[OF m inv1 h(1)] by blast
    have "expired (hold_expires_at h2) (g_now (sv_gov s2))"
      using False h(2) h2(2) by (simp add: expired_def provenance_max_age_def approval_ttl_def)
    then show ?thesis using lapsed_routes[OF h2(1)] False by simp
  qed
qed

lemma people_behind_a_proposal_cannot_approve_witness:
  "\<exists>ao s1 k why. dispatch sample_deployment ''alice'' (PostAct sample_body) sample_server = Some (Ok200 (AgentReply ao), s1) \<and>
     ao_approval_id ao = Some k \<and> (let s2 = advance (seconds 60) s1 in
       dispatch sample_deployment ''alice'' (PostApprove k True) s2 = Some (Forbidden403 why, s2))"
proof -
  let ?P = "dp_probes sample_deployment"
  obtain ao a k where p: "propose_and_govern ?P sample_agent_config sample_proposal sample_agent = Some (ao, a)"
    "ao_approval_id ao = Some k" "k \<noteq> []" using sample_held_proposal[of ?P] by blast
  have now: "ag_now a = ag_now sample_agent" using held_proposal_entry[OF p] by simp
  have cfg: "dp_agent sample_deployment = sample_agent_config" by (simp add: sample_deployment_def)
  have ag: "agent_of sample_server = sample_agent" using sample_agent_of[of "sv_hits sample_server"] by simp
  let ?s1 = "(with_agent a sample_server)\<lparr>sv_last := Some ao\<rparr>"
  have act: "dispatch sample_deployment ''alice'' (PostAct sample_body) sample_server = Some (Ok200 (AgentReply ao), ?s1)"
    using p(1) by (simp add: route_act_def sample_body cfg ag)
  have run: "process_run sample_deployment ?s1 (advance (seconds 60) ?s1)"
    by (rule r_into_rtranclp, rule proc_advance) simp
  have sep: "ac_separation (dp_agent sample_deployment)" by (simp add: cfg sample_agent_config_def)
  have people: "\<exists>j g. pb_grant sample_body = Some j \<and> get_grant j (agent_of sample_server) = Some g \<and> gr_by g = ''alice''"
    by (simp add: ag sample_agent_now sample_body_def sample_grant_def)
  have reach: "gov_reachable (sv_gov sample_server)"
    using sample_reachable by (simp add: sample_server_def sample_loop_def sample_home_def)
  have "ag_now (agent_of (advance (seconds 60) ?s1)) \<le> ag_now (agent_of sample_server) + provenance_max_age"
    using now by (simp add: advance_def provenance_max_age_def Let_def ag)
  then show ?thesis
    using people_behind_a_proposal_cannot_approve[OF reach act p(2) run sep _ disjI2[OF people], of True] act p(2) by auto
qed

end
