(* ===== verification/Spec2Isabelle.thy ===== *)
theory Spec2Isabelle
  imports Governance_Properties Budget_Properties Budget_Governance Homelab_Properties Ops_Properties
    Agent_Properties Evidence_Properties Operations_Properties Engineering_Properties Reasoning_Properties Llm_Properties Evolution_Properties Coding_Properties Platform_Health_Properties Adapter_Properties Evidence_Migration Separation_Runs
begin

text \<open>
  Verification library of the RMT platform backend.
\<close>

end
